(* ===== verification/Prelude.thy ===== *)
theory Prelude
  imports Complex_Main "HOL-Library.Char_ord"
begin

text \<open>
  What every component shares: JavaScript numbers and values, the string operations the
  source calls (trim, toLowerCase, split, startsWith, padStart, decimal printing), and the
  generic lemmas on lists and options behind the component proofs.

  Numbers.  A JavaScript number is an integer, a finite non-integer, an infinity or NaN.
  Finite arithmetic is exact (rationals): binary64 rounding is not modelled, so statements
  about sums and products are those of the numbers as written; integers below \<open>2^53\<close>
  are exact in binary64 anyway.  The sign of zero is not modelled.

  Strings.  A string is a list of code units, here limited to the Latin-1 range by Isabelle's
  \<open>char\<close>; trim and toLowerCase cover that whole range.
\<close>

named_theorems num_simps
  \<open>evaluation rules of the JavaScript number operations\<close>
named_theorems spec_simps
  \<open>small definitions that the component proofs unfold\<close>

section \<open>JavaScript numbers\<close>

text \<open>\<open>NReal\<close> holds a finite non-integer and is built by \<open>num_of_rat\<close> only.\<close>

datatype jsnum =
    NInt int
  | NReal rat
  | NPosInf
  | NNegInf
  | NNaN

definition num_of_rat :: "rat \<Rightarrow> jsnum" where
  "num_of_rat r = (if of_int \<lfloor>r\<rfloor> = r then NInt \<lfloor>r\<rfloor> else NReal r)"

fun rat_of_num :: "jsnum \<Rightarrow> rat" where
  "rat_of_num (NInt i) = of_int i"
| "rat_of_num (NReal r) = r"
| "rat_of_num _ = 0"

fun is_integer :: "jsnum \<Rightarrow> bool" where
  "is_integer (NInt _) = True"
| "is_integer _ = False"

fun is_finite_num :: "jsnum \<Rightarrow> bool" where
  "is_finite_num (NInt _) = True"
| "is_finite_num (NReal _) = True"
| "is_finite_num _ = False"

text \<open>The integer of a number that passed \<open>Number.isInteger\<close>.\<close>

fun int_of_num :: "jsnum \<Rightarrow> int" where
  "int_of_num (NInt i) = i"
| "int_of_num _ = 0"

text \<open>\<open>a < b\<close>: false as soon as one side is NaN.\<close>

fun js_lt :: "jsnum \<Rightarrow> jsnum \<Rightarrow> bool" where
  "js_lt NNaN b = False"
| "js_lt a NNaN = False"
| "js_lt NNegInf b = (b \<noteq> NNegInf)"
| "js_lt a NNegInf = False"
| "js_lt NPosInf b = False"
| "js_lt a NPosInf = True"
| "js_lt a b = (rat_of_num a < rat_of_num b)"

definition js_le :: "jsnum \<Rightarrow> jsnum \<Rightarrow> bool" where
  "js_le a b = (a \<noteq> NNaN \<and> b \<noteq> NNaN \<and> \<not> js_lt b a)"

fun js_neg :: "jsnum \<Rightarrow> jsnum" where
  "js_neg (NInt i) = NInt (- i)"
| "js_neg (NReal r) = NReal (- r)"
| "js_neg NPosInf = NNegInf"
| "js_neg NNegInf = NPosInf"
| "js_neg NNaN = NNaN"

fun js_add :: "jsnum \<Rightarrow> jsnum \<Rightarrow> jsnum" where
  "js_add NNaN b = NNaN"
| "js_add a NNaN = NNaN"
| "js_add NPosInf b = (if b = NNegInf then NNaN else NPosInf)"
| "js_add a NPosInf = (if a = NNegInf then NNaN else NPosInf)"
| "js_add NNegInf b = NNegInf"
| "js_add a NNegInf = NNegInf"
| "js_add (NInt a) (NInt b) = NInt (a + b)"
| "js_add a b = num_of_rat (rat_of_num a + rat_of_num b)"

definition js_sub :: "jsnum \<Rightarrow> jsnum \<Rightarrow> jsnum" where
  "js_sub a b = js_add a (js_neg b)"

definition js_sgn :: "jsnum \<Rightarrow> int" where
  "js_sgn a = (if js_lt (NInt 0) a then 1 else if js_lt a (NInt 0) then -1 else 0)"

fun js_mul :: "jsnum \<Rightarrow> jsnum \<Rightarrow> jsnum" where
  "js_mul (NInt a) (NInt b) = NInt (a * b)"
| "js_mul a b =
     (if a = NNaN \<or> b = NNaN then NNaN
      else if is_finite_num a \<and> is_finite_num b
           then num_of_rat (rat_of_num a * rat_of_num b)
      else if js_sgn a * js_sgn b > 0 then NPosInf
      else if js_sgn a * js_sgn b < 0 then NNegInf else NNaN)"

text \<open>Division by a non-zero finite constant, the only division the source performs on
  unchecked numbers.\<close>

definition js_div_const :: "jsnum \<Rightarrow> int \<Rightarrow> jsnum" where
  "js_div_const a d =
     (if is_finite_num a then num_of_rat (rat_of_num a / of_int d) else a)"

definition js_max :: "jsnum \<Rightarrow> jsnum \<Rightarrow> jsnum" where
  "js_max a b = (if a = NNaN \<or> b = NNaN then NNaN else if js_lt a b then b else a)"

definition js_min :: "jsnum \<Rightarrow> jsnum \<Rightarrow> jsnum" where
  "js_min a b = (if a = NNaN \<or> b = NNaN then NNaN else if js_lt b a then b else a)"

fun js_floor :: "jsnum \<Rightarrow> jsnum" where
  "js_floor (NReal r) = NInt \<lfloor>r\<rfloor>"
| "js_floor a = a"

fun js_ceil :: "jsnum \<Rightarrow> jsnum" where
  "js_ceil (NReal r) = NInt \<lceil>r\<rceil>"
| "js_ceil a = a"

text \<open>\<open>Math.trunc\<close>.\<close>

fun js_trunc :: "jsnum \<Rightarrow> jsnum" where
  "js_trunc (NReal r) = NInt (if r < 0 then \<lceil>r\<rceil> else \<lfloor>r\<rfloor>)"
| "js_trunc a = a"

lemma js_lt_int [simp, num_simps]: "js_lt (NInt a) (NInt b) \<longleftrightarrow> a < b"
  by simp

lemma js_le_int [simp, num_simps]: "js_le (NInt a) (NInt b) \<longleftrightarrow> a \<le> b"
  by (auto simp: js_le_def)

lemma js_sub_int [simp, num_simps]: "js_sub (NInt a) (NInt b) = NInt (a - b)"
  by (simp add: js_sub_def)

lemma js_max_int [simp, num_simps]: "js_max (NInt a) (NInt b) = NInt (max a b)"
  by (simp add: js_max_def max_def)

lemma js_min_int [simp, num_simps]: "js_min (NInt a) (NInt b) = NInt (min a b)"
  by (simp add: js_min_def min_def)

lemma is_integer_iff: "is_integer n \<longleftrightarrow> (\<exists>i. n = NInt i)"
  by (cases n) auto

lemma is_integerE [elim?]:
  assumes "is_integer n" obtains i where "n = NInt i"
  using assms by (cases n) auto

lemma int_of_num_NInt [simp]: "is_integer n \<Longrightarrow> NInt (int_of_num n) = n"
  by (cases n) auto

lemma num_of_rat_of_int [simp]: "num_of_rat (of_int i) = NInt i"
  by (simp add: num_of_rat_def)

lemma rat_of_num_num_of_rat [simp]: "rat_of_num (num_of_rat r) = r"
  by (simp add: num_of_rat_def)

lemma num_of_rat_finite [simp]: "is_finite_num (num_of_rat r)"
  by (simp add: num_of_rat_def)

lemma js_ceil_num_of_rat [simp, num_simps]: "js_ceil (num_of_rat r) = NInt \<lceil>r\<rceil>"
proof (cases "of_int \<lfloor>r\<rfloor> = r")
  case True
  then have "\<lceil>r\<rceil> = \<lfloor>r\<rfloor>" by (metis ceiling_of_int)
  then show ?thesis using True by (simp add: num_of_rat_def)
next
  case False
  then show ?thesis by (simp add: num_of_rat_def)
qed

lemma js_floor_num_of_rat [simp, num_simps]: "js_floor (num_of_rat r) = NInt \<lfloor>r\<rfloor>"
  by (simp add: num_of_rat_def)

section \<open>JavaScript values\<close>

text \<open>What \<open>JSON.parse\<close> can return, with undefined for an absent property.  Objects are
  association lists with the properties in insertion order; a lookup is by key.\<close>

datatype js =
    JUndef
  | JNull
  | JBool bool
  | JNum jsnum
  | JStr string
  | JArr "js list"
  | JObj "(string \<times> js) list"

fun js_get :: "js \<Rightarrow> string \<Rightarrow> js" where
  "js_get (JObj fs) k = (case map_of fs k of None \<Rightarrow> JUndef | Some v \<Rightarrow> v)"
| "js_get _ _ = JUndef"

fun is_str :: "js \<Rightarrow> bool" where
  "is_str (JStr _) = True"
| "is_str _ = False"

fun is_num :: "js \<Rightarrow> bool" where
  "is_num (JNum _) = True"
| "is_num _ = False"

fun str_of_js :: "js \<Rightarrow> string" where
  "str_of_js (JStr s) = s"
| "str_of_js _ = []"

fun num_of_js :: "js \<Rightarrow> jsnum" where
  "num_of_js (JNum n) = n"
| "num_of_js _ = NNaN"

text \<open>Truthiness, as in \<open>if (v)\<close> and \<open>!v\<close>.\<close>

fun js_truthy :: "js \<Rightarrow> bool" where
  "js_truthy JUndef = False"
| "js_truthy JNull = False"
| "js_truthy (JBool b) = b"
| "js_truthy (JNum n) = (n \<noteq> NInt 0 \<and> n \<noteq> NNaN)"
| "js_truthy (JStr s) = (s \<noteq> [])"
| "js_truthy (JArr _) = True"
| "js_truthy (JObj _) = True"

text \<open>\<open>typeof v === 'object' && v !== null && !Array.isArray(v)\<close>.\<close>

fun is_plain_obj :: "js \<Rightarrow> bool" where
  "is_plain_obj (JObj _) = True"
| "is_plain_obj _ = False"

text \<open>\<open>typeof v === 'object' && v !== null\<close>: an object or an array.\<close>

fun typeof_object :: "js \<Rightarrow> bool" where
  "typeof_object (JObj _) = True"
| "typeof_object (JArr _) = True"
| "typeof_object _ = False"

lemma size_js_get: "typeof_object (js_get v k) \<Longrightarrow> size (js_get v k) < size v"
proof -
  assume ob: "typeof_object (js_get v k)"
  then obtain fs where v: "v = JObj fs" by (cases v) auto
  then obtain x where x: "map_of fs k = Some x" "js_get v k = x"
    using ob by (cases "map_of fs k") auto
  then have "(k, x) \<in> set fs" by (simp add: map_of_SomeD)
  then have "size x < Suc (size_list (size_prod (\<lambda>x. 0) size) fs)"
  proof (induction fs)
    case (Cons f fs)
    then show ?case by (cases f) fastforce
  qed simp
  then show ?thesis using v x(2) by simp
qed

section \<open>Strings\<close>

definition ord_of :: "char \<Rightarrow> nat" where
  "ord_of c = of_char c"

text \<open>White space of \<open>String.prototype.trim\<close> in the Latin-1 range.\<close>

definition is_js_space :: "char \<Rightarrow> bool" where
  "is_js_space c = (let n = ord_of c in (9 \<le> n \<and> n \<le> 13) \<or> n = 32 \<or> n = 160)"

definition js_trim :: "string \<Rightarrow> string" where
  "js_trim s = rev (dropWhile is_js_space (rev (dropWhile is_js_space s)))"

definition lower_char :: "char \<Rightarrow> char" where
  "lower_char c = (let n = ord_of c in
     if (65 \<le> n \<and> n \<le> 90) \<or> (192 \<le> n \<and> n \<le> 222 \<and> n \<noteq> 215)
     then char_of (n + 32) else c)"

definition js_lower :: "string \<Rightarrow> string" where
  "js_lower s = List.map lower_char s"

text \<open>\<open>s.split(c)\<close> for a one-character separator: never empty.\<close>

fun split_on :: "char \<Rightarrow> string \<Rightarrow> string list" where
  "split_on c [] = [[]]"
| "split_on c (x # xs) =
     (if x = c then [] # split_on c xs
      else (case split_on c xs of [] \<Rightarrow> [[x]] | p # ps \<Rightarrow> (x # p) # ps))"

fun join_with :: "string \<Rightarrow> string list \<Rightarrow> string" where
  "join_with sep [] = []"
| "join_with sep [s] = s"
| "join_with sep (s # t # ss) = s @ sep @ join_with sep (t # ss)"

definition starts_with :: "string \<Rightarrow> string \<Rightarrow> bool" where
  "starts_with pre s = (take (length pre) s = pre)"

definition ends_with :: "string \<Rightarrow> string \<Rightarrow> bool" where
  "ends_with suf s = starts_with (rev suf) (rev s)"

text \<open>\<open>s.indexOf(p)\<close>, as an option.\<close>

fun index_of :: "string \<Rightarrow> string \<Rightarrow> nat option" where
  "index_of p [] = (if p = [] then Some 0 else None)"
| "index_of p (x # xs) =
     (if starts_with p (x # xs) then Some 0 else map_option Suc (index_of p xs))"

definition contains_str :: "string \<Rightarrow> string \<Rightarrow> bool" where
  "contains_str p s = (index_of p s \<noteq> None)"

definition is_digit_char :: "char \<Rightarrow> bool" where
  "is_digit_char c = (48 \<le> ord_of c \<and> ord_of c \<le> 57)"

definition digit_val :: "char \<Rightarrow> nat" where
  "digit_val c = ord_of c - 48"

definition digit_char :: "nat \<Rightarrow> char" where
  "digit_char d = char_of (48 + d)"

definition nat_of_dec :: "string \<Rightarrow> nat" where
  "nat_of_dec s = foldl (\<lambda>n c. 10 * n + digit_val c) 0 s"

fun dec_of_nat :: "nat \<Rightarrow> string" where
  "dec_of_nat n = (if n < 10 then [digit_char n]
                   else dec_of_nat (n div 10) @ [digit_char (n mod 10)])"

declare dec_of_nat.simps [simp del]

definition dec_of_int :: "int \<Rightarrow> string" where
  "dec_of_int i = (if i < 0 then CHR ''-'' # dec_of_nat (nat (- i)) else dec_of_nat (nat i))"

text \<open>\<open>s.padStart(n, '0')\<close>.\<close>

definition pad_zero :: "nat \<Rightarrow> string \<Rightarrow> string" where
  "pad_zero n s = replicate (n - length s) CHR ''0'' @ s"

lemma split_on_not_Nil [simp]: "split_on c s \<noteq> []"
  by (induction s) (auto split: list.splits)

lemma split_on_length: "length (split_on c s) = Suc (count_list s c)"
  by (induction s) (auto split: list.splits)

lemma split_on_no_sep: "c \<notin> set s \<Longrightarrow> split_on c s = [s]"
  by (induction s) auto

lemma split_on_parts: "p \<in> set (split_on c s) \<Longrightarrow> c \<notin> set p"
  by (induction s arbitrary: p) (auto split: list.splits if_splits)

lemma split_on_append_sep:
  "split_on c (a @ c # b) = split_on c a @ split_on c b"
proof (induction a)
  case (Cons x a)
  then show ?case by (cases "split_on c a") auto
qed simp

lemma join_split: "join_with [c] (split_on c s) = s"
proof (induction s)
  case (Cons x s)
  then show ?case by (cases "split_on c s" rule: list.exhaust; cases "tl (split_on c s)") auto
qed simp

lemma starts_with_append [simp]: "starts_with p (p @ s)"
  by (simp add: starts_with_def)

lemma starts_with_iff: "starts_with p s \<longleftrightarrow> (\<exists>t. s = p @ t)"
  by (metis append_eq_conv_conj append_take_drop_id starts_with_def)

lemma starts_with_Nil [simp]: "starts_with [] s"
  by (simp add: starts_with_def)

lemma digit_char_simps [simp]:
  "d < 10 \<Longrightarrow> is_digit_char (digit_char d)"
  "d < 10 \<Longrightarrow> digit_val (digit_char d) = d"
  by (simp_all add: is_digit_char_def digit_char_def digit_val_def ord_of_def)

lemma nat_of_dec_append: "nat_of_dec (s @ [c]) = 10 * nat_of_dec s + digit_val c"
  by (simp add: nat_of_dec_def)

lemma nat_of_dec_zeros: "nat_of_dec (replicate n CHR ''0'' @ s) = nat_of_dec s"
proof (induction n)
  case (Suc n)
  moreover have "nat_of_dec (CHR ''0'' # u) = nat_of_dec u" for u
    by (simp add: nat_of_dec_def digit_val_def ord_of_def)
  ultimately show ?case by simp
qed simp

lemma nat_of_dec_of_nat [simp]: "nat_of_dec (dec_of_nat n) = n"
proof (induction n rule: dec_of_nat.induct)
  case (1 n)
  show ?case
  proof (cases "n < 10")
    case True
    then show ?thesis by (subst dec_of_nat.simps) (simp add: nat_of_dec_def)
  next
    case False
    with 1 show ?thesis by (subst dec_of_nat.simps) (simp add: nat_of_dec_append)
  qed
qed

lemma dec_of_nat_inj [simp]: "dec_of_nat m = dec_of_nat n \<longleftrightarrow> m = n"
  by (metis nat_of_dec_of_nat)

lemma dec_of_nat_digits: "c \<in> set (dec_of_nat n) \<Longrightarrow> is_digit_char c"
proof (induction n rule: dec_of_nat.induct)
  case (1 n)
  show ?case
  proof (cases "n < 10")
    case True
    with 1(2) show ?thesis by (subst (asm) dec_of_nat.simps) simp
  next
    case False
    with 1(2) have "c \<in> set (dec_of_nat (n div 10)) \<or> c = digit_char (n mod 10)"
      by (subst (asm) dec_of_nat.simps) auto
    with 1(1) False show ?thesis by auto
  qed
qed

lemma dec_of_nat_not_Nil [simp]: "dec_of_nat n \<noteq> []"
  by (subst dec_of_nat.simps) simp

end
