(* ===== verification/Plans.thy ===== *)
theory Plans
  imports Prelude
begin

text \<open>
  src/src/plans.ts: a stored plan row becomes a usable plan or is refused, and the output cap
  of one request.  The row's numbers are JavaScript numbers, since an INTEGER column of SQLite
  can hold a REAL and the code checks each of them; a refusal is modelled by the field that
  caused it.
\<close>

datatype model_tier = Standard | Premium

text \<open>Tiers are ordered by what they cost: the order the class instance gives.\<close>

instantiation model_tier :: linorder
begin

definition less_eq_model_tier :: "model_tier \<Rightarrow> model_tier \<Rightarrow> bool" where
  "less_eq_model_tier a b = (a = Standard \<or> b = Premium)"

definition less_model_tier :: "model_tier \<Rightarrow> model_tier \<Rightarrow> bool" where
  "less_model_tier a b = (a = Standard \<and> b = Premium)"

instance
proof
  fix x y z :: model_tier
  show "(x < y) = (x \<le> y \<and> \<not> y \<le> x)"
    by (cases x; cases y) (simp_all add: less_eq_model_tier_def less_model_tier_def)
  show "x \<le> x" by (cases x) (simp_all add: less_eq_model_tier_def)
  show "x \<le> y \<Longrightarrow> y \<le> z \<Longrightarrow> x \<le> z"
    by (cases x; cases y; cases z) (simp_all add: less_eq_model_tier_def)
  show "x \<le> y \<Longrightarrow> y \<le> x \<Longrightarrow> x = y"
    by (cases x; cases y) (simp_all add: less_eq_model_tier_def)
  show "x \<le> y \<or> y \<le> x"
    by (cases x; cases y) (simp_all add: less_eq_model_tier_def)
qed

end

record plan_row =
  pr_id                  :: string
  pr_name                :: string
  pr_signup_credit       :: jsnum
  pr_monthly_included    :: jsnum
  pr_requests_per_minute :: jsnum
  pr_max_output_tokens   :: jsnum
  pr_allowed_tiers       :: string

record plan =
  plan_id                  :: string
  plan_name                :: string
  plan_signup_credit       :: int
  plan_monthly_included    :: int
  plan_requests_per_minute :: int
  plan_max_output_tokens   :: int
  plan_allowed_tiers       :: "model_tier list"

datatype plan_field = SignupCredit | MonthlyIncludedField | RequestsPerMinute | MaxOutputTokens

fun tier_name :: "model_tier \<Rightarrow> string" where
  "tier_name Standard = ''standard''"
| "tier_name Premium = ''premium''"

definition tier_of_name :: "string \<Rightarrow> model_tier option" where
  "tier_of_name s = (if s = ''standard'' then Some Standard
                     else if s = ''premium'' then Some Premium else None)"

definition parse_tiers :: "string \<Rightarrow> model_tier list" where
  "parse_tiers raw =
     List.map_filter tier_of_name (List.map (\<lambda>part. js_lower (js_trim part)) (split_on CHR '','' raw))"

definition plan_from_row :: "plan_row \<Rightarrow> plan_field + plan" where
  "plan_from_row row =
     (if \<not> is_integer (pr_signup_credit row) \<or> js_lt (pr_signup_credit row) (NInt 0)
      then Inl SignupCredit
      else if \<not> is_integer (pr_monthly_included row) \<or> js_lt (pr_monthly_included row) (NInt 0)
      then Inl MonthlyIncludedField
      else if \<not> is_integer (pr_requests_per_minute row)
              \<or> js_le (pr_requests_per_minute row) (NInt 0)
      then Inl RequestsPerMinute
      else if \<not> is_integer (pr_max_output_tokens row) \<or> js_le (pr_max_output_tokens row) (NInt 0)
      then Inl MaxOutputTokens
      else Inr
        \<lparr>plan_id = pr_id row, plan_name = pr_name row,
         plan_signup_credit = int_of_num (pr_signup_credit row),
         plan_monthly_included = int_of_num (pr_monthly_included row),
         plan_requests_per_minute = int_of_num (pr_requests_per_minute row),
         plan_max_output_tokens = int_of_num (pr_max_output_tokens row),
         plan_allowed_tiers = parse_tiers (pr_allowed_tiers row)\<rparr>)"

definition entitles_tier :: "plan \<Rightarrow> model_tier \<Rightarrow> bool" where
  "entitles_tier p t = (t \<in> set (plan_allowed_tiers p))"

text \<open>\<open>requested\<close> is what the body asked for, \<open>None\<close> for undefined.\<close>

definition effective_max_tokens :: "jsnum option \<Rightarrow> int \<Rightarrow> int option \<Rightarrow> int" where
  "effective_max_tokens requested plan_max model_max =
     (let ceiling = (case model_max of None \<Rightarrow> plan_max | Some m \<Rightarrow> min plan_max m) in
      case requested of
        None \<Rightarrow> ceiling
      | Some r \<Rightarrow> if \<not> is_finite_num r then ceiling
                  else max 1 (min (int_of_num (js_floor r)) ceiling))"

definition public_plan :: "plan \<Rightarrow> js" where
  "public_plan p = JObj
     [(''id'', JStr (plan_id p)), (''name'', JStr (plan_name p)),
      (''signup_credit_micro_usd'', JNum (NInt (plan_signup_credit p))),
      (''monthly_included_micro_usd'', JNum (NInt (plan_monthly_included p))),
      (''requests_per_minute'', JNum (NInt (plan_requests_per_minute p))),
      (''max_output_tokens'', JNum (NInt (plan_max_output_tokens p))),
      (''allowed_tiers'', JArr (List.map (\<lambda>t. JStr (tier_name t)) (plan_allowed_tiers p)))]"

section \<open>Lemmas\<close>

definition plan_ok :: "plan \<Rightarrow> bool" where
  "plan_ok p \<longleftrightarrow> 0 \<le> plan_signup_credit p \<and> 0 \<le> plan_monthly_included p \<and>
     1 \<le> plan_requests_per_minute p \<and> 1 \<le> plan_max_output_tokens p"

lemma plan_from_row_ok: "plan_from_row row = Inr p \<Longrightarrow> plan_ok p"
  by (auto simp: plan_from_row_def plan_ok_def is_integer_iff split: if_splits)

lemma plan_from_row_fields:
  assumes "plan_from_row row = Inr p"
  shows "pr_id row = plan_id p"
    and "pr_signup_credit row = NInt (plan_signup_credit p)"
    and "pr_monthly_included row = NInt (plan_monthly_included p)"
    and "pr_requests_per_minute row = NInt (plan_requests_per_minute p)"
    and "pr_max_output_tokens row = NInt (plan_max_output_tokens p)"
    and "plan_allowed_tiers p = parse_tiers (pr_allowed_tiers row)"
  using assms by (auto simp: plan_from_row_def split: if_splits)

lemma tier_of_name_name [simp]: "tier_of_name (tier_name t) = Some t"
  by (cases t) (simp_all add: tier_of_name_def)

lemma tier_of_name_SomeD: "tier_of_name s = Some t \<Longrightarrow> s = tier_name t"
  by (auto simp: tier_of_name_def split: if_splits)

lemma parse_tiers_iff:
  "t \<in> set (parse_tiers raw) \<longleftrightarrow>
     (\<exists>part \<in> set (split_on CHR '','' raw). js_lower (js_trim part) = tier_name t)"
  by (force simp: parse_tiers_def List.map_filter_def dest: tier_of_name_SomeD)

lemma effective_max_tokens_le_plan:
  assumes "1 \<le> plan_max" shows "effective_max_tokens r plan_max m \<le> plan_max"
  using assms by (auto simp: effective_max_tokens_def Let_def split: option.splits)

lemma effective_max_tokens_pos:
  assumes "1 \<le> plan_max" "\<And>m. model_max = Some m \<Longrightarrow> 1 \<le> m"
  shows "1 \<le> effective_max_tokens r plan_max model_max"
  using assms by (auto simp: effective_max_tokens_def Let_def split: option.splits)

section \<open>Properties\<close>

text \<open>A stored plan row is used exactly when its grant and its monthly allowance are
  non-negative integers and its rate limit and output ceiling positive integers; then every
  number of the plan is the stored one, and its tiers are the recognised names of the list,
  whatever their case and surrounding space.\<close>
lemma plan_from_row_correct:
  "plan_from_row row = Inr p \<longleftrightarrow>
     plan_ok p \<and> plan_id p = pr_id row \<and> plan_name p = pr_name row \<and>
     pr_signup_credit row = NInt (plan_signup_credit p) \<and>
     pr_monthly_included row = NInt (plan_monthly_included p) \<and>
     pr_requests_per_minute row = NInt (plan_requests_per_minute p) \<and>
     pr_max_output_tokens row = NInt (plan_max_output_tokens p) \<and>
     plan_allowed_tiers p = parse_tiers (pr_allowed_tiers row)"
proof
  assume "plan_from_row row = Inr p"
  then show "plan_ok p \<and> plan_id p = pr_id row \<and> plan_name p = pr_name row \<and>
     pr_signup_credit row = NInt (plan_signup_credit p) \<and>
     pr_monthly_included row = NInt (plan_monthly_included p) \<and>
     pr_requests_per_minute row = NInt (plan_requests_per_minute p) \<and>
     pr_max_output_tokens row = NInt (plan_max_output_tokens p) \<and>
     plan_allowed_tiers p = parse_tiers (pr_allowed_tiers row)"
    by (simp add: plan_from_row_ok plan_from_row_fields)
       (auto simp: plan_from_row_def split: if_splits)
qed (cases p, auto simp: plan_from_row_def plan_ok_def)

text \<open>The output cap of a request is at least one token and never above the plan's ceiling, the
  model's, or what the client asked for (when it asked for at least one), and it is the smaller
  ceiling when the client asked for nothing or for a number that is not finite.\<close>
lemma effective_max_tokens_bounds:
  assumes "1 \<le> plan_max" "\<forall>m. model_max = Some m \<longrightarrow> 1 \<le> m"
  shows "1 \<le> effective_max_tokens r plan_max model_max
       \<and> effective_max_tokens r plan_max model_max \<le> plan_max
       \<and> (\<forall>m. model_max = Some m \<longrightarrow> effective_max_tokens r plan_max model_max \<le> m)
       \<and> (\<forall>n. r = Some n \<longrightarrow> is_finite_num n \<longrightarrow> js_le (NInt 1) n \<longrightarrow>
            of_int (effective_max_tokens r plan_max model_max) \<le> rat_of_num n)
       \<and> (r = None \<or> (\<exists>n. r = Some n \<and> \<not> is_finite_num n) \<longrightarrow>
            effective_max_tokens r plan_max model_max =
              (case model_max of None \<Rightarrow> plan_max | Some m \<Rightarrow> min plan_max m))"
proof -
  have req: "of_int (effective_max_tokens r plan_max model_max) \<le> rat_of_num n"
    if n: "r = Some n" "is_finite_num n" "js_le (NInt 1) n" for n
  proof (cases n)
    case (NInt i)
    with n have "max 1 (min i c) \<le> i" for c by auto
    with NInt n show ?thesis by (auto simp: effective_max_tokens_def Let_def split: option.splits)
  next
    case (NReal q)
    with n have q1: "1 \<le> q" by (simp add: js_le_def not_less)
    then have "1 \<le> \<lfloor>q\<rfloor>" by (simp add: le_floor_iff)
    then have "max 1 (min \<lfloor>q\<rfloor> c) \<le> \<lfloor>q\<rfloor>" for c by auto
    then have "of_int (max 1 (min \<lfloor>q\<rfloor> c)) \<le> q" for c by (simp only: le_floor_iff)
    with NReal n show ?thesis by (auto simp: effective_max_tokens_def Let_def split: option.splits)
  qed (use n in auto)
  have le_model: "effective_max_tokens r plan_max (Some m) \<le> m" if "1 \<le> m" for m
    using that by (auto simp: effective_max_tokens_def Let_def split: option.splits)
  show ?thesis
    using assms req le_model effective_max_tokens_le_plan [OF assms(1)]
      effective_max_tokens_pos [OF assms(1)]
    by (auto simp: effective_max_tokens_def Let_def split: option.splits)
qed

end
