(* ===== verification/Catalog.thy ===== *)
theory Catalog
  imports Plans
begin

text \<open>
  The types and the per-entry functions of src/src/catalog.ts: what an entry is, when it is
  spendable, its picker hints and its public projection.  The rows themselves and the lookups
  over them are in the CatalogData theory.
\<close>

datatype modality = Chat | Image | Tts | Stt | Voice | Music | Video

datatype billing = WorkersAi | UnifiedBilling

datatype wire_api = ApiChat | ApiResponses

datatype meter_unit = PerRequest | AudioMinute | KCharacters

record token_price =
  tp_input     :: jsnum
  tp_output    :: jsnum
  tp_cached    :: "jsnum option"
  tp_priced_at :: string

datatype unit_rate = URate (ur_unit: string) (ur_usd: jsnum)

record unit_price =
  up_micro     :: jsnum
  up_unit      :: meter_unit
  up_priced_at :: string

record catalog_entry =
  ce_id                :: string
  ce_upstream          :: string
  ce_binding           :: bool
  ce_api               :: wire_api
  ce_display_name      :: string
  ce_modality          :: modality
  ce_billing           :: billing
  ce_tier              :: model_tier
  ce_streaming         :: bool
  ce_max_output_tokens :: "int option"
  ce_price             :: "token_price option"
  ce_unit_price        :: "unit_price option"
  ce_published_rates   :: "unit_rate list"

text \<open>Object literals of the rows.\<close>

definition tprice :: "jsnum \<Rightarrow> jsnum \<Rightarrow> jsnum option \<Rightarrow> string \<Rightarrow> token_price" where
  "tprice i o' c d = \<lparr>tp_input = i, tp_output = o', tp_cached = c, tp_priced_at = d\<rparr>"

definition uprice :: "jsnum \<Rightarrow> meter_unit \<Rightarrow> string \<Rightarrow> unit_price" where
  "uprice m u d = \<lparr>up_micro = m, up_unit = u, up_priced_at = d\<rparr>"

definition DOOR_MODALITIES :: "modality list" where
  "DOOR_MODALITIES = [Chat, Image, Tts, Stt, Music, Video, Voice]"

text \<open>\<open>a ?? b\<close> on a nullable.\<close>

definition or_else :: "'a option \<Rightarrow> 'a option \<Rightarrow> 'a option" where
  "or_else a b = (case a of None \<Rightarrow> b | Some x \<Rightarrow> Some x)"

definition spendable :: "catalog_entry \<Rightarrow> token_price option \<Rightarrow> unit_price option \<Rightarrow> bool" where
  "spendable e tok unit =
     (if ce_modality e \<notin> set DOOR_MODALITIES then False
      else if ce_modality e = Chat then or_else tok (ce_price e) \<noteq> None
      else or_else unit (ce_unit_price e) \<noteq> None)"

definition image_accepts_reference :: "string \<Rightarrow> bool" where
  "image_accepts_reference m =
     (if contains_str ''flux-2'' m then True
      else if starts_with ''google/nano-banana'' m then True
      else if starts_with ''openai/gpt-image'' m then True
      else if starts_with ''xai/grok-imagine-image'' m then True
      else False)"

definition capabilities_for :: "catalog_entry \<Rightarrow> string list" where
  "capabilities_for e =
     (if ce_modality e = Image then
        ''text-to-image'' # (if image_accepts_reference (ce_id e) then [''image-input''] else [])
      else if ce_modality e = Video then
        (if starts_with ''minimax/hailuo'' (ce_id e) then [''image-input'', ''image-input-required'']
         else ''text-to-video'' #
           (if starts_with ''bytedance/seedance'' (ce_id e)
               \<or> starts_with ''xai/grok-imagine-video'' (ce_id e)
               \<or> starts_with ''runwayml/'' (ce_id e)
               \<or> contains_str ''-i2v'' (ce_id e)
            then [''image-input''] else []))
      else [])"

datatype price_source = Operator | Cloudflare

record public_price =
  pp_input     :: jsnum
  pp_output    :: jsnum
  pp_priced_at :: string
  pp_source    :: price_source

record public_unit_price =
  pu_micro     :: jsnum
  pu_unit      :: meter_unit
  pu_priced_at :: string
  pu_source    :: price_source

record public_model_view =
  pm_id                :: string
  pm_display_name      :: string
  pm_modality          :: modality
  pm_billing           :: billing
  pm_tier              :: model_tier
  pm_streaming         :: bool
  pm_max_output_tokens :: "int option"
  pm_spendable         :: bool
  pm_capabilities      :: "string list"
  pm_price             :: "public_price option"
  pm_unit_price        :: "public_unit_price option"
  pm_published_rates   :: "unit_rate list"

definition public_model :: "catalog_entry \<Rightarrow> token_price option \<Rightarrow> unit_price option \<Rightarrow> public_model_view" where
  "public_model e tok unit =
     \<lparr>pm_id = ce_id e, pm_display_name = ce_display_name e, pm_modality = ce_modality e,
      pm_billing = ce_billing e, pm_tier = ce_tier e, pm_streaming = ce_streaming e,
      pm_max_output_tokens = ce_max_output_tokens e,
      pm_spendable = spendable e tok unit,
      pm_capabilities = capabilities_for e,
      pm_price = map_option (\<lambda>p.
        \<lparr>pp_input = tp_input p, pp_output = tp_output p, pp_priced_at = tp_priced_at p,
         pp_source = (if tok \<noteq> None then Operator else Cloudflare)\<rparr>) (or_else tok (ce_price e)),
      pm_unit_price = map_option (\<lambda>u.
        \<lparr>pu_micro = up_micro u, pu_unit = up_unit u, pu_priced_at = up_priced_at u,
         pu_source = (if unit \<noteq> None then Operator else Cloudflare)\<rparr>) (or_else unit (ce_unit_price e)),
      pm_published_rates = ce_published_rates e\<rparr>"

lemma or_else_simps [simp]:
  "or_else None b = b" "or_else (Some x) b = Some x"
  by (simp_all add: or_else_def)

lemma or_else_None_iff [simp]: "or_else a b = None \<longleftrightarrow> a = None \<and> b = None"
  by (cases a) auto

lemma door_modalities_all: "m \<in> set DOOR_MODALITIES"
  by (cases m) (simp_all add: DOOR_MODALITIES_def)

lemma public_model_spendable_iff_priced:
  "pm_spendable (public_model e tok unit) \<longleftrightarrow>
     (if ce_modality e = Chat then pm_price (public_model e tok unit) \<noteq> None
      else pm_unit_price (public_model e tok unit) \<noteq> None)"
  using door_modalities_all by (auto simp: public_model_def spendable_def)

end
