(* ===== verification/Meter.thy ===== *)
theory Meter
  imports Catalog
begin

text \<open>
  src/src/meter.ts: reading token counts out of an upstream answer, pricing them (rounding up
  when measured, down when estimated), and resolving the rate a request is priced at.  Prices
  and override rows hold JavaScript numbers because the code validates them; token counts are
  integers, since extraction and estimation only produce integers.  The exact charge is a
  rational; the rounding is on the total.
\<close>

record token_usage =
  tu_input  :: int
  tu_output :: int

text \<open>Reasons a request is not priced, by the check that failed.\<close>

datatype unmetered_reason =
    NoTokenCounts
  | BadInputRate jsnum
  | BadOutputRate jsnum
  | UpstreamTimedOut int
  | StreamUsageUnpriced unmetered_reason
  | StreamFailed
  | StreamCancelledUnpriced
  | StreamNoFrames
  | StreamNoUsage
  | ReasonText string

datatype meter_outcome =
    Metered int token_usage
  | Unmetered unmetered_reason

datatype estimate_outcome =
    Estimated int token_usage
  | EstUnmetered unmetered_reason

record model_price_row =
  mp_model_id   :: string
  mp_input      :: jsnum
  mp_output     :: jsnum
  mp_unit_micro :: "jsnum option"
  mp_priced_at  :: string
  mp_note       :: "string option"

section \<open>Reading usage\<close>

text \<open>\<open>a ?? b\<close>.\<close>

definition js_nullish :: "js \<Rightarrow> js \<Rightarrow> js" where
  "js_nullish a b = (if a = JUndef \<or> a = JNull then b else a)"

text \<open>\<open>typeof v === 'object' && v !== null\<close>: objects and arrays.\<close>

fun is_object :: "js \<Rightarrow> bool" where
  "is_object (JObj _) = True"
| "is_object (JArr _) = True"
| "is_object _ = False"

text \<open>\<open>Number.isInteger(v)\<close>, with its value.\<close>

fun js_int :: "js \<Rightarrow> int option" where
  "js_int (JNum (NInt i)) = Some i"
| "js_int _ = None"

definition gemini_usage :: "js \<Rightarrow> token_usage option" where
  "gemini_usage body =
     (let um = js_get body ''usageMetadata'' in
      if \<not> is_object um then None
      else case (js_int (js_nullish (js_get um ''promptTokenCount'') (js_get um ''prompt_token_count'')),
                 js_int (js_nullish (js_get um ''candidatesTokenCount'') (js_get um ''candidates_token_count''))) of
             (Some i, Some o') \<Rightarrow> if 0 \<le> i \<and> 0 \<le> o' then Some \<lparr>tu_input = i, tu_output = o'\<rparr> else None
           | _ \<Rightarrow> None)"

definition reasoning_tokens :: "js \<Rightarrow> js" where
  "reasoning_tokens raw =
     js_nullish (js_get raw ''reasoning_tokens'')
       (if is_object (js_get raw ''completion_tokens_details'')
        then js_get (js_get raw ''completion_tokens_details'') ''reasoning_tokens'' else JUndef)"

definition fold_reasoning :: "js \<Rightarrow> int \<Rightarrow> int" where
  "fold_reasoning raw out =
     (case js_int (reasoning_tokens raw) of
        Some r \<Rightarrow> if r > 0 \<and> out < r then out + r else out
      | None \<Rightarrow> out)"

definition openai_usage :: "js \<Rightarrow> token_usage option" where
  "openai_usage body =
     (let raw = js_get body ''usage'' in
      if \<not> is_object raw then None
      else case (js_int (js_nullish (js_get raw ''prompt_tokens'') (js_get raw ''input_tokens'')),
                 js_int (js_nullish (js_get raw ''completion_tokens'') (js_get raw ''output_tokens''))) of
             (Some i, Some o') \<Rightarrow>
               if i < 0 \<or> o' < 0 then None
               else Some \<lparr>tu_input = i, tu_output = fold_reasoning raw o'\<rparr>
           | _ \<Rightarrow> None)"

definition extract_usage :: "js \<Rightarrow> token_usage option" where
  "extract_usage body =
     (if \<not> is_object body then None
      else case gemini_usage body of Some u \<Rightarrow> Some u | None \<Rightarrow> openai_usage body)"

section \<open>Pricing\<close>

definition rate_problem :: "token_price \<Rightarrow> unmetered_reason option" where
  "rate_problem p =
     (if \<not> is_integer (tp_input p) \<or> js_lt (tp_input p) (NInt 0) then Some (BadInputRate (tp_input p))
      else if \<not> is_integer (tp_output p) \<or> js_lt (tp_output p) (NInt 0) then Some (BadOutputRate (tp_output p))
      else None)"

definition exact_micro_usd :: "token_usage \<Rightarrow> token_price \<Rightarrow> rat" where
  "exact_micro_usd u p =
     (of_int (tu_input u) * rat_of_num (tp_input p) + of_int (tu_output u) * rat_of_num (tp_output p))
       / 1000000"

definition price_usage :: "token_usage \<Rightarrow> token_price \<Rightarrow> meter_outcome" where
  "price_usage u p =
     (case rate_problem p of
        Some r \<Rightarrow> Unmetered r
      | None \<Rightarrow> Metered \<lceil>exact_micro_usd u p\<rceil> u)"

definition meter_response :: "js \<Rightarrow> token_price \<Rightarrow> meter_outcome" where
  "meter_response body p =
     (case extract_usage body of
        None \<Rightarrow> Unmetered NoTokenCounts
      | Some u \<Rightarrow> price_usage u p)"

definition meter_usage_object :: "js \<Rightarrow> token_price \<Rightarrow> meter_outcome" where
  "meter_usage_object usage p = meter_response (JObj [(''usage'', usage)]) p"

definition ESTIMATE_BYTES_PER_TOKEN :: int where "ESTIMATE_BYTES_PER_TOKEN = 4"

definition estimate_tokens_from_bytes :: "jsnum \<Rightarrow> int" where
  "estimate_tokens_from_bytes bytes =
     (if \<not> is_finite_num bytes \<or> js_le bytes (NInt 0) then 0
      else \<lfloor>rat_of_num bytes / of_int ESTIMATE_BYTES_PER_TOKEN\<rfloor>)"

definition estimate_stream_usage :: "jsnum \<Rightarrow> jsnum \<Rightarrow> token_usage" where
  "estimate_stream_usage prompt_bytes received_bytes =
     \<lparr>tu_input = estimate_tokens_from_bytes prompt_bytes,
      tu_output = estimate_tokens_from_bytes received_bytes\<rparr>"

definition price_estimated_usage :: "token_usage \<Rightarrow> token_price \<Rightarrow> estimate_outcome" where
  "price_estimated_usage u p =
     (case rate_problem p of
        Some r \<Rightarrow> EstUnmetered r
      | None \<Rightarrow> Estimated \<lfloor>exact_micro_usd u p\<rfloor> u)"

section \<open>Resolving a rate\<close>

definition resolve_price :: "catalog_entry \<Rightarrow> model_price_row option \<Rightarrow> token_price option" where
  "resolve_price e ov =
     (case ov of
        None \<Rightarrow> ce_price e
      | Some r \<Rightarrow>
          if \<not> is_integer (mp_input r) \<or> js_lt (mp_input r) (NInt 0)
             \<or> \<not> is_integer (mp_output r) \<or> js_lt (mp_output r) (NInt 0)
          then None
          else Some \<lparr>tp_input = mp_input r, tp_output = mp_output r, tp_cached = None,
                     tp_priced_at = mp_priced_at r\<rparr>)"

definition resolve_unit_price :: "catalog_entry \<Rightarrow> model_price_row option \<Rightarrow> unit_price option" where
  "resolve_unit_price e ov =
     (case ov of
        None \<Rightarrow> ce_unit_price e
      | Some r \<Rightarrow>
          (case mp_unit_micro r of
             None \<Rightarrow> ce_unit_price e
           | Some m \<Rightarrow>
               if \<not> is_integer m \<or> js_lt m (NInt 0) then None
               else Some \<lparr>up_micro = m,
                          up_unit = (case ce_unit_price e of None \<Rightarrow> PerRequest | Some b \<Rightarrow> up_unit b),
                          up_priced_at = mp_priced_at r\<rparr>))"

text \<open>The result is \<open>(microUsd, units)\<close>.\<close>

definition price_units :: "jsnum \<Rightarrow> unit_price \<Rightarrow> jsnum \<times> jsnum" where
  "price_units units up =
     (let n = js_max (NInt 0) (js_floor units) in
      if js_le n (NInt 0) then (NInt 0, NInt 0)
      else (js_mul n (up_micro up), n))"

section \<open>Lemmas\<close>

definition price_ok :: "token_price \<Rightarrow> bool" where
  "price_ok p = (rate_problem p = None)"

definition usage_ok :: "token_usage \<Rightarrow> bool" where
  "usage_ok u = (0 \<le> tu_input u \<and> 0 \<le> tu_output u)"

lemma price_okE:
  assumes "price_ok p"
  obtains i o' where "tp_input p = NInt i" "tp_output p = NInt o'" "0 \<le> i" "0 \<le> o'"
  using assms
  by (auto simp: price_ok_def rate_problem_def is_integer_iff split: if_splits)

lemma price_ok_iff:
  "price_ok p \<longleftrightarrow> (\<exists>i o'. tp_input p = NInt i \<and> tp_output p = NInt o' \<and> 0 \<le> i \<and> 0 \<le> o')"
  by (auto simp: price_ok_def rate_problem_def is_integer_iff split: if_splits)

lemma price_usage_ok: "price_ok p \<Longrightarrow> price_usage u p = Metered \<lceil>exact_micro_usd u p\<rceil> u"
  by (simp add: price_usage_def price_ok_def)

lemma fold_reasoning_ge: "out \<le> fold_reasoning raw out"
  by (auto simp: fold_reasoning_def split: option.splits)

lemma fold_reasoning_nonneg: "0 \<le> out \<Longrightarrow> 0 \<le> fold_reasoning raw out"
  using fold_reasoning_ge [of out raw] by simp

lemma extract_usage_ok:
  assumes "extract_usage body = Some u" shows "usage_ok u"
proof -
  have g: "gemini_usage body = Some u \<Longrightarrow> usage_ok u"
    by (auto simp: gemini_usage_def usage_ok_def Let_def split: option.splits if_splits)
  have o: "openai_usage body = Some u \<Longrightarrow> usage_ok u"
    by (auto simp: openai_usage_def usage_ok_def Let_def fold_reasoning_nonneg split: option.splits if_splits)
  from assms g o show ?thesis by (auto simp: extract_usage_def split: if_splits option.splits)
qed

lemma exact_micro_usd_nonneg:
  assumes "price_ok p" "usage_ok u" shows "0 \<le> exact_micro_usd u p"
  using assms(1)
proof (rule price_okE)
  fix i o' assume "tp_input p = NInt i" "tp_output p = NInt o'" "0 \<le> i" "0 \<le> o'"
  with assms(2) show ?thesis by (simp add: exact_micro_usd_def usage_ok_def)
qed

lemma exact_micro_usd_pos:
  assumes "price_ok p" "usage_ok u"
    and "0 < tu_input u \<and> NInt 0 \<noteq> tp_input p \<or> 0 < tu_output u \<and> NInt 0 \<noteq> tp_output p"
  shows "0 < exact_micro_usd u p"
  using assms(1)
proof (rule price_okE)
  fix i o' assume "tp_input p = NInt i" "tp_output p = NInt o'" "0 \<le> i" "0 \<le> o'"
  with assms(2,3) show ?thesis
    by (auto simp: exact_micro_usd_def usage_ok_def add_pos_nonneg add_nonneg_pos)
qed

lemma resolve_price_override_ok:
  assumes "resolve_price e ov = Some p" "ov \<noteq> None" shows "price_ok p"
  using assms by (auto simp: resolve_price_def price_ok_def rate_problem_def split: option.splits if_splits)

lemma estimate_tokens_nonneg: "0 \<le> estimate_tokens_from_bytes b"
  by (cases b) (auto simp: estimate_tokens_from_bytes_def ESTIMATE_BYTES_PER_TOKEN_def js_le_def)

lemma estimate_stream_usage_ok [simp]: "usage_ok (estimate_stream_usage a b)"
  by (simp add: usage_ok_def estimate_stream_usage_def estimate_tokens_nonneg)

section \<open>Properties\<close>

text \<open>A measured request at a usable rate is always metered; the charge is the exact cost
  rounded up, less than one micro-USD above it, never negative, and at least one micro-USD as
  soon as some consumed token has a non-zero rate.\<close>
lemma price_usage_rounds_up:
  assumes "price_ok p" "usage_ok u"
  shows "\<exists>m. price_usage u p = Metered m u \<and> 0 \<le> m
       \<and> exact_micro_usd u p \<le> of_int m \<and> of_int m < exact_micro_usd u p + 1
       \<and> ((0 < tu_input u \<and> NInt 0 \<noteq> tp_input p \<or> 0 < tu_output u \<and> NInt 0 \<noteq> tp_output p)
            \<longrightarrow> 1 \<le> m)"
proof -
  let ?x = "exact_micro_usd u p"
  have "0 \<le> \<lceil>?x\<rceil>" using exact_micro_usd_nonneg [OF assms] by linarith
  moreover have "?x \<le> of_int \<lceil>?x\<rceil>" "of_int \<lceil>?x\<rceil> < ?x + 1" by linarith+
  moreover have "0 < ?x \<Longrightarrow> 1 \<le> \<lceil>?x\<rceil>" by linarith
  ultimately show ?thesis
    using price_usage_ok [OF assms(1), of u] exact_micro_usd_pos [OF assms] by blast
qed

text \<open>An estimate never overshoots: at a usable rate it is the exact cost rounded down, so it is
  at most what the same usage would be charged when measured, by less than one micro-USD; and
  the two paths refuse the same rates with the same reason.\<close>
lemma estimate_never_above_measured:
  assumes "usage_ok u"
  shows "(price_ok p \<longrightarrow> (\<exists>e m. price_estimated_usage u p = Estimated e u \<and> price_usage u p = Metered m u
            \<and> 0 \<le> e \<and> of_int e \<le> exact_micro_usd u p \<and> e \<le> m \<and> m \<le> e + 1))
       \<and> (\<forall>r. price_estimated_usage u p = EstUnmetered r \<longleftrightarrow> price_usage u p = Unmetered r)"
proof (intro conjI impI allI)
  assume p: "price_ok p"
  let ?x = "exact_micro_usd u p"
  have "0 \<le> \<lfloor>?x\<rfloor>" using exact_micro_usd_nonneg [OF p assms] by linarith
  moreover have "of_int \<lfloor>?x\<rfloor> \<le> ?x" "\<lfloor>?x\<rfloor> \<le> \<lceil>?x\<rceil>" "\<lceil>?x\<rceil> \<le> \<lfloor>?x\<rfloor> + 1" by linarith+
  ultimately show "\<exists>e m. price_estimated_usage u p = Estimated e u \<and> price_usage u p = Metered m u
            \<and> 0 \<le> e \<and> of_int e \<le> ?x \<and> e \<le> m \<and> m \<le> e + 1"
    using p by (simp add: price_usage_def price_estimated_usage_def price_ok_def)
qed (simp add: price_usage_def price_estimated_usage_def split: option.splits)

text \<open>An object carries the integer \<open>n\<close> under one of the names.\<close>

definition carries :: "js \<Rightarrow> string list \<Rightarrow> int \<Rightarrow> bool" where
  "carries obj ks n = list_ex (\<lambda>k. js_get obj k = JNum (NInt n)) ks"

lemma js_int_Some_iff: "js_int v = Some n \<longleftrightarrow> v = JNum (NInt n)"
  by (cases v rule: js_int.cases) auto

lemma carries_nullish:
  "js_int (js_nullish (js_get obj a) (js_get obj b)) = Some n \<Longrightarrow> carries obj [a, b] n"
  by (auto simp: js_int_Some_iff js_nullish_def carries_def split: if_splits)

lemma gemini_usage_carries:
  assumes "gemini_usage body = Some u"
  shows "carries (js_get body ''usageMetadata'') [''promptTokenCount'', ''prompt_token_count''] (tu_input u) \<and>
         carries (js_get body ''usageMetadata'') [''candidatesTokenCount'', ''candidates_token_count''] (tu_output u) \<and>
         0 \<le> tu_output u"
  using assms by (auto simp: gemini_usage_def Let_def intro: carries_nullish split: option.splits if_splits)

lemma openai_usage_carries:
  assumes "openai_usage body = Some u"
  shows "\<exists>out. carries (js_get body ''usage'') [''prompt_tokens'', ''input_tokens''] (tu_input u) \<and>
         carries (js_get body ''usage'') [''completion_tokens'', ''output_tokens''] out \<and>
         0 \<le> out \<and> out \<le> tu_output u"
proof -
  from assms obtain out where
    "js_int (js_nullish (js_get (js_get body ''usage'') ''prompt_tokens'')
        (js_get (js_get body ''usage'') ''input_tokens'')) = Some (tu_input u)"
    "js_int (js_nullish (js_get (js_get body ''usage'') ''completion_tokens'')
        (js_get (js_get body ''usage'') ''output_tokens'')) = Some out"
    "0 \<le> out" "tu_output u = fold_reasoning (js_get body ''usage'') out"
    by (auto simp: openai_usage_def Let_def split: option.splits if_splits)
  then show ?thesis using fold_reasoning_ge carries_nullish by metis
qed

text \<open>A missing count is never read as zero: whenever usage is extracted, the input count is an
  integer that the answer itself carries under one of the known names, and the output count is
  such an integer or exceeds one by folded-in reasoning tokens; both are non-negative.\<close>
lemma extract_usage_from_fields:
  assumes "extract_usage body = Some u"
  shows "usage_ok u \<and>
     ((carries (js_get body ''usageMetadata'') [''promptTokenCount'', ''prompt_token_count''] (tu_input u) \<and>
       carries (js_get body ''usageMetadata'') [''candidatesTokenCount'', ''candidates_token_count''] (tu_output u))
      \<or> (\<exists>out. carries (js_get body ''usage'') [''prompt_tokens'', ''input_tokens''] (tu_input u) \<and>
         carries (js_get body ''usage'') [''completion_tokens'', ''output_tokens''] out \<and>
         0 \<le> out \<and> out \<le> tu_output u))"
  using assms extract_usage_ok [OF assms] gemini_usage_carries openai_usage_carries
  by (auto simp: extract_usage_def split: if_splits option.splits)

text \<open>A streamed request is priced by the rules of a buffered one: metering the usage object of
  the trailing frame gives what metering a whole answer with that usage gives, for every answer
  without Gemini metadata.\<close>
lemma stream_and_buffer_price_alike:
  assumes "is_object body" "\<not> is_object (js_get body ''usageMetadata'')"
  shows "meter_usage_object (js_get body ''usage'') p = meter_response body p"
  using assms
  by (simp add: meter_usage_object_def meter_response_def extract_usage_def gemini_usage_def
      openai_usage_def Let_def)

text \<open>An operator override decides alone: a well-formed row replaces the compiled rate (and drops
  the cached-input rate), a malformed row leaves the model without any rate rather than with the
  compiled one, and only the absence of a row falls back to the catalog.\<close>
lemma override_decides_alone:
  "resolve_price e None = ce_price e
   \<and> (\<forall>i o'. mp_input r = NInt i \<and> mp_output r = NInt o' \<and> 0 \<le> i \<and> 0 \<le> o' \<longrightarrow>
        resolve_price e (Some r) =
          Some \<lparr>tp_input = NInt i, tp_output = NInt o', tp_cached = None, tp_priced_at = mp_priced_at r\<rparr>)
   \<and> ((\<nexists>i o'. mp_input r = NInt i \<and> mp_output r = NInt o' \<and> 0 \<le> i \<and> 0 \<le> o') \<longrightarrow>
        resolve_price e (Some r) = None)
   \<and> (\<forall>p. resolve_price e (Some r) = Some p \<longrightarrow> price_ok p)"
  by (auto simp: resolve_price_def is_integer_iff price_ok_iff)

end
