(* ===== verification/RateLimit.thy ===== *)
theory RateLimit
  imports Prelude
begin

text \<open>
  src/src/rate-limit.ts: the pure fixed-window decision, the limiter store's interface as a
  locale, and the window arithmetic.  The handler-side \<open>checkRateLimit\<close> runs against the
  store's claim; the D1 claim and the interpretation of the locale on it are in the Store theory.
  Times are integer epoch seconds and counts integers, as the D1 columns hold them.
\<close>

record rl_decision =
  rl_allowed      :: bool
  rl_next_count   :: int
  rl_next_start   :: int
  rl_retry_after  :: int

definition rate_limit_decision :: "int \<Rightarrow> int option \<Rightarrow> int \<Rightarrow> int \<Rightarrow> int \<Rightarrow> rl_decision" where
  "rate_limit_decision now start count limit window =
     (case start of
        None \<Rightarrow> \<lparr>rl_allowed = True, rl_next_count = 1, rl_next_start = now, rl_retry_after = window\<rparr>
      | Some st \<Rightarrow>
          if now - st \<ge> window
          then \<lparr>rl_allowed = True, rl_next_count = 1, rl_next_start = now, rl_retry_after = window\<rparr>
          else let nc = count + 1; elapsed = now - st in
               \<lparr>rl_allowed = nc \<le> limit, rl_next_count = nc, rl_next_start = st,
                rl_retry_after = max 1 (window - elapsed)\<rparr>)"

definition RATE_WINDOW_SECONDS :: int where "RATE_WINDOW_SECONDS = 60"

definition ENROLL_LIMIT :: int where "ENROLL_LIMIT = 5"

text \<open>A bucket row: the count and the start of its window.\<close>

record rate_row =
  rr_count        :: int
  rr_window_start :: int

text \<open>What \<open>checkRateLimit\<close> reports about a claimed row.\<close>

definition decision_of_row :: "int \<Rightarrow> rate_row \<Rightarrow> int \<Rightarrow> int \<Rightarrow> rl_decision" where
  "decision_of_row now row limit window =
     (let elapsed = now - rr_window_start row in
      \<lparr>rl_allowed = rr_count row \<le> limit, rl_next_count = rr_count row,
       rl_next_start = rr_window_start row, rl_retry_after = max 1 (window - elapsed)\<rparr>)"

definition inference_bucket :: "string \<Rightarrow> string" where
  "inference_bucket account_id = ''infer:'' @ account_id"

definition enroll_bucket :: "string \<Rightarrow> string" where
  "enroll_bucket ip = ''enroll:'' @ ip"

lemma buckets_disjoint: "inference_bucket a \<noteq> enroll_bucket b"
  by (simp add: inference_bucket_def enroll_bucket_def)

lemma inference_bucket_inj [simp]: "inference_bucket a = inference_bucket b \<longleftrightarrow> a = b"
  by (simp add: inference_bucket_def)

lemma enroll_bucket_inj [simp]: "enroll_bucket a = enroll_bucket b \<longleftrightarrow> a = b"
  by (simp add: enroll_bucket_def)

section \<open>The limiter store as an interface\<close>

text \<open>
  \<open>claim\<close> is one atomic attempt against a bucket: it returns the post-claim row and the new
  state; \<open>look\<close> reads a bucket.  The laws are those the client of RateLimiterStore relies
  on: a claim returns the row it stores, opens a window when there is none or the old one has
  run out, counts inside an open one, and leaves every other bucket alone.
\<close>

locale rate_store =
  fixes look  :: "'s \<Rightarrow> string \<Rightarrow> rate_row option"
    and claim :: "string \<Rightarrow> int \<Rightarrow> int \<Rightarrow> 's \<Rightarrow> rate_row \<times> 's"
  assumes claim_stores: "look (snd (claim k now w s)) k = Some (fst (claim k now w s))"
    and claim_other: "k' \<noteq> k \<Longrightarrow> look (snd (claim k now w s)) k' = look s k'"
    and claim_fresh:
      "look s k = None \<Longrightarrow> fst (claim k now w s) = \<lparr>rr_count = 1, rr_window_start = now\<rparr>"
    and claim_rolls:
      "look s k = Some r \<Longrightarrow> w \<le> now - rr_window_start r \<Longrightarrow>
         fst (claim k now w s) = \<lparr>rr_count = 1, rr_window_start = now\<rparr>"
    and claim_counts:
      "look s k = Some r \<Longrightarrow> now - rr_window_start r < w \<Longrightarrow>
         fst (claim k now w s) = r\<lparr>rr_count := rr_count r + 1\<rparr>"
begin

text \<open>\<open>checkRateLimit\<close> over the interface.\<close>

definition check :: "string \<Rightarrow> int \<Rightarrow> int \<Rightarrow> int \<Rightarrow> 's \<Rightarrow> rl_decision \<times> 's" where
  "check k limit w now s = (let (row, s') = claim k now w s in (decision_of_row now row limit w, s'))"

lemma check_eq:
  "check k limit w now s =
     (decision_of_row now (fst (claim k now w s)) limit w, snd (claim k now w s))"
  by (simp add: check_def split_beta)

lemma check_is_pure_decision:
  assumes "1 \<le> limit" "1 \<le> w"
  shows "fst (check k limit w now s) =
           rate_limit_decision now (map_option rr_window_start (look s k))
             (case look s k of None \<Rightarrow> 0 | Some r \<Rightarrow> rr_count r) limit w"
proof (cases "look s k")
  case None
  from claim_fresh [OF None, of now w] None assms show ?thesis
    by (simp add: check_eq rate_limit_decision_def decision_of_row_def)
next
  case (Some r)
  show ?thesis
  proof (cases "w \<le> now - rr_window_start r")
    case True
    from claim_rolls [OF Some True] Some assms True show ?thesis
      by (simp add: check_eq rate_limit_decision_def decision_of_row_def)
  next
    case False
    then have "now - rr_window_start r < w" by simp
    from claim_counts [OF Some this] Some assms False show ?thesis
      by (simp add: check_eq rate_limit_decision_def decision_of_row_def Let_def)
  qed
qed

text \<open>A run of attempts on one bucket at the given times.\<close>

fun attempts :: "string \<Rightarrow> int \<Rightarrow> int \<Rightarrow> int list \<Rightarrow> 's \<Rightarrow> rl_decision list \<times> 's" where
  "attempts k limit w [] s = ([], s)"
| "attempts k limit w (t # ts) s =
     (let (d, s1) = check k limit w t s; (ds, s2) = attempts k limit w ts s1 in (d # ds, s2))"

lemma attempts_within_window:
  assumes "look s k = Some r"
    and "\<And>t. t \<in> set ts \<Longrightarrow> t - rr_window_start r < w"
  shows "length (List.filter rl_allowed (fst (attempts k limit w ts s))) =
           card {i. i < length ts \<and> rr_count r + 1 + int i \<le> limit} \<and>
         look (snd (attempts k limit w ts s)) k = Some (r\<lparr>rr_count := rr_count r + int (length ts)\<rparr>)"
  using assms
proof (induction ts arbitrary: s r)
  case Nil
  then show ?case by simp
next
  case (Cons t ts)
  let ?r1 = "r\<lparr>rr_count := rr_count r + 1\<rparr>"
  let ?s1 = "snd (claim k t w s)"
  have open_w: "t - rr_window_start r < w" using Cons.prems by simp
  have row: "fst (claim k t w s) = ?r1" by (rule claim_counts [OF Cons.prems(1) open_w])
  have look1: "look ?s1 k = Some ?r1" using claim_stores [of k t w s] row by simp
  have chk: "check k limit w t s = (decision_of_row t ?r1 limit w, ?s1)"
    using row by (simp add: check_eq)
  have IH: "length (List.filter rl_allowed (fst (attempts k limit w ts ?s1))) =
              card {i. i < length ts \<and> rr_count ?r1 + 1 + int i \<le> limit} \<and>
            look (snd (attempts k limit w ts ?s1)) k = Some (?r1\<lparr>rr_count := rr_count ?r1 + int (length ts)\<rparr>)"
    using Cons.prems(2) by (intro Cons.IH [OF look1]) simp
  let ?A = "{i. i < length ts \<and> rr_count ?r1 + 1 + int i \<le> limit}"
  have split: "{i. i < length (t # ts) \<and> rr_count r + 1 + int i \<le> limit} =
          (if rr_count r + 1 \<le> limit then {0} else {}) \<union> Suc ` ?A" (is "?L = ?R")
  proof (rule set_eqI)
    fix i show "i \<in> ?L \<longleftrightarrow> i \<in> ?R" by (cases i) (auto simp: image_iff)
  qed
  have "card ?L = (if rr_count r + 1 \<le> limit then 1 else 0) + card ?A"
    unfolding split by (subst card_Un_disjoint) (auto simp: card_image)
  then show ?case
    using IH chk by (simp add: decision_of_row_def Let_def split_beta algebra_simps)
qed

text \<open>The promise of the limiter: however many attempts hit one open window, at most
  \<open>limit\<close> of them pass, and every one of them, denied or not, is counted.\<close>

lemma attempts_bounded:
  assumes "look s k = Some r" "0 \<le> rr_count r" "0 \<le> limit"
    and "\<And>t. t \<in> set ts \<Longrightarrow> t - rr_window_start r < w"
  shows "int (length (List.filter rl_allowed (fst (attempts k limit w ts s)))) \<le> max 0 (limit - rr_count r)"
proof -
  have "{i. i < length ts \<and> rr_count r + 1 + int i \<le> limit} \<subseteq> {..<nat (limit - rr_count r)}"
    by auto
  then have "card {i. i < length ts \<and> rr_count r + 1 + int i \<le> limit} \<le> nat (limit - rr_count r)"
    by (metis card_lessThan card_mono finite_lessThan)
  then show ?thesis
    using attempts_within_window [OF assms(1,4)] by (simp add: max_def) linarith
qed

end

end
