(* ===== verification/Store.thy ===== *)
theory Store
  imports Meter Plans RateLimit
begin

text \<open>
  The database of src/src/store.ts and src/src/store-d1.ts.  A table is the list of its rows, in
  insertion order; a statement is a function on the database that may refuse (a constraint
  failure is \<open>None\<close>); an operation of ControlPlaneStore is a sequence of statements in a
  state monad over a world that holds the database, D1's clock and a schedule of what happens
  to the coming statements.

  A scheduled statement completes, fails before it took effect, or fails after it was committed
  (the answer was lost); in the last two cases the operation throws and its remaining statements
  do not run.  A D1 batch is one statement: it is atomic.

  Timestamps.  Columns written by \<open>datetime('now')\<close> hold epoch seconds; instants that
  the Worker writes as ISO 8601 strings hold epoch milliseconds, and SQLite's \<open>datetime()\<close>
  of one is its second.  Foreign keys are enforced when \<open>db_fk\<close> is set, D1's default.
\<close>

section \<open>Rows\<close>

record account_row =
  ac_id           :: string
  ac_plan_id      :: string
  ac_label        :: "string option"
  ac_created_at   :: int
  ac_suspended_at :: "int option"
  ac_credit       :: int
  ac_spent        :: int

record user_token_row =
  ut_account_id   :: string
  ut_cf_token_id  :: string
  ut_token_enc    :: string
  ut_minted_at    :: int
  ut_revoked_at   :: "int option"
  ut_last_used_at :: "int option"

record new_client =
  cl_id          :: string
  cl_account_id  :: string
  cl_key_id      :: string
  cl_secret_hash :: string
  cl_label       :: "string option"
  cl_platform    :: "string option"

record client_row = new_client +
  cl_created_at   :: int
  cl_last_seen_at :: "int option"
  cl_revoked_at   :: "int option"

record period_row =
  pe_account_id      :: string
  pe_period_key      :: string
  pe_micro_usd       :: int
  pe_requests        :: int
  pe_unmetered       :: int
  pe_adjust_spend    :: int
  pe_adjust_credit   :: int
  pe_allowance_spent :: int

datatype price_basis = Measured | EstimatedOutput | Unpriced

record usage_event =
  ue_id               :: string
  ue_request_id       :: string
  ue_account_id       :: string
  ue_client_id        :: string
  ue_model_id         :: string
  ue_period_key       :: string
  ue_input_tokens     :: "int option"
  ue_output_tokens    :: "int option"
  ue_micro_usd        :: int
  ue_from_allowance   :: int
  ue_from_credit      :: int
  ue_metered          :: bool
  ue_price_basis      :: price_basis
  ue_unmetered_reason :: "unmetered_reason option"
  ue_upstream_status  :: "int option"
  ue_gateway_log_id   :: "string option"

record usage_event_row = usage_event +
  ue_created_at :: int

record usage_event_key =
  uk_id         :: string
  uk_request_id :: string
  uk_micro_usd  :: int
  uk_metered    :: bool
  uk_created_at :: int

datatype adjust_direction = Spend | Credit

record usage_adjustment =
  ua_id             :: string
  ua_account_id     :: string
  ua_usage_event_id :: "string option"
  ua_request_id     :: string
  ua_gateway_log_id :: string
  ua_period_key     :: string
  ua_model_id       :: "string option"
  ua_estimate       :: int
  ua_gateway        :: int
  ua_delta          :: int
  ua_direction      :: adjust_direction
  ua_applied        :: int
  ua_key            :: string
  ua_note           :: "string option"

record grant_row =
  gr_id         :: string
  gr_account_id :: string
  gr_micro_usd  :: int
  gr_key        :: string
  gr_note       :: "string option"

record enrollment_row =
  en_token_hash  :: string
  en_account_id  :: string
  en_expires_at  :: int
  en_consumed_at :: "int option"
  en_consumed_by :: "string option"
  en_note        :: "string option"

record stt_ticket_row =
  tk_token_hash  :: string
  tk_account_id  :: string
  tk_client_id   :: string
  tk_expires_at  :: int
  tk_consumed_at :: "int option"

record reconcile_state_row =
  rs_gateway_id    :: string
  rs_watermark     :: "int option"
  rs_last_log_id   :: "string option"
  rs_last_run_at   :: "int option"
  rs_runs          :: int
  rs_rows_seen     :: int
  rs_rows_adjusted :: int

datatype job_status = Queued | Running | Succeeded | Failed
datatype job_kind = JobVideo | JobMusic | JobSpeech | JobImage

record async_job_row =
  aj_id           :: string
  aj_account_id   :: string
  aj_client_id    :: string
  aj_kind         :: job_kind
  aj_model_id     :: string
  aj_status       :: job_status
  aj_result_json  :: "string option"
  aj_error_code   :: "string option"
  aj_error_detail :: "string option"
  aj_request_id   :: string
  aj_created_at   :: int
  aj_updated_at   :: int

record bucket_row =
  bk_key :: string
  bk_row :: rate_row

record db =
  t_plans       :: "plan_row list"
  t_accounts    :: "account_row list"
  t_clients     :: "client_row list"
  t_enrollments :: "enrollment_row list"
  t_tickets     :: "stt_ticket_row list"
  t_events      :: "usage_event_row list"
  t_periods     :: "period_row list"
  t_grants      :: "grant_row list"
  t_adjustments :: "usage_adjustment list"
  t_reconcile   :: "reconcile_state_row list"
  t_tokens      :: "user_token_row list"
  t_prices      :: "model_price_row list"
  t_buckets     :: "bucket_row list"
  t_jobs        :: "async_job_row list"
  db_fk         :: bool

definition empty_db :: db where
  "empty_db = \<lparr>t_plans = [], t_accounts = [], t_clients = [], t_enrollments = [], t_tickets = [],
     t_events = [], t_periods = [], t_grants = [], t_adjustments = [], t_reconcile = [],
     t_tokens = [], t_prices = [], t_buckets = [], t_jobs = [], db_fk = True\<rparr>"

section \<open>Tables\<close>

definition lookup :: "('r \<Rightarrow> 'k) \<Rightarrow> 'k \<Rightarrow> 'r list \<Rightarrow> 'r option" where
  "lookup key k rows = List.find (\<lambda>r. key r = k) rows"

definition has_key :: "('r \<Rightarrow> 'k) \<Rightarrow> 'k \<Rightarrow> 'r list \<Rightarrow> bool" where
  "has_key key k rows = list_ex (\<lambda>r. key r = k) rows"

definition update_where :: "('r \<Rightarrow> bool) \<Rightarrow> ('r \<Rightarrow> 'r) \<Rightarrow> 'r list \<Rightarrow> 'r list" where
  "update_where P f rows = List.map (\<lambda>r. if P r then f r else r) rows"

text \<open>\<open>INSERT ... ON CONFLICT(key) DO UPDATE\<close>.\<close>

definition upsert :: "('r \<Rightarrow> 'k) \<Rightarrow> 'r \<Rightarrow> ('r \<Rightarrow> 'r) \<Rightarrow> 'r list \<Rightarrow> 'r list" where
  "upsert key new f rows =
     (if has_key key (key new) rows then update_where (\<lambda>r. key r = key new) f rows
      else rows @ [new])"

lemma has_key_iff: "has_key key k rows \<longleftrightarrow> k \<in> key ` set rows"
  by (auto simp: has_key_def list_ex_iff)

lemma lookup_None_iff: "lookup key k rows = None \<longleftrightarrow> \<not> has_key key k rows"
  by (auto simp: lookup_def has_key_def find_None_iff list_ex_iff)

lemma lookup_SomeD: "lookup key k rows = Some r \<Longrightarrow> r \<in> set rows \<and> key r = k"
  by (auto simp: lookup_def find_Some_iff)

lemma lookup_Nil [simp]: "lookup key k [] = None"
  by (simp add: lookup_def)

lemma lookup_Cons [simp]: "lookup key k (r # rows) = (if key r = k then Some r else lookup key k rows)"
  by (simp add: lookup_def)

lemma lookup_append:
  "lookup key k (xs @ ys) = (case lookup key k xs of None \<Rightarrow> lookup key k ys | Some r \<Rightarrow> Some r)"
  by (induction xs) auto

lemma lookup_update_where:
  assumes "\<And>r. key (f r) = key r"
  shows "lookup key k (update_where P f rows) =
           map_option (\<lambda>r. if P r then f r else r) (lookup key k rows)"
  using assms by (induction rows) (auto simp: update_where_def)

lemma update_where_Nil [simp]: "update_where P f [] = []"
  by (simp add: update_where_def)

lemma update_where_Cons [simp]:
  "update_where P f (r # rows) = (if P r then f r else r) # update_where P f rows"
  by (simp add: update_where_def)

lemma keys_update_where:
  assumes "\<And>r. key (f r) = key r"
  shows "List.map key (update_where P f rows) = List.map key rows"
  using assms by (induction rows) auto

lemma has_key_update_where [simp]:
  assumes "\<And>r. key (f r) = key r"
  shows "has_key key k (update_where P f rows) = has_key key k rows"
  using assms by (induction rows) (auto simp: has_key_def)

lemma has_key_simps [simp]:
  "has_key key k [] = False"
  "has_key key k (r # rows) = (key r = k \<or> has_key key k rows)"
  "has_key key k (xs @ ys) = (has_key key k xs \<or> has_key key k ys)"
  by (auto simp: has_key_def)

lemma lookup_upsert:
  assumes "\<And>r. key (f r) = key r"
  shows "lookup key k (upsert key new f rows) =
           (if k = key new then Some (case lookup key k rows of None \<Rightarrow> new | Some r \<Rightarrow> f r)
            else lookup key k rows)"
proof (cases "has_key key (key new) rows")
  case True
  then show ?thesis
    using assms lookup_None_iff [of key "key new" rows]
    by (cases "lookup key k rows")
       (auto simp: upsert_def lookup_update_where dest: lookup_SomeD split: option.splits)
next
  case False
  then show ?thesis
    using assms lookup_None_iff [of key "key new" rows]
    by (auto simp: upsert_def lookup_append split: option.splits)
qed

section \<open>The world and its monad\<close>

datatype exn = DbError | NotReadBack string | CountUnavailable | TypeError | PayloadRefused | FeedError | PlatformError

datatype fault = Completes | FailsBefore | FailsAfter

text \<open>One schedule entry per coming statement: what happens to it, and the milliseconds that
  pass before it.  An exhausted schedule completes every statement at once.\<close>

record world =
  w_db    :: db
  w_now   :: int
  w_sched :: "(fault \<times> nat) list"

type_synonym ('a, 'z) m = "'z world_scheme \<Rightarrow> (exn + 'a) \<times> 'z world_scheme"

definition retM :: "'a \<Rightarrow> ('a, 'z) m" where
  "retM x = (\<lambda>w. (Inr x, w))"

definition throwM :: "exn \<Rightarrow> ('a, 'z) m" where
  "throwM e = (\<lambda>w. (Inl e, w))"

definition bindM :: "('a, 'z) m \<Rightarrow> ('a \<Rightarrow> ('b, 'z) m) \<Rightarrow> ('b, 'z) m" where
  "bindM c k = (\<lambda>w. case c w of (Inl e, w') \<Rightarrow> (Inl e, w') | (Inr x, w') \<Rightarrow> k x w')"

text \<open>\<open>try { c } catch { h }\<close>.\<close>

definition catchM :: "('a, 'z) m \<Rightarrow> (exn \<Rightarrow> ('a, 'z) m) \<Rightarrow> ('a, 'z) m" where
  "catchM c h = (\<lambda>w. case c w of (Inl e, w') \<Rightarrow> h e w' | (Inr x, w') \<Rightarrow> (Inr x, w'))"

fun next_step :: "(fault \<times> nat) list \<Rightarrow> fault \<times> nat" where
  "next_step [] = (Completes, 0)"
| "next_step (s # ss) = s"

text \<open>Run one statement: the function gets the clock in epoch milliseconds and the database.\<close>

definition stmt :: "(int \<Rightarrow> db \<Rightarrow> ('a \<times> db) option) \<Rightarrow> ('a, 'z) m" where
  "stmt f w =
     (let (flt, dt) = next_step (w_sched w);
          now = w_now w + int dt;
          w1 = w\<lparr>w_now := now, w_sched := tl (w_sched w)\<rparr>
      in case flt of
           FailsBefore \<Rightarrow> (Inl DbError, w1)
         | Completes \<Rightarrow>
             (case f now (w_db w) of None \<Rightarrow> (Inl DbError, w1)
              | Some (x, d) \<Rightarrow> (Inr x, w1\<lparr>w_db := d\<rparr>))
         | FailsAfter \<Rightarrow>
             (case f now (w_db w) of None \<Rightarrow> (Inl DbError, w1)
              | Some (x, d) \<Rightarrow> (Inl DbError, w1\<lparr>w_db := d\<rparr>)))"

text \<open>A SELECT, and a write.\<close>

definition query :: "(int \<Rightarrow> db \<Rightarrow> 'a) \<Rightarrow> ('a, 'z) m" where
  "query f = stmt (\<lambda>now d. Some (f now d, d))"

definition secs :: "int \<Rightarrow> int" where
  "secs ms = ms div 1000"

section \<open>Statements\<close>

text \<open>REFERENCES checks, when D1 enforces them.\<close>

definition fk_account :: "db \<Rightarrow> string \<Rightarrow> bool" where
  "fk_account d a = (\<not> db_fk d \<or> has_key ac_id a (t_accounts d))"

definition fk_client :: "db \<Rightarrow> string \<Rightarrow> bool" where
  "fk_client d c = (\<not> db_fk d \<or> has_key cl_id c (t_clients d))"

definition fk_plan :: "db \<Rightarrow> string \<Rightarrow> bool" where
  "fk_plan d p = (\<not> db_fk d \<or> has_key pr_id p (t_plans d))"

text \<open>INSERT OR IGNORE INTO credit_grants: ignored when the id or the idempotency key is there;
  the flag is \<open>meta.changes\<close>.\<close>

definition ins_grant :: "grant_row \<Rightarrow> db \<Rightarrow> (bool \<times> db) option" where
  "ins_grant g d =
     (if has_key gr_id (gr_id g) (t_grants d) \<or> has_key gr_key (gr_key g) (t_grants d)
      then Some (False, d)
      else if \<not> fk_account d (gr_account_id g) then None
      else Some (True, d\<lparr>t_grants := t_grants d @ [g]\<rparr>))"

definition add_credit :: "int \<Rightarrow> string \<Rightarrow> db \<Rightarrow> db" where
  "add_credit n a d = d\<lparr>t_accounts :=
     update_where (\<lambda>r. ac_id r = a) (\<lambda>r. r\<lparr>ac_credit := ac_credit r + n\<rparr>) (t_accounts d)\<rparr>"

definition add_spent :: "int \<Rightarrow> string \<Rightarrow> db \<Rightarrow> db" where
  "add_spent n a d = d\<lparr>t_accounts :=
     update_where (\<lambda>r. ac_id r = a) (\<lambda>r. r\<lparr>ac_spent := ac_spent r + n\<rparr>) (t_accounts d)\<rparr>"

definition event_seen :: "usage_event \<Rightarrow> db \<Rightarrow> bool" where
  "event_seen e d =
     (has_key ue_id (ue_id e) (t_events d)
      \<or> list_ex (\<lambda>r. ue_client_id r = ue_client_id e \<and> ue_request_id r = ue_request_id e) (t_events d))"

definition ins_event :: "usage_event \<Rightarrow> int \<Rightarrow> db \<Rightarrow> (bool \<times> db) option" where
  "ins_event e now d =
     (if event_seen e d then Some (False, d)
      else if \<not> fk_account d (ue_account_id e) \<or> \<not> fk_client d (ue_client_id e) then None
      else Some (True, d\<lparr>t_events := t_events d @
             [usage_event.extend e \<lparr>ue_created_at = secs now\<rparr>]\<rparr>))"

definition period_key_of :: "period_row \<Rightarrow> string \<times> string" where
  "period_key_of r = (pe_account_id r, pe_period_key r)"

definition upsert_period :: "period_row \<Rightarrow> (period_row \<Rightarrow> period_row) \<Rightarrow> db \<Rightarrow> db option" where
  "upsert_period new f d =
     (if \<not> has_key period_key_of (period_key_of new) (t_periods d)
         \<and> \<not> fk_account d (pe_account_id new)
      then None
      else Some (d\<lparr>t_periods := upsert period_key_of new f (t_periods d)\<rparr>))"

text \<open>The usage rollup of \<open>recordUsage\<close>: micro-USD, one request, the unmetered count and the
  allowance.\<close>

definition bump_period_usage :: "string \<Rightarrow> string \<Rightarrow> int \<Rightarrow> int \<Rightarrow> int \<Rightarrow> db \<Rightarrow> db option" where
  "bump_period_usage a k micro unmetered allowance =
     upsert_period
       \<lparr>pe_account_id = a, pe_period_key = k, pe_micro_usd = micro, pe_requests = 1,
        pe_unmetered = unmetered, pe_adjust_spend = 0, pe_adjust_credit = 0,
        pe_allowance_spent = allowance\<rparr>
       (\<lambda>r. r\<lparr>pe_micro_usd := pe_micro_usd r + micro, pe_requests := pe_requests r + 1,
              pe_unmetered := pe_unmetered r + unmetered,
              pe_allowance_spent := pe_allowance_spent r + allowance\<rparr>)"

text \<open>The adjustment rollup of \<open>applyUsageAdjustment\<close>.\<close>

definition bump_period_adjust :: "string \<Rightarrow> string \<Rightarrow> int \<Rightarrow> int \<Rightarrow> db \<Rightarrow> db option" where
  "bump_period_adjust a k spend credit =
     upsert_period
       \<lparr>pe_account_id = a, pe_period_key = k, pe_micro_usd = 0, pe_requests = 0,
        pe_unmetered = 0, pe_adjust_spend = spend, pe_adjust_credit = credit,
        pe_allowance_spent = 0\<rparr>
       (\<lambda>r. r\<lparr>pe_adjust_spend := pe_adjust_spend r + spend,
              pe_adjust_credit := pe_adjust_credit r + credit\<rparr>)"

definition ins_adjustment :: "usage_adjustment \<Rightarrow> db \<Rightarrow> (bool \<times> db) option" where
  "ins_adjustment a d =
     (if has_key ua_id (ua_id a) (t_adjustments d) \<or> has_key ua_key (ua_key a) (t_adjustments d)
      then Some (False, d)
      else if \<not> fk_account d (ua_account_id a) then None
      else Some (True, d\<lparr>t_adjustments := t_adjustments d @ [a]\<rparr>))"

definition unit_res :: "db option \<Rightarrow> (unit \<times> db) option" where
  "unit_res r = map_option (\<lambda>d. ((), d)) r"

definition run_write :: "(db \<Rightarrow> db option) \<Rightarrow> (unit, 'z) m" where
  "run_write f = stmt (\<lambda>now d. unit_res (f d))"

section \<open>Plans, accounts, credit\<close>

definition get_plan :: "string \<Rightarrow> (plan_row option, 'z) m" where
  "get_plan i = query (\<lambda>now d. lookup pr_id i (t_plans d))"

definition put_plan :: "plan_row \<Rightarrow> (unit, 'z) m" where
  "put_plan row = run_write (\<lambda>d. Some (d\<lparr>t_plans := upsert pr_id row (\<lambda>_. row) (t_plans d)\<rparr>))"

definition get_account :: "string \<Rightarrow> (account_row option, 'z) m" where
  "get_account i = query (\<lambda>now d. lookup ac_id i (t_accounts d))"

text \<open>The batch of \<open>createAccount\<close>: both inserts or neither.  These are plain INSERTs, so a
  taken id or idempotency key is an error.\<close>

definition opening_account :: "string \<Rightarrow> string \<Rightarrow> string option \<Rightarrow> int \<Rightarrow> int \<Rightarrow> account_row" where
  "opening_account i p label credit now =
     \<lparr>ac_id = i, ac_plan_id = p, ac_label = label, ac_created_at = secs now,
      ac_suspended_at = None, ac_credit = credit, ac_spent = 0\<rparr>"

definition opening_grant :: "string \<Rightarrow> int \<Rightarrow> string \<Rightarrow> string \<Rightarrow> grant_row" where
  "opening_grant i credit gid gkey =
     \<lparr>gr_id = gid, gr_account_id = i, gr_micro_usd = credit, gr_key = gkey,
      gr_note = Some ''opening grant from plan signup credit''\<rparr>"

definition ins_account :: "string \<Rightarrow> string \<Rightarrow> string option \<Rightarrow> int \<Rightarrow> string \<Rightarrow> string \<Rightarrow> int \<Rightarrow> db \<Rightarrow> db option" where
  "ins_account i p label credit gid gkey now d =
     (if has_key ac_id i (t_accounts d) \<or> \<not> fk_plan d p
         \<or> has_key gr_id gid (t_grants d) \<or> has_key gr_key gkey (t_grants d)
      then None
      else Some (d\<lparr>t_accounts := t_accounts d @ [opening_account i p label credit now],
                   t_grants := t_grants d @ [opening_grant i credit gid gkey]\<rparr>))"

definition create_account :: "string \<Rightarrow> string \<Rightarrow> string option \<Rightarrow> int \<Rightarrow> string \<Rightarrow> string \<Rightarrow> (account_row, 'z) m" where
  "create_account i p label credit gid gkey =
     bindM (stmt (\<lambda>now d. unit_res (ins_account i p label credit gid gkey now d))) (\<lambda>_.
     bindM (get_account i) (\<lambda>row.
     case row of None \<Rightarrow> throwM (NotReadBack i) | Some r \<Rightarrow> retM r))"

text \<open>The result is (applied, the credit read back).\<close>

definition grant_credit :: "grant_row \<Rightarrow> (bool \<times> int, 'z) m" where
  "grant_credit g =
     bindM (stmt (\<lambda>now d. ins_grant g d)) (\<lambda>changed.
     bindM (if changed then run_write (\<lambda>d. Some (add_credit (gr_micro_usd g) (gr_account_id g) d))
            else retM ()) (\<lambda>_.
     bindM (query (\<lambda>now d. map_option ac_credit (lookup ac_id (gr_account_id g) (t_accounts d)))) (\<lambda>row.
     retM (changed, case row of None \<Rightarrow> 0 | Some c \<Rightarrow> c))))"

section \<open>Clients, enrollments, tickets\<close>

definition get_client_by_key_id :: "string \<Rightarrow> (client_row option, 'z) m" where
  "get_client_by_key_id k = query (\<lambda>now d. lookup cl_key_id k (t_clients d))"

definition get_client :: "string \<Rightarrow> (client_row option, 'z) m" where
  "get_client i = query (\<lambda>now d. lookup cl_id i (t_clients d))"

definition touch_client :: "string \<Rightarrow> (unit, 'z) m" where
  "touch_client i = stmt (\<lambda>now d. Some ((), d\<lparr>t_clients :=
     update_where (\<lambda>r. cl_id r = i) (\<lambda>r. r\<lparr>cl_last_seen_at := Some (secs now)\<rparr>) (t_clients d)\<rparr>))"

definition ins_client :: "new_client \<Rightarrow> int \<Rightarrow> db \<Rightarrow> db option" where
  "ins_client c now d =
     (if has_key cl_id (cl_id c) (t_clients d) \<or> has_key cl_key_id (cl_key_id c) (t_clients d)
         \<or> \<not> fk_account d (cl_account_id c)
      then None
      else Some (d\<lparr>t_clients := t_clients d @
             [new_client.extend c \<lparr>cl_created_at = secs now, cl_last_seen_at = None, cl_revoked_at = None\<rparr>]\<rparr>))"

definition create_client :: "new_client \<Rightarrow> (client_row, 'z) m" where
  "create_client c =
     bindM (stmt (\<lambda>now d. unit_res (ins_client c now d))) (\<lambda>_.
     bindM (get_client (cl_id c)) (\<lambda>row.
     case row of None \<Rightarrow> throwM (NotReadBack (cl_id c)) | Some r \<Rightarrow> retM r))"

definition live_client :: "string \<Rightarrow> client_row \<Rightarrow> bool" where
  "live_client i r = (cl_id r = i \<and> cl_revoked_at r = None)"

definition revoke_client :: "string \<Rightarrow> (bool, 'z) m" where
  "revoke_client i = stmt (\<lambda>now d.
     Some (list_ex (live_client i) (t_clients d),
           d\<lparr>t_clients := update_where (live_client i)
                (\<lambda>r. r\<lparr>cl_revoked_at := Some (secs now)\<rparr>) (t_clients d)\<rparr>))"

definition redeemable_enrollment :: "string \<Rightarrow> int \<Rightarrow> enrollment_row \<Rightarrow> bool" where
  "redeemable_enrollment h now r =
     (en_token_hash r = h \<and> en_consumed_at r = None \<and> secs (en_expires_at r) > secs now)"

definition consume_enrollment :: "string \<Rightarrow> string \<Rightarrow> (string option, 'z) m" where
  "consume_enrollment h client =
     bindM (stmt (\<lambda>now d.
       Some (list_ex (redeemable_enrollment h now) (t_enrollments d),
             d\<lparr>t_enrollments := update_where (redeemable_enrollment h now)
                 (\<lambda>r. r\<lparr>en_consumed_at := Some (secs now), en_consumed_by := Some client\<rparr>)
                 (t_enrollments d)\<rparr>))) (\<lambda>changed.
     if \<not> changed then retM None
     else query (\<lambda>now d. map_option en_account_id (lookup en_token_hash h (t_enrollments d))))"

definition create_enrollment :: "string \<Rightarrow> string \<Rightarrow> int \<Rightarrow> string option \<Rightarrow> (unit, 'z) m" where
  "create_enrollment h a expires note = run_write (\<lambda>d.
     if has_key en_token_hash h (t_enrollments d) \<or> \<not> fk_account d a then None
     else Some (d\<lparr>t_enrollments := t_enrollments d @
            [\<lparr>en_token_hash = h, en_account_id = a, en_expires_at = expires,
              en_consumed_at = None, en_consumed_by = None, en_note = note\<rparr>]\<rparr>))"

definition create_stt_ticket :: "string \<Rightarrow> string \<Rightarrow> string \<Rightarrow> int \<Rightarrow> (unit, 'z) m" where
  "create_stt_ticket h a c expires = run_write (\<lambda>d.
     if has_key tk_token_hash h (t_tickets d) \<or> \<not> fk_account d a \<or> \<not> fk_client d c then None
     else Some (d\<lparr>t_tickets := t_tickets d @
            [\<lparr>tk_token_hash = h, tk_account_id = a, tk_client_id = c, tk_expires_at = expires,
              tk_consumed_at = None\<rparr>]\<rparr>))"

definition redeemable_ticket :: "string \<Rightarrow> int \<Rightarrow> stt_ticket_row \<Rightarrow> bool" where
  "redeemable_ticket h now r =
     (tk_token_hash r = h \<and> tk_consumed_at r = None \<and> secs (tk_expires_at r) > secs now)"

definition consume_stt_ticket :: "string \<Rightarrow> ((string \<times> string) option, 'z) m" where
  "consume_stt_ticket h =
     bindM (stmt (\<lambda>now d.
       Some (list_ex (redeemable_ticket h now) (t_tickets d),
             d\<lparr>t_tickets := update_where (redeemable_ticket h now)
                 (\<lambda>r. r\<lparr>tk_consumed_at := Some (secs now)\<rparr>) (t_tickets d)\<rparr>))) (\<lambda>changed.
     if \<not> changed then retM None
     else query (\<lambda>now d. map_option (\<lambda>r. (tk_account_id r, tk_client_id r))
                             (lookup tk_token_hash h (t_tickets d))))"

section \<open>The ledger\<close>

definition get_period :: "string \<Rightarrow> string \<Rightarrow> (period_row option, 'z) m" where
  "get_period a k = query (\<lambda>now d. lookup period_key_of (a, k) (t_periods d))"

text \<open>The shares a row stores: those of a metered event, zero otherwise.\<close>

definition event_allowance :: "usage_event \<Rightarrow> int" where
  "event_allowance e = (if ue_metered e then ue_from_allowance e else 0)"

definition event_credit :: "usage_event \<Rightarrow> int" where
  "event_credit e = (if ue_metered e then ue_from_credit e else 0)"

definition stored_event :: "usage_event \<Rightarrow> usage_event" where
  "stored_event e = e\<lparr>ue_from_allowance := event_allowance e, ue_from_credit := event_credit e\<rparr>"

definition record_usage :: "usage_event \<Rightarrow> (unit, 'z) m" where
  "record_usage e =
     bindM (stmt (ins_event (stored_event e))) (\<lambda>changed.
     if \<not> changed then retM ()
     else
       bindM (run_write (bump_period_usage (ue_account_id e) (ue_period_key e)
                (if ue_metered e then ue_micro_usd e else 0) (if ue_metered e then 0 else 1)
                (event_allowance e))) (\<lambda>_.
       if ue_metered e \<and> event_credit e > 0
       then run_write (\<lambda>d. Some (add_spent (event_credit e) (ue_account_id e) d))
       else retM ()))"

definition get_usage_event_by_request_id :: "string \<Rightarrow> (usage_event option, 'z) m" where
  "get_usage_event_by_request_id r =
     query (\<lambda>now d. map_option usage_event.truncate (lookup ue_request_id r (t_events d)))"

text \<open>The two money batches of \<open>applyUsageAdjustment\<close>.\<close>

definition adjust_spend_batch :: "usage_adjustment \<Rightarrow> db \<Rightarrow> db option" where
  "adjust_spend_batch a d =
     bump_period_adjust (ua_account_id a) (ua_period_key a) (ua_applied a) 0
       (add_spent (ua_applied a) (ua_account_id a) d)"

definition adjustment_grant :: "usage_adjustment \<Rightarrow> grant_row" where
  "adjustment_grant a =
     \<lparr>gr_id = ua_id a, gr_account_id = ua_account_id a, gr_micro_usd = ua_applied a,
      gr_key = ua_key a,
      gr_note = Some (case ua_note a of Some n \<Rightarrow> n
                      | None \<Rightarrow> ''reconciliation credit for gateway log '' @ ua_gateway_log_id a)\<rparr>"

definition adjust_credit_batch :: "usage_adjustment \<Rightarrow> db \<Rightarrow> db option" where
  "adjust_credit_batch a d =
     (case ins_grant (adjustment_grant a) d of
        None \<Rightarrow> None
      | Some (_, d1) \<Rightarrow>
          bump_period_adjust (ua_account_id a) (ua_period_key a) 0 (ua_applied a)
            (add_credit (ua_applied a) (ua_account_id a) d1))"

definition apply_usage_adjustment :: "usage_adjustment \<Rightarrow> (bool, 'z) m" where
  "apply_usage_adjustment a =
     bindM (stmt (\<lambda>now d. ins_adjustment a d)) (\<lambda>changed.
     if \<not> changed then retM False
     else
       bindM (run_write (if ua_direction a = Spend then adjust_spend_batch a
                         else adjust_credit_batch a)) (\<lambda>_.
       retM True))"

text \<open>\<open>listUsageEventsBetween\<close>: a half-open window on \<open>datetime()\<close>, oldest first.\<close>

definition list_usage_events_between :: "int \<Rightarrow> int \<Rightarrow> int \<Rightarrow> (usage_event_key list, 'z) m" where
  "list_usage_events_between from_ms to_ms limit = query (\<lambda>now d.
     List.map (\<lambda>r. \<lparr>uk_id = ue_id r, uk_request_id = ue_request_id r, uk_micro_usd = ue_micro_usd r,
                    uk_metered = ue_metered r, uk_created_at = ue_created_at r\<rparr>)
       (take (nat limit)
         (sort_key ue_created_at
           (List.filter (\<lambda>r. ue_created_at r > secs from_ms \<and> ue_created_at r \<le> secs to_ms)
             (t_events d)))))"

section \<open>Reconciliation state\<close>

definition get_reconcile_state :: "string \<Rightarrow> (reconcile_state_row option, 'z) m" where
  "get_reconcile_state g = query (\<lambda>now d. lookup rs_gateway_id g (t_reconcile d))"

text \<open>\<open>COALESCE(a, b)\<close>.\<close>

definition coalesce :: "'a option \<Rightarrow> 'a option \<Rightarrow> 'a option" where
  "coalesce a b = (case a of None \<Rightarrow> b | Some x \<Rightarrow> Some x)"

definition advance_reconcile_state ::
  "string \<Rightarrow> int option \<Rightarrow> string option \<Rightarrow> int \<Rightarrow> int \<Rightarrow> int \<Rightarrow> (unit, 'z) m" where
  "advance_reconcile_state g watermark last_log at_ms seen adjusted = run_write (\<lambda>d.
     Some (d\<lparr>t_reconcile := upsert rs_gateway_id
       \<lparr>rs_gateway_id = g, rs_watermark = watermark, rs_last_log_id = last_log,
        rs_last_run_at = Some at_ms, rs_runs = 1, rs_rows_seen = seen, rs_rows_adjusted = adjusted\<rparr>
       (\<lambda>r. r\<lparr>rs_watermark := coalesce watermark (rs_watermark r),
              rs_last_log_id := coalesce last_log (rs_last_log_id r),
              rs_last_run_at := Some at_ms, rs_runs := rs_runs r + 1,
              rs_rows_seen := rs_rows_seen r + seen,
              rs_rows_adjusted := rs_rows_adjusted r + adjusted\<rparr>)
       (t_reconcile d)\<rparr>))"

section \<open>User tokens, prices, rate buckets\<close>

definition get_user_token :: "string \<Rightarrow> (user_token_row option, 'z) m" where
  "get_user_token a = query (\<lambda>now d. lookup ut_account_id a (t_tokens d))"

definition put_user_token :: "user_token_row \<Rightarrow> (unit, 'z) m" where
  "put_user_token row = run_write (\<lambda>d.
     if \<not> fk_account d (ut_account_id row) then None
     else Some (d\<lparr>t_tokens :=
       List.filter (\<lambda>r. ut_account_id r \<noteq> ut_account_id row) (t_tokens d) @ [row]\<rparr>))"

definition count_live_user_tokens :: "(nat, 'z) m" where
  "count_live_user_tokens =
     query (\<lambda>now d. length (List.filter (\<lambda>r. ut_revoked_at r = None) (t_tokens d)))"

definition mark_user_token_revoked :: "string \<Rightarrow> int \<Rightarrow> (unit, 'z) m" where
  "mark_user_token_revoked a at_ms = run_write (\<lambda>d. Some (d\<lparr>t_tokens :=
     update_where (\<lambda>r. ut_account_id r = a \<and> ut_revoked_at r = None)
       (\<lambda>r. r\<lparr>ut_revoked_at := Some at_ms\<rparr>) (t_tokens d)\<rparr>))"

definition touch_user_token :: "string \<Rightarrow> int \<Rightarrow> (unit, 'z) m" where
  "touch_user_token a at_ms = run_write (\<lambda>d. Some (d\<lparr>t_tokens :=
     update_where (\<lambda>r. ut_account_id r = a) (\<lambda>r. r\<lparr>ut_last_used_at := Some at_ms\<rparr>) (t_tokens d)\<rparr>))"

definition get_model_price :: "string \<Rightarrow> (model_price_row option, 'z) m" where
  "get_model_price i = query (\<lambda>now d. lookup mp_model_id i (t_prices d))"

text \<open>The order of \<open>ORDER BY model_id\<close> is by code unit.\<close>

definition string_key :: "string \<Rightarrow> nat list" where
  "string_key s = List.map ord_of s"

fun lex_le :: "nat list \<Rightarrow> nat list \<Rightarrow> bool" where
  "lex_le [] ys = True"
| "lex_le (x # xs) [] = False"
| "lex_le (x # xs) (y # ys) = (x < y \<or> (x = y \<and> lex_le xs ys))"

fun insert_price :: "model_price_row \<Rightarrow> model_price_row list \<Rightarrow> model_price_row list" where
  "insert_price r [] = [r]"
| "insert_price r (x # xs) =
     (if lex_le (string_key (mp_model_id r)) (string_key (mp_model_id x)) then r # x # xs
      else x # insert_price r xs)"

definition list_model_prices :: "(model_price_row list, 'z) m" where
  "list_model_prices = query (\<lambda>now d. foldr insert_price (t_prices d) [])"

definition put_model_price :: "model_price_row \<Rightarrow> (unit, 'z) m" where
  "put_model_price row =
     run_write (\<lambda>d. Some (d\<lparr>t_prices := upsert mp_model_id row (\<lambda>_. row) (t_prices d)\<rparr>))"

text \<open>The one UPSERT of \<open>claimRateBucket\<close>, returning the row it leaves.\<close>

definition claim_bucket :: "string \<Rightarrow> int \<Rightarrow> int \<Rightarrow> db \<Rightarrow> rate_row \<times> db" where
  "claim_bucket k now window d =
     (let rows = upsert bk_key \<lparr>bk_key = k, bk_row = \<lparr>rr_count = 1, rr_window_start = now\<rparr>\<rparr>
            (\<lambda>b. b\<lparr>bk_row :=
               (if now - rr_window_start (bk_row b) \<ge> window
                then \<lparr>rr_count = 1, rr_window_start = now\<rparr>
                else \<lparr>rr_count = rr_count (bk_row b) + 1,
                      rr_window_start = rr_window_start (bk_row b)\<rparr>)\<rparr>)
            (t_buckets d)
      in (case lookup bk_key k rows of
            None \<Rightarrow> \<lparr>rr_count = 1, rr_window_start = now\<rparr>
          | Some b \<Rightarrow> bk_row b, d\<lparr>t_buckets := rows\<rparr>))"

definition claim_rate_bucket :: "string \<Rightarrow> int \<Rightarrow> int \<Rightarrow> (rate_row, 'z) m" where
  "claim_rate_bucket k now_sec window = stmt (\<lambda>now d. Some (claim_bucket k now_sec window d))"

definition now_epoch_seconds :: "(int, 'z) m" where
  "now_epoch_seconds = query (\<lambda>now d. secs now)"

definition check_rate_limit :: "string \<Rightarrow> int \<Rightarrow> int \<Rightarrow> (rl_decision, 'z) m" where
  "check_rate_limit k limit window =
     bindM now_epoch_seconds (\<lambda>now.
     bindM (claim_rate_bucket k now window) (\<lambda>row.
     retM (decision_of_row now row limit window)))"

section \<open>Health and jobs\<close>

definition probe_schema :: "(unit, 'z) m" where
  "probe_schema =
     bindM (query (\<lambda>now d. length (t_plans d))) (\<lambda>_.
     bindM (query (\<lambda>now d. length (t_periods d))) (\<lambda>_.
     bindM (query (\<lambda>now d. length (t_clients d))) (\<lambda>_.
     bindM (query (\<lambda>now d. length (t_tokens d))) (\<lambda>_.
     bindM (query (\<lambda>now d. length (t_grants d))) (\<lambda>_.
     bindM (query (\<lambda>now d. length (t_prices d))) (\<lambda>_.
     bindM (query (\<lambda>now d. length (t_jobs d))) (\<lambda>_. retM ())))))))"

definition create_async_job :: "async_job_row \<Rightarrow> (unit, 'z) m" where
  "create_async_job row = run_write (\<lambda>d.
     if has_key aj_id (aj_id row) (t_jobs d) then Some d
     else Some (d\<lparr>t_jobs := t_jobs d @ [row]\<rparr>))"

definition get_async_job :: "string \<Rightarrow> (async_job_row option, 'z) m" where
  "get_async_job i = query (\<lambda>now d. lookup aj_id i (t_jobs d))"

definition list_async_jobs_by_client :: "string \<Rightarrow> nat \<Rightarrow> job_status option \<Rightarrow> (async_job_row list, 'z) m" where
  "list_async_jobs_by_client c limit status = query (\<lambda>now d.
     take limit (sort_key (\<lambda>r. - aj_created_at r)
       (List.filter (\<lambda>r. aj_client_id r = c \<and> (case status of None \<Rightarrow> True | Some s \<Rightarrow> aj_status r = s))
         (t_jobs d))))"

text \<open>An argument \<open>None\<close> is undefined in the source: the stored value stays.\<close>

definition update_async_job ::
  "string \<Rightarrow> job_status \<Rightarrow> string option option \<Rightarrow> string option option \<Rightarrow> string option option
     \<Rightarrow> int \<Rightarrow> (unit, 'z) m" where
  "update_async_job i status result_json error_code error_detail at_ms =
     bindM (get_async_job i) (\<lambda>existing.
     case existing of
       None \<Rightarrow> retM ()
     | Some old \<Rightarrow> run_write (\<lambda>d. Some (d\<lparr>t_jobs :=
         update_where (\<lambda>r. aj_id r = i)
           (\<lambda>r. r\<lparr>aj_status := status,
                  aj_result_json := (case result_json of Some v \<Rightarrow> v | None \<Rightarrow> aj_result_json old),
                  aj_error_code := (case error_code of Some v \<Rightarrow> v | None \<Rightarrow> aj_error_code old),
                  aj_error_detail := (case error_detail of Some v \<Rightarrow> v | None \<Rightarrow> aj_error_detail old),
                  aj_updated_at := at_ms\<rparr>) (t_jobs d)\<rparr>)))"

end
