(* ===== verification/StoreLemmas.thy ===== *)
theory StoreLemmas
  imports Store
begin

text \<open>
  Reasoning about store operations: running them without faults, properties every statement of
  an operation preserves, the interpretation of the rate limiter's interface on the D1 claim,
  and the interface of single-use credentials with its two providers.
\<close>

section \<open>Running\<close>

named_theorems run_simps \<open>symbolic evaluation of store operations\<close>

lemma retM_run [simp]: "retM x w = (Inr x, w)"
  by (simp add: retM_def)

lemma throwM_run [simp]: "throwM e w = (Inl e, w)"
  by (simp add: throwM_def)

lemma bindM_run:
  "bindM c k w = (case c w of (Inl e, w') \<Rightarrow> (Inl e, w') | (Inr x, w') \<Rightarrow> k x w')"
  by (simp add: bindM_def)

lemma bindM_Inr: "c w = (Inr x, w') \<Longrightarrow> bindM c k w = k x w'"
  by (simp add: bindM_def)

lemma bindM_Inl: "c w = (Inl e, w') \<Longrightarrow> bindM c k w = (Inl e, w')"
  by (simp add: bindM_def)

lemma bindM_retM [simp]: "bindM (retM x) k = k x"
  by (rule ext) (simp add: bindM_def)

lemma bindM_throwM [simp]: "bindM (throwM e) k = throwM e"
  by (rule ext) (simp add: bindM_def throwM_def)

lemma bindM_assoc: "bindM (bindM c k) h = bindM c (\<lambda>x. bindM (k x) h)"
  by (rule ext) (auto simp: bindM_def split: sum.splits prod.splits)

text \<open>A world where every coming statement completes at once.\<close>

definition quiet :: "'z world_scheme \<Rightarrow> bool" where
  "quiet w = (w_sched w = [])"

lemma quiet_db [simp]: "quiet (w\<lparr>w_db := d\<rparr>) = quiet w"
  by (simp add: quiet_def)

lemma stmt_quiet [run_simps]:
  "quiet w \<Longrightarrow> stmt f w =
     (case f (w_now w) (w_db w) of None \<Rightarrow> (Inl DbError, w)
      | Some (x, d) \<Rightarrow> (Inr x, w\<lparr>w_db := d\<rparr>))"
  by (simp add: stmt_def quiet_def split: option.splits)

lemma query_quiet [run_simps]: "quiet w \<Longrightarrow> query f w = (Inr (f (w_now w) (w_db w)), w)"
  by (simp add: query_def stmt_quiet)

lemma run_write_quiet [run_simps]:
  "quiet w \<Longrightarrow> run_write f w =
     (case f (w_db w) of None \<Rightarrow> (Inl DbError, w) | Some d \<Rightarrow> (Inr (), w\<lparr>w_db := d\<rparr>))"
  by (simp add: run_write_def stmt_quiet unit_res_def split: option.splits)

section \<open>What every statement preserves\<close>

text \<open>\<open>R\<close> relates the database before an operation to the one after it, whatever the
  schedule: faults and lost answers included.\<close>

definition db_rel :: "(db \<Rightarrow> db \<Rightarrow> bool) \<Rightarrow> ('a, 'z) m \<Rightarrow> bool" where
  "db_rel R c \<longleftrightarrow> (\<forall>w. R (w_db w) (w_db (snd (c w))))"

named_theorems db_rel_intros \<open>composition rules for \<open>db_rel\<close>\<close>

lemma db_relD: "db_rel R c \<Longrightarrow> R (w_db w) (w_db (snd (c w)))"
  by (simp add: db_rel_def)

lemma db_rel_ret [db_rel_intros]: "reflp R \<Longrightarrow> db_rel R (retM x)"
  by (simp add: db_rel_def reflpD)

lemma db_rel_throw [db_rel_intros]: "reflp R \<Longrightarrow> db_rel R (throwM e)"
  by (simp add: db_rel_def reflpD)

lemma db_rel_bind [db_rel_intros]:
  assumes "transp R" "db_rel R c" "\<And>x. db_rel R (k x)"
  shows "db_rel R (bindM c k)"
  unfolding db_rel_def
proof
  fix w
  obtain r w' where c: "c w = (r, w')" by (cases "c w")
  have 1: "R (w_db w) (w_db w')" using db_relD [OF assms(2), of w] c by simp
  show "R (w_db w) (w_db (snd (bindM c k w)))"
  proof (cases r)
    case (Inl e)
    then show ?thesis using c 1 by (simp add: bindM_def)
  next
    case (Inr x)
    have "R (w_db w') (w_db (snd (k x w')))" by (rule db_relD [OF assms(3)])
    with 1 have "R (w_db w) (w_db (snd (k x w')))" using assms(1) by (meson transpD)
    then show ?thesis using c Inr by (simp add: bindM_def)
  qed
qed

lemma db_rel_catch [db_rel_intros]:
  assumes "transp R" "db_rel R c" "\<And>e. db_rel R (h e)"
  shows "db_rel R (catchM c h)"
  unfolding db_rel_def
proof
  fix w
  obtain r w' where c: "c w = (r, w')" by (cases "c w")
  have 1: "R (w_db w) (w_db w')" using db_relD [OF assms(2), of w] c by simp
  show "R (w_db w) (w_db (snd (catchM c h w)))"
  proof (cases r)
    case (Inl e)
    have "R (w_db w') (w_db (snd (h e w')))" by (rule db_relD [OF assms(3)])
    with 1 have "R (w_db w) (w_db (snd (h e w')))" using assms(1) by (meson transpD)
    then show ?thesis using c Inl by (simp add: catchM_def)
  next
    case (Inr x)
    then show ?thesis using c 1 by (simp add: catchM_def)
  qed
qed

lemma db_rel_stmt [db_rel_intros]:
  assumes "reflp R" "\<And>now d x d'. f now d = Some (x, d') \<Longrightarrow> R d d'"
  shows "db_rel R (stmt f)"
  using assms
  by (auto simp: db_rel_def stmt_def Let_def reflpD split: fault.splits option.splits prod.splits)

lemma db_rel_query [db_rel_intros]: "reflp R \<Longrightarrow> db_rel R (query f)"
  unfolding query_def by (rule db_rel_stmt) (auto simp: reflpD)

lemma db_rel_write [db_rel_intros]:
  assumes "reflp R" "\<And>d d'. f d = Some d' \<Longrightarrow> R d d'"
  shows "db_rel R (run_write f)"
  unfolding run_write_def
  by (rule db_rel_stmt) (use assms in \<open>auto simp: unit_res_def\<close>)

lemma db_rel_if [db_rel_intros]:
  "db_rel R a \<Longrightarrow> db_rel R b \<Longrightarrow> db_rel R (if c then a else b)"
  by simp

lemma db_rel_option [db_rel_intros]:
  "db_rel R a \<Longrightarrow> (\<And>x. db_rel R (b x)) \<Longrightarrow> db_rel R (case v of None \<Rightarrow> a | Some x \<Rightarrow> b x)"
  by (cases v) simp_all

lemma db_rel_sum [db_rel_intros]:
  "(\<And>x. db_rel R (a x)) \<Longrightarrow> (\<And>x. db_rel R (b x)) \<Longrightarrow> db_rel R (case v of Inl x \<Rightarrow> a x | Inr x \<Rightarrow> b x)"
  by (cases v) simp_all

text \<open>An operation that reads and never writes.\<close>

lemma refl_trans_eq: "reflp ((=) :: db \<Rightarrow> _)" "transp ((=) :: db \<Rightarrow> _)"
  by (simp_all add: reflp_def transp_def)

definition read_only :: "('a, 'z) m \<Rightarrow> bool" where
  "read_only c = db_rel (=) c"

lemma read_only_db: "read_only c \<Longrightarrow> w_db (snd (c w)) = w_db w"
  by (auto simp: read_only_def db_rel_def)

lemmas read_only_intros =
  db_rel_ret [OF refl_trans_eq(1)] db_rel_throw [OF refl_trans_eq(1)]
  db_rel_query [OF refl_trans_eq(1)] db_rel_bind [OF refl_trans_eq(2)]
  db_rel_catch [OF refl_trans_eq(2)] db_rel_if db_rel_option

lemma get_ops_read_only:
  "read_only (get_plan i)" "read_only (get_account i)" "read_only (get_client_by_key_id k)"
  "read_only (get_client i)" "read_only (get_period i k)" "read_only (get_usage_event_by_request_id r)"
  "read_only (list_usage_events_between a b l)" "read_only (get_reconcile_state g)"
  "read_only (get_user_token i)" "read_only count_live_user_tokens" "read_only (get_model_price i)"
  "read_only list_model_prices" "read_only now_epoch_seconds" "read_only probe_schema"
  "read_only (get_async_job i)" "read_only (list_async_jobs_by_client c n s)"
  unfolding read_only_def get_plan_def get_account_def get_client_by_key_id_def get_client_def
    get_period_def get_usage_event_by_request_id_def list_usage_events_between_def
    get_reconcile_state_def get_user_token_def count_live_user_tokens_def get_model_price_def
    list_model_prices_def now_epoch_seconds_def probe_schema_def get_async_job_def
    list_async_jobs_by_client_def
  by (intro read_only_intros)+

section \<open>What a successful run passed through\<close>

named_theorems run_elims \<open>elimination rules for successful runs\<close>

lemma query_result:
  "query f w = (Inr x, w') \<Longrightarrow> w_db w' = w_db w \<and> (\<exists>now. x = f now (w_db w))"
  by (auto simp: query_def stmt_def Let_def split: fault.splits prod.splits)

lemma bindM_InrE [run_elims]:
  assumes "bindM c k w = (Inr y, w'')"
  obtains x w' where "c w = (Inr x, w')" "k x w' = (Inr y, w'')"
  using assms by (auto simp: bindM_def split: sum.splits prod.splits)

section \<open>The rate limiter on D1\<close>

definition look_bucket :: "db \<Rightarrow> string \<Rightarrow> rate_row option" where
  "look_bucket d k = map_option bk_row (lookup bk_key k (t_buckets d))"

lemma look_claim_bucket:
  "look_bucket (snd (claim_bucket k now w d)) k' =
     (if k' = k then Some (fst (claim_bucket k now w d)) else look_bucket d k')"
  by (auto simp: claim_bucket_def look_bucket_def Let_def lookup_upsert split: option.splits)

lemma claim_bucket_row:
  "fst (claim_bucket k now w d) =
     (case look_bucket d k of
        None \<Rightarrow> \<lparr>rr_count = 1, rr_window_start = now\<rparr>
      | Some r \<Rightarrow> if now - rr_window_start r \<ge> w then \<lparr>rr_count = 1, rr_window_start = now\<rparr>
                  else r\<lparr>rr_count := rr_count r + 1\<rparr>)"
  by (auto simp: claim_bucket_def look_bucket_def Let_def lookup_upsert split: option.splits)

interpretation limiter: rate_store look_bucket claim_bucket
  by unfold_locales (auto simp: look_claim_bucket claim_bucket_row)

lemma check_rate_limit_quiet:
  assumes "quiet w"
  shows "check_rate_limit k limit window w =
           (let (dec, d) = limiter.check k limit window (secs (w_now w)) (w_db w)
            in (Inr dec, w\<lparr>w_db := d\<rparr>))"
  using assms
  by (simp add: check_rate_limit_def now_epoch_seconds_def claim_rate_bucket_def limiter.check_eq
      bindM_run query_quiet stmt_quiet split_beta)

section \<open>Single-use credentials\<close>

text \<open>
  A credential is redeemed by its hash at an instant.  The laws, on states that satisfy the
  provider's invariant: a redemption succeeds exactly on a live credential and leaves it dead,
  and a redemption of one hash never revives any other.
\<close>

locale single_use =
  fixes inv    :: "'s \<Rightarrow> bool"
    and live   :: "'s \<Rightarrow> string \<Rightarrow> int \<Rightarrow> bool"
    and redeem :: "string \<Rightarrow> int \<Rightarrow> 's \<Rightarrow> bool \<times> 's"
  assumes redeem_inv: "inv s \<Longrightarrow> inv (snd (redeem h now s))"
    and redeem_live: "fst (redeem h now s) \<longleftrightarrow> live s h now"
    and redeem_kills: "inv s \<Longrightarrow> live s h now \<Longrightarrow> \<not> live (snd (redeem h now s)) h later"
    and redeem_no_revive: "live (snd (redeem h now s)) h' later \<Longrightarrow> live s h' later"
begin

fun redeem_all :: "(string \<times> int) list \<Rightarrow> 's \<Rightarrow> (string \<times> bool) list \<times> 's" where
  "redeem_all [] s = ([], s)"
| "redeem_all ((h, now) # rs) s =
     (let (ok, s1) = redeem h now s; (os, s2) = redeem_all rs s1 in ((h, ok) # os, s2))"

lemma dead_stays_dead:
  assumes "\<And>t. \<not> live s h t"
  shows "(h, True) \<notin> set (fst (redeem_all rs s))"
  using assms
proof (induction rs arbitrary: s)
  case (Cons r rs)
  obtain h' now where r: "r = (h', now)" by (cases r)
  have dead: "\<And>t. \<not> live (snd (redeem h' now s)) h t"
    using Cons.prems redeem_no_revive by blast
  have no: "\<not> (h' = h \<and> fst (redeem h' now s))"
    using Cons.prems redeem_live by blast
  show ?case using Cons.IH [OF dead] no r by (auto simp: split_beta)
qed simp

text \<open>However many redemptions of however many hashes race, each hash succeeds at most once.\<close>

lemma at_most_once:
  assumes "inv s"
  shows "length (List.filter (\<lambda>p. p = (h, True)) (fst (redeem_all rs s))) \<le> 1"
  using assms
proof (induction rs arbitrary: s)
  case (Cons r rs)
  obtain h' now where r: "r = (h', now)" by (cases r)
  let ?s1 = "snd (redeem h' now s)"
  show ?case
  proof (cases "h' = h \<and> fst (redeem h' now s)")
    case True
    then have "\<And>t. \<not> live ?s1 h t" using redeem_kills Cons.prems redeem_live by blast
    then have "(h, True) \<notin> set (fst (redeem_all rs ?s1))" by (rule dead_stays_dead)
    then have "List.filter (\<lambda>p. p = (h, True)) (fst (redeem_all rs ?s1)) = []"
      by (auto simp: filter_empty_conv)
    with True r show ?thesis by (simp add: split_beta)
  next
    case False
    with r Cons.IH [of ?s1] redeem_inv Cons.prems show ?thesis by (auto simp: split_beta)
  qed
qed simp

end

definition redeem_enrollment :: "string \<Rightarrow> string \<Rightarrow> int \<Rightarrow> db \<Rightarrow> bool \<times> db" where
  "redeem_enrollment client h now d =
     (list_ex (redeemable_enrollment h now) (t_enrollments d),
      d\<lparr>t_enrollments := update_where (redeemable_enrollment h now)
          (\<lambda>r. r\<lparr>en_consumed_at := Some (secs now), en_consumed_by := Some client\<rparr>) (t_enrollments d)\<rparr>)"

definition redeem_ticket :: "string \<Rightarrow> int \<Rightarrow> db \<Rightarrow> bool \<times> db" where
  "redeem_ticket h now d =
     (list_ex (redeemable_ticket h now) (t_tickets d),
      d\<lparr>t_tickets := update_where (redeemable_ticket h now)
          (\<lambda>r. r\<lparr>tk_consumed_at := Some (secs now)\<rparr>) (t_tickets d)\<rparr>)"

text \<open>The primary keys of the two tables.\<close>

definition enrollments_pk :: "db \<Rightarrow> bool" where
  "enrollments_pk d = distinct (List.map en_token_hash (t_enrollments d))"

definition tickets_pk :: "db \<Rightarrow> bool" where
  "tickets_pk d = distinct (List.map tk_token_hash (t_tickets d))"

definition live_enrollment :: "db \<Rightarrow> string \<Rightarrow> int \<Rightarrow> bool" where
  "live_enrollment d h now = list_ex (redeemable_enrollment h now) (t_enrollments d)"

definition live_ticket :: "db \<Rightarrow> string \<Rightarrow> int \<Rightarrow> bool" where
  "live_ticket d h now = list_ex (redeemable_ticket h now) (t_tickets d)"

lemma list_ex_update_where:
  "list_ex Q (update_where P f rows) \<longleftrightarrow> (\<exists>r\<in>set rows. Q (if P r then f r else r))"
  by (auto simp: update_where_def list_ex_iff)

lemma set_update_where: "set (update_where P f rows) = (\<lambda>r. if P r then f r else r) ` set rows"
  by (auto simp: update_where_def)

lemma pk_same_row:
  "distinct (List.map key rows) \<Longrightarrow> r \<in> set rows \<Longrightarrow> r' \<in> set rows \<Longrightarrow> key r = key r' \<Longrightarrow> r = r'"
  by (metis distinct_map inj_onD)

interpretation enrollments: single_use enrollments_pk live_enrollment "redeem_enrollment client"
  for client
proof
  fix d h h' now later
  show "enrollments_pk d \<Longrightarrow> enrollments_pk (snd (redeem_enrollment client h now d))"
    by (simp add: enrollments_pk_def redeem_enrollment_def keys_update_where)
  show "fst (redeem_enrollment client h now d) = live_enrollment d h now"
    by (simp add: redeem_enrollment_def live_enrollment_def)
  show "live_enrollment (snd (redeem_enrollment client h now d)) h' later \<Longrightarrow> live_enrollment d h' later"
    by (auto simp: redeem_enrollment_def live_enrollment_def set_update_where list_ex_iff
        redeemable_enrollment_def split: if_splits)
  assume pk: "enrollments_pk d" and l: "live_enrollment d h now"
  show "\<not> live_enrollment (snd (redeem_enrollment client h now d)) h later"
  proof
    assume "live_enrollment (snd (redeem_enrollment client h now d)) h later"
    then obtain r where r: "r \<in> set (t_enrollments d)" "\<not> redeemable_enrollment h now r"
        "redeemable_enrollment h later r"
      by (auto simp: redeem_enrollment_def live_enrollment_def list_ex_update_where
          redeemable_enrollment_def split: if_splits)
    from l obtain r' where r': "r' \<in> set (t_enrollments d)" "redeemable_enrollment h now r'"
      by (auto simp: live_enrollment_def list_ex_iff)
    have "r = r'"
      using pk r r' pk_same_row [of en_token_hash "t_enrollments d" r r']
      by (simp add: enrollments_pk_def redeemable_enrollment_def)
    with r r' show False by simp
  qed
qed

interpretation tickets: single_use tickets_pk live_ticket redeem_ticket
proof
  fix d h h' now later
  show "tickets_pk d \<Longrightarrow> tickets_pk (snd (redeem_ticket h now d))"
    by (simp add: tickets_pk_def redeem_ticket_def keys_update_where)
  show "fst (redeem_ticket h now d) = live_ticket d h now"
    by (simp add: redeem_ticket_def live_ticket_def)
  show "live_ticket (snd (redeem_ticket h now d)) h' later \<Longrightarrow> live_ticket d h' later"
    by (auto simp: redeem_ticket_def live_ticket_def set_update_where list_ex_iff
        redeemable_ticket_def split: if_splits)
  assume pk: "tickets_pk d" and l: "live_ticket d h now"
  show "\<not> live_ticket (snd (redeem_ticket h now d)) h later"
  proof
    assume "live_ticket (snd (redeem_ticket h now d)) h later"
    then obtain r where r: "r \<in> set (t_tickets d)" "\<not> redeemable_ticket h now r"
        "redeemable_ticket h later r"
      by (auto simp: redeem_ticket_def live_ticket_def list_ex_update_where
          redeemable_ticket_def split: if_splits)
    from l obtain r' where r': "r' \<in> set (t_tickets d)" "redeemable_ticket h now r'"
      by (auto simp: live_ticket_def list_ex_iff)
    have "r = r'"
      using pk r r' pk_same_row [of tk_token_hash "t_tickets d" r r']
      by (simp add: tickets_pk_def redeemable_ticket_def)
    with r r' show False by simp
  qed
qed

text \<open>The operations of the code are redemptions: the UPDATE is \<open>redeem\<close>, and the caller gets
  a row exactly when it changed one.\<close>

lemma consume_enrollment_redeem:
  "consume_enrollment h client =
     bindM (stmt (\<lambda>now d. Some (redeem_enrollment client h now d))) (\<lambda>changed.
       if \<not> changed then retM None
       else query (\<lambda>now d. map_option en_account_id (lookup en_token_hash h (t_enrollments d))))"
  by (simp add: consume_enrollment_def redeem_enrollment_def)

lemma consume_stt_ticket_redeem:
  "consume_stt_ticket h =
     bindM (stmt (\<lambda>now d. Some (redeem_ticket h now d))) (\<lambda>changed.
       if \<not> changed then retM None
       else query (\<lambda>now d. map_option (\<lambda>r. (tk_account_id r, tk_client_id r))
                               (lookup tk_token_hash h (t_tickets d))))"
  by (simp add: consume_stt_ticket_def redeem_ticket_def)

lemma consume_enrollment_quiet:
  assumes "quiet w"
  shows "fst (consume_enrollment h client w) =
           Inr (if live_enrollment (w_db w) h (w_now w)
                then map_option en_account_id (lookup en_token_hash h (t_enrollments (w_db w)))
                else None)"
    and "w_db (snd (consume_enrollment h client w)) = snd (redeem_enrollment client h (w_now w) (w_db w))"
proof -
  have key: "map_option en_account_id (lookup en_token_hash h (update_where (redeemable_enrollment h t)
          (\<lambda>r. r\<lparr>en_consumed_at := Some (secs t), en_consumed_by := Some client\<rparr>) rows)) =
        map_option en_account_id (lookup en_token_hash h rows)" for t rows
    by (subst lookup_update_where) (auto split: option.splits simp: option.map_comp comp_def
        intro!: option.map_cong0)
  show "fst (consume_enrollment h client w) =
           Inr (if live_enrollment (w_db w) h (w_now w)
                then map_option en_account_id (lookup en_token_hash h (t_enrollments (w_db w)))
                else None)"
    using assms key by (simp add: consume_enrollment_def live_enrollment_def bindM_run run_simps)
  show "w_db (snd (consume_enrollment h client w)) = snd (redeem_enrollment client h (w_now w) (w_db w))"
    using assms by (simp add: consume_enrollment_def redeem_enrollment_def bindM_run run_simps)
qed

section \<open>Properties\<close>

text \<open>The handler's limiter, which claims a row in D1 and then judges it, decides as the pure
  fixed-window decision does on the bucket as it was.\<close>
lemma check_rate_limit_decides_purely:
  assumes "quiet w" "1 \<le> limit" "1 \<le> window"
  shows "fst (check_rate_limit k limit window w) =
           Inr (rate_limit_decision (secs (w_now w))
                  (map_option rr_window_start (look_bucket (w_db w) k))
                  (case look_bucket (w_db w) k of None \<Rightarrow> 0 | Some r \<Rightarrow> rr_count r) limit window)"
  using limiter.check_is_pure_decision [OF assms(2,3), of k "secs (w_now w)" "w_db w"]
  by (simp add: check_rate_limit_quiet [OF assms(1)] split_beta)

text \<open>C8. Within one window the limiter lets at most \<open>limit\<close> attempts through, whatever their
  instants and however many there are, and every attempt is counted, refused ones included, so
  sustained pressure keeps the bucket shut.\<close>
theorem rate_limit_bounds_window:
  assumes "look_bucket d k = Some r" "0 \<le> rr_count r" "0 \<le> limit"
    and "\<forall>t\<in>set ts. t - rr_window_start r < window"
  shows "int (length (List.filter rl_allowed (fst (limiter.attempts k limit window ts d)))) \<le> max 0 (limit - rr_count r)
       \<and> look_bucket (snd (limiter.attempts k limit window ts d)) k =
           Some (r\<lparr>rr_count := rr_count r + int (length ts)\<rparr>)"
  using assms limiter.attempts_bounded [of d k r limit ts window]
    limiter.attempts_within_window [of d k r ts window limit] by auto

theorem rate_limit_bounds_window_witness:
  "int (length (List.filter rl_allowed (fst (limiter.attempts ''b'' 2 60 [101, 102, 103]
     (empty_db\<lparr>t_buckets := [\<lparr>bk_key = ''b'', bk_row = \<lparr>rr_count = 1, rr_window_start = 100\<rparr>\<rparr>]\<rparr>))))) \<le> max 0 (2 - 1)"
  using rate_limit_bounds_window [of "empty_db\<lparr>t_buckets := [\<lparr>bk_key = ''b'', bk_row = \<lparr>rr_count = 1, rr_window_start = 100\<rparr>\<rparr>]\<rparr>"
      "''b''" "\<lparr>rr_count = 1, rr_window_start = 100\<rparr>" 2 "[101, 102, 103]" 60]
  by (simp add: look_bucket_def)



end
