(* ===== verification/Json.thy ===== *)
theory Json
  imports Prelude
begin

text \<open>
  The parts of the JavaScript library that turn text into values: Number(string), JSON.parse and
  TextDecoder.  Code points above U+00FF become a question mark, as strings here are Latin-1; a
  magnitude that rounds past the largest binary64 number is an infinity.
\<close>

section \<open>Numbers\<close>

definition overflow_bound :: rat where
  "overflow_bound = 2 ^ 1024 - 2 ^ 970"

definition num_of_exact :: "rat \<Rightarrow> jsnum" where
  "num_of_exact r = (if overflow_bound \<le> r then NPosInf
                     else if r \<le> - overflow_bound then NNegInf else num_of_rat r)"

definition scan_digits :: "string \<Rightarrow> string \<times> string" where
  "scan_digits s = (takeWhile is_digit_char s, dropWhile is_digit_char s)"

text \<open>The rest after one expected character.\<close>

fun eat :: "char \<Rightarrow> string \<Rightarrow> string option" where
  "eat c [] = None"
| "eat c (x # xs) = (if x = c then Some xs else None)"

text \<open>The digits after a point, when there is one.\<close>

definition scan_fraction :: "string \<Rightarrow> string \<times> string" where
  "scan_fraction s = (case eat CHR ''.'' s of Some r \<Rightarrow> scan_digits r | None \<Rightarrow> ([], s))"

text \<open>An optional sign: whether it is a minus, and the rest.\<close>

definition scan_sign :: "string \<Rightarrow> bool \<times> string" where
  "scan_sign t = (case eat CHR ''-'' t of Some u \<Rightarrow> (True, u)
                  | None \<Rightarrow> (case eat CHR ''+'' t of Some u \<Rightarrow> (False, u) | None \<Rightarrow> (False, t)))"

definition scale10 :: "int \<Rightarrow> int \<Rightarrow> rat" where
  "scale10 n e = (if 0 \<le> e then of_int n * 10 ^ nat e else of_int n / 10 ^ nat (- e))"

text \<open>An optional exponent: its value and the rest; a lone e is left in the rest.\<close>

definition scan_exponent :: "string \<Rightarrow> int \<times> string" where
  "scan_exponent s =
     (case s of
        c # t \<Rightarrow>
          if c = CHR ''e'' \<or> c = CHR ''E'' then
            (let (neg, u) = scan_sign t;
                 (ds, r) = scan_digits u
             in if ds = [] then (0, s)
                else (if neg then - int (nat_of_dec ds) else int (nat_of_dec ds), r))
          else (0, s)
      | [] \<Rightarrow> (0, s))"

text \<open>The unsigned decimal literal of Number(): digits with an optional point on either side.\<close>

definition unsigned_decimal :: "string \<Rightarrow> (rat \<times> string) option" where
  "unsigned_decimal s =
     (let (ip, r1) = scan_digits s;
          (fp, r2) = scan_fraction r1;
          (e, r3) = scan_exponent r2
      in if ip = [] \<and> fp = [] then None
         else Some (scale10 (int (nat_of_dec (ip @ fp))) (e - int (length fp)), r3))"

definition hex_val :: "char \<Rightarrow> nat option" where
  "hex_val c = (let n = ord_of c in
     if 48 \<le> n \<and> n \<le> 57 then Some (n - 48)
     else if 97 \<le> n \<and> n \<le> 102 then Some (n - 87)
     else if 65 \<le> n \<and> n \<le> 70 then Some (n - 55) else None)"

fun radix_value :: "nat \<Rightarrow> nat \<Rightarrow> string \<Rightarrow> nat option" where
  "radix_value b acc [] = Some acc"
| "radix_value b acc (c # cs) =
     (case hex_val c of None \<Rightarrow> None
      | Some d \<Rightarrow> if d < b then radix_value b (b * acc + d) cs else None)"

definition radix_literal :: "nat \<Rightarrow> string \<Rightarrow> jsnum" where
  "radix_literal b ds =
     (if ds = [] then NNaN
      else case radix_value b 0 ds of None \<Rightarrow> NNaN | Some n \<Rightarrow> num_of_exact (of_nat n))"

definition signed_decimal :: "bool \<Rightarrow> string \<Rightarrow> jsnum" where
  "signed_decimal neg s =
     (if s = ''Infinity'' then (if neg then NNegInf else NPosInf)
      else case unsigned_decimal s of
             Some (r, []) \<Rightarrow> num_of_exact (if neg then - r else r)
           | _ \<Rightarrow> NNaN)"

text \<open>Number(s) for a string.\<close>

definition js_Number :: "string \<Rightarrow> jsnum" where
  "js_Number s0 =
     (let s = js_trim s0 in
      case s of
        [] \<Rightarrow> NInt 0
      | c # t \<Rightarrow>
          if c = CHR ''0'' \<and> t \<noteq> [] \<and> hd t \<in> {CHR ''x'', CHR ''X''} then radix_literal 16 (tl t)
          else if c = CHR ''0'' \<and> t \<noteq> [] \<and> hd t \<in> {CHR ''o'', CHR ''O''} then radix_literal 8 (tl t)
          else if c = CHR ''0'' \<and> t \<noteq> [] \<and> hd t \<in> {CHR ''b'', CHR ''B''} then radix_literal 2 (tl t)
          else if c = CHR ''-'' then signed_decimal True t
          else if c = CHR ''+'' then signed_decimal False t
          else signed_decimal False s)"

section \<open>JSON.parse\<close>

definition is_json_ws :: "char \<Rightarrow> bool" where
  "is_json_ws c = (ord_of c \<in> {9, 10, 13, 32})"

definition skip_ws :: "string \<Rightarrow> string" where
  "skip_ws s = dropWhile is_json_ws s"

definition latin_char :: "nat \<Rightarrow> char" where
  "latin_char n = (if n < 256 then char_of n else CHR ''?'')"

definition escape_char :: "char \<Rightarrow> char option" where
  "escape_char c =
     (if c = CHR ''n'' then Some (char_of (10::nat)) else if c = CHR ''t'' then Some (char_of (9::nat))
      else if c = CHR ''r'' then Some (char_of (13::nat)) else if c = CHR ''b'' then Some (char_of (8::nat))
      else if c = CHR ''f'' then Some (char_of (12::nat))
      else if ord_of c \<in> {34, 47, 92} then Some c else None)"

text \<open>The characters of a string literal after its opening quote.\<close>

fun json_string :: "string \<Rightarrow> (string \<times> string) option" where
  "json_string [] = None"
| "json_string (c # cs) =
     (if ord_of c = 34 then Some ([], cs)
      else if ord_of c < 32 then None
      else if ord_of c = 92 then
        (case cs of
           d # ds \<Rightarrow>
             if d = CHR ''u'' then
               (case ds of
                  h1 # h2 # h3 # h4 # r \<Rightarrow>
                    (case radix_value 16 0 [h1, h2, h3, h4] of
                       None \<Rightarrow> None
                     | Some n \<Rightarrow> map_option (\<lambda>(s, rest). (latin_char n # s, rest)) (json_string r))
                | _ \<Rightarrow> None)
             else (case escape_char d of
                     None \<Rightarrow> None
                   | Some x \<Rightarrow> map_option (\<lambda>(s, rest). (x # s, rest)) (json_string ds))
         | [] \<Rightarrow> None)
      else map_option (\<lambda>(s, rest). (c # s, rest)) (json_string cs))"

text \<open>A JSON number: no leading zeros, digits on both sides of a point.\<close>

definition json_number :: "string \<Rightarrow> (jsnum \<times> string) option" where
  "json_number s0 =
     (let (neg, s) = (case eat CHR ''-'' s0 of Some r \<Rightarrow> (True, r) | None \<Rightarrow> (False, s0));
          (ip, r1) = scan_digits s;
          (fp, r2) = scan_fraction r1;
          (e, r3) = scan_exponent r2;
          point = (eat CHR ''.'' r1 \<noteq> None);
          v = scale10 (int (nat_of_dec (ip @ fp))) (e - int (length fp))
      in if ip = [] \<or> (hd ip = CHR ''0'' \<and> tl ip \<noteq> []) \<or> (point \<and> fp = []) then None
         else Some (num_of_exact (if neg then - v else v), r3))"

text \<open>A duplicate property keeps its first position and its last value.\<close>

fun put_field :: "string \<Rightarrow> js \<Rightarrow> (string \<times> js) list \<Rightarrow> (string \<times> js) list" where
  "put_field k v [] = [(k, v)]"
| "put_field k v ((k', v') # fs) = (if k' = k then (k, v) # fs else (k', v') # put_field k v fs)"

text \<open>Fuel bounds the nesting; the length of the text plus one is always enough, since every
  recursive call consumes a character.\<close>

fun json_value :: "nat \<Rightarrow> string \<Rightarrow> (js \<times> string) option"
and json_elems :: "nat \<Rightarrow> js list \<Rightarrow> string \<Rightarrow> (js \<times> string) option"
and json_fields :: "nat \<Rightarrow> (string \<times> js) list \<Rightarrow> string \<Rightarrow> (js \<times> string) option" where
  "json_value 0 s = None"
| "json_value (Suc n) s0 =
     (let s = skip_ws s0 in
      case s of
        [] \<Rightarrow> None
      | c # t \<Rightarrow>
          if ord_of c = 34 then map_option (\<lambda>(x, r). (JStr x, r)) (json_string t)
          else if c = CHR ''{'' then
            (case eat CHR ''}'' (skip_ws t) of
               Some r \<Rightarrow> Some (JObj [], r)
             | None \<Rightarrow> json_fields n [] t)
          else if c = CHR ''['' then
            (case eat CHR '']'' (skip_ws t) of
               Some r \<Rightarrow> Some (JArr [], r)
             | None \<Rightarrow> json_elems n [] t)
          else if starts_with ''true'' s then Some (JBool True, drop 4 s)
          else if starts_with ''false'' s then Some (JBool False, drop 5 s)
          else if starts_with ''null'' s then Some (JNull, drop 4 s)
          else map_option (\<lambda>(x, r). (JNum x, r)) (json_number s))"
| "json_elems 0 acc s = None"
| "json_elems (Suc n) acc s =
     (case json_value n s of
        None \<Rightarrow> None
      | Some (v, r) \<Rightarrow>
          (case eat CHR '','' (skip_ws r) of
             Some r' \<Rightarrow> json_elems n (acc @ [v]) r'
           | None \<Rightarrow> map_option (\<lambda>r'. (JArr (acc @ [v]), r')) (eat CHR '']'' (skip_ws r))))"
| "json_fields 0 acc s = None"
| "json_fields (Suc n) acc s =
     (case eat (char_of (34::nat)) (skip_ws s) of
        None \<Rightarrow> None
      | Some t \<Rightarrow>
          (case json_string t of
             None \<Rightarrow> None
           | Some (k, r) \<Rightarrow>
               (case eat CHR '':'' (skip_ws r) of
                  None \<Rightarrow> None
                | Some r1 \<Rightarrow>
                    (case json_value n r1 of
                       None \<Rightarrow> None
                     | Some (v, r2) \<Rightarrow>
                         (case eat CHR '','' (skip_ws r2) of
                            Some r3 \<Rightarrow> json_fields n (put_field k v acc) r3
                          | None \<Rightarrow> map_option (\<lambda>r3. (JObj (put_field k v acc), r3))
                                              (eat CHR ''}'' (skip_ws r2)))))))"

text \<open>JSON.parse, with \<open>None\<close> for the SyntaxError it throws.\<close>

definition json_parse :: "string \<Rightarrow> js option" where
  "json_parse s =
     (case json_value (2 * length s + 2) s of
        Some (v, r) \<Rightarrow> if skip_ws r = [] then Some v else None
      | None \<Rightarrow> None)"

section \<open>TextDecoder\<close>

text \<open>
  The UTF-8 decoder of the encoding standard, a state machine over bytes: how many continuation
  bytes are still needed, the code point so far and the range the next byte must lie in.  A byte
  that does not fit yields U+FFFD and is looked at again as a first byte.
\<close>

record utf8_state =
  u8_needed :: nat
  u8_point  :: nat
  u8_lower  :: nat
  u8_upper  :: nat

definition u8_init :: utf8_state where
  "u8_init = \<lparr>u8_needed = 0, u8_point = 0, u8_lower = 128, u8_upper = 191\<rparr>"

definition u8_first :: "nat \<Rightarrow> nat list \<times> utf8_state" where
  "u8_first b =
     (if b \<le> 127 then ([b], u8_init)
      else if 194 \<le> b \<and> b \<le> 223 then ([], u8_init\<lparr>u8_needed := 1, u8_point := b - 192\<rparr>)
      else if 224 \<le> b \<and> b \<le> 239 then
        ([], \<lparr>u8_needed = 2, u8_point = b - 224, u8_lower = (if b = 224 then 160 else 128),
              u8_upper = (if b = 237 then 159 else 191)\<rparr>)
      else if 240 \<le> b \<and> b \<le> 244 then
        ([], \<lparr>u8_needed = 3, u8_point = b - 240, u8_lower = (if b = 240 then 144 else 128),
              u8_upper = (if b = 244 then 143 else 191)\<rparr>)
      else ([65533], u8_init))"

definition u8_step :: "utf8_state \<Rightarrow> nat \<Rightarrow> nat list \<times> utf8_state" where
  "u8_step st b =
     (if u8_needed st = 0 then u8_first b
      else if \<not> (u8_lower st \<le> b \<and> b \<le> u8_upper st)
           then (let (ps, st') = u8_first b in (65533 # ps, st'))
      else if u8_needed st = 1 then ([u8_point st * 64 + (b - 128)], u8_init)
      else ([], \<lparr>u8_needed = u8_needed st - 1, u8_point = u8_point st * 64 + (b - 128),
                 u8_lower = 128, u8_upper = 191\<rparr>))"

fun u8_run :: "utf8_state \<Rightarrow> string \<Rightarrow> nat list \<times> utf8_state" where
  "u8_run st [] = ([], st)"
| "u8_run st (c # cs) =
     (let (ps, st1) = u8_step st (ord_of c); (qs, st2) = u8_run st1 cs in (ps @ qs, st2))"

definition u8_flush :: "utf8_state \<Rightarrow> nat list" where
  "u8_flush st = (if u8_needed st = 0 then [] else [65533])"

text \<open>The first code point is dropped when it is the byte order mark; the flag says that one was
  seen already.\<close>

definition strip_bom :: "bool \<Rightarrow> nat list \<Rightarrow> nat list" where
  "strip_bom started ps = (if \<not> started \<and> ps \<noteq> [] \<and> hd ps = 65279 then tl ps else ps)"

text \<open>\<open>new TextDecoder().decode(bytes)\<close>.\<close>

definition utf8_decode :: "string \<Rightarrow> string" where
  "utf8_decode bs =
     (let (ps, st) = u8_run u8_init bs
      in List.map latin_char (strip_bom False (ps @ u8_flush st)))"

lemma u8_run_append:
  "u8_run st (a @ b) =
     (let (ps, st1) = u8_run st a; (qs, st2) = u8_run st1 b in (ps @ qs, st2))"
  by (induction a arbitrary: st) (auto simp: Let_def split: prod.splits)

text \<open>The number of UTF-8 bytes of a string, as TextEncoder would count them.\<close>

definition utf8_length :: "string \<Rightarrow> nat" where
  "utf8_length s = sum_list (List.map (\<lambda>c. if ord_of c < 128 then 1 else 2) s)"

lemma utf8_length_append [simp]: "utf8_length (a @ b) = utf8_length a + utf8_length b"
  by (simp add: utf8_length_def)

lemma utf8_length_Nil [simp]: "utf8_length [] = 0"
  by (simp add: utf8_length_def)

end
