(* ===== verification/Http.thy ===== *)
theory Http
  imports Store Json
begin

text \<open>
  src/src/http.ts and the request context of src/src/routes/shared.ts: error codes and their
  statuses, responses, the capped body reader, and the world a handler runs in.

  A request carries its headers as the platform presents them (lower-case names, one normalised
  value each) and its body as the chunks the stream will deliver.  A response body is the value
  that JSON.stringify renders.  The prose message of an error body is left out: the code, the
  request id and the extra fields are what a client may branch on.
\<close>

section \<open>Error codes\<close>

datatype error_code =
    Invalid_request | Unauthenticated | Client_revoked | Forbidden | Model_not_entitled
  | Model_not_found | Model_unpriced | Model_unsupported | Not_found | Payload_too_large
  | Rate_limited | Quota_exhausted | Not_implemented | Upstream_error | Upstream_timeout
  | Unavailable | Internal

fun code_name :: "error_code \<Rightarrow> string" where
  "code_name Invalid_request = ''invalid_request''"
| "code_name Unauthenticated = ''unauthenticated''"
| "code_name Client_revoked = ''client_revoked''"
| "code_name Forbidden = ''forbidden''"
| "code_name Model_not_entitled = ''model_not_entitled''"
| "code_name Model_not_found = ''model_not_found''"
| "code_name Model_unpriced = ''model_unpriced''"
| "code_name Model_unsupported = ''model_unsupported''"
| "code_name Not_found = ''not_found''"
| "code_name Payload_too_large = ''payload_too_large''"
| "code_name Rate_limited = ''rate_limited''"
| "code_name Quota_exhausted = ''quota_exhausted''"
| "code_name Not_implemented = ''not_implemented''"
| "code_name Upstream_error = ''upstream_error''"
| "code_name Upstream_timeout = ''upstream_timeout''"
| "code_name Unavailable = ''unavailable''"
| "code_name Internal = ''internal''"

fun status_for_code :: "error_code \<Rightarrow> nat" where
  "status_for_code Invalid_request = 400"
| "status_for_code Unauthenticated = 401"
| "status_for_code Client_revoked = 401"
| "status_for_code Forbidden = 403"
| "status_for_code Model_not_entitled = 403"
| "status_for_code Model_not_found = 404"
| "status_for_code Model_unpriced = 409"
| "status_for_code Model_unsupported = 501"
| "status_for_code Not_found = 404"
| "status_for_code Payload_too_large = 413"
| "status_for_code Rate_limited = 429"
| "status_for_code Quota_exhausted = 402"
| "status_for_code Not_implemented = 501"
| "status_for_code Upstream_error = 502"
| "status_for_code Upstream_timeout = 504"
| "status_for_code Unavailable = 503"
| "status_for_code Internal = 500"

section \<open>Responses\<close>

text \<open>A relayed body is delivered chunk by chunk from its source.\<close>

datatype resp_body = EmptyBody | JsonBody js | BytesBody string | RelayBody

record response =
  resp_status  :: nat
  resp_headers :: "(string \<times> string) list"
  resp_body    :: resp_body

definition set_header :: "string \<Rightarrow> string \<Rightarrow> (string \<times> string) list \<Rightarrow> (string \<times> string) list" where
  "set_header k v hs = List.filter (\<lambda>h. fst h \<noteq> k) hs @ [(k, v)]"

definition get_header :: "string \<Rightarrow> (string \<times> string) list \<Rightarrow> string option" where
  "get_header k hs = map_of hs k"

definition API_VERSION :: string where
  "API_VERSION = ''1''"

definition base_headers :: "string \<Rightarrow> (string \<times> string) list \<Rightarrow> (string \<times> string) list" where
  "base_headers rid extra =
     set_header ''cache-control'' ''no-store''
      (set_header ''prism-request-id'' rid
        (set_header ''prism-api-version'' API_VERSION
          (set_header ''content-type'' ''application/json; charset=utf-8'' extra)))"

definition json_response ::
  "string \<Rightarrow> js \<Rightarrow> nat \<Rightarrow> (string \<times> string) list \<Rightarrow> response" where
  "json_response rid body status extra =
     \<lparr>resp_status = status, resp_headers = base_headers rid extra, resp_body = JsonBody body\<rparr>"

definition error_response_with ::
  "string \<Rightarrow> error_code \<Rightarrow> (string \<times> js) list \<Rightarrow> (string \<times> string) list \<Rightarrow> response" where
  "error_response_with rid code detail extra =
     json_response rid
       (JObj [(''error'', JObj ([(''code'', JStr (code_name code)), (''request_id'', JStr rid)] @ detail))])
       (status_for_code code) extra"

abbreviation error_response :: "string \<Rightarrow> error_code \<Rightarrow> response" where
  "error_response rid code \<equiv> error_response_with rid code [] []"

lemma get_set_header [simp]:
  "get_header k (set_header k' v hs) = (if k = k' then Some v else get_header k hs)"
proof -
  have "map_of (List.filter (\<lambda>h. fst h \<noteq> k') hs @ [(k', v)]) k = (if k = k' then Some v else map_of hs k)"
    by (induction hs) auto
  then show ?thesis by (simp add: get_header_def set_header_def)
qed

section \<open>Requests\<close>

datatype body_event = Chunk string | ReadError

record request =
  rq_method  :: string
  rq_path    :: string
  rq_query   :: "(string \<times> string) list"
  rq_headers :: "(string \<times> string) list"
  rq_body    :: "body_event list option"

abbreviation rq_header :: "request \<Rightarrow> string \<Rightarrow> string option" where
  "rq_header rq k \<equiv> get_header k (rq_headers rq)"

definition MAX_BODY_BYTES :: nat where
  "MAX_BODY_BYTES = 256 * 1024"

datatype read_failure = ReadInvalid | ReadTooLarge

text \<open>The reader loop: the chunks kept so far and their total; cancelling the reader of a stream
  that has not failed succeeds.\<close>

fun read_chunks :: "nat \<Rightarrow> string list \<Rightarrow> nat \<Rightarrow> body_event list \<Rightarrow> read_failure + string list \<times> nat" where
  "read_chunks cap chunks tot [] = Inr (chunks, tot)"
| "read_chunks cap chunks tot (ReadError # es) = Inl ReadInvalid"
| "read_chunks cap chunks tot (Chunk v # es) =
     (if v = [] then read_chunks cap chunks tot es
      else if tot + length v > cap then Inl ReadTooLarge
      else read_chunks cap (chunks @ [v]) (tot + length v) es)"

text \<open>\<open>bytes.set(chunk, offset)\<close> chunk after chunk into a zeroed array.\<close>

fun fill_chunks :: "string \<Rightarrow> nat \<Rightarrow> string list \<Rightarrow> string" where
  "fill_chunks bytes offset [] = bytes"
| "fill_chunks bytes offset (c # cs) =
     fill_chunks (take offset bytes @ c @ drop (offset + length c) bytes) (offset + length c) cs"

definition declared_too_large :: "nat \<Rightarrow> request \<Rightarrow> bool" where
  "declared_too_large cap rq =
     (case rq_header rq ''content-length'' of
        None \<Rightarrow> False
      | Some v \<Rightarrow> v \<noteq> [] \<and> is_finite_num (js_Number v) \<and> js_lt (NInt (int cap)) (js_Number v))"

definition read_body_bytes_capped :: "nat \<Rightarrow> request \<Rightarrow> read_failure + string" where
  "read_body_bytes_capped cap rq =
     (if declared_too_large cap rq then Inl ReadTooLarge
      else case rq_body rq of
             None \<Rightarrow> Inr []
           | Some es \<Rightarrow>
               (case read_chunks cap [] 0 es of
                  Inl f \<Rightarrow> Inl f
                | Inr (chunks, tot) \<Rightarrow>
                    Inr (fill_chunks (replicate tot (char_of (0::nat))) 0 chunks)))"

definition read_json_body :: "nat \<Rightarrow> request \<Rightarrow> read_failure + js" where
  "read_json_body cap rq =
     (case read_body_bytes_capped cap rq of
        Inl f \<Rightarrow> Inl f
      | Inr bytes \<Rightarrow>
          (let t = utf8_decode bytes in
           if js_trim t = [] then Inl ReadInvalid
           else case json_parse t of None \<Rightarrow> Inl ReadInvalid | Some v \<Rightarrow> Inr v))"

fun read_failure_code :: "read_failure \<Rightarrow> error_code" where
  "read_failure_code ReadInvalid = Invalid_request"
| "read_failure_code ReadTooLarge = Payload_too_large"

fun chunk_bytes :: "body_event list \<Rightarrow> string" where
  "chunk_bytes [] = []"
| "chunk_bytes (Chunk v # es) = v @ chunk_bytes es"
| "chunk_bytes (ReadError # es) = chunk_bytes es"

lemma fill_chunks_concat:
  "length bytes = offset + length (List.concat cs) \<Longrightarrow>
     fill_chunks bytes offset cs = take offset bytes @ List.concat cs"
proof (induction cs arbitrary: bytes offset)
  case (Cons c cs)
  let ?b = "take offset bytes @ c @ drop (offset + length c) bytes"
  have "length ?b = offset + length c + length (List.concat cs)" using Cons.prems by simp
  from Cons.IH [OF this] Cons.prems show ?case by simp
qed simp

lemma read_chunks_exceeds:
  "ReadError \<notin> set es \<Longrightarrow> tot \<le> cap \<Longrightarrow> cap < tot + length (chunk_bytes es) \<Longrightarrow>
     read_chunks cap acc tot es = Inl ReadTooLarge"
  by (induction cap acc tot es rule: read_chunks.induct) auto

lemma read_chunks_fits:
  assumes "ReadError \<notin> set es" "tot = length (List.concat acc)"
    "tot + length (chunk_bytes es) \<le> cap"
  shows "\<exists>cs. read_chunks cap acc tot es = Inr (cs, tot + length (chunk_bytes es))
           \<and> List.concat cs = List.concat acc @ chunk_bytes es"
  using assms
proof (induction cap acc tot es rule: read_chunks.induct)
  case (3 cap chunks tot v es)
  show ?case
  proof (cases "v = []")
    case True
    with 3 show ?thesis by simp
  next
    case False
    from 3(2)[OF False] 3(3-5) False show ?thesis by (auto simp: add.assoc)
  qed
qed auto

lemma read_chunks_total:
  "read_chunks cap acc tot es = Inr (cs, n) \<Longrightarrow> tot = length (List.concat acc) \<Longrightarrow> tot \<le> cap
     \<Longrightarrow> n = length (List.concat cs) \<and> n \<le> cap"
  by (induction cap acc tot es rule: read_chunks.induct) (auto split: if_splits)

text \<open>The body reader never hands out more bytes than the cap, whatever the stream does, and
  for a stream that does not fail its result depends on the concatenated bytes only, not on how
  they were cut into chunks: they are returned whole when they fit and refused as too large when
  they do not or when the declared length already exceeds the cap.\<close>

lemma body_reader_capped:
  assumes "ReadError \<notin> set es" "rq_body rq = Some es"
  shows "read_body_bytes_capped cap rq =
           (if declared_too_large cap rq \<or> length (chunk_bytes es) > cap then Inl ReadTooLarge
            else Inr (chunk_bytes es))
         \<and> (\<forall>rq' bytes. read_body_bytes_capped cap rq' = Inr bytes \<longrightarrow> length bytes \<le> cap)"
proof
  show "read_body_bytes_capped cap rq =
          (if declared_too_large cap rq \<or> length (chunk_bytes es) > cap then Inl ReadTooLarge
           else Inr (chunk_bytes es))"
  proof (cases "length (chunk_bytes es) \<le> cap")
    case True
    with read_chunks_fits [of es 0 "[]" cap] assms show ?thesis
      by (auto simp: read_body_bytes_capped_def fill_chunks_concat)
  next
    case False
    with read_chunks_exceeds [of es 0 cap "[]"] assms show ?thesis
      by (simp add: read_body_bytes_capped_def)
  qed
  have "length bytes \<le> cap" if "read_body_bytes_capped cap rq' = Inr bytes" for rq' bytes
    using that read_chunks_total [of cap "[]" 0]
    by (auto simp: read_body_bytes_capped_def fill_chunks_concat
             split: if_splits option.splits sum.splits)
  then show "\<forall>rq' bytes. read_body_bytes_capped cap rq' = Inr bytes \<longrightarrow> length bytes \<le> cap"
    by blast
qed

definition sample_request :: request where
  "sample_request = \<lparr>rq_method = ''POST'', rq_path = ''/v1/chat'', rq_query = [], rq_headers = [],
     rq_body = Some [Chunk ''{}'', Chunk [], Chunk '' '']\<rparr>"

section \<open>The context of a handler\<close>

text \<open>\<open>ctx.waitUntil\<close>: work scheduled to run beside the response, with its failures
  swallowed.  The handlers leave it in a queue that is worked off after they return.\<close>

datatype deferred =
    TouchClient string
  | TouchUserToken string int
  | RecordUsage usage_event

record handler_world = world +
  hw_deferred :: "deferred list"

definition wait_until :: "deferred \<Rightarrow> (unit, 'z handler_world_ext) m" where
  "wait_until t = (\<lambda>w. (Inr (), w\<lparr>hw_deferred := hw_deferred w @ [t]\<rparr>))"

end
