(* ===== verification/Crypto.thy ===== *)
theory Crypto
  imports Prelude "HOL-Library.Word"
begin

text \<open>
  src/src/crypto.ts: hexadecimal and base64url renderings of random bytes, identifiers, and the
  comparison of digests.  A byte string is a \<open>string\<close>.  The bytes of the platform's
  random source are arguments; SHA-256 itself is a parameter wherever it is used.
\<close>

unbundle bit_operations_syntax

section \<open>Hexadecimal\<close>

definition hex_digit :: "nat \<Rightarrow> char" where
  "hex_digit n = (if n < 10 then char_of (48 + n) else char_of (87 + n))"

text \<open>\<open>b.toString(16).padStart(2, "0")\<close>.\<close>

definition hex_byte :: "char \<Rightarrow> string" where
  "hex_byte b = [hex_digit (ord_of b div 16), hex_digit (ord_of b mod 16)]"

definition hex_of_bytes :: "string \<Rightarrow> string" where
  "hex_of_bytes bs = List.concat (List.map hex_byte bs)"

definition is_hex_lower :: "char \<Rightarrow> bool" where
  "is_hex_lower c = (let n = ord_of c in (48 \<le> n \<and> n \<le> 57) \<or> (97 \<le> n \<and> n \<le> 102))"

lemma ord_of_less [simp]: "ord_of c < 256"
  by (simp add: ord_of_def)

lemma ord_of_char_of [simp]: "n < 256 \<Longrightarrow> ord_of (char_of n) = n"
  by (simp add: ord_of_def)

lemma ord_of_inj [simp]: "ord_of a = ord_of b \<longleftrightarrow> a = b"
  by (simp add: ord_of_def)

lemma hex_digit_lower [simp]: "n < 16 \<Longrightarrow> is_hex_lower (hex_digit n)"
  by (auto simp: hex_digit_def is_hex_lower_def Let_def)

lemma hex_of_bytes_length [simp]: "length (hex_of_bytes bs) = 2 * length bs"
  by (induction bs) (auto simp: hex_of_bytes_def hex_byte_def)

lemma hex_of_bytes_lower: "c \<in> set (hex_of_bytes bs) \<Longrightarrow> is_hex_lower c"
proof (induction bs)
  case (Cons b bs)
  have "ord_of b div 16 < 16" using ord_of_less [of b] by (simp add: div_less_iff_less_mult)
  with Cons show ?case by (auto simp: hex_of_bytes_def hex_byte_def)
qed (simp add: hex_of_bytes_def)

section \<open>Base64url\<close>

definition base64_char :: "nat \<Rightarrow> char" where
  "base64_char n =
     (if n < 26 then char_of (65 + n) else if n < 52 then char_of (71 + n)
      else if n < 62 then char_of (n - 4) else if n = 62 then CHR ''+'' else CHR ''/'')"

text \<open>\<open>btoa\<close>: three bytes to four characters, padded with equals signs.\<close>

fun btoa :: "string \<Rightarrow> string" where
  "btoa [] = []"
| "btoa [a] =
     (let n = ord_of a * 16 in
      [base64_char (n div 64), base64_char (n mod 64), CHR ''='', CHR ''=''])"
| "btoa [a, b] =
     (let n = (ord_of a * 256 + ord_of b) * 4 in
      [base64_char (n div 4096), base64_char (n div 64 mod 64), base64_char (n mod 64), CHR ''=''])"
| "btoa (a # b # c # cs) =
     (let n = ord_of a * 65536 + ord_of b * 256 + ord_of c in
      [base64_char (n div 262144), base64_char (n div 4096 mod 64),
       base64_char (n div 64 mod 64), base64_char (n mod 64)] @ btoa cs)"

definition replace_char :: "char \<Rightarrow> char \<Rightarrow> string \<Rightarrow> string" where
  "replace_char x y s = List.map (\<lambda>c. if c = x then y else c) s"

text \<open>The URL-safe alphabet without the padding at the end.\<close>

definition base64url :: "string \<Rightarrow> string" where
  "base64url bs =
     rev (dropWhile (\<lambda>c. c = CHR ''='')
       (rev (replace_char CHR ''/'' CHR ''_'' (replace_char CHR ''+'' CHR ''-'' (btoa bs)))))"

definition random_secret :: "string \<Rightarrow> string" where
  "random_secret bs = base64url bs"

definition is_secret_char :: "char \<Rightarrow> bool" where
  "is_secret_char c = (let n = ord_of c in
     (48 \<le> n \<and> n \<le> 57) \<or> (65 \<le> n \<and> n \<le> 90) \<or> (97 \<le> n \<and> n \<le> 122) \<or> n = 95 \<or> n = 45)"

section \<open>Identifiers\<close>

text \<open>\<open>newId\<close> from six random bytes, \<open>newKeyId\<close> from eight.\<close>

definition new_id :: "string \<Rightarrow> string \<Rightarrow> string" where
  "new_id prefix bs = prefix @ ''_'' @ hex_of_bytes bs"

definition new_key_id :: "string \<Rightarrow> string" where
  "new_key_id bs = hex_of_bytes bs"

definition sha256_hex :: "(string \<Rightarrow> string) \<Rightarrow> string \<Rightarrow> string" where
  "sha256_hex sha256 v = hex_of_bytes (sha256 v)"

section \<open>Comparison\<close>

text \<open>The loop over every position: xor of the code units accumulated by or, in 32-bit integers.\<close>

fun diff_loop :: "32 word \<Rightarrow> string \<Rightarrow> string \<Rightarrow> 32 word" where
  "diff_loop d (x # xs) (y # ys) =
     diff_loop (d OR (word_of_nat (ord_of x) XOR word_of_nat (ord_of y))) xs ys"
| "diff_loop d _ _ = d"

definition constant_time_equal :: "string \<Rightarrow> string \<Rightarrow> bool" where
  "constant_time_equal a b = (if length a \<noteq> length b then False else diff_loop 0 a b = 0)"

lemma word_of_ord_inj:
  "(word_of_nat (ord_of x) :: 32 word) = word_of_nat (ord_of y) \<longleftrightarrow> x = y"
proof
  assume "(word_of_nat (ord_of x) :: 32 word) = word_of_nat (ord_of y)"
  then have "unat (word_of_nat (ord_of x) :: 32 word) = unat (word_of_nat (ord_of y) :: 32 word)"
    by simp
  moreover have "unat (word_of_nat (ord_of z) :: 32 word) = ord_of z" for z
    using ord_of_less [of z] by (simp add: unat_of_nat del: ord_of_less)
  ultimately show "x = y" by simp
qed simp

lemma xor_zero_iff: "a XOR b = 0 \<longleftrightarrow> a = (b :: 32 word)"
proof
  assume "a XOR b = 0"
  then have "(a XOR b) XOR b = 0 XOR b" by simp
  then show "a = b" by (simp add: xor.assoc)
qed simp

lemma dropWhile_replicate: "dropWhile (\<lambda>c. c = x) (replicate n x @ xs) = dropWhile (\<lambda>c. c = x) xs"
  by (induction n) auto

lemma diff_loop_zero:
  "length a = length b \<Longrightarrow> diff_loop d a b = 0 \<longleftrightarrow> d = 0 \<and> a = b"
proof (induction d a b rule: diff_loop.induct)
  case (1 d x xs y ys)
  have "word_of_nat (ord_of x) XOR word_of_nat (ord_of y) = (0 :: 32 word) \<longleftrightarrow> x = y"
    by (simp add: xor_zero_iff word_of_ord_inj)
  with 1 show ?case by (simp add: or_eq_0_iff)
qed auto

lemma constant_time_equal_iff [simp]: "constant_time_equal a b \<longleftrightarrow> a = b"
  by (auto simp: constant_time_equal_def diff_loop_zero)

section \<open>Lengths and alphabets\<close>

lemma base64_char_range:
  "n < 64 \<Longrightarrow> is_secret_char (base64_char n) \<or> base64_char n \<in> {CHR ''+'', CHR ''/''}"
  by (auto simp: base64_char_def is_secret_char_def Let_def)

lemma base64_char_not_equals: "n < 64 \<Longrightarrow> base64_char n \<noteq> CHR ''=''"
  using base64_char_range [of n] by (auto simp: is_secret_char_def Let_def ord_of_def)

lemma base64_index:
  fixes a b c :: nat
  shows "a < 256 \<Longrightarrow> b < 256 \<Longrightarrow> c < 256 \<Longrightarrow> (a * 65536 + b * 256 + c) div 262144 < 64"
  by (simp add: div_less_iff_less_mult)

lemma base64_index2:
  fixes a b :: nat
  shows "a < 256 \<Longrightarrow> b < 256 \<Longrightarrow> (1024 * a + b * 4) div 4096 < 64"
  by (simp add: div_less_iff_less_mult)

lemmas base64_indices = base64_index base64_index2

definition in_alphabet :: "char \<Rightarrow> bool" where
  "in_alphabet c = (\<exists>n<64. c = base64_char n)"

lemma in_alphabetI [simp]: "n < 64 \<Longrightarrow> in_alphabet (base64_char n)"
  by (auto simp: in_alphabet_def)

text \<open>The shape of \<open>btoa\<close>: alphabet characters, then the padding.\<close>

lemma btoa_shape:
  "\<exists>body. btoa bs = body @ replicate ((3 - length bs mod 3) mod 3) CHR ''=''
     \<and> (\<forall>c \<in> set body. in_alphabet c) \<and> length body = (4 * length bs + 2) div 3"
proof (induction bs rule: btoa.induct)
  case (2 a)
  have "replicate ((3 - length [a] mod 3) mod 3) CHR ''='' = [CHR ''='', CHR ''='']"
    by (simp add: numeral_2_eq_2)
  moreover have "ord_of a div 4 < 64" using ord_of_less [of a] by (simp add: div_less_iff_less_mult)
  ultimately show ?case
    by (intro exI [of _ "[base64_char (ord_of a * 16 div 64), base64_char (ord_of a * 16 mod 64)]"])
       (simp add: Let_def base64_indices)
next
  case (3 a b)
  let ?n = "(ord_of a * 256 + ord_of b) * 4"
  have "replicate ((3 - length [a, b] mod 3) mod 3) CHR ''='' = [CHR ''='']" by simp
  then show ?case
    by (intro exI [of _ "[base64_char (?n div 4096), base64_char (?n div 64 mod 64), base64_char (?n mod 64)]"])
       (simp add: Let_def base64_indices)
next
  case (4 a b c cs)
  let ?n = "ord_of a * 65536 + ord_of b * 256 + ord_of c"
  let ?q = "[base64_char (?n div 262144), base64_char (?n div 4096 mod 64),
             base64_char (?n div 64 mod 64), base64_char (?n mod 64)]"
  obtain body where body: "btoa cs = body @ replicate ((3 - length cs mod 3) mod 3) CHR ''=''"
      "\<forall>c \<in> set body. in_alphabet c" "length body = (4 * length cs + 2) div 3"
    using 4 by blast
  have step: "length (a # b # c # cs) = length cs + 3" by simp
  have len: "(4 * length (a # b # c # cs) + 2) div 3 = 4 + (4 * length cs + 2) div 3"
    unfolding step by presburger
  have len_mod: "length (a # b # c # cs) mod 3 = length cs mod 3"
    unfolding step by presburger
  have "btoa (a # b # c # cs) = ?q @ btoa cs" by (simp add: Let_def)
  moreover have "\<forall>c \<in> set ?q. in_alphabet c" by (simp add: base64_indices)
  ultimately show ?case
    using body unfolding len len_mod by (intro exI [of _ "?q @ body"]) (auto simp: Let_def)
qed simp

text \<open>The URL-safe rendering is the body with two characters renamed.\<close>

definition url_safe :: "char \<Rightarrow> char" where
  "url_safe c = (if c = CHR ''/'' then CHR ''_'' else if c = CHR ''+'' then CHR ''-'' else c)"

lemma base64url_body:
  "\<exists>body. btoa bs = body @ replicate ((3 - length bs mod 3) mod 3) CHR ''=''
     \<and> (\<forall>c \<in> set body. in_alphabet c \<and> is_secret_char (url_safe c)) \<and> length body = (4 * length bs + 2) div 3
     \<and> base64url bs = List.map url_safe body"
proof -
  obtain body where body: "btoa bs = body @ replicate ((3 - length bs mod 3) mod 3) CHR ''=''"
      "\<forall>c \<in> set body. in_alphabet c" "length body = (4 * length bs + 2) div 3"
    using btoa_shape by blast
  define f where "f = url_safe"
  have comp: "replace_char CHR ''/'' CHR ''_'' (replace_char CHR ''+'' CHR ''-'' s) = List.map f s" for s
    by (induction s) (auto simp: replace_char_def f_def url_safe_def)
  have feq: "f CHR ''='' = CHR ''=''" by (simp add: f_def url_safe_def)
  have safe: "is_secret_char (f c) \<and> f c \<noteq> CHR ''=''" if "in_alphabet c" for c
  proof -
    obtain n where n: "n < 64" "c = base64_char n" using \<open>in_alphabet c\<close> by (auto simp: in_alphabet_def)
    from base64_char_range [OF n(1)] n(2) base64_char_not_equals [OF n(1)]
    have "is_secret_char c \<and> c \<noteq> CHR ''='' \<or> c = CHR ''+'' \<or> c = CHR ''/''" by auto
    moreover have "is_secret_char CHR ''_''" "is_secret_char CHR ''-''"
      "\<not> is_secret_char CHR ''/''" "\<not> is_secret_char CHR ''+''"
      by (simp_all add: is_secret_char_def ord_of_def)
    ultimately show ?thesis by (auto simp: f_def url_safe_def)
  qed
  have no_eq: "dropWhile (\<lambda>c. c = CHR ''='') (rev (List.map f body)) = rev (List.map f body)"
  proof (cases "rev body")
    case (Cons x xs)
    then have "in_alphabet x" using body(2) by (metis list.set_intros(1) set_rev)
    then have "f x \<noteq> CHR ''=''" using safe by blast
    then show ?thesis using Cons by (simp add: rev_map)
  qed simp
  have "base64url bs = List.map f body"
    unfolding base64url_def comp body(1)
    by (simp add: feq rev_map [symmetric] dropWhile_replicate no_eq)
  with body safe show ?thesis unfolding f_def by blast
qed

lemma base64url_shape:
  "length (base64url bs) = (4 * length bs + 2) div 3"
  "c \<in> set (base64url bs) \<Longrightarrow> is_secret_char c"
  using base64url_body [of bs] by auto

end
