(* ===== verification/Auth.thy ===== *)
theory Auth
  imports StoreLemmas Http Crypto
begin

text \<open>
  src/src/auth.ts and the shared gate of src/src/routes/shared.ts: the client key format, the
  bearer header, the resolution of a caller and the refusal each failure becomes.  SHA-256 is the
  parameter \<open>sha256\<close>, from bytes to bytes; nothing is assumed of it.
\<close>

section \<open>The key format\<close>

definition KEY_PREFIX :: string where
  "KEY_PREFIX = ''pcp''"

definition key_id_ok :: "string \<Rightarrow> bool" where
  "key_id_ok s = (length s = 16 \<and> list_all is_hex_lower s)"

definition secret_ok :: "string \<Rightarrow> bool" where
  "secret_ok s = (length s = 43 \<and> list_all is_secret_char s)"

record parsed_key =
  pk_key_id :: string
  pk_secret :: string

definition parse_client_key :: "string \<Rightarrow> parsed_key option" where
  "parse_client_key raw =
     (case index_of ''_'' raw of
        None \<Rightarrow> None
      | Some first \<Rightarrow>
          if take first raw \<noteq> KEY_PREFIX then None
          else (case index_of ''_'' (drop (first + 1) raw) of
                  None \<Rightarrow> None
                | Some n \<Rightarrow>
                    (let key_id = take n (drop (first + 1) raw);
                         secret = drop (first + 1 + n + 1) raw
                     in if \<not> key_id_ok key_id \<or> \<not> secret_ok secret then None
                        else Some \<lparr>pk_key_id = key_id, pk_secret = secret\<rparr>)))"

definition format_client_key :: "string \<Rightarrow> string \<Rightarrow> string" where
  "format_client_key key_id secret = KEY_PREFIX @ ''_'' @ key_id @ ''_'' @ secret"

text \<open>The match of \<open>/^bearer\s+(.+)$/i\<close> on the trimmed header: the dot excludes line
  terminators.\<close>

definition bearer_from_request :: "request \<Rightarrow> string option" where
  "bearer_from_request rq =
     (case rq_header rq ''authorization'' of
        None \<Rightarrow> None
      | Some h0 \<Rightarrow>
          if h0 = [] then None
          else (let h = js_trim h0;
                    after = drop 6 h;
                    token = dropWhile is_js_space after
                in if js_lower (take 6 h) = ''bearer'' \<and> after \<noteq> token \<and> token \<noteq> []
                      \<and> char_of (10::nat) \<notin> set token \<and> char_of (13::nat) \<notin> set token
                   then Some (js_trim token) else None))"

section \<open>Resolving the caller\<close>

record caller =
  ca_client  :: client_row
  ca_account :: account_row
  ca_plan    :: plan_row

datatype resolve_failure = FailUnauthenticated | FailRevoked | FailSuspended | FailMisconfigured

definition resolve_client ::
  "(string \<Rightarrow> string) \<Rightarrow> request \<Rightarrow> (resolve_failure + caller, 'z) m" where
  "resolve_client sha256 rq =
     (case bearer_from_request rq of
        None \<Rightarrow> retM (Inl FailUnauthenticated)
      | Some bearer \<Rightarrow>
     if bearer = [] then retM (Inl FailUnauthenticated)
     else case parse_client_key bearer of
        None \<Rightarrow> retM (Inl FailUnauthenticated)
      | Some parsed \<Rightarrow>
     bindM (get_client_by_key_id (pk_key_id parsed)) (\<lambda>c.
     case c of
        None \<Rightarrow> retM (Inl FailUnauthenticated)
      | Some client \<Rightarrow>
     if \<not> constant_time_equal (sha256_hex sha256 (pk_secret parsed)) (cl_secret_hash client)
     then retM (Inl FailUnauthenticated)
     else if cl_revoked_at client \<noteq> None then retM (Inl FailRevoked)
     else
     bindM (get_account (cl_account_id client)) (\<lambda>a.
     case a of
        None \<Rightarrow> retM (Inl FailMisconfigured)
      | Some account \<Rightarrow>
     if ac_suspended_at account \<noteq> None then retM (Inl FailSuspended)
     else
     bindM (get_plan (ac_plan_id account)) (\<lambda>p.
     case p of
        None \<Rightarrow> retM (Inl FailMisconfigured)
      | Some plan \<Rightarrow>
     retM (Inr \<lparr>ca_client = client, ca_account = account, ca_plan = plan\<rparr>)))))"

record minted_key =
  mk_client_id   :: string
  mk_key_id      :: string
  mk_key         :: string
  mk_secret_hash :: string

text \<open>\<open>mintClientKey\<close> from its three draws of random bytes: 6, 8 and 32 of them.\<close>

definition mint_client_key :: "(string \<Rightarrow> string) \<Rightarrow> string \<Rightarrow> string \<Rightarrow> string \<Rightarrow> minted_key" where
  "mint_client_key sha256 id_bytes key_bytes secret_bytes =
     (let key_id = new_key_id key_bytes;
          secret = random_secret secret_bytes
      in \<lparr>mk_client_id = new_id ''cli'' id_bytes, mk_key_id = key_id,
          mk_key = format_client_key key_id secret, mk_secret_hash = sha256_hex sha256 secret\<rparr>)"

section \<open>The shared gate\<close>

fun failure_code :: "resolve_failure \<Rightarrow> error_code" where
  "failure_code FailUnauthenticated = Unauthenticated"
| "failure_code FailRevoked = Client_revoked"
| "failure_code FailSuspended = Forbidden"
| "failure_code FailMisconfigured = Unavailable"

definition auth_failure_response :: "string \<Rightarrow> resolve_failure \<Rightarrow> response" where
  "auth_failure_response rid f = error_response rid (failure_code f)"

definition require_caller ::
  "(string \<Rightarrow> string) \<Rightarrow> string \<Rightarrow> request \<Rightarrow> (response + caller, 'z handler_world_ext) m" where
  "require_caller sha256 rid rq =
     bindM (resolve_client sha256 rq) (\<lambda>r.
     case r of
       Inl f \<Rightarrow> retM (Inl (auth_failure_response rid f))
     | Inr c \<Rightarrow>
         bindM (wait_until (TouchClient (cl_id (ca_client c)))) (\<lambda>_. retM (Inr c)))"

text \<open>The address of the enrollment limiter's bucket.\<close>

definition client_ip :: "request \<Rightarrow> string" where
  "client_ip rq = (case rq_header rq ''cf-connecting-ip'' of Some ip \<Rightarrow> ip | None \<Rightarrow> ''unknown'')"

section \<open>Parsing and formatting\<close>

lemma index_of_char_none: "c \<notin> set s \<Longrightarrow> index_of [c] s = None"
  by (induction s) (auto simp: starts_with_def)

lemma index_of_char: "c \<notin> set a \<Longrightarrow> index_of [c] (a @ c # b) = Some (length a)"
  by (induction a) (auto simp: starts_with_def)

lemma index_of_charD:
  "index_of [c] s = Some n \<Longrightarrow> s = take n s @ c # drop (n + 1) s \<and> c \<notin> set (take n s)"
proof (induction s arbitrary: n)
  case (Cons x s)
  show ?case
  proof (cases "x = c")
    case True
    with Cons.prems show ?thesis by (auto simp: starts_with_def)
  next
    case False
    with Cons.prems obtain m where "n = Suc m" "index_of [c] s = Some m"
      by (auto simp: starts_with_def)
    with Cons.IH [of m] False show ?thesis by auto
  qed
qed simp

lemma hex_no_underscore: "list_all is_hex_lower s \<Longrightarrow> CHR ''_'' \<notin> set s"
  by (auto simp: list_all_iff is_hex_lower_def ord_of_def)

lemma parse_format:
  assumes "key_id_ok k" "secret_ok s"
  shows "parse_client_key (format_client_key k s) = Some \<lparr>pk_key_id = k, pk_secret = s\<rparr>"
proof -
  have 1: "index_of ''_'' (format_client_key k s) = Some 3"
    using index_of_char [of "CHR ''_''" KEY_PREFIX "k @ ''_'' @ s"]
    by (simp add: format_client_key_def KEY_PREFIX_def)
  have 2: "index_of ''_'' (k @ CHR ''_'' # s) = Some (length k)"
    using assms(1) by (intro index_of_char) (auto simp: key_id_ok_def dest: hex_no_underscore)
  have 3: "take 3 (format_client_key k s) = KEY_PREFIX"
    "drop 4 (format_client_key k s) = k @ CHR ''_'' # s"
    "drop (5 + length k) (format_client_key k s) = s"
    by (simp_all add: format_client_key_def KEY_PREFIX_def numeral_eq_Suc)
  from 1 2 3 assms show ?thesis
    by (simp add: parse_client_key_def Let_def)
qed

lemma parse_client_keyD:
  assumes "parse_client_key raw = Some p"
  shows "raw = format_client_key (pk_key_id p) (pk_secret p)"
    "key_id_ok (pk_key_id p)" "secret_ok (pk_secret p)"
proof -
  obtain i where i: "index_of ''_'' raw = Some i" "take i raw = KEY_PREFIX"
    using assms by (auto simp: parse_client_key_def split: option.splits if_splits)
  then obtain n where n: "index_of ''_'' (drop (i + 1) raw) = Some n"
      "pk_key_id p = take n (drop (i + 1) raw)" "pk_secret p = drop (i + 1 + n + 1) raw"
      "key_id_ok (pk_key_id p)" "secret_ok (pk_secret p)"
    using assms by (auto simp: parse_client_key_def Let_def split: option.splits if_splits)
  have "raw = take i raw @ CHR ''_'' # drop (i + 1) raw" using index_of_charD [OF i(1)] by simp
  moreover have "drop (i + 1) raw = take n (drop (i + 1) raw) @ CHR ''_'' # drop (n + 1) (drop (i + 1) raw)"
    using index_of_charD [OF n(1)] by simp
  moreover have "drop (n + 1) (drop (i + 1) raw) = drop (i + 1 + n + 1) raw"
    by (simp add: add.commute)
  ultimately have "raw = KEY_PREFIX @ CHR ''_'' # pk_key_id p @ CHR ''_'' # pk_secret p"
    using i(2) n(2,3) by metis
  then show "raw = format_client_key (pk_key_id p) (pk_secret p)"
    by (simp add: format_client_key_def)
  from n(4,5) show "key_id_ok (pk_key_id p)" "secret_ok (pk_secret p)" .
qed

lemma minted_parts_ok:
  "length kb = 8 \<Longrightarrow> key_id_ok (new_key_id kb)"
  "length sb = 32 \<Longrightarrow> secret_ok (random_secret sb)"
  by (auto simp: key_id_ok_def new_key_id_def secret_ok_def random_secret_def base64url_shape
      list_all_iff dest: hex_of_bytes_lower)

lemma js_trim_id: "s \<noteq> [] \<Longrightarrow> \<not> is_js_space (hd s) \<Longrightarrow> \<not> is_js_space (last s) \<Longrightarrow> js_trim s = s"
proof -
  assume s: "s \<noteq> []" "\<not> is_js_space (hd s)" "\<not> is_js_space (last s)"
  then have "dropWhile is_js_space s = s" by (cases s) auto
  moreover have "dropWhile is_js_space (rev s) = rev s" using s(1,3) by (cases s rule: rev_cases) auto
  ultimately show ?thesis by (simp add: js_trim_def)
qed

lemma secret_char_not_space: "is_secret_char c \<Longrightarrow> \<not> is_js_space c"
  by (auto simp: is_secret_char_def is_js_space_def Let_def)

lemma bearer_of_token:
  assumes "rq_header rq ''authorization'' = Some (''Bearer '' @ t)" "t \<noteq> []" "list_all is_secret_char t"
  shows "bearer_from_request rq = Some t"
proof -
  have sp: "\<not> is_js_space c" if "c \<in> set t" for c
    using assms(3) that secret_char_not_space by (auto simp: list_all_iff)
  have "\<not> is_js_space CHR ''B''" "is_js_space CHR '' ''" by (simp_all add: is_js_space_def ord_of_def)
  then have trim: "js_trim (''Bearer '' @ t) = ''Bearer '' @ t"
    using assms(2) sp by (intro js_trim_id) auto
  have drop: "dropWhile is_js_space (CHR '' '' # t) = t"
    using \<open>is_js_space CHR '' ''\<close> sp assms(2) by (cases t) auto
  have "js_trim t = t" using assms(2) sp by (intro js_trim_id) auto
  moreover have "char_of (10::nat) \<notin> set t" "char_of (13::nat) \<notin> set t"
    using sp [of "char_of (10::nat)"] sp [of "char_of (13::nat)"] by (auto simp: is_js_space_def Let_def)
  moreover have "js_lower ''Bearer'' = ''bearer''"
    by code_simp
  moreover have "\<exists>x\<in>set t. \<not> is_js_space x" using sp assms(2) by (cases t) auto
  ultimately show ?thesis
    using assms(1,2) trim drop by (simp add: bearer_from_request_def Let_def)
qed

lemma format_chars:
  "key_id_ok k \<Longrightarrow> secret_ok s \<Longrightarrow> list_all is_secret_char (format_client_key k s)"
  by (auto simp: format_client_key_def KEY_PREFIX_def key_id_ok_def secret_ok_def list_all_iff
      is_hex_lower_def is_secret_char_def Let_def ord_of_def)

section \<open>Properties\<close>

text \<open>A minted key survives the trip through the client: whatever random bytes were drawn, the
  bearer header that carries the key reads back to the key id and the secret whose hash was stored,
  underscores in the secret included; and a string that parses at all is the formatting of its two
  parts, so no two keys share a rendering.\<close>
lemma client_key_roundtrip:
  assumes "length key_bytes = 8" "length secret_bytes = 32"
    "m = mint_client_key sha256 id_bytes key_bytes secret_bytes"
    "rq_header rq ''authorization'' = Some (''Bearer '' @ mk_key m)"
  shows "bearer_from_request rq = Some (mk_key m)
       \<and> (\<exists>secret. parse_client_key (mk_key m) = Some \<lparr>pk_key_id = mk_key_id m, pk_secret = secret\<rparr>
             \<and> sha256_hex sha256 secret = mk_secret_hash m)
       \<and> (\<forall>raw p. parse_client_key raw = Some p \<longrightarrow>
             raw = format_client_key (pk_key_id p) (pk_secret p))"
proof (intro conjI allI impI)
  let ?k = "new_key_id key_bytes" and ?s = "random_secret secret_bytes"
  have ok: "key_id_ok ?k" "secret_ok ?s" using assms(1,2) minted_parts_ok by auto
  have m: "mk_key m = format_client_key ?k ?s" "mk_key_id m = ?k" "mk_secret_hash m = sha256_hex sha256 ?s"
    by (simp_all add: assms(3) mint_client_key_def Let_def)
  show "bearer_from_request rq = Some (mk_key m)"
    using assms(4) format_chars [OF ok] unfolding m(1)
    by (intro bearer_of_token) (auto simp: format_client_key_def KEY_PREFIX_def)
  show "\<exists>secret. parse_client_key (mk_key m) = Some \<lparr>pk_key_id = mk_key_id m, pk_secret = secret\<rparr>
          \<and> sha256_hex sha256 secret = mk_secret_hash m"
    using parse_format [OF ok] m by auto
  show "raw = format_client_key (pk_key_id p) (pk_secret p)" if "parse_client_key raw = Some p" for raw p
    using parse_client_keyD (1) [OF that] .
qed

definition sample_bearer :: request where
  "sample_bearer = \<lparr>rq_method = ''GET'', rq_path = ''/v1/models'', rq_query = [],
     rq_headers = [(''authorization'', ''Bearer '' @
       mk_key (mint_client_key id [] (replicate 8 CHR ''k'') (replicate 32 CHR ''s'')))],
     rq_body = None\<rparr>"

definition auth_key :: minted_key where
  "auth_key = mint_client_key id [] (replicate 8 CHR ''k'') (replicate 32 CHR ''s'')"

definition auth_client :: client_row where
  "auth_client = \<lparr>cl_id = ''cli'', cl_account_id = ''acct'', cl_key_id = mk_key_id auth_key,
     cl_secret_hash = mk_secret_hash auth_key, cl_label = None, cl_platform = None,
     cl_created_at = 0, cl_last_seen_at = None, cl_revoked_at = None\<rparr>"

definition auth_account :: account_row where
  "auth_account = \<lparr>ac_id = ''acct'', ac_plan_id = ''dev'', ac_label = None, ac_created_at = 0,
     ac_suspended_at = None, ac_credit = 1000, ac_spent = 0\<rparr>"

definition auth_plan :: plan_row where
  "auth_plan = \<lparr>pr_id = ''dev'', pr_name = ''Developer'', pr_signup_credit = NInt 0,
     pr_monthly_included = NInt 0, pr_requests_per_minute = NInt 20, pr_max_output_tokens = NInt 4096,
     pr_allowed_tiers = ''economy''\<rparr>"

definition auth_world :: world where
  "auth_world = \<lparr>w_db = empty_db\<lparr>t_plans := [auth_plan], t_accounts := [auth_account],
     t_clients := [auth_client]\<rparr>, w_now = 0, w_sched = []\<rparr>"

lemma auth_key_parts:
  "bearer_from_request sample_bearer = Some (mk_key auth_key)" "mk_key auth_key \<noteq> []"
  "parse_client_key (mk_key auth_key) =
     Some \<lparr>pk_key_id = mk_key_id auth_key, pk_secret = random_secret (replicate 32 CHR ''s'')\<rparr>"
  "mk_secret_hash auth_key = sha256_hex id (random_secret (replicate 32 CHR ''s''))"
proof -
  have ok: "key_id_ok (new_key_id (replicate 8 CHR ''k''))" "secret_ok (random_secret (replicate 32 CHR ''s''))"
    by (simp_all add: minted_parts_ok)
  show "parse_client_key (mk_key auth_key) =
     Some \<lparr>pk_key_id = mk_key_id auth_key, pk_secret = random_secret (replicate 32 CHR ''s'')\<rparr>"
    using parse_format [OF ok] by (simp add: auth_key_def mint_client_key_def Let_def)
  show "mk_secret_hash auth_key = sha256_hex id (random_secret (replicate 32 CHR ''s''))"
    by (simp add: auth_key_def mint_client_key_def Let_def)
  show "mk_key auth_key \<noteq> []"
    by (simp add: auth_key_def mint_client_key_def Let_def format_client_key_def)
  have "list_all is_secret_char (mk_key auth_key)"
    using format_chars [OF ok] by (simp add: auth_key_def mint_client_key_def Let_def)
  moreover have "rq_header sample_bearer ''authorization'' = Some (''Bearer '' @ mk_key auth_key)"
    by (simp add: sample_bearer_def get_header_def auth_key_def)
  ultimately show "bearer_from_request sample_bearer = Some (mk_key auth_key)"
    using \<open>mk_key auth_key \<noteq> []\<close> by (intro bearer_of_token)
qed

lemma sample_resolves:
  "resolve_client id sample_bearer auth_world =
     (Inr (Inr \<lparr>ca_client = auth_client, ca_account = auth_account, ca_plan = auth_plan\<rparr>), auth_world)"
  using auth_key_parts
  by (simp add: resolve_client_def bindM_run run_simps quiet_def get_client_by_key_id_def
      get_account_def get_plan_def auth_world_def auth_client_def auth_account_def auth_plan_def)

lemma resolved_caller:
  assumes "resolve_client sha256 rq w = (Inr (Inr c), w')"
  shows "\<exists>secret. bearer_from_request rq =
             Some (format_client_key (cl_key_id (ca_client c)) secret)
           \<and> cl_secret_hash (ca_client c) = sha256_hex sha256 secret
           \<and> ca_client c \<in> set (t_clients (w_db w)) \<and> cl_revoked_at (ca_client c) = None
           \<and> ca_account c \<in> set (t_accounts (w_db w))
           \<and> ac_id (ca_account c) = cl_account_id (ca_client c)
           \<and> ac_suspended_at (ca_account c) = None
           \<and> ca_plan c \<in> set (t_plans (w_db w)) \<and> pr_id (ca_plan c) = ac_plan_id (ca_account c)
           \<and> w_db w' = w_db w"
proof -
  obtain bearer p where b: "bearer_from_request rq = Some bearer" "parse_client_key bearer = Some p"
    and run: "bindM (get_client_by_key_id (pk_key_id p)) (\<lambda>c.
       case c of
          None \<Rightarrow> retM (Inl FailUnauthenticated)
        | Some client \<Rightarrow>
       if \<not> constant_time_equal (sha256_hex sha256 (pk_secret p)) (cl_secret_hash client)
       then retM (Inl FailUnauthenticated)
       else if cl_revoked_at client \<noteq> None then retM (Inl FailRevoked)
       else
       bindM (get_account (cl_account_id client)) (\<lambda>a.
       case a of
          None \<Rightarrow> retM (Inl FailMisconfigured)
        | Some account \<Rightarrow>
       if ac_suspended_at account \<noteq> None then retM (Inl FailSuspended)
       else
       bindM (get_plan (ac_plan_id account)) (\<lambda>p.
       case p of
          None \<Rightarrow> retM (Inl FailMisconfigured)
        | Some plan \<Rightarrow>
       retM (Inr \<lparr>ca_client = client, ca_account = account, ca_plan = plan\<rparr>)))) w = (Inr (Inr c), w')"
    using assms by (auto simp: resolve_client_def split: option.splits if_splits)
  obtain client w1 where c1: "get_client_by_key_id (pk_key_id p) w = (Inr (Some client), w1)"
    and h: "sha256_hex sha256 (pk_secret p) = cl_secret_hash client" "cl_revoked_at client = None"
    and run1: "bindM (get_account (cl_account_id client)) (\<lambda>a.
       case a of
          None \<Rightarrow> retM (Inl FailMisconfigured)
        | Some account \<Rightarrow>
       if ac_suspended_at account \<noteq> None then retM (Inl FailSuspended)
       else
       bindM (get_plan (ac_plan_id account)) (\<lambda>p.
       case p of
          None \<Rightarrow> retM (Inl FailMisconfigured)
        | Some plan \<Rightarrow>
       retM (Inr \<lparr>ca_client = client, ca_account = account, ca_plan = plan\<rparr>))) w1 = (Inr (Inr c), w')"
    using run by (elim bindM_InrE) (auto split: option.splits if_splits)
  obtain account w2 where c2: "get_account (cl_account_id client) w1 = (Inr (Some account), w2)"
    and s: "ac_suspended_at account = None"
    and run2: "bindM (get_plan (ac_plan_id account)) (\<lambda>p.
       case p of
          None \<Rightarrow> retM (Inl FailMisconfigured)
        | Some plan \<Rightarrow>
       retM (Inr \<lparr>ca_client = client, ca_account = account, ca_plan = plan\<rparr>)) w2 = (Inr (Inr c), w')"
    using run1 by (elim bindM_InrE) (auto split: option.splits if_splits)
  obtain plan where c3: "get_plan (ac_plan_id account) w2 = (Inr (Some plan), w')"
    and c: "c = \<lparr>ca_client = client, ca_account = account, ca_plan = plan\<rparr>"
    using run2 by (elim bindM_InrE) (auto split: option.splits)
  from c1 have 1: "w_db w1 = w_db w" "lookup cl_key_id (pk_key_id p) (t_clients (w_db w)) = Some client"
    by (auto simp: get_client_by_key_id_def dest: query_result)
  from c2 1 have 2: "w_db w2 = w_db w"
      "lookup ac_id (cl_account_id client) (t_accounts (w_db w)) = Some account"
    by (auto simp: get_account_def dest: query_result)
  from c3 2 have 3: "w_db w' = w_db w" "lookup pr_id (ac_plan_id account) (t_plans (w_db w)) = Some plan"
    by (auto simp: get_plan_def dest: query_result)
  from 1(2) 2(2) 3(2) have rows: "client \<in> set (t_clients (w_db w))" "cl_key_id client = pk_key_id p"
      "account \<in> set (t_accounts (w_db w))" "ac_id account = cl_account_id client"
      "plan \<in> set (t_plans (w_db w))" "pr_id plan = ac_plan_id account"
    by (auto dest: lookup_SomeD)
  from b h s rows 3(1) parse_client_keyD(1) [OF b(2)] c show ?thesis by auto
qed

text \<open>C12. A caller is resolved only from the key of a stored client: whatever fails on the way, a
  success means the bearer is the formatting of some key id and secret, a stored client has that key
  id and the hash of that secret and is not revoked, its account is stored and not suspended, the
  account's plan is stored, and nothing was written.\<close>
theorem caller_holds_the_key:
  assumes "resolve_client sha256 rq w = (Inr (Inr c), w')"
  shows "\<exists>secret. bearer_from_request rq =
             Some (format_client_key (cl_key_id (ca_client c)) secret)
           \<and> cl_secret_hash (ca_client c) = sha256_hex sha256 secret
           \<and> ca_client c \<in> set (t_clients (w_db w)) \<and> cl_revoked_at (ca_client c) = None
           \<and> ca_account c \<in> set (t_accounts (w_db w))
           \<and> ac_id (ca_account c) = cl_account_id (ca_client c)
           \<and> ac_suspended_at (ca_account c) = None
           \<and> ca_plan c \<in> set (t_plans (w_db w)) \<and> pr_id (ca_plan c) = ac_plan_id (ca_account c)
           \<and> w_db w' = w_db w"
  using resolved_caller [OF assms] .

theorem caller_holds_the_key_witness:
  "\<exists>secret. bearer_from_request sample_bearer =
             Some (format_client_key (cl_key_id auth_client) secret)
           \<and> cl_secret_hash auth_client = sha256_hex id secret"
  using caller_holds_the_key [OF sample_resolves] by auto

text \<open>A caller without the secret learns nothing and costs little: a bearer that does not have
  the shape of a key is refused before any statement runs, and a well-formed key whose secret does
  not hash to the stored value gets the one refusal of an unknown key, whether that key was revoked
  or its account suspended.\<close>
lemma no_secret_no_information:
  assumes "bearer_from_request rq = Some b" "b \<noteq> []"
  shows "(parse_client_key b = None \<longrightarrow> resolve_client sha256 rq w = (Inr (Inl FailUnauthenticated), w))
       \<and> (\<forall>p. parse_client_key b = Some p \<longrightarrow>
             (\<forall>r \<in> set (t_clients (w_db w)). cl_key_id r = pk_key_id p \<longrightarrow>
                cl_secret_hash r \<noteq> sha256_hex sha256 (pk_secret p)) \<longrightarrow>
             fst (resolve_client sha256 rq w) \<in> {Inr (Inl FailUnauthenticated), Inl DbError})"
proof (intro conjI allI impI)
  show "resolve_client sha256 rq w = (Inr (Inl FailUnauthenticated), w)" if "parse_client_key b = None"
    using assms that by (simp add: resolve_client_def)
next
  fix p
  assume p: "parse_client_key b = Some p" and no: "\<forall>r \<in> set (t_clients (w_db w)).
    cl_key_id r = pk_key_id p \<longrightarrow> cl_secret_hash r \<noteq> sha256_hex sha256 (pk_secret p)"
  obtain r w1 where c: "get_client_by_key_id (pk_key_id p) w = (r, w1)" by fastforce
  show "fst (resolve_client sha256 rq w) \<in> {Inr (Inl FailUnauthenticated), Inl DbError}"
  proof (cases r)
    case (Inl e)
    with c have "e = DbError"
      by (auto simp: get_client_by_key_id_def query_def stmt_def Let_def split: fault.splits prod.splits)
    with c Inl assms p show ?thesis by (simp add: resolve_client_def bindM_run)
  next
    case (Inr found)
    with c have "found = lookup cl_key_id (pk_key_id p) (t_clients (w_db w))"
      by (auto simp: get_client_by_key_id_def dest: query_result)
    with no have "\<And>client. found = Some client \<Longrightarrow>
        cl_secret_hash client \<noteq> sha256_hex sha256 (pk_secret p)"
      using lookup_SomeD by metis
    with c Inr assms p show ?thesis
      by (cases found) (auto simp: resolve_client_def bindM_run)
  qed
qed

end
