(* ===== verification/Balance.thy ===== *)
theory Balance
  imports Prelude
begin

text \<open>
  The spend gate of src/src/balance.ts: two pools (the monthly allowance, then prepaid credit),
  the decision taken before a request (\<open>decide_balance\<close>) and the split of a metered charge
  after it (\<open>allocate_charge\<close>).  The pools are JavaScript numbers, because the code checks
  \<open>Number.isInteger\<close> on each of them before it trusts it.  The prose of an indeterminate
  decision is modelled by the field it names and the offending value.
\<close>

section \<open>Data\<close>

record balance_state =
  bs_credit :: jsnum
  bs_spent  :: jsnum

record spend_pools =
  sp_credit          :: jsnum
  sp_spent           :: jsnum
  sp_included        :: jsnum
  sp_allowance_spent :: jsnum

datatype pool_field = GrantedCredit | RecordedSpend | MonthlyIncluded | AllowanceSpent

datatype balance_decision =
    BalAllow (bal_remaining: jsnum) (bal_remaining_allowance: jsnum) (bal_remaining_credit: jsnum)
  | BalExhausted jsnum jsnum jsnum
  | BalIndeterminate pool_field jsnum

record charge_allocation =
  ca_from_allowance :: jsnum
  ca_from_credit    :: jsnum

section \<open>Operations\<close>

text \<open>\<open>!Number.isInteger(n) || n < 0\<close>, the test every field goes through.\<close>

definition bad_amount :: "jsnum \<Rightarrow> bool" where
  "bad_amount n = (\<not> is_integer n \<or> js_lt n (NInt 0))"

definition remaining_allowance :: "jsnum \<Rightarrow> jsnum \<Rightarrow> jsnum" where
  "remaining_allowance included allowance_spent =
     (if bad_amount included then NInt 0
      else if bad_amount allowance_spent then NInt 0
      else js_max (NInt 0) (js_sub included allowance_spent))"

definition remaining_micro_usd :: "balance_state \<Rightarrow> jsnum" where
  "remaining_micro_usd st = js_max (NInt 0) (js_sub (bs_credit st) (bs_spent st))"

definition decide_balance :: "spend_pools \<Rightarrow> balance_decision" where
  "decide_balance p =
     (if bad_amount (sp_credit p) then BalIndeterminate GrantedCredit (sp_credit p)
      else if bad_amount (sp_spent p) then BalIndeterminate RecordedSpend (sp_spent p)
      else if bad_amount (sp_included p) then BalIndeterminate MonthlyIncluded (sp_included p)
      else if bad_amount (sp_allowance_spent p)
           then BalIndeterminate AllowanceSpent (sp_allowance_spent p)
      else
        let ra = remaining_allowance (sp_included p) (sp_allowance_spent p);
            rc = remaining_micro_usd \<lparr>bs_credit = sp_credit p, bs_spent = sp_spent p\<rparr>
        in if ra = NInt 0 \<and> js_le (sp_credit p) (sp_spent p)
           then BalExhausted (sp_credit p) (sp_spent p) (NInt 0)
           else BalAllow (js_add ra rc) ra rc)"

definition allocate_charge :: "jsnum \<Rightarrow> jsnum \<Rightarrow> jsnum \<Rightarrow> charge_allocation" where
  "allocate_charge micro included allowance_spent =
     (if \<not> is_integer micro \<or> js_le micro (NInt 0)
      then \<lparr>ca_from_allowance = NInt 0, ca_from_credit = NInt 0\<rparr>
      else
        let ra = remaining_allowance included allowance_spent;
            fa = js_min micro ra
        in \<lparr>ca_from_allowance = fa, ca_from_credit = js_sub micro fa\<rparr>)"

section \<open>Lemmas on integer pools\<close>

text \<open>The pools a stored account and plan give: integers.\<close>

definition int_pools :: "int \<Rightarrow> int \<Rightarrow> int \<Rightarrow> int \<Rightarrow> spend_pools" where
  "int_pools c s i a =
     \<lparr>sp_credit = NInt c, sp_spent = NInt s, sp_included = NInt i, sp_allowance_spent = NInt a\<rparr>"

lemma bad_amount_int [simp]: "bad_amount (NInt n) \<longleftrightarrow> n < 0"
  by (simp add: bad_amount_def)

lemma good_amountE:
  assumes "\<not> bad_amount n" obtains i where "n = NInt i" "0 \<le> i"
  using assms by (cases n) (auto simp: bad_amount_def)

lemma bad_amount_cases: "bad_amount n \<or> (\<exists>i\<ge>0. n = NInt i)"
  by (cases n) (auto simp: bad_amount_def)

lemma remaining_allowance_int [simp]:
  "remaining_allowance (NInt i) (NInt a) = NInt (if i < 0 \<or> a < 0 then 0 else max 0 (i - a))"
  by (simp add: remaining_allowance_def)

lemma remaining_allowance_is_int:
  "\<exists>k\<ge>0. remaining_allowance i a = NInt k"
proof -
  have "bad_amount i \<or> bad_amount a \<or> (\<exists>x y. i = NInt x \<and> a = NInt y)"
    using bad_amount_cases [of i] bad_amount_cases [of a] by auto
  then show ?thesis by (auto simp: remaining_allowance_def)
qed

lemma remaining_micro_usd_int [simp]:
  "remaining_micro_usd \<lparr>bs_credit = NInt c, bs_spent = NInt s\<rparr> = NInt (max 0 (c - s))"
  by (simp add: remaining_micro_usd_def)

lemma decide_balance_int:
  assumes "0 \<le> c" "0 \<le> s" "0 \<le> i" "0 \<le> a"
  shows "decide_balance (int_pools c s i a) =
           (if i \<le> a \<and> c \<le> s then BalExhausted (NInt c) (NInt s) (NInt 0)
            else BalAllow (NInt (max 0 (i - a) + max 0 (c - s))) (NInt (max 0 (i - a)))
                   (NInt (max 0 (c - s))))"
  using assms by (auto simp: decide_balance_def int_pools_def Let_def)

lemma allocate_charge_int:
  "allocate_charge (NInt m) (NInt i) (NInt a) =
     (let fa = (if m \<le> 0 \<or> i < 0 \<or> a < 0 then 0 else min m (max 0 (i - a)))
      in \<lparr>ca_from_allowance = NInt fa, ca_from_credit = NInt (if m \<le> 0 then 0 else m - fa)\<rparr>)"
  by (simp add: allocate_charge_def Let_def)

lemma decide_balance_indeterminate_iff:
  "(\<exists>f v. decide_balance p = BalIndeterminate f v) \<longleftrightarrow>
     bad_amount (sp_credit p) \<or> bad_amount (sp_spent p) \<or> bad_amount (sp_included p) \<or>
     bad_amount (sp_allowance_spent p)"
  by (auto simp: decide_balance_def Let_def split: if_splits)

lemma good_pools_int:
  assumes "\<not> bad_amount (sp_credit p)" "\<not> bad_amount (sp_spent p)"
    and "\<not> bad_amount (sp_included p)" "\<not> bad_amount (sp_allowance_spent p)"
  obtains c s i a where "p = int_pools c s i a" "0 \<le> c" "0 \<le> s" "0 \<le> i" "0 \<le> a"
proof -
  obtain c where c: "sp_credit p = NInt c" "0 \<le> c" using assms(1) by (rule good_amountE)
  obtain s where s: "sp_spent p = NInt s" "0 \<le> s" using assms(2) by (rule good_amountE)
  obtain i where i: "sp_included p = NInt i" "0 \<le> i" using assms(3) by (rule good_amountE)
  obtain a where a: "sp_allowance_spent p = NInt a" "0 \<le> a" using assms(4) by (rule good_amountE)
  have "p = int_pools c s i a"
    using c s i a by (cases p) (simp add: int_pools_def)
  then show ?thesis using that c s i a by blast
qed

section \<open>Properties\<close>

text \<open>The gate's verdict, on every branch.  It is indeterminate exactly when one of the four
  recorded amounts is not a non-negative integer.  On well-formed amounts it is exhausted exactly
  when both pools are gone, and otherwise it allows the request and reports the two remainders,
  clamped at zero, and their sum.\<close>
lemma decide_balance_verdict:
  assumes "0 \<le> c" "0 \<le> s" "0 \<le> i" "0 \<le> a"
  shows "((\<exists>f v. decide_balance p = BalIndeterminate f v) \<longleftrightarrow>
            bad_amount (sp_credit p) \<or> bad_amount (sp_spent p) \<or> bad_amount (sp_included p)
            \<or> bad_amount (sp_allowance_spent p))
       \<and> (decide_balance (int_pools c s i a) = BalExhausted (NInt c) (NInt s) (NInt 0)
            \<longleftrightarrow> i \<le> a \<and> c \<le> s)
       \<and> (a < i \<or> s < c \<longrightarrow>
            decide_balance (int_pools c s i a) =
              BalAllow (NInt (max 0 (i - a) + max 0 (c - s))) (NInt (max 0 (i - a)))
                (NInt (max 0 (c - s))))"
  using decide_balance_indeterminate_iff [of p] decide_balance_int [OF assms] by auto

text \<open>C6. A metered charge is split without loss: the two shares are non-negative and add up to the
  charge, the allowance share never exceeds what is left of the allowance, and credit is touched
  only when the charge uses the allowance up.\<close>
theorem allocate_charge_splits:
  assumes "0 < m" "0 \<le> i" "0 \<le> a"
  shows "\<exists>fa fc. allocate_charge (NInt m) (NInt i) (NInt a) =
                    \<lparr>ca_from_allowance = NInt fa, ca_from_credit = NInt fc\<rparr>
       \<and> fa + fc = m \<and> 0 \<le> fa \<and> 0 \<le> fc \<and> fa \<le> max 0 (i - a) \<and> (0 < fc \<longrightarrow> i \<le> a + fa)"
  using assms by (auto simp: allocate_charge_int Let_def)

theorem allocate_charge_splits_witness:
  "\<exists>fa fc. allocate_charge (NInt 7) (NInt 10) (NInt 6) =
             \<lparr>ca_from_allowance = NInt fa, ca_from_credit = NInt fc\<rparr> \<and> fa + fc = 7"
  using allocate_charge_splits [of 7 10 6] by fastforce

text \<open>C7. One request overshoots by at most itself: after a request of cost \<open>m\<close> was allowed on
  a reported remainder \<open>R\<close> and charged, the allowance counter passes the included amount
  only if it already had, and the debt on credit grows by at most what the charge exceeds
  \<open>R\<close>.\<close>
theorem overshoot_one_request:
  assumes "0 \<le> c" "0 \<le> s" "0 \<le> i" "0 \<le> a" "0 < m"
    and "decide_balance (int_pools c s i a) = BalAllow (NInt R) ra rc"
    and "allocate_charge (NInt m) (NInt i) (NInt a) =
           \<lparr>ca_from_allowance = NInt fa, ca_from_credit = NInt fc\<rparr>"
  shows "a + fa \<le> max a i \<and> max 0 (s + fc - c) \<le> max 0 (s - c) + max 0 (m - R)"
proof -
  from assms(6) decide_balance_int [OF assms(1-4)]
  have R: "R = max 0 (i - a) + max 0 (c - s)" by (auto split: if_splits)
  from assms(2-5,7) have f: "fa = min m (max 0 (i - a))" "fc = m - fa"
    by (auto simp: allocate_charge_int Let_def)
  have "a + fa \<le> max a i" using f by auto
  moreover have "max 0 (s + fc - c) \<le> max 0 (s - c) + max 0 (m - R)" using R f by linarith
  ultimately show ?thesis by blast
qed

theorem overshoot_one_request_witness:
  "max 0 (5 + 6 - 5) \<le> max 0 (5 - 5) + max (0::int) (7 - 1)"
  by (rule overshoot_one_request [of 5 5 2 1 7 1 "NInt 1" "NInt 0" 1 6, THEN conjunct2])
     (simp_all add: decide_balance_int allocate_charge_int Let_def)

end
