(* ===== verification/ChatRequest.thy ===== *)
theory ChatRequest
  imports Meter Json Crypto
begin

text \<open>
  src/src/chat-request.ts: the validation of a chat completion body.  Each refusal is a constructor
  of \<open>chat_error\<close>, in place of the prose of its message.
\<close>

section \<open>Base64 decoding\<close>

definition base64_val :: "char \<Rightarrow> nat option" where
  "base64_val c = (let n = ord_of c in
     if 65 \<le> n \<and> n \<le> 90 then Some (n - 65) else if 97 \<le> n \<and> n \<le> 122 then Some (n - 71)
     else if 48 \<le> n \<and> n \<le> 57 then Some (n + 4) else if n = 43 then Some 62
     else if n = 47 then Some 63 else None)"

fun base64_bytes :: "nat list \<Rightarrow> string" where
  "base64_bytes (a # b # c # d # r) =
     (let n = a * 262144 + b * 4096 + c * 64 + d in
      [char_of (n div 65536), char_of (n div 256), char_of n] @ base64_bytes r)"
| "base64_bytes [a, b, c] =
     (let n = (a * 4096 + b * 64 + c) div 4 in [char_of (n div 256), char_of n])"
| "base64_bytes [a, b] = [char_of ((a * 64 + b) div 16)]"
| "base64_bytes _ = []"

text \<open>\<open>atob\<close> on a string without white space; \<open>None\<close> is the exception.\<close>

definition atob :: "string \<Rightarrow> string option" where
  "atob s =
     (let s1 = (if length s mod 4 = 0
                then (if ends_with ''=='' s then take (length s - 2) s
                      else if ends_with ''='' s then take (length s - 1) s else s)
                else s)
      in if length s1 mod 4 = 1 \<or> list_ex (\<lambda>c. base64_val c = None) s1 then None
         else Some (base64_bytes (List.map (\<lambda>c. the (base64_val c)) s1)))"

section \<open>Image data URLs\<close>

definition MAX_IMAGE_BYTES :: nat where
  "MAX_IMAGE_BYTES = 4 * 1024 * 1024"

datatype image_error = NotDataUrl | NotDecodable | ZeroBytes | ImageTooLarge

definition is_mime_char :: "char \<Rightarrow> bool" where
  "is_mime_char c = (let n = ord_of c in
     (48 \<le> n \<and> n \<le> 57) \<or> (65 \<le> n \<and> n \<le> 90) \<or> (97 \<le> n \<and> n \<le> 122)
     \<or> c = CHR ''.'' \<or> c = CHR ''+'' \<or> c = CHR ''-'')"

definition is_payload_char :: "char \<Rightarrow> bool" where
  "is_payload_char c = (base64_val c \<noteq> None \<or> c = CHR ''='' \<or> is_js_space c)"

text \<open>The two groups of \<open>/^data:(image\/[a-z0-9.+-]+);base64,([A-Za-z0-9+/=\s]+)$/i\<close>.\<close>

definition match_data_url :: "string \<Rightarrow> (string \<times> string) option" where
  "match_data_url u =
     (let r = drop 11 u;
          sub = takeWhile is_mime_char r;
          r2 = drop (length sub) r;
          payload = drop 8 r2
      in if js_lower (take 11 u) = ''data:image/'' \<and> sub \<noteq> [] \<and> js_lower (take 8 r2) = '';base64,''
            \<and> payload \<noteq> [] \<and> list_all is_payload_char payload
         then Some (take (length sub + 6) (drop 5 u), payload) else None)"

definition parse_image_data_url :: "string \<Rightarrow> image_error + string \<times> string" where
  "parse_image_data_url u =
     (case match_data_url u of
        None \<Rightarrow> Inl NotDataUrl
      | Some (mime, payload) \<Rightarrow>
          (case atob (List.filter (\<lambda>c. \<not> is_js_space c) payload) of
             None \<Rightarrow> Inl NotDecodable
           | Some bytes \<Rightarrow>
               if length bytes = 0 then Inl ZeroBytes
               else if length bytes > MAX_IMAGE_BYTES then Inl ImageTooLarge
               else Inr (bytes, js_lower mime)))"

section \<open>Requests\<close>

definition MAX_MESSAGES :: nat where "MAX_MESSAGES = 200"
definition MAX_CONTENT_CHARS :: nat where "MAX_CONTENT_CHARS = 200000"

definition ALLOWED_FIELDS :: "string list" where
  "ALLOWED_FIELDS = [''model'', ''messages'', ''max_tokens'', ''temperature'', ''top_p'', ''stream'', ''image'']"

datatype chat_role = System | User | Assistant

definition ALLOWED_ROLES :: "(string \<times> chat_role) list" where
  "ALLOWED_ROLES = [(''system'', System), (''user'', User), (''assistant'', Assistant)]"

record chat_turn =
  ct_role    :: chat_role
  ct_content :: string
  ct_images  :: "string list option"

record valid_chat_request =
  vr_model          :: string
  vr_messages       :: "chat_turn list"
  vr_max_tokens     :: "int option"
  vr_temperature    :: "jsnum option"
  vr_top_p          :: "jsnum option"
  vr_stream         :: bool
  vr_image_data_url :: "string option"
  vr_image_bytes    :: "string option"

text \<open>Positions are the message index and, within a message, the part index.\<close>

datatype chat_error =
    BodyNotObject | UnknownField string | ModelMissing | MessagesMissing | TooManyMessages
  | TurnNotObject nat | TurnUnknownField nat string | BadRole nat
  | PartNotObject nat nat | PartTextNotString nat nat | PartUrlMissing nat nat
  | PartUrlScheme nat nat | PartImage nat nat image_error | PartType nat nat
  | PartsEmpty nat | ContentShape nat | ContentTooLong nat | ImagesNotUser nat
  | BadMaxTokens | TemperatureType | TemperatureRange | TopPType | TopPRange | StreamType
  | ImageType | BadImage image_error

fun keys_of :: "js \<Rightarrow> string list" where
  "keys_of (JObj fs) = List.map fst fs"
| "keys_of _ = []"

definition image_url_of :: "js \<Rightarrow> string option" where
  "image_url_of iu =
     (case iu of
        JStr s \<Rightarrow> Some s
      | _ \<Rightarrow> (if is_object iu
              then (case js_get iu ''url'' of JStr s \<Rightarrow> Some s | _ \<Rightarrow> None) else None))"

datatype chat_part = TextPart string | ImagePart string

definition parse_part :: "nat \<Rightarrow> nat \<Rightarrow> js \<Rightarrow> chat_error + chat_part" where
  "parse_part i j p =
     (if \<not> is_object p then Inl (PartNotObject i j)
      else let ty = (case js_get p ''type'' of JStr t \<Rightarrow> t | _ \<Rightarrow> []) in
        if ty = ''text'' then
          (case js_get p ''text'' of JStr t \<Rightarrow> Inr (TextPart t) | _ \<Rightarrow> Inl (PartTextNotString i j))
        else if ty = ''image_url'' then
          (case image_url_of (js_get p ''image_url'') of
             None \<Rightarrow> Inl (PartUrlMissing i j)
           | Some url \<Rightarrow>
               (let u = js_trim url in
                if u = [] then Inl (PartUrlMissing i j)
                else if \<not> (starts_with ''data:image/'' u \<or> starts_with ''https://'' u
                           \<or> starts_with ''http://'' u) then Inl (PartUrlScheme i j)
                else if starts_with ''data:image/'' u then
                  (case parse_image_data_url u of
                     Inl e \<Rightarrow> Inl (PartImage i j e) | Inr _ \<Rightarrow> Inr (ImagePart u))
                else Inr (ImagePart u)))
        else Inl (PartType i j))"

text \<open>The loop over the parts: the texts and the URLs, each in order.\<close>

fun parse_parts :: "nat \<Rightarrow> nat \<Rightarrow> js list \<Rightarrow> chat_error + string list \<times> string list" where
  "parse_parts i j [] = Inr ([], [])"
| "parse_parts i j (p # ps) =
     (case parse_part i j p of
        Inl e \<Rightarrow> Inl e
      | Inr part \<Rightarrow>
          (case parse_parts i (Suc j) ps of
             Inl e \<Rightarrow> Inl e
           | Inr (ts, us) \<Rightarrow>
               Inr (case part of TextPart t \<Rightarrow> (t # ts, us) | ImagePart u \<Rightarrow> (ts, u # us))))"

definition newline :: string where
  "newline = [char_of (10::nat)]"

definition parse_content :: "nat \<Rightarrow> js \<Rightarrow> chat_error + string \<times> string list option" where
  "parse_content i c =
     (case c of
        JStr s \<Rightarrow> Inr (s, None)
      | JArr parts \<Rightarrow>
          (case parse_parts i 0 parts of
             Inl e \<Rightarrow> Inl e
           | Inr (texts, urls) \<Rightarrow>
               (let content = join_with newline texts;
                    images = (if urls \<noteq> [] then Some urls else None)
                in if content = [] \<and> images = None then Inl (PartsEmpty i)
                   else Inr (content, images)))
      | _ \<Rightarrow> Inl (ContentShape i))"

definition parse_turn :: "nat \<Rightarrow> js \<Rightarrow> chat_error + chat_turn" where
  "parse_turn i t =
     (if \<not> is_plain_obj t then Inl (TurnNotObject i)
      else case List.find (\<lambda>k. k \<noteq> ''role'' \<and> k \<noteq> ''content'') (keys_of t) of
        Some k \<Rightarrow> Inl (TurnUnknownField i k)
      | None \<Rightarrow>
          (case (case js_get t ''role'' of JStr r \<Rightarrow> map_of ALLOWED_ROLES r | _ \<Rightarrow> None) of
             None \<Rightarrow> Inl (BadRole i)
           | Some role \<Rightarrow>
               (case parse_content i (js_get t ''content'') of
                  Inl e \<Rightarrow> Inl e
                | Inr (content, images) \<Rightarrow>
                    if length content > MAX_CONTENT_CHARS then Inl (ContentTooLong i)
                    else if images \<noteq> None \<and> role \<noteq> User then Inl (ImagesNotUser i)
                    else Inr \<lparr>ct_role = role, ct_content = content, ct_images = images\<rparr>)))"

fun parse_turns :: "nat \<Rightarrow> js list \<Rightarrow> chat_error + chat_turn list" where
  "parse_turns i [] = Inr []"
| "parse_turns i (t # ts) =
     (case parse_turn i t of
        Inl e \<Rightarrow> Inl e
      | Inr turn \<Rightarrow>
          (case parse_turns (Suc i) ts of Inl e \<Rightarrow> Inl e | Inr turns \<Rightarrow> Inr (turn # turns)))"

definition parse_max_tokens :: "js \<Rightarrow> chat_error + int option" where
  "parse_max_tokens v =
     (case v of
        JUndef \<Rightarrow> Inr None
      | JNum (NInt n) \<Rightarrow> if n < 1 then Inl BadMaxTokens else Inr (Some n)
      | _ \<Rightarrow> Inl BadMaxTokens)"

definition parse_temperature :: "js \<Rightarrow> chat_error + jsnum option" where
  "parse_temperature v =
     (case v of
        JUndef \<Rightarrow> Inr None
      | JNum n \<Rightarrow>
          if \<not> is_finite_num n then Inl TemperatureType
          else if js_lt n (NInt 0) \<or> js_lt (NInt 2) n then Inl TemperatureRange else Inr (Some n)
      | _ \<Rightarrow> Inl TemperatureType)"

definition parse_top_p :: "js \<Rightarrow> chat_error + jsnum option" where
  "parse_top_p v =
     (case v of
        JUndef \<Rightarrow> Inr None
      | JNum n \<Rightarrow>
          if \<not> is_finite_num n then Inl TopPType
          else if js_le n (NInt 0) \<or> js_lt (NInt 1) n then Inl TopPRange else Inr (Some n)
      | _ \<Rightarrow> Inl TopPType)"

definition parse_stream :: "js \<Rightarrow> chat_error + bool" where
  "parse_stream v = (case v of JUndef \<Rightarrow> Inr False | JBool b \<Rightarrow> Inr b | _ \<Rightarrow> Inl StreamType)"

text \<open>The image field: the trimmed URL and its bytes.\<close>

definition parse_image :: "js \<Rightarrow> chat_error + (string \<times> string) option" where
  "parse_image v =
     (case v of
        JUndef \<Rightarrow> Inr None
      | JStr s \<Rightarrow>
          if js_trim s = [] then Inl ImageType
          else (case parse_image_data_url (js_trim s) of
                  Inl e \<Rightarrow> Inl (BadImage e)
                | Inr (bytes, mime) \<Rightarrow> Inr (Some (js_trim s, bytes)))
      | _ \<Rightarrow> Inl ImageType)"

definition andthen :: "'e + 'a \<Rightarrow> ('a \<Rightarrow> 'e + 'b) \<Rightarrow> 'e + 'b" where
  "andthen r k = (case r of Inl e \<Rightarrow> Inl e | Inr x \<Rightarrow> k x)"

definition parse_chat_request :: "js \<Rightarrow> chat_error + valid_chat_request" where
  "parse_chat_request raw =
     (if \<not> is_plain_obj raw then Inl BodyNotObject
      else case List.find (\<lambda>k. k \<notin> set ALLOWED_FIELDS) (keys_of raw) of
        Some k \<Rightarrow> Inl (UnknownField k)
      | None \<Rightarrow>
     (case js_get raw ''model'' of
        JStr model \<Rightarrow>
          if js_trim model = [] then Inl ModelMissing
          else (case js_get raw ''messages'' of
            JArr ms \<Rightarrow>
              if ms = [] then Inl MessagesMissing
              else if length ms > MAX_MESSAGES then Inl TooManyMessages
              else
                andthen (parse_turns 0 ms) (\<lambda>messages.
                andthen (parse_max_tokens (js_get raw ''max_tokens'')) (\<lambda>max_tokens.
                andthen (parse_temperature (js_get raw ''temperature'')) (\<lambda>temperature.
                andthen (parse_top_p (js_get raw ''top_p'')) (\<lambda>top_p.
                andthen (parse_stream (js_get raw ''stream'')) (\<lambda>stream.
                andthen (parse_image (js_get raw ''image'')) (\<lambda>image.
                Inr \<lparr>vr_model = js_trim model, vr_messages = messages, vr_max_tokens = max_tokens,
                     vr_temperature = temperature, vr_top_p = top_p, vr_stream = stream,
                     vr_image_data_url = map_option fst image,
                     vr_image_bytes = map_option snd image\<rparr>))))))
          | _ \<Rightarrow> Inl MessagesMissing)
      | _ \<Rightarrow> Inl ModelMissing))"

definition prompt_text_bytes :: "chat_turn list \<Rightarrow> nat" where
  "prompt_text_bytes ms = foldl (\<lambda>n m. n + utf8_length (ct_content m)) 0 ms"

section \<open>Decoding what was encoded\<close>

lemma base64_val_char [simp]: "n < 64 \<Longrightarrow> base64_val (base64_char n) = Some n"
  by (auto simp: base64_val_def base64_char_def Let_def ord_of_def)

lemma div64_parts:
  fixes n :: nat
  shows "n div 262144 * 262144 + n div 4096 mod 64 * 4096 + n div 64 mod 64 * 64 + n mod 64 = n"
    "n div 4096 * 4096 + n div 64 mod 64 * 64 + n mod 64 = n"
    "n div 64 * 64 + n mod 64 = n"
proof -
  have e: "n div 4096 = n div 64 div 64" "n div 262144 = n div 64 div 64 div 64"
    by (simp_all add: div_mult2_eq [symmetric])
  have d: "m div 64 * 64 + m mod 64 = m" for m :: nat by simp
  show "n div 64 * 64 + n mod 64 = n" by (rule d)
  have "n div 64 div 64 * 4096 + n div 64 mod 64 * 64 = n div 64 * 64"
    using d [of "n div 64"] by linarith
  then show 2: "n div 4096 * 4096 + n div 64 mod 64 * 64 + n mod 64 = n"
    unfolding e using d [of n] by linarith
  have "n div 64 div 64 div 64 * 262144 + n div 64 div 64 mod 64 * 4096 = n div 64 div 64 * 4096"
    using d [of "n div 64 div 64"] by linarith
  then show "n div 262144 * 262144 + n div 4096 mod 64 * 4096 + n div 64 mod 64 * 64 + n mod 64 = n"
    unfolding e using 2 [unfolded e] by linarith
qed

lemma byte_parts:
  fixes a b c :: nat
  shows "b < 256 \<Longrightarrow> c < 256 \<Longrightarrow> (a * 65536 + b * 256 + c) div 65536 = a"
    "c < 256 \<Longrightarrow> (a * 65536 + b * 256 + c) div 256 = 256 * a + b"
  by (rule div_nat_eqI; simp)+

lemma char_of_ord_mod: "char_of (256 * m + ord_of c) = c"
  by (subst char_of_mod_256 [symmetric]) (simp add: ord_of_def)

lemma btoa_decodes:
  "\<exists>body vals. btoa bs = body @ replicate ((3 - length bs mod 3) mod 3) CHR ''=''
     \<and> List.map base64_val body = List.map Some vals \<and> base64_bytes vals = bs"
proof (induction bs rule: btoa.induct)
  case 1
  show ?case by (intro exI [of _ "[]"]) simp
next
  case (2 a)
  let ?n = "ord_of a * 16"
  have lt: "?n div 64 < 64" using ord_of_less [of a] by (simp add: div_less_iff_less_mult)
  have "(?n div 64 * 64 + ?n mod 64) div 16 = ord_of a" unfolding div64_parts by simp
  then have "base64_bytes [?n div 64, ?n mod 64] = [a]" by (simp add: ord_of_def)
  moreover have "replicate ((3 - length [a] mod 3) mod 3) CHR ''='' = [CHR ''='', CHR ''='']"
    by (simp add: numeral_2_eq_2)
  ultimately show ?case using lt
    by (intro exI [of _ "[base64_char (?n div 64), base64_char (?n mod 64)]"]
        exI [of _ "[?n div 64, ?n mod 64]"]) (simp add: Let_def del: base64_bytes.simps)
next
  case (3 a b)
  let ?m = "ord_of a * 256 + ord_of b"
  let ?n = "?m * 4"
  have lt: "?n div 4096 < 64" by (simp add: base64_index2)
  have "(?n div 4096 * 4096 + ?n div 64 mod 64 * 64 + ?n mod 64) div 4 = ?m"
    unfolding div64_parts by simp
  then have "base64_bytes [?n div 4096, ?n div 64 mod 64, ?n mod 64] = [char_of (?m div 256), char_of ?m]"
    by (simp only: base64_bytes.simps Let_def)
  moreover have "?m div 256 = ord_of a" using ord_of_less [of b] by simp
  moreover have "char_of ?m = b" using char_of_ord_mod [of "ord_of a" b] by (simp add: mult.commute)
  ultimately have "base64_bytes [?n div 4096, ?n div 64 mod 64, ?n mod 64] = [a, b]"
    by (simp add: ord_of_def)
  moreover have "replicate ((3 - length [a, b] mod 3) mod 3) CHR ''='' = [CHR ''='']" by simp
  ultimately show ?case using lt
    by (intro exI [of _ "[base64_char (?n div 4096), base64_char (?n div 64 mod 64), base64_char (?n mod 64)]"]
        exI [of _ "[?n div 4096, ?n div 64 mod 64, ?n mod 64]"])
       (simp add: Let_def del: base64_bytes.simps)
next
  case (4 a b c cs)
  let ?n = "ord_of a * 65536 + ord_of b * 256 + ord_of c"
  let ?v = "[?n div 262144, ?n div 4096 mod 64, ?n div 64 mod 64, ?n mod 64]"
  obtain body vals where IH: "btoa cs = body @ replicate ((3 - length cs mod 3) mod 3) CHR ''=''"
      "List.map base64_val body = List.map Some vals" "base64_bytes vals = cs"
    using 4 by blast
  have lt: "?n div 262144 < 64" by (simp add: base64_index)
  have n: "?n div 65536 = ord_of a" "?n div 256 = 256 * ord_of a + ord_of b"
    by (simp_all add: byte_parts)
  have "base64_bytes (?v @ vals) = [char_of (?n div 65536), char_of (?n div 256), char_of ?n] @ cs"
    using IH(3) by (simp only: append_Cons append_Nil base64_bytes.simps Let_def div64_parts)
  moreover have "char_of ?n = c" using char_of_ord_mod [of "256 * ord_of a + ord_of b" c]
    by (simp add: algebra_simps)
  ultimately have "base64_bytes (?v @ vals) = a # b # c # cs"
    unfolding n by (simp add: char_of_ord_mod) (simp add: ord_of_def)
  moreover have step: "length (a # b # c # cs) = length cs + 3" by simp
  have "length (a # b # c # cs) mod 3 = length cs mod 3" unfolding step by presburger
  ultimately show ?case using IH lt
    by (intro exI [of _ "List.map base64_char ?v @ body"] exI [of _ "?v @ vals"])
       (simp add: Let_def del: base64_bytes.simps)
qed

lemma ends_with_append: "ends_with b (a @ b)"
  by (simp add: ends_with_def starts_with_def)

lemma ends_with_char: "ends_with [c] s \<longleftrightarrow> s \<noteq> [] \<and> last s = c"
  by (cases s rule: rev_cases) (auto simp: ends_with_def starts_with_def)

lemma ends_with_two: "ends_with [c, d] s \<Longrightarrow> ends_with [d] s"
  by (cases s rule: rev_cases) (auto simp: ends_with_def starts_with_def)

lemma btoa_length_mod: "length (btoa bs) mod 4 = 0"
  by (induction bs rule: btoa.induct) (auto simp: Let_def)

lemma base64_val_equals [simp]: "base64_val CHR ''='' = None"
  by (simp add: base64_val_def ord_of_def)

lemma below_three: "n < 3 \<Longrightarrow> n = 0 \<or> n = 1 \<or> n = (2::nat)"
  by auto

lemma length_mod4: "(x + k) mod 4 = 0 \<Longrightarrow> k \<le> 2 \<Longrightarrow> x mod 4 \<noteq> (1::nat)"
  by presburger

lemma atob_btoa: "atob (btoa bs) = Some bs"
proof -
  let ?k = "(3 - length bs mod 3) mod 3"
  obtain body vals where b: "btoa bs = body @ replicate ?k CHR ''=''"
      "List.map base64_val body = List.map Some vals" "base64_bytes vals = bs"
    using btoa_decodes by blast
  have ok: "base64_val c \<noteq> None" if "c \<in> set body" for c
  proof -
    from that have "base64_val c \<in> set (List.map base64_val body)" by simp
    then show ?thesis unfolding b(2) by auto
  qed
  have last: "body \<noteq> [] \<Longrightarrow> last body \<noteq> CHR ''=''" using ok by (metis base64_val_equals last_in_set)
  have "(length body + ?k) mod 4 = 0" using btoa_length_mod [of bs] b(1) by simp
  moreover have "?k \<le> 2" by simp
  ultimately have len: "length body mod 4 \<noteq> 1" by (rule length_mod4)
  have "?k < 3" by simp
  then have "?k = 0 \<or> ?k = 1 \<or> ?k = 2" by (rule below_three)
  then have strip: "(if ends_with ''=='' (btoa bs) then take (length (btoa bs) - 2) (btoa bs)
      else if ends_with ''='' (btoa bs) then take (length (btoa bs) - 1) (btoa bs) else btoa bs) = body"
  proof (elim disjE)
    assume k: "?k = 0"
    then have "\<not> ends_with ''='' (btoa bs)" using b(1) last unfolding k by (auto simp: ends_with_char)
    moreover from this have "\<not> ends_with ''=='' (btoa bs)" using ends_with_two by blast
    moreover have "btoa bs = body" using b(1) unfolding k by simp
    ultimately show ?thesis by simp
  next
    assume k: "?k = 1"
    then have e: "btoa bs = body @ ''=''" using b(1) unfolding k by simp
    have "\<not> ends_with ''=='' (btoa bs)"
      unfolding e using last by (cases body rule: rev_cases) (auto simp: ends_with_def starts_with_def)
    then show ?thesis unfolding e by (simp add: ends_with_append)
  next
    assume k: "?k = 2"
    then have e: "btoa bs = body @ ''==''" using b(1) unfolding k by (simp add: numeral_2_eq_2)
    show ?thesis unfolding e by (simp add: ends_with_append)
  qed
  have "\<not> list_ex (\<lambda>c. base64_val c = None) body" using ok by (auto simp: list_ex_iff)
  moreover have "List.map (\<lambda>c. the (base64_val c)) body = vals"
  proof -
    have "List.map the (List.map base64_val body) = vals" unfolding b(2) by simp
    then show ?thesis by (simp add: comp_def)
  qed
  ultimately show ?thesis
    using btoa_length_mod [of bs] strip len b(3) by (simp add: atob_def)
qed

lemma btoa_chars: "c \<in> set (btoa bs) \<Longrightarrow> (base64_val c \<noteq> None \<or> c = CHR ''='') \<and> \<not> is_js_space c"
proof -
  assume c: "c \<in> set (btoa bs)"
  obtain body where b: "btoa bs = body @ replicate ((3 - length bs mod 3) mod 3) CHR ''=''"
      "\<forall>c \<in> set body. in_alphabet c"
    using btoa_shape by blast
  have "in_alphabet c \<or> c = CHR ''=''" using c b by (auto split: if_splits)
  then show ?thesis
  proof
    assume "in_alphabet c"
    then obtain n where n: "n < 64" "c = base64_char n" by (auto simp: in_alphabet_def)
    then have "base64_val c = Some n" by simp
    moreover from this have "\<not> is_js_space c"
      by (auto simp: base64_val_def is_js_space_def Let_def split: if_splits)
    ultimately show ?thesis by simp
  qed (simp add: is_js_space_def ord_of_def)
qed

text \<open>An image that a client encodes as a base64 data URL is decoded to its bytes, for any
  non-empty content up to the cap, and refused above the cap.\<close>
lemma image_data_url_roundtrip:
  assumes "bytes \<noteq> []"
  shows "parse_image_data_url (''data:image/png;base64,'' @ btoa bytes) =
           (if length bytes \<le> MAX_IMAGE_BYTES then Inr (bytes, ''image/png'') else Inl ImageTooLarge)"
proof -
  let ?u = "''data:image/png;base64,'' @ btoa bytes"
  have low: "js_lower ''data:image/'' = ''data:image/''" "js_lower '';base64,'' = '';base64,''"
    "js_lower ''image/png'' = ''image/png''" by code_simp+
  have mime: "takeWhile is_mime_char (''png;base64,'' @ btoa bytes) = ''png''"
    by (simp add: is_mime_char_def ord_of_def)
  have u: "take 11 ?u = ''data:image/''" "drop 11 ?u = ''png;base64,'' @ btoa bytes"
    "drop 5 ?u = ''image/png;base64,'' @ btoa bytes" by simp_all
  have ne: "btoa bytes \<noteq> []" using assms by (cases bytes rule: btoa.cases) (auto simp: Let_def)
  have pay: "list_all is_payload_char (btoa bytes)"
    using btoa_chars by (auto simp: list_all_iff is_payload_char_def)
  have "match_data_url ?u = Some (''image/png'', btoa bytes)"
    unfolding match_data_url_def u mime Let_def using low ne pay by (simp add: numeral_eq_Suc)
  moreover have "List.filter (\<lambda>c. \<not> is_js_space c) (btoa bytes) = btoa bytes"
    using btoa_chars by (auto simp: filter_id_conv)
  ultimately show ?thesis
    using assms low(3) by (simp add: parse_image_data_url_def atob_btoa)
qed

section \<open>What an accepted request satisfies\<close>

definition turn_ok :: "chat_turn \<Rightarrow> bool" where
  "turn_ok t =
     (length (ct_content t) \<le> MAX_CONTENT_CHARS
      \<and> (case ct_images t of None \<Rightarrow> True
         | Some us \<Rightarrow> us \<noteq> [] \<and> ct_role t = User
             \<and> list_all (\<lambda>u. starts_with ''https://'' u \<or> starts_with ''http://'' u
                          \<or> (\<exists>b m. parse_image_data_url u = Inr (b, m))) us))"

lemma parse_part_image:
  "parse_part i j p = Inr (ImagePart u) \<Longrightarrow>
     starts_with ''https://'' u \<or> starts_with ''http://'' u \<or> (\<exists>b m. parse_image_data_url u = Inr (b, m))"
  by (auto simp: parse_part_def Let_def split: if_splits option.splits sum.splits js.splits)

lemma parse_parts_images:
  "parse_parts i j ps = Inr (ts, us) \<Longrightarrow> u \<in> set us \<Longrightarrow>
     starts_with ''https://'' u \<or> starts_with ''http://'' u \<or> (\<exists>b m. parse_image_data_url u = Inr (b, m))"
proof (induction ps arbitrary: j ts us)
  case (Cons p ps)
  from Cons.prems(1) obtain part ts' us' where p: "parse_part i j p = Inr part"
      "parse_parts i (Suc j) ps = Inr (ts', us')"
    by (auto split: sum.splits)
  show ?case
  proof (cases part)
    case (TextPart t)
    with Cons p show ?thesis by auto
  next
    case (ImagePart v)
    with Cons p have "u = v \<or> u \<in> set us'" by auto
    with Cons.IH p ImagePart parse_part_image show ?thesis by blast
  qed
qed simp

lemma parse_turn_ok: "parse_turn i t = Inr turn \<Longrightarrow> turn_ok turn"
proof -
  assume "parse_turn i t = Inr turn"
  then obtain role content images where c: "parse_content i (js_get t ''content'') = Inr (content, images)"
      "length content \<le> MAX_CONTENT_CHARS" "images = None \<or> role = User"
      "turn = \<lparr>ct_role = role, ct_content = content, ct_images = images\<rparr>"
    by (auto simp: parse_turn_def split: if_splits option.splits sum.splits prod.splits)
  have "us \<noteq> [] \<and> list_all (\<lambda>u. starts_with ''https://'' u \<or> starts_with ''http://'' u
                          \<or> (\<exists>b m. parse_image_data_url u = Inr (b, m))) us" if "images = Some us" for us
    using c(1) that parse_parts_images
    by (fastforce simp: parse_content_def Let_def list_all_iff
        split: js.splits sum.splits prod.splits if_splits)
  with c(2-4) show ?thesis by (auto simp: turn_ok_def split: option.splits)
qed

lemma parse_turns_ok:
  "parse_turns i ts = Inr turns \<Longrightarrow> length turns = length ts \<and> list_all turn_ok turns"
  by (induction ts arbitrary: i turns) (auto dest: parse_turn_ok split: sum.splits)

lemma andthen_Inr: "andthen r k = Inr y \<longleftrightarrow> (\<exists>x. r = Inr x \<and> k x = Inr y)"
  by (cases r) (auto simp: andthen_def)

lemma parse_fields_ok:
  "parse_max_tokens v = Inr (Some n) \<Longrightarrow> 1 \<le> n"
  "parse_temperature v = Inr (Some t) \<Longrightarrow>
     is_finite_num t \<and> \<not> js_lt t (NInt 0) \<and> \<not> js_lt (NInt 2) t"
  "parse_top_p v = Inr (Some p) \<Longrightarrow> is_finite_num p \<and> \<not> js_le p (NInt 0) \<and> \<not> js_lt (NInt 1) p"
  by (auto simp: parse_max_tokens_def parse_temperature_def parse_top_p_def
      split: js.splits jsnum.splits if_splits)

text \<open>C19. A chat request that is accepted is one the rest of the plane can rely on: its body had no
  field outside the contract, it names a model, it has between one and 200 turns within the
  content cap, images appear on user turns only and are http URLs or data URLs that decode within
  the image cap, the token cap is a positive integer, and temperature and top_p are finite and in
  range.\<close>
theorem accepted_chat_request_ok:
  assumes "parse_chat_request raw = Inr r"
  shows "set (keys_of raw) \<subseteq> set ALLOWED_FIELDS \<and> vr_model r \<noteq> []
       \<and> 1 \<le> length (vr_messages r) \<and> length (vr_messages r) \<le> 200
       \<and> list_all turn_ok (vr_messages r)
       \<and> (\<forall>n. vr_max_tokens r = Some n \<longrightarrow> 1 \<le> n)
       \<and> (\<forall>t. vr_temperature r = Some t \<longrightarrow>
             is_finite_num t \<and> \<not> js_lt t (NInt 0) \<and> \<not> js_lt (NInt 2) t)
       \<and> (\<forall>p. vr_top_p r = Some p \<longrightarrow>
             is_finite_num p \<and> \<not> js_le p (NInt 0) \<and> \<not> js_lt (NInt 1) p)"
proof -
  obtain model ms where keys: "List.find (\<lambda>k. k \<notin> set ALLOWED_FIELDS) (keys_of raw) = None"
    and m: "js_trim model \<noteq> []" "ms \<noteq> []" "length ms \<le> MAX_MESSAGES"
    and run: "andthen (parse_turns 0 ms) (\<lambda>messages.
                andthen (parse_max_tokens (js_get raw ''max_tokens'')) (\<lambda>max_tokens.
                andthen (parse_temperature (js_get raw ''temperature'')) (\<lambda>temperature.
                andthen (parse_top_p (js_get raw ''top_p'')) (\<lambda>top_p.
                andthen (parse_stream (js_get raw ''stream'')) (\<lambda>stream.
                andthen (parse_image (js_get raw ''image'')) (\<lambda>image.
                Inr \<lparr>vr_model = js_trim model, vr_messages = messages, vr_max_tokens = max_tokens,
                     vr_temperature = temperature, vr_top_p = top_p, vr_stream = stream,
                     vr_image_data_url = map_option fst image,
                     vr_image_bytes = map_option snd image\<rparr>)))))) = Inr r"
    using assms unfolding parse_chat_request_def
    by (auto split: if_splits option.splits js.splits)
  from run obtain turns mt te tp st im where
    t: "parse_turns 0 ms = Inr turns" "parse_max_tokens (js_get raw ''max_tokens'') = Inr mt"
      "parse_temperature (js_get raw ''temperature'') = Inr te" "parse_top_p (js_get raw ''top_p'') = Inr tp"
    and r: "r = \<lparr>vr_model = js_trim model, vr_messages = turns, vr_max_tokens = mt,
                 vr_temperature = te, vr_top_p = tp, vr_stream = st,
                 vr_image_data_url = map_option fst im, vr_image_bytes = map_option snd im\<rparr>"
    by (auto simp: andthen_Inr)
  have "set (keys_of raw) \<subseteq> set ALLOWED_FIELDS"
    using keys by (auto simp: find_None_iff)
  moreover have "1 \<le> length ms" "length ms \<le> 200" using m by (auto simp: MAX_MESSAGES_def Suc_le_eq)
  ultimately show ?thesis
    using m(1) parse_turns_ok [OF t(1)] parse_fields_ok(1) [of _ ] parse_fields_ok(2,3) t(2-4)
    by (auto simp: r)
qed

definition sample_chat_body :: js where
  "sample_chat_body = JObj [(''model'', JStr '' m ''),
     (''messages'', JArr [JObj [(''role'', JStr ''user''), (''content'', JStr ''hi'')]]),
     (''top_p'', JNum (NInt 1))]"

lemma sample_chat_parses:
  "parse_chat_request sample_chat_body = Inr \<lparr>vr_model = ''m'',
     vr_messages = [\<lparr>ct_role = User, ct_content = ''hi'', ct_images = None\<rparr>], vr_max_tokens = None,
     vr_temperature = None, vr_top_p = Some (NInt 1), vr_stream = False,
     vr_image_data_url = None, vr_image_bytes = None\<rparr>"
proof -
  have "js_trim '' m '' = ''m''" by (simp add: js_trim_def is_js_space_def ord_of_def)
  then show ?thesis
    by (simp add: parse_chat_request_def sample_chat_body_def ALLOWED_FIELDS_def MAX_MESSAGES_def
        andthen_def parse_turn_def parse_content_def ALLOWED_ROLES_def MAX_CONTENT_CHARS_def
        parse_max_tokens_def parse_temperature_def parse_top_p_def js_le_def parse_stream_def
        parse_image_def)
qed

theorem accepted_chat_request_ok_witness:
  "length (vr_messages (projr (parse_chat_request sample_chat_body))) \<le> 200 \<and>
   set (keys_of sample_chat_body) \<subseteq> set ALLOWED_FIELDS"
  using accepted_chat_request_ok [OF sample_chat_parses] sample_chat_parses by simp

end
