(* ===== verification/NumText.thy ===== *)
theory NumText
  imports Json
begin

text \<open>
  Number.prototype.toString of ECMA-262 and the reading of a non-negative decimal text that
  src/src/aig-logs.ts and src/src/aig-models.ts apply to it.  A finite number is exact here, so its
  digits are those of its decimal expansion; an expansion that does not end is cut after 400
  places.
\<close>

section \<open>Printing\<close>

text \<open>An integer and a number of decimal places that give the number, with as few places as
  possible.\<close>

fun decimal_form :: "nat \<Rightarrow> nat \<Rightarrow> rat \<Rightarrow> int \<times> nat" where
  "decimal_form 0 e a = (\<lfloor>a\<rfloor>, e)"
| "decimal_form (Suc n) e a =
     (if of_int \<lfloor>a\<rfloor> = a then (\<lfloor>a\<rfloor>, e) else decimal_form n (e + 1) (10 * a))"

text \<open>The digits of \<open>0.d * 10 ^ n\<close> laid out as the standard says.\<close>

definition exponent_text :: "int \<Rightarrow> string" where
  "exponent_text e = CHR ''e'' # (if e < 0 then CHR ''-'' else CHR ''+'') # dec_of_nat (nat \<bar>e\<bar>)"

definition digits_text :: "string \<Rightarrow> int \<Rightarrow> string" where
  "digits_text d n =
     (let k = int (length d) in
      if k \<le> n \<and> n \<le> 21 then d @ replicate (nat (n - k)) CHR ''0''
      else if 0 < n \<and> n \<le> 21 then take (nat n) d @ CHR ''.'' # drop (nat n) d
      else if -6 < n \<and> n \<le> 0 then CHR ''0'' # CHR ''.'' # replicate (nat (- n)) CHR ''0'' @ d
      else if k = 1 then d @ exponent_text (n - 1)
      else take 1 d @ CHR ''.'' # drop 1 d @ exponent_text (n - 1))"

definition strip_zeros :: "string \<Rightarrow> string" where
  "strip_zeros d = rev (dropWhile (\<lambda>c. c = CHR ''0'') (rev d))"

definition abs_text :: "rat \<Rightarrow> string" where
  "abs_text a =
     (let (s, e) = decimal_form 400 0 a;
          d = dec_of_nat (nat s)
      in if e = 0 then
           (if a < 10 ^ 21 then d else digits_text (strip_zeros d) (int (length d)))
         else digits_text d (int (length d) - int e))"

text \<open>\<open>String(n)\<close>.\<close>

definition js_num_string :: "jsnum \<Rightarrow> string" where
  "js_num_string n =
     (case n of
        NNaN \<Rightarrow> ''NaN''
      | NPosInf \<Rightarrow> ''Infinity''
      | NNegInf \<Rightarrow> ''-Infinity''
      | _ \<Rightarrow> (if rat_of_num n < 0 then [CHR ''-''] else []) @ abs_text \<bar>rat_of_num n\<bar>)"

lemma js_num_string_examples:
  "js_num_string (NInt 0) = ''0''" "js_num_string (NInt (- 42)) = ''-42''"
  "js_num_string (num_of_rat (43 / 10 ^ 7)) = ''0.0000043''"
  "js_num_string (num_of_rat (43 / 10 ^ 9)) = ''4.3e-8''"
  "js_num_string (num_of_rat (- 5 / 2)) = ''-2.5''"
  by code_simp+

section \<open>Reading\<close>

definition parse_exponent :: "string \<Rightarrow> int option" where
  "parse_exponent s =
     (case s of
        [] \<Rightarrow> Some 0
      | c # t \<Rightarrow>
          if c = CHR ''e'' \<or> c = CHR ''E'' then
            (let (neg, ds) = scan_sign t in
             if ds \<noteq> [] \<and> list_all is_digit_char ds
             then Some (if neg then - int (nat_of_dec ds) else int (nat_of_dec ds)) else None)
          else None)"

text \<open>\<open>decimalParts\<close>: the digits and the exponent of ten of a non-negative decimal text.\<close>

definition decimal_parts :: "string \<Rightarrow> (nat \<times> int) option" where
  "decimal_parts s0 =
     (let s = (case eat CHR ''+'' s0 of Some r \<Rightarrow> r | None \<Rightarrow> s0);
          (ip, r1) = scan_digits s;
          (fp, r2) = scan_fraction r1
      in case parse_exponent r2 of
           None \<Rightarrow> None
         | Some e \<Rightarrow>
             if (ip = [] \<and> fp = []) \<or> \<bar>e\<bar> > 60 then None
             else Some (nat_of_dec (ip @ fp), e - int (length fp)))"

text \<open>\<open>digits * 10 ^ exponent\<close> in integers, rounded up.\<close>

definition scale_up :: "nat \<Rightarrow> int \<Rightarrow> int" where
  "scale_up digits e =
     (if 0 \<le> e then int digits * 10 ^ nat e
      else (let divisor = 10 ^ nat (- e); whole = int digits div divisor
            in if int digits mod divisor = 0 then whole else whole + 1))"

definition MAX_SAFE_INTEGER :: int where
  "MAX_SAFE_INTEGER = 9007199254740991"

definition within_safe_range :: "int \<Rightarrow> int option" where
  "within_safe_range v = (if v < 0 \<or> v > MAX_SAFE_INTEGER then None else Some v)"

section \<open>Reading what was printed\<close>

lemma scale_up_ceiling: "scale_up digits e = \<lceil>scale10 (int digits) e\<rceil>"
proof (cases "0 \<le> e")
  case True
  then have "scale10 (int digits) e = of_int (int digits * 10 ^ nat e)" by (simp add: scale10_def)
  then show ?thesis using True by (simp only: scale_up_def ceiling_of_int if_True)
next
  case False
  define k :: int where "k = 10 ^ nat (- e)"
  have k: "0 < k" by (simp add: k_def)
  have s: "scale10 (int digits) e = of_int (int digits) / of_int k"
    using False by (simp add: scale10_def k_def)
  have "- (- int digits div k) = (if int digits mod k = 0 then int digits div k else int digits div k + 1)"
    using k by (simp add: zdiv_zminus1_eq_if)
  then have "\<lceil>of_int (int digits) / (of_int k :: rat)\<rceil> =
      (if int digits mod k = 0 then int digits div k else int digits div k + 1)"
    by (simp only: ceiling_divide_eq_div)
  then show ?thesis unfolding s using False by (simp add: scale_up_def k_def Let_def)
qed



lemma scale10_shift: "scale10 n e * 10 ^ k = scale10 n (e + int k)"
proof -
  have "scale10 n e = of_int n * 10 powi e" for e
    by (auto simp: scale10_def power_int_def field_simps power_inverse)
  then show ?thesis by (simp add: power_int_add)
qed

lemma scale10_powi: "scale10 n e = of_int n * 10 powi e"
  by (auto simp: scale10_def power_int_def field_simps)

text \<open>The number of decimal places is minimal and within the fuel.\<close>

definition decimal_places :: "nat \<Rightarrow> rat \<Rightarrow> bool" where
  "decimal_places n a = (a * 10 ^ n \<in> \<int>)"

lemma decimal_form_exact:
  assumes "decimal_places n a" "decimal_form n e a = (s, e')"
  shows "e \<le> e' \<and> of_int s = a * 10 ^ (e' - e)"
  using assms
proof (induction n e a rule: decimal_form.induct)
  case (1 e a)
  then show ?case by (auto simp: decimal_places_def elim!: Ints_cases)
next
  case (2 n e a)
  show ?case
  proof (cases "of_int \<lfloor>a\<rfloor> = a")
    case True
    with 2 show ?thesis by auto
  next
    case False
    have "decimal_places n (10 * a)" using 2(2) by (simp add: decimal_places_def mult_ac)
    with 2(1,3) False have "e + 1 \<le> e' \<and> of_int s = 10 * a * 10 ^ (e' - (e + 1))" by simp
    moreover from this have "Suc (e' - (e + 1)) = e' - e" by auto
    ultimately show ?thesis by (metis Suc_eq_plus1 Suc_leD mult.assoc mult.commute power_Suc)
  qed
qed


lemma nat_of_dec_trailing: "nat_of_dec (d @ replicate j CHR ''0'') = nat_of_dec d * 10 ^ j"
proof (induction j)
  case (Suc j)
  have "d @ replicate (Suc j) CHR ''0'' = (d @ replicate j CHR ''0'') @ [CHR ''0'']"
    by (simp add: replicate_append_same)
  then show ?case using Suc by (simp add: nat_of_dec_append digit_val_def ord_of_def del: append_assoc)
qed simp

lemma scan_digits_append:
  assumes "list_all is_digit_char d" "rest = [] \<or> \<not> is_digit_char (hd rest)"
  shows "scan_digits (d @ rest) = (d, rest)"
  using assms by (cases rest) (auto simp: scan_digits_def list_all_iff takeWhile_append dropWhile_append)

lemma not_digits [simp]:
  "\<not> is_digit_char CHR ''.''" "\<not> is_digit_char CHR ''e''" "\<not> is_digit_char CHR ''+''"
  "\<not> is_digit_char CHR ''-''" "is_digit_char CHR ''0''"
  by (simp_all add: is_digit_char_def ord_of_def)

lemma dec_of_nat_digit_list: "list_all is_digit_char (dec_of_nat n)"
  using dec_of_nat_digits by (auto simp: list_all_iff)

lemma eat_dec_of_nat: "\<not> is_digit_char c \<Longrightarrow> eat c (dec_of_nat n) = None"
  using dec_of_nat_digit_list [of n] by (cases "dec_of_nat n") auto

lemma parse_exponent_text [simp]: "parse_exponent (exponent_text e) = Some e"
  by (simp add: parse_exponent_def exponent_text_def scan_sign_def dec_of_nat_digit_list)

lemma decimal_parts_text:
  assumes "list_all is_digit_char ip" "list_all is_digit_char fp" "ip \<noteq> []" "\<bar>e\<bar> \<le> 60"
    "point = (if fp = [] then [] else CHR ''.'' # fp)"
    "ex = [] \<and> e = 0 \<or> ex = exponent_text e"
  shows "decimal_parts (ip @ point @ ex) = Some (nat_of_dec (ip @ fp), e - int (length fp))"
proof -
  have ex: "ex = [] \<or> \<not> is_digit_char (hd ex)" "eat CHR ''.'' ex = None"
    using assms(6) by (auto simp: exponent_text_def)
  have ex3: "parse_exponent ex = Some e"
    using assms(6) by (elim disjE conjE) (simp_all add: parse_exponent_def [of "[]"])
  have plus: "eat CHR ''+'' (ip @ r) = None" for r
    using assms(1,3) by (cases ip) auto
  have "point @ ex = [] \<or> \<not> is_digit_char (hd (point @ ex))" using ex assms(5) by auto
  then have "scan_digits (ip @ point @ ex) = (ip, point @ ex)" by (rule scan_digits_append [OF assms(1)])
  moreover have "scan_fraction (point @ ex) = (fp, ex)"
    using ex assms(2,5) scan_digits_append [of fp ex] by (auto simp: scan_fraction_def)
  ultimately show ?thesis
    using assms(3,4) ex3 by (simp add: decimal_parts_def plus)
qed

lemma decimal_parts_digits:
  assumes d: "list_all is_digit_char d" "d \<noteq> []" and n: "\<bar>n - 1\<bar> \<le> 60"
  shows "\<exists>D E. decimal_parts (digits_text d n) = Some (D, E)
           \<and> scale10 (int D) E = scale10 (int (nat_of_dec d)) (n - int (length d))"
proof -
  let ?k = "int (length d)"
  have sub: "list_all is_digit_char (take j d)" "list_all is_digit_char (drop j d)" for j
    using d(1) by (auto simp: list_all_iff dest: in_set_takeD in_set_dropD)
  have zeros: "list_all is_digit_char (replicate j CHR ''0'')" for j
    by (simp add: list_all_iff)
  consider (whole) "?k \<le> n \<and> n \<le> 21" | (mid) "\<not> (?k \<le> n \<and> n \<le> 21)" "0 < n \<and> n \<le> 21"
    | (small) "-6 < n \<and> n \<le> 0" | (expo) "\<not> (?k \<le> n \<and> n \<le> 21)" "\<not> (0 < n \<and> n \<le> 21)" "\<not> (-6 < n \<and> n \<le> 0)"
    by blast
  then show ?thesis
  proof cases
    case whole
    let ?ip = "d @ replicate (nat (n - ?k)) CHR ''0''"
    have "decimal_parts (?ip @ [] @ []) = Some (nat_of_dec (?ip @ []), 0 - int (length ([]::string)))"
      by (rule decimal_parts_text) (use d zeros in auto)
    moreover have "digits_text d n = ?ip" using whole by (simp add: digits_text_def Let_def)
    moreover have "scale10 (int (nat_of_dec d)) (n - ?k) = of_nat (nat_of_dec d * 10 ^ nat (n - ?k))"
      using whole by (simp add: scale10_def)
    ultimately show ?thesis by (simp add: nat_of_dec_trailing scale10_def)
  next
    case mid
    let ?ip = "take (nat n) d" and ?fp = "drop (nat n) d"
    have fp: "?fp \<noteq> []" using mid by auto
    have "decimal_parts (?ip @ (if ?fp = [] then [] else CHR ''.'' # ?fp) @ []) =
        Some (nat_of_dec (?ip @ ?fp), 0 - int (length ?fp))"
      by (rule decimal_parts_text) (use d sub mid in auto)
    moreover have "digits_text d n = ?ip @ CHR ''.'' # ?fp" using mid by (auto simp: digits_text_def Let_def)
    moreover have "- int (length ?fp) = n - ?k" using mid by auto
    ultimately show ?thesis using fp by simp
  next
    case small
    let ?fp = "replicate (nat (- n)) CHR ''0'' @ d"
    have fp: "?fp \<noteq> []" using d by auto
    have "decimal_parts (''0'' @ (if ?fp = [] then [] else CHR ''.'' # ?fp) @ []) =
        Some (nat_of_dec (''0'' @ ?fp), 0 - int (length ?fp))"
      by (rule decimal_parts_text) (use d zeros in auto)
    moreover have "digits_text d n = ''0'' @ CHR ''.'' # ?fp" using small d(2) by (cases d) (auto simp: digits_text_def Let_def)
    moreover have "nat_of_dec (''0'' @ ?fp) = nat_of_dec d"
      using nat_of_dec_zeros [of "Suc (nat (- n))" d] by simp
    moreover have "- int (length ?fp) = n - ?k" using small by auto
    ultimately show ?thesis using d(2) by simp
  next
    case expo
    let ?ip = "take 1 d" and ?fp = "drop 1 d"
    have "decimal_parts (?ip @ (if ?fp = [] then [] else CHR ''.'' # ?fp) @ exponent_text (n - 1)) =
        Some (nat_of_dec (?ip @ ?fp), n - 1 - int (length ?fp))"
      by (rule decimal_parts_text) (use d sub n in auto)
    moreover have "digits_text d n = ?ip @ (if ?fp = [] then [] else CHR ''.'' # ?fp) @ exponent_text (n - 1)"
      using expo d(2) by (cases d) (auto simp: digits_text_def Let_def)
    moreover have "n - 1 - int (length ?fp) = n - ?k" using d(2) by (cases d) auto
    ultimately show ?thesis by simp
  qed
qed

text \<open>A finite non-negative number with at most 400 decimal places, neither minute nor huge, is
  read back exactly from its text.\<close>

definition readable_decimal :: "rat \<Rightarrow> bool" where
  "readable_decimal a = (0 \<le> a \<and> decimal_places 400 a \<and> (a = 0 \<or> (10 powi -59 \<le> a \<and> a < 10 ^ 61)))"

lemma strip_zeros_digits:
  assumes "list_all is_digit_char d" "nat_of_dec d \<noteq> 0"
  shows "list_all is_digit_char (strip_zeros d)" "strip_zeros d \<noteq> []"
    "scale10 (int (nat_of_dec (strip_zeros d))) (int (length d) - int (length (strip_zeros d))) =
       of_nat (nat_of_dec d)"
proof -
  obtain j where j: "d = strip_zeros d @ replicate j CHR ''0''"
  proof -
    have "rev d = takeWhile (\<lambda>c. c = CHR ''0'') (rev d) @ dropWhile (\<lambda>c. c = CHR ''0'') (rev d)" by simp
    moreover have "takeWhile (\<lambda>c. c = CHR ''0'') (rev d) =
        replicate (length (takeWhile (\<lambda>c. c = CHR ''0'') (rev d))) CHR ''0''"
      by (rule replicate_length_same [symmetric]) (auto dest: set_takeWhileD)
    ultimately have "d = strip_zeros d @ replicate (length (takeWhile (\<lambda>c. c = CHR ''0'') (rev d))) CHR ''0''"
      unfolding strip_zeros_def by (metis rev_append rev_replicate rev_rev_ident)
    then show thesis by (rule that)
  qed
  have "list_all is_digit_char (strip_zeros d @ replicate j CHR ''0'')" using assms(1) j by simp
  then show "list_all is_digit_char (strip_zeros d)" by simp
  have n: "nat_of_dec d = nat_of_dec (strip_zeros d) * 10 ^ j"
    using j nat_of_dec_trailing [of "strip_zeros d" j] by simp
  then show "strip_zeros d \<noteq> []" using assms(2) by (auto simp: nat_of_dec_def)
  have "length d = length (strip_zeros d) + j" using j by (metis length_append length_replicate)
  then show "scale10 (int (nat_of_dec (strip_zeros d))) (int (length d) - int (length (strip_zeros d))) =
       of_nat (nat_of_dec d)"
    by (simp add: scale10_def n)
qed

lemma dec_of_nat_range: "0 < n \<Longrightarrow> 10 ^ (length (dec_of_nat n) - 1) \<le> n \<and> n < 10 ^ length (dec_of_nat n)"
proof (induction n rule: dec_of_nat.induct)
  case (1 n)
  show ?case
  proof (cases "n < 10")
    case True
    with 1 show ?thesis by (subst (1 2) dec_of_nat.simps) simp
  next
    case False
    let ?m = "n div 10"
    have "10 ^ (length (dec_of_nat ?m) - 1) \<le> ?m \<and> ?m < 10 ^ length (dec_of_nat ?m)" using 1 False by simp
    moreover have "length (dec_of_nat n) = Suc (length (dec_of_nat ?m))"
      using False by (subst dec_of_nat.simps) simp
    moreover have "length (dec_of_nat ?m) = Suc (length (dec_of_nat ?m) - 1)"
      by (cases "dec_of_nat ?m") auto
    ultimately have "10 ^ length (dec_of_nat ?m) \<le> 10 * ?m" "10 * ?m + 10 \<le> 10 ^ length (dec_of_nat n)"
      by (metis mult_le_mono2 power_Suc, metis Suc_leI add.commute mult_Suc_right mult_le_mono2 power_Suc)
    moreover have "n = 10 * ?m + n mod 10" "n mod 10 < 10" by simp_all
    ultimately have "10 ^ length (dec_of_nat ?m) \<le> n" "n < 10 ^ length (dec_of_nat n)" by linarith+
    then show ?thesis using \<open>length (dec_of_nat n) = _\<close> by simp
  qed
qed

lemma decimal_parts_abs_text:
  assumes "readable_decimal a"
  shows "\<exists>D E. decimal_parts (abs_text a) = Some (D, E) \<and> scale10 (int D) E = a"
proof -
  obtain s e where f: "decimal_form 400 0 a = (s, e)" by (cases "decimal_form 400 0 a")
  have a: "0 \<le> a" "a = 0 \<or> 10 powi -59 \<le> a \<and> a < 10 ^ 61" using assms by (auto simp: readable_decimal_def)
  have s: "of_int s = a * 10 ^ e"
    using decimal_form_exact [OF _ f] assms by (simp add: readable_decimal_def)
  then have "(0::rat) \<le> of_int s" using a by simp
  then have s0: "0 \<le> s" by simp
  let ?d = "dec_of_nat (nat s)"
  have val: "scale10 (int (nat s)) (- int e) = a"
    using s s0 by (simp add: scale10_def)
  have len: "\<bar>int (length ?d) - int e - 1\<bar> \<le> 60" if "s \<noteq> 0"
  proof -
    have p: "0 < nat s" using that s0 by simp
    let ?k = "length ?d"
    have k: "0 < ?k" by simp
    have "10 ^ (?k - 1) \<le> nat s" "nat s < 10 ^ ?k" using dec_of_nat_range [OF p] by auto
    then have "10 ^ (?k - 1) \<le> s" "s < 10 ^ ?k" using s0 by (simp_all add: le_nat_iff nat_less_iff)
    then have "(of_int (10 ^ (?k - 1)) :: rat) \<le> of_int s" "(of_int s :: rat) < of_int (10 ^ ?k)"
      by (simp_all only: of_int_le_iff of_int_less_iff)
    then have b: "10 ^ (?k - 1) \<le> a * 10 ^ e" "a * 10 ^ e < 10 ^ ?k" using s by simp_all
    have "a \<noteq> 0" using that s by auto
    then have ab: "10 powi -59 \<le> a" "a < 10 ^ 61" using a by auto
    have "a * 10 ^ e < 10 ^ 61 * 10 ^ e" using ab(2) by (rule mult_strict_right_mono) simp
    with b(1) have "(10::rat) ^ (?k - 1) < 10 ^ 61 * 10 ^ e" by (rule order_le_less_trans)
    then have "(10::rat) ^ (?k - 1) < 10 ^ (61 + e)" by (simp only: power_add)
    then have "?k - 1 < 61 + e" by (rule power_less_imp_less_exp [rotated]) simp
    moreover have "(10::rat) ^ e < 10 ^ (?k + 59)"
    proof -
      have "(10::rat) powi -59 * 10 ^ e < 10 ^ ?k"
        using b(2) ab(1) by (meson mult_right_mono order_le_less_trans zero_le_numeral zero_le_power)
      then show ?thesis by (simp add: power_int_minus field_simps power_add)
    qed
    then have "e < ?k + 59" by (rule power_less_imp_less_exp [rotated]) simp
    ultimately show ?thesis using k by linarith
  qed
  show ?thesis
  proof (cases "e = 0")
    case True
    then have as: "a = of_int s" using s by simp
    show ?thesis
    proof (cases "a < 10 ^ 21")
      case True
      have "decimal_parts (?d @ [] @ []) = Some (nat_of_dec (?d @ []), 0 - int (length ([]::string)))"
        by (rule decimal_parts_text) (simp_all add: dec_of_nat_digit_list)
      then show ?thesis using f True \<open>e = 0\<close> val by (simp add: abs_text_def)
    next
      case False
      then have "s \<noteq> 0" using as by auto
      then have nz: "nat_of_dec ?d \<noteq> 0" using s0 by simp
      note z = strip_zeros_digits [OF dec_of_nat_digit_list nz]
      have "\<bar>int (length ?d) - 1\<bar> \<le> 60" using len [OF \<open>s \<noteq> 0\<close>] \<open>e = 0\<close> by simp
      from decimal_parts_digits [OF z(1,2) this] z(3) show ?thesis
        using f False \<open>e = 0\<close> as s0 by (auto simp: abs_text_def Let_def)
    qed
  next
    case False
    have "s \<noteq> 0"
    proof
      assume "s = 0"
      then have "a = 0" using s by simp
      then show False using f False by (simp add: numeral_eq_Suc)
    qed
    then have "\<bar>int (length ?d) - int e - 1\<bar> \<le> 60" by (rule len)
    from decimal_parts_digits [OF dec_of_nat_digit_list [of "nat s"] dec_of_nat_not_Nil this]
    obtain D E where "decimal_parts (digits_text ?d (int (length ?d) - int e)) = Some (D, E)"
      "scale10 (int D) E = a" using val by auto
    then show ?thesis using f False by (auto simp: abs_text_def Let_def)
  qed
qed

section \<open>Integers\<close>

lemma js_Number_dec:
  assumes "n < 10 ^ 300"
  shows "js_Number (dec_of_nat n) = NInt (int n)"
proof -
  let ?s = "dec_of_nat n"
  have digits: "list_all is_digit_char ?s" by (rule dec_of_nat_digit_list)
  have nsp: "\<not> is_js_space c" if "is_digit_char c" for c
    using that by (auto simp: is_digit_char_def is_js_space_def Let_def)
  obtain c t where s: "?s = c # t" by (cases ?s) auto
  obtain t' d where s': "?s = t' @ [d]" by (cases ?s rule: rev_cases) auto
  have cd: "is_digit_char c" using digits s by simp
  have "is_digit_char d" using digits s' by simp
  then have "dropWhile is_js_space (rev ?s) = rev ?s" using nsp by (simp add: s')
  moreover have "dropWhile is_js_space ?s = ?s" using nsp cd by (simp add: s)
  ultimately have trim: "js_trim ?s = ?s" by (simp add: js_trim_def)
  have sc: "scan_digits ?s = (?s, [])" using scan_digits_append [OF digits, of "[]"] by simp
  have u: "unsigned_decimal ?s = Some (of_nat n, [])"
    by (simp add: unsigned_decimal_def sc scan_fraction_def scan_exponent_def scale10_def del: scan_digits_def)
  have "(of_nat n :: rat) < 10 ^ 300" using assms by (metis of_nat_less_iff of_nat_numeral of_nat_power)
  also have "\<dots> < overflow_bound" by (simp add: overflow_bound_def)
  finally have small: "(of_nat n :: rat) < overflow_bound" .
  have "- overflow_bound < 0" by (simp add: overflow_bound_def)
  then have "\<not> (of_nat n \<le> - overflow_bound)" by (meson leD of_nat_0_le_iff order_less_le_trans)
  then have num: "num_of_exact (of_nat n) = NInt (int n)"
    using small num_of_rat_of_int [of "int n"] by (simp add: num_of_exact_def not_le)
  have noletters: "hd t \<notin> {CHR ''x'', CHR ''X'', CHR ''o'', CHR ''O'', CHR ''b'', CHR ''B''}" if "t \<noteq> []"
  proof -
    have "is_digit_char (hd t)" using digits s that by (cases t) auto
    then show ?thesis by (auto simp: is_digit_char_def ord_of_def)
  qed
  have "c \<noteq> CHR ''-''" "c \<noteq> CHR ''+''" using cd by (auto simp: is_digit_char_def ord_of_def)
  moreover have "?s \<noteq> ''Infinity''" using cd s by (auto simp: is_digit_char_def ord_of_def)
  ultimately show ?thesis
    using u num noletters trim s by (simp add: js_Number_def signed_decimal_def) (metis s)
qed

lemma js_num_string_int:
  assumes "0 \<le> i" "i < 10 ^ 21"
  shows "js_num_string (NInt i) = dec_of_nat (nat i)"
proof -
  have "(of_int i :: rat) < 10 ^ 21" using assms(2) by (metis of_int_less_iff of_int_numeral of_int_power)
  moreover have "decimal_form 400 0 (of_int i) = (i, 0)"
    using decimal_form.simps(2) [of 399 0 "of_int i"] by simp
  ultimately show ?thesis using assms(1) by (simp add: js_num_string_def abs_text_def)
qed

end
