(* ===== verification/Inference.thy ===== *)
theory Inference
  imports Meter ChatRequest Store NumText
begin

text \<open>
  src/src/inference.ts: the upstream contract and the reading of a model's answer.  The runner
  itself is a parameter of the handlers.  A reader that dereferences a null element throws, as the
  code does: that is the exception \<open>TypeError\<close>.
\<close>

section \<open>The contract\<close>

record inference_request =
  ir_upstream_model :: string
  ir_binding_model  :: "string option"
  ir_responses_api  :: bool
  ir_billing        :: billing
  ir_messages       :: "chat_turn list"
  ir_max_tokens     :: int
  ir_temperature    :: "jsnum option"
  ir_top_p          :: "jsnum option"
  ir_stream         :: bool
  ir_auth_token_id  :: string
  ir_auth_value     :: string
  ir_metadata       :: "(string \<times> string) list"
  ir_image_bytes    :: "string option"

datatype inference_result =
    InfOk (inf_body: js) (inf_log_id: "string option")
  | InfStream "string option"
  | InfUpstreamError "int option"
  | InfTimeout int

section \<open>Printing values inside text\<close>

text \<open>What \<open>Array.prototype.join\<close> makes of an element.\<close>

fun join_text :: "js \<Rightarrow> string" where
  "join_text JUndef = []"
| "join_text JNull = []"
| "join_text (JBool b) = (if b then ''true'' else ''false'')"
| "join_text (JNum n) = js_num_string n"
| "join_text (JStr s) = s"
| "join_text (JArr xs) = join_with '','' (List.map join_text xs)"
| "join_text (JObj fs) = ''[object Object]''"

section \<open>Reading the text of an answer\<close>

definition some_text :: "string \<Rightarrow> string option" where
  "some_text s = (if s = [] then None else Some s)"

fun first_text :: "string option list \<Rightarrow> string option" where
  "first_text [] = None"
| "first_text (None # os) = first_text os"
| "first_text (Some s # os) = Some s"

fun nonempty_str :: "js \<Rightarrow> string option" where
  "nonempty_str (JStr s) = some_text s"
| "nonempty_str _ = None"

text \<open>The first choice of an OpenAI-shaped answer.\<close>

definition choice_text :: "js \<Rightarrow> string option" where
  "choice_text first =
     (let msg = js_get first ''message''; content = js_get msg ''content'';
          reasoning = js_nullish (js_get msg ''reasoning_content'') (js_get msg ''reasoning'')
      in first_text
           [nonempty_str content,
            (case content of
               JArr parts \<Rightarrow> some_text (List.concat (List.map
                 (\<lambda>b. case js_get b ''text'' of JStr t \<Rightarrow> t | _ \<Rightarrow> []) (List.filter is_object parts)))
             | _ \<Rightarrow> None),
            nonempty_str (js_get first ''text''),
            nonempty_str reasoning,
            (if content = JStr [] then Some [] else None)])"

text \<open>The blocks of an Anthropic answer: text first, thinking as the last resort.\<close>

definition block_texts :: "string \<Rightarrow> js list \<Rightarrow> string" where
  "block_texts kind blocks =
     List.concat (List.map (\<lambda>b. str_of_js (js_get b kind))
       (List.filter (\<lambda>b. is_object b \<and> js_get b ''type'' = JStr kind \<and> is_str (js_get b kind)) blocks))"

definition anthropic_text :: "js \<Rightarrow> string option" where
  "anthropic_text content =
     (case content of
        JArr blocks \<Rightarrow> first_text [some_text (block_texts ''text'' blocks), some_text (block_texts ''thinking'' blocks)]
      | _ \<Rightarrow> None)"

fun is_arr :: "js \<Rightarrow> bool" where
  "is_arr (JArr _) = True"
| "is_arr _ = False"

text \<open>The output blocks of a Responses answer.\<close>

definition responses_block :: "js \<Rightarrow> exn + js list" where
  "responses_block b =
     (let content = js_get b ''content'' in
      if js_get b ''type'' = JStr ''message'' \<or> is_arr content then
        (case js_nullish content (JArr []) of
           JArr cs \<Rightarrow> Inr (List.map (\<lambda>c. js_nullish (js_get c ''text'') (JStr []))
                        (List.filter (\<lambda>c. js_get c ''type'' \<in> {JStr ''output_text'', JStr ''text''}) cs))
         | _ \<Rightarrow> Inl TypeError)
      else Inr [])"

fun responses_blocks :: "js list \<Rightarrow> exn + js list" where
  "responses_blocks [] = Inr []"
| "responses_blocks (b # bs) =
     andthen (responses_block b) (\<lambda>xs. andthen (responses_blocks bs) (\<lambda>ys. Inr (xs @ ys)))"

definition responses_text :: "js \<Rightarrow> exn + string option" where
  "responses_text output =
     (case output of
        JArr blocks \<Rightarrow>
          andthen (responses_blocks blocks) (\<lambda>xs.
            Inr (some_text (List.concat (List.map join_text xs))))
      | _ \<Rightarrow> Inr None)"

text \<open>The parts of a Gemini answer: the answer parts, then any text, then an empty completion.\<close>

definition gemini_text :: "js \<Rightarrow> exn + string option" where
  "gemini_text candidates =
     (case candidates of
        JArr (cand # _) \<Rightarrow>
          if \<not> is_object cand then Inr None
          else (case js_get (js_get cand ''content'') ''parts'' of
            JArr parts \<Rightarrow>
              if JNull \<in> set parts then Inl TypeError
              else
                (let texts = List.filter (\<lambda>p. is_str (js_get p ''text'')) parts;
                     answer = List.filter (\<lambda>p. js_get p ''thought'' \<noteq> JBool True) texts;
                     cat = (\<lambda>ps. List.concat (List.map (\<lambda>p. str_of_js (js_get p ''text'')) ps))
                 in Inr (first_text
                      [some_text (cat answer), some_text (cat texts),
                       (if parts = [] \<or> js_truthy (js_get cand ''finishReason'') then Some [] else None)]))
          | _ \<Rightarrow> Inr None)
      | _ \<Rightarrow> Inr None)"

lemma js_get_size [termination_simp]: "js_get v k \<noteq> JUndef \<Longrightarrow> size (js_get v k) < size v"
proof (cases v)
  case (JObj fs)
  assume "js_get v k \<noteq> JUndef"
  with JObj obtain x where x: "map_of fs k = Some x" by (auto split: option.splits)
  then have "size x < Suc (size_list (size_prod (\<lambda>_. 0) size) fs)"
  proof (induction fs)
    case (Cons f fs)
    then show ?case by (cases f) (auto split: if_splits)
  qed simp
  with JObj x show ?thesis by simp
qed auto

function extract_text :: "js \<Rightarrow> exn + string option" where
  "extract_text body =
     (if \<not> is_object body then Inr None
      else if is_str (js_get body ''response'') then Inr (Some (str_of_js (js_get body ''response'')))
      else if is_str (js_get body ''description'') then Inr (Some (str_of_js (js_get body ''description'')))
      else
        (case (case js_get body ''choices'' of JArr (c # _) \<Rightarrow> choice_text c | _ \<Rightarrow> None) of
           Some t \<Rightarrow> Inr (Some t)
         | None \<Rightarrow>
        (case anthropic_text (js_get body ''content'') of
           Some t \<Rightarrow> Inr (Some t)
         | None \<Rightarrow>
        (case responses_text (js_get body ''output'') of
           Inl e \<Rightarrow> Inl e
         | Inr (Some t) \<Rightarrow> Inr (Some t)
         | Inr None \<Rightarrow>
        (case gemini_text (js_get body ''candidates'') of
           Inl e \<Rightarrow> Inl e
         | Inr (Some t) \<Rightarrow> Inr (Some t)
         | Inr None \<Rightarrow>
            (if js_get body ''result'' \<noteq> JUndef \<and> js_get body ''result'' \<noteq> JNull
             then extract_text (js_get body ''result'') else Inr None))))))"
  by pat_completeness auto
termination
  by (relation "measure size") (auto intro: js_get_size)

declare extract_text.simps [simp del]

text \<open>The upstream's own finish reason; a null first choice throws.\<close>

definition extract_finish_reason :: "js \<Rightarrow> exn + js" where
  "extract_finish_reason body =
     (case js_get body ''choices'' of
        JArr (c # _) \<Rightarrow>
          if c = JNull then Inl TypeError
          else Inr (if is_str (js_get c ''finish_reason'') then js_get c ''finish_reason'' else JNull)
      | _ \<Rightarrow> Inr JNull)"

end
