(* ===== verification/LineReader.thy ===== *)
theory LineReader
  imports Json
begin

text \<open>
  What src/src/stream.ts and src/src/anthropic-sse-to-openai.ts share: bytes arrive in chunks, a
  streaming TextDecoder turns them into text, the text is cut at newlines, complete lines are
  consumed and the last piece is kept.  The locale states what a consumer has to satisfy for its
  result not to depend on the cuts, and proves that once for both.
\<close>

section \<open>Pieces\<close>

definition newline_char :: char where
  "newline_char = char_of (10::nat)"

text \<open>\<open>TextEncoder.encode\<close> on the modelled range.\<close>

definition utf8_encode :: "string \<Rightarrow> string" where
  "utf8_encode s = List.concat (List.map (\<lambda>c. let n = ord_of c in
     if n < 128 then [c] else [char_of (192 + n div 64), char_of (128 + n mod 64)]) s)"

lemma utf8_encode_append [simp]: "utf8_encode (s @ t) = utf8_encode s @ utf8_encode t"
  by (simp add: utf8_encode_def)

lemma utf8_encode_Nil [simp]: "utf8_encode [] = []"
  by (simp add: utf8_encode_def)

lemma u8_run_encode: "u8_run u8_init (utf8_encode s) = (List.map ord_of s, u8_init)"
proof (induction s)
  case (Cons c s)
  have "ord_of c < 256" by (simp add: ord_of_def)
  define n where "n = ord_of c"
  have n: "n < 256" "char_of n = c" using \<open>ord_of c < 256\<close> by (simp_all add: n_def ord_of_def)
  have "u8_run u8_init (if n < 128 then [c] else [char_of (192 + n div 64), char_of (128 + n mod 64)]) = ([n], u8_init)"
  proof (cases "n < 128")
    case True
    then show ?thesis by (simp add: u8_step_def u8_init_def u8_first_def n_def)
  next
    case False
    have d: "n div 64 < 4" "2 \<le> n div 64" "n mod 64 \<le> 63" "n div 64 * 64 + n mod 64 = n"
      using n(1) False mod_less_divisor [of 64 n] by auto
    have "ord_of (char_of (192 + n div 64) :: char) = 192 + n div 64"
      "ord_of (char_of (128 + n mod 64) :: char) = 128 + n mod 64"
      using d by (simp_all add: ord_of_def)
    with d show ?thesis
      unfolding if_not_P [OF False] by (simp add: u8_step_def u8_init_def u8_first_def)
  qed
  then have "u8_run u8_init (utf8_encode [c]) = ([ord_of c], u8_init)"
    unfolding n_def by (simp add: utf8_encode_def Let_def del: u8_run.simps split del: if_split)
  then show ?case
    using Cons u8_run_append [of u8_init "utf8_encode [c]" "utf8_encode s"] utf8_encode_append [of "[c]" s] by simp
qed simp

lemma split_on_append:
  "split_on c (s @ t) = butlast (split_on c s) @ split_on c (last (split_on c s) @ t)"
proof (induction s)
  case (Cons x s)
  show ?case
  proof (cases "x = c")
    case True
    with Cons show ?thesis by simp
  next
    case False
    obtain p ps where p: "split_on c s = p # ps" by (cases "split_on c s") auto
    show ?thesis
    proof (cases "ps = []")
      case True
      with p have "c \<notin> set s" using split_on_length [of c s] by (metis count_list_0_iff length_Cons list.size(3) nat.inject)
      then have "split_on c s = [s]" by (rule split_on_no_sep)
      with False Cons show ?thesis by simp
    next
      case ps: False
      have "split_on c (s @ t) = p # butlast ps @ split_on c (last ps @ t)" using Cons p ps by simp
      with False p ps show ?thesis by simp
    qed
  qed
qed simp

lemma strip_bom_append:
  "strip_bom s (ps @ qs) = strip_bom s ps @ strip_bom (s \<or> ps \<noteq> []) qs"
  by (cases ps) (auto simp: strip_bom_def)

lemma strip_bom_latin: "strip_bom b (List.map ord_of s) = List.map ord_of s"
proof (cases s)
  case (Cons c t)
  have "ord_of c < 256" by (simp add: ord_of_def)
  then have "ord_of c \<noteq> 65279" by linarith
  with Cons show ?thesis by (simp add: strip_bom_def)
qed (simp add: strip_bom_def)

lemma latin_ord [simp]: "latin_char (ord_of c) = c"
  by (simp add: latin_char_def ord_of_def)

section \<open>The reader\<close>

text \<open>The state of a reader holds the unread text, the state of the decoder with its byte order mark
  flag, and whatever the consumer keeps, which it changes without touching the other two.\<close>

locale line_reader =
  fixes consume :: "string \<Rightarrow> 's \<Rightarrow> 's"
    and unread :: "'s \<Rightarrow> string" and set_unread :: "string \<Rightarrow> 's \<Rightarrow> 's"
    and decoder :: "'s \<Rightarrow> utf8_state \<times> bool" and set_decoder :: "utf8_state \<times> bool \<Rightarrow> 's \<Rightarrow> 's"
    and feed :: "string \<Rightarrow> 's \<Rightarrow> 's" and push :: "string \<Rightarrow> 's \<Rightarrow> 's"
  assumes get_set: "unread (set_unread b s) = b" "decoder (set_decoder d s) = d"
      "unread (set_decoder d s) = unread s" "decoder (set_unread b s) = decoder s"
    and set_set: "set_unread b (set_unread b2 s) = set_unread b s" "set_decoder d (set_decoder d2 s) = set_decoder d s"
      "set_unread b (set_decoder d s) = set_decoder d (set_unread b s)"
    and set_get: "set_unread (unread s) s = s" "set_decoder (decoder s) s = s"
    and consume_set: "consume l (set_unread b s) = set_unread b (consume l s)"
      "consume l (set_decoder d s) = set_decoder d (consume l s)"
    and consume_get: "unread (consume l s) = unread s" "decoder (consume l s) = decoder s"
    and feed_eq: "feed t s = (let lines = split_on newline_char (unread s @ t)
                              in fold consume (butlast lines) (set_unread (last lines) s))"
    and push_eq: "push chunk s = (let (ps, st) = u8_run (fst (decoder s)) chunk
                   in feed (List.map latin_char (strip_bom (snd (decoder s)) ps))
                        (set_decoder (st, snd (decoder s) \<or> ps \<noteq> []) s))"
begin

lemma fold_set:
  "fold consume ls (set_unread b s) = set_unread b (fold consume ls s)"
  "fold consume ls (set_decoder d s) = set_decoder d (fold consume ls s)"
  by (induction ls arbitrary: s) (auto simp: consume_set)

lemma fold_get:
  "unread (fold consume ls s) = unread s" "decoder (fold consume ls s) = decoder s"
  by (induction ls arbitrary: s) (auto simp: consume_get)

lemma feed_get: "decoder (feed t s) = decoder s" "unread (feed t s) = last (split_on newline_char (unread s @ t))"
  by (simp_all add: feed_eq Let_def fold_get get_set)

lemma feed_append: "feed (s @ t) x = feed t (feed s x)"
proof -
  let ?l1 = "split_on newline_char (unread x @ s)"
  have "split_on newline_char (unread x @ s @ t) = butlast ?l1 @ split_on newline_char (last ?l1 @ t)"
    using split_on_append [of newline_char "unread x @ s" t] by simp
  then show ?thesis
    by (simp add: feed_eq Let_def butlast_append fold_set fold_get get_set set_set)
qed

lemma feed_Nil: "newline_char \<notin> set (unread s) \<Longrightarrow> feed [] s = s"
  by (simp add: feed_eq split_on_no_sep set_get)

lemma feed_decoder: "feed t (set_decoder d s) = set_decoder d (feed t s)"
  by (simp add: feed_eq Let_def get_set set_set fold_set)

lemma push_append: "push (a @ b) s = push b (push a s)"
proof -
  obtain ps st1 where a: "u8_run (fst (decoder s)) a = (ps, st1)" by fastforce
  obtain qs st2 where b: "u8_run st1 b = (qs, st2)" by fastforce
  have "u8_run (fst (decoder s)) (a @ b) = (ps @ qs, st2)" by (simp add: u8_run_append a b)
  then show ?thesis
    by (simp add: push_eq a b strip_bom_append feed_append feed_decoder feed_get get_set set_set disj_assoc)
qed

lemma fold_push_concat: "fold push cs (push c s) = push (c @ List.concat cs) s"
  by (induction cs arbitrary: c) (simp_all add: push_append [symmetric])

lemma push_Nil: "newline_char \<notin> set (unread s) \<Longrightarrow> push [] s = s"
  by (simp add: push_eq strip_bom_def feed_Nil get_set set_get)

text \<open>However the bytes were cut, the reader ends in the same state.\<close>

lemma chunking: "newline_char \<notin> set (unread s) \<Longrightarrow> fold push cs s = push (List.concat cs) s"
  using fold_push_concat [of cs "[]" s] by (simp add: push_Nil)

text \<open>Encoded text is fed as it was.\<close>

lemma push_encoded:
  assumes "fst (decoder s) = u8_init"
  shows "push (utf8_encode t) s = feed t (set_decoder (u8_init, snd (decoder s) \<or> t \<noteq> []) s)"
  using assms by (simp add: push_eq u8_run_encode strip_bom_latin comp_def)

text \<open>Feeding whole lines is consuming them.\<close>

lemma feed_line:
  assumes "unread s = []" "newline_char \<notin> set l"
  shows "feed (l @ newline_char # t) s = feed t (consume l s)"
proof -
  have "split_on newline_char (l @ newline_char # t) = l # split_on newline_char t"
    using assms(2) by (induction l) auto
  then show ?thesis
    using assms(1) set_get(1) [of "consume l s"]
    by (simp add: feed_eq Let_def consume_get consume_set)
qed

end

end
