(* ===== verification/Stream.thy ===== *)
theory Stream
  imports Meter LineReader
begin

text \<open>
  src/src/stream.ts: the incremental scanner of server-sent events and the relay that forwards a
  stream unchanged while scanning it and settles once.
\<close>

section \<open>The scanner\<close>

definition SENTINELS :: "string list" where
  "SENTINELS = [''[DONE]'', ''[done]'']"

record scanner =
  sc_buffer       :: string
  sc_decoder      :: utf8_state
  sc_started      :: bool
  sc_last_usage   :: js
  sc_saw_frame    :: bool
  sc_output_bytes :: nat

definition new_scanner :: scanner where
  "new_scanner = \<lparr>sc_buffer = [], sc_decoder = u8_init, sc_started = False, sc_last_usage = JNull,
     sc_saw_frame = False, sc_output_bytes = 0\<rparr>"

definition delta_bytes :: "js \<Rightarrow> nat" where
  "delta_bytes choice =
     (if \<not> is_object choice then 0
      else if \<not> is_object (js_get choice ''delta'') then 0
      else (case js_get (js_get choice ''delta'') ''content'' of JStr s \<Rightarrow> utf8_length s | _ \<Rightarrow> 0))"

text \<open>\<open>countOutputText\<close>: the assistant bytes of one frame, in both wire shapes.\<close>

definition output_text_of :: "js \<Rightarrow> nat" where
  "output_text_of frame =
     (case js_get frame ''choices'' of JArr cs \<Rightarrow> sum_list (List.map delta_bytes cs) | _ \<Rightarrow> 0)
     + (if js_get frame ''type'' = JStr ''response.output_text.delta''
        then (case js_get frame ''delta'' of JStr s \<Rightarrow> utf8_length s | _ \<Rightarrow> 0) else 0)"

definition consume_line :: "string \<Rightarrow> scanner \<Rightarrow> scanner" where
  "consume_line raw sc =
     (let line = js_trim raw in
      if \<not> starts_with ''data:'' line then sc
      else
        (let payload = js_trim (drop 5 line) in
         if payload = [] \<or> payload \<in> set SENTINELS then sc
         else
           (let sc1 = sc\<lparr>sc_saw_frame := True\<rparr> in
            case json_parse payload of
              None \<Rightarrow> sc1
            | Some frame \<Rightarrow>
                if \<not> is_object frame then sc1
                else
                  (let usage = js_nullish (js_get frame ''usage'')
                                 (js_get (js_get frame ''response'') ''usage'');
                       sc2 = (if usage \<noteq> JUndef \<and> usage \<noteq> JNull then sc1\<lparr>sc_last_usage := usage\<rparr> else sc1)
                   in sc2\<lparr>sc_output_bytes := sc_output_bytes sc2 + output_text_of frame\<rparr>))))"

text \<open>The buffer after some decoded text: complete lines are consumed, the last piece is kept.\<close>

definition add_text :: "string \<Rightarrow> scanner \<Rightarrow> scanner" where
  "add_text t sc =
     (let lines = split_on newline_char (sc_buffer sc @ t)
      in fold consume_line (butlast lines) (sc\<lparr>sc_buffer := last lines\<rparr>))"

definition push :: "string \<Rightarrow> scanner \<Rightarrow> scanner" where
  "push chunk sc =
     (let (ps, st) = u8_run (sc_decoder sc) chunk;
          t = List.map latin_char (strip_bom (sc_started sc) ps)
      in add_text t (sc\<lparr>sc_decoder := st, sc_started := sc_started sc \<or> ps \<noteq> []\<rparr>))"

text \<open>\<open>end()\<close>: the decoder is flushed and the last partial line consumed.\<close>

definition finish :: "scanner \<Rightarrow> scanner" where
  "finish sc =
     (let rest = sc_buffer sc @ List.map latin_char (strip_bom (sc_started sc) (u8_flush (sc_decoder sc)));
          sc1 = sc\<lparr>sc_decoder := u8_init, sc_buffer := []\<rparr>
      in if rest \<noteq> [] then consume_line rest sc1 else sc1)"

section \<open>The relay\<close>

datatype termination_kind = TermComplete | TermCancelled | TermError

record settlement =
  st_usage             :: js
  st_saw_frames        :: bool
  st_termination       :: termination_kind
  st_output_text_bytes :: nat

text \<open>What the relay meets: the outcome of a read of the source, or the client hanging up.\<close>

datatype relay_event = ReadChunk string | ReadDone | ReadFailed | ClientCancelled

datatype relay_status = RelayOpen | RelayClosed | RelayErrored

record relay =
  rl_scanner     :: scanner
  rl_settlements :: "settlement list"
  rl_enqueued    :: "string list"
  rl_status      :: relay_status

definition new_relay :: relay where
  "new_relay = \<lparr>rl_scanner = new_scanner, rl_settlements = [], rl_enqueued = [], rl_status = RelayOpen\<rparr>"

definition settle_once :: "termination_kind \<Rightarrow> relay \<Rightarrow> relay" where
  "settle_once k r =
     (if rl_settlements r \<noteq> [] then r
      else (let sc = finish (rl_scanner r)
            in r\<lparr>rl_scanner := sc,
                 rl_settlements := [\<lparr>st_usage = sc_last_usage sc, st_saw_frames = sc_saw_frame sc,
                                     st_termination = k, st_output_text_bytes = sc_output_bytes sc\<rparr>]\<rparr>))"

text \<open>One event.  Enqueueing into a stream that is no longer open throws, which the pull turns into
  an error settlement; closing or failing such a stream changes nothing.\<close>

definition relay_step :: "relay_event \<Rightarrow> relay \<Rightarrow> relay" where
  "relay_step e r =
     (case e of
        ReadDone \<Rightarrow>
          (let r1 = settle_once TermComplete r
           in if rl_status r1 = RelayOpen then r1\<lparr>rl_status := RelayClosed\<rparr> else r1)
      | ReadChunk v \<Rightarrow>
          (let r1 = r\<lparr>rl_scanner := push v (rl_scanner r)\<rparr>
           in if rl_status r = RelayOpen then r1\<lparr>rl_enqueued := rl_enqueued r1 @ [v]\<rparr>
              else settle_once TermError r1)
      | ReadFailed \<Rightarrow>
          (let r1 = settle_once TermError r
           in if rl_status r1 = RelayOpen then r1\<lparr>rl_status := RelayErrored\<rparr> else r1)
      | ClientCancelled \<Rightarrow>
          if rl_status r = RelayOpen then (settle_once TermCancelled r)\<lparr>rl_status := RelayClosed\<rparr>
          else r)"

definition run_relay :: "relay_event list \<Rightarrow> relay" where
  "run_relay es = fold relay_step es new_relay"

section \<open>Independence of the chunking\<close>

abbreviation set_buffer :: "string \<Rightarrow> scanner \<Rightarrow> scanner" where
  "set_buffer b sc \<equiv> sc\<lparr>sc_buffer := b\<rparr>"

abbreviation get_decoder :: "scanner \<Rightarrow> utf8_state \<times> bool" where
  "get_decoder sc \<equiv> (sc_decoder sc, sc_started sc)"

abbreviation set_decoder :: "utf8_state \<times> bool \<Rightarrow> scanner \<Rightarrow> scanner" where
  "set_decoder d sc \<equiv> sc\<lparr>sc_decoder := fst d, sc_started := snd d\<rparr>"

interpretation scan: line_reader consume_line sc_buffer set_buffer get_decoder set_decoder add_text push
  by unfold_locales
    (auto simp: consume_line_def add_text_def push_def Let_def split: option.splits prod.splits)

lemma push_nothing: "push [] new_scanner = new_scanner"
  by (rule scan.push_Nil) (simp add: new_scanner_def)

lemma fold_push: "fold push cs new_scanner = push (List.concat cs) new_scanner"
  by (rule scan.chunking) (simp add: new_scanner_def)

section \<open>The relay settles once\<close>

definition settlement_of :: "termination_kind \<Rightarrow> string \<Rightarrow> settlement" where
  "settlement_of k bytes =
     (let sc = finish (push bytes new_scanner)
      in \<lparr>st_usage = sc_last_usage sc, st_saw_frames = sc_saw_frame sc, st_termination = k,
          st_output_text_bytes = sc_output_bytes sc\<rparr>)"

fun terminal_kind :: "relay_event \<Rightarrow> termination_kind option" where
  "terminal_kind (ReadChunk v) = None"
| "terminal_kind ReadDone = Some TermComplete"
| "terminal_kind ReadFailed = Some TermError"
| "terminal_kind ClientCancelled = Some TermCancelled"

lemma relay_chunks:
  "rl_status r = RelayOpen \<Longrightarrow>
     fold relay_step (List.map ReadChunk cs) r =
       r\<lparr>rl_scanner := fold push cs (rl_scanner r), rl_enqueued := rl_enqueued r @ cs\<rparr>"
  by (induction cs arbitrary: r) (simp_all add: relay_step_def Let_def)

lemma relay_over:
  "rl_status r \<noteq> RelayOpen \<Longrightarrow> rl_settlements r \<noteq> [] \<Longrightarrow>
     rl_settlements (fold relay_step es r) = rl_settlements r \<and>
     rl_enqueued (fold relay_step es r) = rl_enqueued r"
proof (induction es arbitrary: r)
  case (Cons e es)
  let ?r = "relay_step e r"
  have "rl_status ?r \<noteq> RelayOpen \<and> rl_settlements ?r = rl_settlements r \<and> rl_enqueued ?r = rl_enqueued r"
    using Cons.prems by (auto simp: relay_step_def settle_once_def Let_def split: relay_event.splits)
  with Cons.IH [of ?r] Cons.prems show ?case by simp
qed simp

lemma relay_terminal:
  assumes "rl_status r = RelayOpen" "rl_settlements r = []" "terminal_kind e = Some k"
    "rl_scanner r = push bytes new_scanner"
  shows "rl_status (relay_step e r) \<noteq> RelayOpen \<and>
         rl_settlements (relay_step e r) = [settlement_of k bytes] \<and>
         rl_enqueued (relay_step e r) = rl_enqueued r"
  using assms
  by (cases e) (auto simp: relay_step_def settle_once_def settlement_of_def Let_def)

text \<open>C18. What the scanner reports depends on the bytes of the stream only, not on how they were cut
  into chunks, even inside a UTF-8 sequence, a line or a usage object.\<close>
theorem scanner_ignores_chunking:
  "finish (fold push chunks new_scanner) = finish (push (List.concat chunks) new_scanner)"
  by (simp add: fold_push)

text \<open>C17. The relay forwards every chunk unchanged and in order until the stream ends, and settles
  exactly once when it does: at the first clean end, failure or hang-up, with the kind of that event
  and what the bytes forwarded so far amount to, whatever events still arrive afterwards.\<close>
theorem relay_settles_once:
  assumes "terminal_kind e = Some k"
  shows "rl_settlements (run_relay (List.map ReadChunk cs @ e # rest)) = [settlement_of k (List.concat cs)]
       \<and> rl_enqueued (run_relay (List.map ReadChunk cs @ e # rest)) = cs
       \<and> rl_settlements (run_relay (List.map ReadChunk cs)) = []
       \<and> rl_enqueued (run_relay (List.map ReadChunk cs)) = cs"
proof -
  let ?r = "fold relay_step (List.map ReadChunk cs) new_relay"
  have r: "?r = new_relay\<lparr>rl_scanner := push (List.concat cs) new_scanner, rl_enqueued := cs\<rparr>"
    using relay_chunks [of new_relay cs] fold_push [of cs] by (simp add: new_relay_def)
  have t: "rl_status (relay_step e ?r) \<noteq> RelayOpen \<and>
         rl_settlements (relay_step e ?r) = [settlement_of k (List.concat cs)] \<and>
         rl_enqueued (relay_step e ?r) = rl_enqueued ?r"
    by (rule relay_terminal) (simp_all only: r, simp_all add: new_relay_def assms)
  have "rl_settlements (fold relay_step rest (relay_step e ?r)) = [settlement_of k (List.concat cs)] \<and>
        rl_enqueued (fold relay_step rest (relay_step e ?r)) = cs"
    using relay_over [of "relay_step e ?r" rest] t by (simp add: r)
  moreover have "rl_settlements ?r = []" "rl_enqueued ?r = cs" by (simp_all only: r) (simp_all add: new_relay_def)
  ultimately show ?thesis by (simp add: run_relay_def)
qed

theorem relay_settles_once_witness:
  "rl_settlements (run_relay (List.map ReadChunk [''data: '', ''x''] @ ClientCancelled # [ReadDone, ReadChunk ''y'']))
     = [settlement_of TermCancelled ''data: x'']"
  using relay_settles_once [of ClientCancelled TermCancelled "[''data: '', ''x'']" "[ReadDone, ReadChunk ''y'']"]
  by simp

end
