(* ===== verification/Period.thy ===== *)
theory Period
  imports Prelude
begin

text \<open>
  src/src/period.ts, over instants in epoch milliseconds.  The Date functions it uses
  (getUTCFullYear, getUTCMonth, Date.UTC, toISOString) follow ECMA-262: the day of an instant,
  the day of a year's first of January, the year of a day, months by the leap rule, and
  Date.UTC carrying a month index of 12 into the next year.
\<close>

section \<open>The ECMA-262 calendar\<close>

definition ms_per_day :: int where "ms_per_day = 86400000"

definition day_of :: "int \<Rightarrow> int" where
  "day_of t = t div ms_per_day"

definition is_leap :: "int \<Rightarrow> bool" where
  "is_leap y = (y mod 4 = 0 \<and> (y mod 100 \<noteq> 0 \<or> y mod 400 = 0))"

definition day_from_year :: "int \<Rightarrow> int" where
  "day_from_year y =
     365 * (y - 1970) + (y - 1969) div 4 - (y - 1901) div 100 + (y - 1601) div 400"

text \<open>The year of a day: an estimate from the mean year length, corrected by at most two years.\<close>

definition year_guess :: "int \<Rightarrow> int" where
  "year_guess d = 1970 + (400 * d) div 146097"

definition year_of_day :: "int \<Rightarrow> int" where
  "year_of_day d = (let y = year_guess d in
     if d < day_from_year (y - 1) then y - 2
     else if d < day_from_year y then y - 1
     else if d < day_from_year (y + 1) then y
     else if d < day_from_year (y + 2) then y + 1 else y + 2)"

text \<open>Days before month \<open>m\<close> (0 to 12) in a year.\<close>

definition cum_days :: "bool \<Rightarrow> int \<Rightarrow> int" where
  "cum_days leap m =
     (if m \<le> 0 then 0 else if m = 1 then 31
      else (if leap then 1 else 0) +
       (if m = 2 then 59 else if m = 3 then 90 else if m = 4 then 120 else if m = 5 then 151
        else if m = 6 then 181 else if m = 7 then 212 else if m = 8 then 243
        else if m = 9 then 273 else if m = 10 then 304 else if m = 11 then 334 else 365))"

definition month_in_year :: "bool \<Rightarrow> int \<Rightarrow> int" where
  "month_in_year leap dd =
     (if dd < cum_days leap 1 then 0 else if dd < cum_days leap 2 then 1
      else if dd < cum_days leap 3 then 2 else if dd < cum_days leap 4 then 3
      else if dd < cum_days leap 5 then 4 else if dd < cum_days leap 6 then 5
      else if dd < cum_days leap 7 then 6 else if dd < cum_days leap 8 then 7
      else if dd < cum_days leap 9 then 8 else if dd < cum_days leap 10 then 9
      else if dd < cum_days leap 11 then 10 else 11)"

definition utc_full_year :: "int \<Rightarrow> int" where
  "utc_full_year t = year_of_day (day_of t)"

definition utc_month :: "int \<Rightarrow> int" where
  "utc_month t = (let y = utc_full_year t in
     month_in_year (is_leap y) (day_of t - day_from_year y))"

text \<open>The day of the first of a month; the month index may run past 11.\<close>

definition make_day :: "int \<Rightarrow> int \<Rightarrow> int" where
  "make_day y m = (let ym = y + m div 12 in day_from_year ym + cum_days (is_leap ym) (m mod 12))"

definition date_utc :: "int \<Rightarrow> int \<Rightarrow> int" where
  "date_utc y m = make_day y m * ms_per_day"

definition iso_year :: "int \<Rightarrow> string" where
  "iso_year y = (if 0 \<le> y \<and> y \<le> 9999 then pad_zero 4 (dec_of_int y)
                 else (if y < 0 then ''-'' else ''+'') @ pad_zero 6 (dec_of_int \<bar>y\<bar>))"

definition to_iso_string :: "int \<Rightarrow> string" where
  "to_iso_string t =
     (let y = utc_full_year t; m = utc_month t;
          dom = day_of t - make_day y m + 1;
          tod = t mod ms_per_day in
      iso_year y @ ''-'' @ pad_zero 2 (dec_of_int (m + 1)) @ ''-'' @ pad_zero 2 (dec_of_int dom) @
      ''T'' @ pad_zero 2 (dec_of_int (tod div 3600000)) @ '':'' @
      pad_zero 2 (dec_of_int (tod div 60000 mod 60)) @ '':'' @
      pad_zero 2 (dec_of_int (tod div 1000 mod 60)) @ ''.'' @
      pad_zero 3 (dec_of_int (tod mod 1000)) @ ''Z'')"

section \<open>Periods\<close>

definition period_key :: "int \<Rightarrow> string" where
  "period_key now =
     (let year = utc_full_year now;
          month = pad_zero 2 (dec_of_int (utc_month now + 1))
      in dec_of_int year @ ''-'' @ month)"

definition period_start :: "int \<Rightarrow> int" where
  "period_start now = date_utc (utc_full_year now) (utc_month now)"

definition period_end :: "int \<Rightarrow> int" where
  "period_end now = date_utc (utc_full_year now) (utc_month now + 1)"

record period_bounds =
  pb_key   :: string
  pb_start :: string
  pb_end   :: string

definition period_bounds_of :: "int \<Rightarrow> period_bounds" where
  "period_bounds_of now =
     \<lparr>pb_key = period_key now, pb_start = to_iso_string (period_start now),
      pb_end = to_iso_string (period_end now)\<rparr>"

section \<open>Calendar lemmas\<close>

lemma div_step: "0 < (k::int) \<Longrightarrow> (x + 1) div k = x div k + (if (x + 1) mod k = 0 then 1 else 0)"
proof -
  assume k: "0 < k"
  have "x + 1 = k * (x div k) + (x mod k + 1)" by simp
  moreover have "0 \<le> x mod k" "x mod k < k" using k by simp_all
  ultimately show ?thesis
  proof (cases "x mod k + 1 = k")
    case True
    then have "x + 1 = k * (x div k + 1)" using \<open>x + 1 = _\<close> by (simp add: algebra_simps)
    then show ?thesis using k by simp
  next
    case False
    with \<open>x mod k < k\<close> \<open>0 \<le> x mod k\<close> have lt: "0 \<le> x mod k + 1" "x mod k + 1 < k" by auto
    have "(x + 1) div k = x div k"
      using lt \<open>x + 1 = _\<close> k by (intro int_div_pos_eq [of _ k _ "x mod k + 1"]) simp_all
    moreover have "(x + 1) mod k = x mod k + 1"
      using lt \<open>x + 1 = _\<close> k by (intro int_mod_pos_eq [of _ k "x div k"]) simp_all
    moreover have "x mod k + 1 \<noteq> 0" using \<open>0 \<le> x mod k\<close> by linarith
    ultimately show ?thesis by simp
  qed
qed

lemma leap_arith:
  "(b400 \<longrightarrow> b100) \<Longrightarrow> (b100 \<longrightarrow> b4) \<Longrightarrow>
     k + 365 + (p + (if b4 then 1 else 0)) - (q + (if b100 then 1 else 0)) + (r + (if b400 then 1 else 0)) =
     k + p - q + r + 365 + (if b4 \<and> (\<not> b100 \<or> b400) then 1 else (0::int))"
  by (cases b4; cases b100; cases b400) simp_all

lemma day_from_year_Suc:
  "day_from_year (y + 1) = day_from_year y + 365 + (if is_leap y then 1 else 0)"
proof -
  have a: "(y - 1968) div 4 = (y - 1969) div 4 + (if y mod 4 = 0 then 1 else 0)"
    using div_step [of 4 "y - 1969"] mod_mult_self1 [of "y - 1968" 492 "4 :: int"] by simp
  have b: "(y - 1900) div 100 = (y - 1901) div 100 + (if y mod 100 = 0 then 1 else 0)"
    using div_step [of 100 "y - 1901"] mod_mult_self1 [of "y - 1900" 19 "100 :: int"] by simp
  have c: "(y - 1600) div 400 = (y - 1601) div 400 + (if y mod 400 = 0 then 1 else 0)"
    using div_step [of 400 "y - 1601"] mod_mult_self1 [of "y - 1600" 4 "400 :: int"] by simp
  have d: "y mod 400 = 0 \<longrightarrow> y mod 100 = 0" "y mod 100 = 0 \<longrightarrow> y mod 4 = 0"
    using dvd_trans [of 100 400 y] dvd_trans [of 4 100 y] by (simp_all add: mod_eq_0_iff_dvd)
  have e: "day_from_year (y + 1) =
      365 * (y - 1970) + 365 + (y - 1968) div 4 - (y - 1900) div 100 + (y - 1600) div 400"
  proof -
    have "y + 1 - 1969 = y - 1968" "y + 1 - 1901 = y - 1900" "y + 1 - 1601 = y - 1600"
      "365 * (y + 1 - 1970) = 365 * (y - 1970) + 365" by simp_all
    then show ?thesis by (simp only: day_from_year_def)
  qed
  show ?thesis
    using leap_arith [OF d, where k = "365 * (y - 1970)" and p = "(y - 1969) div 4"
        and q = "(y - 1901) div 100" and r = "(y - 1601) div 400"]
    by (simp only: e a b c is_leap_def) (simp only: day_from_year_def is_leap_def)
qed

lemma day_from_year_less: "y < z \<Longrightarrow> day_from_year y < day_from_year z"
proof (induction "nat (z - y)" arbitrary: z)
  case (Suc n)
  show ?case
  proof (cases "z = y + 1")
    case True
    then show ?thesis using day_from_year_Suc [of y] by simp
  next
    case False
    with Suc have "day_from_year y < day_from_year (z - 1)" by simp
    also have "\<dots> < day_from_year z" using day_from_year_Suc [of "z - 1"] by (simp split: if_splits)
    finally show ?thesis .
  qed
qed simp

lemma year_guess_close:
  "day_from_year (year_guess d - 2) \<le> d \<and> d < day_from_year (year_guess d + 3)"
proof -
  define q where "q = (400 * d) div 146097"
  have q: "146097 * q \<le> 400 * d" "400 * d < 146097 * (q + 1)"
    unfolding q_def by (simp_all add: pos_mod_bound minus_mod_eq_mult_div [symmetric])
  have lo: "a div 4 * 4 \<le> a \<and> a < a div 4 * 4 + 4" for a :: int by presburger
  have mid: "a div 100 * 100 \<le> a \<and> a < a div 100 * 100 + 100" for a :: int by presburger
  have hi: "a div 400 * 400 \<le> a \<and> a < a div 400 * 400 + 400" for a :: int by presburger
  show ?thesis
    unfolding day_from_year_def year_guess_def q_def [symmetric]
    using q lo [of "q - 1"] mid [of "q + 67"] hi [of "q + 367"]
      lo [of "q + 4"] mid [of "q + 72"] hi [of "q + 372"]
    by (simp add: algebra_simps)
qed

lemma year_of_day_bounds:
  "day_from_year (year_of_day d) \<le> d \<and> d < day_from_year (year_of_day d + 1)"
proof -
  let ?y = "year_guess d"
  have "?y - 1 + 1 = ?y" "?y - 2 + 1 = ?y - 1" "?y + 1 + 1 = ?y + 2" "?y + 2 + 1 = ?y + 3" by simp_all
  then show ?thesis
    using year_guess_close [of d] by (auto simp: year_of_day_def Let_def not_less add.commute)
qed

lemma month_in_year_bounds:
  assumes "0 \<le> dd" "dd < 365 + (if leap then 1 else 0)"
  shows "0 \<le> month_in_year leap dd \<and> month_in_year leap dd \<le> 11 \<and>
         cum_days leap (month_in_year leap dd) \<le> dd \<and> dd < cum_days leap (month_in_year leap dd + 1)"
  using assms by (cases leap) (simp_all add: month_in_year_def cum_days_def)

lemma cum_days_12: "cum_days leap 12 = 365 + (if leap then 1 else 0)"
  by (simp add: cum_days_def)

lemma cum_days_less: "0 \<le> m \<Longrightarrow> m \<le> 11 \<Longrightarrow> cum_days leap m < cum_days leap (m + 1)"
proof -
  assume "0 \<le> m" "m \<le> 11"
  then have "m = 0 \<or> m = 1 \<or> m = 2 \<or> m = 3 \<or> m = 4 \<or> m = 5 \<or> m = 6 \<or> m = 7 \<or> m = 8 \<or> m = 9
    \<or> m = 10 \<or> m = 11" by arith
  then show ?thesis by (elim disjE) (simp_all add: cum_days_def)
qed

text \<open>Months numbered through all years: month \<open>n\<close> starts on \<open>month_day n\<close>.\<close>

definition month_day :: "int \<Rightarrow> int" where
  "month_day n = make_day 0 n"

definition month_index :: "int \<Rightarrow> int" where
  "month_index t = 12 * utc_full_year t + utc_month t"

lemma make_day_month_day: "make_day y m = month_day (12 * y + m)"
  by (simp add: make_day_def month_day_def Let_def)

lemma month_day_eq:
  "0 \<le> m \<Longrightarrow> m \<le> 12 \<Longrightarrow> month_day (12 * y + m) = day_from_year y + cum_days (is_leap y) m"
proof -
  assume m: "0 \<le> m" "m \<le> 12"
  show ?thesis
  proof (cases "m = 12")
    case True
    have "month_day (12 * y + 12) = day_from_year (y + 1) + cum_days (is_leap (y + 1)) 0"
      using make_day_month_day [of "y + 1" 0] by (simp add: make_day_def Let_def algebra_simps)
    with True show ?thesis by (simp add: day_from_year_Suc cum_days_12) (simp add: cum_days_def)
  next
    case False
    with m have "m div 12 = 0" "m mod 12 = m" by simp_all
    then show ?thesis by (simp add: make_day_month_day [symmetric] make_day_def Let_def)
  qed
qed

lemma month_day_Suc: "month_day n < month_day (n + 1)"
proof -
  let ?y = "n div 12" and ?m = "n mod 12"
  have n: "n = 12 * ?y + ?m" by simp
  have m: "0 \<le> ?m" "?m \<le> 11" using pos_mod_bound [of 12 n] by auto
  have "month_day (12 * ?y + ?m) < month_day (12 * ?y + (?m + 1))"
    using m cum_days_less [OF m, of "is_leap ?y"] month_day_eq [of ?m ?y] month_day_eq [of "?m + 1" ?y]
    by simp
  then show ?thesis by (metis n add.assoc)
qed

lemma month_day_less: "n < k \<Longrightarrow> month_day n < month_day k"
proof (induction "nat (k - n)" arbitrary: k)
  case (Suc j)
  show ?case
  proof (cases "k = n + 1")
    case True then show ?thesis using month_day_Suc [of n] by simp
  next
    case False
    with Suc have "month_day n < month_day (k - 1)" by simp
    also have "\<dots> < month_day k" using month_day_Suc [of "k - 1"] by simp
    finally show ?thesis .
  qed
qed simp

lemma month_day_le_iff: "month_day n \<le> month_day k \<longleftrightarrow> n \<le> k"
  using month_day_less by (metis linorder_not_less order_le_less)

lemma utc_month_range: "0 \<le> utc_month t \<and> utc_month t \<le> 11"
  and month_index_bounds: "month_day (month_index t) \<le> day_of t \<and> day_of t < month_day (month_index t + 1)"
proof -
  let ?y = "utc_full_year t"
  have "day_from_year ?y \<le> day_of t" "day_of t < day_from_year ?y + 365 + (if is_leap ?y then 1 else 0)"
    using year_of_day_bounds [of "day_of t"] by (simp_all add: utc_full_year_def day_from_year_Suc)
  then have mb: "0 \<le> utc_month t" "utc_month t \<le> 11"
     "cum_days (is_leap ?y) (utc_month t) \<le> day_of t - day_from_year ?y"
     "day_of t - day_from_year ?y < cum_days (is_leap ?y) (utc_month t + 1)"
    using month_in_year_bounds [of "day_of t - day_from_year ?y" "is_leap ?y"]
    by (simp_all add: utc_month_def Let_def)
  then show "0 \<le> utc_month t \<and> utc_month t \<le> 11" by simp
  show "month_day (month_index t) \<le> day_of t \<and> day_of t < month_day (month_index t + 1)"
    using mb month_day_eq [of "utc_month t" ?y] month_day_eq [of "utc_month t + 1" ?y]
    by (simp add: month_index_def add.assoc)
qed

lemma day_of_le_iff: "d * ms_per_day \<le> t \<longleftrightarrow> d \<le> day_of t"
  by (simp add: day_of_def ms_per_day_def) linarith

lemma day_of_less_iff: "t < d * ms_per_day \<longleftrightarrow> day_of t < d"
  using day_of_le_iff [of d t] by linarith

lemma period_start_eq: "period_start t = month_day (month_index t) * ms_per_day"
  by (simp add: period_start_def date_utc_def make_day_month_day month_index_def)

lemma period_end_eq: "period_end t = month_day (month_index t + 1) * ms_per_day"
  by (simp add: period_end_def date_utc_def make_day_month_day month_index_def add.assoc)

lemma month_index_unique:
  assumes "month_day n \<le> day_of t" "day_of t < month_day (n + 1)" shows "month_index t = n"
proof -
  have "month_day n < month_day (month_index t + 1)" "month_day (month_index t) < month_day (n + 1)"
    using assms month_index_bounds [of t] by linarith+
  then have "n < month_index t + 1" "month_index t < n + 1"
    using month_day_le_iff by (metis linorder_not_less)+
  then show ?thesis by simp
qed

lemma period_iff: "period_start s \<le> t \<and> t < period_end s \<longleftrightarrow> month_index t = month_index s"
  using month_index_unique [of "month_index s" t] month_index_bounds [of t]
  by (auto simp: period_start_eq period_end_eq day_of_le_iff day_of_less_iff)

text \<open>The printed key determines the month.\<close>

lemma dec_of_int_inj: "dec_of_int a = dec_of_int b \<Longrightarrow> a = b"
proof -
  have nd: "dec_of_nat n \<noteq> CHR ''-'' # t" for n t
    using dec_of_nat_digits [of "CHR ''-''" n] by (auto simp: is_digit_char_def ord_of_def)
  assume "dec_of_int a = dec_of_int b"
  then show ?thesis
    using nd nd [symmetric] by (auto simp: dec_of_int_def eq_nat_nat_iff split: if_splits)
qed

lemma month_text_length: "0 \<le> m \<Longrightarrow> m \<le> 11 \<Longrightarrow> length (pad_zero 2 (dec_of_int (m + 1))) = 2"
proof -
  assume "0 \<le> m" "m \<le> 11"
  then have "m = 0 \<or> m = 1 \<or> m = 2 \<or> m = 3 \<or> m = 4 \<or> m = 5 \<or> m = 6 \<or> m = 7 \<or> m = 8 \<or> m = 9
    \<or> m = 10 \<or> m = 11" by arith
  then show ?thesis by (elim disjE) (simp_all add: pad_zero_def dec_of_int_def dec_of_nat.simps)
qed

lemma month_text_inj:
  assumes "0 \<le> m" "m \<le> 11" "0 \<le> k" "k \<le> 11"
    and "pad_zero 2 (dec_of_int (m + 1)) = pad_zero 2 (dec_of_int (k + 1))"
  shows "m = k"
proof -
  have v: "nat_of_dec (pad_zero 2 (dec_of_int (j + 1))) = nat (j + 1)" if "0 \<le> j" "j \<le> 11" for j
  proof -
    have z: "nat_of_dec (CHR ''0'' # s) = nat_of_dec s" for s
      by (simp add: nat_of_dec_def digit_val_def ord_of_def)
    have "nat_of_dec (replicate n CHR ''0'' @ s) = nat_of_dec s" for n s
      by (induction n) (simp_all add: z)
    with that show ?thesis by (simp add: pad_zero_def dec_of_int_def)
  qed
  show ?thesis using v [OF assms(1,2)] v [OF assms(3,4)] assms by simp
qed

lemma period_key_eq_iff: "period_key s = period_key t \<longleftrightarrow> month_index s = month_index t"
proof
  assume "period_key s = period_key t"
  then have "dec_of_int (utc_full_year s) @ CHR ''-'' # pad_zero 2 (dec_of_int (utc_month s + 1)) =
             dec_of_int (utc_full_year t) @ CHR ''-'' # pad_zero 2 (dec_of_int (utc_month t + 1))"
    by (simp add: period_key_def Let_def)
  moreover have "length (pad_zero 2 (dec_of_int (utc_month s + 1))) = 2" "length (pad_zero 2 (dec_of_int (utc_month t + 1))) = 2"
    using utc_month_range month_text_length by blast+
  ultimately have "dec_of_int (utc_full_year s) = dec_of_int (utc_full_year t)"
      "pad_zero 2 (dec_of_int (utc_month s + 1)) = pad_zero 2 (dec_of_int (utc_month t + 1))"
    by (auto simp: append_eq_append_conv)
  then show "month_index s = month_index t"
    using dec_of_int_inj month_text_inj utc_month_range by (metis month_index_def)
next
  assume e: "month_index s = month_index t"
  have "utc_full_year s = month_index s div 12" "utc_month s = month_index s mod 12" for s
    using utc_month_range [of s] by (auto simp: month_index_def)
  with e show "period_key s = period_key t" by (simp add: period_key_def Let_def)
qed

lemma month_index_start: "month_index (month_day n * ms_per_day) = n"
  by (rule month_index_unique) (simp_all add: day_of_def ms_per_day_def month_day_Suc)

section \<open>Properties\<close>


lemma period_example:
  "period_bounds_of 1785888000123 =
     \<lparr>pb_key = ''2026-08'', pb_start = ''2026-08-01T00:00:00.000Z'', pb_end = ''2026-09-01T00:00:00.000Z''\<rparr>"
  by code_simp

end
