(* ===== verification/CatalogData.thy ===== *)
theory CatalogData
  imports Catalog
begin

text \<open>
  The rows of CATALOG in src/src/catalog.ts, in the file's order, grouped by modality and in
  runs of at most 150 source lines.  A row without \<open>binding\<close> or \<open>api\<close> has the
  default the code reads for it (false, the chat surface).
\<close>

definition PRICED_AT :: string where "PRICED_AT = ''2026-08-04''"
definition PRICED_AT_UB :: string where "PRICED_AT_UB = ''2026-08-05''"
definition PRICED_AT_UNIT :: string where "PRICED_AT_UNIT = ''2026-08-05''"

definition catalog_chat_1 :: "catalog_entry list" where
  "catalog_chat_1 = [
  \<lparr>ce_id = ''anthropic/claude-fable-5'', ce_upstream = ''anthropic/claude-fable-5'',
   ce_binding = True, ce_api = ApiChat, ce_display_name = ''Claude Fable 5 (Anthropic)'',
   ce_modality = Chat, ce_billing = UnifiedBilling, ce_tier = Premium, ce_streaming = True,
   ce_max_output_tokens = None, ce_price = Some (tprice (NInt 10000000) (NInt 50000000) (Some (NInt 1000000)) PRICED_AT_UB),
   ce_unit_price = None, ce_published_rates = []\<rparr>,
  \<lparr>ce_id = ''anthropic/claude-sonnet-5'', ce_upstream = ''anthropic/claude-sonnet-5'',
   ce_binding = False, ce_api = ApiChat, ce_display_name = ''Claude Sonnet 5 (Anthropic)'',
   ce_modality = Chat, ce_billing = UnifiedBilling, ce_tier = Premium, ce_streaming = True,
   ce_max_output_tokens = None, ce_price = Some (tprice (NInt 2000000) (NInt 10000000) (Some (NInt 200000)) PRICED_AT_UB),
   ce_unit_price = None, ce_published_rates = []\<rparr>,
  \<lparr>ce_id = ''anthropic/claude-opus-5'', ce_upstream = ''anthropic/claude-opus-5'',
   ce_binding = False, ce_api = ApiChat, ce_display_name = ''Claude Opus 5 (Anthropic)'',
   ce_modality = Chat, ce_billing = UnifiedBilling, ce_tier = Premium, ce_streaming = True,
   ce_max_output_tokens = None, ce_price = Some (tprice (NInt 5000000) (NInt 25000000) (Some (NInt 500000)) PRICED_AT_UB),
   ce_unit_price = None, ce_published_rates = []\<rparr>,
  \<lparr>ce_id = ''anthropic/claude-opus-4-8'', ce_upstream = ''anthropic/claude-opus-4-8'',
   ce_binding = False, ce_api = ApiChat, ce_display_name = ''Claude Opus 4.8 (Anthropic)'',
   ce_modality = Chat, ce_billing = UnifiedBilling, ce_tier = Premium, ce_streaming = True,
   ce_max_output_tokens = None, ce_price = Some (tprice (NInt 5000000) (NInt 25000000) (Some (NInt 500000)) PRICED_AT_UB),
   ce_unit_price = None, ce_published_rates = []\<rparr>,
  \<lparr>ce_id = ''anthropic/claude-opus-4-7'', ce_upstream = ''anthropic/claude-opus-4-7'',
   ce_binding = False, ce_api = ApiChat, ce_display_name = ''Claude Opus 4.7 (Anthropic)'',
   ce_modality = Chat, ce_billing = UnifiedBilling, ce_tier = Premium, ce_streaming = True,
   ce_max_output_tokens = None, ce_price = Some (tprice (NInt 5000000) (NInt 25000000) (Some (NInt 500000)) PRICED_AT_UB),
   ce_unit_price = None, ce_published_rates = []\<rparr>,
  \<lparr>ce_id = ''anthropic/claude-opus-4-6'', ce_upstream = ''anthropic/claude-opus-4-6'',
   ce_binding = False, ce_api = ApiChat, ce_display_name = ''Claude Opus 4.6 (Anthropic)'',
   ce_modality = Chat, ce_billing = UnifiedBilling, ce_tier = Premium, ce_streaming = True,
   ce_max_output_tokens = None, ce_price = Some (tprice (NInt 5000000) (NInt 25000000) (Some (NInt 500000)) PRICED_AT_UB),
   ce_unit_price = None, ce_published_rates = []\<rparr>,
  \<lparr>ce_id = ''anthropic/claude-sonnet-4-6'', ce_upstream = ''anthropic/claude-sonnet-4-6'',
   ce_binding = False, ce_api = ApiChat, ce_display_name = ''Claude Sonnet 4.6 (Anthropic)'',
   ce_modality = Chat, ce_billing = UnifiedBilling, ce_tier = Premium, ce_streaming = True,
   ce_max_output_tokens = None, ce_price = Some (tprice (NInt 3000000) (NInt 15000000) (Some (NInt 300000)) PRICED_AT_UB),
   ce_unit_price = None, ce_published_rates = []\<rparr>,
  \<lparr>ce_id = ''anthropic/claude-haiku-4-5'', ce_upstream = ''anthropic/claude-haiku-4-5'',
   ce_binding = False, ce_api = ApiChat, ce_display_name = ''Claude Haiku 4.5 (Anthropic)'',
   ce_modality = Chat, ce_billing = UnifiedBilling, ce_tier = Premium, ce_streaming = True,
   ce_max_output_tokens = None, ce_price = Some (tprice (NInt 1000000) (NInt 5000000) (Some (NInt 100000)) PRICED_AT_UB),
   ce_unit_price = None, ce_published_rates = []\<rparr>]"

definition catalog_chat_2 :: "catalog_entry list" where
  "catalog_chat_2 = [
  \<lparr>ce_id = ''xai/grok-4.5'', ce_upstream = ''grok/grok-4.5'',
   ce_binding = True, ce_api = ApiChat, ce_display_name = ''Grok 4.5 (xAI)'',
   ce_modality = Chat, ce_billing = UnifiedBilling, ce_tier = Premium, ce_streaming = True,
   ce_max_output_tokens = None, ce_price = Some (tprice (NInt 2000000) (NInt 6000000) (Some (NInt 300000)) PRICED_AT_UB),
   ce_unit_price = None, ce_published_rates = []\<rparr>,
  \<lparr>ce_id = ''xai/grok-4.3'', ce_upstream = ''grok/grok-4.3'',
   ce_binding = False, ce_api = ApiChat, ce_display_name = ''Grok 4.3 (xAI)'',
   ce_modality = Chat, ce_billing = UnifiedBilling, ce_tier = Premium, ce_streaming = True,
   ce_max_output_tokens = None, ce_price = Some (tprice (NInt 1250000) (NInt 2500000) (Some (NInt 200000)) PRICED_AT_UB),
   ce_unit_price = None, ce_published_rates = []\<rparr>,
  \<lparr>ce_id = ''xai/grok-4.20-multi-agent-0309'', ce_upstream = ''grok/grok-4.20-multi-agent-0309'',
   ce_binding = True, ce_api = ApiResponses, ce_display_name = ''Grok 4.20 Multi-Agent (xAI)'',
   ce_modality = Chat, ce_billing = UnifiedBilling, ce_tier = Premium, ce_streaming = True,
   ce_max_output_tokens = None, ce_price = Some (tprice (NInt 1250000) (NInt 2500000) (Some (NInt 200000)) PRICED_AT_UB),
   ce_unit_price = None, ce_published_rates = []\<rparr>,
  \<lparr>ce_id = ''xai/grok-4.20-0309-reasoning'', ce_upstream = ''grok/grok-4.20-0309-reasoning'',
   ce_binding = False, ce_api = ApiChat, ce_display_name = ''Grok 4.20 Reasoning (xAI)'',
   ce_modality = Chat, ce_billing = UnifiedBilling, ce_tier = Premium, ce_streaming = True,
   ce_max_output_tokens = None, ce_price = Some (tprice (NInt 1250000) (NInt 2500000) (Some (NInt 200000)) PRICED_AT_UB),
   ce_unit_price = None, ce_published_rates = []\<rparr>,
  \<lparr>ce_id = ''moonshotai/kimi-k3'', ce_upstream = ''moonshotai/kimi-k3'',
   ce_binding = False, ce_api = ApiChat, ce_display_name = ''Kimi K3 (Moonshot, 1M ctx)'',
   ce_modality = Chat, ce_billing = UnifiedBilling, ce_tier = Premium, ce_streaming = True,
   ce_max_output_tokens = None, ce_price = Some (tprice (NInt 3000000) (NInt 15000000) (Some (NInt 300000)) PRICED_AT_UB),
   ce_unit_price = None, ce_published_rates = []\<rparr>,
  \<lparr>ce_id = ''@cf/moonshotai/kimi-k2.6'', ce_upstream = ''@cf/moonshotai/kimi-k2.6'',
   ce_binding = False, ce_api = ApiChat, ce_display_name = ''Kimi K2.6 (1T)'',
   ce_modality = Chat, ce_billing = WorkersAi, ce_tier = Standard, ce_streaming = True,
   ce_max_output_tokens = None, ce_price = Some (tprice (NInt 950000) (NInt 4000000) (Some (NInt 160000)) PRICED_AT),
   ce_unit_price = None, ce_published_rates = []\<rparr>,
  \<lparr>ce_id = ''@cf/moonshotai/kimi-k2.7-code'', ce_upstream = ''@cf/moonshotai/kimi-k2.7-code'',
   ce_binding = False, ce_api = ApiChat, ce_display_name = ''Kimi K2.7 Code (1T, vision)'',
   ce_modality = Chat, ce_billing = WorkersAi, ce_tier = Standard, ce_streaming = True,
   ce_max_output_tokens = None, ce_price = Some (tprice (NInt 950000) (NInt 4000000) (Some (NInt 190000)) PRICED_AT),
   ce_unit_price = None, ce_published_rates = []\<rparr>]"

definition catalog_chat_3 :: "catalog_entry list" where
  "catalog_chat_3 = [
  \<lparr>ce_id = ''@cf/openai/gpt-oss-120b'', ce_upstream = ''@cf/openai/gpt-oss-120b'',
   ce_binding = False, ce_api = ApiChat, ce_display_name = ''GPT-OSS 120B (reasoning)'',
   ce_modality = Chat, ce_billing = WorkersAi, ce_tier = Standard, ce_streaming = True,
   ce_max_output_tokens = None, ce_price = Some (tprice (NInt 350000) (NInt 750000) None PRICED_AT),
   ce_unit_price = None, ce_published_rates = []\<rparr>,
  \<lparr>ce_id = ''@cf/meta/llama-4-scout-17b-16e-instruct'', ce_upstream = ''@cf/meta/llama-4-scout-17b-16e-instruct'',
   ce_binding = False, ce_api = ApiChat, ce_display_name = ''Llama 4 Scout (MoE, vision)'',
   ce_modality = Chat, ce_billing = WorkersAi, ce_tier = Standard, ce_streaming = True,
   ce_max_output_tokens = None, ce_price = Some (tprice (NInt 270000) (NInt 850000) None PRICED_AT),
   ce_unit_price = None, ce_published_rates = []\<rparr>,
  \<lparr>ce_id = ''@cf/google/gemma-4-26b-a4b-it'', ce_upstream = ''@cf/google/gemma-4-26b-a4b-it'',
   ce_binding = False, ce_api = ApiChat, ce_display_name = ''Gemma 4 26B (vision)'',
   ce_modality = Chat, ce_billing = WorkersAi, ce_tier = Standard, ce_streaming = True,
   ce_max_output_tokens = Some 8192, ce_price = Some (tprice (NInt 100000) (NInt 300000) None PRICED_AT),
   ce_unit_price = None, ce_published_rates = []\<rparr>,
  \<lparr>ce_id = ''@cf/openai/gpt-oss-20b'', ce_upstream = ''@cf/openai/gpt-oss-20b'',
   ce_binding = False, ce_api = ApiChat, ce_display_name = ''GPT-OSS 20B'',
   ce_modality = Chat, ce_billing = WorkersAi, ce_tier = Standard, ce_streaming = True,
   ce_max_output_tokens = None, ce_price = Some (tprice (NInt 200000) (NInt 300000) None PRICED_AT),
   ce_unit_price = None, ce_published_rates = []\<rparr>,
  \<lparr>ce_id = ''openai/gpt-5.5'', ce_upstream = ''openai/gpt-5.5'',
   ce_binding = False, ce_api = ApiChat, ce_display_name = ''GPT-5.5 (OpenAI)'',
   ce_modality = Chat, ce_billing = UnifiedBilling, ce_tier = Premium, ce_streaming = True,
   ce_max_output_tokens = None, ce_price = Some (tprice (NInt 5000000) (NInt 30000000) (Some (NInt 500000)) PRICED_AT_UB),
   ce_unit_price = None, ce_published_rates = []\<rparr>,
  \<lparr>ce_id = ''openai/gpt-5.5-pro'', ce_upstream = ''openai/gpt-5.5-pro'',
   ce_binding = False, ce_api = ApiResponses, ce_display_name = ''GPT-5.5 Pro (OpenAI, Responses)'',
   ce_modality = Chat, ce_billing = UnifiedBilling, ce_tier = Premium, ce_streaming = True,
   ce_max_output_tokens = None, ce_price = Some (tprice (NInt 30000000) (NInt 180000000) None PRICED_AT_UB),
   ce_unit_price = None, ce_published_rates = []\<rparr>,
  \<lparr>ce_id = ''openai/gpt-5.6-sol'', ce_upstream = ''openai/gpt-5.6-sol'',
   ce_binding = False, ce_api = ApiChat, ce_display_name = ''GPT-5.6 Sol (OpenAI, Responses)'',
   ce_modality = Chat, ce_billing = UnifiedBilling, ce_tier = Premium, ce_streaming = True,
   ce_max_output_tokens = None, ce_price = Some (tprice (NInt 5000000) (NInt 30000000) (Some (NInt 500000)) PRICED_AT_UB),
   ce_unit_price = None, ce_published_rates = []\<rparr>,
  \<lparr>ce_id = ''openai/gpt-5.6-terra'', ce_upstream = ''openai/gpt-5.6-terra'',
   ce_binding = False, ce_api = ApiChat, ce_display_name = ''GPT-5.6 Terra (OpenAI, Responses)'',
   ce_modality = Chat, ce_billing = UnifiedBilling, ce_tier = Premium, ce_streaming = True,
   ce_max_output_tokens = None, ce_price = Some (tprice (NInt 1000000) (NInt 6000000) (Some (NInt 100000)) PRICED_AT_UB),
   ce_unit_price = None, ce_published_rates = []\<rparr>]"

definition catalog_chat_4 :: "catalog_entry list" where
  "catalog_chat_4 = [
  \<lparr>ce_id = ''openai/gpt-5.6-luna'', ce_upstream = ''openai/gpt-5.6-luna'',
   ce_binding = False, ce_api = ApiChat, ce_display_name = ''GPT-5.6 Luna (OpenAI, Responses)'',
   ce_modality = Chat, ce_billing = UnifiedBilling, ce_tier = Premium, ce_streaming = True,
   ce_max_output_tokens = None, ce_price = Some (tprice (NInt 100000) (NInt 600000) (Some (NInt 10000)) PRICED_AT_UB),
   ce_unit_price = None, ce_published_rates = []\<rparr>,
  \<lparr>ce_id = ''openai/gpt-5.4'', ce_upstream = ''openai/gpt-5.4'',
   ce_binding = False, ce_api = ApiChat, ce_display_name = ''GPT-5.4 (OpenAI)'',
   ce_modality = Chat, ce_billing = UnifiedBilling, ce_tier = Premium, ce_streaming = True,
   ce_max_output_tokens = None, ce_price = Some (tprice (NInt 2500000) (NInt 15000000) (Some (NInt 250000)) PRICED_AT_UB),
   ce_unit_price = None, ce_published_rates = []\<rparr>,
  \<lparr>ce_id = ''openai/gpt-5.4-mini'', ce_upstream = ''openai/gpt-5.4-mini'',
   ce_binding = False, ce_api = ApiChat, ce_display_name = ''GPT-5.4 mini (OpenAI)'',
   ce_modality = Chat, ce_billing = UnifiedBilling, ce_tier = Premium, ce_streaming = True,
   ce_max_output_tokens = None, ce_price = Some (tprice (NInt 750000) (NInt 4500000) (Some (NInt 75000)) PRICED_AT_UB),
   ce_unit_price = None, ce_published_rates = []\<rparr>,
  \<lparr>ce_id = ''openai/o4-mini'', ce_upstream = ''openai/o4-mini'',
   ce_binding = False, ce_api = ApiChat, ce_display_name = ''o4-mini (OpenAI, reasoning)'',
   ce_modality = Chat, ce_billing = UnifiedBilling, ce_tier = Premium, ce_streaming = True,
   ce_max_output_tokens = None, ce_price = Some (tprice (NInt 1100000) (NInt 4400000) None PRICED_AT_UB),
   ce_unit_price = None, ce_published_rates = []\<rparr>,
  \<lparr>ce_id = ''@cf/meta/llama-3.3-70b-instruct-fp8-fast'', ce_upstream = ''@cf/meta/llama-3.3-70b-instruct-fp8-fast'',
   ce_binding = False, ce_api = ApiChat, ce_display_name = ''Llama 3.3 70B (fp8)'',
   ce_modality = Chat, ce_billing = WorkersAi, ce_tier = Standard, ce_streaming = True,
   ce_max_output_tokens = None, ce_price = Some (tprice (NInt 293000) (NInt 2253000) None PRICED_AT),
   ce_unit_price = None, ce_published_rates = []\<rparr>,
  \<lparr>ce_id = ''@cf/meta/llama-3.2-11b-vision-instruct'', ce_upstream = ''@cf/meta/llama-3.2-11b-vision-instruct'',
   ce_binding = False, ce_api = ApiChat, ce_display_name = ''Llama 3.2 11B (vision)'',
   ce_modality = Chat, ce_billing = WorkersAi, ce_tier = Standard, ce_streaming = True,
   ce_max_output_tokens = None, ce_price = Some (tprice (NInt 48500) (NInt 676000) None PRICED_AT),
   ce_unit_price = None, ce_published_rates = []\<rparr>,
  \<lparr>ce_id = ''@cf/meta/llama-3.2-3b-instruct'', ce_upstream = ''@cf/meta/llama-3.2-3b-instruct'',
   ce_binding = False, ce_api = ApiChat, ce_display_name = ''Llama 3.2 3B'',
   ce_modality = Chat, ce_billing = WorkersAi, ce_tier = Standard, ce_streaming = True,
   ce_max_output_tokens = Some 4096, ce_price = Some (tprice (NInt 50900) (NInt 335000) None PRICED_AT),
   ce_unit_price = None, ce_published_rates = []\<rparr>,
  \<lparr>ce_id = ''@cf/qwen/qwen3-30b-a3b-fp8'', ce_upstream = ''@cf/qwen/qwen3-30b-a3b-fp8'',
   ce_binding = False, ce_api = ApiChat, ce_display_name = ''Qwen3 30B MoE'',
   ce_modality = Chat, ce_billing = WorkersAi, ce_tier = Standard, ce_streaming = True,
   ce_max_output_tokens = None, ce_price = Some (tprice (NInt 50900) (NInt 335000) None PRICED_AT),
   ce_unit_price = None, ce_published_rates = []\<rparr>]"

definition catalog_chat_5 :: "catalog_entry list" where
  "catalog_chat_5 = [
  \<lparr>ce_id = ''@cf/qwen/qwq-32b'', ce_upstream = ''@cf/qwen/qwq-32b'',
   ce_binding = False, ce_api = ApiChat, ce_display_name = ''QwQ 32B (reasoning)'',
   ce_modality = Chat, ce_billing = WorkersAi, ce_tier = Standard, ce_streaming = True,
   ce_max_output_tokens = None, ce_price = Some (tprice (NInt 660000) (NInt 1000000) None PRICED_AT),
   ce_unit_price = None, ce_published_rates = []\<rparr>,
  \<lparr>ce_id = ''@cf/qwen/qwen2.5-coder-32b-instruct'', ce_upstream = ''@cf/qwen/qwen2.5-coder-32b-instruct'',
   ce_binding = False, ce_api = ApiChat, ce_display_name = ''Qwen2.5 Coder 32B'',
   ce_modality = Chat, ce_billing = WorkersAi, ce_tier = Standard, ce_streaming = True,
   ce_max_output_tokens = None, ce_price = Some (tprice (NInt 660000) (NInt 1000000) None PRICED_AT),
   ce_unit_price = None, ce_published_rates = []\<rparr>,
  \<lparr>ce_id = ''@cf/deepseek-ai/deepseek-r1-distill-qwen-32b'', ce_upstream = ''@cf/deepseek-ai/deepseek-r1-distill-qwen-32b'',
   ce_binding = False, ce_api = ApiChat, ce_display_name = ''DeepSeek R1 32B'',
   ce_modality = Chat, ce_billing = WorkersAi, ce_tier = Standard, ce_streaming = True,
   ce_max_output_tokens = None, ce_price = Some (tprice (NInt 497000) (NInt 4881000) None PRICED_AT),
   ce_unit_price = None, ce_published_rates = []\<rparr>,
  \<lparr>ce_id = ''@cf/mistralai/mistral-small-3.1-24b-instruct'', ce_upstream = ''@cf/mistralai/mistral-small-3.1-24b-instruct'',
   ce_binding = False, ce_api = ApiChat, ce_display_name = ''Mistral Small 3.1 (vision)'',
   ce_modality = Chat, ce_billing = WorkersAi, ce_tier = Standard, ce_streaming = True,
   ce_max_output_tokens = None, ce_price = Some (tprice (NInt 351000) (NInt 555000) None PRICED_AT),
   ce_unit_price = None, ce_published_rates = []\<rparr>,
  \<lparr>ce_id = ''@cf/zai-org/glm-4.7-flash'', ce_upstream = ''@cf/zai-org/glm-4.7-flash'',
   ce_binding = False, ce_api = ApiChat, ce_display_name = ''GLM-4.7 Flash (Z.AI, 100+ lang)'',
   ce_modality = Chat, ce_billing = WorkersAi, ce_tier = Standard, ce_streaming = True,
   ce_max_output_tokens = Some 8192, ce_price = Some (tprice (NInt 60500) (NInt 400000) None PRICED_AT),
   ce_unit_price = None, ce_published_rates = []\<rparr>,
  \<lparr>ce_id = ''@cf/zai-org/glm-5.2'', ce_upstream = ''@cf/zai-org/glm-5.2'',
   ce_binding = False, ce_api = ApiChat, ce_display_name = ''GLM-5.2 (Z.AI, agentic coding)'',
   ce_modality = Chat, ce_billing = WorkersAi, ce_tier = Standard, ce_streaming = True,
   ce_max_output_tokens = None, ce_price = Some (tprice (NInt 1400000) (NInt 4400000) (Some (NInt 260000)) PRICED_AT),
   ce_unit_price = None, ce_published_rates = []\<rparr>,
  \<lparr>ce_id = ''@cf/nvidia/nemotron-3-120b-a12b'', ce_upstream = ''@cf/nvidia/nemotron-3-120b-a12b'',
   ce_binding = False, ce_api = ApiChat, ce_display_name = ''Nemotron 3 120B (NVIDIA, agentic)'',
   ce_modality = Chat, ce_billing = WorkersAi, ce_tier = Standard, ce_streaming = True,
   ce_max_output_tokens = None, ce_price = Some (tprice (NInt 500000) (NInt 1500000) None PRICED_AT),
   ce_unit_price = None, ce_published_rates = []\<rparr>,
  \<lparr>ce_id = ''@cf/aisingapore/gemma-sea-lion-v4-27b-it'', ce_upstream = ''@cf/aisingapore/gemma-sea-lion-v4-27b-it'',
   ce_binding = False, ce_api = ApiChat, ce_display_name = ''SEA-LION v4 27B (SE Asian langs)'',
   ce_modality = Chat, ce_billing = WorkersAi, ce_tier = Standard, ce_streaming = True,
   ce_max_output_tokens = None, ce_price = Some (tprice (NInt 351000) (NInt 555000) None PRICED_AT),
   ce_unit_price = None, ce_published_rates = []\<rparr>]"

definition catalog_chat_6 :: "catalog_entry list" where
  "catalog_chat_6 = [
  \<lparr>ce_id = ''google/gemini-3.1-pro'', ce_upstream = ''google-ai-studio/gemini-3.1-pro-preview'',
   ce_binding = True, ce_api = ApiChat, ce_display_name = ''Gemini 3.1 Pro (Google)'',
   ce_modality = Chat, ce_billing = UnifiedBilling, ce_tier = Premium, ce_streaming = True,
   ce_max_output_tokens = None, ce_price = Some (tprice (NInt 2000000) (NInt 12000000) (Some (NInt 200000)) PRICED_AT_UB),
   ce_unit_price = None, ce_published_rates = []\<rparr>,
  \<lparr>ce_id = ''google/gemini-3.5-flash'', ce_upstream = ''google-ai-studio/gemini-3.5-flash'',
   ce_binding = True, ce_api = ApiChat, ce_display_name = ''Gemini 3.5 Flash (Google)'',
   ce_modality = Chat, ce_billing = UnifiedBilling, ce_tier = Premium, ce_streaming = True,
   ce_max_output_tokens = None, ce_price = Some (tprice (NInt 1500000) (NInt 9000000) (Some (NInt 150000)) PRICED_AT_UB),
   ce_unit_price = None, ce_published_rates = []\<rparr>,
  \<lparr>ce_id = ''google/gemini-3.6-flash'', ce_upstream = ''google-ai-studio/gemini-3.6-flash'',
   ce_binding = True, ce_api = ApiChat, ce_display_name = ''Gemini 3.6 Flash (Google)'',
   ce_modality = Chat, ce_billing = UnifiedBilling, ce_tier = Premium, ce_streaming = True,
   ce_max_output_tokens = None, ce_price = Some (tprice (NInt 1500000) (NInt 7500000) (Some (NInt 150000)) PRICED_AT_UB),
   ce_unit_price = None, ce_published_rates = []\<rparr>,
  \<lparr>ce_id = ''@cf/ibm-granite/granite-4.0-h-micro'', ce_upstream = ''@cf/ibm-granite/granite-4.0-h-micro'',
   ce_binding = False, ce_api = ApiChat, ce_display_name = ''Granite 4.0 Micro (IBM)'',
   ce_modality = Chat, ce_billing = WorkersAi, ce_tier = Standard, ce_streaming = True,
   ce_max_output_tokens = None, ce_price = Some (tprice (NInt 17000) (NInt 112000) None PRICED_AT),
   ce_unit_price = None, ce_published_rates = []\<rparr>,
  \<lparr>ce_id = ''@cf/meta/llama-3.2-1b-instruct'', ce_upstream = ''@cf/meta/llama-3.2-1b-instruct'',
   ce_binding = False, ce_api = ApiChat, ce_display_name = ''Llama 3.2 1B (tiny, cheap)'',
   ce_modality = Chat, ce_billing = WorkersAi, ce_tier = Standard, ce_streaming = True,
   ce_max_output_tokens = None, ce_price = Some (tprice (NInt 27000) (NInt 201000) None PRICED_AT),
   ce_unit_price = None, ce_published_rates = []\<rparr>]"

definition catalog_image_1 :: "catalog_entry list" where
  "catalog_image_1 = [
  \<lparr>ce_id = ''google/nano-banana-pro'', ce_upstream = ''google/nano-banana-pro'',
   ce_binding = False, ce_api = ApiChat, ce_display_name = ''Nano Banana Pro (Google)'',
   ce_modality = Image, ce_billing = UnifiedBilling, ce_tier = Premium, ce_streaming = False,
   ce_max_output_tokens = None, ce_price = None,
   ce_unit_price = Some (uprice (NInt 40000) PerRequest PRICED_AT_UNIT), ce_published_rates = [URate ''per image'' (NReal (1 / 25))]\<rparr>,
  \<lparr>ce_id = ''google/nano-banana-2'', ce_upstream = ''google/nano-banana-2'',
   ce_binding = False, ce_api = ApiChat, ce_display_name = ''Nano Banana 2 (Google)'',
   ce_modality = Image, ce_billing = UnifiedBilling, ce_tier = Premium, ce_streaming = False,
   ce_max_output_tokens = None, ce_price = None,
   ce_unit_price = Some (uprice (NInt 40000) PerRequest PRICED_AT_UNIT), ce_published_rates = [URate ''per image'' (NReal (1 / 25))]\<rparr>,
  \<lparr>ce_id = ''google/nano-banana-2-lite'', ce_upstream = ''google/nano-banana-2-lite'',
   ce_binding = False, ce_api = ApiChat, ce_display_name = ''Nano Banana 2 Lite (Google)'',
   ce_modality = Image, ce_billing = UnifiedBilling, ce_tier = Premium, ce_streaming = False,
   ce_max_output_tokens = None, ce_price = None,
   ce_unit_price = Some (uprice (NInt 20000) PerRequest PRICED_AT_UNIT), ce_published_rates = [URate ''per image'' (NReal (1 / 50))]\<rparr>,
  \<lparr>ce_id = ''google/imagen-4'', ce_upstream = ''google/imagen-4'',
   ce_binding = False, ce_api = ApiChat, ce_display_name = ''Imagen 4 (Google)'',
   ce_modality = Image, ce_billing = UnifiedBilling, ce_tier = Premium, ce_streaming = False,
   ce_max_output_tokens = None, ce_price = None,
   ce_unit_price = Some (uprice (NInt 40000) PerRequest PRICED_AT_UNIT), ce_published_rates = [URate ''per image'' (NReal (1 / 25))]\<rparr>,
  \<lparr>ce_id = ''openai/gpt-image-1.5'', ce_upstream = ''openai/gpt-image-1.5'',
   ce_binding = False, ce_api = ApiChat, ce_display_name = ''GPT Image 1.5 (OpenAI)'',
   ce_modality = Image, ce_billing = UnifiedBilling, ce_tier = Premium, ce_streaming = False,
   ce_max_output_tokens = None, ce_price = None,
   ce_unit_price = Some (uprice (NInt 40000) PerRequest PRICED_AT_UNIT), ce_published_rates = [URate ''per image medium 1024'' (NReal (1 / 25))]\<rparr>,
  \<lparr>ce_id = ''openai/gpt-image-2'', ce_upstream = ''openai/gpt-image-2'',
   ce_binding = False, ce_api = ApiChat, ce_display_name = ''GPT Image 2 (OpenAI)'',
   ce_modality = Image, ce_billing = UnifiedBilling, ce_tier = Premium, ce_streaming = False,
   ce_max_output_tokens = None, ce_price = None,
   ce_unit_price = Some (uprice (NInt 55000) PerRequest PRICED_AT_UNIT), ce_published_rates = [URate ''per image medium 1024'' (NReal (11 / 200))]\<rparr>,
  \<lparr>ce_id = ''recraft/recraftv4'', ce_upstream = ''recraft/recraftv4'',
   ce_binding = False, ce_api = ApiChat, ce_display_name = ''Recraft V4 (art-directed, opaque)'',
   ce_modality = Image, ce_billing = UnifiedBilling, ce_tier = Premium, ce_streaming = False,
   ce_max_output_tokens = None, ce_price = None,
   ce_unit_price = Some (uprice (NInt 40000) PerRequest PRICED_AT_UNIT), ce_published_rates = [URate ''per image (operator)'' (NReal (1 / 25))]\<rparr>,
  \<lparr>ce_id = ''recraft/recraftv4-1'', ce_upstream = ''recraft/recraftv4-1'',
   ce_binding = False, ce_api = ApiChat, ce_display_name = ''Recraft V4.1 (art-directed, opaque)'',
   ce_modality = Image, ce_billing = UnifiedBilling, ce_tier = Premium, ce_streaming = False,
   ce_max_output_tokens = None, ce_price = None,
   ce_unit_price = Some (uprice (NInt 40000) PerRequest PRICED_AT_UNIT), ce_published_rates = [URate ''per image (operator)'' (NReal (1 / 25))]\<rparr>,
  \<lparr>ce_id = ''recraft/recraftv4-1-pro'', ce_upstream = ''recraft/recraftv4-1-pro'',
   ce_binding = False, ce_api = ApiChat, ce_display_name = ''Recraft V4.1 Pro (art-directed, opaque)'',
   ce_modality = Image, ce_billing = UnifiedBilling, ce_tier = Premium, ce_streaming = False,
   ce_max_output_tokens = None, ce_price = None,
   ce_unit_price = Some (uprice (NInt 80000) PerRequest PRICED_AT_UNIT), ce_published_rates = [URate ''per image (operator)'' (NReal (2 / 25))]\<rparr>,
  \<lparr>ce_id = ''xai/grok-imagine-image'', ce_upstream = ''xai/grok-imagine-image'',
   ce_binding = False, ce_api = ApiChat, ce_display_name = ''Grok Imagine Image (xAI)'',
   ce_modality = Image, ce_billing = UnifiedBilling, ce_tier = Premium, ce_streaming = False,
   ce_max_output_tokens = None, ce_price = None,
   ce_unit_price = Some (uprice (NInt 20000) PerRequest PRICED_AT_UNIT), ce_published_rates = [URate ''per image (xAI)'' (NReal (1 / 50))]\<rparr>,
  \<lparr>ce_id = ''xai/grok-imagine-image-quality'', ce_upstream = ''xai/grok-imagine-image-quality'',
   ce_binding = False, ce_api = ApiChat, ce_display_name = ''Grok Imagine Image Quality (xAI)'',
   ce_modality = Image, ce_billing = UnifiedBilling, ce_tier = Premium, ce_streaming = False,
   ce_max_output_tokens = None, ce_price = None,
   ce_unit_price = Some (uprice (NInt 50000) PerRequest PRICED_AT_UNIT), ce_published_rates = [URate ''per image (xAI)'' (NReal (1 / 20))]\<rparr>]"

definition catalog_image_2 :: "catalog_entry list" where
  "catalog_image_2 = [
  \<lparr>ce_id = ''bytedance/seedream-5-pro'', ce_upstream = ''bytedance/seedream-5-pro'',
   ce_binding = False, ce_api = ApiChat, ce_display_name = ''Seedream 5 Pro (ByteDance)'',
   ce_modality = Image, ce_billing = UnifiedBilling, ce_tier = Premium, ce_streaming = False,
   ce_max_output_tokens = None, ce_price = None,
   ce_unit_price = Some (uprice (NInt 40000) PerRequest PRICED_AT_UNIT), ce_published_rates = [URate ''per image (operator)'' (NReal (1 / 25))]\<rparr>,
  \<lparr>ce_id = ''bytedance/seedream-5-lite'', ce_upstream = ''bytedance/seedream-5-lite'',
   ce_binding = False, ce_api = ApiChat, ce_display_name = ''Seedream 5 Lite (ByteDance)'',
   ce_modality = Image, ce_billing = UnifiedBilling, ce_tier = Premium, ce_streaming = False,
   ce_max_output_tokens = None, ce_price = None,
   ce_unit_price = Some (uprice (NInt 20000) PerRequest PRICED_AT_UNIT), ce_published_rates = [URate ''per image (operator)'' (NReal (1 / 50))]\<rparr>,
  \<lparr>ce_id = ''@cf/black-forest-labs/flux-2-klein-9b'', ce_upstream = ''@cf/black-forest-labs/flux-2-klein-9b'',
   ce_binding = False, ce_api = ApiChat, ce_display_name = ''FLUX 2 Klein 9B (frontier)'',
   ce_modality = Image, ce_billing = WorkersAi, ce_tier = Standard, ce_streaming = False,
   ce_max_output_tokens = None, ce_price = None,
   ce_unit_price = Some (uprice (NInt 0) PerRequest PRICED_AT), ce_published_rates = []\<rparr>,
  \<lparr>ce_id = ''@cf/black-forest-labs/flux-2-klein-4b'', ce_upstream = ''@cf/black-forest-labs/flux-2-klein-4b'',
   ce_binding = False, ce_api = ApiChat, ce_display_name = ''FLUX 2 Klein 4B (faster)'',
   ce_modality = Image, ce_billing = WorkersAi, ce_tier = Standard, ce_streaming = False,
   ce_max_output_tokens = None, ce_price = None,
   ce_unit_price = Some (uprice (NInt 0) PerRequest PRICED_AT), ce_published_rates = []\<rparr>,
  \<lparr>ce_id = ''@cf/black-forest-labs/flux-2-dev'', ce_upstream = ''@cf/black-forest-labs/flux-2-dev'',
   ce_binding = False, ce_api = ApiChat, ce_display_name = ''FLUX 2 Dev (multi-reference)'',
   ce_modality = Image, ce_billing = WorkersAi, ce_tier = Standard, ce_streaming = False,
   ce_max_output_tokens = None, ce_price = None,
   ce_unit_price = Some (uprice (NInt 0) PerRequest PRICED_AT), ce_published_rates = []\<rparr>,
  \<lparr>ce_id = ''@cf/black-forest-labs/flux-1-schnell'', ce_upstream = ''@cf/black-forest-labs/flux-1-schnell'',
   ce_binding = False, ce_api = ApiChat, ce_display_name = ''FLUX-1 schnell (fast)'',
   ce_modality = Image, ce_billing = WorkersAi, ce_tier = Standard, ce_streaming = False,
   ce_max_output_tokens = None, ce_price = None,
   ce_unit_price = Some (uprice (NInt 477) PerRequest PRICED_AT), ce_published_rates = [URate ''per 512 by 512 tile'' (NReal (33 / 625000)), URate ''per step'' (NReal (53 / 500000))]\<rparr>,
  \<lparr>ce_id = ''@cf/leonardo/lucid-origin'', ce_upstream = ''@cf/leonardo/lucid-origin'',
   ce_binding = False, ce_api = ApiChat, ce_display_name = ''Lucid Origin (Leonardo)'',
   ce_modality = Image, ce_billing = WorkersAi, ce_tier = Standard, ce_streaming = False,
   ce_max_output_tokens = None, ce_price = None,
   ce_unit_price = Some (uprice (NInt 10300) PerRequest PRICED_AT), ce_published_rates = [URate ''per 512 by 512 tile'' (NReal (7 / 1000)), URate ''per step'' (NReal (33 / 250000))]\<rparr>,
  \<lparr>ce_id = ''@cf/leonardo/phoenix-1.0'', ce_upstream = ''@cf/leonardo/phoenix-1.0'',
   ce_binding = False, ce_api = ApiChat, ce_display_name = ''Phoenix 1.0 (Leonardo)'',
   ce_modality = Image, ce_billing = WorkersAi, ce_tier = Standard, ce_streaming = False,
   ce_max_output_tokens = None, ce_price = None,
   ce_unit_price = Some (uprice (NInt 8580) PerRequest PRICED_AT), ce_published_rates = [URate ''per 512 by 512 tile'' (NReal (583 / 100000)), URate ''per step'' (NReal (11 / 100000))]\<rparr>,
  \<lparr>ce_id = ''@cf/lykon/dreamshaper-8-lcm'', ce_upstream = ''@cf/lykon/dreamshaper-8-lcm'',
   ce_binding = False, ce_api = ApiChat, ce_display_name = ''Dreamshaper 8 LCM (fast SD)'',
   ce_modality = Image, ce_billing = WorkersAi, ce_tier = Standard, ce_streaming = False,
   ce_max_output_tokens = None, ce_price = None,
   ce_unit_price = Some (uprice (NInt 0) PerRequest PRICED_AT), ce_published_rates = []\<rparr>,
  \<lparr>ce_id = ''@cf/stabilityai/stable-diffusion-xl-base-1.0'', ce_upstream = ''@cf/stabilityai/stable-diffusion-xl-base-1.0'',
   ce_binding = False, ce_api = ApiChat, ce_display_name = ''Stable Diffusion XL (SDXL)'',
   ce_modality = Image, ce_billing = WorkersAi, ce_tier = Standard, ce_streaming = False,
   ce_max_output_tokens = None, ce_price = None,
   ce_unit_price = Some (uprice (NInt 1) PerRequest PRICED_AT), ce_published_rates = [URate ''per step'' (NInt 0)]\<rparr>]"

definition catalog_video_1 :: "catalog_entry list" where
  "catalog_video_1 = [
  \<lparr>ce_id = ''google/veo-3.1'', ce_upstream = ''google/veo-3.1'',
   ce_binding = False, ce_api = ApiChat, ce_display_name = ''Veo 3.1 (Google)'',
   ce_modality = Video, ce_billing = UnifiedBilling, ce_tier = Premium, ce_streaming = False,
   ce_max_output_tokens = None, ce_price = None,
   ce_unit_price = Some (uprice (NInt 3200000) PerRequest PRICED_AT_UNIT), ce_published_rates = [URate ''per 8s request @ $0.40/s (operator)'' (NReal (16 / 5))]\<rparr>,
  \<lparr>ce_id = ''google/veo-3.1-fast'', ce_upstream = ''google/veo-3.1-fast'',
   ce_binding = False, ce_api = ApiChat, ce_display_name = ''Veo 3.1 Fast (Google)'',
   ce_modality = Video, ce_billing = UnifiedBilling, ce_tier = Premium, ce_streaming = False,
   ce_max_output_tokens = None, ce_price = None,
   ce_unit_price = Some (uprice (NInt 1200000) PerRequest PRICED_AT_UNIT), ce_published_rates = [URate ''per 8s request @ $0.15/s (operator)'' (NReal (6 / 5))]\<rparr>,
  \<lparr>ce_id = ''bytedance/seedance-2.0'', ce_upstream = ''bytedance/seedance-2.0'',
   ce_binding = False, ce_api = ApiChat, ce_display_name = ''Seedance 2.0 (ByteDance)'',
   ce_modality = Video, ce_billing = UnifiedBilling, ce_tier = Premium, ce_streaming = False,
   ce_max_output_tokens = None, ce_price = None,
   ce_unit_price = Some (uprice (NInt 500000) PerRequest PRICED_AT_UNIT), ce_published_rates = [URate ''per 5s request (operator)'' (NReal (1 / 2))]\<rparr>,
  \<lparr>ce_id = ''bytedance/seedance-2.0-fast'', ce_upstream = ''bytedance/seedance-2.0-fast'',
   ce_binding = False, ce_api = ApiChat, ce_display_name = ''Seedance 2.0 Fast (ByteDance)'',
   ce_modality = Video, ce_billing = UnifiedBilling, ce_tier = Premium, ce_streaming = False,
   ce_max_output_tokens = None, ce_price = None,
   ce_unit_price = Some (uprice (NInt 300000) PerRequest PRICED_AT_UNIT), ce_published_rates = [URate ''per 5s request (operator)'' (NReal (3 / 10))]\<rparr>,
  \<lparr>ce_id = ''bytedance/seedance-2.0-mini'', ce_upstream = ''bytedance/seedance-2.0-mini'',
   ce_binding = False, ce_api = ApiChat, ce_display_name = ''Seedance 2.0 Mini (ByteDance)'',
   ce_modality = Video, ce_billing = UnifiedBilling, ce_tier = Premium, ce_streaming = False,
   ce_max_output_tokens = None, ce_price = None,
   ce_unit_price = Some (uprice (NInt 200000) PerRequest PRICED_AT_UNIT), ce_published_rates = [URate ''per 5s request (operator)'' (NReal (1 / 5))]\<rparr>,
  \<lparr>ce_id = ''minimax/hailuo-2.3'', ce_upstream = ''minimax/hailuo-2.3'',
   ce_binding = False, ce_api = ApiChat, ce_display_name = ''Hailuo 2.3 (MiniMax)'',
   ce_modality = Video, ce_billing = UnifiedBilling, ce_tier = Premium, ce_streaming = False,
   ce_max_output_tokens = None, ce_price = None,
   ce_unit_price = Some (uprice (NInt 500000) PerRequest PRICED_AT_UNIT), ce_published_rates = [URate ''per 6s request (operator)'' (NReal (1 / 2))]\<rparr>,
  \<lparr>ce_id = ''minimax/hailuo-2.3-fast'', ce_upstream = ''minimax/hailuo-2.3-fast'',
   ce_binding = False, ce_api = ApiChat, ce_display_name = ''Hailuo 2.3 Fast (MiniMax)'',
   ce_modality = Video, ce_billing = UnifiedBilling, ce_tier = Premium, ce_streaming = False,
   ce_max_output_tokens = None, ce_price = None,
   ce_unit_price = Some (uprice (NInt 300000) PerRequest PRICED_AT_UNIT), ce_published_rates = [URate ''per 6s request (operator)'' (NReal (3 / 10))]\<rparr>,
  \<lparr>ce_id = ''xai/grok-imagine-video'', ce_upstream = ''xai/grok-imagine-video'',
   ce_binding = False, ce_api = ApiChat, ce_display_name = ''Grok Imagine Video (xAI)'',
   ce_modality = Video, ce_billing = UnifiedBilling, ce_tier = Premium, ce_streaming = False,
   ce_max_output_tokens = None, ce_price = None,
   ce_unit_price = Some (uprice (NInt 400000) PerRequest PRICED_AT_UNIT), ce_published_rates = [URate ''per 8s @ $0.05/s (xAI)'' (NReal (2 / 5))]\<rparr>,
  \<lparr>ce_id = ''xai/grok-imagine-video-1.5-preview'', ce_upstream = ''xai/grok-imagine-video-1.5-preview'',
   ce_binding = False, ce_api = ApiChat, ce_display_name = ''Grok Imagine Video 1.5 (xAI, preview)'',
   ce_modality = Video, ce_billing = UnifiedBilling, ce_tier = Premium, ce_streaming = False,
   ce_max_output_tokens = None, ce_price = None,
   ce_unit_price = Some (uprice (NInt 640000) PerRequest PRICED_AT_UNIT), ce_published_rates = [URate ''per 8s @ $0.08/s (xAI)'' (NReal (2 / 5))]\<rparr>,
  \<lparr>ce_id = ''runwayml/gen-4.5'', ce_upstream = ''runwayml/gen-4.5'',
   ce_binding = False, ce_api = ApiChat, ce_display_name = ''Gen-4.5 (RunwayML)'',
   ce_modality = Video, ce_billing = UnifiedBilling, ce_tier = Premium, ce_streaming = False,
   ce_max_output_tokens = None, ce_price = None,
   ce_unit_price = Some (uprice (NInt 500000) PerRequest PRICED_AT_UNIT), ce_published_rates = [URate ''per 5s request (operator)'' (NReal (1 / 2))]\<rparr>,
  \<lparr>ce_id = ''alibaba/hh1-t2v'', ce_upstream = ''alibaba/hh1-t2v'',
   ce_binding = False, ce_api = ApiChat, ce_display_name = ''HappyHorse 1.0 T2V (Alibaba)'',
   ce_modality = Video, ce_billing = UnifiedBilling, ce_tier = Premium, ce_streaming = False,
   ce_max_output_tokens = None, ce_price = None,
   ce_unit_price = Some (uprice (NInt 250000) PerRequest PRICED_AT_UNIT), ce_published_rates = [URate ''per 5s request (operator)'' (NReal (1 / 4))]\<rparr>]"

definition catalog_video_2 :: "catalog_entry list" where
  "catalog_video_2 = [
  \<lparr>ce_id = ''alibaba/hh1-i2v'', ce_upstream = ''alibaba/hh1-i2v'',
   ce_binding = False, ce_api = ApiChat, ce_display_name = ''HappyHorse 1.0 I2V (Alibaba, image-to-video)'',
   ce_modality = Video, ce_billing = UnifiedBilling, ce_tier = Premium, ce_streaming = False,
   ce_max_output_tokens = None, ce_price = None,
   ce_unit_price = Some (uprice (NInt 250000) PerRequest PRICED_AT_UNIT), ce_published_rates = [URate ''per 5s request (operator)'' (NReal (1 / 4))]\<rparr>,
  \<lparr>ce_id = ''alibaba/hh1.1-t2v'', ce_upstream = ''alibaba/hh1.1-t2v'',
   ce_binding = False, ce_api = ApiChat, ce_display_name = ''HappyHorse 1.1 T2V (Alibaba)'',
   ce_modality = Video, ce_billing = UnifiedBilling, ce_tier = Premium, ce_streaming = False,
   ce_max_output_tokens = None, ce_price = None,
   ce_unit_price = Some (uprice (NInt 250000) PerRequest PRICED_AT_UNIT), ce_published_rates = [URate ''per 5s request (operator)'' (NReal (1 / 4))]\<rparr>,
  \<lparr>ce_id = ''alibaba/hh1.1-i2v'', ce_upstream = ''alibaba/hh1.1-i2v'',
   ce_binding = False, ce_api = ApiChat, ce_display_name = ''HappyHorse 1.1 I2V (Alibaba, image-to-video)'',
   ce_modality = Video, ce_billing = UnifiedBilling, ce_tier = Premium, ce_streaming = False,
   ce_max_output_tokens = None, ce_price = None,
   ce_unit_price = Some (uprice (NInt 250000) PerRequest PRICED_AT_UNIT), ce_published_rates = [URate ''per 5s request (operator)'' (NReal (1 / 4))]\<rparr>,
  \<lparr>ce_id = ''alibaba/wan-2.7-i2v'', ce_upstream = ''alibaba/wan-2.7-i2v'',
   ce_binding = False, ce_api = ApiChat, ce_display_name = ''Wan 2.7 I2V (Alibaba, image-to-video)'',
   ce_modality = Video, ce_billing = UnifiedBilling, ce_tier = Premium, ce_streaming = False,
   ce_max_output_tokens = None, ce_price = None,
   ce_unit_price = Some (uprice (NInt 250000) PerRequest PRICED_AT_UNIT), ce_published_rates = [URate ''per 5s request (operator)'' (NReal (1 / 4))]\<rparr>,
  \<lparr>ce_id = ''pixverse/v6'', ce_upstream = ''pixverse/v6'',
   ce_binding = False, ce_api = ApiChat, ce_display_name = ''PixVerse v6'',
   ce_modality = Video, ce_billing = UnifiedBilling, ce_tier = Premium, ce_streaming = False,
   ce_max_output_tokens = None, ce_price = None,
   ce_unit_price = Some (uprice (NInt 250000) PerRequest PRICED_AT_UNIT), ce_published_rates = [URate ''per 5s request (operator)'' (NReal (1 / 4))]\<rparr>,
  \<lparr>ce_id = ''pixverse/v5.6'', ce_upstream = ''pixverse/v5.6'',
   ce_binding = False, ce_api = ApiChat, ce_display_name = ''PixVerse v5.6'',
   ce_modality = Video, ce_billing = UnifiedBilling, ce_tier = Premium, ce_streaming = False,
   ce_max_output_tokens = None, ce_price = None,
   ce_unit_price = Some (uprice (NInt 200000) PerRequest PRICED_AT_UNIT), ce_published_rates = [URate ''per 5s request (operator)'' (NReal (1 / 5))]\<rparr>,
  \<lparr>ce_id = ''vidu/q3-pro'', ce_upstream = ''vidu/q3-pro'',
   ce_binding = False, ce_api = ApiChat, ce_display_name = ''Vidu Q3 Pro'',
   ce_modality = Video, ce_billing = UnifiedBilling, ce_tier = Premium, ce_streaming = False,
   ce_max_output_tokens = None, ce_price = None,
   ce_unit_price = Some (uprice (NInt 300000) PerRequest PRICED_AT_UNIT), ce_published_rates = [URate ''per 5s request (operator)'' (NReal (3 / 10))]\<rparr>,
  \<lparr>ce_id = ''vidu/q3-turbo'', ce_upstream = ''vidu/q3-turbo'',
   ce_binding = False, ce_api = ApiChat, ce_display_name = ''Vidu Q3 Turbo'',
   ce_modality = Video, ce_billing = UnifiedBilling, ce_tier = Premium, ce_streaming = False,
   ce_max_output_tokens = None, ce_price = None,
   ce_unit_price = Some (uprice (NInt 200000) PerRequest PRICED_AT_UNIT), ce_published_rates = [URate ''per 5s request (operator)'' (NReal (1 / 5))]\<rparr>]"

definition catalog_tts_1 :: "catalog_entry list" where
  "catalog_tts_1 = [
  \<lparr>ce_id = ''@cf/deepgram/aura-2-en'', ce_upstream = ''@cf/deepgram/aura-2-en'',
   ce_binding = False, ce_api = ApiChat, ce_display_name = ''Aura-2 English (Deepgram)'',
   ce_modality = Tts, ce_billing = WorkersAi, ce_tier = Standard, ce_streaming = False,
   ce_max_output_tokens = None, ce_price = None,
   ce_unit_price = Some (uprice (NInt 30000) KCharacters PRICED_AT), ce_published_rates = [URate ''per 1k characters'' (NReal (3 / 100))]\<rparr>,
  \<lparr>ce_id = ''@cf/deepgram/aura-2-es'', ce_upstream = ''@cf/deepgram/aura-2-es'',
   ce_binding = False, ce_api = ApiChat, ce_display_name = ''Aura-2 Spanish (Deepgram)'',
   ce_modality = Tts, ce_billing = WorkersAi, ce_tier = Standard, ce_streaming = False,
   ce_max_output_tokens = None, ce_price = None,
   ce_unit_price = Some (uprice (NInt 30000) KCharacters PRICED_AT), ce_published_rates = [URate ''per 1k characters'' (NReal (3 / 100))]\<rparr>,
  \<lparr>ce_id = ''@cf/myshell-ai/melotts'', ce_upstream = ''@cf/myshell-ai/melotts'',
   ce_binding = False, ce_api = ApiChat, ce_display_name = ''MeloTTS (multilingual)'',
   ce_modality = Tts, ce_billing = WorkersAi, ce_tier = Standard, ce_streaming = False,
   ce_max_output_tokens = None, ce_price = None,
   ce_unit_price = Some (uprice (NInt 205) AudioMinute PRICED_AT), ce_published_rates = [URate ''per audio minute'' (NReal (41 / 200000))]\<rparr>]"

definition catalog_stt_1 :: "catalog_entry list" where
  "catalog_stt_1 = [
  \<lparr>ce_id = ''@cf/openai/whisper-large-v3-turbo'', ce_upstream = ''@cf/openai/whisper-large-v3-turbo'',
   ce_binding = False, ce_api = ApiChat, ce_display_name = ''Whisper Large v3 Turbo (best)'',
   ce_modality = Stt, ce_billing = WorkersAi, ce_tier = Standard, ce_streaming = False,
   ce_max_output_tokens = None, ce_price = None,
   ce_unit_price = Some (uprice (NInt 513) AudioMinute PRICED_AT), ce_published_rates = [URate ''per audio minute'' (NReal (513 / 1000000))]\<rparr>,
  \<lparr>ce_id = ''@cf/openai/whisper'', ce_upstream = ''@cf/openai/whisper'',
   ce_binding = False, ce_api = ApiChat, ce_display_name = ''Whisper (general purpose)'',
   ce_modality = Stt, ce_billing = WorkersAi, ce_tier = Standard, ce_streaming = False,
   ce_max_output_tokens = None, ce_price = None,
   ce_unit_price = Some (uprice (NInt 453) AudioMinute PRICED_AT), ce_published_rates = [URate ''per audio minute'' (NReal (453 / 1000000))]\<rparr>,
  \<lparr>ce_id = ''@cf/openai/whisper-tiny-en'', ce_upstream = ''@cf/openai/whisper-tiny-en'',
   ce_binding = False, ce_api = ApiChat, ce_display_name = ''Whisper Tiny EN (fast, beta)'',
   ce_modality = Stt, ce_billing = WorkersAi, ce_tier = Standard, ce_streaming = False,
   ce_max_output_tokens = None, ce_price = None,
   ce_unit_price = Some (uprice (NInt 0) AudioMinute PRICED_AT), ce_published_rates = []\<rparr>,
  \<lparr>ce_id = ''@cf/deepgram/nova-3'', ce_upstream = ''@cf/deepgram/nova-3'',
   ce_binding = False, ce_api = ApiChat, ce_display_name = ''Deepgram Nova-3 (accurate)'',
   ce_modality = Stt, ce_billing = WorkersAi, ce_tier = Standard, ce_streaming = False,
   ce_max_output_tokens = None, ce_price = None,
   ce_unit_price = Some (uprice (NInt 5200) AudioMinute PRICED_AT), ce_published_rates = [URate ''per audio minute'' (NReal (13 / 2500)), URate ''per audio minute (websocket)'' (NReal (23 / 2500))]\<rparr>]"

definition catalog_voice_1 :: "catalog_entry list" where
  "catalog_voice_1 = [
  \<lparr>ce_id = ''@cf/deepgram/flux'', ce_upstream = ''@cf/deepgram/flux'',
   ce_binding = False, ce_api = ApiChat, ce_display_name = ''Deepgram Flux (live mic)'',
   ce_modality = Voice, ce_billing = WorkersAi, ce_tier = Standard, ce_streaming = False,
   ce_max_output_tokens = None, ce_price = None,
   ce_unit_price = Some (uprice (NInt 7700) AudioMinute PRICED_AT), ce_published_rates = [URate ''per audio minute (websocket)'' (NReal (77 / 10000))]\<rparr>]"

definition catalog_music_1 :: "catalog_entry list" where
  "catalog_music_1 = [
  \<lparr>ce_id = ''minimax/music-2.6'', ce_upstream = ''minimax/music-2.6'',
   ce_binding = False, ce_api = ApiChat, ce_display_name = ''MiniMax Music 2.6'',
   ce_modality = Music, ce_billing = UnifiedBilling, ce_tier = Premium, ce_streaming = False,
   ce_max_output_tokens = None, ce_price = None,
   ce_unit_price = Some (uprice (NInt 50000) PerRequest PRICED_AT_UNIT), ce_published_rates = [URate ''per request (operator)'' (NReal (1 / 20))]\<rparr>]"

section \<open>The catalog\<close>

definition CATALOG :: "catalog_entry list" where
  "CATALOG =
     catalog_chat_1 @
     catalog_chat_2 @
     catalog_chat_3 @
     catalog_chat_4 @
     catalog_chat_5 @
     catalog_chat_6 @
     catalog_image_1 @
     catalog_image_2 @
     catalog_video_1 @
     catalog_video_2 @
     catalog_tts_1 @
     catalog_stt_1 @
     catalog_voice_1 @
     catalog_music_1"

lemmas catalog_rows =
  catalog_chat_1_def
  catalog_chat_2_def
  catalog_chat_3_def
  catalog_chat_4_def
  catalog_chat_5_def
  catalog_chat_6_def
  catalog_image_1_def
  catalog_image_2_def
  catalog_video_1_def
  catalog_video_2_def
  catalog_tts_1_def
  catalog_stt_1_def
  catalog_voice_1_def
  catalog_music_1_def
  CATALOG_def tprice_def uprice_def PRICED_AT_def PRICED_AT_UB_def PRICED_AT_UNIT_def

text \<open>\<open>BY_ID\<close> is a Map built from the rows: of two rows with one id the later would win.\<close>

definition find_model :: "string \<Rightarrow> catalog_entry option" where
  "find_model i = map_of (rev (List.map (\<lambda>e. (ce_id e, e)) CATALOG)) i"

definition models_for_tiers :: "model_tier list \<Rightarrow> catalog_entry list" where
  "models_for_tiers tiers = List.filter (\<lambda>e. ce_tier e \<in> set tiers) CATALOG"

section \<open>Well-formed rows\<close>

text \<open>What the rest of the program assumes of a row, as a check that computes: the tier follows
  the bill, a chat row has no unit price and a non-chat row no token price, and every rate is a
  non-negative integer.\<close>

definition rate_ok :: "jsnum \<Rightarrow> bool" where
  "rate_ok n = (is_integer n \<and> 0 \<le> int_of_num n)"

definition entry_ok :: "catalog_entry \<Rightarrow> bool" where
  "entry_ok e =
     ((ce_tier e = Premium) = (ce_billing e = UnifiedBilling)
      \<and> (case ce_price e of None \<Rightarrow> True
         | Some p \<Rightarrow> ce_modality e = Chat \<and> rate_ok (tp_input p) \<and> rate_ok (tp_output p))
      \<and> (case ce_unit_price e of None \<Rightarrow> True
         | Some u \<Rightarrow> ce_modality e \<noteq> Chat \<and> rate_ok (up_micro u))
      \<and> (ce_price e \<noteq> None \<or> ce_unit_price e \<noteq> None)
      \<and> (case ce_max_output_tokens e of None \<Rightarrow> True | Some m \<Rightarrow> 1 \<le> m))"

lemma catalog_entries_ok_all: "list_all entry_ok CATALOG"
  by (simp add: catalog_rows entry_ok_def rate_ok_def)

lemma catalog_ids_distinct: "distinct (List.map ce_id CATALOG)"
  by (simp add: catalog_rows)

lemma catalog_entry_okI: "e \<in> set CATALOG \<Longrightarrow> entry_ok e"
  using catalog_entries_ok_all by (simp add: list_all_iff)

lemma find_model_iff: "find_model i = Some e \<longleftrightarrow> e \<in> set CATALOG \<and> ce_id e = i"
proof -
  let ?ps = "rev (List.map (\<lambda>e. (ce_id e, e)) CATALOG)"
  have d: "distinct (List.map fst ?ps)"
    using catalog_ids_distinct by (simp add: rev_map [symmetric] comp_def)
  show ?thesis
    unfolding find_model_def using d by (subst map_of_eq_Some_iff) auto
qed

lemma find_model_SomeD: "find_model i = Some e \<Longrightarrow> entry_ok e \<and> ce_id e = i"
  using catalog_entry_okI find_model_iff by blast

lemma models_for_tiers_iff:
  "e \<in> set (models_for_tiers ts) \<longleftrightarrow> e \<in> set CATALOG \<and> ce_tier e \<in> set ts"
  by (auto simp: models_for_tiers_def)

section \<open>Properties\<close>

text \<open>C10. The catalog is a well-formed closed allowlist: ids are pairwise different, so the lookup
  finds exactly the rows of the table and each under its own id; every row is priced in the unit
  of its modality with non-negative integer rates and is therefore spendable as compiled; the
  tier follows the bill; and the tier filter returns exactly the entitled rows.\<close>
theorem catalog_closed_and_priced:
  "distinct (List.map ce_id CATALOG)
   \<and> (\<forall>i e. find_model i = Some e \<longleftrightarrow> e \<in> set CATALOG \<and> ce_id e = i)
   \<and> list_all (\<lambda>e. entry_ok e \<and> spendable e None None) CATALOG
   \<and> (\<forall>ts e. e \<in> set (models_for_tiers ts) \<longleftrightarrow> e \<in> set CATALOG \<and> ce_tier e \<in> set ts)"
proof -
  have "spendable e None None" if "e \<in> set CATALOG" for e
    using catalog_entry_okI [OF that] door_modalities_all [of "ce_modality e"]
    by (auto simp: spendable_def entry_ok_def split: option.splits)
  then show ?thesis
    using catalog_ids_distinct find_model_iff models_for_tiers_iff catalog_entry_okI
    by (simp add: list_all_iff)
qed

text \<open>What a client sees of a model agrees with the gate: a model is shown as spendable exactly
  when it is shown with a price of its own unit, whichever overrides apply, and an operator rate
  replaces the compiled one in full.\<close>
lemma public_model_agrees:
  "(pm_spendable (public_model e tok unit) \<longleftrightarrow>
      (if ce_modality e = Chat then pm_price (public_model e tok unit) \<noteq> None
       else pm_unit_price (public_model e tok unit) \<noteq> None))
   \<and> pm_spendable (public_model e tok unit) = spendable e tok unit
   \<and> pm_price (public_model e (Some t) unit) =
       Some \<lparr>pp_input = tp_input t, pp_output = tp_output t, pp_priced_at = tp_priced_at t,
             pp_source = Operator\<rparr>"
  using public_model_spendable_iff_priced by (simp add: public_model_def)

end
