(* ===== verification/Chat.thy ===== *)
theory Chat
  imports Auth Balance ChatRequest Inference Stream Period CatalogData
begin

text \<open>
  src/src/routes/chat.ts: POST /v1/chat/completions.  The gates are \<open>chat_admit\<close>, which ends in
  a refusal or in a job with everything the spend needs; \<open>chat_spend\<close> calls the model and
  answers; a streamed answer is settled by \<open>settle_stream\<close> when its relay ends.

  The model runner and the credential source are parameters; either may be absent.  Every call of
  the runner is noted in the world, so that statements can speak of what was spent.
\<close>

section \<open>The context\<close>

datatype credential_outcome = CredOk string string | CredUnavailable

text \<open>\<open>SharedTokenSource.forAccount\<close>: one token for every account.\<close>

definition shared_for_account :: "string \<Rightarrow> string \<Rightarrow> credential_outcome" where
  "shared_for_account token account =
     (if token = [] then CredUnavailable else CredOk ''shared'' token)"

record chat_world = handler_world +
  cw_calls :: "inference_request list"

type_synonym ('a, 'z) h = "('a, 'z chat_world_ext handler_world_ext) m"

record 'z ctx =
  cx_sha256      :: "string \<Rightarrow> string"
  cx_runner      :: "(inference_request \<Rightarrow> exn + inference_result) option"
  cx_credentials :: "(string \<Rightarrow> (credential_outcome, 'z) h) option"
  cx_request_id  :: string
  cx_now         :: int
  cx_use_bytes   :: string

definition call_model ::
  "(inference_request \<Rightarrow> exn + inference_result) \<Rightarrow> inference_request \<Rightarrow> (inference_result, 'z) h" where
  "call_model run q = (\<lambda>w. (run q, w\<lparr>cw_calls := cw_calls w @ [q]\<rparr>))"

section \<open>The gates\<close>

record chat_job =
  cj_request          :: valid_chat_request
  cj_client           :: client_row
  cj_account          :: account_row
  cj_plan             :: plan
  cj_model            :: catalog_entry
  cj_price            :: token_price
  cj_run              :: "inference_request \<Rightarrow> exn + inference_result"
  cj_period_key       :: string
  cj_allowance_before :: int
  cj_token_id         :: string
  cj_token            :: string
  cj_max_tokens       :: int

definition allowance_spent :: "period_row option \<Rightarrow> int" where
  "allowance_spent p = (case p of None \<Rightarrow> 0 | Some r \<Rightarrow> pe_allowance_spent r)"

definition chat_pools :: "account_row \<Rightarrow> plan \<Rightarrow> int \<Rightarrow> spend_pools" where
  "chat_pools account p allowance =
     int_pools (ac_credit account) (ac_spent account) (plan_monthly_included p) allowance"

fun modality_name :: "modality \<Rightarrow> string" where
  "modality_name Chat = ''chat''"
| "modality_name Image = ''image''"
| "modality_name Tts = ''tts''"
| "modality_name Stt = ''stt''"
| "modality_name Voice = ''voice''"
| "modality_name Music = ''music''"
| "modality_name Video = ''video''"

fun billing_name :: "billing \<Rightarrow> string" where
  "billing_name WorkersAi = ''workers-ai''"
| "billing_name UnifiedBilling = ''unified-billing''"

text \<open>Gates 6 and 7 up to the price: the model, its door, the tier, streaming and the image
  field.\<close>

definition model_gate :: "string \<Rightarrow> valid_chat_request \<Rightarrow> plan \<Rightarrow> response + catalog_entry" where
  "model_gate rid req p =
     (case find_model (vr_model req) of
        None \<Rightarrow> Inl (error_response rid Model_not_found)
      | Some m \<Rightarrow>
          if ce_modality m \<noteq> Chat then
            Inl (error_response_with rid Model_unsupported
                   [(''modality'', JStr (modality_name (ce_modality m)))] [])
          else if \<not> entitles_tier p (ce_tier m) then Inl (error_response rid Model_not_entitled)
          else if vr_stream req \<and> \<not> ce_streaming m then Inl (error_response rid Invalid_request)
          else if (case vr_image_bytes req of None \<Rightarrow> False | Some bs \<Rightarrow> bs \<noteq> []) then
            Inl (error_response rid Invalid_request)
          else Inr m)"

definition js_int_field :: "string \<Rightarrow> jsnum \<Rightarrow> string \<times> js" where
  "js_int_field k n = (k, JNum n)"

definition quota_response :: "string \<Rightarrow> jsnum \<Rightarrow> jsnum \<Rightarrow> int \<Rightarrow> response" where
  "quota_response rid credit spent included =
     error_response_with rid Quota_exhausted
       [js_int_field ''credit_micro_usd'' credit, js_int_field ''spent_micro_usd'' spent,
        js_int_field ''monthly_included_micro_usd'' (NInt included),
        js_int_field ''allowance_remaining_micro_usd'' (NInt 0)] []"

text \<open>Gates 7 to 10 for a caller and an admitted model.\<close>

definition spend_gates ::
  "('z, 'x) ctx_scheme \<Rightarrow> valid_chat_request \<Rightarrow> caller \<Rightarrow> plan \<Rightarrow> catalog_entry
     \<Rightarrow> (response + chat_job, 'z) h" where
  "spend_gates cx req c p m =
     (let rid = cx_request_id cx; account = ca_account c; key = period_key (cx_now cx) in
      bindM (get_model_price (ce_id m)) (\<lambda>row.
      case resolve_price m row of
        None \<Rightarrow> retM (Inl (error_response_with rid Model_unpriced
                  [(''billing'', JStr (billing_name (ce_billing m)))] []))
      | Some price \<Rightarrow>
      (case cx_runner cx of
         None \<Rightarrow> retM (Inl (error_response rid Unavailable))
       | Some run \<Rightarrow>
      (case cx_credentials cx of
         None \<Rightarrow> retM (Inl (error_response rid Unavailable))
       | Some creds \<Rightarrow>
      bindM (get_period (ac_id account) key) (\<lambda>period.
      case decide_balance (chat_pools account p (allowance_spent period)) of
        BalExhausted credit spent _ \<Rightarrow>
          retM (Inl (quota_response rid credit spent (plan_monthly_included p)))
      | BalIndeterminate _ _ \<Rightarrow> retM (Inl (error_response rid Unavailable))
      | BalAllow _ _ _ \<Rightarrow>
      bindM (creds (ac_id account)) (\<lambda>cred.
      case cred of
        CredUnavailable \<Rightarrow> retM (Inl (error_response rid Unavailable))
      | CredOk tid tok \<Rightarrow>
          retM (Inr \<lparr>cj_request = req, cj_client = ca_client c, cj_account = account, cj_plan = p,
            cj_model = m, cj_price = price, cj_run = run, cj_period_key = key,
            cj_allowance_before = allowance_spent period, cj_token_id = tid, cj_token = tok,
            cj_max_tokens = effective_max_tokens (map_option NInt (vr_max_tokens req))
              (plan_max_output_tokens p) (ce_max_output_tokens m)\<rparr>)))))))"

definition chat_admit :: "('z, 'x) ctx_scheme \<Rightarrow> request \<Rightarrow> (response + chat_job, 'z) h" where
  "chat_admit cx rq =
     (let rid = cx_request_id cx in
      case read_json_body MAX_BODY_BYTES rq of
        Inl f \<Rightarrow> retM (Inl (error_response rid (read_failure_code f)))
      | Inr body \<Rightarrow>
     (case parse_chat_request body of
        Inl e \<Rightarrow> retM (Inl (error_response rid Invalid_request))
      | Inr req \<Rightarrow>
      bindM (require_caller (cx_sha256 cx) rid rq) (\<lambda>authed.
      case authed of
        Inl resp \<Rightarrow> retM (Inl resp)
      | Inr c \<Rightarrow>
     (case plan_from_row (ca_plan c) of
        Inl field \<Rightarrow> retM (Inl (error_response rid Unavailable))
      | Inr p \<Rightarrow>
      bindM (check_rate_limit (inference_bucket (ac_id (ca_account c)))
               (plan_requests_per_minute p) RATE_WINDOW_SECONDS) (\<lambda>rate.
      if \<not> rl_allowed rate then
        retM (Inl (error_response_with rid Rate_limited []
                     [(''retry-after'', dec_of_int (rl_retry_after rate))]))
      else
     (case model_gate rid req p of
        Inl resp \<Rightarrow> retM (Inl resp)
      | Inr m \<Rightarrow> spend_gates cx req c p m))))))"

section \<open>Recording\<close>

text \<open>A ledger row of a job before its charge is split.\<close>

definition job_event ::
  "('z, 'x) ctx_scheme \<Rightarrow> chat_job \<Rightarrow> token_usage option \<Rightarrow> int \<Rightarrow> price_basis
     \<Rightarrow> unmetered_reason option \<Rightarrow> int option \<Rightarrow> string option \<Rightarrow> usage_event" where
  "job_event cx job usage micro basis reason status log_id =
     \<lparr>ue_id = new_id ''use'' (cx_use_bytes cx), ue_request_id = cx_request_id cx,
      ue_account_id = ac_id (cj_account job), ue_client_id = cl_id (cj_client job),
      ue_model_id = ce_id (cj_model job), ue_period_key = cj_period_key job,
      ue_input_tokens = map_option tu_input usage, ue_output_tokens = map_option tu_output usage,
      ue_micro_usd = micro, ue_from_allowance = 0, ue_from_credit = 0,
      ue_metered = (basis \<noteq> Unpriced), ue_price_basis = basis, ue_unmetered_reason = reason,
      ue_upstream_status = status, ue_gateway_log_id = log_id\<rparr>"

text \<open>\<open>buildEvent\<close>: a metered charge is split on a fresh read of the period.\<close>

definition build_event :: "chat_job \<Rightarrow> usage_event \<Rightarrow> (usage_event, 'z) m" where
  "build_event job e =
     (if \<not> ue_metered e \<or> ue_micro_usd e \<le> 0 then retM e
      else bindM (get_period (ac_id (cj_account job)) (cj_period_key job)) (\<lambda>period.
        let split = allocate_charge (NInt (ue_micro_usd e)) (NInt (plan_monthly_included (cj_plan job)))
                      (NInt (allowance_spent period))
        in retM (e\<lparr>ue_from_allowance := int_of_num (ca_from_allowance split),
                   ue_from_credit := int_of_num (ca_from_credit split)\<rparr>)))"

definition record_quietly :: "usage_event \<Rightarrow> (bool, 'z) m" where
  "record_quietly e = catchM (bindM (record_usage e) (\<lambda>_. retM True)) (\<lambda>_. retM False)"

section \<open>Spending and answering\<close>

definition model_request :: "('z, 'x) ctx_scheme \<Rightarrow> chat_job \<Rightarrow> inference_request" where
  "model_request cx job =
     (let m = cj_model job; req = cj_request job in
      \<lparr>ir_upstream_model = ce_upstream m,
       ir_binding_model = (if ce_binding m then Some (ce_id m) else None),
       ir_responses_api = (ce_api m = ApiResponses), ir_billing = ce_billing m,
       ir_messages = vr_messages req, ir_max_tokens = cj_max_tokens job,
       ir_temperature = vr_temperature req, ir_top_p = vr_top_p req, ir_stream = vr_stream req,
       ir_auth_token_id = cj_token_id job, ir_auth_value = cj_token job,
       ir_metadata = [(''account_id'', ac_id (cj_account job)), (''client_id'', cl_id (cj_client job)),
         (''plan_id'', plan_id (cj_plan job)), (''request_id'', cx_request_id cx),
         (''cf_token_id'', cj_token_id job)],
       ir_image_bytes = vr_image_bytes req\<rparr>)"

definition money_headers :: "chat_job \<Rightarrow> int \<Rightarrow> jsnum \<Rightarrow> (string \<times> string) list" where
  "money_headers job spent_after allowance_remaining =
     [(''prism-period'', cj_period_key job),
      (''prism-credit-micro-usd'', dec_of_int (ac_credit (cj_account job))),
      (''prism-spent-micro-usd'', dec_of_int spent_after),
      (''prism-credit-remaining-micro-usd'', js_num_string (remaining_micro_usd
         \<lparr>bs_credit = NInt (ac_credit (cj_account job)), bs_spent = NInt spent_after\<rparr>)),
      (''prism-monthly-included-micro-usd'', dec_of_int (plan_monthly_included (cj_plan job))),
      (''prism-allowance-remaining-micro-usd'', js_num_string allowance_remaining)]"

definition allowance_remaining_before :: "chat_job \<Rightarrow> jsnum" where
  "allowance_remaining_before job =
     remaining_allowance (NInt (plan_monthly_included (cj_plan job))) (NInt (cj_allowance_before job))"

definition stream_response :: "('z, 'x) ctx_scheme \<Rightarrow> chat_job \<Rightarrow> response" where
  "stream_response cx job =
     \<lparr>resp_status = 200,
      resp_headers =
        [(''content-type'', ''text/event-stream; charset=utf-8''), (''cache-control'', ''no-store''),
         (''connection'', ''keep-alive''), (''prism-api-version'', ''1''),
         (''prism-request-id'', cx_request_id cx), (''prism-model'', ce_id (cj_model job)),
         (''prism-max-tokens-applied'', dec_of_int (cj_max_tokens job)), (''prism-stream'', ''true'')]
        @ money_headers job (ac_spent (cj_account job)) (allowance_remaining_before job),
      resp_body = RelayBody\<rparr>"

definition metered_event :: "('z, 'x) ctx_scheme \<Rightarrow> chat_job \<Rightarrow> meter_outcome \<Rightarrow> string option \<Rightarrow> usage_event" where
  "metered_event cx job outcome log_id =
     (case outcome of
        Metered micro u \<Rightarrow> job_event cx job (Some u) micro Measured None (Some 200) log_id
      | Unmetered r \<Rightarrow> job_event cx job None 0 Unpriced (Some r) (Some 200) log_id)"

definition completion_body :: "('z, 'x) ctx_scheme \<Rightarrow> chat_job \<Rightarrow> string \<Rightarrow> js \<Rightarrow> meter_outcome \<Rightarrow> js" where
  "completion_body cx job txt reason outcome = JObj
     ([(''id'', JStr (''chatcmpl_'' @ (if starts_with ''req_'' (cx_request_id cx)
                                        then drop 4 (cx_request_id cx) else cx_request_id cx))),
       (''object'', JStr ''chat.completion''), (''created'', JNum (NInt (cx_now cx div 1000))),
       (''model'', JStr (ce_id (cj_model job))),
       (''choices'', JArr [JObj [(''index'', JNum (NInt 0)),
          (''message'', JObj [(''role'', JStr ''assistant''), (''content'', JStr txt)]),
          (''finish_reason'', reason)]])]
      @ (case outcome of
           Metered _ u \<Rightarrow> [(''usage'', JObj [(''prompt_tokens'', JNum (NInt (tu_input u))),
             (''completion_tokens'', JNum (NInt (tu_output u))),
             (''total_tokens'', JNum (NInt (tu_input u + tu_output u)))])]
         | Unmetered _ \<Rightarrow> []))"

definition charge_of :: "meter_outcome \<Rightarrow> int" where
  "charge_of outcome = (case outcome of Metered micro _ \<Rightarrow> micro | Unmetered _ \<Rightarrow> 0)"

definition answer_headers ::
  "chat_job \<Rightarrow> meter_outcome \<Rightarrow> usage_event \<Rightarrow> bool \<Rightarrow> (string \<times> string) list" where
  "answer_headers job outcome e recorded =
     (let spent_after = ac_spent (cj_account job) + (if recorded then ue_from_credit e else 0);
          allowance_after = js_max (NInt 0) (js_sub (allowance_remaining_before job)
                              (NInt (if recorded then ue_from_allowance e else 0)))
      in [(''prism-model'', ce_id (cj_model job)),
          (''prism-max-tokens-applied'', dec_of_int (cj_max_tokens job)),
          (''prism-usage-micro-usd'', dec_of_int (charge_of outcome)),
          (''prism-metered'', case outcome of Metered _ _ \<Rightarrow> ''true'' | Unmetered _ \<Rightarrow> ''false''),
          (''prism-usage-recorded'', if recorded then ''true'' else ''false'')]
         @ money_headers job spent_after allowance_after)"

text \<open>The buffered answer: read the text, meter, record, then answer.\<close>

definition answer_buffered ::
  "('z, 'x) ctx_scheme \<Rightarrow> chat_job \<Rightarrow> js \<Rightarrow> string option \<Rightarrow> (response, 'z) h" where
  "answer_buffered cx job body log_id =
     (case extract_text body of
        Inl x \<Rightarrow> throwM x
      | Inr None \<Rightarrow> retM (error_response (cx_request_id cx) Upstream_error)
      | Inr (Some txt) \<Rightarrow>
          (let outcome = meter_response body (cj_price job) in
           bindM (build_event job (metered_event cx job outcome log_id)) (\<lambda>e.
           bindM (record_quietly e) (\<lambda>recorded.
           case extract_finish_reason body of
             Inl x \<Rightarrow> throwM x
           | Inr reason \<Rightarrow>
               retM (json_response (cx_request_id cx) (completion_body cx job txt reason outcome) 200
                       (answer_headers job outcome e recorded))))))"

text \<open>The answer, with the job of a stream that is still to be settled.\<close>

datatype chat_answer = ChatAnswer (answer_of: response) | ChatStream response chat_job "string option"

definition chat_spend :: "('z, 'x) ctx_scheme \<Rightarrow> chat_job \<Rightarrow> (chat_answer, 'z) h" where
  "chat_spend cx job =
     bindM (call_model (cj_run job) (model_request cx job)) (\<lambda>result.
     case result of
       InfTimeout waited \<Rightarrow>
         bindM (build_event job (job_event cx job None 0 Unpriced (Some (UpstreamTimedOut waited)) None None)) (\<lambda>e.
         bindM (record_quietly e) (\<lambda>_.
         retM (ChatAnswer (error_response (cx_request_id cx) Upstream_timeout))))
     | InfUpstreamError status \<Rightarrow>
         retM (ChatAnswer (error_response_with (cx_request_id cx) Upstream_error
           (case status of None \<Rightarrow> [] | Some s \<Rightarrow> [(''upstream_status'', JNum (NInt s))]) []))
     | InfStream log_id \<Rightarrow> retM (ChatStream (stream_response cx job) job log_id)
     | InfOk body log_id \<Rightarrow>
         bindM (answer_buffered cx job body log_id) (\<lambda>r. retM (ChatAnswer r)))"

definition handle_chat :: "('z, 'x) ctx_scheme \<Rightarrow> request \<Rightarrow> (chat_answer, 'z) h" where
  "handle_chat cx rq =
     bindM (chat_admit cx rq) (\<lambda>r. case r of Inl resp \<Rightarrow> retM (ChatAnswer resp) | Inr job \<Rightarrow> chat_spend cx job)"

section \<open>Settling a stream\<close>

definition stream_unmetered_reason :: "settlement \<Rightarrow> unmetered_reason option \<Rightarrow> unmetered_reason" where
  "stream_unmetered_reason s meter_reason =
     (case meter_reason of
        Some r \<Rightarrow> StreamUsageUnpriced r
      | None \<Rightarrow>
          if st_termination s = TermError then StreamFailed
          else if st_termination s = TermCancelled then StreamCancelledUnpriced
          else if \<not> st_saw_frames s then StreamNoFrames
          else StreamNoUsage)"

definition stream_event ::
  "('z, 'x) ctx_scheme \<Rightarrow> chat_job \<Rightarrow> string option \<Rightarrow> settlement \<Rightarrow> usage_event" where
  "stream_event cx job log_id s =
     (let metered = (if st_usage s = JNull then None else Some (meter_usage_object (st_usage s) (cj_price job)));
          estimated = (if metered = None \<and> st_termination s = TermCancelled
             then Some (price_estimated_usage
               (estimate_stream_usage (NInt (int (prompt_text_bytes (vr_messages (cj_request job)))))
                  (NInt (int (st_output_text_bytes s)))) (cj_price job))
             else None)
      in case metered of
           Some (Metered micro u) \<Rightarrow> job_event cx job (Some u) micro Measured None (Some 200) log_id
         | _ \<Rightarrow>
        (case estimated of
           Some (Estimated micro u) \<Rightarrow>
             job_event cx job (Some u) micro EstimatedOutput None (Some 200) log_id
         | _ \<Rightarrow>
             job_event cx job None 0 Unpriced
               (Some (stream_unmetered_reason s
                  (case metered of Some (Unmetered r) \<Rightarrow> Some r
                   | _ \<Rightarrow> (case estimated of Some (EstUnmetered r) \<Rightarrow> Some r | _ \<Rightarrow> None))))
               (Some 200) log_id))"

definition settle_stream ::
  "('z, 'x) ctx_scheme \<Rightarrow> chat_job \<Rightarrow> string option \<Rightarrow> settlement \<Rightarrow> (bool, 'y) m" where
  "settle_stream cx job log_id s = bindM (build_event job (stream_event cx job log_id s)) record_quietly"

end
