(* ===== verification/Ledger.thy ===== *)
theory Ledger
  imports StoreLemmas
begin

text \<open>
  The money columns against the rows that explain them.  Four store operations move money:
  recordUsage, applyUsageAdjustment, grantCredit and createAccount.  Each is a chain of
  statements, and in production many requests interleave and any Worker can die between two
  statements.  \<open>task\<close> is what is left of one operation, \<open>ledger_step\<close> lets any
  pending operation run its next statement at any instant, start a new one, or crash; the
  operations of the Store theory are shown to be runs of these tasks.
\<close>

section \<open>Totals\<close>

definition spent_of :: "db \<Rightarrow> string \<Rightarrow> int" where
  "spent_of d a = (case lookup ac_id a (t_accounts d) of None \<Rightarrow> 0 | Some r \<Rightarrow> ac_spent r)"

definition credit_of :: "db \<Rightarrow> string \<Rightarrow> int" where
  "credit_of d a = (case lookup ac_id a (t_accounts d) of None \<Rightarrow> 0 | Some r \<Rightarrow> ac_credit r)"

definition allowance_of :: "db \<Rightarrow> string \<Rightarrow> string \<Rightarrow> int" where
  "allowance_of d a k =
     (case lookup period_key_of (a, k) (t_periods d) of None \<Rightarrow> 0 | Some r \<Rightarrow> pe_allowance_spent r)"

definition total :: "('r \<Rightarrow> bool) \<Rightarrow> ('r \<Rightarrow> int) \<Rightarrow> 'r list \<Rightarrow> int" where
  "total P f rows = sum_list (List.map f (List.filter P rows))"

definition events_credit :: "db \<Rightarrow> string \<Rightarrow> int" where
  "events_credit d a = total (\<lambda>r. ue_account_id r = a) ue_from_credit (t_events d)"

definition events_allowance :: "db \<Rightarrow> string \<Rightarrow> string \<Rightarrow> int" where
  "events_allowance d a k =
     total (\<lambda>r. ue_account_id r = a \<and> ue_period_key r = k) ue_from_allowance (t_events d)"

definition adjusted :: "adjust_direction \<Rightarrow> db \<Rightarrow> string \<Rightarrow> int" where
  "adjusted dir d a =
     total (\<lambda>r. ua_account_id r = a \<and> ua_direction r = dir) ua_applied (t_adjustments d)"

definition granted :: "db \<Rightarrow> string \<Rightarrow> int" where
  "granted d a = total (\<lambda>g. gr_account_id g = a) gr_micro_usd (t_grants d)"

lemma total_append [simp]: "total P f (xs @ ys) = total P f xs + total P f ys"
  by (simp add: total_def)

lemma total_Cons [simp]: "total P f (x # xs) = (if P x then f x else 0) + total P f xs"
  by (simp add: total_def)

lemma total_Nil [simp]: "total P f [] = 0"
  by (simp add: total_def)

section \<open>Tasks\<close>

datatype task =
    TUsage1 usage_event
  | TUsage2 usage_event
  | TUsage3 usage_event
  | TAdj1 usage_adjustment
  | TAdj2 usage_adjustment
  | TGrant1 grant_row
  | TGrant2 grant_row
  | TAccount string string "string option" int string string

fun starting :: "task \<Rightarrow> bool" where
  "starting (TUsage1 e) = True"
| "starting (TAdj1 a) = True"
| "starting (TGrant1 g) = True"
| "starting (TAccount i p l c gi gk) = True"
| "starting t = False"

text \<open>Continue with \<open>k\<close> after a statement; an error ends the task.\<close>

definition after_write :: "task option \<Rightarrow> db \<Rightarrow> db option \<Rightarrow> task option \<times> db" where
  "after_write k d r = (case r of None \<Rightarrow> (None, d) | Some d' \<Rightarrow> (k, d'))"

definition after_insert :: "task \<Rightarrow> db \<Rightarrow> (bool \<times> db) option \<Rightarrow> task option \<times> db" where
  "after_insert k d r =
     (case r of None \<Rightarrow> (None, d) | Some (changed, d') \<Rightarrow> (if changed then Some k else None, d'))"

fun task_run :: "int \<Rightarrow> task \<Rightarrow> db \<Rightarrow> task option \<times> db" where
  "task_run now (TUsage1 e) d = after_insert (TUsage2 e) d (ins_event (stored_event e) now d)"
| "task_run now (TUsage2 e) d =
     after_write (if ue_metered e \<and> event_credit e > 0 then Some (TUsage3 e) else None) d
       (bump_period_usage (ue_account_id e) (ue_period_key e)
          (if ue_metered e then ue_micro_usd e else 0) (if ue_metered e then 0 else 1)
          (event_allowance e) d)"
| "task_run now (TUsage3 e) d = (None, add_spent (event_credit e) (ue_account_id e) d)"
| "task_run now (TAdj1 a) d = after_insert (TAdj2 a) d (ins_adjustment a d)"
| "task_run now (TAdj2 a) d =
     after_write None d (if ua_direction a = Spend then adjust_spend_batch a d else adjust_credit_batch a d)"
| "task_run now (TGrant1 g) d = after_insert (TGrant2 g) d (ins_grant g d)"
| "task_run now (TGrant2 g) d = (None, add_credit (gr_micro_usd g) (gr_account_id g) d)"
| "task_run now (TAccount i p l c gi gk) d = after_write None d (ins_account i p l c gi gk now d)"

definition task_list :: "task option \<Rightarrow> task list" where
  "task_list t = (case t of None \<Rightarrow> [] | Some t \<Rightarrow> [t])"

lemma task_list_simps [simp]: "task_list None = []" "task_list (Some t) = [t]"
  by (simp_all add: task_list_def)

text \<open>The amounts the code computes are non-negative: allocations, grants and true-ups.\<close>

fun amounts_ok :: "task \<Rightarrow> bool" where
  "amounts_ok (TUsage1 e) = (0 \<le> event_credit e \<and> 0 \<le> event_allowance e)"
| "amounts_ok (TUsage2 e) = (0 \<le> event_credit e \<and> 0 \<le> event_allowance e)"
| "amounts_ok (TUsage3 e) = (0 \<le> event_credit e \<and> 0 \<le> event_allowance e)"
| "amounts_ok (TAdj1 a) = (0 \<le> ua_applied a)"
| "amounts_ok (TAdj2 a) = (0 \<le> ua_applied a)"
| "amounts_ok (TGrant1 g) = (0 \<le> gr_micro_usd g)"
| "amounts_ok (TGrant2 g) = (0 \<le> gr_micro_usd g)"
| "amounts_ok (TAccount i p l c gi gk) = (0 \<le> c)"

text \<open>The first argument restricts the operations that may start, the second says whether crashes
  and lost answers may happen.\<close>

inductive ledger_step :: "(task \<Rightarrow> bool) \<Rightarrow> bool \<Rightarrow> task list \<times> db \<Rightarrow> task list \<times> db \<Rightarrow> bool" for allowed crashes where
  step_start: "starting t \<Longrightarrow> amounts_ok t \<Longrightarrow> allowed t \<Longrightarrow> ledger_step allowed crashes (ts, d) (t # ts, d)"
| step_run: "task_run now t d = (r, d') \<Longrightarrow>
     ledger_step allowed crashes (xs @ t # ys, d) (xs @ task_list r @ ys, d')"
| step_crash: "crashes \<Longrightarrow> ledger_step allowed crashes (xs @ t # ys, d) (xs @ ys, d)"

inductive_cases ledger_stepE: "ledger_step allowed crashes s s'"

section \<open>What a pending task still owes\<close>

fun owes_spent :: "string \<Rightarrow> task \<Rightarrow> int" where
  "owes_spent a (TUsage2 e) = (if ue_account_id e = a then event_credit e else 0)"
| "owes_spent a (TUsage3 e) = (if ue_account_id e = a then event_credit e else 0)"
| "owes_spent a (TAdj2 j) = (if ua_account_id j = a \<and> ua_direction j = Spend then ua_applied j else 0)"
| "owes_spent a t = 0"

fun owes_allowance :: "string \<Rightarrow> string \<Rightarrow> task \<Rightarrow> int" where
  "owes_allowance a k (TUsage2 e) =
     (if ue_account_id e = a \<and> ue_period_key e = k then event_allowance e else 0)"
| "owes_allowance a k t = 0"

text \<open>Whose account a started task is about.\<close>

fun anchored :: "db \<Rightarrow> task \<Rightarrow> bool" where
  "anchored d (TUsage2 e) = has_key ac_id (ue_account_id e) (t_accounts d)"
| "anchored d (TUsage3 e) = has_key ac_id (ue_account_id e) (t_accounts d)"
| "anchored d (TAdj2 j) = has_key ac_id (ua_account_id j) (t_accounts d)"
| "anchored d (TGrant2 g) = has_key ac_id (gr_account_id g) (t_accounts d)"
| "anchored d t = True"

lemma stored_event_simps [simp]:
  "ue_account_id (stored_event e) = ue_account_id e"
  "ue_period_key (stored_event e) = ue_period_key e"
  "ue_from_credit (stored_event e) = event_credit e"
  "ue_from_allowance (stored_event e) = event_allowance e"
  "ue_client_id (stored_event e) = ue_client_id e"
  "ue_request_id (stored_event e) = ue_request_id e"
  "ue_id (stored_event e) = ue_id e"
  by (simp_all add: stored_event_def)

lemma spent_of_add_spent:
  "spent_of (add_spent n a d) b =
     spent_of d b + (if b = a \<and> has_key ac_id a (t_accounts d) then n else 0)"
  using lookup_None_iff [of ac_id b "t_accounts d"]
  by (auto simp: spent_of_def add_spent_def lookup_update_where split: option.splits
      dest: lookup_SomeD)

lemma spent_of_add_credit [simp]: "spent_of (add_credit n a d) b = spent_of d b"
  by (auto simp: spent_of_def add_credit_def lookup_update_where split: option.splits)

lemma credit_of_add_credit:
  "credit_of (add_credit n a d) b =
     credit_of d b + (if b = a \<and> has_key ac_id a (t_accounts d) then n else 0)"
  using lookup_None_iff [of ac_id b "t_accounts d"]
  by (auto simp: credit_of_def add_credit_def lookup_update_where split: option.splits
      dest: lookup_SomeD)

lemma credit_of_add_spent [simp]: "credit_of (add_spent n a d) b = credit_of d b"
  by (auto simp: credit_of_def add_spent_def lookup_update_where split: option.splits)

lemma upsert_period_tables:
  assumes "upsert_period new f d = Some d'"
  shows "d' = d\<lparr>t_periods := upsert period_key_of new f (t_periods d)\<rparr>"
  using assms by (auto simp: upsert_period_def split: if_splits)

lemma upsert_period_total:
  "has_key ac_id (pe_account_id new) (t_accounts d) \<Longrightarrow> upsert_period new f d \<noteq> None"
  by (simp add: upsert_period_def fk_account_def)

lemmas bump_defs = bump_period_usage_def bump_period_adjust_def

section \<open>Effect of one statement on the books\<close>

definition entries_spent :: "db \<Rightarrow> string \<Rightarrow> int" where
  "entries_spent d a = events_credit d a + adjusted Spend d a"

definition owed :: "(task \<Rightarrow> int) \<Rightarrow> task list \<Rightarrow> int" where
  "owed f ts = sum_list (List.map f ts)"

lemma owed_simps [simp]:
  "owed f [] = 0" "owed f (t # ts) = f t + owed f ts" "owed f (ts @ us) = owed f ts + owed f us"
  by (simp_all add: owed_def)

lemma frame_simps [simp]:
  "spent_of (d\<lparr>t_periods := x\<rparr>) a = spent_of d a"
  "credit_of (d\<lparr>t_periods := x\<rparr>) a = credit_of d a"
  "spent_of (d\<lparr>t_events := ev\<rparr>) a = spent_of d a"
  "credit_of (d\<lparr>t_events := ev\<rparr>) a = credit_of d a"
  "allowance_of (d\<lparr>t_events := ev\<rparr>) a k = allowance_of d a k"
  "spent_of (d\<lparr>t_adjustments := aj\<rparr>) a = spent_of d a"
  "credit_of (d\<lparr>t_adjustments := aj\<rparr>) a = credit_of d a"
  "allowance_of (d\<lparr>t_adjustments := aj\<rparr>) a k = allowance_of d a k"
  "spent_of (d\<lparr>t_grants := gs\<rparr>) a = spent_of d a"
  "credit_of (d\<lparr>t_grants := gs\<rparr>) a = credit_of d a"
  "allowance_of (d\<lparr>t_grants := gs\<rparr>) a k = allowance_of d a k"
  "entries_spent (d\<lparr>t_periods := x\<rparr>) a = entries_spent d a"
  "entries_spent (d\<lparr>t_grants := gs\<rparr>) a = entries_spent d a"
  "entries_spent (d\<lparr>t_accounts := ac\<rparr>) a = entries_spent d a"
  "events_allowance (d\<lparr>t_periods := x\<rparr>) a k = events_allowance d a k"
  "events_allowance (d\<lparr>t_grants := gs\<rparr>) a k = events_allowance d a k"
  "events_allowance (d\<lparr>t_accounts := ac\<rparr>) a k = events_allowance d a k"
  "events_allowance (d\<lparr>t_adjustments := aj\<rparr>) a k = events_allowance d a k"
  "allowance_of (d\<lparr>t_accounts := ac\<rparr>) a k = allowance_of d a k"
  by (simp_all add: spent_of_def credit_of_def allowance_of_def entries_spent_def events_credit_def
      adjusted_def events_allowance_def)

lemma add_frames [simp]:
  "entries_spent (add_spent n a d) b = entries_spent d b"
  "entries_spent (add_credit n a d) b = entries_spent d b"
  "events_allowance (add_spent n a d) b k = events_allowance d b k"
  "events_allowance (add_credit n a d) b k = events_allowance d b k"
  "allowance_of (add_spent n a d) b k = allowance_of d b k"
  "allowance_of (add_credit n a d) b k = allowance_of d b k"
  "has_key ac_id x (t_accounts (add_spent n a d)) = has_key ac_id x (t_accounts d)"
  "has_key ac_id x (t_accounts (add_credit n a d)) = has_key ac_id x (t_accounts d)"
  "db_fk (add_spent n a d) = db_fk d" "db_fk (add_credit n a d) = db_fk d"
  "t_grants (add_spent n a d) = t_grants d" "t_grants (add_credit n a d) = t_grants d"
  "t_adjustments (add_spent n a d) = t_adjustments d"
  "t_adjustments (add_credit n a d) = t_adjustments d"
  "t_periods (add_spent n a d) = t_periods d" "t_periods (add_credit n a d) = t_periods d"
  "t_events (add_spent n a d) = t_events d" "t_events (add_credit n a d) = t_events d"
  by (simp_all add: add_spent_def add_credit_def)

text \<open>What each task does to the tables, one lemma per task.\<close>

lemma upsert_period_frame:
  "upsert_period new f d = Some d' \<Longrightarrow> \<exists>ps. d' = d\<lparr>t_periods := ps\<rparr>"
  by (auto simp: upsert_period_def split: if_splits)

lemma run_usage1:
  assumes "task_run now (TUsage1 e) d = (r, d')"
  shows "(r = None \<and> d' = d) \<or>
         (\<exists>row. r = Some (TUsage2 e) \<and> \<not> event_seen (stored_event e) d \<and> fk_account d (ue_account_id e) \<and>
            d' = d\<lparr>t_events := t_events d @ [row]\<rparr> \<and> ue_account_id row = ue_account_id e \<and>
            ue_period_key row = ue_period_key e \<and> ue_from_credit row = event_credit e \<and>
            ue_from_allowance row = event_allowance e)"
proof (cases "ins_event (stored_event e) now d")
  case None
  then show ?thesis using assms by (simp add: after_insert_def)
next
  case (Some p)
  then show ?thesis using assms
    by (auto simp: after_insert_def ins_event_def usage_event.extend_def split: if_splits)
qed

lemma run_usage2:
  assumes "task_run now (TUsage2 e) d = (r, d')"
  shows "(r = None \<and> d' = d \<and> \<not> fk_account d (ue_account_id e)) \<or>
         (r = (if ue_metered e \<and> event_credit e > 0 then Some (TUsage3 e) else None) \<and>
          (\<exists>ps. d' = d\<lparr>t_periods := ps\<rparr>))"
proof (cases "bump_period_usage (ue_account_id e) (ue_period_key e)
          (if ue_metered e then ue_micro_usd e else 0) (if ue_metered e then 0 else 1)
          (event_allowance e) d")
  case None
  then have "\<not> fk_account d (ue_account_id e)"
    by (auto simp: bump_period_usage_def upsert_period_def split: if_splits)
  with None show ?thesis using assms by (simp add: after_write_def)
next
  case (Some d1)
  then have "\<exists>ps. d1 = d\<lparr>t_periods := ps\<rparr>"
    unfolding bump_period_usage_def by (rule upsert_period_frame)
  with Some show ?thesis using assms by (simp add: after_write_def)
qed

lemma run_adj1:
  assumes "task_run now (TAdj1 j) d = (r, d')"
  shows "(r = None \<and> d' = d) \<or>
         (r = Some (TAdj2 j) \<and> d' = d\<lparr>t_adjustments := t_adjustments d @ [j]\<rparr> \<and>
          \<not> has_key ua_id (ua_id j) (t_adjustments d) \<and> \<not> has_key ua_key (ua_key j) (t_adjustments d) \<and>
          fk_account d (ua_account_id j))"
  using assms by (auto simp: after_insert_def ins_adjustment_def split: if_splits)

lemma run_grant1:
  assumes "task_run now (TGrant1 g) d = (r, d')"
  shows "(r = None \<and> d' = d) \<or>
         (r = Some (TGrant2 g) \<and> d' = d\<lparr>t_grants := t_grants d @ [g]\<rparr> \<and>
          \<not> has_key gr_id (gr_id g) (t_grants d) \<and> \<not> has_key gr_key (gr_key g) (t_grants d) \<and>
          fk_account d (gr_account_id g))"
  using assms by (auto simp: after_insert_def ins_grant_def split: if_splits)

lemma run_adj2_spend:
  assumes "task_run now (TAdj2 j) d = (r, d')" "ua_direction j = Spend"
  shows "r = None \<and> ((d' = d \<and> \<not> fk_account d (ua_account_id j)) \<or>
           (\<exists>ps. d' = (add_spent (ua_applied j) (ua_account_id j) d)\<lparr>t_periods := ps\<rparr>))"
proof (cases "adjust_spend_batch j d")
  case None
  then have "\<not> fk_account d (ua_account_id j)"
    by (auto simp: adjust_spend_batch_def bump_period_adjust_def upsert_period_def fk_account_def
        split: if_splits)
  with None show ?thesis using assms by (simp add: after_write_def)
next
  case (Some d1)
  then have "\<exists>ps. d1 = (add_spent (ua_applied j) (ua_account_id j) d)\<lparr>t_periods := ps\<rparr>"
    unfolding adjust_spend_batch_def bump_period_adjust_def by (rule upsert_period_frame)
  with Some show ?thesis using assms by (simp add: after_write_def)
qed

text \<open>The credit batch: the grant row may be ignored, the balance moves all the same.\<close>

lemma run_adj2_credit:
  assumes "task_run now (TAdj2 j) d = (r, d')" "ua_direction j = Credit"
  shows "r = None \<and> ((d' = d \<and> \<not> fk_account d (ua_account_id j)) \<or>
           (\<exists>ps gs. d' = (add_credit (ua_applied j) (ua_account_id j) (d\<lparr>t_grants := gs\<rparr>))\<lparr>t_periods := ps\<rparr> \<and>
              gs = (if has_key gr_id (ua_id j) (t_grants d) \<or> has_key gr_key (ua_key j) (t_grants d)
                    then t_grants d else t_grants d @ [adjustment_grant j])))"
proof (cases "ins_grant (adjustment_grant j) d")
  case None
  then have "\<not> fk_account d (ua_account_id j)"
    by (auto simp: ins_grant_def adjustment_grant_def split: if_splits)
  with None show ?thesis using assms by (simp add: after_write_def adjust_credit_batch_def)
next
  case (Some p)
  obtain ch d1 where p: "p = (ch, d1)" by (cases p)
  let ?gs = "if has_key gr_id (ua_id j) (t_grants d) \<or> has_key gr_key (ua_key j) (t_grants d)
                    then t_grants d else t_grants d @ [adjustment_grant j]"
  have d1: "d1 = d\<lparr>t_grants := ?gs\<rparr>"
    using Some p by (auto simp: ins_grant_def adjustment_grant_def split: if_splits)
  show ?thesis
  proof (cases "adjust_credit_batch j d")
    case None
    then have "\<not> fk_account d (ua_account_id j)"
      using Some p d1
      by (auto simp: adjust_credit_batch_def bump_period_adjust_def upsert_period_def fk_account_def
          split: if_splits)
    with None show ?thesis using assms by (simp add: after_write_def)
  next
    case (Some d2)
    then have "\<exists>ps. d2 = (add_credit (ua_applied j) (ua_account_id j) d1)\<lparr>t_periods := ps\<rparr>"
      using \<open>ins_grant (adjustment_grant j) d = Some p\<close> p
      unfolding adjust_credit_batch_def bump_period_adjust_def
      by (auto intro: upsert_period_frame)
    with Some d1 show ?thesis using assms by (auto simp: after_write_def)
  qed
qed

lemma opening_row_simps [simp]:
  "ac_id (opening_account i p l c now) = i" "ac_spent (opening_account i p l c now) = 0"
  "ac_credit (opening_account i p l c now) = c"
  "gr_id (opening_grant i c gi gk) = gi" "gr_account_id (opening_grant i c gi gk) = i"
  "gr_micro_usd (opening_grant i c gi gk) = c" "gr_key (opening_grant i c gi gk) = gk"
  by (simp_all add: opening_account_def opening_grant_def)

lemma run_account:
  assumes "task_run now (TAccount i p l c gi gk) d = (r, d')"
  shows "r = None \<and> (d' = d \<or>
    (\<not> has_key ac_id i (t_accounts d) \<and> \<not> has_key gr_id gi (t_grants d) \<and> \<not> has_key gr_key gk (t_grants d) \<and>
     d' = d\<lparr>t_accounts := t_accounts d @ [opening_account i p l c now],
            t_grants := t_grants d @ [opening_grant i c gi gk]\<rparr>))"
  using assms by (auto simp: after_write_def ins_account_def split: if_splits)

lemma fresh_account [simp]:
  "\<not> has_key ac_id (ac_id row) (t_accounts d) \<Longrightarrow> ac_spent row = 0 \<Longrightarrow>
     spent_of (d\<lparr>t_accounts := t_accounts d @ [row]\<rparr>) a = spent_of d a"
  by (auto simp: spent_of_def lookup_append lookup_None_iff [symmetric] split: option.splits)

lemma fresh_account_credit:
  "\<not> has_key ac_id (ac_id row) (t_accounts d) \<Longrightarrow>
     credit_of (d\<lparr>t_accounts := t_accounts d @ [row]\<rparr>) a =
       credit_of d a + (if a = ac_id row then ac_credit row else 0)"
  by (auto simp: credit_of_def lookup_append lookup_None_iff [symmetric] split: option.splits)

lemma fk_accountD: "fk_account d a \<Longrightarrow> db_fk d \<Longrightarrow> has_key ac_id a (t_accounts d)"
  by (simp add: fk_account_def)

lemma fk_accountI: "has_key ac_id a (t_accounts d) \<Longrightarrow> fk_account d a"
  by (simp add: fk_account_def)

lemma entries_spent_event:
  "entries_spent (d\<lparr>t_events := t_events d @ [row]\<rparr>) a =
     entries_spent d a + (if ue_account_id row = a then ue_from_credit row else 0)"
  by (simp add: entries_spent_def events_credit_def adjusted_def)

lemma entries_spent_adjustment:
  "entries_spent (d\<lparr>t_adjustments := t_adjustments d @ [j]\<rparr>) a =
     entries_spent d a + (if ua_account_id j = a \<and> ua_direction j = Spend then ua_applied j else 0)"
  by (simp add: entries_spent_def events_credit_def adjusted_def)

text \<open>The balance of the spend books, and that a statement keeps it.  Only an unanchored task,
  one whose account does not exist, can lose money; foreign keys exclude it.\<close>

definition spent_gap :: "db \<Rightarrow> string \<Rightarrow> int" where
  "spent_gap d a = entries_spent d a - spent_of d a"

lemma spent_step:
  assumes "task_run now t d = (r, d')" "amounts_ok t"
  shows "owed (owes_spent a) (task_list r) - owes_spent a t \<le> spent_gap d' a - spent_gap d a"
    and "anchored d t \<Longrightarrow>
      owed (owes_spent a) (task_list r) - owes_spent a t = spent_gap d' a - spent_gap d a"
proof -
  have "owed (owes_spent a) (task_list r) - owes_spent a t \<le> spent_gap d' a - spent_gap d a \<and>
    (anchored d t \<longrightarrow>
      owed (owes_spent a) (task_list r) - owes_spent a t = spent_gap d' a - spent_gap d a)"
  proof (cases t)
    case (TUsage1 e)
    from run_usage1 [OF assms(1) [unfolded TUsage1]] TUsage1 show ?thesis
      by (auto simp: spent_gap_def entries_spent_event)
  next
    case (TUsage2 e)
    from run_usage2 [OF assms(1) [unfolded TUsage2]] TUsage2 assms(2) show ?thesis
      by (auto simp: spent_gap_def event_credit_def fk_account_def)
  next
    case (TUsage3 e)
    with assms show ?thesis by (auto simp: spent_gap_def spent_of_add_spent)
  next
    case (TAdj1 j)
    from run_adj1 [OF assms(1) [unfolded TAdj1]] TAdj1 show ?thesis
      by (auto simp: spent_gap_def entries_spent_adjustment)
  next
    case (TAdj2 j)
    show ?thesis
    proof (cases "ua_direction j")
      case Spend
      from run_adj2_spend [OF assms(1) [unfolded TAdj2] Spend] Spend TAdj2 assms(2) show ?thesis
        by (auto simp: spent_gap_def spent_of_add_spent fk_account_def)
    next
      case Credit
      from run_adj2_credit [OF assms(1) [unfolded TAdj2] Credit] Credit TAdj2 show ?thesis
        by (auto simp: spent_gap_def)
    qed
  next
    case (TGrant1 g)
    from run_grant1 [OF assms(1) [unfolded TGrant1]] TGrant1 show ?thesis
      by (auto simp: spent_gap_def)
  next
    case (TGrant2 g)
    with assms show ?thesis by (auto simp: spent_gap_def)
  next
    case (TAccount i p l c gi gk)
    from run_account [OF assms(1) [unfolded TAccount]] TAccount show ?thesis
      by (auto simp: spent_gap_def)
  qed
  then show "owed (owes_spent a) (task_list r) - owes_spent a t \<le> spent_gap d' a - spent_gap d a"
    and "anchored d t \<Longrightarrow>
      owed (owes_spent a) (task_list r) - owes_spent a t = spent_gap d' a - spent_gap d a"
    by auto
qed

text \<open>The same for the monthly allowance.\<close>

definition allowance_gap :: "db \<Rightarrow> string \<Rightarrow> string \<Rightarrow> int" where
  "allowance_gap d a k = events_allowance d a k - allowance_of d a k"

lemma allowance_bump_usage:
  assumes "bump_period_usage a0 k0 m u al d = Some d'"
  shows "allowance_of d' a k = allowance_of d a k + (if a = a0 \<and> k = k0 then al else 0)"
  using upsert_period_tables [OF assms [unfolded bump_period_usage_def]]
  by (auto simp: allowance_of_def lookup_upsert period_key_of_def split: option.splits)

lemma allowance_bump_adjust:
  assumes "bump_period_adjust a0 k0 sp cr d = Some d'"
  shows "allowance_of d' a k = allowance_of d a k"
  using upsert_period_tables [OF assms [unfolded bump_period_adjust_def]]
  by (auto simp: allowance_of_def lookup_upsert period_key_of_def split: option.splits)

lemma allowance_adj2:
  assumes "task_run now (TAdj2 j) d = (r, d')"
  shows "allowance_of d' a k = allowance_of d a k" "events_allowance d' a k = events_allowance d a k"
proof -
  have "allowance_of d' a k = allowance_of d a k"
  proof (cases "ua_direction j")
    case Spend
    then show ?thesis using assms
      by (auto simp: after_write_def adjust_spend_batch_def allowance_bump_adjust split: option.splits)
  next
    case Credit
    then show ?thesis using assms
      by (auto simp: after_write_def adjust_credit_batch_def allowance_bump_adjust ins_grant_def
          split: option.splits if_splits)
  qed
  moreover have "events_allowance d' a k = events_allowance d a k"
    using assms run_adj2_spend [of now j d r d'] run_adj2_credit [of now j d r d']
    by (cases "ua_direction j") auto
  ultimately show "allowance_of d' a k = allowance_of d a k"
    "events_allowance d' a k = events_allowance d a k" by auto
qed

lemma allowance_usage2:
  assumes "task_run now (TUsage2 e) d = (r, d')"
  shows "(r = None \<and> d' = d \<and> \<not> fk_account d (ue_account_id e)) \<or>
    ((r = None \<or> r = Some (TUsage3 e)) \<and> events_allowance d' a k = events_allowance d a k \<and>
     allowance_of d' a k = allowance_of d a k +
       (if ue_account_id e = a \<and> ue_period_key e = k then event_allowance e else 0))"
proof (cases "bump_period_usage (ue_account_id e) (ue_period_key e)
          (if ue_metered e then ue_micro_usd e else 0) (if ue_metered e then 0 else 1)
          (event_allowance e) d")
  case None
  then have "\<not> fk_account d (ue_account_id e)"
    by (auto simp: bump_period_usage_def upsert_period_def split: if_splits)
  with None show ?thesis using assms by (simp add: after_write_def)
next
  case (Some d1)
  have ev: "events_allowance d1 a k = events_allowance d a k"
    using upsert_period_frame [OF Some [unfolded bump_period_usage_def]] by auto
  have r: "r = None \<or> r = Some (TUsage3 e)" "d' = d1"
    using Some assms by (auto simp: after_write_def split: if_splits)
  from r ev allowance_bump_usage [OF Some, of a k] show ?thesis by auto
qed

lemma events_allowance_event:
  "events_allowance (d\<lparr>t_events := t_events d @ [row]\<rparr>) a k = events_allowance d a k +
     (if ue_account_id row = a \<and> ue_period_key row = k then ue_from_allowance row else 0)"
  by (simp add: events_allowance_def)

lemma allowance_step:
  assumes "task_run now t d = (r, d')" "amounts_ok t"
  shows "owed (owes_allowance a k) (task_list r) - owes_allowance a k t \<le> allowance_gap d' a k - allowance_gap d a k"
    and "anchored d t \<Longrightarrow>
      owed (owes_allowance a k) (task_list r) - owes_allowance a k t = allowance_gap d' a k - allowance_gap d a k"
proof -
  have "owed (owes_allowance a k) (task_list r) - owes_allowance a k t \<le> allowance_gap d' a k - allowance_gap d a k \<and>
    (anchored d t \<longrightarrow>
      owed (owes_allowance a k) (task_list r) - owes_allowance a k t = allowance_gap d' a k - allowance_gap d a k)"
  proof (cases t)
    case (TUsage1 e)
    from run_usage1 [OF assms(1) [unfolded TUsage1]] TUsage1 show ?thesis
      by (auto simp: allowance_gap_def events_allowance_event)
  next
    case (TUsage2 e)
    from allowance_usage2 [OF assms(1) [unfolded TUsage2], of a k] TUsage2 assms(2) show ?thesis
      by (auto simp: allowance_gap_def fk_account_def)
  next
    case (TAdj1 j)
    from run_adj1 [OF assms(1) [unfolded TAdj1]] TAdj1 show ?thesis
      by (auto simp: allowance_gap_def)
  next
    case (TAdj2 j)
    have "r = None" using assms(1) TAdj2 by (auto simp: after_write_def split: option.splits)
    with allowance_adj2 [OF assms(1) [unfolded TAdj2], of a k] TAdj2 show ?thesis
      by (simp add: allowance_gap_def)
  next
    case (TGrant1 g)
    from run_grant1 [OF assms(1) [unfolded TGrant1]] TGrant1 show ?thesis
      by (auto simp: allowance_gap_def)
  next
    case (TAccount i p l c gi gk)
    from run_account [OF assms(1) [unfolded TAccount]] TAccount show ?thesis
      by (auto simp: allowance_gap_def)
  qed (use assms in \<open>auto simp: allowance_gap_def\<close>)
  then show "owed (owes_allowance a k) (task_list r) - owes_allowance a k t \<le> allowance_gap d' a k - allowance_gap d a k"
    and "anchored d t \<Longrightarrow>
      owed (owes_allowance a k) (task_list r) - owes_allowance a k t = allowance_gap d' a k - allowance_gap d a k"
    by auto
qed

text \<open>Accounts are never removed and the foreign-key mode never changes, so a task that started
  under foreign keys stays anchored.\<close>

lemma task_run_accounts:
  assumes "task_run now t d = (r, d')"
  shows "has_key ac_id x (t_accounts d) \<Longrightarrow> has_key ac_id x (t_accounts d')" and "db_fk d' = db_fk d"
proof -
  have "(has_key ac_id x (t_accounts d) \<longrightarrow> has_key ac_id x (t_accounts d')) \<and> db_fk d' = db_fk d"
  proof (cases t)
    case (TUsage1 e) with run_usage1 [OF assms [unfolded TUsage1]] show ?thesis by auto
  next
    case (TUsage2 e) with run_usage2 [OF assms [unfolded TUsage2]] show ?thesis by auto
  next
    case (TUsage3 e) with assms show ?thesis by auto
  next
    case (TAdj1 j) with run_adj1 [OF assms [unfolded TAdj1]] show ?thesis by auto
  next
    case (TAdj2 j)
    with assms show ?thesis
      using run_adj2_spend [of now j d r d'] run_adj2_credit [of now j d r d']
      by (cases "ua_direction j") (auto simp: add_credit_def)
  next
    case (TGrant1 g) with run_grant1 [OF assms [unfolded TGrant1]] show ?thesis by auto
  next
    case (TGrant2 g) with assms show ?thesis by auto
  next
    case (TAccount i p l c gi gk) with run_account [OF assms [unfolded TAccount]] show ?thesis by auto
  qed
  then show "has_key ac_id x (t_accounts d) \<Longrightarrow> has_key ac_id x (t_accounts d')" and "db_fk d' = db_fk d"
    by auto
qed

lemma anchored_mono:
  assumes "task_run now t d = (r, d')" "anchored d u" shows "anchored d' u"
  using assms(2) task_run_accounts(1) [OF assms(1)] by (cases u) auto

lemma task_run_anchored:
  assumes "task_run now t d = (r, d')" "db_fk d" "anchored d t" "u \<in> set (task_list r)"
  shows "anchored d' u"
proof (cases t)
  case (TUsage1 e)
  with run_usage1 [OF assms(1) [unfolded TUsage1]] assms(2,4) show ?thesis by (auto dest: fk_accountD)
next
  case (TUsage2 e)
  with run_usage2 [OF assms(1) [unfolded TUsage2]] assms(3,4) show ?thesis
    by (auto split: if_splits)
next
  case (TAdj1 j)
  with run_adj1 [OF assms(1) [unfolded TAdj1]] assms(2,4) show ?thesis by (auto dest: fk_accountD)
next
  case (TAdj2 j)
  with assms show ?thesis by (auto simp: after_write_def split: option.splits)
next
  case (TGrant1 g)
  with run_grant1 [OF assms(1) [unfolded TGrant1]] assms(2,4) show ?thesis by (auto dest: fk_accountD)
next
  case (TAccount i p l c gi gk)
  with run_account [OF assms(1) [unfolded TAccount]] assms show ?thesis by auto
qed (use assms in auto)

section \<open>The books invariant\<close>

definition books_le :: "task list \<Rightarrow> db \<Rightarrow> bool" where
  "books_le ts d \<longleftrightarrow>
     (\<forall>a. owed (owes_spent a) ts \<le> spent_gap d a) \<and>
     (\<forall>a k. owed (owes_allowance a k) ts \<le> allowance_gap d a k)"

definition books_eq :: "task list \<Rightarrow> db \<Rightarrow> bool" where
  "books_eq ts d \<longleftrightarrow>
     (\<forall>a. owed (owes_spent a) ts = spent_gap d a) \<and>
     (\<forall>a k. owed (owes_allowance a k) ts = allowance_gap d a k)"

definition ledger_inv :: "bool \<Rightarrow> task list \<times> db \<Rightarrow> bool" where
  "ledger_inv crashes s \<longleftrightarrow>
     list_all amounts_ok (fst s) \<and> books_le (fst s) (snd s) \<and>
     (\<not> crashes \<and> db_fk (snd s) \<longrightarrow> books_eq (fst s) (snd s) \<and> list_all (anchored (snd s)) (fst s))"

lemma starting_owes_nothing:
  "starting t \<Longrightarrow> owes_spent a t = 0 \<and> owes_allowance a k t = 0 \<and> anchored d t"
  by (cases t) auto

lemma owes_nonneg:
  "amounts_ok t \<Longrightarrow> 0 \<le> owes_spent a t \<and> 0 \<le> owes_allowance a k t"
  by (cases t) auto

lemma task_run_amounts_ok:
  "task_run now t d = (r, d') \<Longrightarrow> amounts_ok t \<Longrightarrow> list_all amounts_ok (task_list r)"
  by (cases t) (auto simp: after_insert_def after_write_def split: option.splits if_splits)

lemma books_le_run:
  assumes "task_run now t d = (r, d')" "amounts_ok t" "books_le (xs @ t # ys) d"
  shows "books_le (xs @ task_list r @ ys) d'"
  unfolding books_le_def
proof (intro conjI allI)
  fix a k
  have "owed (owes_spent a) (xs @ t # ys) \<le> spent_gap d a" using assms(3) by (simp add: books_le_def)
  then show "owed (owes_spent a) (xs @ task_list r @ ys) \<le> spent_gap d' a"
    using spent_step(1) [OF assms(1,2), of a] by simp
  have "owed (owes_allowance a k) (xs @ t # ys) \<le> allowance_gap d a k"
    using assms(3) by (simp add: books_le_def)
  then show "owed (owes_allowance a k) (xs @ task_list r @ ys) \<le> allowance_gap d' a k"
    using allowance_step(1) [OF assms(1,2), of a k] by simp
qed

lemma books_eq_run:
  assumes "task_run now t d = (r, d')" "amounts_ok t" "anchored d t" "books_eq (xs @ t # ys) d"
  shows "books_eq (xs @ task_list r @ ys) d'"
  unfolding books_eq_def
proof (intro conjI allI)
  fix a k
  have "owed (owes_spent a) (xs @ t # ys) = spent_gap d a" using assms(4) by (simp add: books_eq_def)
  then show "owed (owes_spent a) (xs @ task_list r @ ys) = spent_gap d' a"
    using spent_step(2) [OF assms(1,2,3), of a] by simp
  have "owed (owes_allowance a k) (xs @ t # ys) = allowance_gap d a k"
    using assms(4) by (simp add: books_eq_def)
  then show "owed (owes_allowance a k) (xs @ task_list r @ ys) = allowance_gap d' a k"
    using allowance_step(2) [OF assms(1,2,3), of a k] by simp
qed

lemma books_le_drop:
  assumes "amounts_ok t" "books_le (xs @ t # ys) d" shows "books_le (xs @ ys) d"
  unfolding books_le_def
proof (intro conjI allI)
  fix a k
  have "owed (owes_spent a) (xs @ t # ys) \<le> spent_gap d a" using assms(2) by (simp add: books_le_def)
  then show "owed (owes_spent a) (xs @ ys) \<le> spent_gap d a"
    using owes_nonneg [OF assms(1), of a k] by simp
  have "owed (owes_allowance a k) (xs @ t # ys) \<le> allowance_gap d a k"
    using assms(2) by (simp add: books_le_def)
  then show "owed (owes_allowance a k) (xs @ ys) \<le> allowance_gap d a k"
    using owes_nonneg [OF assms(1), of a k] by simp
qed

lemma ledger_step_inv:
  assumes "ledger_step allowed crashes s s'" "ledger_inv crashes s" shows "ledger_inv crashes s'"
  using assms
proof (induction rule: ledger_step.induct)
  case (step_start t ts d)
  then show ?case using starting_owes_nothing [of t]
    by (auto simp: ledger_inv_def books_le_def books_eq_def)
next
  case (step_run now t d r d' xs ys)
  note run = \<open>task_run now t d = (r, d')\<close>
  have ok: "list_all amounts_ok (xs @ t # ys)" "books_le (xs @ t # ys) d"
    using step_run.prems by (simp_all add: ledger_inv_def)
  have exact: "books_eq (xs @ task_list r @ ys) d' \<and> list_all (anchored d') (xs @ task_list r @ ys)"
    if "\<not> crashes" "db_fk d'"
  proof -
    have fk: "db_fk d" using that(2) task_run_accounts(2) [OF run] by simp
    have pre: "books_eq (xs @ t # ys) d" "list_all (anchored d) (xs @ t # ys)"
      using step_run.prems that(1) fk by (simp_all add: ledger_inv_def)
    then have "anchored d t" by simp
    with books_eq_run [OF run _ _ pre(1)] ok have "books_eq (xs @ task_list r @ ys) d'" by simp
    moreover have "list_all (anchored d') (xs @ task_list r @ ys)"
      using pre(2) anchored_mono [OF run] task_run_anchored [OF run fk \<open>anchored d t\<close>]
      by (auto simp: list_all_iff)
    ultimately show ?thesis by blast
  qed
  show ?case
    using ok books_le_run [OF run] task_run_amounts_ok [OF run] exact by (simp add: ledger_inv_def)
next
  case (step_crash xs t ys d)
  then show ?case using books_le_drop [of t xs ys d] by (simp add: ledger_inv_def)
qed

abbreviation ledger_steps :: "(task \<Rightarrow> bool) \<Rightarrow> bool \<Rightarrow> task list \<times> db \<Rightarrow> task list \<times> db \<Rightarrow> bool" where
  "ledger_steps allowed crashes \<equiv> (ledger_step allowed crashes)\<^sup>*\<^sup>*"

lemma ledger_steps_inv:
  assumes "ledger_steps allowed crashes s s'" "ledger_inv crashes s" shows "ledger_inv crashes s'"
  using assms by (induction rule: rtranclp_induct) (auto intro: ledger_step_inv)

text \<open>Books that balance with nothing pending: the empty database, for one.\<close>

definition balanced :: "db \<Rightarrow> bool" where
  "balanced d = books_eq [] d"

lemma balanced_inv: "balanced d \<Longrightarrow> ledger_inv crashes ([], d)"
  by (auto simp: balanced_def ledger_inv_def books_eq_def books_le_def)

lemma balanced_empty: "balanced empty_db"
  by (simp add: balanced_def books_eq_def spent_gap_def allowance_gap_def entries_spent_def
      events_credit_def adjusted_def events_allowance_def spent_of_def allowance_of_def empty_db_def)

section \<open>Every store operation is a run of its task\<close>

lemma steps_start: "starting t \<Longrightarrow> amounts_ok t \<Longrightarrow> allowed t \<Longrightarrow> ledger_steps allowed c (ts, d) (t # ts, d)"
  by (blast intro: step_start)

lemma step_run_head:
  "task_run now t d = (r, d') \<Longrightarrow> ledger_step allowed c (t # ts, d) (task_list r @ ts, d')"
  using step_run [of now t d r d' allowed c "[]" ts] by simp

lemma step_crash_head: "ledger_step allowed True (t # ts, d) (ts, d)"
  using step_crash [of True allowed "[]" t ts d] by simp

text \<open>One scheduled statement of an operation, seen as its task: it runs, or it is lost, and then
  the operation throws and the rest of it is dropped.\<close>

lemma stmt_as_task:
  assumes run: "\<And>now d. task_run now t d =
      (case f now d of None \<Rightarrow> (None, d) | Some (x, d') \<Rightarrow> (k x, d'))"
    and cont: "\<And>x w. ledger_steps allowed True (task_list (k x) @ ts, w_db w) (ts, w_db (snd (c x w)))"
  shows "ledger_steps allowed True (t # ts, w_db w) (ts, w_db (snd (bindM (stmt f) c w)))"
proof -
  obtain flt dt where nx: "next_step (w_sched w) = (flt, dt)" by (cases "next_step (w_sched w)")
  let ?now = "w_now w + int dt"
  let ?w1 = "w\<lparr>w_now := ?now, w_sched := tl (w_sched w)\<rparr>"
  note crash = r_into_rtranclp [of "ledger_step allowed True", OF step_crash_head]
  show ?thesis
  proof (cases "f ?now (w_db w)")
    case None
    then have "w_db (snd (bindM (stmt f) c w)) = w_db w"
      using nx by (simp add: bindM_def stmt_def Let_def split: fault.splits)
    then show ?thesis using crash [of t ts "w_db w"] by simp
  next
    case (Some p)
    obtain x d where p: "p = (x, d)" by (cases p)
    have st: "ledger_step allowed True (t # ts, w_db w) (task_list (k x) @ ts, d)"
      using run [of ?now "w_db w"] Some p by (intro step_run_head [of ?now]) simp
    show ?thesis
    proof (cases flt)
      case Completes
      have "bindM (stmt f) c w = c x (?w1\<lparr>w_db := d\<rparr>)"
        using nx Some p Completes by (simp add: bindM_def stmt_def Let_def)
      then show ?thesis
        using st cont [of x "?w1\<lparr>w_db := d\<rparr>"] by (simp add: converse_rtranclp_into_rtranclp)
    next
      case FailsBefore
      then have "w_db (snd (bindM (stmt f) c w)) = w_db w"
        using nx Some p by (simp add: bindM_def stmt_def Let_def)
      then show ?thesis using crash [of t ts "w_db w"] by simp
    next
      case FailsAfter
      have "w_db (snd (bindM (stmt f) c w)) = d"
        using nx Some p FailsAfter by (simp add: bindM_def stmt_def Let_def)
      moreover have "ledger_steps allowed True (task_list (k x) @ ts, d) (ts, d)"
        using crash by (cases "k x") auto
      ultimately show ?thesis using st by (simp add: converse_rtranclp_into_rtranclp)
    qed
  qed
qed

lemma bindM_ret_right [simp]: "bindM c retM = c"
  by (rule ext) (auto simp: bindM_def retM_def split: prod.splits sum.splits)

lemma run_write_as_task:
  assumes "\<And>now d. task_run now t d = after_write k d (f d)"
    and "\<And>w. ledger_steps allowed True (task_list k @ ts, w_db w) (ts, w_db (snd (c () w)))"
  shows "ledger_steps allowed True (t # ts, w_db w) (ts, w_db (snd (bindM (run_write f) c w)))"
  unfolding run_write_def
  by (rule stmt_as_task [where k = "\<lambda>_. k"])
     (use assms in \<open>auto simp: after_write_def unit_res_def split: option.splits\<close>)

lemma record_usage_steps:
  "ledger_steps allowed True (TUsage1 e # ts, w_db w) (ts, w_db (snd (record_usage e w)))"
  unfolding record_usage_def
proof (rule stmt_as_task [where k = "\<lambda>ch. if ch then Some (TUsage2 e) else None"])
  fix now d
  show "task_run now (TUsage1 e) d =
      (case ins_event (stored_event e) now d of None \<Rightarrow> (None, d)
       | Some (x, d') \<Rightarrow> (if x then Some (TUsage2 e) else None, d'))"
    by (simp add: after_insert_def)
next
  fix ch and w :: "'a world_scheme"
  let ?third = "if ue_metered e \<and> event_credit e > 0
       then run_write (\<lambda>d. Some (add_spent (event_credit e) (ue_account_id e) d)) else retM ()"
  have third: "ledger_steps allowed True
       (task_list (if ue_metered e \<and> event_credit e > 0 then Some (TUsage3 e) else None) @ ts, w_db w)
       (ts, w_db (snd (?third w)))" for w :: "'a world_scheme"
  proof (cases "ue_metered e \<and> event_credit e > 0")
    case True
    have "ledger_steps allowed True (TUsage3 e # ts, w_db w)
       (ts, w_db (snd (bindM (run_write (\<lambda>d. Some (add_spent (event_credit e) (ue_account_id e) d)))
          retM w)))"
      by (rule run_write_as_task [where k = None]) (simp_all add: after_write_def)
    with True show ?thesis by simp
  next
    case False
    then have "(if ue_metered e \<and> event_credit e > 0 then Some (TUsage3 e) else None) = None" by auto
    moreover from False have "?third w = retM () w" by auto
    ultimately show ?thesis by (simp only: task_list_simps append_Nil retM_run snd_conv)
  qed
  show "ledger_steps allowed True (task_list (if ch then Some (TUsage2 e) else None) @ ts, w_db w)
      (ts, w_db (snd ((if \<not> ch then retM ()
         else bindM (run_write (bump_period_usage (ue_account_id e) (ue_period_key e)
                (if ue_metered e then ue_micro_usd e else 0) (if ue_metered e then 0 else 1)
                (event_allowance e))) (\<lambda>_. ?third)) w)))"
  proof (cases ch)
    case True
    have "ledger_steps allowed True (TUsage2 e # ts, w_db w)
      (ts, w_db (snd (bindM (run_write (bump_period_usage (ue_account_id e) (ue_period_key e)
                (if ue_metered e then ue_micro_usd e else 0) (if ue_metered e then 0 else 1)
                (event_allowance e))) (\<lambda>_. ?third) w)))"
      by (rule run_write_as_task [where k = "if ue_metered e \<and> event_credit e > 0 then Some (TUsage3 e) else None"])
         (simp, rule third)
    with True show ?thesis by simp
  qed simp
qed

lemma apply_usage_adjustment_steps:
  "ledger_steps allowed True (TAdj1 j # ts, w_db w) (ts, w_db (snd (apply_usage_adjustment j w)))"
  unfolding apply_usage_adjustment_def
proof (rule stmt_as_task [where k = "\<lambda>ch. if ch then Some (TAdj2 j) else None"])
  fix now d
  show "task_run now (TAdj1 j) d =
      (case ins_adjustment j d of None \<Rightarrow> (None, d)
       | Some (x, d') \<Rightarrow> (if x then Some (TAdj2 j) else None, d'))"
    by (simp add: after_insert_def)
next
  fix ch and w :: "'a world_scheme"
  show "ledger_steps allowed True (task_list (if ch then Some (TAdj2 j) else None) @ ts, w_db w)
      (ts, w_db (snd ((if \<not> ch then retM False
         else bindM (run_write (if ua_direction j = Spend then adjust_spend_batch j
                         else adjust_credit_batch j)) (\<lambda>_. retM True)) w)))"
  proof (cases ch)
    case True
    have "ledger_steps allowed True (TAdj2 j # ts, w_db w)
      (ts, w_db (snd (bindM (run_write (if ua_direction j = Spend then adjust_spend_batch j
                         else adjust_credit_batch j)) (\<lambda>_. retM True) w)))"
      by (rule run_write_as_task [where k = None]) auto
    with True show ?thesis by simp
  qed simp
qed

lemma grant_credit_steps:
  "ledger_steps allowed True (TGrant1 g # ts, w_db w) (ts, w_db (snd (grant_credit g w)))"
  unfolding grant_credit_def
proof (rule stmt_as_task [where k = "\<lambda>ch. if ch then Some (TGrant2 g) else None"])
  fix now d
  show "task_run now (TGrant1 g) d =
      (case ins_grant g d of None \<Rightarrow> (None, d)
       | Some (x, d') \<Rightarrow> (if x then Some (TGrant2 g) else None, d'))"
    by (simp add: after_insert_def)
next
  fix ch :: bool and w :: "'a world_scheme"
  let ?rest = "\<lambda>u. bindM (query (\<lambda>now d. map_option ac_credit (lookup ac_id (gr_account_id g) (t_accounts d))))
     (\<lambda>row. retM (ch, case row of None \<Rightarrow> 0 | Some c \<Rightarrow> c))"
  have rest: "w_db (snd (?rest u w)) = w_db w" for u :: unit and w :: "'a world_scheme"
    by (rule read_only_db) (unfold read_only_def, intro read_only_intros)
  show "ledger_steps allowed True (task_list (if ch then Some (TGrant2 g) else None) @ ts, w_db w)
      (ts, w_db (snd (bindM (if ch then run_write (\<lambda>d. Some (add_credit (gr_micro_usd g) (gr_account_id g) d))
            else retM ()) ?rest w)))"
  proof (cases ch)
    case True
    have "ledger_steps allowed True (TGrant2 g # ts, w_db w)
      (ts, w_db (snd (bindM (run_write (\<lambda>d. Some (add_credit (gr_micro_usd g) (gr_account_id g) d))) ?rest w)))"
      by (rule run_write_as_task [where k = None]) (auto simp: after_write_def rest)
    with True show ?thesis by simp
  next
    case False
    with rest [of w] show ?thesis by simp
  qed
qed

lemma create_account_steps:
  "ledger_steps allowed True (TAccount i p l c gi gk # ts, w_db w)
     (ts, w_db (snd (create_account i p l c gi gk w)))"
  unfolding create_account_def
proof (rule stmt_as_task [where k = "\<lambda>_. None"])
  fix now d
  show "task_run now (TAccount i p l c gi gk) d =
      (case unit_res (ins_account i p l c gi gk now d) of None \<Rightarrow> (None, d)
       | Some (x, d') \<Rightarrow> (None, d'))"
    by (simp add: after_write_def unit_res_def split: option.splits)
next
  fix u :: unit and w :: "'a world_scheme"
  have "w_db (snd (bindM (get_account i) (\<lambda>row. case row of None \<Rightarrow> throwM (NotReadBack i) | Some r \<Rightarrow> retM r) w)) = w_db w"
    by (rule read_only_db) (unfold read_only_def get_account_def, intro read_only_intros)
  then show "ledger_steps allowed True (task_list None @ ts, w_db w)
      (ts, w_db (snd (bindM (get_account i) (\<lambda>row. case row of None \<Rightarrow> throwM (NotReadBack i) | Some r \<Rightarrow> retM r) w)))"
    by simp
qed

section \<open>Credit is backed by grant rows\<close>

text \<open>The true-up batch ignores a grant whose key or id is taken but moves the balance all the
  same, so this holds only under the naming discipline of the callers: true-ups use keys that
  start with \<open>aig:\<close> and ids from a space of their own, nobody else does.\<close>

fun namespaced :: "(string \<Rightarrow> bool) \<Rightarrow> task \<Rightarrow> bool" where
  "namespaced adj (TGrant1 g) = (\<not> starts_with ''aig:'' (gr_key g) \<and> \<not> adj (gr_id g))"
| "namespaced adj (TAccount i p l c gi gk) = (\<not> starts_with ''aig:'' gk \<and> \<not> adj gi)"
| "namespaced adj (TAdj1 j) = (starts_with ''aig:'' (ua_key j) \<and> adj (ua_id j))"
| "namespaced adj (TAdj2 j) = (starts_with ''aig:'' (ua_key j) \<and> adj (ua_id j))"
| "namespaced adj t = True"

fun owes_credit :: "string \<Rightarrow> task \<Rightarrow> int" where
  "owes_credit a (TGrant2 g) = (if gr_account_id g = a then gr_micro_usd g else 0)"
| "owes_credit a t = 0"

definition credit_gap :: "db \<Rightarrow> string \<Rightarrow> int" where
  "credit_gap d a = granted d a - credit_of d a"

fun adj_keys :: "task \<Rightarrow> (string \<times> string) list" where
  "adj_keys (TAdj2 j) = [(ua_id j, ua_key j)]"
| "adj_keys t = []"

definition pending_adj :: "task list \<Rightarrow> (string \<times> string) list" where
  "pending_adj ts = concat (List.map adj_keys ts)"

lemma pending_adj_simps [simp]:
  "pending_adj [] = []" "pending_adj (t # ts) = adj_keys t @ pending_adj ts"
  "pending_adj (xs @ ys) = pending_adj xs @ pending_adj ys"
  by (simp_all add: pending_adj_def)

text \<open>A key of the true-up namespace in the grants comes from a recorded true-up, and not from one
  that is still pending.\<close>

definition grants_ns :: "(string \<Rightarrow> bool) \<Rightarrow> db \<Rightarrow> bool" where
  "grants_ns adj d \<longleftrightarrow>
     (\<forall>g\<in>set (t_grants d). (starts_with ''aig:'' (gr_key g) \<longrightarrow> has_key ua_key (gr_key g) (t_adjustments d)) \<and>
                           (adj (gr_id g) \<longrightarrow> has_key ua_id (gr_id g) (t_adjustments d)))"

definition key_fresh :: "db \<Rightarrow> string \<times> string \<Rightarrow> bool" where
  "key_fresh d p \<longleftrightarrow>
     has_key ua_id (fst p) (t_adjustments d) \<and> has_key ua_key (snd p) (t_adjustments d) \<and>
     \<not> has_key gr_id (fst p) (t_grants d) \<and> \<not> has_key gr_key (snd p) (t_grants d)"

definition pending_fresh :: "task list \<Rightarrow> db \<Rightarrow> bool" where
  "pending_fresh ts d = list_all (key_fresh d) (pending_adj ts)"

definition pending_distinct :: "task list \<Rightarrow> bool" where
  "pending_distinct ts \<longleftrightarrow>
     distinct (List.map fst (pending_adj ts)) \<and> distinct (List.map snd (pending_adj ts))"

definition keys_inv :: "(string \<Rightarrow> bool) \<Rightarrow> task list \<Rightarrow> db \<Rightarrow> bool" where
  "keys_inv adj ts d \<longleftrightarrow>
     grants_ns adj d \<and> pending_fresh ts d \<and> pending_distinct ts \<and> list_all (namespaced adj) ts"

definition credit_inv :: "(string \<Rightarrow> bool) \<Rightarrow> task list \<times> db \<Rightarrow> bool" where
  "credit_inv adj s \<longleftrightarrow> keys_inv adj (fst s) (snd s) \<and> list_all amounts_ok (fst s) \<and>
     (\<forall>a. owed (owes_credit a) (fst s) \<le> credit_gap (snd s) a)"

lemma pending_namespaced:
  "(i, k) \<in> set (pending_adj ts) \<Longrightarrow> list_all (namespaced adj) ts \<Longrightarrow> adj i \<and> starts_with ''aig:'' k"
proof (induction ts)
  case (Cons t ts)
  then show ?case by (cases t) auto
qed simp

lemma task_run_grants:
  assumes "task_run now t d = (r, d')" "\<And>j. t \<noteq> TAdj2 j" "\<And>j. t \<noteq> TAdj1 j"
    and "\<And>g. t \<noteq> TGrant1 g" "\<And>i p l c gi gk. t \<noteq> TAccount i p l c gi gk"
  shows "t_grants d' = t_grants d" "t_adjustments d' = t_adjustments d"
    "pending_adj (task_list r) = []" "pending_adj [t] = []" "list_all (namespaced adj) (task_list r)"
proof -
  have "t_grants d' = t_grants d \<and> t_adjustments d' = t_adjustments d \<and>
    pending_adj (task_list r) = [] \<and> pending_adj [t] = [] \<and> list_all (namespaced adj) (task_list r)"
  proof (cases t)
    case (TUsage1 e) with run_usage1 [OF assms(1) [unfolded TUsage1]] show ?thesis by auto
  next
    case (TUsage2 e) with run_usage2 [OF assms(1) [unfolded TUsage2]] show ?thesis by auto
  qed (use assms in auto)
  then show "t_grants d' = t_grants d" "t_adjustments d' = t_adjustments d"
    "pending_adj (task_list r) = []" "pending_adj [t] = []" "list_all (namespaced adj) (task_list r)"
    by auto
qed

lemma pending_fresh_simps [simp]:
  "pending_fresh [] d"
  "pending_fresh (t # ts) d \<longleftrightarrow> list_all (key_fresh d) (adj_keys t) \<and> pending_fresh ts d"
  "pending_fresh (xs @ ys) d \<longleftrightarrow> pending_fresh xs d \<and> pending_fresh ys d"
  by (simp_all add: pending_fresh_def)

lemma pending_fresh_new_adj:
  "pending_fresh ts d \<Longrightarrow> pending_fresh ts (d\<lparr>t_adjustments := t_adjustments d @ [j]\<rparr>)"
  by (auto simp: pending_fresh_def list_all_iff key_fresh_def)

lemma pending_fresh_new_grant:
  assumes "pending_fresh ts d"
    and "\<forall>p\<in>set (pending_adj ts). gr_id g \<noteq> fst p \<and> gr_key g \<noteq> snd p"
  shows "pending_fresh ts (d\<lparr>t_grants := t_grants d @ [g]\<rparr>)"
  using assms by (simp add: pending_fresh_def list_all_iff key_fresh_def)

lemma distinct_insert_mid:
  "distinct (xs @ ys) \<Longrightarrow> x \<notin> set (xs @ ys) \<Longrightarrow> distinct (xs @ x # ys)"
  by auto

lemma pending_distinct_insert:
  assumes "pending_distinct (xs @ ys)" "adj_keys t = [p]"
    and "\<forall>q\<in>set (pending_adj (xs @ ys)). fst p \<noteq> fst q \<and> snd p \<noteq> snd q"
  shows "pending_distinct (xs @ t # ys)"
proof -
  have "fst p \<notin> set (List.map fst (pending_adj xs) @ List.map fst (pending_adj ys))"
    "snd p \<notin> set (List.map snd (pending_adj xs) @ List.map snd (pending_adj ys))"
    using assms(3) by auto
  with assms(1,2) show ?thesis
    unfolding pending_distinct_def by (simp add: distinct_insert_mid del: distinct_append)
qed

lemma pending_distinct_other:
  assumes "pending_distinct (xs @ t # ys)" "adj_keys t = [p]"
  shows "\<forall>q\<in>set (pending_adj (xs @ ys)). fst p \<noteq> fst q \<and> snd p \<noteq> snd q"
proof -
  have "fst p \<notin> fst ` set (pending_adj (xs @ ys))" "snd p \<notin> snd ` set (pending_adj (xs @ ys))"
    using assms by (auto simp: pending_distinct_def)
  then show ?thesis by (metis imageI)
qed

lemma keys_inv_drop:
  assumes "keys_inv adj (xs @ t # ys) d" shows "keys_inv adj (xs @ ys) d"
  using assms by (auto simp: keys_inv_def pending_distinct_def)

lemma keys_inv_adj1:
  assumes inv: "keys_inv adj (xs @ TAdj1 j # ys) d"
    and new: "\<not> has_key ua_id (ua_id j) (t_adjustments d)" "\<not> has_key ua_key (ua_key j) (t_adjustments d)"
  shows "keys_inv adj (xs @ TAdj2 j # ys) (d\<lparr>t_adjustments := t_adjustments d @ [j]\<rparr>)"
proof -
  let ?d = "d\<lparr>t_adjustments := t_adjustments d @ [j]\<rparr>"
  have ns: "starts_with ''aig:'' (ua_key j)" "adj (ua_id j)" and rest: "list_all (namespaced adj) (xs @ ys)"
    and gns: "grants_ns adj d" and pf: "pending_fresh (xs @ ys) d" and pd: "pending_distinct (xs @ ys)"
    using inv by (simp_all add: keys_inv_def pending_distinct_def)
  have "\<not> has_key gr_key (ua_key j) (t_grants d)" "\<not> has_key gr_id (ua_id j) (t_grants d)"
    using gns new ns by (auto simp: grants_ns_def has_key_iff)
  then have "key_fresh ?d (ua_id j, ua_key j)" by (simp add: key_fresh_def)
  moreover have "pending_fresh (xs @ ys) ?d" by (rule pending_fresh_new_adj [OF pf])
  moreover have "grants_ns adj ?d" using gns by (auto simp: grants_ns_def)
  moreover have "ua_id j \<noteq> fst q \<and> ua_key j \<noteq> snd q" if "q \<in> set (pending_adj (xs @ ys))" for q
  proof -
    have "key_fresh d q" using pf that by (simp only: pending_fresh_def list_all_iff)
    with new show ?thesis unfolding key_fresh_def by metis
  qed
  then have "pending_distinct (xs @ TAdj2 j # ys)"
    by (intro pending_distinct_insert [OF pd, of _ "(ua_id j, ua_key j)"]) simp_all
  ultimately show ?thesis using ns rest by (simp add: keys_inv_def)
qed

lemma keys_inv_new_grant:
  assumes inv: "keys_inv adj ts d"
    and ns: "\<not> starts_with ''aig:'' (gr_key g)" "\<not> adj (gr_id g)"
  shows "keys_inv adj ts (d\<lparr>t_grants := t_grants d @ [g]\<rparr>)"
proof -
  have "gr_id g \<noteq> fst p \<and> gr_key g \<noteq> snd p" if "p \<in> set (pending_adj ts)" for p
    using pending_namespaced [of "fst p" "snd p" ts adj] that inv ns by (auto simp: keys_inv_def)
  then have "pending_fresh ts (d\<lparr>t_grants := t_grants d @ [g]\<rparr>)"
    using inv by (intro pending_fresh_new_grant) (simp_all add: keys_inv_def)
  moreover have "grants_ns adj (d\<lparr>t_grants := t_grants d @ [g]\<rparr>)"
    using inv ns by (simp add: keys_inv_def grants_ns_def)
  ultimately show ?thesis using inv by (simp add: keys_inv_def)
qed

lemma keys_inv_adj2:
  assumes inv: "keys_inv adj (xs @ TAdj2 j # ys) d"
  shows "\<not> has_key gr_id (ua_id j) (t_grants d)" "\<not> has_key gr_key (ua_key j) (t_grants d)"
    and "keys_inv adj (xs @ ys) d"
    and "keys_inv adj (xs @ ys) (d\<lparr>t_grants := t_grants d @ [adjustment_grant j]\<rparr>)"
proof -
  have pf: "key_fresh d (ua_id j, ua_key j)" and pd: "pending_distinct (xs @ TAdj2 j # ys)"
    using inv by (simp_all add: keys_inv_def)
  show no: "\<not> has_key gr_id (ua_id j) (t_grants d)" "\<not> has_key gr_key (ua_key j) (t_grants d)"
    using pf by (simp_all add: key_fresh_def)
  show d: "keys_inv adj (xs @ ys) d" by (rule keys_inv_drop [OF inv])
  have ne: "\<forall>q\<in>set (pending_adj (xs @ ys)). ua_id j \<noteq> fst q \<and> ua_key j \<noteq> snd q"
    using pending_distinct_other [OF pd, of "(ua_id j, ua_key j)"] by simp
  have "pending_fresh (xs @ ys) (d\<lparr>t_grants := t_grants d @ [adjustment_grant j]\<rparr>)"
    by (rule pending_fresh_new_grant) (use d ne in \<open>simp_all add: keys_inv_def adjustment_grant_def\<close>)
  moreover have "grants_ns adj (d\<lparr>t_grants := t_grants d @ [adjustment_grant j]\<rparr>)"
    using d pf by (simp add: keys_inv_def grants_ns_def key_fresh_def adjustment_grant_def)
  ultimately show "keys_inv adj (xs @ ys) (d\<lparr>t_grants := t_grants d @ [adjustment_grant j]\<rparr>)"
    using d by (simp add: keys_inv_def)
qed

lemma keys_inv_frame:
  "t_grants d' = t_grants d \<Longrightarrow> t_adjustments d' = t_adjustments d \<Longrightarrow> keys_inv adj ts d' = keys_inv adj ts d"
  by (simp add: keys_inv_def grants_ns_def pending_fresh_def list_all_iff key_fresh_def)

lemma keys_inv_swap:
  assumes "keys_inv adj (xs @ t # ys) d" "adj_keys t = []" "pending_adj us = []"
    "list_all (namespaced adj) us"
  shows "keys_inv adj (xs @ us @ ys) d"
  using assms by (simp add: keys_inv_def pending_distinct_def pending_fresh_def)

lemma keys_inv_run:
  assumes run: "task_run now t d = (r, d')" and inv: "keys_inv adj (xs @ t # ys) d"
  shows "keys_inv adj (xs @ task_list r @ ys) d'"
proof (cases t)
  case (TAdj1 j)
  note k = run_adj1 [OF run [unfolded TAdj1]]
  show ?thesis
  proof (cases r)
    case None
    with k keys_inv_swap [OF inv, of "[]"] TAdj1 show ?thesis by auto
  next
    case (Some u)
    with k keys_inv_adj1 [of adj xs j ys d] inv TAdj1 show ?thesis by auto
  qed
next
  case (TAdj2 j)
  note i = keys_inv_adj2 [OF inv [unfolded TAdj2]]
  show ?thesis
  proof (cases "ua_direction j")
    case Spend
    from run_adj2_spend [OF run [unfolded TAdj2] Spend] i show ?thesis
      by (auto simp: keys_inv_frame [of "_\<lparr>t_periods := _\<rparr>" d])
  next
    case Credit
    from run_adj2_credit [OF run [unfolded TAdj2] Credit] i show ?thesis
      by (auto simp: keys_inv_frame [of "add_credit _ _ (d\<lparr>t_grants := t_grants d @ [adjustment_grant j]\<rparr>)\<lparr>t_periods := _\<rparr>"
            "d\<lparr>t_grants := t_grants d @ [adjustment_grant j]\<rparr>"])
  qed
next
  case (TGrant1 g)
  have ns: "\<not> starts_with ''aig:'' (gr_key g)" "\<not> adj (gr_id g)"
    using inv TGrant1 by (simp_all add: keys_inv_def)
  have "keys_inv adj (xs @ task_list r @ ys) d"
    using run_grant1 [OF run [unfolded TGrant1]] inv TGrant1
    by (intro keys_inv_swap) auto
  moreover from this have "keys_inv adj (xs @ task_list r @ ys) (d\<lparr>t_grants := t_grants d @ [g]\<rparr>)"
    by (rule keys_inv_new_grant) (rule ns)+
  ultimately show ?thesis using run_grant1 [OF run [unfolded TGrant1]] by auto
next
  case (TAccount i p l c gi gk)
  have ns: "\<not> starts_with ''aig:'' gk" "\<not> adj gi"
    using inv TAccount by (simp_all add: keys_inv_def)
  have k: "keys_inv adj (xs @ task_list r @ ys) d"
    using run_account [OF run [unfolded TAccount]] inv TAccount
    by (intro keys_inv_swap) auto
  have "keys_inv adj (xs @ task_list r @ ys) (d\<lparr>t_grants := t_grants d @ [opening_grant i c gi gk]\<rparr>)"
    by (rule keys_inv_new_grant [OF k]) (use ns in simp_all)
  with run_account [OF run [unfolded TAccount]] k show ?thesis
    by (auto simp: keys_inv_frame [of "d\<lparr>t_accounts := _, t_grants := t_grants d @ [opening_grant i c gi gk]\<rparr>"
          "d\<lparr>t_grants := t_grants d @ [opening_grant i c gi gk]\<rparr>"])
qed (use task_run_grants [OF run] inv keys_inv_swap [OF inv, of "task_list r"]
      keys_inv_frame [of d' d adj] in auto)

lemma credit_step:
  assumes run: "task_run now t d = (r, d')" and ok: "amounts_ok t"
    and inv: "keys_inv adj (xs @ t # ys) d"
  shows "owed (owes_credit a) (task_list r) - owes_credit a t \<le> credit_gap d' a - credit_gap d a"
proof (cases t)
  case (TUsage1 e)
  from run_usage1 [OF run [unfolded TUsage1]] TUsage1 show ?thesis
    by (auto simp: credit_gap_def granted_def)
next
  case (TUsage2 e)
  from run_usage2 [OF run [unfolded TUsage2]] TUsage2 show ?thesis
    by (auto simp: credit_gap_def granted_def)
next
  case (TUsage3 e)
  with run show ?thesis by (auto simp: credit_gap_def granted_def)
next
  case (TAdj1 j)
  from run_adj1 [OF run [unfolded TAdj1]] TAdj1 show ?thesis
    by (auto simp: credit_gap_def granted_def)
next
  case (TAdj2 j)
  note i = keys_inv_adj2(1,2) [OF inv [unfolded TAdj2]]
  show ?thesis
  proof (cases "ua_direction j")
    case Spend
    from run_adj2_spend [OF run [unfolded TAdj2] Spend] TAdj2 show ?thesis
      by (auto simp: credit_gap_def granted_def)
  next
    case Credit
    from run_adj2_credit [OF run [unfolded TAdj2] Credit] TAdj2 i ok show ?thesis
      by (auto simp: credit_gap_def granted_def credit_of_add_credit adjustment_grant_def)
  qed
next
  case (TGrant1 g)
  from run_grant1 [OF run [unfolded TGrant1]] TGrant1 show ?thesis
    by (auto simp: credit_gap_def granted_def)
next
  case (TGrant2 g)
  with run ok show ?thesis by (auto simp: credit_gap_def granted_def credit_of_add_credit)
next
  case (TAccount i p l c gi gk)
  from run_account [OF run [unfolded TAccount]] TAccount show ?thesis
    using fresh_account_credit [of "opening_account i p l c now" d a]
    by (auto simp: credit_gap_def granted_def)
qed

lemma credit_inv_step:
  assumes "ledger_step (namespaced adj) crashes s s'" "credit_inv adj s" shows "credit_inv adj s'"
  using assms
proof (induction rule: ledger_step.induct)
  case (step_start t ts d)
  then have "adj_keys t = []" "\<And>a. owes_credit a t = 0" by (cases t; simp)+
  with step_start show ?case
    by (auto simp: credit_inv_def keys_inv_def pending_fresh_def pending_distinct_def)
next
  case (step_run now t d r d' xs ys)
  note run = \<open>task_run now t d = (r, d')\<close>
  have pre: "keys_inv adj (xs @ t # ys) d" "list_all amounts_ok (xs @ t # ys)"
    "\<And>a. owed (owes_credit a) (xs @ t # ys) \<le> credit_gap d a"
    using step_run.prems by (simp_all add: credit_inv_def)
  have "owed (owes_credit a) (xs @ task_list r @ ys) \<le> credit_gap d' a" for a
    using credit_step [OF run _ pre(1), of a] pre(2) pre(3) [of a] by simp
  then show ?case
    using keys_inv_run [OF run pre(1)] task_run_amounts_ok [OF run] pre(2) by (simp add: credit_inv_def)
next
  case (step_crash xs t ys d)
  have nn: "0 \<le> owes_credit a t" for a using step_crash.prems by (cases t) (auto simp: credit_inv_def)
  have le: "owed (owes_credit a) (xs @ t # ys) \<le> credit_gap d a" for a
    using step_crash.prems by (simp add: credit_inv_def)
  have "owed (owes_credit a) (xs @ ys) \<le> credit_gap d a" for a
    using nn [of a] le [of a] by simp
  moreover have "keys_inv adj (xs @ ys) d" "list_all amounts_ok (xs @ ys)"
    using step_crash.prems keys_inv_drop [of adj xs t ys d] by (simp_all add: credit_inv_def)
  ultimately show ?case by (simp add: credit_inv_def)
qed

lemma credit_inv_steps:
  "ledger_steps (namespaced adj) crashes s s' \<Longrightarrow> credit_inv adj s \<Longrightarrow> credit_inv adj s'"
  by (induction rule: rtranclp_induct) (auto intro: credit_inv_step)

section \<open>Idempotent writes\<close>

text \<open>
  What a retry relies on: a write that has been seen changes nothing, a write is either refused
  (nothing changes) or seen from then on, and no other write makes it unseen.
\<close>

locale idempotent_write =
  fixes wr :: "'op \<Rightarrow> 's \<Rightarrow> 's"
    and seen  :: "'op \<Rightarrow> 's \<Rightarrow> bool"
  assumes seen_skip: "seen x s \<Longrightarrow> wr x s = s"
    and write_seen: "wr x s = s \<or> seen x (wr x s)"
    and seen_mono: "seen x s \<Longrightarrow> seen x (wr y s)"
begin

lemma write_twice: "wr x (wr x s) = wr x s"
  using write_seen [of x s] seen_skip by metis

lemma seen_fold: "seen x s \<Longrightarrow> seen x (fold wr ys s)"
  by (induction ys arbitrary: s) (simp_all add: seen_mono)

text \<open>A retry that arrives after any number of other writes is a no-op, once the first attempt
  landed.\<close>

lemma late_retry:
  assumes "wr x s \<noteq> s"
  shows "wr x (fold wr ys (wr x s)) = fold wr ys (wr x s)"
  using assms write_seen [of x s] seen_fold seen_skip by metis

lemma replay_seen: "\<forall>x\<in>set xs. seen x s \<Longrightarrow> fold wr xs s = s"
  by (induction xs) (auto simp: seen_skip)

end

definition world0 :: "int \<Rightarrow> db \<Rightarrow> unit world_scheme" where
  "world0 now d = \<lparr>w_db = d, w_now = now, w_sched = []\<rparr>"

lemma world0_simps [simp]: "quiet (world0 now d)" "w_db (world0 now d) = d" "w_now (world0 now d) = now"
  by (simp_all add: world0_def quiet_def)

definition usage_write :: "int \<Rightarrow> usage_event \<Rightarrow> db \<Rightarrow> db" where
  "usage_write now e d = w_db (snd (record_usage e (world0 now d)))"

definition adjustment_write :: "int \<Rightarrow> usage_adjustment \<Rightarrow> db \<Rightarrow> db" where
  "adjustment_write now j d = w_db (snd (apply_usage_adjustment j (world0 now d)))"

definition grant_write :: "int \<Rightarrow> grant_row \<Rightarrow> db \<Rightarrow> db" where
  "grant_write now g d = w_db (snd (grant_credit g (world0 now d)))"

definition adjustment_seen :: "usage_adjustment \<Rightarrow> db \<Rightarrow> bool" where
  "adjustment_seen j d =
     (has_key ua_id (ua_id j) (t_adjustments d) \<or> has_key ua_key (ua_key j) (t_adjustments d))"

definition grant_seen :: "grant_row \<Rightarrow> db \<Rightarrow> bool" where
  "grant_seen g d = (has_key gr_id (gr_id g) (t_grants d) \<or> has_key gr_key (gr_key g) (t_grants d))"

text \<open>Rows of the three audit tables are only appended.\<close>

definition audit_grows :: "db \<Rightarrow> db \<Rightarrow> bool" where
  "audit_grows d d' \<longleftrightarrow>
     (\<exists>es js gs. t_events d' = t_events d @ es \<and> t_adjustments d' = t_adjustments d @ js \<and>
                 t_grants d' = t_grants d @ gs)"

lemma audit_grows_refl: "reflp audit_grows"
  by (simp add: reflp_def audit_grows_def)

lemma audit_grows_trans: "transp audit_grows"
  by (auto simp: transp_def audit_grows_def)

lemma bump_audit:
  "bump_period_usage a k m u al d = Some d' \<Longrightarrow> audit_grows d d'"
  "bump_period_adjust a k sp cr d = Some d' \<Longrightarrow> audit_grows d d'"
  unfolding bump_period_usage_def bump_period_adjust_def
  by (auto simp: audit_grows_def dest!: upsert_period_frame)

lemma adjust_batch_audit:
  "adjust_spend_batch j d = Some d' \<Longrightarrow> audit_grows d d'"
  "adjust_credit_batch j d = Some d' \<Longrightarrow> audit_grows d d'"
proof -
  assume "adjust_spend_batch j d = Some d'"
  then show "audit_grows d d'"
    using bump_audit(2) [of _ _ _ _ "add_spent (ua_applied j) (ua_account_id j) d" d']
    by (simp add: adjust_spend_batch_def audit_grows_def)
next
  assume a: "adjust_credit_batch j d = Some d'"
  then obtain ch d1 where i: "ins_grant (adjustment_grant j) d = Some (ch, d1)"
      and b: "bump_period_adjust (ua_account_id j) (ua_period_key j) 0 (ua_applied j)
                (add_credit (ua_applied j) (ua_account_id j) d1) = Some d'"
    by (auto simp: adjust_credit_batch_def split: option.splits)
  from i have "audit_grows d d1" by (auto simp: ins_grant_def audit_grows_def split: if_splits)
  moreover have "audit_grows d1 d'" using bump_audit(2) [OF b] by (simp add: audit_grows_def)
  ultimately show "audit_grows d d'" using audit_grows_trans by (meson transpD)
qed

lemma add_audit: "audit_grows d (add_spent n a d)" "audit_grows d (add_credit n a d)"
  by (simp_all add: audit_grows_def)

lemma ins_audit:
  "ins_event e now d = Some (c, d') \<Longrightarrow> audit_grows d d'"
  "ins_adjustment j d = Some (c, d') \<Longrightarrow> audit_grows d d'"
  "ins_grant g d = Some (c, d') \<Longrightarrow> audit_grows d d'"
  by (auto simp: ins_event_def ins_adjustment_def ins_grant_def audit_grows_def split: if_splits)

lemma money_ops_audit:
  "db_rel audit_grows (record_usage e)"
  "db_rel audit_grows (apply_usage_adjustment j)"
  "db_rel audit_grows (grant_credit g)"
  unfolding record_usage_def apply_usage_adjustment_def grant_credit_def
  by (intro db_rel_intros audit_grows_refl audit_grows_trans;
      (auto dest: ins_audit bump_audit adjust_batch_audit simp: add_audit split: if_splits)?)+

lemma event_seen_mono: "audit_grows d d' \<Longrightarrow> event_seen e d \<Longrightarrow> event_seen e d'"
  by (auto simp: audit_grows_def event_seen_def)

lemma adjustment_seen_mono: "audit_grows d d' \<Longrightarrow> adjustment_seen e d \<Longrightarrow> adjustment_seen e d'"
  by (auto simp: audit_grows_def adjustment_seen_def)

lemma grant_seen_mono: "audit_grows d d' \<Longrightarrow> grant_seen e d \<Longrightarrow> grant_seen e d'"
  by (auto simp: audit_grows_def grant_seen_def)

lemma stmt_then:
  assumes "quiet w" "f (w_now w) (w_db w) = Some (x, d1)" "db_rel R (k x)"
  shows "R d1 (w_db (snd (bindM (stmt f) k w)))"
proof -
  have "bindM (stmt f) k w = k x (w\<lparr>w_db := d1\<rparr>)"
    using assms(1,2) by (simp add: bindM_run run_simps)
  then show ?thesis using db_relD [OF assms(3), of "w\<lparr>w_db := d1\<rparr>"] by simp
qed

text \<open>The first statement decides: seen, refused, or recorded and continued.\<close>

lemma usage_write_seen: "usage_write now e d = d \<or> event_seen e (usage_write now e d)"
proof (cases "ins_event (stored_event e) now d")
  case None
  then show ?thesis by (simp add: usage_write_def record_usage_def bindM_run run_simps)
next
  case (Some p)
  obtain ch d1 where p: "p = (ch, d1)" by (cases p)
  have ins: "ins_event (stored_event e) (w_now (world0 now d)) (w_db (world0 now d)) = Some (ch, d1)"
    using Some p by simp
  have "audit_grows d1 (usage_write now e d)"
    unfolding usage_write_def record_usage_def
    by (rule stmt_then [where f = "ins_event (stored_event e)" and w = "world0 now d" and x = ch, OF _ ins], simp)
       (intro db_rel_intros audit_grows_refl audit_grows_trans;
        (auto dest: bump_audit simp: add_audit)?)
  moreover have "ch \<Longrightarrow> event_seen e d1"
    using ins by (auto simp: ins_event_def event_seen_def usage_event.extend_def split: if_splits)
  moreover have "\<not> ch \<Longrightarrow> usage_write now e d = d"
    using ins by (auto simp: usage_write_def record_usage_def bindM_run run_simps ins_event_def
        split: if_splits)
  ultimately show ?thesis using event_seen_mono by blast
qed

lemma adjustment_write_seen: "adjustment_write now j d = d \<or> adjustment_seen j (adjustment_write now j d)"
proof (cases "ins_adjustment j d")
  case None
  then show ?thesis by (simp add: adjustment_write_def apply_usage_adjustment_def bindM_run run_simps)
next
  case (Some p)
  obtain ch d1 where p: "p = (ch, d1)" by (cases p)
  have ins: "(\<lambda>now d. ins_adjustment j d) (w_now (world0 now d)) (w_db (world0 now d)) = Some (ch, d1)"
    using Some p by simp
  have "audit_grows d1 (adjustment_write now j d)"
    unfolding adjustment_write_def apply_usage_adjustment_def
    by (rule stmt_then [where f = "\<lambda>now d. ins_adjustment j d" and w = "world0 now d" and x = ch, OF _ ins], simp)
       (intro db_rel_intros audit_grows_refl audit_grows_trans;
        (auto dest: adjust_batch_audit split: if_splits)?)
  moreover have "ch \<Longrightarrow> adjustment_seen j d1"
    using ins by (auto simp: ins_adjustment_def adjustment_seen_def split: if_splits)
  moreover have "\<not> ch \<Longrightarrow> adjustment_write now j d = d"
    using ins by (auto simp: adjustment_write_def apply_usage_adjustment_def bindM_run run_simps
        ins_adjustment_def split: if_splits)
  ultimately show ?thesis using adjustment_seen_mono by blast
qed

lemma grant_write_seen: "grant_write now g d = d \<or> grant_seen g (grant_write now g d)"
proof (cases "ins_grant g d")
  case None
  then show ?thesis by (simp add: grant_write_def grant_credit_def bindM_run run_simps)
next
  case (Some p)
  obtain ch d1 where p: "p = (ch, d1)" by (cases p)
  have ins: "(\<lambda>now d. ins_grant g d) (w_now (world0 now d)) (w_db (world0 now d)) = Some (ch, d1)"
    using Some p by simp
  have "audit_grows d1 (grant_write now g d)"
    unfolding grant_write_def grant_credit_def
    by (rule stmt_then [where f = "\<lambda>now d. ins_grant g d" and w = "world0 now d" and x = ch, OF _ ins], simp)
       (intro db_rel_intros audit_grows_refl audit_grows_trans; (auto simp: add_audit)?)
  moreover have "ch \<Longrightarrow> grant_seen g d1"
    using ins by (auto simp: ins_grant_def grant_seen_def split: if_splits)
  moreover have "\<not> ch \<Longrightarrow> grant_write now g d = d"
    using ins by (auto simp: grant_write_def grant_credit_def bindM_run run_simps
        ins_grant_def split: if_splits)
  ultimately show ?thesis using grant_seen_mono by blast
qed

interpretation usage: idempotent_write "usage_write now" event_seen for now
proof
  fix e e' :: usage_event and d
  show "event_seen e d \<Longrightarrow> usage_write now e d = d"
    by (simp add: usage_write_def record_usage_def bindM_run run_simps ins_event_def event_seen_def)
  show "event_seen e d \<Longrightarrow> event_seen e (usage_write now e' d)"
    using event_seen_mono [OF db_relD [OF money_ops_audit(1), of "world0 now d" e']]
    by (simp add: usage_write_def)
qed (rule usage_write_seen)

interpretation adjustments: idempotent_write "adjustment_write now" adjustment_seen for now
proof
  fix j j' :: usage_adjustment and d
  show "adjustment_seen j d \<Longrightarrow> adjustment_write now j d = d"
    by (simp add: adjustment_write_def apply_usage_adjustment_def bindM_run run_simps
        ins_adjustment_def adjustment_seen_def)
  show "adjustment_seen j d \<Longrightarrow> adjustment_seen j (adjustment_write now j' d)"
    using adjustment_seen_mono [OF db_relD [OF money_ops_audit(2), of "world0 now d" j']]
    by (simp add: adjustment_write_def)
qed (rule adjustment_write_seen)

interpretation grants: idempotent_write "grant_write now" grant_seen for now
proof
  fix g g' :: grant_row and d
  show "grant_seen g d \<Longrightarrow> grant_write now g d = d"
    by (simp add: grant_write_def grant_credit_def bindM_run run_simps ins_grant_def grant_seen_def)
  show "grant_seen g d \<Longrightarrow> grant_seen g (grant_write now g' d)"
    using grant_seen_mono [OF db_relD [OF money_ops_audit(3), of "world0 now d" g']]
    by (simp add: grant_write_def)
qed (rule grant_write_seen)

section \<open>Functional behaviour of recordUsage\<close>

definition period_of :: "db \<Rightarrow> string \<Rightarrow> string \<Rightarrow> period_row option" where
  "period_of d a k = lookup period_key_of (a, k) (t_periods d)"

definition blank_period :: "string \<Rightarrow> string \<Rightarrow> period_row" where
  "blank_period a k = \<lparr>pe_account_id = a, pe_period_key = k, pe_micro_usd = 0, pe_requests = 0,
     pe_unmetered = 0, pe_adjust_spend = 0, pe_adjust_credit = 0, pe_allowance_spent = 0\<rparr>"

text \<open>The rollup row after one recorded event.\<close>

definition rolled_up :: "usage_event \<Rightarrow> period_row \<Rightarrow> period_row" where
  "rolled_up e r = r\<lparr>pe_micro_usd := pe_micro_usd r + (if ue_metered e then ue_micro_usd e else 0),
     pe_requests := pe_requests r + 1,
     pe_unmetered := pe_unmetered r + (if ue_metered e then 0 else 1),
     pe_allowance_spent := pe_allowance_spent r + event_allowance e\<rparr>"

lemma bump_usage_period:
  assumes "bump_period_usage a k m u al d = Some d'"
  shows "period_of d' a k = Some ((case period_of d a k of None \<Rightarrow> blank_period a k | Some r \<Rightarrow> r)
      \<lparr>pe_micro_usd := pe_micro_usd (case period_of d a k of None \<Rightarrow> blank_period a k | Some r \<Rightarrow> r) + m,
       pe_requests := pe_requests (case period_of d a k of None \<Rightarrow> blank_period a k | Some r \<Rightarrow> r) + 1,
       pe_unmetered := pe_unmetered (case period_of d a k of None \<Rightarrow> blank_period a k | Some r \<Rightarrow> r) + u,
       pe_allowance_spent := pe_allowance_spent (case period_of d a k of None \<Rightarrow> blank_period a k | Some r \<Rightarrow> r) + al\<rparr>)"
  using upsert_period_tables [OF assms [unfolded bump_period_usage_def]]
  by (auto simp: period_of_def lookup_upsert period_key_of_def blank_period_def split: option.splits)

lemma record_usage_first_quiet:
  assumes q: "quiet w" and new: "\<not> event_seen e (w_db w)"
    and fk: "has_key ac_id (ue_account_id e) (t_accounts (w_db w))" "fk_client (w_db w) (ue_client_id e)"
  shows "\<exists>d1 d2. ins_event (stored_event e) (w_now w) (w_db w) = Some (True, d1) \<and>
     bump_period_usage (ue_account_id e) (ue_period_key e)
       (if ue_metered e then ue_micro_usd e else 0) (if ue_metered e then 0 else 1) (event_allowance e) d1 = Some d2 \<and>
     record_usage e w = (Inr (), w\<lparr>w_db := if ue_metered e \<and> event_credit e > 0
                                        then add_spent (event_credit e) (ue_account_id e) d2 else d2\<rparr>)"
proof -
  obtain d1 where d1: "ins_event (stored_event e) (w_now w) (w_db w) = Some (True, d1)"
    "t_accounts d1 = t_accounts (w_db w)"
    using new fk by (auto simp: ins_event_def event_seen_def fk_account_def)
  then obtain d2 where d2: "bump_period_usage (ue_account_id e) (ue_period_key e)
       (if ue_metered e then ue_micro_usd e else 0) (if ue_metered e then 0 else 1) (event_allowance e) d1 = Some d2"
    using fk upsert_period_total [of _ d1] by (fastforce simp: bump_period_usage_def)
  from d1 d2 q show ?thesis by (auto simp: record_usage_def bindM_run run_simps)
qed

section \<open>Sample data\<close>

definition sample_account :: account_row where
  "sample_account = opening_account ''a'' ''dev'' None 100 0"

definition sample_client :: client_row where
  "sample_client = \<lparr>cl_id = ''c'', cl_account_id = ''a'', cl_key_id = ''k'', cl_secret_hash = ''h'',
     cl_label = None, cl_platform = None, cl_created_at = 0, cl_last_seen_at = None, cl_revoked_at = None\<rparr>"

definition sample_event :: usage_event where
  "sample_event = \<lparr>ue_id = ''e'', ue_request_id = ''r'', ue_account_id = ''a'', ue_client_id = ''c'',
     ue_model_id = ''m'', ue_period_key = ''2026-08'', ue_input_tokens = Some 1, ue_output_tokens = Some 2,
     ue_micro_usd = 9, ue_from_allowance = 4, ue_from_credit = 5, ue_metered = True,
     ue_price_basis = Measured, ue_unmetered_reason = None, ue_upstream_status = Some 200,
     ue_gateway_log_id = None\<rparr>"

definition sample_world :: world where
  "sample_world = \<lparr>w_db = empty_db\<lparr>t_accounts := [sample_account], t_clients := [sample_client]\<rparr>,
     w_now = 0, w_sched = []\<rparr>"

lemmas sample_defs = sample_world_def sample_event_def sample_account_def sample_client_def
  opening_account_def opening_grant_def empty_db_def

lemma balanced_sample: "balanced (w_db sample_world)"
  by (auto simp: balanced_def books_eq_def spent_gap_def allowance_gap_def entries_spent_def
      events_credit_def adjusted_def events_allowance_def spent_of_def allowance_of_def sample_defs)

section \<open>Properties\<close>

lemma ledger_steps_fk: "ledger_steps allowed c s s' \<Longrightarrow> db_fk (snd s') = db_fk (snd s)"
proof (induction rule: rtranclp_induct)
  case (step s' s'')
  from step(2,3) show ?case by (cases rule: ledger_step.cases) (auto dest: task_run_accounts(2))
qed simp

lemma owed_nonneg: "list_all amounts_ok ts \<Longrightarrow> 0 \<le> owed (owes_spent a) ts \<and> 0 \<le> owed (owes_allowance a k) ts"
proof (induction ts)
  case (Cons t ts)
  then show ?case using owes_nonneg [of t a k] by simp
qed simp

text \<open>C1. No interleaving overcharges.  Start from books that balance; let any number of requests,
  true-ups, grants and account creations run their statements in any order, and let any of them
  crash or lose an answer at any point: at every moment, an account's recorded spend is at most
  what its ledger rows and spend true-ups add up to, and its allowance counter at most what its
  rows took from the allowance.\<close>
theorem ledger_never_overcharges:
  assumes "balanced d" "ledger_steps allowed crashes ([], d) (ts, d')"
  shows "spent_of d' a \<le> events_credit d' a + adjusted Spend d' a
       \<and> allowance_of d' a k \<le> events_allowance d' a k"
proof -
  have inv: "ledger_inv crashes (ts, d')"
    using ledger_steps_inv [OF assms(2) balanced_inv [OF assms(1)]] .
  then have "0 \<le> owed (owes_spent a) ts" "0 \<le> owed (owes_allowance a k) ts"
    using owed_nonneg [of ts a k] by (simp_all add: ledger_inv_def)
  moreover have "owed (owes_spent a) ts \<le> spent_gap d' a" "owed (owes_allowance a k) ts \<le> allowance_gap d' a k"
    using inv by (simp_all add: ledger_inv_def books_le_def)
  ultimately show ?thesis by (simp add: spent_gap_def allowance_gap_def entries_spent_def)
qed

lemma sample_crash_steps:
  "ledger_steps (\<lambda>_. True) True ([], w_db sample_world)
     ([], w_db (snd (record_usage sample_event (sample_world\<lparr>w_sched := [(Completes, 0), (FailsAfter, 3)]\<rparr>))))"
proof -
  let ?w = "sample_world\<lparr>w_sched := [(Completes, 0), (FailsAfter, 3)]\<rparr>"
  have "ledger_step (\<lambda>_. True) True ([], w_db ?w) ([TUsage1 sample_event], w_db ?w)"
    by (rule step_start) (simp_all add: sample_event_def event_credit_def event_allowance_def)
  then show ?thesis
    using record_usage_steps [of "\<lambda>_. True" sample_event "[]" ?w]
    by (simp add: converse_rtranclp_into_rtranclp)
qed

theorem ledger_never_overcharges_witness:
  "let d = w_db (snd (record_usage sample_event (sample_world\<lparr>w_sched := [(Completes, 0), (FailsAfter, 3)]\<rparr>)))
   in spent_of d ''a'' \<le> events_credit d ''a'' + adjusted Spend d ''a''"
  using ledger_never_overcharges [OF balanced_sample sample_crash_steps, of "''a''" "''k''"]
  by (simp add: Let_def)



text \<open>C2. The store's money operations are runs of the interleaved system: whatever the schedule of
  failures, what recordUsage, applyUsageAdjustment, grantCredit and createAccount do to the
  database is what their task does when it runs alone and possibly dies.\<close>
theorem store_operations_refine_tasks:
  "ledger_steps allowed True (TUsage1 e # ts, w_db w) (ts, w_db (snd (record_usage e w)))
   \<and> ledger_steps allowed True (TAdj1 j # ts, w_db w) (ts, w_db (snd (apply_usage_adjustment j w)))
   \<and> ledger_steps allowed True (TGrant1 g # ts, w_db w) (ts, w_db (snd (grant_credit g w)))
   \<and> ledger_steps allowed True (TAccount i p l c gi gk # ts, w_db w)
       (ts, w_db (snd (create_account i p l c gi gk w)))"
  by (intro conjI record_usage_steps apply_usage_adjustment_steps grant_credit_steps create_account_steps)





text \<open>What one recorded request changes when nothing fails: a metered one moves the rollup by its
  cost and allowance share and the account's spend by its credit share; an unmetered one is
  counted, with its gap, and moves no money.\<close>
lemma record_usage_effect:
  assumes "quiet w" "\<not> event_seen e (w_db w)"
    and "has_key ac_id (ue_account_id e) (t_accounts (w_db w))" "fk_client (w_db w) (ue_client_id e)"
    and "0 \<le> event_credit e"
  shows "fst (record_usage e w) = Inr ()
    \<and> period_of (w_db (snd (record_usage e w))) (ue_account_id e) (ue_period_key e) =
        Some (rolled_up e (case period_of (w_db w) (ue_account_id e) (ue_period_key e) of
                None \<Rightarrow> blank_period (ue_account_id e) (ue_period_key e) | Some r \<Rightarrow> r))
    \<and> spent_of (w_db (snd (record_usage e w))) (ue_account_id e) =
        spent_of (w_db w) (ue_account_id e) + (if ue_metered e then ue_from_credit e else 0)
    \<and> (\<not> ue_metered e \<longrightarrow> (\<forall>a k. spent_of (w_db (snd (record_usage e w))) a = spent_of (w_db w) a
          \<and> allowance_of (w_db (snd (record_usage e w))) a k = allowance_of (w_db w) a k))"
proof -
  obtain d1 d2 where ins: "ins_event (stored_event e) (w_now w) (w_db w) = Some (True, d1)"
    and bump: "bump_period_usage (ue_account_id e) (ue_period_key e)
       (if ue_metered e then ue_micro_usd e else 0) (if ue_metered e then 0 else 1) (event_allowance e) d1 = Some d2"
    and run: "record_usage e w = (Inr (), w\<lparr>w_db := if ue_metered e \<and> event_credit e > 0
                                        then add_spent (event_credit e) (ue_account_id e) d2 else d2\<rparr>)"
    using record_usage_first_quiet [OF assms(1-4)] by blast
  obtain row where d1: "d1 = (w_db w)\<lparr>t_events := row\<rparr>"
    using ins by (auto simp: ins_event_def split: if_splits)
  obtain ps where d2: "d2 = d1\<lparr>t_periods := ps\<rparr>"
    using upsert_period_frame [OF bump [unfolded bump_period_usage_def]] by blast
  have per: "period_of d2 (ue_account_id e) (ue_period_key e) =
        Some (rolled_up e (case period_of (w_db w) (ue_account_id e) (ue_period_key e) of
                None \<Rightarrow> blank_period (ue_account_id e) (ue_period_key e) | Some r \<Rightarrow> r))"
    using bump_usage_period [OF bump] d1 by (simp add: period_of_def rolled_up_def)
  have allow: "allowance_of d2 a k = allowance_of (w_db w) a k" if "\<not> ue_metered e" for a k
    using allowance_bump_usage [OF bump, of a k] d1 that by (simp add: event_allowance_def)
  show ?thesis
    using run per allow assms(3,5) d1 d2
    by (auto simp: spent_of_add_spent period_of_def event_credit_def)
qed

text \<open>The discipline is needed: a top-up whose idempotency key happens to be in the true-up namespace
  makes a later true-up move the balance without a grant row of its own.\<close>

definition collision_db :: db where
  "collision_db = empty_db\<lparr>t_accounts := [sample_account],
     t_grants := [opening_grant ''a'' 100 ''g1'' ''aig:log1'']\<rparr>"

definition collision_adjustment :: usage_adjustment where
  "collision_adjustment = \<lparr>ua_id = ''j1'', ua_account_id = ''a'', ua_usage_event_id = None, ua_request_id = ''r'',
     ua_gateway_log_id = ''log1'', ua_period_key = ''2026-08'', ua_model_id = None, ua_estimate = 50,
     ua_gateway = 10, ua_delta = -40, ua_direction = Credit, ua_applied = 40, ua_key = ''aig:log1'',
     ua_note = None\<rparr>"

lemma credit_without_grant_row:
  "granted collision_db ''a'' = credit_of collision_db ''a'' \<and>
   granted (adjustment_write 0 collision_adjustment collision_db) ''a'' = 100 \<and>
   credit_of (adjustment_write 0 collision_adjustment collision_db) ''a'' = 140"
  by (simp add: collision_db_def collision_adjustment_def adjustment_write_def apply_usage_adjustment_def
      bindM_run run_simps ins_adjustment_def adjust_credit_batch_def adjustment_grant_def ins_grant_def
      bump_period_adjust_def upsert_period_def upsert_def period_key_of_def fk_account_def
      sample_defs add_credit_def granted_def credit_of_def total_def)

end
