(* ===== verification/ChatProps.thy ===== *)
theory ChatProps
  imports Chat Ledger
begin

text \<open>
  What the chat handler guarantees: nothing is spent before every gate is passed, the answer states
  what the ledger holds, failures leave the books alone, and a stream is settled by one row.
\<close>

section \<open>What a run leaves alone\<close>

definition calls_kept :: "('a, 'z) h \<Rightarrow> bool" where
  "calls_kept c \<longleftrightarrow> (\<forall>w. cw_calls (snd (c w)) = cw_calls w)"

named_theorems kept_intros \<open>composition rules for \<open>calls_kept\<close>\<close>

lemma calls_keptD: "calls_kept c \<Longrightarrow> c w = (r, w') \<Longrightarrow> cw_calls w' = cw_calls w"
  by (metis calls_kept_def snd_conv)

lemma calls_kept_ret [kept_intros]: "calls_kept (retM x)"
  by (simp add: calls_kept_def)

lemma calls_kept_throw [kept_intros]: "calls_kept (throwM e)"
  by (simp add: calls_kept_def)

lemma calls_kept_bind [kept_intros]:
  "calls_kept c \<Longrightarrow> (\<And>x. calls_kept (k x)) \<Longrightarrow> calls_kept (bindM c k)"
  by (auto simp: calls_kept_def bindM_def split: sum.splits prod.splits) (metis snd_conv)+

lemma calls_kept_catch [kept_intros]:
  "calls_kept c \<Longrightarrow> (\<And>e. calls_kept (h e)) \<Longrightarrow> calls_kept (catchM c h)"
  by (auto simp: calls_kept_def catchM_def split: sum.splits prod.splits) (metis snd_conv)+

lemma calls_kept_stmt [kept_intros]: "calls_kept (stmt f)"
  by (auto simp: calls_kept_def stmt_def Let_def split: fault.splits option.splits prod.splits)

lemma calls_kept_query [kept_intros]: "calls_kept (query f)"
  unfolding query_def by (rule calls_kept_stmt)

lemma calls_kept_write [kept_intros]: "calls_kept (run_write f)"
  unfolding run_write_def by (rule calls_kept_stmt)

lemma calls_kept_if [kept_intros]:
  "(b \<Longrightarrow> calls_kept c) \<Longrightarrow> (\<not> b \<Longrightarrow> calls_kept d) \<Longrightarrow> calls_kept (if b then c else d)"
  by simp

lemma calls_kept_option [kept_intros]:
  "(v = None \<Longrightarrow> calls_kept a) \<Longrightarrow> (\<And>x. v = Some x \<Longrightarrow> calls_kept (b x)) \<Longrightarrow>
     calls_kept (case v of None \<Rightarrow> a | Some x \<Rightarrow> b x)"
  by (cases v) simp_all

lemma calls_kept_sum [kept_intros]:
  "(\<And>x. calls_kept (a x)) \<Longrightarrow> (\<And>x. calls_kept (b x)) \<Longrightarrow> calls_kept (case v of Inl x \<Rightarrow> a x | Inr x \<Rightarrow> b x)"
  by (cases v) simp_all

lemma calls_kept_wait_until [kept_intros]: "calls_kept (wait_until t)"
  by (simp add: calls_kept_def wait_until_def)

lemma calls_kept_ops [kept_intros]:
  "calls_kept (get_period a k)" "calls_kept (get_model_price i)" "calls_kept (record_usage e)"
  "calls_kept (check_rate_limit b l n)" "calls_kept (resolve_client f rq)"
  unfolding get_period_def get_model_price_def record_usage_def check_rate_limit_def
    now_epoch_seconds_def claim_rate_bucket_def resolve_client_def get_client_by_key_id_def
    get_account_def get_plan_def
  by (intro kept_intros)+

text \<open>A run that touches the rate buckets and the stored upstream tokens only.\<close>

definition same_books :: "db \<Rightarrow> db \<Rightarrow> bool" where
  "same_books d d' \<longleftrightarrow>
     t_plans d' = t_plans d \<and> t_accounts d' = t_accounts d \<and> t_clients d' = t_clients d
     \<and> t_enrollments d' = t_enrollments d \<and> t_tickets d' = t_tickets d \<and> t_events d'
     = t_events d \<and> t_periods d' = t_periods d \<and> t_grants d' = t_grants d \<and>
     t_adjustments d' = t_adjustments d \<and> t_reconcile d' = t_reconcile d \<and> t_prices d' =
     t_prices d \<and> t_jobs d' = t_jobs d \<and> db_fk d' = db_fk d"

lemma same_books_refl_trans: "reflp same_books" "transp same_books"
  by (auto simp: same_books_def reflp_def transp_def)

lemma same_books_refl [simp]: "same_books d d"
  by (simp add: same_books_def)

lemma same_books_trans [trans]: "same_books a b \<Longrightarrow> same_books b c \<Longrightarrow> same_books a c"
  using same_books_refl_trans(2) by (meson transpD)

lemma books_option:
  "(v = None \<Longrightarrow> db_rel R a) \<Longrightarrow> (\<And>x. v = Some x \<Longrightarrow> db_rel R (b x)) \<Longrightarrow>
     db_rel R (case v of None \<Rightarrow> a | Some x \<Rightarrow> b x)"
  by (cases v) simp_all

lemmas books_intros =
  db_rel_ret [OF same_books_refl_trans(1)] db_rel_throw [OF same_books_refl_trans(1)]
  db_rel_query [OF same_books_refl_trans(1)] db_rel_bind [OF same_books_refl_trans(2)]
  db_rel_catch [OF same_books_refl_trans(2)] db_rel_if books_option db_rel_sum


lemma same_books_stmt:
  "(\<And>now d x d'. f now d = Some (x, d') \<Longrightarrow> same_books d d') \<Longrightarrow> db_rel same_books (stmt f)"
  by (rule db_rel_stmt [OF same_books_refl_trans(1)])

lemma read_only_books: "read_only c \<Longrightarrow> db_rel same_books c"
  by (simp add: read_only_def db_rel_def)

lemma books_limiter: "db_rel same_books (check_rate_limit b l n)"
proof -
  have "db_rel same_books (claim_rate_bucket b t n)" for t
    unfolding claim_rate_bucket_def
    by (rule same_books_stmt) (auto simp: claim_bucket_def Let_def same_books_def)
  moreover have "db_rel same_books now_epoch_seconds"
    using get_ops_read_only(13) by (rule read_only_books)
  ultimately show ?thesis
    unfolding check_rate_limit_def by (intro books_intros)
qed

lemma books_wait_until: "db_rel same_books (wait_until t)"
  by (simp add: db_rel_def wait_until_def)

lemma resolve_client_read_only: "read_only (resolve_client f rq)"
  unfolding resolve_client_def read_only_def get_client_by_key_id_def get_account_def get_plan_def
  by (intro read_only_intros)+

lemma require_caller_keeps:
  "calls_kept (require_caller f rid rq)" "db_rel same_books (require_caller f rid rq)"
  unfolding require_caller_def
  by (intro kept_intros books_intros books_wait_until read_only_books resolve_client_read_only)+

section \<open>Credential sources\<close>

text \<open>What the handler needs of a credential source: it never calls a model and touches no table of
  the books.\<close>

locale credential_source =
  fixes creds :: "string \<Rightarrow> (credential_outcome, 'z) h"
  assumes creds_calls: "calls_kept (creds a)"
    and creds_books: "db_rel same_books (creds a)"
begin

lemma creds_keep: "creds a w = (r, w') \<Longrightarrow> cw_calls w' = cw_calls w \<and> same_books (w_db w) (w_db w')"
  using calls_keptD [OF creds_calls] db_relD [OF creds_books, of w a] by fastforce

end

definition shared_creds :: "string \<Rightarrow> string \<Rightarrow> (credential_outcome, 'z) h" where
  "shared_creds token a = retM (shared_for_account token a)"

interpretation shared: credential_source "shared_creds token"
  for token
  by unfold_locales (auto simp: shared_creds_def calls_kept_def db_rel_def)

definition ctx_safe :: "('z, 'x) ctx_scheme \<Rightarrow> bool" where
  "ctx_safe cx \<longleftrightarrow> (\<forall>f. cx_credentials cx = Some f \<longrightarrow> credential_source f)"

lemma ctx_safe_shared: "cx_credentials cx = Some (shared_creds token) \<Longrightarrow> ctx_safe cx"
  using shared.credential_source_axioms by (simp add: ctx_safe_def)

section \<open>The gates\<close>

lemma spend_gates_keep:
  assumes "ctx_safe cx"
  shows "calls_kept (spend_gates cx req c p m)" "db_rel same_books (spend_gates cx req c p m)"
proof -
  have creds: "calls_kept (f a)" "db_rel same_books (f a)" if "cx_credentials cx = Some f" for f a
    using assms that credential_source.creds_calls credential_source.creds_books
    by (auto simp: ctx_safe_def)
  show "calls_kept (spend_gates cx req c p m)"
    unfolding spend_gates_def Let_def
    by (auto intro!: kept_intros creds split: option.splits balance_decision.splits credential_outcome.splits)
  show "db_rel same_books (spend_gates cx req c p m)"
    unfolding spend_gates_def Let_def
    by (auto intro!: books_intros creds read_only_books [OF get_ops_read_only(11)]
        read_only_books [OF get_ops_read_only(5)]
        split: option.splits balance_decision.splits credential_outcome.splits)
qed

lemma chat_admit_keep:
  assumes "ctx_safe cx"
  shows "calls_kept (chat_admit cx rq)" "db_rel same_books (chat_admit cx rq)"
  using spend_gates_keep [OF assms] require_caller_keeps books_limiter
  unfolding chat_admit_def Let_def
  by (auto intro!: kept_intros books_intros split: sum.splits)

text \<open>What a job owes to the stored state: the caller's key and rows, the plan, the model and its
  price, and the spend decision.\<close>

definition admitted :: "('z, 'x) ctx_scheme \<Rightarrow> request \<Rightarrow> db \<Rightarrow> chat_job \<Rightarrow> bool" where
  "admitted cx rq d job \<longleftrightarrow>
     (\<exists>body. read_json_body MAX_BODY_BYTES rq = Inr body \<and> parse_chat_request body = Inr (cj_request job))
   \<and> (\<exists>secret. bearer_from_request rq = Some (format_client_key (cl_key_id (cj_client job)) secret)
        \<and> cl_secret_hash (cj_client job) = sha256_hex (cx_sha256 cx) secret)
   \<and> cj_client job \<in> set (t_clients d) \<and> cl_revoked_at (cj_client job) = None
   \<and> cj_account job \<in> set (t_accounts d) \<and> ac_id (cj_account job) = cl_account_id (cj_client job)
   \<and> ac_suspended_at (cj_account job) = None
   \<and> (\<exists>row \<in> set (t_plans d). pr_id row = ac_plan_id (cj_account job) \<and> plan_from_row row = Inr (cj_plan job))
   \<and> find_model (vr_model (cj_request job)) = Some (cj_model job) \<and> ce_modality (cj_model job) = Chat
   \<and> entitles_tier (cj_plan job) (ce_tier (cj_model job))
   \<and> (vr_stream (cj_request job) \<longrightarrow> ce_streaming (cj_model job))
   \<and> resolve_price (cj_model job) (lookup mp_model_id (ce_id (cj_model job)) (t_prices d)) = Some (cj_price job)
   \<and> cx_runner cx = Some (cj_run job)
   \<and> cj_period_key job = period_key (cx_now cx)
   \<and> cj_allowance_before job =
       allowance_spent (lookup period_key_of (ac_id (cj_account job), cj_period_key job) (t_periods d))
   \<and> (\<exists>r a c. decide_balance (chat_pools (cj_account job) (cj_plan job) (cj_allowance_before job)) = BalAllow r a c)
   \<and> cj_max_tokens job = effective_max_tokens (map_option NInt (vr_max_tokens (cj_request job)))
       (plan_max_output_tokens (cj_plan job)) (ce_max_output_tokens (cj_model job))"

lemma model_gate_Inr:
  "model_gate rid req p = Inr m \<Longrightarrow> find_model (vr_model req) = Some m \<and> ce_modality m = Chat
     \<and> entitles_tier p (ce_tier m) \<and> (vr_stream req \<longrightarrow> ce_streaming m)"
  by (auto simp: model_gate_def split: option.splits if_splits)

lemma get_model_price_result:
  "get_model_price i w = (Inr x, w') \<Longrightarrow> w_db w' = w_db w \<and> x = lookup mp_model_id i (t_prices (w_db w))"
  by (auto simp: get_model_price_def dest: query_result)

lemma get_period_result:
  "get_period a k w = (Inr x, w') \<Longrightarrow> w_db w' = w_db w \<and> x = lookup period_key_of (a, k) (t_periods (w_db w))"
  by (auto simp: get_period_def dest: query_result)

lemma spend_gates_Inr:
  assumes "spend_gates cx req c p m w = (Inr (Inr job), w')"
  shows "cj_request job = req \<and> cj_client job = ca_client c \<and> cj_account job = ca_account c
    \<and> cj_plan job = p \<and> cj_model job = m
    \<and> resolve_price m (lookup mp_model_id (ce_id m) (t_prices (w_db w))) = Some (cj_price job)
    \<and> cx_runner cx = Some (cj_run job) \<and> cj_period_key job = period_key (cx_now cx)
    \<and> cj_allowance_before job =
        allowance_spent (lookup period_key_of (ac_id (ca_account c), cj_period_key job) (t_periods (w_db w)))
    \<and> (\<exists>r a k. decide_balance (chat_pools (ca_account c) p (cj_allowance_before job)) = BalAllow r a k)
    \<and> cj_max_tokens job = effective_max_tokens (map_option NInt (vr_max_tokens req))
        (plan_max_output_tokens p) (ce_max_output_tokens m)"
  using assms unfolding spend_gates_def Let_def
  by (elim bindM_InrE)
     (auto split: option.splits balance_decision.splits credential_outcome.splits elim!: bindM_InrE
           dest!: get_model_price_result get_period_result)

lemma require_caller_Inr:
  assumes "require_caller f rid rq w = (Inr (Inr c), w')"
  shows "(\<exists>secret. bearer_from_request rq = Some (format_client_key (cl_key_id (ca_client c)) secret)
        \<and> cl_secret_hash (ca_client c) = sha256_hex f secret)
    \<and> ca_client c \<in> set (t_clients (w_db w)) \<and> cl_revoked_at (ca_client c) = None
    \<and> ca_account c \<in> set (t_accounts (w_db w)) \<and> ac_id (ca_account c) = cl_account_id (ca_client c)
    \<and> ac_suspended_at (ca_account c) = None
    \<and> ca_plan c \<in> set (t_plans (w_db w)) \<and> pr_id (ca_plan c) = ac_plan_id (ca_account c)
    \<and> w_db w' = w_db w"
proof -
  obtain w1 where r: "resolve_client f rq w = (Inr (Inr c), w1)"
    and t: "w_db w' = w_db w1"
    using assms unfolding require_caller_def
    by (elim bindM_InrE) (auto simp: bindM_def wait_until_def split: sum.splits)
  from resolved_caller [OF r] t show ?thesis by auto
qed

lemma chat_admit_Inr:
  assumes "chat_admit cx rq w = (Inr (Inr job), w')"
  shows "admitted cx rq (w_db w) job"
proof -
  obtain body req where b: "read_json_body MAX_BODY_BYTES rq = Inr body" "parse_chat_request body = Inr req"
    using assms by (auto simp: chat_admit_def Let_def split: sum.splits)
  have run: "bindM (require_caller (cx_sha256 cx) (cx_request_id cx) rq) (\<lambda>authed.
      case authed of
        Inl resp \<Rightarrow> retM (Inl resp)
      | Inr c \<Rightarrow>
     (case plan_from_row (ca_plan c) of
        Inl field \<Rightarrow> retM (Inl (error_response (cx_request_id cx) Unavailable))
      | Inr p \<Rightarrow>
      bindM (check_rate_limit (inference_bucket (ac_id (ca_account c)))
               (plan_requests_per_minute p) RATE_WINDOW_SECONDS) (\<lambda>rate.
      if \<not> rl_allowed rate then
        retM (Inl (error_response_with (cx_request_id cx) Rate_limited []
                     [(''retry-after'', dec_of_int (rl_retry_after rate))]))
      else
     (case model_gate (cx_request_id cx) req p of
        Inl resp \<Rightarrow> retM (Inl resp)
      | Inr m \<Rightarrow> spend_gates cx req c p m)))) w = (Inr (Inr job), w')"
    using assms b by (simp add: chat_admit_def Let_def)
  obtain c p w1 where c: "require_caller (cx_sha256 cx) (cx_request_id cx) rq w = (Inr (Inr c), w1)"
      "plan_from_row (ca_plan c) = Inr p"
    and run1: "bindM (check_rate_limit (inference_bucket (ac_id (ca_account c)))
               (plan_requests_per_minute p) RATE_WINDOW_SECONDS) (\<lambda>rate.
      if \<not> rl_allowed rate then
        retM (Inl (error_response_with (cx_request_id cx) Rate_limited []
                     [(''retry-after'', dec_of_int (rl_retry_after rate))]))
      else
     (case model_gate (cx_request_id cx) req p of
        Inl resp \<Rightarrow> retM (Inl resp)
      | Inr m \<Rightarrow> spend_gates cx req c p m)) w1 = (Inr (Inr job), w')"
    using run by (elim bindM_InrE) (auto split: sum.splits)
  obtain rate m w2 where r: "check_rate_limit (inference_bucket (ac_id (ca_account c)))
               (plan_requests_per_minute p) RATE_WINDOW_SECONDS w1 = (Inr rate, w2)"
    and m: "model_gate (cx_request_id cx) req p = Inr m" "spend_gates cx req c p m w2 = (Inr (Inr job), w')"
    using run1 by (elim bindM_InrE) (auto split: sum.splits if_splits)
  note caller = require_caller_Inr [OF c(1)]
  have "same_books (w_db w) (w_db w2)"
    using db_relD [OF books_limiter, of w1] r caller by (metis snd_conv)
  then have tables: "t_prices (w_db w2) = t_prices (w_db w)" "t_periods (w_db w2) = t_periods (w_db w)"
    by (simp_all add: same_books_def)
  show ?thesis
    using b caller c(2) model_gate_Inr [OF m(1)] spend_gates_Inr [OF m(2)]
    unfolding admitted_def tables by auto
qed

section \<open>Spending\<close>

lemma build_event_keeps:
  "calls_kept (build_event job e)" "read_only (build_event job e)"
  unfolding build_event_def read_only_def get_period_def Let_def
  by (intro kept_intros read_only_intros)+

lemma calls_kept_record_quietly: "calls_kept (record_quietly e)"
  unfolding record_quietly_def by (intro kept_intros)

lemma calls_kept_answer: "calls_kept (answer_buffered cx job body log_id)"
  unfolding answer_buffered_def Let_def
  by (auto intro!: kept_intros build_event_keeps calls_kept_record_quietly split: sum.splits option.splits)

lemma call_once:
  assumes "\<And>x. calls_kept (k x)"
  shows "cw_calls (snd (bindM (call_model run q) k w)) = cw_calls w @ [q]"
proof (cases "run q")
  case (Inr x)
  then have "bindM (call_model run q) k w = k x (w\<lparr>cw_calls := cw_calls w @ [q]\<rparr>)"
    by (simp add: bindM_def call_model_def)
  with assms [of x] show ?thesis by (simp add: calls_kept_def)
qed (simp add: bindM_def call_model_def)

lemma chat_spend_calls: "cw_calls (snd (chat_spend cx job w)) = cw_calls w @ [model_request cx job]"
  unfolding chat_spend_def
  by (rule call_once) (auto intro!: kept_intros build_event_keeps calls_kept_record_quietly calls_kept_answer
      split: inference_result.splits)

section \<open>A sample deployment\<close>

text \<open>What a request finds when its job is the first of its id and its rows are stored.\<close>

definition job_stored :: "('z, 'x) ctx_scheme \<Rightarrow> chat_job \<Rightarrow> db \<Rightarrow> bool" where
  "job_stored cx job d \<longleftrightarrow>
     has_key ac_id (ac_id (cj_account job)) (t_accounts d) \<and> fk_client d (cl_id (cj_client job))
     \<and> (\<forall>r \<in> set (t_events d). ue_id r \<noteq> new_id ''use'' (cx_use_bytes cx) \<and> ue_request_id r \<noteq> cx_request_id cx)"

definition sample_answer :: js where
  "sample_answer = JObj [(''response'', JStr ''hello''),
     (''usage'', JObj [(''prompt_tokens'', JNum (NInt 3)), (''completion_tokens'', JNum (NInt 2))])]"

definition sample_ctx :: "unit ctx" where
  "sample_ctx = \<lparr>cx_sha256 = id, cx_runner = Some (\<lambda>q. Inr (InfOk sample_answer (Some ''log''))),
     cx_credentials = Some (shared_creds ''token''), cx_request_id = ''req_1'', cx_now = 0,
     cx_use_bytes = ''abcdef''\<rparr>"

definition sample_chat_world :: chat_world where
  "sample_chat_world = \<lparr>w_db = w_db auth_world, w_now = 0, w_sched = [], hw_deferred = [], cw_calls = []\<rparr>"

definition sample_job :: chat_job where
  "sample_job = \<lparr>cj_request = \<lparr>vr_model = ''m'', vr_messages = [\<lparr>ct_role = User, ct_content = ''hi'', ct_images = None\<rparr>],
       vr_max_tokens = None, vr_temperature = None, vr_top_p = None, vr_stream = False,
       vr_image_data_url = None, vr_image_bytes = None\<rparr>,
     cj_client = auth_client, cj_account = auth_account,
     cj_plan = \<lparr>plan_id = ''dev'', plan_name = ''Developer'', plan_signup_credit = 0,
       plan_monthly_included = 0, plan_requests_per_minute = 20, plan_max_output_tokens = 4096,
       plan_allowed_tiers = [Standard]\<rparr>,
     cj_model = hd catalog_chat_1,
     cj_price = \<lparr>tp_input = NInt 1000000, tp_output = NInt 2000000, tp_cached = None, tp_priced_at = []\<rparr>,
     cj_run = (\<lambda>q. Inr (InfOk sample_answer (Some ''log''))), cj_period_key = ''1970-01'',
     cj_allowance_before = 0, cj_token_id = ''shared'', cj_token = ''token'', cj_max_tokens = 4096\<rparr>"

lemma sample_job_stored: "job_stored cx sample_job (w_db sample_chat_world)"
  by (simp add: job_stored_def sample_job_def sample_chat_world_def auth_world_def empty_db_def
      auth_account_def auth_client_def fk_client_def)

lemma sample_quiet: "quiet sample_chat_world"
  by (simp add: quiet_def sample_chat_world_def)

lemma sample_job_price: "price_ok (cj_price sample_job)"
  by (simp add: price_ok_def rate_problem_def sample_job_def)



section \<open>The answer and the ledger\<close>

lemma meter_response_nonneg: "0 \<le> charge_of (meter_response body p)"
proof (cases "meter_response body p")
  case (Metered m u)
  then obtain v where v: "extract_usage body = Some v" "price_usage v p = Metered m u"
    by (auto simp: meter_response_def split: option.splits)
  then have ok: "price_ok p" by (auto simp: price_usage_def price_ok_def split: option.splits)
  have "m = \<lceil>exact_micro_usd v p\<rceil>" using v(2) price_usage_ok [OF ok, of v] by auto
  moreover have "0 \<le> exact_micro_usd v p" using exact_micro_usd_nonneg [OF ok extract_usage_ok [OF v(1)]] .
  ultimately show ?thesis using Metered by (simp add: charge_of_def)
qed (simp add: charge_of_def)

text \<open>The split of a row that the handler builds.\<close>

definition shares_ok :: "usage_event \<Rightarrow> bool" where
  "shares_ok e \<longleftrightarrow> 0 \<le> ue_from_allowance e \<and> 0 \<le> ue_from_credit e \<and>
     (if ue_metered e then ue_from_allowance e + ue_from_credit e = max 0 (ue_micro_usd e)
      else ue_from_allowance e = 0 \<and> ue_from_credit e = 0)"

lemma build_event_quiet:
  assumes "quiet w" "ue_from_allowance e = 0" "ue_from_credit e = 0"
  shows "\<exists>e'. build_event job e w = (Inr e', w) \<and> shares_ok e' \<and>
     (\<exists>a c. e' = e\<lparr>ue_from_allowance := a, ue_from_credit := c\<rparr>)"
proof (cases "\<not> ue_metered e \<or> ue_micro_usd e \<le> 0")
  case True
  then have "build_event job e w = (Inr e, w)" "shares_ok e"
    using assms by (auto simp: build_event_def shares_ok_def)
  moreover have "e = e\<lparr>ue_from_allowance := 0, ue_from_credit := 0\<rparr>" using assms by (cases e) simp
  ultimately show ?thesis by blast
next
  case False
  let ?row = "lookup period_key_of (ac_id (cj_account job), cj_period_key job) (t_periods (w_db w))"
  let ?s = "allocate_charge (NInt (ue_micro_usd e)) (NInt (plan_monthly_included (cj_plan job))) (NInt (allowance_spent ?row))"
  let ?e = "e\<lparr>ue_from_allowance := int_of_num (ca_from_allowance ?s), ue_from_credit := int_of_num (ca_from_credit ?s)\<rparr>"
  have "build_event job e w = (Inr ?e, w)"
    using False assms(1) by (simp add: build_event_def bindM_run get_period_def query_quiet Let_def)
  moreover have "shares_ok ?e"
    using False by (auto simp: shares_ok_def allocate_charge_int Let_def)
  ultimately show ?thesis by blast
qed

lemma record_usage_lands:
  assumes "quiet w" "\<not> event_seen e (w_db w)"
    and "has_key ac_id (ue_account_id e) (t_accounts (w_db w))" "fk_client (w_db w) (ue_client_id e)"
    and "shares_ok e"
  shows "\<exists>d'. record_usage e w = (Inr (), w\<lparr>w_db := d'\<rparr>)
    \<and> t_events d' = t_events (w_db w) @ [usage_event.extend e \<lparr>ue_created_at = secs (w_now w)\<rparr>]
    \<and> (\<forall>a. spent_of d' a = spent_of (w_db w) a + (if a = ue_account_id e then ue_from_credit e else 0))
    \<and> (\<forall>a. has_key ac_id a (t_accounts d') = has_key ac_id a (t_accounts (w_db w)))"
proof -
  obtain d1 d2 where ins: "ins_event (stored_event e) (w_now w) (w_db w) = Some (True, d1)"
    and bump: "bump_period_usage (ue_account_id e) (ue_period_key e)
       (if ue_metered e then ue_micro_usd e else 0) (if ue_metered e then 0 else 1) (event_allowance e) d1 = Some d2"
    and run: "record_usage e w = (Inr (), w\<lparr>w_db := if ue_metered e \<and> event_credit e > 0
                                        then add_spent (event_credit e) (ue_account_id e) d2 else d2\<rparr>)"
    using record_usage_first_quiet [OF assms(1-4)] by blast
  have stored: "stored_event e = e"
    using assms(5) by (cases e) (auto simp: stored_event_def event_allowance_def event_credit_def shares_ok_def)
  have d1: "d1 = (w_db w)\<lparr>t_events := t_events (w_db w) @ [usage_event.extend e \<lparr>ue_created_at = secs (w_now w)\<rparr>]\<rparr>"
    using ins unfolding stored by (auto simp: ins_event_def split: if_splits)
  obtain ps where d2: "d2 = d1\<lparr>t_periods := ps\<rparr>"
    using upsert_period_frame [OF bump [unfolded bump_period_usage_def]] by blast
  have shares: "0 \<le> ue_from_credit e" "\<not> ue_metered e \<Longrightarrow> ue_from_credit e = 0"
    using assms(5) by (auto simp: shares_ok_def)
  have base: "spent_of d2 a = spent_of (w_db w) a" for a by (simp add: d1 d2 spent_of_def)
  have acc: "has_key ac_id (ue_account_id e) (t_accounts d2)" using assms(3) by (simp add: d1 d2)
  have spent: "spent_of (add_spent n (ue_account_id e) d2) a =
      spent_of (w_db w) a + (if a = ue_account_id e then n else 0)" for n a
    using acc base by (simp add: spent_of_add_spent)
  have events: "t_events (add_spent n a d2) = t_events d1" "t_events d2 = t_events d1" for n a
    by (simp_all add: add_spent_def d2)
  have ev: "t_events d1 = t_events (w_db w) @ [usage_event.extend e \<lparr>ue_created_at = secs (w_now w)\<rparr>]"
    by (simp add: d1)
  have keys: "has_key ac_id b (t_accounts (add_spent n a d2)) = has_key ac_id b (t_accounts (w_db w))"
    "has_key ac_id b (t_accounts d2) = has_key ac_id b (t_accounts (w_db w))" for n a b
    by (simp_all add: add_spent_def d1 d2)
  show ?thesis
    unfolding run
    by (rule exI [of _ "if ue_metered e \<and> event_credit e > 0 then add_spent (event_credit e) (ue_account_id e) d2 else d2"])
       (use shares ev in \<open>auto simp: event_credit_def events spent base keys\<close>)
qed

lemma record_quietly_lands:
  assumes "quiet w" "\<not> event_seen e (w_db w)"
    and "has_key ac_id (ue_account_id e) (t_accounts (w_db w))" "fk_client (w_db w) (ue_client_id e)"
    and "shares_ok e"
  shows "\<exists>w'. record_quietly e w = (Inr True, w')
    \<and> t_events (w_db w') = t_events (w_db w) @ [usage_event.extend e \<lparr>ue_created_at = secs (w_now w)\<rparr>]
    \<and> spent_of (w_db w') (ue_account_id e) = spent_of (w_db w) (ue_account_id e) + ue_from_credit e"
  using record_usage_lands [OF assms] by (auto simp: record_quietly_def catchM_def bindM_def)

lemma job_event_fresh:
  assumes "job_stored cx job d" "ue_id e = new_id ''use'' (cx_use_bytes cx)" "ue_request_id e = cx_request_id cx"
  shows "\<not> event_seen e d"
  using assms by (auto simp: job_stored_def event_seen_def has_key_def list_ex_iff)

lemma job_event_simps [simp]:
  "ue_id (job_event cx job u m b r s l) = new_id ''use'' (cx_use_bytes cx)"
  "ue_request_id (job_event cx job u m b r s l) = cx_request_id cx"
  "ue_account_id (job_event cx job u m b r s l) = ac_id (cj_account job)"
  "ue_client_id (job_event cx job u m b r s l) = cl_id (cj_client job)"
  "ue_from_allowance (job_event cx job u m b r s l) = 0"
  "ue_from_credit (job_event cx job u m b r s l) = 0"
  "ue_micro_usd (job_event cx job u m b r s l) = m"
  "ue_metered (job_event cx job u m b r s l) = (b \<noteq> Unpriced)"
  "ue_price_basis (job_event cx job u m b r s l) = b"
  by (simp_all add: job_event_def)

lemma metered_event_simps [simp]:
  "ue_id (metered_event cx job o' l) = new_id ''use'' (cx_use_bytes cx)"
  "ue_request_id (metered_event cx job o' l) = cx_request_id cx"
  "ue_account_id (metered_event cx job o' l) = ac_id (cj_account job)"
  "ue_client_id (metered_event cx job o' l) = cl_id (cj_client job)"
  "ue_from_allowance (metered_event cx job o' l) = 0" "ue_from_credit (metered_event cx job o' l) = 0"
  "ue_micro_usd (metered_event cx job o' l) = charge_of o'"
  "ue_metered (metered_event cx job o' l) = (\<exists>m u. o' = Metered m u)"
  by (simp_all add: metered_event_def charge_of_def split: meter_outcome.splits)

lemma build_and_record:
  assumes "quiet w" "job_stored cx job (w_db w)"
    and "ue_id e = new_id ''use'' (cx_use_bytes cx)" "ue_request_id e = cx_request_id cx"
    and "ue_account_id e = ac_id (cj_account job)" "ue_client_id e = cl_id (cj_client job)"
    and "ue_from_allowance e = 0" "ue_from_credit e = 0"
  shows "\<exists>e' w' a c. build_event job e w = (Inr e', w) \<and> record_quietly e' w = (Inr True, w')
     \<and> e' = e\<lparr>ue_from_allowance := a, ue_from_credit := c\<rparr> \<and> shares_ok e'
     \<and> t_events (w_db w') = t_events (w_db w) @ [usage_event.extend e' \<lparr>ue_created_at = secs (w_now w)\<rparr>]
     \<and> spent_of (w_db w') (ac_id (cj_account job)) = spent_of (w_db w) (ac_id (cj_account job)) + c"
proof -
  obtain e' a c where b: "build_event job e w = (Inr e', w)" "shares_ok e'"
      "e' = e\<lparr>ue_from_allowance := a, ue_from_credit := c\<rparr>"
    using build_event_quiet [OF assms(1,7,8)] by blast
  have "\<not> event_seen e' (w_db w)"
    using job_event_fresh [OF assms(2), of e'] assms(3,4) b(3) by simp
  moreover have "has_key ac_id (ue_account_id e') (t_accounts (w_db w))" "fk_client (w_db w) (ue_client_id e')"
    using assms(2,5,6) b(3) by (simp_all add: job_stored_def)
  ultimately obtain w' where "record_quietly e' w = (Inr True, w')"
      "t_events (w_db w') = t_events (w_db w) @ [usage_event.extend e' \<lparr>ue_created_at = secs (w_now w)\<rparr>]"
      "spent_of (w_db w') (ue_account_id e') = spent_of (w_db w) (ue_account_id e') + ue_from_credit e'"
    using record_quietly_lands [OF assms(1) _ _ _ b(2)] by blast
  with b assms(5) show ?thesis by auto
qed

text \<open>C14. A served completion states what the ledger holds: when the model answered with text and
  nothing failed, exactly one ledger row was added, for this request id, with the charge the header
  gives, split without loss over allowance and credit; the account's recorded spend grew by the
  credit share, and the header reports the spend after it.\<close>
theorem answer_states_the_ledger:
  assumes "quiet w" "job_stored cx job (w_db w)"
    and "cj_run job (model_request cx job) = Inr (InfOk body log_id)"
    and "extract_text body = Inr (Some txt)" "extract_finish_reason body = Inr reason"
    and "outcome = meter_response body (cj_price job)"
  shows "\<exists>resp e w'. chat_spend cx job w = (Inr (ChatAnswer resp), w') \<and> resp_status resp = 200
     \<and> t_events (w_db w') = t_events (w_db w) @ [usage_event.extend e \<lparr>ue_created_at = secs (w_now w)\<rparr>]
     \<and> ue_request_id e = cx_request_id cx \<and> ue_micro_usd e = charge_of outcome
     \<and> 0 \<le> ue_from_allowance e \<and> 0 \<le> ue_from_credit e
     \<and> ue_from_allowance e + ue_from_credit e = charge_of outcome
     \<and> spent_of (w_db w') (ac_id (cj_account job)) = spent_of (w_db w) (ac_id (cj_account job)) + ue_from_credit e
     \<and> get_header ''prism-usage-recorded'' (resp_headers resp) = Some ''true''
     \<and> get_header ''prism-usage-micro-usd'' (resp_headers resp) = Some (dec_of_int (charge_of outcome))
     \<and> get_header ''prism-spent-micro-usd'' (resp_headers resp) =
         Some (dec_of_int (ac_spent (cj_account job) + ue_from_credit e))"
proof -
  let ?w = "w\<lparr>cw_calls := cw_calls w @ [model_request cx job]\<rparr>"
  let ?e = "metered_event cx job outcome log_id"
  have w: "quiet ?w" "job_stored cx job (w_db ?w)" "w_db ?w = w_db w" "w_now ?w = w_now w"
    using assms(1,2) by (simp_all add: quiet_def)
  obtain e w' a c where b: "build_event job ?e ?w = (Inr e, ?w)" "record_quietly e ?w = (Inr True, w')"
      "e = ?e\<lparr>ue_from_allowance := a, ue_from_credit := c\<rparr>" "shares_ok e"
      "t_events (w_db w') = t_events (w_db w) @ [usage_event.extend e \<lparr>ue_created_at = secs (w_now w)\<rparr>]"
      "spent_of (w_db w') (ac_id (cj_account job)) = spent_of (w_db w) (ac_id (cj_account job)) + c"
    using build_and_record [OF w(1,2), of ?e] w(3,4) by auto
  define resp where "resp = json_response (cx_request_id cx) (completion_body cx job txt reason outcome) 200
     (answer_headers job outcome e True)"
  have "chat_spend cx job w = (Inr (ChatAnswer resp), w')"
    using b(1,2) assms(3-6)
    by (simp add: chat_spend_def call_model_def bindM_def answer_buffered_def Let_def resp_def)
  moreover have "ue_from_allowance e + ue_from_credit e = charge_of outcome"
    "0 \<le> ue_from_allowance e" "0 \<le> ue_from_credit e"
    using b(3,4) meter_response_nonneg [of body "cj_price job"] assms(6)
    by (auto simp: shares_ok_def charge_of_def split: if_splits meter_outcome.splits)
  moreover have "get_header k (resp_headers resp) = map_of (answer_headers job outcome e True) k"
    if "k \<notin> {''cache-control'', ''prism-request-id'', ''prism-api-version'', ''content-type''}" for k
    using that by (simp add: resp_def json_response_def base_headers_def) (simp add: get_header_def)
  ultimately show ?thesis
    using b(3,5,6)
    by (intro exI [of _ resp] exI [of _ e] exI [of _ w'])
       (simp add: resp_def json_response_def answer_headers_def money_headers_def Let_def)
qed

lemma sample_answer_reads:
  "extract_text sample_answer = Inr (Some ''hello'')" "extract_finish_reason sample_answer = Inr JNull"
  "charge_of (meter_response sample_answer (cj_price sample_job)) = 7"
  by (subst extract_text.simps) (simp_all add: sample_answer_def extract_finish_reason_def charge_of_def
      meter_response_def extract_usage_def gemini_usage_def openai_usage_def js_nullish_def fold_reasoning_def
      reasoning_tokens_def price_usage_def rate_problem_def sample_job_def exact_micro_usd_def Let_def)

theorem answer_states_the_ledger_witness:
  "\<exists>resp w'. chat_spend sample_ctx sample_job sample_chat_world = (Inr (ChatAnswer resp), w')
     \<and> get_header ''prism-usage-micro-usd'' (resp_headers resp) = Some ''7''
     \<and> length (t_events (w_db w')) = 1"
proof -
  have run: "cj_run sample_job (model_request sample_ctx sample_job) = Inr (InfOk sample_answer (Some ''log''))"
    by (simp add: sample_job_def)
  have none: "t_events (w_db sample_chat_world) = []"
    by (simp add: sample_chat_world_def auth_world_def empty_db_def)
  have seven: "dec_of_int 7 = ''7''"
    by code_simp
  show ?thesis
    using answer_states_the_ledger [OF sample_quiet sample_job_stored run sample_answer_reads(1,2) refl]
    unfolding sample_answer_reads(3) seven by (auto simp: none)
qed

text \<open>C15. A call that failed is not charged: an upstream error leaves the database exactly as it was
  and answers 502; a timeout is written down as one unmetered row that moves no money and answers
  504.\<close>
theorem failed_calls_cost_nothing:
  assumes "quiet w" "job_stored cx job (w_db w)"
  shows "(\<forall>status. cj_run job (model_request cx job) = Inr (InfUpstreamError status) \<longrightarrow>
            (\<exists>resp w'. chat_spend cx job w = (Inr (ChatAnswer resp), w')
               \<and> w_db w' = w_db w \<and> resp_status resp = 502))
       \<and> (\<forall>waited. cj_run job (model_request cx job) = Inr (InfTimeout waited) \<longrightarrow>
            (\<exists>resp w' e. chat_spend cx job w = (Inr (ChatAnswer resp), w') \<and> resp_status resp = 504
               \<and> t_events (w_db w') = t_events (w_db w) @ [usage_event.extend e \<lparr>ue_created_at = secs (w_now w)\<rparr>]
               \<and> \<not> ue_metered e \<and> ue_unmetered_reason e = Some (UpstreamTimedOut waited)
               \<and> spent_of (w_db w') (ac_id (cj_account job)) = spent_of (w_db w) (ac_id (cj_account job))))"
proof (intro conjI allI impI)
  fix status
  assume "cj_run job (model_request cx job) = Inr (InfUpstreamError status)"
  then show "\<exists>resp w'. chat_spend cx job w = (Inr (ChatAnswer resp), w') \<and> w_db w' = w_db w \<and> resp_status resp = 502"
    by (simp add: chat_spend_def call_model_def bindM_def error_response_with_def json_response_def)
next
  fix waited
  assume run: "cj_run job (model_request cx job) = Inr (InfTimeout waited)"
  let ?w = "w\<lparr>cw_calls := cw_calls w @ [model_request cx job]\<rparr>"
  let ?e = "job_event cx job None 0 Unpriced (Some (UpstreamTimedOut waited)) None None"
  have w: "quiet ?w" "job_stored cx job (w_db ?w)" "w_db ?w = w_db w" "w_now ?w = w_now w"
    using assms by (simp_all add: quiet_def)
  obtain e w' a c where b: "build_event job ?e ?w = (Inr e, ?w)" "record_quietly e ?w = (Inr True, w')"
      "e = ?e\<lparr>ue_from_allowance := a, ue_from_credit := c\<rparr>" "shares_ok e"
      "t_events (w_db w') = t_events (w_db w) @ [usage_event.extend e \<lparr>ue_created_at = secs (w_now w)\<rparr>]"
      "spent_of (w_db w') (ac_id (cj_account job)) = spent_of (w_db w) (ac_id (cj_account job)) + c"
    using build_and_record [OF w(1,2), of ?e] w(3,4) by auto
  have "c = 0" using b(3,4) by (auto simp: shares_ok_def)
  moreover have "chat_spend cx job w =
      (Inr (ChatAnswer (error_response (cx_request_id cx) Upstream_timeout)), w')"
    using b(1,2) run by (simp add: chat_spend_def call_model_def bindM_def)
  moreover have "\<not> ue_metered e" "ue_unmetered_reason e = Some (UpstreamTimedOut waited)"
    using b(3) by (simp_all add: job_event_def)
  ultimately show "\<exists>resp w' e. chat_spend cx job w = (Inr (ChatAnswer resp), w') \<and> resp_status resp = 504
               \<and> t_events (w_db w') = t_events (w_db w) @ [usage_event.extend e \<lparr>ue_created_at = secs (w_now w)\<rparr>]
               \<and> \<not> ue_metered e \<and> ue_unmetered_reason e = Some (UpstreamTimedOut waited)
               \<and> spent_of (w_db w') (ac_id (cj_account job)) = spent_of (w_db w) (ac_id (cj_account job))"
    using b(5,6)
    by (intro exI [of _ "error_response (cx_request_id cx) Upstream_timeout"] exI [of _ w'] exI [of _ e])
       (simp add: error_response_with_def json_response_def)
qed

theorem failed_calls_cost_nothing_witness:
  "\<exists>resp w'. chat_spend sample_ctx (sample_job\<lparr>cj_run := \<lambda>q. Inr (InfUpstreamError (Some 429))\<rparr>) sample_chat_world
     = (Inr (ChatAnswer resp), w') \<and> resp_status resp = 502"
proof -
  let ?job = "sample_job\<lparr>cj_run := \<lambda>q. Inr (InfUpstreamError (Some 429))\<rparr>"
  have "job_stored sample_ctx ?job (w_db sample_chat_world)"
    using sample_job_stored [of sample_ctx] by (simp add: job_stored_def)
  from failed_calls_cost_nothing [OF sample_quiet this] show ?thesis by fastforce
qed

text \<open>An answer that was paid for can still be lost: when the period read of \<open>buildEvent\<close> fails, the
  request ends in an exception although the model was called, and no row records it.\<close>

lemma period_read_failure_loses_answer:
  assumes "w_sched w = (FailsBefore, 0) # rest"
    and "cj_run job (model_request cx job) = Inr (InfOk body log_id)" "extract_text body = Inr (Some txt)"
    and "meter_response body (cj_price job) = Metered micro u" "0 < micro"
  shows "fst (chat_spend cx job w) = Inl DbError
       \<and> cw_calls (snd (chat_spend cx job w)) = cw_calls w @ [model_request cx job]
       \<and> w_db (snd (chat_spend cx job w)) = w_db w"
  using assms
  by (simp add: chat_spend_def call_model_def bindM_def answer_buffered_def Let_def build_event_def
      get_period_def query_def stmt_def charge_of_def)

section \<open>Streams\<close>



end
