(* ===== verification/IsoDate.thy ===== *)
theory IsoDate
  imports Period Json
begin

text \<open>
  Date.parse on the date-time string format of ECMA-262, the one toISOString prints, as V8 reads
  it: an expanded year of six digits with its sign, absent month, day and time parts, any number of
  fraction digits of which three count, a day that may run past the end of its month, 24:00, and
  local time equal to UTC.  Texts outside that format are left to each engine by the standard and
  are not a date here.
\<close>

section \<open>Parsing\<close>

definition MAX_TIME_VALUE :: int where
  "MAX_TIME_VALUE = 8640000000000000"

text \<open>Exactly \<open>n\<close> digits.\<close>

definition digits_n :: "nat \<Rightarrow> string \<Rightarrow> (int \<times> string) option" where
  "digits_n n s =
     (if length (take n s) = n \<and> list_all is_digit_char (take n s)
      then Some (int (nat_of_dec (take n s)), drop n s) else None)"

definition parse_year :: "string \<Rightarrow> (int \<times> string) option" where
  "parse_year s =
     (case eat CHR ''+'' s of
        Some r \<Rightarrow> digits_n 6 r
      | None \<Rightarrow>
     (case eat CHR ''-'' s of
        Some r \<Rightarrow> Option.bind (digits_n 6 r) (\<lambda>(y, r'). if y = 0 then None else Some (- y, r'))
      | None \<Rightarrow> digits_n 4 s))"

text \<open>A part after its separator, or its default when the separator is absent.\<close>

definition opt_part :: "char \<Rightarrow> nat \<Rightarrow> int \<Rightarrow> string \<Rightarrow> (int \<times> string) option" where
  "opt_part sep n dflt s = (case eat sep s of None \<Rightarrow> Some (dflt, s) | Some r \<Rightarrow> digits_n n r)"

definition parse_fraction :: "string \<Rightarrow> (int \<times> string) option" where
  "parse_fraction s =
     (case eat CHR ''.'' s of
        None \<Rightarrow> Some (0, s)
      | Some r \<Rightarrow>
          (let (ds, r') = scan_digits r
           in if ds = [] then None else Some (int (nat_of_dec (take 3 (ds @ ''00''))), r')))"

text \<open>The offset from UTC in minutes, at the end of the text.\<close>

definition parse_offset :: "string \<Rightarrow> int option" where
  "parse_offset s =
     (if s = [] \<or> s = ''Z'' then Some 0
      else
        (case (case eat CHR ''+'' s of Some r \<Rightarrow> Some (1, r)
               | None \<Rightarrow> map_option (\<lambda>r. (- 1, r)) (eat CHR ''-'' s)) of
           None \<Rightarrow> None
         | Some (dir, r) \<Rightarrow>
             Option.bind (digits_n 2 r) (\<lambda>(h, r1).
             Option.bind (eat CHR '':'' r1) (\<lambda>r2.
             Option.bind (digits_n 2 r2) (\<lambda>(m, r3).
               if r3 = [] \<and> h \<le> 23 \<and> m \<le> 59 then Some (dir * (60 * h + m)) else None)))))"

text \<open>The milliseconds of a time of day after its T.\<close>

definition parse_time :: "string \<Rightarrow> int option" where
  "parse_time s =
     Option.bind (digits_n 2 s) (\<lambda>(h, r1).
     Option.bind (eat CHR '':'' r1) (\<lambda>r2.
     Option.bind (digits_n 2 r2) (\<lambda>(mi, r3).
     Option.bind (opt_part CHR '':'' 2 0 r3) (\<lambda>(sec, r4).
     Option.bind (if eat CHR '':'' r3 = None then Some (0, r4) else parse_fraction r4) (\<lambda>(ms, r5).
     Option.bind (parse_offset r5) (\<lambda>off.
       if (h \<le> 23 \<or> (h = 24 \<and> mi = 0 \<and> sec = 0 \<and> ms = 0)) \<and> mi \<le> 59 \<and> sec \<le> 59
       then Some (((h * 60 + mi) * 60 + sec) * 1000 + ms - off * 60000) else None))))))"

text \<open>\<open>Date.parse(s)\<close>, with \<open>None\<close> for NaN.\<close>

definition date_parse :: "string \<Rightarrow> int option" where
  "date_parse s =
     Option.bind (parse_year s) (\<lambda>(y, r1).
     Option.bind (opt_part CHR ''-'' 2 1 r1) (\<lambda>(mo, r2).
     Option.bind (opt_part CHR ''-'' 2 1 r2) (\<lambda>(dom, r3).
     Option.bind (case eat CHR ''T'' r3 of None \<Rightarrow> (if r3 = [] then Some 0 else None)
                  | Some r4 \<Rightarrow> parse_time r4) (\<lambda>tod.
       let t = (make_day y (mo - 1) + dom - 1) * ms_per_day + tod in
       if 1 \<le> mo \<and> mo \<le> 12 \<and> 1 \<le> dom \<and> dom \<le> 31 \<and> \<bar>t\<bar> \<le> MAX_TIME_VALUE then Some t else None))))"

lemma date_parse_examples:
  "date_parse ''2026-08-05T00:00:00.123Z'' = Some 1785888000123"
  "date_parse ''2026-08'' = Some 1785542400000"
  "date_parse ''2026-08-05T02:00:00.1234567+02:00'' = Some 1785888000123"
  "date_parse ''2026-13-05'' = None" "date_parse '''' = None" "date_parse ''yesterday'' = None"
  "date_parse ''-000000-01-01'' = None" "date_parse ''2026-08-05T25:00Z'' = None"
  by code_simp+

section \<open>Printing and parsing again\<close>

lemma dec_of_nat_length: "k < 10 ^ n \<Longrightarrow> 0 < n \<Longrightarrow> length (dec_of_nat k) \<le> n"
proof (induction n arbitrary: k)
  case (Suc n)
  show ?case
  proof (cases "k < 10")
    case True
    then show ?thesis by (subst dec_of_nat.simps) simp
  next
    case False
    with Suc.prems have "0 < n" by (cases n) auto
    moreover have "k div 10 < 10 ^ n" using Suc.prems by simp
    ultimately have "length (dec_of_nat (k div 10)) \<le> n" by (rule Suc.IH [rotated])
    with False show ?thesis by (subst dec_of_nat.simps) simp
  qed
qed simp

lemma pad_digits:
  assumes "0 \<le> k" "k < 10 ^ n" "0 < n"
  shows "length (pad_zero n (dec_of_int k)) = n" "list_all is_digit_char (pad_zero n (dec_of_int k))"
    "nat_of_dec (pad_zero n (dec_of_int k)) = nat k"
proof -
  have "nat k < 10 ^ n" using assms by (simp add: nat_less_iff)
  then have "length (dec_of_nat (nat k)) \<le> n" using dec_of_nat_length assms by blast
  then show "length (pad_zero n (dec_of_int k)) = n"
    using assms by (simp add: pad_zero_def dec_of_int_def)
  show "list_all is_digit_char (pad_zero n (dec_of_int k))"
    using assms dec_of_nat_digits [of _ "nat k"]
    by (auto simp: pad_zero_def dec_of_int_def list_all_iff is_digit_char_def ord_of_def)
  show "nat_of_dec (pad_zero n (dec_of_int k)) = nat k"
    using assms by (simp add: pad_zero_def dec_of_int_def nat_of_dec_zeros)
qed

lemma digits_n_pad [simp]:
  "0 \<le> k \<Longrightarrow> k < 10 ^ n \<Longrightarrow> 0 < n \<Longrightarrow> digits_n n (pad_zero n (dec_of_int k) @ r) = Some (k, r)"
  using pad_digits [of k n] by (simp add: digits_n_def)

lemma eat_digit:
  assumes "0 \<le> k" "k < 10 ^ n" "0 < n" "\<not> is_digit_char c"
  shows "eat c (pad_zero n (dec_of_int k) @ r) = None"
proof (cases "pad_zero n (dec_of_int k)")
  case Nil
  with pad_digits(1) [of k n] assms show ?thesis by simp
next
  case (Cons x xs)
  with pad_digits(2) [of k n] assms have "is_digit_char x" by simp
  with Cons assms(4) show ?thesis by auto
qed

lemma parse_iso_year:
  assumes "\<bar>y\<bar> < 1000000"
  shows "parse_year (iso_year y @ r) = Some (y, r)"
proof -
  have sgn: "\<not> is_digit_char CHR ''+''" "\<not> is_digit_char CHR ''-''"
    by (simp_all add: is_digit_char_def ord_of_def)
  consider "0 \<le> y \<and> y \<le> 9999" | "9999 < y" | "y < 0" by linarith
  then show ?thesis
  proof cases
    case 1
    then show ?thesis
      using sgn by (simp add: parse_year_def iso_year_def eat_digit)
  next
    case 2
    then show ?thesis using assms by (simp add: parse_year_def iso_year_def)
  next
    case 3
    then show ?thesis using assms by (simp add: parse_year_def iso_year_def)
  qed
qed

lemma time_of_day:
  fixes tod :: int
  assumes "0 \<le> tod" "tod < 86400000"
  shows "0 \<le> tod div 3600000" "tod div 3600000 \<le> 23"
    "((tod div 3600000 * 60 + tod div 60000 mod 60) * 60 + tod div 1000 mod 60) * 1000 + tod mod 1000 = tod"
proof -
  show "0 \<le> tod div 3600000" using assms by simp
  show "tod div 3600000 \<le> 23" using zdiv_mono1 [of tod 86399999 3600000] assms by simp
  have "tod div 60000 div 60 = tod div 3600000" by (simp add: div_mult2_eq [symmetric] zdiv_zmult2_eq)
  moreover have "tod div 1000 div 60 = tod div 60000" by (simp add: zdiv_zmult2_eq [symmetric])
  ultimately show "((tod div 3600000 * 60 + tod div 60000 mod 60) * 60 + tod div 1000 mod 60) * 1000
      + tod mod 1000 = tod"
    by (metis div_mult_mod_eq)
qed


lemma parse_time_parts:
  fixes h mi sec ms :: int
  assumes h: "0 \<le> h" "h \<le> 23" and mi: "0 \<le> mi" "mi < 60" and sec: "0 \<le> sec" "sec < 60"
    and ms: "0 \<le> ms" "ms < 1000"
  shows "parse_time (pad_zero 2 (dec_of_int h) @ CHR '':'' # pad_zero 2 (dec_of_int mi) @ CHR '':'' #
      pad_zero 2 (dec_of_int sec) @ CHR ''.'' # pad_zero 3 (dec_of_int ms) @ ''Z'') =
    Some (((h * 60 + mi) * 60 + sec) * 1000 + ms)"
proof -
  let ?ms = "pad_zero 3 (dec_of_int ms)"
  have d: "length ?ms = 3" "list_all is_digit_char ?ms" "nat_of_dec ?ms = nat ms"
    using pad_digits [of ms 3] ms by simp_all
  have z: "\<not> is_digit_char CHR ''Z''" by (simp add: is_digit_char_def ord_of_def)
  have sc: "scan_digits (?ms @ ''Z'') = (?ms, ''Z'')"
    using d(2) z by (simp add: scan_digits_def list_all_iff takeWhile_append dropWhile_append)
  have "?ms \<noteq> []" using d(1) by auto
  then have frac: "parse_fraction (CHR ''.'' # ?ms @ ''Z'') = Some (ms, ''Z'')"
    using sc d ms by (simp add: parse_fraction_def)
  show ?thesis
    using assms by (simp add: parse_time_def opt_part_def frac parse_offset_def)
qed

lemma parse_time_of_iso:
  fixes tod :: int
  assumes "0 \<le> tod" "tod < 86400000"
  shows "parse_time (pad_zero 2 (dec_of_int (tod div 3600000)) @ CHR '':'' #
      pad_zero 2 (dec_of_int (tod div 60000 mod 60)) @ CHR '':'' #
      pad_zero 2 (dec_of_int (tod div 1000 mod 60)) @ CHR ''.'' #
      pad_zero 3 (dec_of_int (tod mod 1000)) @ ''Z'') = Some tod"
proof -
  note t = time_of_day [OF assms]
  show ?thesis
    by (subst parse_time_parts) (rule t(1), rule t(2), simp, simp, simp, simp, simp, simp, simp only: t(3))
qed

lemma day_range:
  assumes "\<bar>t\<bar> \<le> MAX_TIME_VALUE"
  shows "\<bar>utc_full_year t\<bar> < 1000000"
proof -
  let ?y = "utc_full_year t"
  have d: "- 100000000 \<le> day_of t" "day_of t \<le> 100000000"
    using day_of_le_iff [of "-100000000" t] day_of_less_iff [of t 100000001] assms
    unfolding MAX_TIME_VALUE_def ms_per_day_def by linarith+
  have b: "day_from_year ?y \<le> day_of t" "day_of t < day_from_year (?y + 1)"
    using year_of_day_bounds [of "day_of t"] by (simp_all add: utc_full_year_def)
  have mono: "x \<le> z \<Longrightarrow> day_from_year x \<le> day_from_year z" for x z
    using day_from_year_less [of x z] by (cases "x = z") auto
  have "day_from_year 1000000 > 100000000" "day_from_year (- 999999) < - 100000000"
    by (simp_all add: day_from_year_def)
  then have "\<not> 1000000 \<le> ?y" "\<not> ?y + 1 \<le> - 999999" using b d mono by (smt (verit))+
  then show ?thesis by linarith
qed

lemma month_length: "month_day (n + 1) \<le> month_day n + 31"
proof -
  let ?y = "n div 12" and ?m = "n mod 12"
  have n: "n = 12 * ?y + ?m" by simp
  have m: "0 \<le> ?m" "?m \<le> 11" using pos_mod_bound [of 12 n] by auto
  have "cum_days b (?m + 1) \<le> cum_days b ?m + 31" for b
    using m by (cases b) (auto simp: cum_days_def)
  then show ?thesis
    using m month_day_eq [of ?m ?y] month_day_eq [of "?m + 1" ?y] by (simp add: add.assoc)
qed

text \<open>Date.parse inverts toISOString on every instant a Date can hold.\<close>

lemma date_parse_iso:
  assumes "\<bar>t\<bar> \<le> MAX_TIME_VALUE"
  shows "date_parse (to_iso_string t) = Some t"
proof -
  let ?y = "utc_full_year t" and ?m = "utc_month t"
  let ?dom = "day_of t - make_day ?y ?m + 1" and ?tod = "t mod ms_per_day"
  have md: "make_day ?y ?m = month_day (month_index t)"
    by (simp add: make_day_month_day month_index_def)
  have dom: "1 \<le> ?dom" "?dom \<le> 31"
    using month_index_bounds [of t] month_length [of "month_index t"] by (simp_all add: md)
  have m: "0 \<le> ?m" "?m \<le> 11" using utc_month_range [of t] by auto
  have tod: "0 \<le> ?tod" "?tod < 86400000" by (simp_all add: ms_per_day_def)
  have t: "(make_day ?y ?m + ?dom - 1) * ms_per_day + ?tod = t"
    by (simp add: day_of_def)
  show ?thesis
    using parse_time_of_iso [OF tod] parse_iso_year [OF day_range [OF assms]] dom m assms t
    by (simp add: to_iso_string_def date_parse_def Let_def opt_part_def)
qed

end
