(* ===== verification/Reconcile.thy ===== *)
theory Reconcile
  imports Store IsoDate
begin

text \<open>
  src/src/reconcile.ts: what a gateway log row means for one ledger row, the totals of a run and
  the next watermark.  Pure, like the source.  The operator prose of a refusal is left out.  An
  instant the source prints with toISOString is kept as its epoch milliseconds; the timestamps of
  gateway rows and the current floor are texts, read by Date.parse where the source reads them.
\<close>

section \<open>Rows\<close>

text \<open>\<open>GatewayLogRow\<close> of src/src/aig-logs.ts.\<close>

record gateway_log_row =
  gl_id          :: string
  gl_created_at  :: string
  gl_model       :: "string option"
  gl_provider    :: "string option"
  gl_status_code :: "int option"
  gl_success     :: "bool option"
  gl_cached      :: bool
  gl_tokens_in   :: "int option"
  gl_tokens_out  :: "int option"
  gl_cost        :: "int option"
  gl_request_id  :: "string option"
  gl_account_id  :: "string option"

record ledger_estimate =
  le_id         :: string
  le_request_id :: string
  le_account_id :: string
  le_period_key :: string
  le_model_id   :: string
  le_micro_usd  :: int
  le_metered    :: bool

datatype skip_reason = NoRequestId | Cached | UnknownCost | NoLedgerRow | AccountMismatch

record adjustment =
  ad_direction :: adjust_direction
  ad_applied   :: int
  ad_delta     :: int
  ad_estimate  :: int
  ad_gateway   :: int
  ad_event     :: ledger_estimate

datatype reconcile_outcome =
    Adjust adjustment
  | InAgreement int ledger_estimate
  | Skipped skip_reason

record reconcile_decision =
  rd_log     :: gateway_log_row
  rd_outcome :: reconcile_outcome

text \<open>A string that is neither null nor empty.\<close>

definition truthy_text :: "string option \<Rightarrow> bool" where
  "truthy_text s = (s \<noteq> None \<and> s \<noteq> Some [])"

definition estimate_of :: "ledger_estimate \<Rightarrow> int" where
  "estimate_of ev = (if le_metered ev then le_micro_usd ev else 0)"

definition decide_adjustment :: "gateway_log_row \<Rightarrow> ledger_estimate option \<Rightarrow> reconcile_outcome" where
  "decide_adjustment row event =
     (if \<not> truthy_text (gl_request_id row) then Skipped NoRequestId
      else if gl_cached row then Skipped Cached
      else case gl_cost row of
        None \<Rightarrow> Skipped UnknownCost
      | Some gateway \<Rightarrow>
     (case event of
        None \<Rightarrow> Skipped NoLedgerRow
      | Some ev \<Rightarrow>
          if truthy_text (gl_account_id row) \<and> gl_account_id row \<noteq> Some (le_account_id ev)
          then Skipped AccountMismatch
          else
            (let estimate = estimate_of ev; delta = gateway - estimate
             in if delta = 0 then InAgreement gateway ev
                else Adjust \<lparr>ad_direction = (if delta > 0 then Spend else Credit),
                       ad_applied = \<bar>delta\<bar>, ad_delta = delta, ad_estimate = estimate,
                       ad_gateway = gateway, ad_event = ev\<rparr>)))"

definition adjustment_idempotency_key :: "string \<Rightarrow> string" where
  "adjustment_idempotency_key i = ''aig:'' @ i"

lemma adjustment_idempotency_key_inj [simp]:
  "adjustment_idempotency_key a = adjustment_idempotency_key b \<longleftrightarrow> a = b"
  by (simp add: adjustment_idempotency_key_def)

section \<open>Totals\<close>

record reconcile_totals =
  rt_rows             :: nat
  rt_in_agreement     :: nat
  rt_adjusted_spend   :: nat
  rt_adjusted_credit  :: nat
  rt_spend_micro_usd  :: int
  rt_credit_micro_usd :: int
  rt_no_request_id    :: nat
  rt_cached           :: nat
  rt_unknown_cost     :: nat
  rt_no_ledger_row    :: nat
  rt_account_mismatch :: nat

definition empty_totals :: reconcile_totals where
  "empty_totals = \<lparr>rt_rows = 0, rt_in_agreement = 0, rt_adjusted_spend = 0, rt_adjusted_credit = 0,
     rt_spend_micro_usd = 0, rt_credit_micro_usd = 0, rt_no_request_id = 0, rt_cached = 0,
     rt_unknown_cost = 0, rt_no_ledger_row = 0, rt_account_mismatch = 0\<rparr>"

fun count_skip :: "skip_reason \<Rightarrow> reconcile_totals \<Rightarrow> reconcile_totals" where
  "count_skip NoRequestId t = t\<lparr>rt_no_request_id := rt_no_request_id t + 1\<rparr>"
| "count_skip Cached t = t\<lparr>rt_cached := rt_cached t + 1\<rparr>"
| "count_skip UnknownCost t = t\<lparr>rt_unknown_cost := rt_unknown_cost t + 1\<rparr>"
| "count_skip NoLedgerRow t = t\<lparr>rt_no_ledger_row := rt_no_ledger_row t + 1\<rparr>"
| "count_skip AccountMismatch t = t\<lparr>rt_account_mismatch := rt_account_mismatch t + 1\<rparr>"

definition tally_one :: "reconcile_decision \<Rightarrow> reconcile_totals \<Rightarrow> reconcile_totals" where
  "tally_one d t0 =
     (let t = t0\<lparr>rt_rows := rt_rows t0 + 1\<rparr> in
      case rd_outcome d of
        InAgreement _ _ \<Rightarrow> t\<lparr>rt_in_agreement := rt_in_agreement t + 1\<rparr>
      | Adjust a \<Rightarrow>
          (if ad_direction a = Spend
           then t\<lparr>rt_adjusted_spend := rt_adjusted_spend t + 1,
                  rt_spend_micro_usd := rt_spend_micro_usd t + ad_applied a\<rparr>
           else t\<lparr>rt_adjusted_credit := rt_adjusted_credit t + 1,
                  rt_credit_micro_usd := rt_credit_micro_usd t + ad_applied a\<rparr>)
      | Skipped r \<Rightarrow> count_skip r t)"

definition tally :: "reconcile_decision list \<Rightarrow> reconcile_totals" where
  "tally ds = foldl (\<lambda>t d. tally_one d t) empty_totals ds"

section \<open>The watermark\<close>

definition SETTLE_MS :: int where
  "SETTLE_MS = 15 * 60 * 1000"

definition MAX_ROWS_PER_RUN :: nat where
  "MAX_ROWS_PER_RUN = 2000"

definition next_watermark :: "string \<Rightarrow> string option \<Rightarrow> int \<Rightarrow> int option" where
  "next_watermark current newest now =
     (let ceiling_ms = now - SETTLE_MS;
          newest_ms = Option.bind newest date_parse;
          candidate = (case newest_ms of
             Some n \<Rightarrow> if n < ceiling_ms then n else ceiling_ms | None \<Rightarrow> ceiling_ms)
      in case date_parse current of
           Some c \<Rightarrow> if candidate \<le> c then None else Some candidate
         | None \<Rightarrow> Some candidate)"

lemma next_watermark_bounds:
  assumes "next_watermark current newest now = Some t"
  shows "t \<le> now - SETTLE_MS" "date_parse current = Some c \<Longrightarrow> c < t"
    "\<exists>n. newest = Some n \<and> date_parse n = Some t' \<Longrightarrow> t \<le> t'"
  using assms by (auto simp: next_watermark_def Let_def split: option.splits if_splits)

section \<open>Properties\<close>

text \<open>A true-up that moves the ledger's charge to the biller's.\<close>

definition true_up :: "adjustment \<Rightarrow> bool" where
  "true_up a \<longleftrightarrow> 0 < ad_applied a \<and>
     (if ad_direction a = Spend then ad_estimate a + ad_applied a = ad_gateway a
      else ad_estimate a - ad_applied a = ad_gateway a)
     \<and> ad_delta a = ad_gateway a - ad_estimate a"

lemma decide_adjustment_Adjust:
  assumes "decide_adjustment row event = Adjust a"
  shows "true_up a" "event = Some (ad_event a)" "gl_cost row = Some (ad_gateway a)"
    "ad_estimate a = estimate_of (ad_event a)" "truthy_text (gl_request_id row)" "\<not> gl_cached row"
    "truthy_text (gl_account_id row) \<Longrightarrow> gl_account_id row = Some (le_account_id (ad_event a))"
  using assms
  by (auto simp: decide_adjustment_def true_up_def Let_def split: if_splits option.splits)

text \<open>The five refusals with their conditions, in order of certainty.\<close>

definition refusals :: "gateway_log_row \<Rightarrow> ledger_estimate option \<Rightarrow> (skip_reason \<times> bool) list" where
  "refusals row event =
     [(NoRequestId, \<not> truthy_text (gl_request_id row)),
      (Cached, gl_cached row),
      (UnknownCost, gl_cost row = None),
      (NoLedgerRow, event = None),
      (AccountMismatch, truthy_text (gl_account_id row)
         \<and> gl_account_id row \<noteq> map_option le_account_id event)]"

definition refusal :: "gateway_log_row \<Rightarrow> ledger_estimate option \<Rightarrow> skip_reason option" where
  "refusal row event = map_option fst (List.find snd (refusals row event))"

text \<open>A gateway row is refused for the first of the five reasons that applies and for no other
  cause.  A row that is not refused moves money exactly when the biller's amount differs from the
  ledger's estimate, which is zero for an unmetered row; the amount moved is then positive and
  takes the estimate to the biller's figure, upwards as spend and downwards as credit.\<close>

lemma decide_adjustment_verdict:
  "(\<forall>r. decide_adjustment row event = Skipped r \<longleftrightarrow> refusal row event = Some r)
   \<and> (\<forall>n ev. decide_adjustment row event = InAgreement n ev \<longleftrightarrow>
        refusal row event = None \<and> event = Some ev \<and> gl_cost row = Some n \<and> n = estimate_of ev)
   \<and> (\<forall>a. decide_adjustment row event = Adjust a \<longleftrightarrow>
        refusal row event = None \<and> event = Some (ad_event a) \<and> gl_cost row = Some (ad_gateway a)
        \<and> ad_estimate a = estimate_of (ad_event a) \<and> true_up a)"
proof (intro conjI allI)
  show "decide_adjustment row event = Skipped r \<longleftrightarrow> refusal row event = Some r" for r
    by (auto simp: decide_adjustment_def refusal_def refusals_def Let_def split: option.splits)
  show "decide_adjustment row event = InAgreement n ev \<longleftrightarrow>
      refusal row event = None \<and> event = Some ev \<and> gl_cost row = Some n \<and> n = estimate_of ev" for n ev
    by (auto simp: decide_adjustment_def refusal_def refusals_def Let_def split: option.splits)
  show "decide_adjustment row event = Adjust a \<longleftrightarrow>
      refusal row event = None \<and> event = Some (ad_event a) \<and> gl_cost row = Some (ad_gateway a)
      \<and> ad_estimate a = estimate_of (ad_event a) \<and> true_up a" for a
  proof -
    have eq: "b = a" if "true_up a" "true_up b" "ad_gateway a = ad_gateway b"
        "ad_estimate a = ad_estimate b" "ad_event a = ad_event b" for b
    proof -
      have "ad_direction a = ad_direction b"
        using that by (cases "ad_direction a"; cases "ad_direction b") (auto simp: true_up_def)
      with that show ?thesis by (cases a; cases b) (auto simp: true_up_def split: if_splits)
    qed
    have "\<exists>b. decide_adjustment row event = Adjust b"
      if "refusal row event = None" "event = Some ev" "gl_cost row = Some g" "g \<noteq> estimate_of ev" for ev g
      using that by (auto simp: decide_adjustment_def refusal_def refusals_def Let_def split: if_splits)
    moreover have "ad_gateway a \<noteq> ad_estimate a" if "true_up a"
      using that by (auto simp: true_up_def split: if_splits)
    moreover have "refusal row event = None" if "decide_adjustment row event = Adjust b" for b
      using that by (auto simp: decide_adjustment_def refusal_def refusals_def Let_def split: option.splits if_splits)
    ultimately show ?thesis
      using decide_adjustment_Adjust [of row event] eq by (metis option.inject)
  qed
qed

text \<open>Every row is counted once, and the two sums differ by what the true-ups move.\<close>

definition net_move :: "reconcile_decision \<Rightarrow> int" where
  "net_move d = (case rd_outcome d of Adjust a \<Rightarrow> ad_gateway a - ad_estimate a | _ \<Rightarrow> 0)"

lemma tally_snoc: "tally (ds @ [d]) = tally_one d (tally ds)"
  by (simp add: tally_def)

lemma tally_counts:
  "rt_rows (tally ds) = length ds"
  "rt_in_agreement (tally ds) + rt_adjusted_spend (tally ds) + rt_adjusted_credit (tally ds)
     + rt_no_request_id (tally ds) + rt_cached (tally ds) + rt_unknown_cost (tally ds)
     + rt_no_ledger_row (tally ds) + rt_account_mismatch (tally ds) = length ds"
proof (induction ds rule: rev_induct)
  case (snoc d ds)
  { case 1 show ?case using snoc
      by (cases "rd_outcome d" rule: reconcile_outcome.exhaust; cases "case rd_outcome d of Skipped r \<Rightarrow> r | _ \<Rightarrow> Cached")
         (auto simp: tally_snoc tally_one_def Let_def) }
  { case 2 show ?case using snoc
      by (cases "rd_outcome d" rule: reconcile_outcome.exhaust; cases "case rd_outcome d of Skipped r \<Rightarrow> r | _ \<Rightarrow> Cached")
         (auto simp: tally_snoc tally_one_def Let_def) }
qed (simp_all add: tally_def empty_totals_def)

lemma tally_net:
  assumes "\<forall>d\<in>set ds. \<forall>a. rd_outcome d = Adjust a \<longrightarrow> true_up a"
  shows "rt_spend_micro_usd (tally ds) - rt_credit_micro_usd (tally ds) = sum_list (List.map net_move ds)
     \<and> 0 \<le> rt_spend_micro_usd (tally ds) \<and> 0 \<le> rt_credit_micro_usd (tally ds)"
  using assms
proof (induction ds rule: rev_induct)
  case (snoc d ds)
  show ?case
  proof (cases "rd_outcome d")
    case (Skipped r)
    with snoc show ?thesis
      by (cases r) (simp_all add: tally_snoc tally_one_def net_move_def)
  next
    case (Adjust a)
    with snoc have a: "0 < ad_applied a" "if ad_direction a = Spend
        then ad_gateway a - ad_estimate a = ad_applied a else ad_gateway a - ad_estimate a = - ad_applied a"
      by (auto simp: true_up_def split: if_splits)
    from snoc have "rt_spend_micro_usd (tally ds) - rt_credit_micro_usd (tally ds) = sum_list (List.map net_move ds)
        \<and> 0 \<le> rt_spend_micro_usd (tally ds) \<and> 0 \<le> rt_credit_micro_usd (tally ds)" by simp
    moreover have "net_move d = ad_gateway a - ad_estimate a" using Adjust by (simp add: net_move_def)
    ultimately show ?thesis using a Adjust
      by (simp add: tally_snoc tally_one_def split: if_splits)
  next
    case (InAgreement n ev)
    with snoc show ?thesis by (simp add: tally_snoc tally_one_def net_move_def)
  qed
qed (simp add: tally_def empty_totals_def)

end
