(* ===== verification/AigLogs.thy ===== *)
theory AigLogs
  imports Reconcile NumText
begin

text \<open>
  src/src/aig-logs.ts: the gateway's log feed.  The HTTP client is a parameter, a function from
  the request to a response or a thrown error, and \<open>encodeURIComponent\<close> is applied by it; what is
  asked for, the reading of what comes back, the exact conversion of decimal USD and the guard on
  payload paths are the code's.  An error carries no message here.
\<close>

section \<open>The payload guard\<close>

text \<open>\<open>/\/logs\/[^/]+\/(?:request|response)\/?$/\<close>: the last segments of the path, a trailing slash
  aside, are logs, a non-empty name and one of the two words.\<close>

definition payload_segments :: "string list \<Rightarrow> bool" where
  "payload_segments segs =
     (case rev segs of
        w # i # l # pre \<Rightarrow>
          w \<in> {''request'', ''response''} \<and> i \<noteq> [] \<and> l = ''logs'' \<and> pre \<noteq> []
      | _ \<Rightarrow> False)"

definition payload_path :: "string \<Rightarrow> bool" where
  "payload_path path =
     (let segs = split_on CHR ''/'' path
      in payload_segments segs \<or> (last segs = [] \<and> payload_segments (butlast segs)))"

definition guard_log_path :: "string \<Rightarrow> exn + string" where
  "guard_log_path path = (if payload_path path then Inl PayloadRefused else Inr path)"

section \<open>Decimal USD\<close>

definition micro_usd_from_usd :: "js \<Rightarrow> int option" where
  "micro_usd_from_usd raw =
     (let txt = (case raw of
            JNum n \<Rightarrow> if is_finite_num n then js_num_string n else []
          | JStr s \<Rightarrow> js_trim s
          | _ \<Rightarrow> [])
      in if txt = [] then None
         else case decimal_parts txt of
                None \<Rightarrow> None
              | Some (digits, e) \<Rightarrow> within_safe_range (scale_up digits (e + 6)))"

section \<open>Rows\<close>

definition metadata_of :: "js \<Rightarrow> js" where
  "metadata_of raw =
     (if is_plain_obj raw then raw
      else case raw of
        JStr s \<Rightarrow>
          if js_trim s = [] then JObj []
          else (case json_parse s of
                  Some v \<Rightarrow> if is_plain_obj v then v else JObj []
                | None \<Rightarrow> JObj [])
      | _ \<Rightarrow> JObj [])"

definition string_or_null :: "js \<Rightarrow> string option" where
  "string_or_null v = (case v of JStr s \<Rightarrow> if js_trim s = [] then None else Some (js_trim s) | _ \<Rightarrow> None)"

definition int_or_null :: "js \<Rightarrow> int option" where
  "int_or_null v =
     (case v of JNum n \<Rightarrow> if is_finite_num n then Some (int_of_num (js_trunc n)) else None | _ \<Rightarrow> None)"

definition parse_gateway_log_row :: "js \<Rightarrow> gateway_log_row option" where
  "parse_gateway_log_row raw =
     (if \<not> typeof_object raw then None
      else case (string_or_null (js_get raw ''id''), string_or_null (js_get raw ''created_at'')) of
        (Some i, Some created) \<Rightarrow>
          if date_parse created = None then None
          else
            (let metadata = metadata_of (js_get raw ''metadata'') in
             Some \<lparr>gl_id = i, gl_created_at = created,
                   gl_model = string_or_null (js_get raw ''model''),
                   gl_provider = string_or_null (js_get raw ''provider''),
                   gl_status_code = int_or_null (js_get raw ''status_code''),
                   gl_success = (case js_get raw ''success'' of JBool b \<Rightarrow> Some b | _ \<Rightarrow> None),
                   gl_cached = (js_get raw ''cached'' = JBool True),
                   gl_tokens_in = int_or_null (js_get raw ''tokens_in''),
                   gl_tokens_out = int_or_null (js_get raw ''tokens_out''),
                   gl_cost = micro_usd_from_usd (js_get raw ''cost''),
                   gl_request_id = string_or_null (js_get metadata ''request_id''),
                   gl_account_id = string_or_null (js_get metadata ''account_id'')\<rparr>)
      | _ \<Rightarrow> None)"

record gateway_log_page =
  lp_rows        :: "gateway_log_row list"
  lp_malformed   :: nat
  lp_total_count :: "int option"

section \<open>The feed\<close>

definition MAX_PER_PAGE :: int where
  "MAX_PER_PAGE = 50"

text \<open>The query of a page; the filter is the JSON text of one created_at condition.\<close>

record log_query =
  lq_path     :: string
  lq_page     :: int
  lq_per_page :: int
  lq_order_by :: string
  lq_order    :: string
  lq_gt       :: string
  lq_token    :: string

text \<open>A response: its status and its body, absent when it is not JSON.\<close>

record http_reply =
  hr_status :: int
  hr_json   :: "js option"

record log_source_deps =
  ld_account_id :: string
  ld_gateway_id :: string
  ld_token      :: string
  ld_fetch      :: "log_query \<Rightarrow> exn + http_reply"

fun split_parsed :: "gateway_log_row option list \<Rightarrow> gateway_log_row list \<times> nat" where
  "split_parsed [] = ([], 0)"
| "split_parsed (None # os) = (let (rows, n) = split_parsed os in (rows, n + 1))"
| "split_parsed (Some r # os) = (let (rows, n) = split_parsed os in (r # rows, n))"

definition log_query_of :: "log_source_deps \<Rightarrow> string \<Rightarrow> string \<Rightarrow> int \<Rightarrow> int \<Rightarrow> log_query" where
  "log_query_of deps path since page per_page =
     \<lparr>lq_path = path, lq_page = max 1 page, lq_per_page = min MAX_PER_PAGE (max 1 per_page),
      lq_order_by = ''created_at'', lq_order = ''asc'', lq_gt = since, lq_token = ld_token deps\<rparr>"

definition list_since :: "log_source_deps \<Rightarrow> string \<Rightarrow> int \<Rightarrow> int \<Rightarrow> exn + gateway_log_page" where
  "list_since deps since page per_page =
     (case guard_log_path (''/accounts/'' @ ld_account_id deps @ ''/ai-gateway/gateways/''
             @ ld_gateway_id deps @ ''/logs'') of
        Inl e \<Rightarrow> Inl e
      | Inr path \<Rightarrow>
     (case ld_fetch deps (log_query_of deps path since page per_page) of
        Inl e \<Rightarrow> Inl e
      | Inr reply \<Rightarrow>
     (case hr_json reply of
        None \<Rightarrow> Inl FeedError
      | Some envelope \<Rightarrow>
          if \<not> (200 \<le> hr_status reply \<and> hr_status reply \<le> 299)
             \<or> js_get envelope ''success'' \<noteq> JBool True then Inl FeedError
          else
            (let items = (case js_get envelope ''result'' of JArr xs \<Rightarrow> xs | _ \<Rightarrow> []);
                 (rows, bad) = split_parsed (List.map parse_gateway_log_row items)
             in Inr \<lparr>lp_rows = rows, lp_malformed = bad,
                     lp_total_count = int_or_null (js_get (js_get envelope ''result_info'') ''total_count'')\<rparr>))))"

section \<open>What the reader guarantees\<close>

lemma micro_usd_number:
  assumes "readable_decimal (rat_of_num n)" "is_finite_num n"
  shows "micro_usd_from_usd (JNum n) =
    (let m = \<lceil>10 ^ 6 * rat_of_num n\<rceil> in if m \<le> MAX_SAFE_INTEGER then Some m else None)"
proof -
  have r: "\<not> rat_of_num n < 0" "\<bar>rat_of_num n\<bar> = rat_of_num n"
    using assms(1) by (simp_all add: readable_decimal_def)
  then have t: "js_num_string n = abs_text (rat_of_num n)"
    using assms(2) by (cases n) (simp_all add: js_num_string_def)
  obtain D E where d: "decimal_parts (abs_text (rat_of_num n)) = Some (D, E)"
      "scale10 (int D) E = rat_of_num n"
    using decimal_parts_abs_text [OF assms(1)] by blast
  then have "abs_text (rat_of_num n) \<noteq> []"
    by (auto simp: decimal_parts_def scan_digits_def scan_fraction_def parse_exponent_def)
  moreover have "scale_up D (E + 6) = \<lceil>10 ^ 6 * rat_of_num n\<rceil>"
    using scale10_shift [of "int D" E 6] d(2) by (simp add: scale_up_ceiling mult.commute)
  moreover have "0 \<le> \<lceil>10 ^ 6 * rat_of_num n\<rceil>"
    using r(1) by simp
  ultimately show ?thesis
    using d(1) assms(2) by (simp add: micro_usd_from_usd_def t within_safe_range_def Let_def not_le)
qed


lemma micro_usd_negative:
  assumes "is_finite_num n" "rat_of_num n < 0"
  shows "micro_usd_from_usd (JNum n) = None"
proof -
  have "js_num_string n = CHR ''-'' # abs_text \<bar>rat_of_num n\<bar>"
    using assms by (cases n) (simp_all add: js_num_string_def)
  moreover have "decimal_parts (CHR ''-'' # s) = None" for s
    by (simp add: decimal_parts_def scan_digits_def scan_fraction_def parse_exponent_def)
  ultimately show ?thesis using assms(1) by (simp add: micro_usd_from_usd_def)
qed

text \<open>The text a cost is read from: the digits of a finite number, or a trimmed string.\<close>

definition cost_text :: "js \<Rightarrow> string" where
  "cost_text raw = (case raw of JNum n \<Rightarrow> if is_finite_num n then js_num_string n else []
                    | JStr s \<Rightarrow> js_trim s | _ \<Rightarrow> [])"

lemma micro_usd_SomeE:
  assumes "micro_usd_from_usd raw = Some m"
  obtains D E where "decimal_parts (cost_text raw) = Some (D, E)"
    "m = \<lceil>10 ^ 6 * scale10 (int D) E\<rceil>" "0 \<le> m" "m \<le> MAX_SAFE_INTEGER"
proof -
  obtain D E where d: "decimal_parts (cost_text raw) = Some (D, E)"
      "within_safe_range (scale_up D (E + 6)) = Some m"
    using assms by (auto simp: micro_usd_from_usd_def cost_text_def [symmetric] Let_def
        split: if_splits option.splits)
  have m: "m = scale_up D (E + 6)" "0 \<le> m" "m \<le> MAX_SAFE_INTEGER"
    using d(2) by (auto simp: within_safe_range_def split: if_splits)
  have "scale_up D (E + 6) = \<lceil>10 ^ 6 * scale10 (int D) E\<rceil>"
    using scale10_shift [of "int D" E 6] by (simp add: scale_up_ceiling mult.commute)
  with m d(1) show thesis by (intro that [of D E]) simp_all
qed

text \<open>C23. A cost becomes the exact amount in micro-USD, rounded up.  A number on the wire that is
  not negative and has at most 400 decimals is converted exactly, and refused only above the
  largest safe integer; whatever the cost was written as, an amount that is accepted is the
  ceiling of its decimal digits scaled by a million, non-negative and safe; and a negative number
  or a value that is neither number nor text is unknown, never zero.\<close>

theorem micro_usd_exact:
  "(\<forall>n. is_finite_num n \<and> readable_decimal (rat_of_num n) \<longrightarrow>
      micro_usd_from_usd (JNum n) =
        (if \<lceil>10 ^ 6 * rat_of_num n\<rceil> \<le> MAX_SAFE_INTEGER then Some \<lceil>10 ^ 6 * rat_of_num n\<rceil> else None))
   \<and> (\<forall>raw m. micro_usd_from_usd raw = Some m \<longrightarrow> 0 \<le> m \<and> m \<le> MAX_SAFE_INTEGER
        \<and> (\<exists>D E. decimal_parts (cost_text raw) = Some (D, E) \<and> m = \<lceil>10 ^ 6 * scale10 (int D) E\<rceil>))
   \<and> (\<forall>n. is_finite_num n \<and> rat_of_num n < 0 \<longrightarrow> micro_usd_from_usd (JNum n) = None)
   \<and> (\<forall>raw. \<not> is_num raw \<and> \<not> is_str raw \<longrightarrow> micro_usd_from_usd raw = None)"
proof (intro conjI allI impI)
  fix n assume "is_finite_num n \<and> readable_decimal (rat_of_num n)"
  then show "micro_usd_from_usd (JNum n) =
      (if \<lceil>10 ^ 6 * rat_of_num n\<rceil> \<le> MAX_SAFE_INTEGER then Some \<lceil>10 ^ 6 * rat_of_num n\<rceil> else None)"
    using micro_usd_number [of n] by (simp add: Let_def)
next
  fix raw m assume "micro_usd_from_usd raw = Some m"
  then show "0 \<le> m" "m \<le> MAX_SAFE_INTEGER"
      "\<exists>D E. decimal_parts (cost_text raw) = Some (D, E) \<and> m = \<lceil>10 ^ 6 * scale10 (int D) E\<rceil>"
    by (auto elim: micro_usd_SomeE)
next
  fix n assume "is_finite_num n \<and> rat_of_num n < 0"
  then show "micro_usd_from_usd (JNum n) = None" using micro_usd_negative by blast
next
  fix raw assume "\<not> is_num raw \<and> \<not> is_str raw"
  then show "micro_usd_from_usd raw = None" by (cases raw) (simp_all add: micro_usd_from_usd_def)
qed

lemma sample_cost: "readable_decimal (rat_of_num (NReal (43 / 10 ^ 7)))"
proof -
  have "(43 / 10 ^ 7 :: rat) * 10 ^ 400 = of_int (43 * 10 ^ 393)" by simp
  then have "(43 / 10 ^ 7 :: rat) * 10 ^ 400 \<in> \<int>" by (metis Ints_of_int)
  then show ?thesis
    by (simp add: readable_decimal_def decimal_places_def power_int_minus)
qed

theorem micro_usd_exact_witness:
  "micro_usd_from_usd (JNum (NReal (43 / 10 ^ 7))) = Some 5"
proof -
  have "\<lceil>10 ^ 6 * rat_of_num (NReal (43 / 10 ^ 7))\<rceil> = 5"
    by (simp add: ceiling_eq_iff)
  then show ?thesis
    using micro_usd_exact [THEN conjunct1, rule_format, of "NReal (43 / 10 ^ 7)"] sample_cost
    by (simp add: MAX_SAFE_INTEGER_def)
qed

end
