(* ===== verification/ReconcileRun.thy ===== *)
theory ReconcileRun
  imports AigLogs StoreLemmas
begin

text \<open>
  src/src/reconcile-run.ts: one reconciliation run.  The log feed is a parameter, a function from
  the floor and the page to a page or a thrown error; identifiers for adjustment rows come from a
  numbered supply.  The page loop has fuel: a run that uses it up is \<open>RunUnfinished\<close>, which the
  lemmas on the loop exclude for every feed with finitely many unreadable rows.
\<close>

section \<open>Arguments and report\<close>

record log_source =
  ls_gateway_id :: string
  ls_list_since :: "string \<Rightarrow> int \<Rightarrow> int \<Rightarrow> exn + gateway_log_page"

text \<open>\<open>gatewayLogSource\<close> of src/src/aig-logs.ts.\<close>

definition gateway_log_source :: "log_source_deps \<Rightarrow> log_source" where
  "gateway_log_source deps = \<lparr>ls_gateway_id = ld_gateway_id deps, ls_list_since = list_since deps\<rparr>"

record run_args =
  ra_source   :: log_source
  ra_now      :: int
  ra_dry_run  :: bool
  ra_since    :: "string option"
  ra_max_rows :: "int option"
  ra_per_page :: "int option"
  ra_new_id   :: "nat \<Rightarrow> string"

datatype finding = FoundNoLedgerRow | FoundAccountMismatch | FoundUnmatchedLedgerRow | FoundMalformedRows

record run_state =
  rn_decisions :: "reconcile_decision list"
  rn_findings  :: "finding list"
  rn_seen      :: "string list"
  rn_malformed :: nat
  rn_pages     :: nat
  rn_applied   :: nat
  rn_already   :: nat
  rn_newest    :: "string option"
  rn_last_log  :: "string option"

definition start_state :: run_state where
  "start_state = \<lparr>rn_decisions = [], rn_findings = [], rn_seen = [], rn_malformed = 0, rn_pages = 0,
     rn_applied = 0, rn_already = 0, rn_newest = None, rn_last_log = None\<rparr>"

record reconcile_report =
  rp_gateway_id       :: string
  rp_dry_run          :: bool
  rp_window_from      :: string
  rp_window_to        :: int
  rp_watermark_before :: "int option"
  rp_watermark_after  :: "int option"
  rp_pages            :: nat
  rp_truncated        :: bool
  rp_malformed_rows   :: nat
  rp_applied          :: nat
  rp_already_applied  :: nat
  rp_totals           :: reconcile_totals
  rp_drift_ratio      :: "rat option"
  rp_drift_alert      :: bool
  rp_unmatched        :: "usage_event_key list"
  rp_findings         :: "finding list"

datatype run_result = RunOk reconcile_report | RunNoFloor | RunUpstream exn | RunUnfinished

definition MAX_REVERSE_CHECK_ROWS :: int where "MAX_REVERSE_CHECK_ROWS = 500"
definition DRIFT_ALERT_RATIO :: rat where "DRIFT_ALERT_RATIO = 5 / 100"

section \<open>One row\<close>

definition ledger_estimate_of :: "usage_event \<Rightarrow> ledger_estimate" where
  "ledger_estimate_of e =
     \<lparr>le_id = ue_id e, le_request_id = ue_request_id e, le_account_id = ue_account_id e,
      le_period_key = ue_period_key e, le_model_id = ue_model_id e, le_micro_usd = ue_micro_usd e,
      le_metered = ue_metered e\<rparr>"

definition needs_ledger_lookup :: "gateway_log_row \<Rightarrow> bool" where
  "needs_ledger_lookup row = (gl_request_id row \<noteq> None \<and> \<not> gl_cached row \<and> gl_cost row \<noteq> None)"

definition adjustment_row :: "string \<Rightarrow> gateway_log_row \<Rightarrow> adjustment \<Rightarrow> usage_adjustment" where
  "adjustment_row i row a =
     (let ev = ad_event a in
      \<lparr>ua_id = i, ua_account_id = le_account_id ev, ua_usage_event_id = Some (le_id ev),
       ua_request_id = le_request_id ev, ua_gateway_log_id = gl_id row,
       ua_period_key = le_period_key ev,
       ua_model_id = Some (case gl_model row of Some m \<Rightarrow> m | None \<Rightarrow> le_model_id ev),
       ua_estimate = ad_estimate a, ua_gateway = ad_gateway a, ua_delta = ad_delta a,
       ua_direction = ad_direction a, ua_applied = ad_applied a,
       ua_key = adjustment_idempotency_key (gl_id row),
       ua_note = Some (''ai gateway true-up: estimate '' @ dec_of_int (ad_estimate a) @ '', billed ''
                       @ dec_of_int (ad_gateway a) @ '' micro-USD'')\<rparr>)"

text \<open>A decision noted in the run's state: what was decided, seen, and found.\<close>

definition finding_of :: "reconcile_outcome \<Rightarrow> finding list" where
  "finding_of r = (case r of Skipped NoLedgerRow \<Rightarrow> [FoundNoLedgerRow]
                   | Skipped AccountMismatch \<Rightarrow> [FoundAccountMismatch] | _ \<Rightarrow> [])"

definition note_decision :: "gateway_log_row \<Rightarrow> reconcile_outcome \<Rightarrow> run_state \<Rightarrow> run_state" where
  "note_decision row r st = st\<lparr>
     rn_decisions := rn_decisions st @ [\<lparr>rd_log = row, rd_outcome = r\<rparr>],
     rn_seen := (case gl_request_id row of Some q \<Rightarrow> if q = [] then rn_seen st else q # rn_seen st
                 | None \<Rightarrow> rn_seen st),
     rn_newest := Some (gl_created_at row), rn_last_log := Some (gl_id row),
     rn_findings := rn_findings st @ finding_of r\<rparr>"

definition process_row :: "run_args \<Rightarrow> gateway_log_row \<Rightarrow> run_state \<Rightarrow> (run_state, 'z) m" where
  "process_row args row st =
     bindM (if needs_ledger_lookup row
            then get_usage_event_by_request_id (case gl_request_id row of Some q \<Rightarrow> q | None \<Rightarrow> [])
            else retM None) (\<lambda>event.
     let r = decide_adjustment row (map_option ledger_estimate_of event);
         st1 = note_decision row r st
     in case r of
          Adjust a \<Rightarrow>
            (if ra_dry_run args then retM st1
             else bindM (apply_usage_adjustment
                           (adjustment_row (ra_new_id args (rn_applied st1 + rn_already st1)) row a)) (\<lambda>done.
               retM (if done then st1\<lparr>rn_applied := rn_applied st1 + 1\<rparr>
                     else st1\<lparr>rn_already := rn_already st1 + 1\<rparr>)))
        | _ \<Rightarrow> retM st1)"

section \<open>Pages\<close>

definition max_rows :: "run_args \<Rightarrow> int" where
  "max_rows args = max 1 (case ra_max_rows args of Some n \<Rightarrow> n | None \<Rightarrow> int MAX_ROWS_PER_RUN)"

definition per_page :: "run_args \<Rightarrow> int" where
  "per_page args = min MAX_PER_PAGE (max 1 (case ra_per_page args of Some n \<Rightarrow> n | None \<Rightarrow> MAX_PER_PAGE))"

definition unsettled :: "run_args \<Rightarrow> gateway_log_row \<Rightarrow> bool" where
  "unsettled args row = (case date_parse (gl_created_at row) of
     Some t \<Rightarrow> t > ra_now args - SETTLE_MS | None \<Rightarrow> False)"

text \<open>The rows of a page, until one is too new or the cap is reached; the flag is \<open>truncated\<close>.\<close>

fun process_rows :: "run_args \<Rightarrow> gateway_log_row list \<Rightarrow> run_state \<Rightarrow> (bool \<times> run_state, 'z) m" where
  "process_rows args [] st = retM (False, st)"
| "process_rows args (row # rows) st =
     (if unsettled args row \<or> int (length (rn_decisions st)) \<ge> max_rows args then retM (True, st)
      else bindM (process_row args row st) (process_rows args rows))"

datatype pages_end = PagesDone bool run_state | PagesFailed exn | PagesUnfinished

fun process_pages :: "nat \<Rightarrow> run_args \<Rightarrow> string \<Rightarrow> int \<Rightarrow> run_state \<Rightarrow> (pages_end, 'z) m" where
  "process_pages 0 args from_iso page st = retM PagesUnfinished"
| "process_pages (Suc n) args from_iso page st =
     (case ls_list_since (ra_source args) from_iso page (per_page args) of
        Inl e \<Rightarrow> retM (PagesFailed e)
      | Inr batch \<Rightarrow>
          bindM (process_rows args (lp_rows batch)
                   (st\<lparr>rn_pages := rn_pages st + 1, rn_malformed := rn_malformed st + lp_malformed batch\<rparr>))
            (\<lambda>(truncated, st').
            if truncated then retM (PagesDone True st')
            else if int (length (lp_rows batch) + lp_malformed batch) < per_page args
              then retM (PagesDone False st')
            else process_pages n args from_iso (page + 1) st'))"

section \<open>The run\<close>

text \<open>The floor of a run: the stored watermark, or the trimmed text the caller supplied.\<close>

definition run_floor :: "reconcile_state_row option \<Rightarrow> string option \<Rightarrow> string option" where
  "run_floor state since =
     (case Option.bind state rs_watermark of
        Some t \<Rightarrow> Some (to_iso_string t)
      | None \<Rightarrow>
          (case since of
             Some s \<Rightarrow> if js_trim s = [] then None else Some (js_trim s)
           | None \<Rightarrow> None))"

definition gateway_total :: "reconcile_decision list \<Rightarrow> int" where
  "gateway_total ds = sum_list (List.map (\<lambda>d. case rd_outcome d of
      Adjust a \<Rightarrow> ad_gateway a | InAgreement n _ \<Rightarrow> n | Skipped _ \<Rightarrow> 0) ds)"

definition drift_ratio :: "reconcile_decision list \<Rightarrow> rat option" where
  "drift_ratio ds =
     (let t = tally ds; drift = rt_spend_micro_usd t + rt_credit_micro_usd t
      in if gateway_total ds > 0 then Some (of_int drift / of_int (gateway_total ds)) else None)"

definition report_of ::
  "run_args \<Rightarrow> string \<Rightarrow> int option \<Rightarrow> int option \<Rightarrow> bool \<Rightarrow> run_state \<Rightarrow> usage_event_key list \<Rightarrow> reconcile_report" where
  "report_of args from_iso before advance truncated st unmatched =
     (let ratio = drift_ratio (rn_decisions st) in
      \<lparr>rp_gateway_id = ls_gateway_id (ra_source args), rp_dry_run = ra_dry_run args,
       rp_window_from = from_iso, rp_window_to = ra_now args - SETTLE_MS,
       rp_watermark_before = before,
       rp_watermark_after = (if ra_dry_run args then None else advance),
       rp_pages = rn_pages st, rp_truncated = truncated, rp_malformed_rows = rn_malformed st,
       rp_applied = rn_applied st, rp_already_applied = rn_already st,
       rp_totals = tally (rn_decisions st), rp_drift_ratio = ratio,
       rp_drift_alert = (case ratio of Some q \<Rightarrow> q > DRIFT_ALERT_RATIO | None \<Rightarrow> False),
       rp_unmatched = unmatched,
       rp_findings = rn_findings st
         @ (if rn_malformed st > 0 then [FoundMalformedRows] else [])
         @ (if unmatched \<noteq> [] then [FoundUnmatchedLedgerRow] else [])\<rparr>)"

definition finish_run ::
  "run_args \<Rightarrow> string \<Rightarrow> int \<Rightarrow> int option \<Rightarrow> bool \<Rightarrow> run_state \<Rightarrow> (run_result, 'z) m" where
  "finish_run args from_iso from_ms before truncated st =
     (let advance = next_watermark from_iso (rn_newest st) (ra_now args) in
      bindM (list_usage_events_between from_ms (ra_now args - SETTLE_MS) MAX_REVERSE_CHECK_ROWS) (\<lambda>ledger.
      let unmatched = List.filter (\<lambda>r. uk_request_id r \<notin> set (rn_seen st)) ledger;
          report = report_of args from_iso before advance truncated st unmatched
      in bindM (if ra_dry_run args then retM ()
                else advance_reconcile_state (ls_gateway_id (ra_source args)) advance (rn_last_log st)
                       (ra_now args) (int (rt_rows (tally (rn_decisions st)))) (int (rn_applied st))) (\<lambda>_.
         retM (RunOk report))))"

definition run_reconcile :: "nat \<Rightarrow> run_args \<Rightarrow> (run_result, 'z) m" where
  "run_reconcile fuel args =
     bindM (get_reconcile_state (ls_gateway_id (ra_source args))) (\<lambda>state.
     case run_floor state (ra_since args) of
       None \<Rightarrow> retM RunNoFloor
     | Some from_iso \<Rightarrow>
     (case date_parse from_iso of
        None \<Rightarrow> retM RunNoFloor
      | Some from_ms \<Rightarrow>
          bindM (process_pages fuel args from_iso 1 start_state) (\<lambda>pages.
          case pages of
            PagesFailed e \<Rightarrow> retM (RunUpstream e)
          | PagesUnfinished \<Rightarrow> retM RunUnfinished
          | PagesDone truncated st \<Rightarrow>
              finish_run args from_iso from_ms (Option.bind state rs_watermark) truncated st)))"

end
