(* ===== verification/Env.thy ===== *)
theory Env
  imports Chat ReconcileRun
begin

text \<open>
  src/src/env.ts and the wiring of src/src/index.ts: what the Worker's variables decide.  A variable
  is a text or absent; the bindings of the platform are parameters of the parts that use them.
\<close>

record env =
  env_account_id        :: "string option"
  env_gateway_id        :: "string option"
  env_collect_log       :: "string option"
  env_credential_mode   :: "string option"
  env_aig_token         :: "string option"
  env_token_budget      :: "string option"
  env_kek               :: "string option"
  env_kek_next          :: "string option"
  env_kek_slot          :: "string option"
  env_upstream_timeout  :: "string option"
  env_nonchat_timeout   :: "string option"
  env_admin_token       :: "string option"
  env_cron_live         :: "string option"
  env_cron_lookback     :: "string option"
  env_trust_decode      :: "string option"
  env_sandbox_trust     :: "string option"
  env_play_account      :: "string option"

text \<open>\<open>(v ?? "").trim()\<close>.\<close>

definition env_text :: "string option \<Rightarrow> string" where
  "env_text v = js_trim (case v of Some s \<Rightarrow> s | None \<Rightarrow> [])"

section \<open>Timeouts\<close>

definition DEFAULT_UPSTREAM_TIMEOUT_MS :: int where "DEFAULT_UPSTREAM_TIMEOUT_MS = 60000"
definition DEFAULT_NONCHAT_UPSTREAM_TIMEOUT_MS :: int where "DEFAULT_NONCHAT_UPSTREAM_TIMEOUT_MS = 300000"
definition MAX_UPSTREAM_TIMEOUT_MS :: int where "MAX_UPSTREAM_TIMEOUT_MS = 180000"
definition MAX_NONCHAT_UPSTREAM_TIMEOUT_MS :: int where "MAX_NONCHAT_UPSTREAM_TIMEOUT_MS = 360000"

definition upstream_timeout_ms :: "env \<Rightarrow> int" where
  "upstream_timeout_ms env =
     (let raw = env_text (env_upstream_timeout env); parsed = js_Number raw in
      if raw = [] then DEFAULT_UPSTREAM_TIMEOUT_MS
      else if \<not> is_finite_num parsed \<or> js_le parsed (NInt 0) then DEFAULT_UPSTREAM_TIMEOUT_MS
      else min (int_of_num (js_floor parsed)) MAX_UPSTREAM_TIMEOUT_MS)"

definition non_chat_upstream_timeout_ms :: "env \<Rightarrow> int" where
  "non_chat_upstream_timeout_ms env =
     (let raw = env_text (env_nonchat_timeout env); parsed = js_Number raw in
      if raw = [] then DEFAULT_NONCHAT_UPSTREAM_TIMEOUT_MS
      else if \<not> is_finite_num parsed \<or> js_le parsed (NInt 0) then DEFAULT_NONCHAT_UPSTREAM_TIMEOUT_MS
      else min (int_of_num (js_floor parsed)) MAX_NONCHAT_UPSTREAM_TIMEOUT_MS)"

section \<open>The gateway and the credential\<close>

record gateway_config =
  gc_account_id  :: string
  gc_id          :: string
  gc_collect_log :: bool

definition is_hex_char :: "char \<Rightarrow> bool" where
  "is_hex_char c = (hex_val c \<noteq> None)"

text \<open>\<open>[A-Za-z0-9_-]\<close>.\<close>

definition is_slug_char :: "char \<Rightarrow> bool" where
  "is_slug_char c = (let n = ord_of c in (48 \<le> n \<and> n \<le> 57) \<or> (65 \<le> n \<and> n \<le> 90)
     \<or> (97 \<le> n \<and> n \<le> 122) \<or> n = 95 \<or> n = 45)"

definition slug_ok :: "string \<Rightarrow> bool" where
  "slug_ok s = (1 \<le> length s \<and> length s \<le> 64 \<and> list_all is_slug_char s)"

definition gateway_config_of :: "env \<Rightarrow> gateway_config option" where
  "gateway_config_of env =
     (let account = env_text (env_account_id env); gid = env_text (env_gateway_id env) in
      if account = [] \<or> gid = [] then None
      else if \<not> (length account = 32 \<and> list_all is_hex_char account) then None
      else if \<not> slug_ok gid then None
      else Some \<lparr>gc_account_id = account, gc_id = gid,
                 gc_collect_log = (js_lower (env_text (env_collect_log env)) \<noteq> ''false'')\<rparr>)"

definition per_user_mode_requested :: "env \<Rightarrow> bool" where
  "per_user_mode_requested env = (js_lower (env_text (env_credential_mode env)) = ''per-user'')"

definition user_token_budget :: "env \<Rightarrow> int \<Rightarrow> int option" where
  "user_token_budget env account_quota =
     (let raw = env_text (env_token_budget env) in
      if raw = [] then None
      else case js_Number raw of NInt n \<Rightarrow> if n \<le> 0 then None else Some (min n account_quota) | _ \<Rightarrow> None)"

record kek_config =
  kc_primary :: string
  kc_next    :: "string option"
  kc_slot    :: "string option"

definition user_token_kek_config :: "env \<Rightarrow> kek_config option" where
  "user_token_kek_config env =
     (let primary = env_text (env_kek env) in
      if primary = [] then None
      else Some \<lparr>kc_primary = primary, kc_next = some_text (env_text (env_kek_next env)),
                 kc_slot = some_text (env_text (env_kek_slot env))\<rparr>)"

text \<open>The shared token as a credential source, or a closed door.\<close>

definition upstream_credential_source :: "env \<Rightarrow> (string \<Rightarrow> (credential_outcome, 'z) h) option" where
  "upstream_credential_source env =
     (if gateway_config_of env = None then None
      else if per_user_mode_requested env then None
      else (let token = env_text (env_aig_token env) in
            if token = [] then None else Some (\<lambda>account. retM (shared_for_account token account))))"

text \<open>The gateway's log feed, over the platform's fetch.\<close>

definition gateway_logs :: "(log_query \<Rightarrow> exn + http_reply) \<Rightarrow> env \<Rightarrow> log_source option" where
  "gateway_logs fetch env =
     (let token = env_text (env_aig_token env) in
      case gateway_config_of env of
        None \<Rightarrow> None
      | Some g \<Rightarrow>
          if token = [] then None
          else Some (gateway_log_source \<lparr>ld_account_id = gc_account_id g, ld_gateway_id = gc_id g,
                       ld_token = token, ld_fetch = fetch\<rparr>))"

lemma timeouts_positive:
  "0 \<le> upstream_timeout_ms env \<and> upstream_timeout_ms env \<le> MAX_UPSTREAM_TIMEOUT_MS"
  "0 \<le> non_chat_upstream_timeout_ms env \<and> non_chat_upstream_timeout_ms env \<le> MAX_NONCHAT_UPSTREAM_TIMEOUT_MS"
proof -
  have pos: "0 \<le> int_of_num (js_floor n)" if "\<not> js_le n (NInt 0)" "is_finite_num n" for n
    using that by (cases n) (auto simp: js_le_def)
  show "0 \<le> upstream_timeout_ms env \<and> upstream_timeout_ms env \<le> MAX_UPSTREAM_TIMEOUT_MS"
    using pos by (auto simp: upstream_timeout_ms_def Let_def DEFAULT_UPSTREAM_TIMEOUT_MS_def MAX_UPSTREAM_TIMEOUT_MS_def)
  show "0 \<le> non_chat_upstream_timeout_ms env \<and> non_chat_upstream_timeout_ms env \<le> MAX_NONCHAT_UPSTREAM_TIMEOUT_MS"
    using pos by (auto simp: non_chat_upstream_timeout_ms_def Let_def DEFAULT_NONCHAT_UPSTREAM_TIMEOUT_MS_def
        MAX_NONCHAT_UPSTREAM_TIMEOUT_MS_def)
qed

lemma gateway_config_safe:
  "gateway_config_of env = Some g \<Longrightarrow> length (gc_account_id g) = 32 \<and> list_all is_hex_char (gc_account_id g)
     \<and> slug_ok (gc_id g)"
  by (auto simp: gateway_config_of_def Let_def split: if_splits)

text \<open>The log feed of a wired deployment asks for the log list and for nothing else: its path never
  is a payload path.\<close>

lemma gateway_log_path_allowed:
  assumes "gateway_config_of env = Some g"
  shows "guard_log_path (''/accounts/'' @ gc_account_id g @ ''/ai-gateway/gateways/'' @ gc_id g @ ''/logs'') =
     Inr (''/accounts/'' @ gc_account_id g @ ''/ai-gateway/gateways/'' @ gc_id g @ ''/logs'')"
proof -
  have "last (split_on CHR ''/'' (s @ ''/logs'')) = ''logs''" for s
    using split_on_append_sep [of "CHR ''/''" s "''logs''"] by simp
  moreover have "payload_segments segs \<Longrightarrow> last segs \<in> {''request'', ''response''}" for segs
    by (cases segs rule: rev_cases) (auto simp: payload_segments_def split: list.splits)
  ultimately have "\<not> payload_path (s @ ''/logs'')" for s
    unfolding payload_path_def Let_def by fastforce
  then have "\<not> payload_path ((''/accounts/'' @ gc_account_id g @ ''/ai-gateway/gateways/'' @ gc_id g) @ ''/logs'')" .
  then show ?thesis by (simp add: guard_log_path_def)
qed

end
