(* ===== verification/Scheduled.thy ===== *)
theory Scheduled
  imports Env
begin

text \<open>
  src/src/scheduled.ts: the cron tick that drives a reconciliation run.
\<close>

definition DEFAULT_INITIAL_LOOKBACK_MS :: int where
  "DEFAULT_INITIAL_LOOKBACK_MS = 7 * 24 * 60 * 60 * 1000"

definition reconcile_cron_live :: "env \<Rightarrow> bool" where
  "reconcile_cron_live env = (js_lower (env_text (env_cron_live env)) = ''true'')"

definition initial_lookback_ms :: "env \<Rightarrow> int" where
  "initial_lookback_ms env =
     (let raw = env_text (env_cron_lookback env) in
      if raw = [] then DEFAULT_INITIAL_LOOKBACK_MS
      else case js_Number raw of
             NInt days \<Rightarrow>
               if days < 1 \<or> days > 30 then DEFAULT_INITIAL_LOOKBACK_MS
               else days * 24 * 60 * 60 * 1000
           | _ \<Rightarrow> DEFAULT_INITIAL_LOOKBACK_MS)"

record tick_args =
  tk_logs     :: "log_source option"
  tk_now      :: int
  tk_dry_run  :: bool
  tk_lookback :: int
  tk_new_id   :: "nat \<Rightarrow> string"

datatype tick_result = TickSkipped | TickReconcile run_result bool

definition tick_run_args :: "tick_args \<Rightarrow> log_source \<Rightarrow> string option \<Rightarrow> run_args" where
  "tick_run_args args logs since =
     \<lparr>ra_source = logs, ra_now = tk_now args, ra_dry_run = tk_dry_run args, ra_since = since,
      ra_max_rows = None, ra_per_page = None, ra_new_id = tk_new_id args\<rparr>"

text \<open>The state read is outside the try; a throw inside it becomes an upstream failure.\<close>

definition run_scheduled_tick :: "nat \<Rightarrow> tick_args \<Rightarrow> (tick_result, 'z) m" where
  "run_scheduled_tick fuel args =
     (case tk_logs args of
        None \<Rightarrow> retM TickSkipped
      | Some logs \<Rightarrow>
          bindM (get_reconcile_state (ls_gateway_id logs)) (\<lambda>state.
          let since = (if Option.bind state rs_watermark \<noteq> None then None
                       else Some (to_iso_string (tk_now args - tk_lookback args)))
          in catchM (bindM (run_reconcile fuel (tick_run_args args logs since))
                       (\<lambda>result. retM (TickReconcile result (tk_dry_run args))))
                    (\<lambda>e. retM (TickReconcile (RunUpstream e) (tk_dry_run args)))))"


text \<open>The Worker's scheduled handler.\<close>

definition scheduled ::
  "nat \<Rightarrow> (log_query \<Rightarrow> exn + http_reply) \<Rightarrow> env \<Rightarrow> int \<Rightarrow> (nat \<Rightarrow> string) \<Rightarrow> (tick_result, 'z) m" where
  "scheduled fuel fetch env now ids =
     run_scheduled_tick fuel
       \<lparr>tk_logs = gateway_logs fetch env, tk_now = now, tk_dry_run = (\<not> reconcile_cron_live env),
        tk_lookback = initial_lookback_ms env, tk_new_id = ids\<rparr>"

end
