(* ===== verification/ReconcileProps.thy ===== *)
theory ReconcileProps
  imports ReconcileRun Scheduled Ledger
begin

text \<open>
  What a reconciliation run does to the database, whatever its statements suffer; that it ends;
  where it leaves the watermark; and the two ways in which its row cap falls short.
\<close>

section \<open>What a run may write\<close>

text \<open>A true-up row that is backed by a ledger row and by a row of the feed.\<close>

definition feed_row :: "log_source \<Rightarrow> gateway_log_row \<Rightarrow> bool" where
  "feed_row src row \<longleftrightarrow>
     (\<exists>from_iso page n batch. ls_list_since src from_iso page n = Inr batch \<and> row \<in> set (lp_rows batch))"

definition backed :: "log_source \<Rightarrow> usage_event_row list \<Rightarrow> usage_adjustment \<Rightarrow> bool" where
  "backed src events a \<longleftrightarrow>
     (\<exists>e\<in>set events. \<exists>row. feed_row src row
        \<and> ua_usage_event_id a = Some (ue_id e) \<and> ua_request_id a = ue_request_id e
        \<and> ua_account_id a = ue_account_id e \<and> ua_period_key a = ue_period_key e
        \<and> ua_estimate a = (if ue_metered e then ue_micro_usd e else 0)
        \<and> gl_request_id row = Some (ue_request_id e) \<and> gl_cost row = Some (ua_gateway a)
        \<and> \<not> gl_cached row \<and> ua_gateway_log_id a = gl_id row
        \<and> ua_key a = adjustment_idempotency_key (gl_id row))
     \<and> 0 < ua_applied a
     \<and> (if ua_direction a = Spend then ua_estimate a + ua_applied a = ua_gateway a
        else ua_estimate a - ua_applied a = ua_gateway a)"

text \<open>The tables no run touches.\<close>

definition run_frame :: "db \<Rightarrow> db \<Rightarrow> bool" where
  "run_frame d d' \<longleftrightarrow> t_events d' = t_events d \<and> t_plans d' = t_plans d \<and> t_clients d' = t_clients d
     \<and> t_enrollments d' = t_enrollments d \<and> t_tickets d' = t_tickets d \<and> t_tokens d' = t_tokens d
     \<and> t_prices d' = t_prices d \<and> t_buckets d' = t_buckets d \<and> t_jobs d' = t_jobs d \<and> db_fk d' = db_fk d"

definition trued_up :: "log_source \<Rightarrow> db \<Rightarrow> db \<Rightarrow> bool" where
  "trued_up src d d' \<longleftrightarrow> run_frame d d' \<and> t_reconcile d' = t_reconcile d
     \<and> (\<exists>new. t_adjustments d' = t_adjustments d @ new
          \<and> (\<forall>a\<in>set new. backed src (t_events d) a)
          \<and> distinct (List.map ua_key new)
          \<and> ua_key ` set new \<inter> ua_key ` set (t_adjustments d) = {})"

lemma trued_up_refl [simp]: "trued_up src d d"
  by (auto simp: trued_up_def run_frame_def)

lemma trued_up_trans: "trued_up src d d' \<Longrightarrow> trued_up src d' d'' \<Longrightarrow> trued_up src d d''"
proof -
  assume "trued_up src d d'" "trued_up src d' d''"
  then obtain n1 n2 where n: "run_frame d d'" "run_frame d' d''" "t_reconcile d'' = t_reconcile d"
      "t_adjustments d' = t_adjustments d @ n1" "t_adjustments d'' = t_adjustments d' @ n2"
      "\<forall>a\<in>set n1. backed src (t_events d) a" "\<forall>a\<in>set n2. backed src (t_events d') a"
      "distinct (List.map ua_key n1)" "distinct (List.map ua_key n2)"
      "ua_key ` set n1 \<inter> ua_key ` set (t_adjustments d) = {}"
      "ua_key ` set n2 \<inter> ua_key ` set (t_adjustments d') = {}"
    by (auto simp: trued_up_def)
  then have "t_adjustments d'' = t_adjustments d @ (n1 @ n2)" "run_frame d d''"
      "\<forall>a\<in>set (n1 @ n2). backed src (t_events d) a" "distinct (List.map ua_key (n1 @ n2))"
      "ua_key ` set (n1 @ n2) \<inter> ua_key ` set (t_adjustments d) = {}"
    by (auto simp: run_frame_def)
  with n(3) show ?thesis unfolding trued_up_def by blast
qed

lemma trued_up_rules: "reflp (trued_up src)" "transp (trued_up src)"
  by (auto intro: reflpI transpI trued_up_trans)

text \<open>The statements of one true-up.\<close>

lemma bump_adjust_frame:
  "bump_period_adjust a k s c d = Some d' \<Longrightarrow> run_frame d d' \<and> t_reconcile d' = t_reconcile d
     \<and> t_adjustments d' = t_adjustments d"
  by (auto simp: bump_period_adjust_def upsert_period_def run_frame_def split: if_splits)

lemma adjust_batch_frames:
  "adjust_spend_batch a d = Some d' \<Longrightarrow>
     run_frame d d' \<and> t_reconcile d' = t_reconcile d \<and> t_adjustments d' = t_adjustments d"
  "adjust_credit_batch a d = Some d' \<Longrightarrow>
     run_frame d d' \<and> t_reconcile d' = t_reconcile d \<and> t_adjustments d' = t_adjustments d"
  by (auto simp: adjust_spend_batch_def adjust_credit_batch_def add_spent_def add_credit_def ins_grant_def
      run_frame_def dest!: bump_adjust_frame split: if_splits option.splits)

lemma apply_usage_adjustment_trued_up:
  assumes "backed src (t_events (w_db w)) a"
  shows "trued_up src (w_db w) (w_db (snd (apply_usage_adjustment a w)))"
proof -
  let ?ins = "stmt (\<lambda>now d. ins_adjustment a d)"
  have ins: "trued_up src d d'" if "ins_adjustment a d = Some (x, d')" "t_events d = t_events (w_db w)" for d x d'
    using that assms
    by (auto simp: ins_adjustment_def trued_up_def run_frame_def has_key_iff split: if_splits)
  obtain r w1 where r: "?ins w = (r, w1)" by (cases "?ins w")
  have 1: "trued_up src (w_db w) (w_db w1)"
    using r ins by (auto simp: stmt_def Let_def split: fault.splits option.splits prod.splits)
  have 2: "db_rel (trued_up src) (run_write (if ua_direction a = Spend then adjust_spend_batch a
      else adjust_credit_batch a))"
    by (rule db_rel_write [OF trued_up_rules(1)]) (auto simp: trued_up_def dest!: adjust_batch_frames split: if_splits)
  have k: "db_rel (trued_up src) (if \<not> changed then retM False
       else bindM (run_write (if ua_direction a = Spend then adjust_spend_batch a else adjust_credit_batch a))
              (\<lambda>_. retM True))" for changed
    by (intro db_rel_intros trued_up_rules 2)
  show ?thesis
  proof (cases r)
    case (Inl e)
    with r 1 show ?thesis by (simp add: apply_usage_adjustment_def bindM_def)
  next
    case (Inr changed)
    with r have "apply_usage_adjustment a w =
      (if \<not> changed then retM False
       else bindM (run_write (if ua_direction a = Spend then adjust_spend_batch a else adjust_credit_batch a))
              (\<lambda>_. retM True)) w1"
      by (simp add: apply_usage_adjustment_def bindM_def)
    with db_relD [OF k, of w1 changed] 1 show ?thesis by (metis trued_up_trans)
  qed
qed

lemma lookup_event_backed:
  assumes d: "decide_adjustment row (map_option ledger_estimate_of event) = Adjust a"
    and e: "event = map_option usage_event.truncate (lookup ue_request_id q (t_events d))"
    and q: "gl_request_id row = Some q" and f: "feed_row src row"
  shows "backed src (t_events d) (adjustment_row i row a)"
proof -
  note j = decide_adjustment_Adjust [OF d]
  obtain ev where ev: "lookup ue_request_id q (t_events d) = Some ev" "ad_event a = ledger_estimate_of (usage_event.truncate ev)"
    using j(2) e by auto
  then have "ev \<in> set (t_events d)" "ue_request_id ev = q" using lookup_SomeD [OF ev(1)] by auto
  then show ?thesis
    using j f q ev(2)
    by (auto simp: backed_def adjustment_row_def Let_def ledger_estimate_of_def estimate_of_def true_up_def
        usage_event.truncate_def intro!: bexI [of _ ev] exI [of _ row])
qed

lemma process_row_trued_up:
  assumes "feed_row (ra_source args) row"
  shows "db_rel (trued_up (ra_source args)) (process_row args row st)"
  unfolding db_rel_def
proof
  fix w
  let ?look = "if needs_ledger_lookup row
            then get_usage_event_by_request_id (case gl_request_id row of Some q \<Rightarrow> q | None \<Rightarrow> [])
            else retM None"
  obtain r w1 where r: "?look w = (r, w1)" by (cases "?look w")
  have db1: "w_db w1 = w_db w"
    using r read_only_db [OF get_ops_read_only(6), of _ w] by (auto split: if_splits) (metis snd_conv)+
  show "trued_up (ra_source args) (w_db w) (w_db (snd (process_row args row st w)))"
  proof (cases r)
    case (Inl e)
    with r db1 show ?thesis by (simp add: process_row_def bindM_def)
  next
    case (Inr event)
    let ?r = "decide_adjustment row (map_option ledger_estimate_of event)"
    let ?st = "note_decision row ?r st"
    show ?thesis
    proof (cases ?r)
      case (Adjust a)
      show ?thesis
      proof (cases "ra_dry_run args")
        case True
        with r Inr db1 Adjust show ?thesis by (simp add: process_row_def bindM_def Let_def)
      next
        case False
        let ?row = "adjustment_row (ra_new_id args (rn_applied ?st + rn_already ?st)) row a"
        have "event \<noteq> None" using decide_adjustment_Adjust(2) [OF Adjust] by auto
        then have need: "needs_ledger_lookup row" using r Inr by (auto split: if_splits)
        then obtain q where q: "gl_request_id row = Some q" by (auto simp: needs_ledger_lookup_def)
        have ev: "event = map_option usage_event.truncate (lookup ue_request_id q (t_events (w_db w)))"
          using r Inr need q
          by (auto simp: get_usage_event_by_request_id_def dest!: query_result)
        have "backed (ra_source args) (t_events (w_db w1)) ?row"
          using lookup_event_backed [OF Adjust ev q assms] db1 by simp
        from apply_usage_adjustment_trued_up [OF this]
        have "trued_up (ra_source args) (w_db w) (w_db (snd (apply_usage_adjustment ?row w1)))"
          using db1 by simp
        then show ?thesis using r Inr False Adjust
          by (cases "apply_usage_adjustment ?row w1")
             (auto simp: process_row_def bindM_def Let_def split: sum.splits)
      qed
    next
      case (InAgreement n ev)
      with r Inr db1 show ?thesis by (simp add: process_row_def bindM_def Let_def)
    next
      case (Skipped s)
      with r Inr db1 show ?thesis by (simp add: process_row_def bindM_def Let_def)
    qed
  qed
qed

lemma process_rows_trued_up:
  assumes "\<forall>row\<in>set rows. feed_row (ra_source args) row"
  shows "db_rel (trued_up (ra_source args)) (process_rows args rows st)"
  using assms
proof (induction rows arbitrary: st)
  case Nil
  show ?case unfolding process_rows.simps by (rule db_rel_ret [OF trued_up_rules(1)])
next
  case (Cons row rows)
  then show ?case
    by (auto intro!: db_rel_intros trued_up_rules process_row_trued_up)
qed

lemma process_pages_trued_up:
  "db_rel (trued_up (ra_source args)) (process_pages fuel args from_iso page st)"
proof (induction fuel arbitrary: page st)
  case 0
  show ?case unfolding process_pages.simps by (rule db_rel_ret [OF trued_up_rules(1)])
next
  case (Suc n)
  show ?case
  proof (cases "ls_list_since (ra_source args) from_iso page (per_page args)")
    case (Inl e)
    show ?thesis unfolding process_pages.simps Inl sum.case by (rule db_rel_ret [OF trued_up_rules(1)])
  next
    case (Inr batch)
    then have "\<forall>row\<in>set (lp_rows batch). feed_row (ra_source args) row"
      by (auto simp: feed_row_def)
    from process_rows_trued_up [OF this] Suc Inr show ?thesis
      by (auto intro!: db_rel_intros trued_up_rules split: prod.splits)
  qed
qed


section \<open>A dry run\<close>

lemma process_row_dry: "ra_dry_run args \<Longrightarrow> db_rel (=) (process_row args row st)"
  using get_ops_read_only(6) unfolding process_row_def read_only_def
  by (intro read_only_intros) (auto simp: Let_def intro!: read_only_intros split: reconcile_outcome.splits)

lemma process_rows_dry: "ra_dry_run args \<Longrightarrow> db_rel (=) (process_rows args rows st)"
proof (induction rows arbitrary: st)
  case Nil
  show ?case unfolding process_rows.simps by (rule db_rel_ret [OF refl_trans_eq(1)])
next
  case (Cons row rows)
  then show ?case unfolding process_rows.simps by (intro read_only_intros process_row_dry)
qed

lemma process_pages_dry:
  "ra_dry_run args \<Longrightarrow> db_rel (=) (process_pages fuel args from_iso page st)"
proof (induction fuel arbitrary: page st)
  case 0
  show ?case unfolding process_pages.simps by (rule db_rel_ret [OF refl_trans_eq(1)])
next
  case (Suc n)
  show ?case
  proof (cases "ls_list_since (ra_source args) from_iso page (per_page args)")
    case (Inl e)
    show ?thesis unfolding process_pages.simps Inl sum.case by (rule db_rel_ret [OF refl_trans_eq(1)])
  next
    case (Inr batch)
    show ?thesis
      unfolding process_pages.simps Inr sum.case
      by (intro read_only_intros process_rows_dry Suc) (auto intro!: read_only_intros Suc split: prod.splits)
  qed
qed

section \<open>The whole run\<close>

definition advance_row :: "string \<Rightarrow> int option \<Rightarrow> string option \<Rightarrow> int \<Rightarrow> int \<Rightarrow> int \<Rightarrow> db \<Rightarrow> db" where
  "advance_row g watermark last_log at_ms seen moved d = d\<lparr>t_reconcile := upsert rs_gateway_id
       \<lparr>rs_gateway_id = g, rs_watermark = watermark, rs_last_log_id = last_log,
        rs_last_run_at = Some at_ms, rs_runs = 1, rs_rows_seen = seen, rs_rows_adjusted = moved\<rparr>
       (\<lambda>r. r\<lparr>rs_watermark := coalesce watermark (rs_watermark r),
              rs_last_log_id := coalesce last_log (rs_last_log_id r),
              rs_last_run_at := Some at_ms, rs_runs := rs_runs r + 1,
              rs_rows_seen := rs_rows_seen r + seen,
              rs_rows_adjusted := rs_rows_adjusted r + moved\<rparr>)
       (t_reconcile d)\<rparr>"

lemma advance_reconcile_state_db:
  "w_db (snd (advance_reconcile_state g m l t s j w)) \<in> {w_db w, advance_row g m l t s j (w_db w)}"
  by (auto simp: advance_reconcile_state_def advance_row_def run_write_def stmt_def unit_res_def Let_def
      split: fault.splits prod.splits)

definition watermark_of :: "db \<Rightarrow> string \<Rightarrow> int option" where
  "watermark_of d g = Option.bind (lookup rs_gateway_id g (t_reconcile d)) rs_watermark"

lemma watermark_advance_row:
  "watermark_of (advance_row g m l t s j d) g' =
     (if g' = g then coalesce m (watermark_of d g) else watermark_of d g')"
  by (auto simp: watermark_of_def advance_row_def lookup_upsert coalesce_def split: option.splits)

lemma finish_run_db:
  "w_db (snd (finish_run args from_iso from_ms before truncated st w)) \<in> {w_db w} \<union>
     (if ra_dry_run args then {} else
      {advance_row (ls_gateway_id (ra_source args)) (next_watermark from_iso (rn_newest st) (ra_now args)) l t s j (w_db w)
       | l t s j. True})"
proof -
  let ?q = "list_usage_events_between from_ms (ra_now args - SETTLE_MS) MAX_REVERSE_CHECK_ROWS"
  obtain r w1 where q: "?q w = (r, w1)" by (cases "?q w")
  have w1: "w_db w1 = w_db w"
    using read_only_db [OF get_ops_read_only(7), of _ _ _ w] q by (metis snd_conv)
  let ?adv = "advance_reconcile_state (ls_gateway_id (ra_source args))
     (next_watermark from_iso (rn_newest st) (ra_now args)) (rn_last_log st) (ra_now args)
     (int (rt_rows (tally (rn_decisions st)))) (int (rn_applied st))"
  obtain r2 w2 where adv: "?adv w1 = (r2, w2)" by (cases "?adv w1")
  have w2: "w_db w2 \<in> {w_db w, advance_row (ls_gateway_id (ra_source args))
     (next_watermark from_iso (rn_newest st) (ra_now args)) (rn_last_log st) (ra_now args)
     (int (rt_rows (tally (rn_decisions st)))) (int (rn_applied st)) (w_db w)}"
    using advance_reconcile_state_db [of _ _ _ _ _ _ w1] adv w1 by (metis snd_conv)
  show ?thesis
  proof (cases r)
    case (Inl e)
    with q w1 show ?thesis by (simp add: finish_run_def bindM_def Let_def)
  next
    case (Inr ledger)
    show ?thesis
    proof (cases "ra_dry_run args")
      case True
      with q Inr w1 show ?thesis by (simp add: finish_run_def bindM_def Let_def)
    next
      case False
      then have "w_db (snd (finish_run args from_iso from_ms before truncated st w)) = w_db w2"
        using q Inr adv by (cases r2) (simp_all add: finish_run_def bindM_def Let_def)
      with w2 False show ?thesis by auto
    qed
  qed
qed

text \<open>The database after a run: true-ups only, or true-ups and the advanced watermark.\<close>

lemma run_reconcile_db:
  assumes "w' = snd (run_reconcile fuel args w)" "g = ls_gateway_id (ra_source args)"
  obtains d1 where "trued_up (ra_source args) (w_db w) d1" "ra_dry_run args \<Longrightarrow> d1 = w_db w \<and> w_db w' = d1"
    "w_db w' = d1 \<or> (\<exists>from_iso newest l t s j.
       run_floor (lookup rs_gateway_id g (t_reconcile (w_db w))) (ra_since args) = Some from_iso
       \<and> w_db w' = advance_row g (next_watermark from_iso newest (ra_now args)) l t s j d1)"
proof -
  note conc = that
  let ?src = "ra_source args"
  obtain r w1 where get: "get_reconcile_state g w = (r, w1)" by (cases "get_reconcile_state g w")
  have w1: "w_db w1 = w_db w"
    using read_only_db [OF get_ops_read_only(8), of g w] get by simp
  consider (early) "w_db w' = w_db w"
    | (pages) state from_iso from_ms where "r = Inr state" "run_floor state (ra_since args) = Some from_iso"
        "w' = snd (bindM (process_pages fuel args from_iso 1 start_state) (\<lambda>pages.
          case pages of PagesFailed e \<Rightarrow> retM (RunUpstream e) | PagesUnfinished \<Rightarrow> retM RunUnfinished
          | PagesDone truncated st \<Rightarrow>
              finish_run args from_iso from_ms (Option.bind state rs_watermark) truncated st) w1)"
    using get w1 assms
    by (cases r) (auto simp: run_reconcile_def bindM_def split: option.splits)
  then show thesis
  proof cases
    case early
    then show ?thesis using that [of "w_db w"] by simp
  next
    case (pages state from_iso from_ms)
    have state: "state = lookup rs_gateway_id g (t_reconcile (w_db w))"
      using get pages(1) by (auto simp: get_reconcile_state_def dest!: query_result)
    obtain p w2 where pp: "process_pages fuel args from_iso 1 start_state w1 = (p, w2)"
      by (cases "process_pages fuel args from_iso 1 start_state w1")
    have d1: "trued_up ?src (w_db w) (w_db w2)"
      using db_relD [OF process_pages_trued_up [of args fuel from_iso 1 start_state], of w1] pp w1 by simp
    have dry: "w_db w2 = w_db w" if "ra_dry_run args"
      using db_relD [OF process_pages_dry [OF that, of fuel from_iso 1 start_state], of w1] pp w1 by simp
    have ended: thesis if eq: "w' = w2"
      by (rule conc [of "w_db w2", OF d1]) (use eq dry in blast)+
    show ?thesis
    proof (cases p)
      case (Inr q)
      show ?thesis
      proof (cases q)
        case (PagesDone truncated st)
        with pages(3) pp Inr have "w' = snd (finish_run args from_iso from_ms (Option.bind state rs_watermark) truncated st w2)"
          by (simp add: bindM_def)
        with finish_run_db [of args from_iso from_ms "Option.bind state rs_watermark" truncated st w2] assms(2)
        have fin: "w_db w' = w_db w2 \<or> (\<exists>l t s j. w_db w' =
             advance_row g (next_watermark from_iso (rn_newest st) (ra_now args)) l t s j (w_db w2))"
           "ra_dry_run args \<Longrightarrow> w_db w' = w_db w2"
          by (auto split: if_splits)
        have fl: "run_floor (lookup rs_gateway_id g (t_reconcile (w_db w))) (ra_since args) = Some from_iso"
          using pages(2) state by simp
        show ?thesis
          by (rule that [of "w_db w2", OF d1]) (use fin dry fl in blast)+
      qed (rule ended, use pages(3) pp Inr in \<open>simp add: bindM_def\<close>)+
    qed (rule ended, use pages(3) pp in \<open>simp add: bindM_def\<close>)
  qed
qed


lemma run_watermark:
  assumes "watermark_of d g = Some t" "\<bar>t\<bar> \<le> MAX_TIME_VALUE" "t_reconcile d1 = t_reconcile d"
    "run_floor (lookup rs_gateway_id g (t_reconcile d)) since = Some from_iso"
  shows "\<exists>t'. watermark_of (advance_row g (next_watermark from_iso newest now) l at_ms s j d1) g = Some t'
           \<and> t \<le> t' \<and> (t' = t \<or> t' \<le> now - SETTLE_MS)"
proof -
  have "from_iso = to_iso_string t"
    using assms(1,4) by (simp add: run_floor_def watermark_of_def)
  then have p: "date_parse from_iso = Some t" using date_parse_iso [OF assms(2)] by simp
  have w: "watermark_of d1 g = Some t" using assms(1,3) by (simp add: watermark_of_def)
  show ?thesis
  proof (cases "next_watermark from_iso newest now")
    case None
    then show ?thesis using w by (simp add: watermark_advance_row coalesce_def)
  next
    case (Some t')
    then have "t < t'" "t' \<le> now - SETTLE_MS" using next_watermark_bounds [OF Some] p by auto
    then show ?thesis using w Some by (simp add: watermark_advance_row coalesce_def)
  qed
qed

section \<open>A sample run\<close>

text \<open>One ledger row charged 7, for which the biller states 10.\<close>

definition sample_gateway_row :: "string \<Rightarrow> string \<Rightarrow> gateway_log_row" where
  "sample_gateway_row i created =
     \<lparr>gl_id = i, gl_created_at = created, gl_model = None, gl_provider = None, gl_status_code = Some 200,
      gl_success = Some True, gl_cached = False, gl_tokens_in = None, gl_tokens_out = None,
      gl_cost = Some 10, gl_request_id = Some ''req_1'', gl_account_id = Some ''acc''\<rparr>"

definition sample_feed :: "gateway_log_row list \<Rightarrow> nat \<Rightarrow> log_source" where
  "sample_feed rows bad = \<lparr>ls_gateway_id = ''gw'', ls_list_since = (\<lambda>_ page _.
     Inr \<lparr>lp_rows = (if page = 1 then rows else []), lp_malformed = bad, lp_total_count = None\<rparr>)\<rparr>"

definition sample_run :: "log_source \<Rightarrow> bool \<Rightarrow> int \<Rightarrow> run_args" where
  "sample_run src dry cap = \<lparr>ra_source = src, ra_now = 1785888000123, ra_dry_run = dry, ra_since = None,
     ra_max_rows = Some cap, ra_per_page = None, ra_new_id = (\<lambda>n. ''adj_'' @ dec_of_nat n)\<rparr>"

definition sample_ledger_world :: world where
  "sample_ledger_world = \<lparr>w_db = empty_db\<lparr>
     t_accounts := [\<lparr>ac_id = ''acc'', ac_plan_id = ''free'', ac_label = None, ac_created_at = 0,
        ac_suspended_at = None, ac_credit = 100, ac_spent = 7\<rparr>],
     t_events := [\<lparr>ue_id = ''use_1'', ue_request_id = ''req_1'', ue_account_id = ''acc'',
        ue_client_id = ''cl'', ue_model_id = ''m'', ue_period_key = ''2026-08'', ue_input_tokens = Some 1,
        ue_output_tokens = Some 1, ue_micro_usd = 7, ue_from_allowance = 0, ue_from_credit = 7,
        ue_metered = True, ue_price_basis = Measured, ue_unmetered_reason = None,
        ue_upstream_status = Some 200, ue_gateway_log_id = None, ue_created_at = 1785801601\<rparr>],
     t_reconcile := [\<lparr>rs_gateway_id = ''gw'', rs_watermark = Some 1785800000000, rs_last_log_id = None,
        rs_last_run_at = None, rs_runs = 1, rs_rows_seen = 0, rs_rows_adjusted = 0\<rparr>]\<rparr>,
     w_now = 1785888000123, w_sched = []\<rparr>"

definition ended_with :: "(exn + run_result) \<times> world \<Rightarrow> (reconcile_report \<Rightarrow> db \<Rightarrow> bool) \<Rightarrow> bool" where
  "ended_with r P = (case r of (Inr (RunOk rep), w) \<Rightarrow> P rep (w_db w) | _ \<Rightarrow> False)"

lemma sample_run_ends:
  "ended_with (run_reconcile 3 (sample_run (sample_feed
     [sample_gateway_row ''log_1'' ''2026-08-04T00:00:00.000Z''] 0) False 10) sample_ledger_world)
     (\<lambda>rep d. rp_applied rep = 1 \<and> watermark_of d ''gw'' = Some 1785801600000)"
  by code_simp

abbreviation "sample_args \<equiv> sample_run (sample_feed
     [sample_gateway_row ''log_1'' ''2026-08-04T00:00:00.000Z''] 0) False 10"

section \<open>Properties of a run\<close>

text \<open>C20. A reconciliation run, whatever happens to its statements, only ever adds true-up rows that
  are backed: each names a ledger row, carries that row's account and period, an estimate equal to
  its charge, a biller's figure that the feed stated for that request, and a positive amount that
  takes the one to the other; each has a key of its own, so no gateway row is applied twice.  The
  ledger rows and every other table stay as they were.  The watermark never moves back and never
  past the settling ceiling.  A dry run changes nothing at all.\<close>

theorem reconcile_run_is_sound:
  fixes fuel args and w w' :: "'z world_scheme"
  defines "g \<equiv> ls_gateway_id (ra_source args)"
  assumes "w' = snd (run_reconcile fuel args w)"
  shows "run_frame (w_db w) (w_db w')
     \<and> (\<exists>new. t_adjustments (w_db w') = t_adjustments (w_db w) @ new
          \<and> (\<forall>a\<in>set new. backed (ra_source args) (t_events (w_db w)) a)
          \<and> distinct (List.map ua_key new)
          \<and> ua_key ` set new \<inter> ua_key ` set (t_adjustments (w_db w)) = {})
     \<and> (\<forall>t. watermark_of (w_db w) g = Some t \<and> \<bar>t\<bar> \<le> MAX_TIME_VALUE \<longrightarrow>
          (\<exists>t'. watermark_of (w_db w') g = Some t' \<and> t \<le> t' \<and> (t' = t \<or> t' \<le> ra_now args - SETTLE_MS)))
     \<and> (\<forall>g'. g' \<noteq> g \<longrightarrow> watermark_of (w_db w') g' = watermark_of (w_db w) g')
     \<and> (ra_dry_run args \<longrightarrow> w_db w' = w_db w)"
proof -
  have g: "g = ls_gateway_id (ra_source args)" by (simp add: g_def)
  obtain d1 where d1: "trued_up (ra_source args) (w_db w) d1"
      "ra_dry_run args \<Longrightarrow> d1 = w_db w \<and> w_db w' = d1"
      "w_db w' = d1 \<or> (\<exists>from_iso newest l t s j.
         run_floor (lookup rs_gateway_id g (t_reconcile (w_db w))) (ra_since args) = Some from_iso
         \<and> w_db w' = advance_row g (next_watermark from_iso newest (ra_now args)) l t s j d1)"
    using run_reconcile_db [OF assms(2) g] by metis
  have rec: "t_reconcile d1 = t_reconcile (w_db w)" using d1(1) by (simp add: trued_up_def)
  have same: "t_adjustments (w_db w') = t_adjustments d1" "run_frame d1 (w_db w')"
    using d1(3) by (auto simp: advance_row_def run_frame_def)
  have "run_frame (w_db w) (w_db w')"
    using same(2) d1(1) by (auto simp: trued_up_def run_frame_def)
  moreover have "\<exists>new. t_adjustments (w_db w') = t_adjustments (w_db w) @ new
          \<and> (\<forall>a\<in>set new. backed (ra_source args) (t_events (w_db w)) a)
          \<and> distinct (List.map ua_key new)
          \<and> ua_key ` set new \<inter> ua_key ` set (t_adjustments (w_db w)) = {}"
    using d1(1) same(1) by (simp add: trued_up_def)
  moreover have "\<exists>t'. watermark_of (w_db w') g = Some t' \<and> t \<le> t' \<and> (t' = t \<or> t' \<le> ra_now args - SETTLE_MS)"
    if "watermark_of (w_db w) g = Some t" "\<bar>t\<bar> \<le> MAX_TIME_VALUE" for t
    using d1(3)
  proof
    assume "w_db w' = d1"
    then show ?thesis using that(1) rec by (simp add: watermark_of_def)
  next
    assume "\<exists>from_iso newest l t s j.
         run_floor (lookup rs_gateway_id g (t_reconcile (w_db w))) (ra_since args) = Some from_iso
         \<and> w_db w' = advance_row g (next_watermark from_iso newest (ra_now args)) l t s j d1"
    then show ?thesis using run_watermark [OF that rec] by metis
  qed
  moreover have "watermark_of (w_db w') g' = watermark_of (w_db w) g'" if "g' \<noteq> g" for g'
    using d1(3) that rec by (auto simp: watermark_advance_row) (simp_all add: watermark_of_def)
  ultimately show ?thesis using d1(2) by blast
qed


theorem reconcile_run_is_sound_witness:
  "\<exists>t'. watermark_of (w_db (snd (run_reconcile 3 sample_args sample_ledger_world))) ''gw'' = Some t'
     \<and> 1785800000000 \<le> t' \<and> t' \<le> 1785888000123 - SETTLE_MS"
proof -
  have g: "ls_gateway_id (ra_source sample_args) = ''gw''" "ra_now sample_args = 1785888000123"
    by (simp_all add: sample_run_def sample_feed_def)
  have w: "watermark_of (w_db sample_ledger_world) ''gw'' = Some 1785800000000"
    by (simp add: watermark_of_def sample_ledger_world_def)
  have "\<exists>t'. watermark_of (w_db (snd (run_reconcile 3 sample_args sample_ledger_world))) ''gw'' = Some t'
      \<and> 1785800000000 \<le> t' \<and> (t' = 1785800000000 \<or> t' \<le> ra_now sample_args - SETTLE_MS)"
    using reconcile_run_is_sound [where fuel = 3 and args = sample_args and w = sample_ledger_world, OF refl] w
    unfolding g(1) by (simp add: MAX_TIME_VALUE_def)
  then show ?thesis unfolding g(2) by (auto simp: SETTLE_MS_def)
qed

section \<open>The report\<close>

definition adjust_count :: "reconcile_decision list \<Rightarrow> nat" where
  "adjust_count ds = length (List.filter (\<lambda>d. \<exists>a. rd_outcome d = Adjust a) ds)"

lemma adjust_count_tally: "adjust_count ds = rt_adjusted_spend (tally ds) + rt_adjusted_credit (tally ds)"
proof (induction ds rule: rev_induct)
  case (snoc d ds)
  then show ?case
    by (cases "rd_outcome d"; cases "case rd_outcome d of Skipped r \<Rightarrow> r | _ \<Rightarrow> Cached")
       (auto simp: adjust_count_def tally_snoc tally_one_def Let_def)
qed (simp add: adjust_count_def tally_def empty_totals_def)

text \<open>What the run's state says of its decisions and of the true-up table.\<close>

definition run_books :: "run_args \<Rightarrow> nat \<Rightarrow> run_state \<Rightarrow> db \<Rightarrow> bool" where
  "run_books args base st d \<longleftrightarrow>
     length (t_adjustments d) = base + rn_applied st
     \<and> rn_applied st + rn_already st = (if ra_dry_run args then 0 else adjust_count (rn_decisions st))
     \<and> (\<forall>x\<in>set (rn_decisions st). \<forall>a. rd_outcome x = Adjust a \<longrightarrow> true_up a)"

lemma apply_usage_adjustment_count:
  assumes "apply_usage_adjustment a w = (Inr done, w')"
  shows "length (t_adjustments (w_db w')) = length (t_adjustments (w_db w)) + (if done then 1 else 0)"
proof -
  obtain changed w1 where i: "stmt (\<lambda>now d. ins_adjustment a d) w = (Inr changed, w1)"
    and k: "(if \<not> changed then retM False
       else bindM (run_write (if ua_direction a = Spend then adjust_spend_batch a else adjust_credit_batch a))
              (\<lambda>_. retM True)) w1 = (Inr done, w')"
    using assms unfolding apply_usage_adjustment_def by (elim bindM_InrE)
  have "length (t_adjustments (w_db w1)) = length (t_adjustments (w_db w)) + (if changed then 1 else 0)"
    using i by (auto simp: stmt_def Let_def ins_adjustment_def split: fault.splits option.splits prod.splits if_splits)
  moreover have "t_adjustments (w_db w') = t_adjustments (w_db w1) \<and> done = changed"
    using k by (auto simp: run_write_def stmt_def unit_res_def Let_def elim!: bindM_InrE
        dest!: adjust_batch_frames split: if_splits fault.splits option.splits prod.splits)
  ultimately show ?thesis by simp
qed

lemma adjust_count_snoc:
  "adjust_count (ds @ [d]) = adjust_count ds + (case rd_outcome d of Adjust _ \<Rightarrow> 1 | _ \<Rightarrow> 0)"
  by (auto simp: adjust_count_def split: reconcile_outcome.splits)

lemma process_row_books:
  assumes "process_row args row st w = (Inr st', w')" "run_books args base st (w_db w)"
  shows "run_books args base st' (w_db w')
    \<and> length (rn_decisions st') = Suc (length (rn_decisions st)) \<and> rn_malformed st' = rn_malformed st"
proof -
  obtain event w1 where e: "(if needs_ledger_lookup row
            then get_usage_event_by_request_id (case gl_request_id row of Some q \<Rightarrow> q | None \<Rightarrow> [])
            else retM None) w = (Inr event, w1)"
    and k: "(let r = decide_adjustment row (map_option ledger_estimate_of event);
         st1 = note_decision row r st
     in case r of
          Adjust a \<Rightarrow>
            (if ra_dry_run args then retM st1
             else bindM (apply_usage_adjustment
                           (adjustment_row (ra_new_id args (rn_applied st1 + rn_already st1)) row a)) (\<lambda>done.
               retM (if done then st1\<lparr>rn_applied := rn_applied st1 + 1\<rparr>
                     else st1\<lparr>rn_already := rn_already st1 + 1\<rparr>)))
        | _ \<Rightarrow> retM st1) w1 = (Inr st', w')"
    using assms(1) unfolding process_row_def by (elim bindM_InrE)
  have w1: "w_db w1 = w_db w"
    using e read_only_db [OF get_ops_read_only(6), of _ w] by (auto split: if_splits) (metis snd_conv)+
  show ?thesis
  proof (cases "decide_adjustment row (map_option ledger_estimate_of event)")
    case (Adjust a)
    have "true_up a" by (rule decide_adjustment_Adjust [OF Adjust])
    with k w1 assms(2) Adjust show ?thesis
      by (auto simp: Let_def run_books_def note_decision_def adjust_count_snoc
          dest!: apply_usage_adjustment_count elim!: bindM_InrE split: if_splits)
  qed (use k w1 assms(2) in \<open>auto simp: Let_def run_books_def note_decision_def adjust_count_snoc\<close>)
qed

lemma process_rows_books:
  assumes "process_rows args rows st w = (Inr (truncated, st'), w')" "run_books args base st (w_db w)"
  shows "run_books args base st' (w_db w') \<and> rn_malformed st' = rn_malformed st
    \<and> (\<not> truncated \<longrightarrow> length (rn_decisions st') = length (rn_decisions st) + length rows
          \<and> (rows \<noteq> [] \<longrightarrow> int (length (rn_decisions st')) \<le> max_rows args))"
  using assms
proof (induction rows arbitrary: st w)
  case (Cons row rows)
  show ?case
  proof (cases "unsettled args row \<or> int (length (rn_decisions st)) \<ge> max_rows args")
    case False
    with Cons.prems(1) obtain st1 w1 where r: "process_row args row st w = (Inr st1, w1)"
        "process_rows args rows st1 w1 = (Inr (truncated, st'), w')"
      by (auto elim: bindM_InrE)
    note b = process_row_books [OF r(1) Cons.prems(2)]
    with Cons.IH [OF r(2)] False show ?thesis
      by (cases rows) auto
  qed (use Cons.prems in auto)
qed auto

lemma process_pages_books:
  assumes "process_pages fuel args from_iso page st w = (Inr (PagesDone truncated st'), w')"
    and "run_books args base st (w_db w)"
  shows "run_books args base st' (w_db w')"
  using assms
proof (induction fuel arbitrary: page st w)
  case (Suc n)
  then obtain batch where b: "ls_list_since (ra_source args) from_iso page (per_page args) = Inr batch"
    by (auto split: sum.splits)
  let ?st = "st\<lparr>rn_pages := rn_pages st + 1, rn_malformed := rn_malformed st + lp_malformed batch\<rparr>"
  from Suc.prems(1) b obtain tr st1 w1 where r: "process_rows args (lp_rows batch) ?st w = (Inr (tr, st1), w1)"
      "(if tr then retM (PagesDone True st1)
        else if int (length (lp_rows batch) + lp_malformed batch) < per_page args then retM (PagesDone False st1)
        else process_pages n args from_iso (page + 1) st1) w1 = (Inr (PagesDone truncated st'), w')"
    by (auto elim!: bindM_InrE)
  have "run_books args base ?st (w_db w)" using Suc.prems(2) by (simp add: run_books_def)
  from process_rows_books [OF r(1) this] r(2) Suc.IH show ?case
    by (auto split: if_splits)
qed simp



section \<open>Termination\<close>

definition malformed_on :: "run_args \<Rightarrow> string \<Rightarrow> int \<Rightarrow> nat" where
  "malformed_on args from_iso page =
     (case ls_list_since (ra_source args) from_iso page (per_page args) of
        Inr batch \<Rightarrow> lp_malformed batch | Inl _ \<Rightarrow> 0)"

fun malformed_from :: "run_args \<Rightarrow> string \<Rightarrow> int \<Rightarrow> nat \<Rightarrow> nat" where
  "malformed_from args from_iso page 0 = 0"
| "malformed_from args from_iso page (Suc n) =
     malformed_on args from_iso page + malformed_from args from_iso (page + 1) n"

lemma process_rows_length:
  assumes "process_rows args rows st w = (Inr (False, st'), w')"
  shows "length (rn_decisions st') = length (rn_decisions st) + length rows
    \<and> (rows \<noteq> [] \<longrightarrow> int (length (rn_decisions st')) \<le> max_rows args)"
proof -
  have one: "length (rn_decisions st1) = Suc (length (rn_decisions st))"
    if "process_row args row st w = (Inr st1, w1)" for row st st1 and w w1 :: "'a world_scheme"
    using that unfolding process_row_def
    by (auto simp: Let_def note_decision_def elim!: bindM_InrE split: reconcile_outcome.splits if_splits)
  show ?thesis
    using assms
  proof (induction rows arbitrary: st w)
    case (Cons row rows)
    then obtain st1 w1 where "process_row args row st w = (Inr st1, w1)"
        "process_rows args rows st1 w1 = (Inr (False, st'), w')"
        "int (length (rn_decisions st)) < max_rows args"
      by (auto elim!: bindM_InrE split: if_splits)
    with Cons.IH one show ?case by (cases rows) fastforce+
  qed simp
qed

lemma process_pages_terminate:
  assumes "\<forall>n. malformed_from args from_iso page n \<le> M"
    and "nat (max_rows args - int (length (rn_decisions st))) + M < fuel"
  shows "fst (process_pages fuel args from_iso page st w) \<noteq> Inr PagesUnfinished"
  using assms
proof (induction fuel arbitrary: page st w M)
  case (Suc fuel)
  show ?case
  proof (cases "ls_list_since (ra_source args) from_iso page (per_page args)")
    case (Inr batch)
    let ?b = "lp_malformed batch"
    let ?st = "st\<lparr>rn_pages := rn_pages st + 1, rn_malformed := rn_malformed st + ?b\<rparr>"
    have on: "malformed_on args from_iso page = ?b" using Inr by (simp add: malformed_on_def)
    have M: "?b \<le> M" using Suc.prems(1)[rule_format, of 1] on by simp
    have rest: "\<forall>n. malformed_from args from_iso (page + 1) n \<le> M - ?b"
    proof
      fix n show "malformed_from args from_iso (page + 1) n \<le> M - ?b"
        using Suc.prems(1)[rule_format, of "Suc n"] on by simp
    qed
    have pp: "1 \<le> per_page args" by (simp add: per_page_def MAX_PER_PAGE_def)
    obtain r w1 where rows: "process_rows args (lp_rows batch) ?st w = (r, w1)"
      by (cases "process_rows args (lp_rows batch) ?st w")
    show ?thesis
    proof (cases r)
      case (Inr p)
      obtain tr st1 where p: "p = (tr, st1)" by (cases p)
      show ?thesis
      proof (cases "tr \<or> int (length (lp_rows batch) + ?b) < per_page args")
        case True
        then show ?thesis using \<open>ls_list_since _ _ _ _ = _\<close> rows Inr p by (auto simp: bindM_def)
      next
        case False
        with rows Inr p have len: "length (rn_decisions st1) = length (rn_decisions st) + length (lp_rows batch)"
            "lp_rows batch \<noteq> [] \<longrightarrow> int (length (rn_decisions st1)) \<le> max_rows args"
          using process_rows_length [of args "lp_rows batch" ?st w st1 w1] by auto
        have "nat (max_rows args - int (length (rn_decisions st1))) + (M - ?b) < fuel"
          using len M pp False Suc.prems(2) by (cases "lp_rows batch") auto
        from Suc.IH [OF rest this, of w1] show ?thesis
          using \<open>ls_list_since _ _ _ _ = _\<close> rows Inr p False by (simp add: bindM_def)
      qed
    qed (use \<open>ls_list_since _ _ _ _ = _\<close> rows in \<open>simp add: bindM_def\<close>)
  qed simp
qed simp

lemma process_pages_more_fuel:
  "fst (process_pages fuel args from_iso page st w) \<noteq> Inr PagesUnfinished \<Longrightarrow>
     process_pages (fuel + k) args from_iso page st w = process_pages fuel args from_iso page st w"
proof (induction fuel arbitrary: page st w)
  case (Suc n)
  then show ?case
    by (auto simp: bindM_def split: sum.splits prod.splits if_splits)
qed simp

text \<open>C22. A run ends.  When the feed holds finitely many unreadable rows, a run given one page more
  than its row cap and that number always ends, whatever the feed's pages and whatever fails, and
  a larger allowance changes nothing; the number of pages of the source's unbounded loop is thus
  bounded.\<close>

theorem reconcile_run_terminates:
  fixes w :: "'z world_scheme"
  assumes "\<forall>from_iso n. malformed_from args from_iso 1 n \<le> M" and "nat (max_rows args) + M < fuel"
  shows "fst (run_reconcile fuel args w) \<noteq> Inr RunUnfinished
    \<and> run_reconcile (fuel + k) args w = run_reconcile fuel args w"
proof
  have p: "fst (process_pages fuel args from_iso 1 start_state w1) \<noteq> Inr PagesUnfinished" for from_iso and w1 :: "'z world_scheme"
    by (rule process_pages_terminate [where M = M]) (use assms in \<open>simp_all add: start_state_def\<close>)
  have f: "fst (finish_run args from_iso from_ms before truncated st w1) \<noteq> Inr RunUnfinished"
    for from_iso from_ms before truncated st and w1 :: "'z world_scheme"
    by (auto simp: finish_run_def bindM_def Let_def split: sum.splits prod.splits)
  have q: "(process_pages (fuel + k) args from_iso 1 start_state :: (pages_end, 'z) m) =
      process_pages fuel args from_iso 1 start_state"
    for from_iso by (rule ext) (rule process_pages_more_fuel [OF p])
  have "run_reconcile fuel args w \<noteq> (Inr RunUnfinished, w')" for w'
  proof
    assume "run_reconcile fuel args w = (Inr RunUnfinished, w')"
    then obtain from_iso from_ms pages w1 w2 before where
      pp: "process_pages fuel args from_iso 1 start_state w1 = (Inr pages, w2)"
      and "(case pages of PagesFailed e \<Rightarrow> retM (RunUpstream e) | PagesUnfinished \<Rightarrow> retM RunUnfinished
          | PagesDone truncated st \<Rightarrow> finish_run args from_iso from_ms before truncated st) w2 =
          (Inr RunUnfinished, w')"
      unfolding run_reconcile_def
      by (elim bindM_InrE) (auto elim!: bindM_InrE split: option.splits)
    moreover have "pages \<noteq> PagesUnfinished" using p [of from_iso w1] pp by simp
    moreover have "finish_run args from_iso from_ms before truncated st w2 \<noteq> (Inr RunUnfinished, w')" for truncated st
      using f [of from_iso from_ms before truncated st w2] by auto
    ultimately show False by (cases pages) auto
  qed
  then show "fst (run_reconcile fuel args w) \<noteq> Inr RunUnfinished" by (metis prod.collapse)
  show "run_reconcile (fuel + k) args w = run_reconcile fuel args w"
    by (simp add: run_reconcile_def q cong: option.case_cong)
qed

theorem reconcile_run_terminates_witness:
  "fst (run_reconcile 11 sample_args sample_ledger_world) \<noteq> Inr RunUnfinished"
proof -
  have "malformed_on sample_args f p = 0" for f p
    by (simp add: malformed_on_def sample_run_def sample_feed_def)
  then have m: "malformed_from sample_args f p n = 0" for f p n
    by (induction n arbitrary: p) simp_all
  have "nat (max_rows sample_args) + 0 < 11" by (simp add: max_rows_def sample_run_def)
  moreover have "\<forall>f n. malformed_from sample_args f 1 n \<le> 0" by (simp add: m)
  ultimately show ?thesis using reconcile_run_terminates by blast
qed

text \<open>The cap counts decided rows only: a feed whose pages are full of rows that cannot be read is
  paged for ever.\<close>

lemma malformed_feed_never_ends:
  assumes "\<forall>page. \<exists>batch. ls_list_since (ra_source args) from_iso page (per_page args) = Inr batch
      \<and> lp_rows batch = [] \<and> per_page args \<le> int (lp_malformed batch)"
  shows "fst (process_pages fuel args from_iso page st w) = Inr PagesUnfinished"
proof (induction fuel arbitrary: page st)
  case (Suc n)
  obtain batch where "ls_list_since (ra_source args) from_iso page (per_page args) = Inr batch"
      "lp_rows batch = []" "per_page args \<le> int (lp_malformed batch)"
    using assms by blast
  with Suc show ?case by simp
qed simp

text \<open>A cap that falls between two rows of one instant loses the second: the watermark moves to that
  instant, and the next query asks for later rows only.\<close>

lemma cap_between_equal_instants:
  assumes "gl_created_at r1 = gl_created_at r2" "date_parse (gl_created_at r1) = Some t"
    and "t < ra_now args - SETTLE_MS" "max_rows args = 1"
    and "process_row args r1 st w = (Inr st1, w1)" "rn_decisions st = []"
    and "date_parse from_iso = Some c" "c < t"
  shows "process_rows args (r1 # r2 # rows) st w = (Inr (True, st1), w1)"
    "next_watermark from_iso (rn_newest st1) (ra_now args) = Some t"
proof -
  have new: "rn_newest st1 = Some (gl_created_at r1) \<and> length (rn_decisions st1) = 1"
    using assms(5,6) unfolding process_row_def
    by (auto simp: Let_def note_decision_def elim!: bindM_InrE split: reconcile_outcome.splits if_splits)
  show "process_rows args (r1 # r2 # rows) st w = (Inr (True, st1), w1)"
    using assms new by (simp add: unsettled_def bindM_def)
  show "next_watermark from_iso (rn_newest st1) (ra_now args) = Some t"
    using assms new by (simp add: next_watermark_def)
qed

end
