(* ===== verification/Operator.thy ===== *)
theory Operator
  imports Env
begin

text \<open>
  src/src/routes/admin.ts and src/src/routes/reconcile.ts: the operator surface.  Every handler
  starts with the same gate; the random bytes a handler draws are a numbered supply of its context.
  The prose of errors and notes on the console are left out.
\<close>

section \<open>The gate\<close>

record op_ctx =
  oc_sha256     :: "string \<Rightarrow> string"
  oc_env        :: env
  oc_logs       :: "log_source option"
  oc_request_id :: string
  oc_now        :: int
  oc_random     :: "nat \<Rightarrow> string"

definition require_operator :: "op_ctx \<Rightarrow> request \<Rightarrow> response option" where
  "require_operator cx rq =
     (let rid = oc_request_id cx; configured = env_text (env_admin_token (oc_env cx)) in
      if configured = [] then Some (error_response rid Unavailable)
      else case bearer_from_request rq of
        None \<Rightarrow> Some (error_response rid Unauthenticated)
      | Some presented \<Rightarrow>
          if presented = [] then Some (error_response rid Unauthenticated)
          else if \<not> constant_time_equal (sha256_hex (oc_sha256 cx) presented)
                      (sha256_hex (oc_sha256 cx) configured)
            then Some (error_response rid Unauthenticated)
          else None)"

text \<open>The gate, then the body; a body of null counts as an empty object, and a property of anything
  but an object is undefined.\<close>

definition operator_body :: "op_ctx \<Rightarrow> request \<Rightarrow> response + js" where
  "operator_body cx rq =
     (case require_operator cx rq of
        Some resp \<Rightarrow> Inl resp
      | None \<Rightarrow>
          (case read_json_body MAX_BODY_BYTES rq of
             Inl f \<Rightarrow> Inl (error_response (oc_request_id cx) (read_failure_code f))
           | Inr body \<Rightarrow> Inr body))"

definition str_or_none :: "js \<Rightarrow> string option" where
  "str_or_none v = (case v of JStr s \<Rightarrow> Some s | _ \<Rightarrow> None)"

definition js_of_str_option :: "string option \<Rightarrow> js" where
  "js_of_str_option o' = (case o' of Some s \<Rightarrow> JStr s | None \<Rightarrow> JNull)"

abbreviation js_int :: "int \<Rightarrow> js" where
  "js_int i \<equiv> JNum (NInt i)"

text \<open>\<open>Number.isInteger(v)\<close> with its value.\<close>

definition integer_of :: "js \<Rightarrow> int option" where
  "integer_of v = (case v of JNum (NInt i) \<Rightarrow> Some i | _ \<Rightarrow> None)"

section \<open>Accounts and credit\<close>

text \<open>A stored plan's opening credit; the column holds an integer, as the plan route writes it.\<close>

definition handle_create_account :: "op_ctx \<Rightarrow> request \<Rightarrow> (response, 'z) m" where
  "handle_create_account cx rq =
     (let rid = oc_request_id cx in
      case operator_body cx rq of
        Inl resp \<Rightarrow> retM resp
      | Inr raw \<Rightarrow>
     (case js_get raw ''plan_id'' of
        JStr pid \<Rightarrow>
          if js_trim pid = [] then retM (error_response rid Invalid_request)
          else
            bindM (get_plan (js_trim pid)) (\<lambda>p.
            case p of
              None \<Rightarrow> retM (error_response rid Invalid_request)
            | Some plan \<Rightarrow>
                (let i = new_id ''acct'' (oc_random cx 0) in
                 bindM (create_account i (pr_id plan) (str_or_none (js_get raw ''label''))
                          (int_of_num (pr_signup_credit plan)) (new_id ''grant'' (oc_random cx 1))
                          (''signup:'' @ i)) (\<lambda>a.
                 retM (json_response rid (JObj
                   [(''id'', JStr (ac_id a)), (''plan_id'', JStr (ac_plan_id a)),
                    (''label'', js_of_str_option (ac_label a)), (''status'', JStr ''active''),
                    (''credit_micro_usd'', js_int (ac_credit a))]) 201 []))))
      | _ \<Rightarrow> retM (error_response rid Invalid_request)))"

definition handle_grant_credit :: "op_ctx \<Rightarrow> request \<Rightarrow> string \<Rightarrow> (response, 'z) m" where
  "handle_grant_credit cx rq account_id =
     (let rid = oc_request_id cx in
      case operator_body cx rq of
        Inl resp \<Rightarrow> retM resp
      | Inr raw \<Rightarrow>
     (case (integer_of (js_get raw ''micro_usd''), js_get raw ''idempotency_key'') of
        (Some n, key) \<Rightarrow>
          if n \<le> 0 then retM (error_response rid Invalid_request)
          else
         (case key of
            JStr k \<Rightarrow>
              if length (js_trim k) < 4 then retM (error_response rid Invalid_request)
              else
                bindM (get_account account_id) (\<lambda>a.
                case a of
                  None \<Rightarrow> retM (error_response rid Invalid_request)
                | Some account \<Rightarrow>
                    bindM (grant_credit \<lparr>gr_id = new_id ''grant'' (oc_random cx 0),
                             gr_account_id = ac_id account, gr_micro_usd = n, gr_key = js_trim k,
                             gr_note = str_or_none (js_get raw ''note'')\<rparr>) (\<lambda>(done, credit).
                    retM (json_response rid (JObj
                      [(''account_id'', JStr (ac_id account)), (''applied'', JBool done),
                       (''credit_micro_usd'', js_int credit),
                       (''spent_micro_usd'', js_int (ac_spent account))]) 200 [])))
          | _ \<Rightarrow> retM (error_response rid Invalid_request))
      | (None, _) \<Rightarrow> retM (error_response rid Invalid_request)))"

section \<open>Model prices\<close>

text \<open>The rates of the body: \<open>None\<close> for an absent field, an error for one that is not a
  non-negative integer.\<close>

definition rate_field :: "js \<Rightarrow> unit + int" where
  "rate_field v = (case integer_of v of Some n \<Rightarrow> if n < 0 then Inl () else Inr n | None \<Rightarrow> Inl ())"

definition price_fields :: "js \<Rightarrow> unit + (int \<times> int \<times> int option)" where
  "price_fields raw =
     (let inp = js_get raw ''input_micro_usd_per_mtok''; out = js_get raw ''output_micro_usd_per_mtok'';
          unt = js_get raw ''unit_micro_usd'';
          has_token = (inp \<noteq> JUndef \<or> out \<noteq> JUndef); has_unit = (unt \<noteq> JUndef)
      in if \<not> has_token \<and> \<not> has_unit then Inl ()
         else andthen (if has_token then rate_field inp else Inr 0) (\<lambda>i.
              andthen (if has_token then rate_field out else Inr 0) (\<lambda>o'.
              andthen (if has_unit then andthen (rate_field unt) (\<lambda>u. Inr (Some u)) else Inr None) (\<lambda>u.
              Inr (i, o', u)))))"

definition handle_set_model_price :: "op_ctx \<Rightarrow> request \<Rightarrow> (response, 'z) m" where
  "handle_set_model_price cx rq =
     (let rid = oc_request_id cx in
      case operator_body cx rq of
        Inl resp \<Rightarrow> retM resp
      | Inr raw \<Rightarrow>
     (case Option.bind (str_or_none (js_get raw ''model_id'')) find_model of
        None \<Rightarrow> retM (error_response rid Invalid_request)
      | Some entry \<Rightarrow>
     (case price_fields raw of
        Inl _ \<Rightarrow> retM (error_response rid Invalid_request)
      | Inr (inp, out, unt) \<Rightarrow>
          bindM (put_model_price \<lparr>mp_model_id = str_of_js (js_get raw ''model_id''), mp_input = NInt inp,
                   mp_output = NInt out, mp_unit_micro = map_option NInt unt,
                   mp_priced_at = take 10 (to_iso_string (oc_now cx)),
                   mp_note = str_or_none (js_get raw ''note'')\<rparr>) (\<lambda>_.
          retM (json_response rid (JObj
            [(''model_id'', js_get raw ''model_id''), (''input_micro_usd_per_mtok'', js_int inp),
             (''output_micro_usd_per_mtok'', js_int out),
             (''unit_micro_usd'', case unt of Some u \<Rightarrow> js_int u | None \<Rightarrow> JNull),
             (''modality'', JStr (modality_name (ce_modality entry))), (''spendable'', JBool True)]) 200 [])))))"

section \<open>Enrollments and clients\<close>

definition DEFAULT_TTL_MINUTES :: int where "DEFAULT_TTL_MINUTES = 60"
definition MAX_TTL_MINUTES :: int where "MAX_TTL_MINUTES = 60 * 24 * 7"

definition ttl_minutes :: "js \<Rightarrow> int option" where
  "ttl_minutes v =
     (if v = JUndef then Some DEFAULT_TTL_MINUTES
      else case integer_of v of
             Some n \<Rightarrow> if n < 1 then None else Some (min n MAX_TTL_MINUTES) | None \<Rightarrow> None)"

definition handle_create_enrollment :: "op_ctx \<Rightarrow> request \<Rightarrow> (response, 'z) m" where
  "handle_create_enrollment cx rq =
     (let rid = oc_request_id cx in
      case operator_body cx rq of
        Inl resp \<Rightarrow> retM resp
      | Inr raw \<Rightarrow>
     (case js_get raw ''account_id'' of
        JStr aid \<Rightarrow>
          if js_trim aid = [] then retM (error_response rid Invalid_request)
          else (case ttl_minutes (js_get raw ''ttl_minutes'') of
            None \<Rightarrow> retM (error_response rid Invalid_request)
          | Some ttl \<Rightarrow>
              bindM (get_account (js_trim aid)) (\<lambda>a.
              case a of
                None \<Rightarrow> retM (error_response rid Invalid_request)
              | Some account \<Rightarrow>
                  (let token = random_secret (oc_random cx 0) in
                   bindM (create_enrollment (sha256_hex (oc_sha256 cx) token) (ac_id account)
                            (oc_now cx + ttl * 60000) (str_or_none (js_get raw ''note''))) (\<lambda>_.
                   retM (json_response rid (JObj
                     [(''enrollment_token'', JStr token), (''account_id'', JStr (ac_id account)),
                      (''expires_in_minutes'', js_int ttl)]) 201 [])))))
      | _ \<Rightarrow> retM (error_response rid Invalid_request)))"

definition handle_revoke_client :: "op_ctx \<Rightarrow> request \<Rightarrow> string \<Rightarrow> (response, 'z) m" where
  "handle_revoke_client cx rq client_id =
     (case require_operator cx rq of
        Some resp \<Rightarrow> retM resp
      | None \<Rightarrow>
          bindM (revoke_client client_id) (\<lambda>revoked.
          retM (json_response (oc_request_id cx)
                  (JObj [(''client_id'', JStr client_id), (''revoked'', JBool revoked)]) 200 [])))"

section \<open>Plans\<close>

definition is_plan_id_char :: "char \<Rightarrow> bool" where
  "is_plan_id_char c = (let n = ord_of c in (97 \<le> n \<and> n \<le> 122) \<or> (48 \<le> n \<and> n \<le> 57) \<or> n = 95 \<or> n = 45)"

definition plan_id_ok :: "string \<Rightarrow> bool" where
  "plan_id_ok s = (s \<noteq> [] \<and> 97 \<le> ord_of (hd s) \<and> ord_of (hd s) \<le> 122
     \<and> length s \<le> 64 \<and> list_all is_plan_id_char s)"

definition tiers_csv :: "js \<Rightarrow> string option" where
  "tiers_csv v =
     (case v of
        JArr ts \<Rightarrow> if list_all is_str ts then Some (join_with '','' (List.map str_of_js ts)) else None
      | JStr s \<Rightarrow> Some s
      | _ \<Rightarrow> None)"

text \<open>The row of the body: the checks in the order of the source.\<close>

definition plan_row_of_body :: "js \<Rightarrow> plan_row option" where
  "plan_row_of_body raw =
     (case (js_get raw ''id'', js_get raw ''name'',
            integer_of (js_get raw ''signup_credit_micro_usd''),
            integer_of (js_get raw ''monthly_included_micro_usd''),
            integer_of (js_get raw ''requests_per_minute''),
            integer_of (js_get raw ''max_output_tokens''),
            tiers_csv (js_get raw ''allowed_tiers'')) of
        (JStr i, JStr name, Some signup, Some monthly, Some rpm, Some max_out, Some csv) \<Rightarrow>
          if \<not> plan_id_ok i \<or> js_trim name = [] \<or> parse_tiers csv = [] then None
          else Some \<lparr>pr_id = i, pr_name = js_trim name, pr_signup_credit = NInt signup,
                 pr_monthly_included = NInt monthly, pr_requests_per_minute = NInt rpm,
                 pr_max_output_tokens = NInt max_out,
                 pr_allowed_tiers = join_with '','' (List.map tier_name (parse_tiers csv))\<rparr>
      | _ \<Rightarrow> None)"

definition handle_upsert_plan :: "op_ctx \<Rightarrow> request \<Rightarrow> (response, 'z) m" where
  "handle_upsert_plan cx rq =
     (let rid = oc_request_id cx in
      case operator_body cx rq of
        Inl resp \<Rightarrow> retM resp
      | Inr raw \<Rightarrow>
     (case plan_row_of_body raw of
        None \<Rightarrow> retM (error_response rid Invalid_request)
      | Some row \<Rightarrow>
     (case plan_from_row row of
        Inl _ \<Rightarrow> retM (error_response rid Invalid_request)
      | Inr plan \<Rightarrow>
          bindM (get_plan (pr_id row)) (\<lambda>old.
          bindM (put_plan row) (\<lambda>_.
          retM (json_response rid
            (case public_plan plan of
               JObj fs \<Rightarrow> JObj (fs @ [(''created'', JBool (old = None))]) | v \<Rightarrow> v)
            (if old = None then 201 else 200) []))))))"

section \<open>Reconciliation\<close>

definition totals_json :: "reconcile_totals \<Rightarrow> js" where
  "totals_json t = JObj
     [(''rows'', js_int (int (rt_rows t))), (''in_agreement'', js_int (int (rt_in_agreement t))),
      (''adjusted_spend'', js_int (int (rt_adjusted_spend t))),
      (''adjusted_credit'', js_int (int (rt_adjusted_credit t))),
      (''spend_micro_usd'', js_int (rt_spend_micro_usd t)),
      (''credit_micro_usd'', js_int (rt_credit_micro_usd t)),
      (''skipped_no_request_id'', js_int (int (rt_no_request_id t))),
      (''skipped_cached'', js_int (int (rt_cached t))),
      (''skipped_unknown_cost'', js_int (int (rt_unknown_cost t))),
      (''skipped_no_ledger_row'', js_int (int (rt_no_ledger_row t))),
      (''skipped_account_mismatch'', js_int (int (rt_account_mismatch t)))]"

fun finding_name :: "finding \<Rightarrow> string" where
  "finding_name FoundNoLedgerRow = ''no_ledger_row''"
| "finding_name FoundAccountMismatch = ''account_mismatch''"
| "finding_name FoundUnmatchedLedgerRow = ''unmatched_ledger_row''"
| "finding_name FoundMalformedRows = ''malformed_rows''"

text \<open>A column filled by \<open>datetime('now')\<close>, as SQLite prints it.\<close>

definition sqlite_text :: "int \<Rightarrow> string" where
  "sqlite_text s = (let iso = to_iso_string (s * 1000) in take 10 iso @ '' '' @ take 8 (drop 11 iso))"

definition instant_json :: "int option \<Rightarrow> js" where
  "instant_json t = (case t of Some ms \<Rightarrow> JStr (to_iso_string ms) | None \<Rightarrow> JNull)"

definition report_json :: "reconcile_report \<Rightarrow> js" where
  "report_json r = JObj
     [(''gateway_id'', JStr (rp_gateway_id r)), (''dry_run'', JBool (rp_dry_run r)),
      (''window_from'', JStr (rp_window_from r)), (''window_to'', JStr (to_iso_string (rp_window_to r))),
      (''watermark_before'', instant_json (rp_watermark_before r)),
      (''watermark_after'', instant_json (rp_watermark_after r)),
      (''pages'', js_int (int (rp_pages r))), (''truncated'', JBool (rp_truncated r)),
      (''malformed_rows'', js_int (int (rp_malformed_rows r))),
      (''applied'', js_int (int (rp_applied r))),
      (''already_applied'', js_int (int (rp_already_applied r))),
      (''totals'', totals_json (rp_totals r)),
      (''drift_ratio'', case rp_drift_ratio r of Some q \<Rightarrow> JNum (num_of_rat q) | None \<Rightarrow> JNull),
      (''drift_alert'', JBool (rp_drift_alert r)),
      (''unmatched_ledger_rows'', JArr (List.map (\<lambda>u. JObj
         [(''id'', JStr (uk_id u)), (''request_id'', JStr (uk_request_id u)),
          (''micro_usd'', js_int (uk_micro_usd u)), (''metered'', JBool (uk_metered u)),
          (''created_at'', JStr (sqlite_text (uk_created_at u)))]) (rp_unmatched r))),
      (''findings'', JArr (List.map (\<lambda>f. JObj [(''kind'', JStr (finding_name f))]) (rp_findings r)))]"

definition reconcile_args :: "op_ctx \<Rightarrow> log_source \<Rightarrow> bool \<Rightarrow> string option \<Rightarrow> int option \<Rightarrow> run_args" where
  "reconcile_args cx logs dry since cap =
     \<lparr>ra_source = logs, ra_now = oc_now cx, ra_dry_run = dry, ra_since = since, ra_max_rows = cap,
      ra_per_page = None, ra_new_id = (\<lambda>n. new_id ''adj'' (oc_random cx n))\<rparr>"

text \<open>The three fields of the body; each may be absent.\<close>

definition dry_run_field :: "js \<Rightarrow> bool option" where
  "dry_run_field v = (case v of JUndef \<Rightarrow> Some True | JBool b \<Rightarrow> Some b | _ \<Rightarrow> None)"

definition since_field :: "js \<Rightarrow> string option option" where
  "since_field v = (case v of JUndef \<Rightarrow> Some None
     | JStr s \<Rightarrow> if date_parse s = None then None else Some (Some s) | _ \<Rightarrow> None)"

definition max_rows_field :: "js \<Rightarrow> int option option" where
  "max_rows_field v = (if v = JUndef then Some None else
     case integer_of v of Some n \<Rightarrow> if n < 1 then None else Some (Some (min n (int MAX_ROWS_PER_RUN)))
     | None \<Rightarrow> None)"

definition handle_reconcile :: "nat \<Rightarrow> op_ctx \<Rightarrow> request \<Rightarrow> (response, 'z) m" where
  "handle_reconcile fuel cx rq =
     (let rid = oc_request_id cx in
      case require_operator cx rq of
        Some resp \<Rightarrow> retM resp
      | None \<Rightarrow>
     (case oc_logs cx of
        None \<Rightarrow> retM (error_response rid Unavailable)
      | Some logs \<Rightarrow>
     (case read_json_body MAX_BODY_BYTES rq of
        Inl f \<Rightarrow> retM (error_response rid (read_failure_code f))
      | Inr raw \<Rightarrow>
     (case (dry_run_field (js_get raw ''dry_run''), since_field (js_get raw ''since''),
            max_rows_field (js_get raw ''max_rows'')) of
        (Some dry, Some since, Some cap) \<Rightarrow>
          bindM (run_reconcile fuel (reconcile_args cx logs dry since cap)) (\<lambda>result.
          retM (case result of
                  RunOk report \<Rightarrow> json_response rid (report_json report) 200 []
                | RunNoFloor \<Rightarrow> error_response rid Invalid_request
                | _ \<Rightarrow> error_response rid Upstream_error))
      | _ \<Rightarrow> retM (error_response rid Invalid_request)))))"

end
