(* ===== verification/Account.thy ===== *)
theory Account
  imports Operator
begin

text \<open>
  src/src/routes/account.ts, clients.ts, health.ts and jobs.ts: the read surface, enrollment, the
  two probes and the job index.
\<close>

section \<open>Usage\<close>

definition period_field :: "(period_row \<Rightarrow> int) \<Rightarrow> period_row option \<Rightarrow> int" where
  "period_field f p = (case p of Some r \<Rightarrow> f r | None \<Rightarrow> 0)"

definition usage_fields :: "account_row \<Rightarrow> int \<Rightarrow> plan \<Rightarrow> period_row option \<Rightarrow> (string \<times> js) list" where
  "usage_fields account now p period =
     (let bounds = period_bounds_of now;
          allowance_spent = period_field pe_allowance_spent period;
          allowance_remaining = remaining_allowance (NInt (plan_monthly_included p)) (NInt allowance_spent);
          credit_remaining = remaining_micro_usd
            \<lparr>bs_credit = NInt (ac_credit account), bs_spent = NInt (ac_spent account)\<rparr>
      in [(''credit_micro_usd'', js_int (ac_credit account)),
          (''spent_micro_usd'', js_int (ac_spent account)),
          (''remaining_micro_usd'', JNum credit_remaining),
          (''monthly_included_micro_usd'', js_int (plan_monthly_included p)),
          (''allowance_spent_micro_usd'', js_int allowance_spent),
          (''allowance_remaining_micro_usd'', JNum allowance_remaining),
          (''spendable_remaining_micro_usd'', JNum (js_add allowance_remaining credit_remaining)),
          (''overage'', JBool False),
          (''period'', JStr (pb_key bounds)), (''period_start'', JStr (pb_start bounds)),
          (''period_end'', JStr (pb_end bounds)),
          (''period_micro_usd'', js_int (period_field pe_micro_usd period)),
          (''period_requests'', js_int (period_field pe_requests period)),
          (''period_unmetered_requests'', js_int (period_field pe_unmetered period)),
          (''period_adjust_spend_micro_usd'', js_int (period_field pe_adjust_spend period)),
          (''period_adjust_credit_micro_usd'', js_int (period_field pe_adjust_credit period)),
          (''period_reconciled_micro_usd'', js_int (period_field pe_micro_usd period
             + period_field pe_adjust_spend period - period_field pe_adjust_credit period))])"

definition usage_body :: "account_row \<Rightarrow> int \<Rightarrow> plan \<Rightarrow> (js, 'z) m" where
  "usage_body account now p =
     bindM (get_period (ac_id account) (pb_key (period_bounds_of now))) (\<lambda>period.
     retM (JObj (usage_fields account now p period)))"

text \<open>The caller with a usable plan, or the refusal.\<close>

definition caller_with_plan ::
  "('z, 'x) ctx_scheme \<Rightarrow> request \<Rightarrow> (response + caller \<times> plan, 'z) h" where
  "caller_with_plan cx rq =
     bindM (require_caller (cx_sha256 cx) (cx_request_id cx) rq) (\<lambda>authed.
     retM (case authed of
             Inl resp \<Rightarrow> Inl resp
           | Inr c \<Rightarrow>
               (case plan_from_row (ca_plan c) of
                  Inl _ \<Rightarrow> Inl (error_response (cx_request_id cx) Unavailable)
                | Inr p \<Rightarrow> Inr (c, p))))"

definition handle_me :: "('z, 'x) ctx_scheme \<Rightarrow> request \<Rightarrow> (response, 'z) h" where
  "handle_me cx rq =
     bindM (caller_with_plan cx rq) (\<lambda>r.
     case r of
       Inl resp \<Rightarrow> retM resp
     | Inr (c, p) \<Rightarrow>
         (let client = ca_client c; account = ca_account c in
          bindM (usage_body account (cx_now cx) p) (\<lambda>usage.
          retM (json_response (cx_request_id cx) (JObj
            [(''client'', JObj [(''id'', JStr (cl_id client)),
                (''label'', js_of_str_option (cl_label client)),
                (''platform'', js_of_str_option (cl_platform client)),
                (''created_at'', JStr (sqlite_text (cl_created_at client)))]),
             (''account'', JObj [(''id'', JStr (ac_id account)), (''plan_id'', JStr (ac_plan_id account)),
                (''status'', JStr (if ac_suspended_at account = None then ''active'' else ''suspended''))]),
             (''plan'', public_plan p), (''usage'', usage)]) 200 []))))"

definition handle_usage :: "('z, 'x) ctx_scheme \<Rightarrow> request \<Rightarrow> (response, 'z) h" where
  "handle_usage cx rq =
     bindM (caller_with_plan cx rq) (\<lambda>r.
     case r of
       Inl resp \<Rightarrow> retM resp
     | Inr (c, p) \<Rightarrow>
         bindM (usage_body (ca_account c) (cx_now cx) p) (\<lambda>usage.
         retM (json_response (cx_request_id cx) usage 200 [])))"

section \<open>Models\<close>

fun source_name :: "price_source \<Rightarrow> string" where
  "source_name Operator = ''operator''"
| "source_name Cloudflare = ''cloudflare''"

fun unit_name :: "meter_unit \<Rightarrow> string" where
  "unit_name PerRequest = ''request''"
| "unit_name AudioMinute = ''audio_minute''"
| "unit_name KCharacters = ''k_characters''"

definition public_model_json :: "public_model_view \<Rightarrow> js" where
  "public_model_json v = JObj
     [(''id'', JStr (pm_id v)), (''display_name'', JStr (pm_display_name v)),
      (''modality'', JStr (modality_name (pm_modality v))), (''billing'', JStr (billing_name (pm_billing v))),
      (''tier'', JStr (tier_name (pm_tier v))), (''streaming'', JBool (pm_streaming v)),
      (''max_output_tokens'', case pm_max_output_tokens v of Some n \<Rightarrow> js_int n | None \<Rightarrow> JNull),
      (''spendable'', JBool (pm_spendable v)),
      (''capabilities'', JArr (List.map JStr (pm_capabilities v))),
      (''price'', case pm_price v of None \<Rightarrow> JNull
         | Some p \<Rightarrow> JObj [(''input_micro_usd_per_mtok'', JNum (pp_input p)),
             (''output_micro_usd_per_mtok'', JNum (pp_output p)), (''priced_at'', JStr (pp_priced_at p)),
             (''source'', JStr (source_name (pp_source p)))]),
      (''unit_price'', case pm_unit_price v of None \<Rightarrow> JNull
         | Some u \<Rightarrow> JObj [(''micro_usd_per_unit'', JNum (pu_micro u)), (''unit'', JStr (unit_name (pu_unit u))),
             (''priced_at'', JStr (pu_priced_at u)), (''source'', JStr (source_name (pu_source u)))]),
      (''published_rates'', JArr (List.map (\<lambda>r. JObj
         [(''unit'', JStr (ur_unit r)), (''usd_per_unit'', JNum (ur_usd r))]) (pm_published_rates v)))]"

text \<open>A map built from the rows in order: the last row of a model decides.\<close>

definition override_of :: "model_price_row list \<Rightarrow> string \<Rightarrow> model_price_row option" where
  "override_of rows i = List.find (\<lambda>r. mp_model_id r = i) (rev rows)"

definition models_json :: "model_price_row list \<Rightarrow> plan \<Rightarrow> js" where
  "models_json rows p = JObj
     [(''object'', JStr ''list''),
      (''data'', JArr (List.map (\<lambda>e.
         let row = override_of rows (ce_id e)
         in public_model_json (public_model e (resolve_price e row) (resolve_unit_price e row)))
         (models_for_tiers (plan_allowed_tiers p))))]"

definition handle_models :: "('z, 'x) ctx_scheme \<Rightarrow> request \<Rightarrow> (response, 'z) h" where
  "handle_models cx rq =
     bindM (caller_with_plan cx rq) (\<lambda>r.
     case r of
       Inl resp \<Rightarrow> retM resp
     | Inr (c, p) \<Rightarrow>
         bindM list_model_prices (\<lambda>rows.
         retM (json_response (cx_request_id cx) (models_json rows p) 200 [])))"

section \<open>Enrollment\<close>

record enroll_body =
  eb_token    :: string
  eb_label    :: "string option"
  eb_platform :: "string option"

definition MAX_LABEL_CHARS :: nat where "MAX_LABEL_CHARS = 64"

definition enroll_fields :: "string list" where
  "enroll_fields = [''enrollment_token'', ''label'', ''platform'']"

definition ALLOWED_PLATFORMS :: "string list" where
  "ALLOWED_PLATFORMS = [''ios'', ''android'', ''other'']"

definition parse_enroll_body :: "js \<Rightarrow> enroll_body option" where
  "parse_enroll_body body =
     (case body of
        JObj raw \<Rightarrow>
          if \<not> list_all (\<lambda>f. fst f \<in> set enroll_fields) raw then None
          else
            (let token = js_get body ''enrollment_token''; label = js_get body ''label'';
                 platform = js_get body ''platform'' in
             if \<not> is_str token \<or> length (js_trim (str_of_js token)) < 8 then None
             else if label \<noteq> JUndef \<and> (\<not> is_str label \<or> length (str_of_js label) > MAX_LABEL_CHARS) then None
             else if platform \<noteq> JUndef
                  \<and> (\<not> is_str platform \<or> str_of_js platform \<notin> set ALLOWED_PLATFORMS) then None
             else Some \<lparr>eb_token = js_trim (str_of_js token), eb_label = str_or_none label,
                        eb_platform = str_or_none platform\<rparr>)
      | _ \<Rightarrow> None)"

text \<open>The random bytes of the minted key are the context's draws 0 to 2.\<close>

definition handle_enroll :: "op_ctx \<Rightarrow> request \<Rightarrow> (response, 'z) m" where
  "handle_enroll cx rq =
     (let rid = oc_request_id cx in
      bindM (check_rate_limit (enroll_bucket (client_ip rq)) ENROLL_LIMIT RATE_WINDOW_SECONDS) (\<lambda>rate.
      if \<not> rl_allowed rate then
        retM (error_response_with rid Rate_limited [] [(''retry-after'', dec_of_int (rl_retry_after rate))])
      else
     (case read_json_body MAX_BODY_BYTES rq of
        Inl f \<Rightarrow> retM (error_response rid (read_failure_code f))
      | Inr body \<Rightarrow>
     (case parse_enroll_body body of
        None \<Rightarrow> retM (error_response rid Invalid_request)
      | Some parsed \<Rightarrow>
     (let minted = mint_client_key (oc_sha256 cx) (oc_random cx 0) (oc_random cx 1) (oc_random cx 2) in
      bindM (consume_enrollment (sha256_hex (oc_sha256 cx) (eb_token parsed)) (mk_client_id minted)) (\<lambda>redeemed.
      case redeemed of
        None \<Rightarrow> retM (error_response rid Forbidden)
      | Some account_id \<Rightarrow>
      bindM (get_account account_id) (\<lambda>a.
      case a of
        None \<Rightarrow> retM (error_response rid Unavailable)
      | Some account \<Rightarrow>
          if ac_suspended_at account \<noteq> None then retM (error_response rid Forbidden)
          else
            bindM (create_client \<lparr>cl_id = mk_client_id minted, cl_account_id = ac_id account,
                     cl_key_id = mk_key_id minted, cl_secret_hash = mk_secret_hash minted,
                     cl_label = eb_label parsed, cl_platform = eb_platform parsed\<rparr>) (\<lambda>client.
            retM (json_response rid (JObj
              [(''client_id'', JStr (cl_id client)), (''key'', JStr (mk_key minted)),
               (''account'', JObj [(''id'', JStr (ac_id account)), (''plan_id'', JStr (ac_plan_id account)),
                  (''status'', JStr ''active'')])]) 201 [])))))))))"

section \<open>Probes\<close>

definition SERVICE_NAME :: string where "SERVICE_NAME = ''prism-control-plane''"
definition VERSION :: string where "VERSION = ''1.1.1''"

definition handle_health :: "string \<Rightarrow> response" where
  "handle_health rid = json_response rid
     (JObj [(''ok'', JBool True), (''service'', JStr SERVICE_NAME), (''version'', JStr VERSION)]) 200 []"

definition check_json :: "string \<Rightarrow> bool \<Rightarrow> js" where
  "check_json name ok = JObj [(''name'', JStr name), (''ok'', JBool ok)]"

text \<open>The schema probe may throw; the other checks are of the configuration.\<close>

definition handle_deep_health :: "op_ctx \<Rightarrow> bool \<Rightarrow> (response, 'z) m" where
  "handle_deep_health cx has_credentials =
     bindM (catchM (bindM probe_schema (\<lambda>_. retM True)) (\<lambda>_. retM False)) (\<lambda>schema_ok.
     let gateway_ok = (gateway_config_of (oc_env cx) \<noteq> None);
         ok = (schema_ok \<and> gateway_ok \<and> has_credentials)
     in retM (json_response (oc_request_id cx) (JObj
          [(''ok'', JBool ok), (''service'', JStr SERVICE_NAME), (''version'', JStr VERSION),
           (''checks'', JArr [check_json ''d1_schema'' schema_ok, check_json ''catalog_pricing'' True,
              check_json ''ai_gateway'' gateway_ok, check_json ''upstream_credential'' has_credentials])])
          (if ok then 200 else 503) []))"

section \<open>Jobs\<close>

fun status_name :: "job_status \<Rightarrow> string" where
  "status_name Queued = ''queued''"
| "status_name Running = ''running''"
| "status_name Succeeded = ''succeeded''"
| "status_name Failed = ''failed''"

fun kind_name :: "job_kind \<Rightarrow> string" where
  "kind_name JobVideo = ''video''"
| "kind_name JobMusic = ''music''"
| "kind_name JobSpeech = ''speech''"
| "kind_name JobImage = ''image''"

definition JOB_STATUSES :: "job_status list" where
  "JOB_STATUSES = [Queued, Running, Succeeded, Failed]"

definition status_of_name :: "string \<Rightarrow> job_status option" where
  "status_of_name s = List.find (\<lambda>j. status_name j = s) JOB_STATUSES"

definition match_job_path :: "string \<Rightarrow> string option" where
  "match_job_path path =
     (let i = drop 9 path in
      if starts_with ''/v1/jobs/'' path \<and> i \<noteq> [] \<and> list_all is_slug_char i then Some i else None)"

definition job_summary_fields :: "async_job_row \<Rightarrow> (string \<times> js) list" where
  "job_summary_fields job =
     [(''id'', JStr (aj_id job)), (''kind'', JStr (kind_name (aj_kind job))),
      (''model'', JStr (aj_model_id job)), (''status'', JStr (status_name (aj_status job))),
      (''created_at'', JStr (to_iso_string (aj_created_at job))),
      (''updated_at'', JStr (to_iso_string (aj_updated_at job)))]"

definition job_to_wire :: "async_job_row \<Rightarrow> js" where
  "job_to_wire job = JObj (job_summary_fields job @
     [(''result'', case aj_result_json job of
         None \<Rightarrow> JNull
       | Some s \<Rightarrow> if s = [] then JNull else (case json_parse s of Some v \<Rightarrow> v | None \<Rightarrow> JNull)),
      (''error'', if aj_status job = Failed
         then JObj [(''code'', JStr (case aj_error_code job of Some c \<Rightarrow> c | None \<Rightarrow> ''internal'')),
                    (''message'', JStr (case aj_error_detail job of Some d \<Rightarrow> d | None \<Rightarrow> ''Job failed.''))]
         else JNull)])"

definition handle_get_job :: "('z, 'x) ctx_scheme \<Rightarrow> request \<Rightarrow> string \<Rightarrow> (response, 'z) h" where
  "handle_get_job cx rq job_id =
     bindM (require_caller (cx_sha256 cx) (cx_request_id cx) rq) (\<lambda>authed.
     case authed of
       Inl resp \<Rightarrow> retM resp
     | Inr c \<Rightarrow>
         bindM (get_async_job job_id) (\<lambda>j.
         retM (case j of
                 None \<Rightarrow> error_response (cx_request_id cx) Not_found
               | Some job \<Rightarrow>
                   if aj_client_id job \<noteq> cl_id (ca_client c) then error_response (cx_request_id cx) Not_found
                   else json_response (cx_request_id cx) (job_to_wire job) 200 [])))"

definition DEFAULT_JOB_LIMIT :: int where "DEFAULT_JOB_LIMIT = 20"
definition MAX_JOB_LIMIT :: int where "MAX_JOB_LIMIT = 100"

definition job_limit :: "string option \<Rightarrow> int option" where
  "job_limit raw =
     (case raw of
        None \<Rightarrow> Some DEFAULT_JOB_LIMIT
      | Some s \<Rightarrow>
          (case js_Number s of NInt n \<Rightarrow> if n < 1 \<or> n > MAX_JOB_LIMIT then None else Some n | _ \<Rightarrow> None))"

text \<open>The status filter of the query: \<open>None\<close> for an unknown name.\<close>

definition job_status_filter :: "string option \<Rightarrow> job_status option option" where
  "job_status_filter raw =
     (case raw of None \<Rightarrow> Some None | Some s \<Rightarrow> map_option Some (status_of_name s))"

definition handle_list_jobs :: "('z, 'x) ctx_scheme \<Rightarrow> request \<Rightarrow> (response, 'z) h" where
  "handle_list_jobs cx rq =
     bindM (require_caller (cx_sha256 cx) (cx_request_id cx) rq) (\<lambda>authed.
     case authed of
       Inl resp \<Rightarrow> retM resp
     | Inr c \<Rightarrow>
    (case (job_status_filter (map_of (rq_query rq) ''status''), job_limit (map_of (rq_query rq) ''limit'')) of
       (Some status, Some limit) \<Rightarrow>
         bindM (list_async_jobs_by_client (cl_id (ca_client c)) (nat limit) status) (\<lambda>jobs.
         retM (json_response (cx_request_id cx) (JObj
           [(''jobs'', JArr (List.map (\<lambda>j. JObj (job_summary_fields j)) jobs)),
            (''count'', js_int (int (length jobs)))]) 200 []))
     | _ \<Rightarrow> retM (error_response (cx_request_id cx) Invalid_request)))"

text \<open>A word of the Prefer header: no letter, digit or underscore on either side.\<close>

definition is_word_char :: "char \<Rightarrow> bool" where
  "is_word_char c = (let n = ord_of c in (48 \<le> n \<and> n \<le> 57) \<or> (65 \<le> n \<and> n \<le> 90)
     \<or> (97 \<le> n \<and> n \<le> 122) \<or> n = 95)"

fun contains_word :: "string \<Rightarrow> bool \<Rightarrow> string \<Rightarrow> bool" where
  "contains_word w before [] = False"
| "contains_word w before (c # cs) =
     ((\<not> before \<and> starts_with w (c # cs)
        \<and> (drop (length w) (c # cs) = [] \<or> \<not> is_word_char (hd (drop (length w) (c # cs)))))
      \<or> contains_word w (is_word_char c) cs)"

definition wants_async :: "request \<Rightarrow> js \<Rightarrow> bool" where
  "wants_async rq body =
     (case js_get body ''async'' of
        JBool b \<Rightarrow> b
      | _ \<Rightarrow> (let prefer = (case rq_header rq ''prefer'' of Some p \<Rightarrow> p | None \<Rightarrow> [])
              in contains_word ''respond-async'' False (js_lower prefer)))"

end
