(* ===== verification/OperatorProps.thy ===== *)
theory OperatorProps
  imports ReconcileProps Account
begin

text \<open>
  The operator surface as a whole: what its gate lets through, and what any of its calls may leave
  in the database.
\<close>

section \<open>The calls\<close>

datatype operator_call =
    CallCreateAccount | CallGrantCredit string | CallSetModelPrice | CallCreateEnrollment
  | CallRevokeClient string | CallUpsertPlan | CallReconcile

fun run_operator :: "nat \<Rightarrow> operator_call \<Rightarrow> op_ctx \<Rightarrow> request \<Rightarrow> (response, 'z) m" where
  "run_operator fuel CallCreateAccount cx rq = handle_create_account cx rq"
| "run_operator fuel (CallGrantCredit a) cx rq = handle_grant_credit cx rq a"
| "run_operator fuel CallSetModelPrice cx rq = handle_set_model_price cx rq"
| "run_operator fuel CallCreateEnrollment cx rq = handle_create_enrollment cx rq"
| "run_operator fuel (CallRevokeClient c) cx rq = handle_revoke_client cx rq c"
| "run_operator fuel CallUpsertPlan cx rq = handle_upsert_plan cx rq"
| "run_operator fuel CallReconcile cx rq = handle_reconcile fuel cx rq"

lemmas operator_handlers =
  handle_create_account_def handle_grant_credit_def handle_set_model_price_def
  handle_create_enrollment_def handle_revoke_client_def handle_upsert_plan_def handle_reconcile_def

section \<open>The gate\<close>

text \<open>The holder of the operator token: one is configured, and the bearer presented hashes like it.\<close>

definition holds_operator_token :: "op_ctx \<Rightarrow> request \<Rightarrow> bool" where
  "holds_operator_token cx rq \<longleftrightarrow> env_text (env_admin_token (oc_env cx)) \<noteq> []
     \<and> (\<exists>t. bearer_from_request rq = Some t \<and> t \<noteq> []
          \<and> sha256_hex (oc_sha256 cx) t = sha256_hex (oc_sha256 cx) (env_text (env_admin_token (oc_env cx))))"

definition gate_refusal :: "op_ctx \<Rightarrow> response" where
  "gate_refusal cx = error_response (oc_request_id cx)
     (if env_text (env_admin_token (oc_env cx)) = [] then Unavailable else Unauthenticated)"

lemma require_operator_holds:
  "require_operator cx rq = (if holds_operator_token cx rq then None else Some (gate_refusal cx))"
  by (auto simp: require_operator_def holds_operator_token_def gate_refusal_def Let_def split: option.splits)

lemma refused_run:
  "\<not> holds_operator_token cx rq \<Longrightarrow> run_operator fuel call cx rq = retM (gate_refusal cx)"
  by (cases call) (simp_all add: operator_handlers operator_body_def require_operator_holds Let_def)

section \<open>What a call may write\<close>

definition usable_plan :: "plan_row \<Rightarrow> bool" where
  "usable_plan r \<longleftrightarrow> plan_id_ok (pr_id r)
     \<and> (\<exists>p. plan_from_row r = Inr p \<and> plan_ok p \<and> plan_allowed_tiers p \<noteq> [])"

definition usable_price :: "model_price_row \<Rightarrow> bool" where
  "usable_price r \<longleftrightarrow> (\<exists>e. find_model (mp_model_id r) = Some e
     \<and> (\<exists>p. resolve_price e (Some r) = Some p \<and> price_ok p))
     \<and> (\<forall>u. mp_unit_micro r = Some u \<longrightarrow> (\<exists>n. u = NInt n \<and> 0 \<le> n))"

text \<open>Every client was there before, with the same account and secret, and a revocation stays.\<close>

definition clients_kept :: "db \<Rightarrow> db \<Rightarrow> bool" where
  "clients_kept d d' \<longleftrightarrow> list_all2 (\<lambda>c c'. cl_id c' = cl_id c \<and> cl_account_id c' = cl_account_id c
     \<and> cl_key_id c' = cl_key_id c \<and> cl_secret_hash c' = cl_secret_hash c
     \<and> (cl_revoked_at c \<noteq> None \<longrightarrow> cl_revoked_at c' = cl_revoked_at c)) (t_clients d) (t_clients d')"

definition admin_rel :: "db \<Rightarrow> db \<Rightarrow> bool" where
  "admin_rel d d' \<longleftrightarrow> (\<forall>r\<in>set (t_plans d'). r \<in> set (t_plans d) \<or> usable_plan r)
     \<and> (\<forall>r\<in>set (t_prices d'). r \<in> set (t_prices d) \<or> usable_price r)
     \<and> clients_kept d d'
     \<and> t_events d' = t_events d \<and> t_tickets d' = t_tickets d \<and> t_buckets d' = t_buckets d
     \<and> t_jobs d' = t_jobs d \<and> t_tokens d' = t_tokens d"

lemma clients_kept_refl [simp]: "t_clients d' = t_clients d \<Longrightarrow> clients_kept d d'"
  by (simp add: clients_kept_def list_all2_same)

lemma clients_kept_trans: "clients_kept d d' \<Longrightarrow> clients_kept d' d'' \<Longrightarrow> clients_kept d d''"
  unfolding clients_kept_def by (erule (1) list_all2_trans [rotated]) auto

lemma admin_rel_trans:
  assumes 1: "admin_rel d d'" and 2: "admin_rel d' d''"
  shows "admin_rel d d''"
proof -
  have "clients_kept d d''" using 1 2 clients_kept_trans unfolding admin_rel_def by blast
  moreover have "\<forall>r\<in>set (t_plans d''). r \<in> set (t_plans d) \<or> usable_plan r"
    "\<forall>r\<in>set (t_prices d''). r \<in> set (t_prices d) \<or> usable_price r"
    using 1 2 unfolding admin_rel_def by blast+
  ultimately show ?thesis using 1 2 by (simp add: admin_rel_def)
qed

lemma admin_rel_rules: "reflp admin_rel" "transp admin_rel"
  by (simp_all add: reflp_def admin_rel_def [of d d for d]) (rule transpI, rule admin_rel_trans)

lemmas admin_intros =
  db_rel_ret [OF admin_rel_rules(1)] db_rel_throw [OF admin_rel_rules(1)]
  db_rel_query [OF admin_rel_rules(1)] db_rel_bind [OF admin_rel_rules(2)] db_rel_if

lemma read_only_admin: "read_only c \<Longrightarrow> db_rel admin_rel c"
  using admin_rel_rules(1) by (auto simp: read_only_def db_rel_def reflpD)

lemma set_upsert: "set (upsert key new f rows) \<subseteq> insert new (set rows \<union> f ` set rows)"
  by (auto simp: upsert_def update_where_def)

lemma put_plan_admin: "usable_plan r \<Longrightarrow> db_rel admin_rel (put_plan r)"
  unfolding put_plan_def
  by (rule db_rel_write [OF admin_rel_rules(1)])
     (auto simp: admin_rel_def dest!: set_upsert [THEN subsetD])

lemma put_price_admin: "usable_price r \<Longrightarrow> db_rel admin_rel (put_model_price r)"
  unfolding put_model_price_def
  by (rule db_rel_write [OF admin_rel_rules(1)])
     (auto simp: admin_rel_def dest!: set_upsert [THEN subsetD])

lemma admin_ops:
  "db_rel admin_rel (create_account i p l c g k)" "db_rel admin_rel (grant_credit gr)"
  "db_rel admin_rel (create_enrollment h a t n)" "db_rel admin_rel (revoke_client i)"
proof -
  show "db_rel admin_rel (create_account i p l c g k)"
    unfolding create_account_def get_account_def
    by (intro admin_intros db_rel_stmt [OF admin_rel_rules(1)] db_rel_option)
       (auto simp: ins_account_def unit_res_def admin_rel_def split: if_splits)
  show "db_rel admin_rel (grant_credit gr)"
    unfolding grant_credit_def
    by (intro admin_intros db_rel_stmt [OF admin_rel_rules(1)] db_rel_write [OF admin_rel_rules(1)])
       (auto simp: ins_grant_def add_credit_def admin_rel_def split: if_splits)
  show "db_rel admin_rel (create_enrollment h a t n)"
    unfolding create_enrollment_def
    by (rule db_rel_write [OF admin_rel_rules(1)]) (auto simp: admin_rel_def split: if_splits)
  show "db_rel admin_rel (revoke_client i)"
    unfolding revoke_client_def
    by (rule db_rel_stmt [OF admin_rel_rules(1)])
       (auto simp: admin_rel_def clients_kept_def update_where_def list_all2_conv_all_nth live_client_def)
qed

lemma reconcile_admin: "db_rel admin_rel (run_reconcile fuel args)"
  unfolding db_rel_def
proof
  fix w
  obtain d1 where "trued_up (ra_source args) (w_db w) d1"
      "w_db (snd (run_reconcile fuel args w)) = d1 \<or> (\<exists>from_iso newest l t s j.
         w_db (snd (run_reconcile fuel args w)) =
           advance_row (ls_gateway_id (ra_source args)) (next_watermark from_iso newest (ra_now args)) l t s j d1)"
    using run_reconcile_db [OF refl refl, where fuel = fuel and args = args and w = w] by metis
  then show "admin_rel (w_db w) (w_db (snd (run_reconcile fuel args w)))"
    by (auto simp: trued_up_def run_frame_def admin_rel_def advance_row_def)
qed

section \<open>The rows the bodies make\<close>

lemma tier_roundtrip: "ts \<noteq> [] \<Longrightarrow> parse_tiers (join_with '','' (List.map tier_name ts)) = ts"
proof (induction ts)
  case (Cons t ts)
  have name: "CHR '','' \<notin> set (tier_name t)" "tier_of_name (js_lower (js_trim (tier_name t))) = Some t"
    by (cases t; simp add: tier_of_name_def js_lower_def js_trim_def is_js_space_def lower_char_def ord_of_def)+
  show ?case
  proof (cases ts)
    case Nil
    with name show ?thesis by (simp add: parse_tiers_def split_on_no_sep List.map_filter_def)
  next
    case (Cons u us)
    then have IH: "parse_tiers (join_with '','' (List.map tier_name ts)) = ts" using Cons.IH by simp
    have "join_with '','' (List.map tier_name (t # ts)) =
        tier_name t @ CHR '','' # join_with '','' (List.map tier_name ts)" using Cons by simp
    then show ?thesis
      using IH name by (simp add: parse_tiers_def split_on_append_sep split_on_no_sep List.map_filter_def)
  qed
qed simp

lemma plan_row_of_body_parts:
  assumes "plan_row_of_body raw = Some row"
  obtains i name a b c d csv where "js_get raw ''id'' = JStr i" "js_get raw ''name'' = JStr name"
    "integer_of (js_get raw ''signup_credit_micro_usd'') = Some a"
    "integer_of (js_get raw ''monthly_included_micro_usd'') = Some b"
    "integer_of (js_get raw ''requests_per_minute'') = Some c"
    "integer_of (js_get raw ''max_output_tokens'') = Some d"
    "tiers_csv (js_get raw ''allowed_tiers'') = Some csv"
proof -
  note body = assms [unfolded plan_row_of_body_def]
  obtain i where 1: "js_get raw ''id'' = JStr i" using body by (cases "js_get raw ''id''") auto
  note body = body [unfolded 1, simplified]
  obtain name where 2: "js_get raw ''name'' = JStr name" using body by (cases "js_get raw ''name''") auto
  note body = body [unfolded 2, simplified]
  obtain a where 3: "integer_of (js_get raw ''signup_credit_micro_usd'') = Some a"
    using body by (cases "integer_of (js_get raw ''signup_credit_micro_usd'')") auto
  note body = body [unfolded 3, simplified]
  obtain b where 4: "integer_of (js_get raw ''monthly_included_micro_usd'') = Some b"
    using body by (cases "integer_of (js_get raw ''monthly_included_micro_usd'')") auto
  note body = body [unfolded 4, simplified]
  obtain c where 5: "integer_of (js_get raw ''requests_per_minute'') = Some c"
    using body by (cases "integer_of (js_get raw ''requests_per_minute'')") auto
  note body = body [unfolded 5, simplified]
  obtain d where 6: "integer_of (js_get raw ''max_output_tokens'') = Some d"
    using body by (cases "integer_of (js_get raw ''max_output_tokens'')") auto
  note body = body [unfolded 6, simplified]
  obtain csv where 7: "tiers_csv (js_get raw ''allowed_tiers'') = Some csv"
    using body by (cases "tiers_csv (js_get raw ''allowed_tiers'')") auto
  show thesis by (rule that [OF 1 2 3 4 5 6 7])
qed

lemma plan_row_usable:
  assumes "plan_row_of_body raw = Some row" "plan_from_row row = Inr p"
  shows "usable_plan row"
proof -
  obtain csv where csv: "pr_allowed_tiers row = join_with '','' (List.map tier_name (parse_tiers csv))"
      "parse_tiers csv \<noteq> []" "plan_id_ok (pr_id row)"
  proof -
    obtain i name a b c d csv where parts: "js_get raw ''id'' = JStr i" "js_get raw ''name'' = JStr name"
        "integer_of (js_get raw ''signup_credit_micro_usd'') = Some a"
        "integer_of (js_get raw ''monthly_included_micro_usd'') = Some b"
        "integer_of (js_get raw ''requests_per_minute'') = Some c"
        "integer_of (js_get raw ''max_output_tokens'') = Some d"
        "tiers_csv (js_get raw ''allowed_tiers'') = Some csv"
      using assms(1) by (rule plan_row_of_body_parts)
    with assms(1) have "plan_id_ok i \<and> parse_tiers csv \<noteq> [] \<and> pr_id row = i
        \<and> pr_allowed_tiers row = join_with '','' (List.map tier_name (parse_tiers csv))"
      unfolding plan_row_of_body_def by (auto split: if_splits)
    then show thesis using that by blast
  qed
  have "plan_allowed_tiers p = parse_tiers (pr_allowed_tiers row)"
    using assms(2) by (auto simp: plan_from_row_def split: if_splits)
  then have "plan_allowed_tiers p \<noteq> []" using csv tier_roundtrip by simp
  then show ?thesis using assms(2) csv(3) plan_from_row_ok by (auto simp: usable_plan_def)
qed

lemma price_fields_valid:
  "price_fields raw = Inr (i, o', u) \<Longrightarrow> 0 \<le> i \<and> 0 \<le> o' \<and> (\<forall>n. u = Some n \<longrightarrow> 0 \<le> n)"
  by (auto simp: price_fields_def rate_field_def andthen_def Let_def split: if_splits option.splits sum.splits)

lemma price_row_usable:
  assumes "price_fields raw = Inr (i, o', u)" "find_model s = Some e"
    "mp_model_id r = s" "mp_input r = NInt i" "mp_output r = NInt o'" "mp_unit_micro r = map_option NInt u"
  shows "usable_price r"
  using assms price_fields_valid [OF assms(1)]
  by (auto simp: usable_price_def resolve_price_def price_ok_iff)

text \<open>A body that sets only the unit rate stores token rates of zero, at which a measured chat
  answer costs nothing.\<close>

lemma unit_only_price_is_free:
  assumes "price_fields raw = Inr (i, o', u)"
    "js_get raw ''input_micro_usd_per_mtok'' = JUndef" "js_get raw ''output_micro_usd_per_mtok'' = JUndef"
    "mp_input r = NInt i" "mp_output r = NInt o'" "resolve_price e (Some r) = Some p"
  shows "price_usage usage p = Metered 0 usage"
proof -
  have "i = 0" "o' = 0" using assms(1-3)
    by (auto simp: price_fields_def andthen_def Let_def split: if_splits sum.splits)
  then show ?thesis using assms(4-6)
    by (auto simp: resolve_price_def price_usage_def rate_problem_def exact_micro_usd_def)
qed

section \<open>The handlers\<close>

lemma account_handlers_admin:
  "db_rel admin_rel (handle_create_account cx rq)"
  "db_rel admin_rel (handle_grant_credit cx rq a)"
  "db_rel admin_rel (handle_create_enrollment cx rq)"
  "db_rel admin_rel (handle_revoke_client cx rq c)"
  unfolding operator_handlers Let_def
  by (auto intro!: admin_intros admin_ops get_ops_read_only [THEN read_only_admin]
      split: sum.splits js.splits option.splits prod.splits)

lemma set_model_price_admin: "db_rel admin_rel (handle_set_model_price cx rq)"
  unfolding handle_set_model_price_def Let_def
  by (auto intro!: admin_intros put_price_admin price_row_usable
      split: sum.splits js.splits option.splits prod.splits simp: str_or_none_def bind_eq_Some_conv)

lemma upsert_plan_admin: "db_rel admin_rel (handle_upsert_plan cx rq)"
  unfolding handle_upsert_plan_def Let_def
  by (auto intro!: admin_intros put_plan_admin plan_row_usable get_ops_read_only [THEN read_only_admin]
      split: sum.splits option.splits)

lemma reconcile_handler_admin: "db_rel admin_rel (handle_reconcile fuel cx rq)"
  unfolding handle_reconcile_def Let_def
  by (auto intro!: admin_intros reconcile_admin split: sum.splits option.splits prod.splits)

lemma run_operator_admin: "db_rel admin_rel (run_operator fuel call cx rq)"
  by (cases call) (simp_all add: account_handlers_admin set_model_price_admin upsert_plan_admin
      reconcile_handler_admin)

section \<open>Properties\<close>

text \<open>C24. The operator surface.  Without the configured token every operator call is refused with 503
  or 401 and issues no statement.  With it, whatever its statements suffer, a call leaves only plans
  that were stored before or that a request can use (a valid identifier, valid numbers, at least one
  tier), only prices that were stored before or that resolve for a model of the catalog, every
  client with its account and secret and no revocation undone, and the ledger rows, tickets, rate
  buckets, user tokens and jobs as they were.\<close>

theorem operator_surface_sound:
  fixes w :: "'z world_scheme"
  assumes "w' = snd (run_operator fuel call cx rq w)"
  shows "(\<not> holds_operator_token cx rq \<longrightarrow>
            run_operator fuel call cx rq w = (Inr (gate_refusal cx), w) \<and> resp_status (gate_refusal cx) \<in> {401, 503})
    \<and> (\<forall>r\<in>set (t_plans (w_db w')). r \<in> set (t_plans (w_db w)) \<or> usable_plan r)
    \<and> (\<forall>r\<in>set (t_prices (w_db w')). r \<in> set (t_prices (w_db w)) \<or> usable_price r)
    \<and> clients_kept (w_db w) (w_db w')
    \<and> t_events (w_db w') = t_events (w_db w) \<and> t_tickets (w_db w') = t_tickets (w_db w)
    \<and> t_buckets (w_db w') = t_buckets (w_db w) \<and> t_jobs (w_db w') = t_jobs (w_db w)
    \<and> t_tokens (w_db w') = t_tokens (w_db w)"
proof -
  have "admin_rel (w_db w) (w_db w')" unfolding assms by (rule db_relD [OF run_operator_admin])
  moreover have "resp_status (gate_refusal cx) \<in> {401, 503}"
    by (simp add: gate_refusal_def error_response_with_def json_response_def)
  ultimately show ?thesis by (simp add: refused_run admin_rel_def)
qed

definition sample_env :: env where
  "sample_env = \<lparr>env_account_id = None, env_gateway_id = None, env_collect_log = None,
     env_credential_mode = None, env_aig_token = None, env_token_budget = None, env_kek = None,
     env_kek_next = None, env_kek_slot = None, env_upstream_timeout = None, env_nonchat_timeout = None,
     env_admin_token = Some ''operator-token'', env_cron_live = None, env_cron_lookback = None,
     env_trust_decode = None, env_sandbox_trust = None, env_play_account = None\<rparr>"

definition sample_op_ctx :: op_ctx where
  "sample_op_ctx = \<lparr>oc_sha256 = id, oc_env = sample_env, oc_logs = None, oc_request_id = ''req_1'',
     oc_now = 0, oc_random = (\<lambda>n. [])\<rparr>"

definition sample_plan_request :: "string \<Rightarrow> request" where
  "sample_plan_request token = \<lparr>rq_method = ''POST'', rq_path = ''/admin/plans'', rq_query = [],
     rq_headers = [(''authorization'', ''Bearer '' @ token)], rq_body = Some [Chunk ''{}'']\<rparr>"

lemma refused_by_eval: "require_operator sample_op_ctx (sample_plan_request ''wrong'') \<noteq> None"
  by code_simp

theorem operator_surface_sound_witness:
  "run_operator 0 CallUpsertPlan sample_op_ctx (sample_plan_request ''wrong'') (world0 0 empty_db) =
     (Inr (gate_refusal sample_op_ctx), world0 0 empty_db)"
proof -
  have "\<not> holds_operator_token sample_op_ctx (sample_plan_request ''wrong'')"
    using require_operator_holds [of sample_op_ctx "sample_plan_request ''wrong''"]
    by (auto split: if_splits simp: refused_by_eval)
  then show ?thesis
    using operator_surface_sound [OF refl, where fuel = 0 and call = CallUpsertPlan
        and cx = sample_op_ctx and rq = "sample_plan_request ''wrong''" and w = "world0 0 empty_db"] by simp
qed

end
