(* ===== verification/Tokens.thy ===== *)
theory Tokens
  imports ChatRequest NumText LineReader
begin

text \<open>
  The signed tokens of src/src/media.ts and src/src/stt-handoff.ts.  The platform's cryptography is
  a parameter: the SHA-256 digest of a text and the HMAC-SHA-256 of a text under a key, which
  verification recomputes.  Each file derives its key from the shared secret under a label of its
  own.  Nothing is assumed of either function.
\<close>

section \<open>Base64url\<close>

text \<open>The white space \<open>atob\<close> skips.\<close>

definition is_ascii_space :: "char \<Rightarrow> bool" where
  "is_ascii_space c = (ord_of c \<in> {9, 10, 12, 13, 32})"

definition b64url_to_bytes :: "string \<Rightarrow> string option" where
  "b64url_to_bytes s =
     (let pad = (if length s mod 4 = 0 then [] else replicate (4 - length s mod 4) CHR ''='');
          b64 = replace_char CHR ''_'' CHR ''/'' (replace_char CHR ''-'' CHR ''+'' s) @ pad
      in atob (List.filter (\<lambda>c. \<not> is_ascii_space c) b64))"

lemma ascii_space_js: "is_ascii_space c \<Longrightarrow> is_js_space c"
  by (auto simp: is_ascii_space_def is_js_space_def Let_def)

lemma pad_count:
  fixes l k :: nat
  assumes "(l + k) mod 4 = 0" "k < 3"
  shows "(if l mod 4 = 0 then 0 else 4 - l mod 4) = k"
proof -
  define m where "m = l mod 4"
  have m: "m = 0 \<or> m = 1 \<or> m = 2 \<or> m = 3" unfolding m_def by (simp, arith)
  have s: "(m + k) mod 4 = 0" using assms(1) by (simp add: m_def mod_simps)
  have k: "k = 0 \<or> k = 1 \<or> k = 2" using assms(2) by auto
  show ?thesis unfolding m_def [symmetric] using m k s by (elim disjE) simp_all
qed

lemma b64url_roundtrip: "b64url_to_bytes (base64url bs) = Some bs"
proof -
  obtain body where b: "btoa bs = body @ replicate ((3 - length bs mod 3) mod 3) CHR ''=''"
      "\<forall>c\<in>set body. in_alphabet c" "length body = (4 * length bs + 2) div 3"
      "base64url bs = List.map url_safe body"
    using base64url_body by blast
  have undo: "(if (if url_safe c = CHR ''-'' then CHR ''+'' else url_safe c) = CHR ''_'' then CHR ''/''
      else (if url_safe c = CHR ''-'' then CHR ''+'' else url_safe c)) = c" if al: "in_alphabet c" for c
  proof -
    obtain n where "n < 64" "c = base64_char n" using al by (auto simp: in_alphabet_def)
    then have "base64_val c = Some n" by simp
    moreover have "base64_val CHR ''-'' = None" "base64_val CHR ''_'' = None"
      by (simp_all add: base64_val_def ord_of_def)
    ultimately have "c \<noteq> CHR ''-''" "c \<noteq> CHR ''_''" by auto
    then show ?thesis by (auto simp: url_safe_def)
  qed
  have same: "replace_char CHR ''_'' CHR ''/'' (replace_char CHR ''-'' CHR ''+'' (base64url bs)) = body"
    using b(2) undo by (simp add: b(4) replace_char_def comp_def map_idI)
  have "length (btoa bs) mod 4 = 0" by (rule btoa_length_mod)
  then have len: "(length body + (3 - length bs mod 3) mod 3) mod 4 = 0" using b(1) by simp
  have "(3 - length bs mod 3) mod 3 < 3" by (rule mod_less_divisor) simp
  note pad = pad_count [OF len this]
  have "(if length body mod 4 = 0 then [] else replicate (4 - length body mod 4) CHR ''='') =
      replicate ((3 - length bs mod 3) mod 3) CHR ''=''"
    unfolding pad [symmetric] by simp
  then have whole: "body @ (if length body mod 4 = 0 then []
      else replicate (4 - length body mod 4) CHR ''='') = btoa bs"
    using b(1) by simp
  have lb: "length (base64url bs) = length body" using b(4) by simp
  have "List.filter (\<lambda>c. \<not> is_ascii_space c) (btoa bs) = btoa bs"
    using btoa_chars ascii_space_js by (auto simp: filter_id_conv)
  then have "b64url_to_bytes (base64url bs) = atob (btoa bs)"
    unfolding b64url_to_bytes_def Let_def same lb whole by simp
  then show ?thesis by (simp add: atob_btoa)
qed


section \<open>Media tokens\<close>

definition UPLOAD_TTL_SEC :: int where "UPLOAD_TTL_SEC = 20 * 60"
definition DOWNLOAD_TTL_SEC :: int where "DOWNLOAD_TTL_SEC = 24 * 60 * 60"

datatype media_kind = Upload | Download

fun media_kind_name :: "media_kind \<Rightarrow> string" where
  "media_kind_name Upload = ''u''"
| "media_kind_name Download = ''d''"

definition media_kind_of :: "string \<Rightarrow> media_kind option" where
  "media_kind_of s = (if s = ''u'' then Some Upload else if s = ''d'' then Some Download else None)"

record media_token =
  md_kind :: media_kind
  md_key  :: string
  md_exp  :: int

record platform_hash =
  ph_sha256 :: "string \<Rightarrow> string"
  ph_hmac   :: "string \<Rightarrow> string \<Rightarrow> string"

definition media_mac :: "platform_hash \<Rightarrow> string \<Rightarrow> string \<Rightarrow> string" where
  "media_mac hs secret text = ph_hmac hs (ph_sha256 hs (utf8_encode (''prism-media-v1:'' @ secret))) text"

definition newline :: string where "newline = [char_of (10::nat)]"

definition media_payload :: "media_kind \<Rightarrow> int \<Rightarrow> string \<Rightarrow> string" where
  "media_payload k expiry key = media_kind_name k @ newline @ js_num_string (NInt expiry) @ newline @ key"

definition sign_media ::
  "platform_hash \<Rightarrow> string \<Rightarrow> media_kind \<Rightarrow> int \<Rightarrow> string \<Rightarrow> string" where
  "sign_media hs secret k expiry key =
     media_kind_name k @ ''.'' @ js_num_string (NInt expiry) @ ''.'' @ base64url (utf8_encode key) @ ''.''
     @ base64url (media_mac hs secret (utf8_encode (media_payload k expiry key)))"

definition is_key_char :: "char \<Rightarrow> bool" where
  "is_key_char c = (let n = ord_of c in (48 \<le> n \<and> n \<le> 57) \<or> (65 \<le> n \<and> n \<le> 90)
     \<or> (97 \<le> n \<and> n \<le> 122) \<or> c \<in> {CHR ''.'', CHR ''_'', CHR ''/'', CHR ''-''})"

definition is_safe_object_key :: "string \<Rightarrow> bool" where
  "is_safe_object_key key =
     (if length key < 8 \<or> length key > 200 then False
      else if contains_str ''..'' key \<or> contains_str ''//'' key \<or> contains_str [CHR 0x5C] key then False
      else if starts_with ''video/'' key \<or> starts_with ''music/'' key \<or> starts_with ''image/'' key
        then drop 6 key \<noteq> [] \<and> list_all is_key_char (drop 6 key)
      else False)"

text \<open>\<open>Number.isInteger(Number(s))\<close> with the integer.\<close>

definition integer_text :: "string \<Rightarrow> int option" where
  "integer_text s = (case js_Number s of NInt n \<Rightarrow> Some n | _ \<Rightarrow> None)"

definition verify_media_token ::
  "platform_hash \<Rightarrow> string \<Rightarrow> string \<Rightarrow> int \<Rightarrow> media_token option" where
  "verify_media_token hs secret token now_sec =
     (case split_on CHR ''.'' token of
        [kind_raw, exp_raw, key_b64, sig_b64] \<Rightarrow>
          Option.bind (media_kind_of kind_raw) (\<lambda>k.
          Option.bind (integer_text exp_raw) (\<lambda>expiry.
          if expiry < now_sec then None
          else
          Option.bind (map_option utf8_decode (b64url_to_bytes key_b64)) (\<lambda>key.
          if key = [] \<or> \<not> is_safe_object_key key then None
          else
          Option.bind (b64url_to_bytes sig_b64) (\<lambda>sig.
          if sig = media_mac hs secret (utf8_encode (media_payload k expiry key))
          then Some \<lparr>md_kind = k, md_key = key, md_exp = expiry\<rparr> else None))))
      | _ \<Rightarrow> None)"

definition mint_upload_token :: "platform_hash \<Rightarrow> string \<Rightarrow> string \<Rightarrow> int \<Rightarrow> string \<times> int" where
  "mint_upload_token hs secret key now_sec =
     (let expiry = now_sec + UPLOAD_TTL_SEC in (sign_media hs secret Upload expiry key, expiry))"

definition mint_download_token :: "platform_hash \<Rightarrow> string \<Rightarrow> string \<Rightarrow> int \<Rightarrow> string \<times> int" where
  "mint_download_token hs secret key now_sec =
     (let expiry = now_sec + DOWNLOAD_TTL_SEC in (sign_media hs secret Download expiry key, expiry))"

definition media_signing_secret :: "string option \<Rightarrow> string option" where
  "media_signing_secret token = (case token of Some s \<Rightarrow> if length s \<ge> 16 then Some s else None | None \<Rightarrow> None)"

text \<open>The parts of a fresh object key: the ids reduced to safe characters, and a random part.\<close>

definition safe_id_part :: "string \<Rightarrow> string \<Rightarrow> string" where
  "safe_id_part dflt s = (let t = take 32 (List.filter is_secret_char s) in if t = [] then dflt else t)"

definition new_object_key :: "string \<Rightarrow> string \<Rightarrow> string \<Rightarrow> string \<Rightarrow> string \<Rightarrow> string" where
  "new_object_key dir extension account_id request_id uuid =
     dir @ ''/'' @ safe_id_part ''acct'' account_id @ ''/'' @ safe_id_part ''req'' request_id @ ''-''
     @ take 16 (List.filter (\<lambda>c. c \<noteq> CHR ''-'') uuid) @ extension"

definition new_video_object_key :: "string \<Rightarrow> string \<Rightarrow> string \<Rightarrow> string" where
  "new_video_object_key a r u = new_object_key ''video'' ''.mp4'' a r u"

definition new_music_object_key :: "string \<Rightarrow> string \<Rightarrow> string \<Rightarrow> string" where
  "new_music_object_key a r u = new_object_key ''music'' ''.mp3'' a r u"

definition new_image_object_key :: "string \<Rightarrow> string \<Rightarrow> string \<Rightarrow> string" where
  "new_image_object_key a r u = new_object_key ''image'' ''.png'' a r u"

definition media_public_url :: "string \<Rightarrow> string \<Rightarrow> string" where
  "media_public_url origin path = (if ends_with ''/'' origin then butlast origin else origin) @ path"

section \<open>The handoff to the speech session\<close>

record stt_handoff =
  ho_account_id :: string
  ho_client_id  :: string
  ho_plan_id    :: string
  ho_request_id :: string
  ho_model_id   :: string
  ho_exp        :: jsnum

definition STT_HANDOFF_TTL_SEC :: int where "STT_HANDOFF_TTL_SEC = 60"

definition handoff_payload :: "stt_handoff \<Rightarrow> string" where
  "handoff_payload h = join_with newline
     [ho_account_id h, ho_client_id h, ho_plan_id h, ho_request_id h, ho_model_id h,
      js_num_string (ho_exp h)]"

definition handoff_mac :: "platform_hash \<Rightarrow> string \<Rightarrow> string \<Rightarrow> string" where
  "handoff_mac hs secret text =
     ph_hmac hs (ph_sha256 hs (utf8_encode (''prism-stt-handoff-v1:'' @ secret))) text"

definition sign_stt_handoff :: "platform_hash \<Rightarrow> string \<Rightarrow> stt_handoff \<Rightarrow> string" where
  "sign_stt_handoff hs secret h = base64url (handoff_mac hs secret (utf8_encode (handoff_payload h)))"

definition verify_stt_handoff ::
  "platform_hash \<Rightarrow> string \<Rightarrow> stt_handoff \<Rightarrow> string \<Rightarrow> int \<Rightarrow> bool" where
  "verify_stt_handoff hs secret h signature now_sec =
     (if \<not> is_integer (ho_exp h) \<or> js_lt (ho_exp h) (NInt now_sec) then False
      else case b64url_to_bytes signature of
             None \<Rightarrow> False
           | Some sig \<Rightarrow> sig = handoff_mac hs secret (utf8_encode (handoff_payload h)))"

definition require_handoff_secret :: "string option \<Rightarrow> string option" where
  "require_handoff_secret token =
     (case token of None \<Rightarrow> None
      | Some t \<Rightarrow> if length (js_trim t) < 16 then None else Some (js_trim t))"


section \<open>Reading a token back\<close>

lemma utf8_ascii:
  assumes "list_all (\<lambda>c. ord_of c < 128) s"
  shows "utf8_encode s = s" "utf8_decode s = s"
proof -
  show "utf8_encode s = s"
    using assms by (induction s) (auto simp: utf8_encode_def Let_def)
  have run: "u8_run u8_init s = (List.map ord_of s, u8_init)"
    using assms
  proof (induction s)
    case (Cons c s)
    then have "u8_step u8_init (ord_of c) = ([ord_of c], u8_init)"
      by (simp add: u8_step_def u8_first_def u8_init_def)
    with Cons show ?case by simp
  qed simp
  have "strip_bom False (List.map ord_of s) = List.map ord_of s"
    using assms by (cases s) (auto simp: strip_bom_def)
  moreover have "latin_char (ord_of c) = c" for c
    using ord_of_less [of c] by (simp add: latin_char_def) (simp add: ord_of_def)
  ultimately show "utf8_decode s = s"
    using run by (simp add: utf8_decode_def u8_flush_def u8_init_def comp_def)
qed

lemma starts_with_split: "starts_with p s \<Longrightarrow> \<exists>w t. s = w @ t \<and> w = p"
  by (metis append_take_drop_id starts_with_def)

lemma safe_key_ascii: "is_safe_object_key key \<Longrightarrow> list_all (\<lambda>c. ord_of c < 128) key"
proof -
  assume "is_safe_object_key key"
  then have d: "list_all is_key_char (drop 6 key)"
      "starts_with ''video/'' key \<or> starts_with ''music/'' key \<or> starts_with ''image/'' key"
    by (auto simp: is_safe_object_key_def split: if_splits)
  have "\<exists>w t. key = w @ t \<and> length w = 6 \<and> list_all (\<lambda>c. ord_of c < 128) w"
    using d(2) by (elim disjE) (auto dest!: starts_with_split simp: ord_of_def)
  then have "list_all (\<lambda>c. ord_of c < 128) (take 6 key)" by auto
  moreover have "list_all (\<lambda>c. ord_of c < 128) (drop 6 key)"
    using d(1) by (auto simp: list_all_iff is_key_char_def Let_def ord_of_def)
  ultimately show ?thesis by (metis append_take_drop_id list_all_append)
qed

lemma integer_text_int:
  assumes "0 \<le> i" "i < 10 ^ 21"
  shows "integer_text (js_num_string (NInt i)) = Some i"
proof -
  have "nat i < 10 ^ 21" using assms by (simp add: nat_less_iff)
  also have "(10::nat) ^ 21 < 10 ^ 300" by (rule power_strict_increasing) simp_all
  finally show ?thesis
    using assms by (simp add: js_num_string_int integer_text_def js_Number_dec)
qed

lemma base64url_chars: "list_all is_secret_char (base64url bs)"
proof -
  obtain body where "\<forall>c\<in>set body. in_alphabet c \<and> is_secret_char (url_safe c)"
      "base64url bs = List.map url_safe body"
    using base64url_body by blast
  then show ?thesis by (auto simp: list_all_iff)
qed

lemma secret_no_dot: "list_all is_secret_char s \<Longrightarrow> CHR ''.'' \<notin> set s"
  by (auto simp: list_all_iff is_secret_char_def Let_def ord_of_def)

text \<open>Four parts without a dot are read back by the split.\<close>

lemma split_four:
  assumes "c \<notin> set p" "c \<notin> set q" "c \<notin> set r" "c \<notin> set s"
  shows "split_on c (p @ [c] @ q @ [c] @ r @ [c] @ s) = [p, q, r, s]"
  using assms by (simp add: split_on_append_sep split_on_no_sep)

lemma verify_signed:
  assumes "is_safe_object_key key" "0 \<le> expiry" "expiry < 10 ^ 21"
  shows "verify_media_token hs secret (sign_media hs secret k expiry key) t =
    (if expiry < t then None else Some \<lparr>md_kind = k, md_key = key, md_exp = expiry\<rparr>)"
proof -
  let ?e = "js_num_string (NInt expiry)"
  have "CHR ''.'' \<notin> set ?e"
    using dec_of_nat_digit_list [of "nat expiry"] assms not_digits(1)
    by (metis js_num_string_int list_all_iff)
  moreover have "CHR ''.'' \<notin> set (media_kind_name k)" by (cases k) auto
  ultimately have split: "split_on CHR ''.'' (sign_media hs secret k expiry key) =
      [media_kind_name k, ?e, base64url (utf8_encode key),
       base64url (media_mac hs secret (utf8_encode (media_payload k expiry key)))]"
    unfolding sign_media_def by - (intro split_four; (assumption | rule secret_no_dot [OF base64url_chars]))
  have kind: "media_kind_of (media_kind_name k) = Some k" by (cases k) (simp_all add: media_kind_of_def)
  have "key \<noteq> []" using assms(1) by (auto simp: is_safe_object_key_def)
  then show ?thesis
    using assms utf8_ascii [OF safe_key_ascii [OF assms(1)]]
    by (simp add: verify_media_token_def split kind integer_text_int b64url_roundtrip)
qed

lemma verified_signature:
  assumes "verify_media_token hs secret tok t = Some m"
  shows "t \<le> md_exp m" "is_safe_object_key (md_key m)"
    "\<exists>e kb sb. split_on CHR ''.'' tok = [media_kind_name (md_kind m), e, kb, sb]
       \<and> b64url_to_bytes sb = Some (media_mac hs secret (utf8_encode (media_payload (md_kind m) (md_exp m) (md_key m))))"
proof -
  have name: "media_kind_of x = Some k \<Longrightarrow> x = media_kind_name k" for x k
    by (auto simp: media_kind_of_def split: if_splits)
  obtain k e kb sb where parts: "split_on CHR ''.'' tok = [k, e, kb, sb]"
    using assms by (auto simp: verify_media_token_def split: list.splits)
  with assms have "t \<le> md_exp m \<and> is_safe_object_key (md_key m) \<and> k = media_kind_name (md_kind m)
      \<and> b64url_to_bytes sb = Some (media_mac hs secret (utf8_encode (media_payload (md_kind m) (md_exp m) (md_key m))))"
    by (auto simp: verify_media_token_def bind_eq_Some_conv name split: if_splits)
  with parts show "t \<le> md_exp m" "is_safe_object_key (md_key m)"
    "\<exists>e kb sb. split_on CHR ''.'' tok = [media_kind_name (md_kind m), e, kb, sb]
       \<and> b64url_to_bytes sb = Some (media_mac hs secret (utf8_encode (media_payload (md_kind m) (md_exp m) (md_key m))))"
    by auto
qed

section \<open>Fresh object keys\<close>

lemma contains_str_split: "contains_str p s \<Longrightarrow> \<exists>a b. s = a @ p @ b"
proof (induction s)
  case (Cons x s)
  show ?case
  proof (cases "starts_with p (x # s)")
    case True
    then obtain t where "x # s = p @ t" by (auto simp: starts_with_iff)
    then have "x # s = [] @ p @ t" by simp
    then show ?thesis by blast
  next
    case False
    then have "contains_str p s" using Cons.prems by (simp add: contains_str_def)
    then obtain a b where "s = a @ p @ b" using Cons.IH by blast
    then have "x # s = (x # a) @ p @ b" by simp
    then show ?thesis by blast
  qed
qed (auto simp: contains_str_def split: if_splits)

lemma safe_id_part: "list_all is_secret_char d \<Longrightarrow> d \<noteq> [] \<Longrightarrow> length d \<le> 32 \<Longrightarrow>
    list_all is_secret_char (safe_id_part d s) \<and> safe_id_part d s \<noteq> [] \<and> length (safe_id_part d s) \<le> 32"
  by (auto simp: safe_id_part_def Let_def list_all_iff dest: in_set_takeD)

lemma secret_key_char: "is_secret_char c \<Longrightarrow> is_key_char c"
proof -
  have "ord_of CHR ''_'' = 95" "ord_of CHR ''-'' = 45" by (simp_all add: ord_of_def)
  then have "ord_of c = 95 \<Longrightarrow> c = CHR ''_''" "ord_of c = 45 \<Longrightarrow> c = CHR ''-''"
    by (metis char_of_char ord_of_def)+
  then show "is_secret_char c \<Longrightarrow> is_key_char c"
    by (auto simp: is_secret_char_def is_key_char_def Let_def)
qed

lemma fresh_key_safe:
  assumes dir: "dir \<in> {''video'', ''music'', ''image''}"
    and extension: "extension \<in> {''.mp4'', ''.mp3'', ''.png''}"
    and uuid: "list_all is_secret_char uuid"
  shows "is_safe_object_key (new_object_key dir extension a r uuid)"
proof -
  define x where "x = safe_id_part ''acct'' a"
  define y where "y = safe_id_part ''req'' r @ ''-'' @ take 16 (List.filter (\<lambda>c. c \<noteq> CHR ''-'') uuid)"
  let ?key = "dir @ ''/'' @ x @ ''/'' @ y @ extension"
  have key: "new_object_key dir extension a r uuid = ?key"
    by (simp add: new_object_key_def x_def y_def)
  have lit: "list_all is_secret_char ''acct''" "list_all is_secret_char ''req''" "is_secret_char CHR ''-''"
    by (simp_all add: is_secret_char_def ord_of_def)
  have x: "list_all is_secret_char x" "x \<noteq> []" "length x \<le> 32"
    using safe_id_part [OF lit(1)] by (auto simp: x_def)
  have y: "list_all is_secret_char y" "y \<noteq> []" "length y \<le> 49"
    using safe_id_part [OF lit(2), of r] lit(3) uuid
    by (auto simp: y_def list_all_iff dest: in_set_takeD)
  have none: "c \<notin> set x" "c \<notin> set y" if "\<not> is_secret_char c" for c
    using x(1) y(1) that by (auto simp: list_all_iff)
  have special: "\<not> is_secret_char CHR ''.''" "\<not> is_secret_char CHR ''/''" "\<not> is_secret_char CHR 0x5C"
    by (simp_all add: is_secret_char_def ord_of_def)
  have "count_list ?key CHR ''.'' \<le> 1"
    using none [OF special(1)] dir extension by auto
  then have nodots: "\<not> contains_str ''..'' ?key"
  proof -
    have "2 \<le> count_list (u @ ''..'' @ v) CHR ''.''" for u v by simp
    then show ?thesis using \<open>count_list ?key CHR ''.'' \<le> 1\<close> contains_str_split [of "''..''" ?key]
      by (metis Suc_1 not_less_eq_eq)
  qed
  have parts: "split_on CHR ''/'' ?key = [dir, x, y @ extension]"
  proof -
    have "CHR ''/'' \<notin> set dir" "CHR ''/'' \<notin> set (y @ extension)"
      using none [OF special(2)] dir extension by auto
    then show ?thesis
      using none(1) [OF special(2)] by (simp add: split_on_append_sep split_on_no_sep)
  qed
  have noslashes: "\<not> contains_str ''//'' ?key"
  proof
    assume "contains_str ''//'' ?key"
    then obtain u v where "?key = u @ ''//'' @ v" using contains_str_split by blast
    then have "split_on CHR ''/'' ?key = split_on CHR ''/'' u @ [] # split_on CHR ''/'' v"
      using split_on_append_sep [of "CHR ''/''" u "CHR ''/'' # v"] by simp
    then have "[] \<in> set [dir, x, y @ extension]" unfolding parts [symmetric] by simp
    then show False using x(2) y(2) dir by auto
  qed
  have "CHR 0x5C \<notin> set ?key"
    using none [OF special(3)] dir extension by auto
  then have noback: "\<not> contains_str [CHR 0x5C] ?key"
    using contains_str_split [of "[CHR 0x5C]" ?key] by (metis append_Cons in_set_conv_decomp)
  have len: "8 \<le> length ?key" "length ?key \<le> 200"
    using x y dir extension by (auto simp: Suc_le_eq)
  have d6: "drop 6 ?key = x @ ''/'' @ y @ extension" using dir by auto
  have "list_all is_key_char (x @ ''/'' @ y @ extension)"
    using x(1) y(1) secret_key_char extension by (auto simp: list_all_iff is_key_char_def ord_of_def)
  moreover have "starts_with ''video/'' ?key \<or> starts_with ''music/'' ?key \<or> starts_with ''image/'' ?key"
    using dir by (auto simp: starts_with_def)
  ultimately show ?thesis
    using len nodots noslashes noback x(2) d6 unfolding key is_safe_object_key_def by simp
qed

section \<open>Properties\<close>

text \<open>C25. A media capability opens exactly its object: a fresh object key is always path-safe; the
  upload or download token minted for it verifies, until its expiry and never after, to that key and
  that kind; and whatever token verifies names a path-safe key, is not expired, and carries the
  keyed hash of its own kind, expiry and key.  No secrecy is assumed of the hash.\<close>

theorem media_token_opens_its_object:
  assumes "list_all is_secret_char uuid" "0 \<le> now_sec" "now_sec < 10 ^ 20"
    and "key \<in> {new_video_object_key a r uuid, new_music_object_key a r uuid, new_image_object_key a r uuid}"
  shows "is_safe_object_key key
    \<and> verify_media_token hs secret (fst (mint_upload_token hs secret key now_sec)) t =
      (if now_sec + UPLOAD_TTL_SEC < t then None
       else Some \<lparr>md_kind = Upload, md_key = key, md_exp = now_sec + UPLOAD_TTL_SEC\<rparr>)
    \<and> verify_media_token hs secret (fst (mint_download_token hs secret key now_sec)) t =
      (if now_sec + DOWNLOAD_TTL_SEC < t then None
       else Some \<lparr>md_kind = Download, md_key = key, md_exp = now_sec + DOWNLOAD_TTL_SEC\<rparr>)
    \<and> (\<forall>tok m. verify_media_token hs secret tok t = Some m \<longrightarrow>
         t \<le> md_exp m \<and> is_safe_object_key (md_key m)
         \<and> (\<exists>e kb sb. split_on CHR ''.'' tok = [media_kind_name (md_kind m), e, kb, sb]
              \<and> b64url_to_bytes sb =
                  Some (media_mac hs secret (utf8_encode (media_payload (md_kind m) (md_exp m) (md_key m))))))"
proof (intro conjI allI impI)
  show safe: "is_safe_object_key key"
    using assms(1,4) fresh_key_safe
    by (auto simp: new_video_object_key_def new_music_object_key_def new_image_object_key_def)
  show "verify_media_token hs secret (fst (mint_upload_token hs secret key now_sec)) t =
      (if now_sec + UPLOAD_TTL_SEC < t then None
       else Some \<lparr>md_kind = Upload, md_key = key, md_exp = now_sec + UPLOAD_TTL_SEC\<rparr>)"
    using verify_signed [OF safe, of "now_sec + UPLOAD_TTL_SEC"] assms(2,3)
    by (simp add: mint_upload_token_def UPLOAD_TTL_SEC_def Let_def)
  show "verify_media_token hs secret (fst (mint_download_token hs secret key now_sec)) t =
      (if now_sec + DOWNLOAD_TTL_SEC < t then None
       else Some \<lparr>md_kind = Download, md_key = key, md_exp = now_sec + DOWNLOAD_TTL_SEC\<rparr>)"
    using verify_signed [OF safe, of "now_sec + DOWNLOAD_TTL_SEC"] assms(2,3)
    by (simp add: mint_download_token_def DOWNLOAD_TTL_SEC_def Let_def)
qed (auto dest: verified_signature)

definition toy_hash :: platform_hash where
  "toy_hash = \<lparr>ph_sha256 = take 5,
     ph_hmac = (\<lambda>key text. [char_of ((length key + (\<Sum>c \<leftarrow> text. ord_of c)) mod 256)])\<rparr>"

theorem media_token_opens_its_object_witness:
  "verify_media_token toy_hash ''0123456789abcdef''
      (fst (mint_upload_token toy_hash ''0123456789abcdef'' (new_video_object_key ''acct_1'' ''req_1'' ''ab12-cd34'') 1000)) 2200 =
    Some \<lparr>md_kind = Upload, md_key = ''video/acct_1/req_1-ab12cd34.mp4'', md_exp = 2200\<rparr>"
proof -
  have u: "list_all is_secret_char ''ab12-cd34''" by (simp add: is_secret_char_def ord_of_def)
  have "new_video_object_key ''acct_1'' ''req_1'' ''ab12-cd34'' = ''video/acct_1/req_1-ab12cd34.mp4''"
    by code_simp
  then show ?thesis
    using media_token_opens_its_object [OF u, of 1000 "new_video_object_key ''acct_1'' ''req_1'' ''ab12-cd34''"
        "''acct_1''" "''req_1''" toy_hash "''0123456789abcdef''" 2200]
    by (simp add: UPLOAD_TTL_SEC_def)
qed

end
