(* ===== verification/Media.thy ===== *)
theory Media
  imports Tokens Env
begin

text \<open>
  src/src/routes/media.ts: the upload a provider makes and the download a client makes, both
  authorised by a signed token in the path, over an object store.  The store is a parameter: three
  operations that may do anything to the world and may fail.
\<close>

section \<open>Paths\<close>

definition is_token_char :: "char \<Rightarrow> bool" where
  "is_token_char c = (is_secret_char c \<or> c = CHR ''.'')"

definition match_media_ingress :: "string \<Rightarrow> string option" where
  "match_media_ingress path =
     (let tok = drop 18 path in
      if starts_with ''/v1/media/ingress/'' path \<and> tok \<noteq> [] \<and> list_all is_token_char tok
      then Some tok else None)"

definition match_media_download :: "string \<Rightarrow> string option" where
  "match_media_download path =
     (let tok = drop 10 path in
      if starts_with ''/v1/media/ingress/'' path then None
      else if starts_with ''/v1/media/'' path \<and> tok \<noteq> [] \<and> list_all is_token_char tok
      then Some tok else None)"

section \<open>The object store\<close>

record media_object =
  mo_size :: int
  mo_type :: "string option"

text \<open>\<open>head\<close>, \<open>get\<close> with an optional range (offset, length), answering with bytes and stored type, and \<open>put\<close> with a content type.\<close>

record 'z bucket =
  bu_head :: "string \<Rightarrow> (media_object option, 'z) m"
  bu_get  :: "string \<Rightarrow> (int \<times> int) option \<Rightarrow> ((string \<times> string option) option, 'z) m"
  bu_put  :: "string \<Rightarrow> string \<Rightarrow> string \<Rightarrow> (unit, 'z) m"

definition MEDIA_MAX_BYTES :: int where "MEDIA_MAX_BYTES = 80 * 1024 * 1024"

text \<open>\<open>request.arrayBuffer()\<close>: the whole body, unless its stream fails.\<close>

definition body_bytes :: "body_event list \<Rightarrow> (string, 'z) m" where
  "body_bytes es = (if ReadError \<in> set es then throwM PlatformError else retM (chunk_bytes es))"

definition now_sec :: "(int, 'z) m" where
  "now_sec = (\<lambda>w. (Inr (w_now w div 1000), w))"

section \<open>Ingress\<close>

definition length_header_too_large :: "string \<Rightarrow> bool" where
  "length_header_too_large v = (is_finite_num (js_Number v) \<and> js_lt (NInt MEDIA_MAX_BYTES) (js_Number v))"

definition handle_media_ingress ::
  "platform_hash \<Rightarrow> env \<Rightarrow> 'z bucket option \<Rightarrow> request \<Rightarrow> string \<Rightarrow> string \<Rightarrow> (response, 'z) m" where
  "handle_media_ingress hs e media rq token rid =
     (if rq_method rq \<noteq> ''PUT'' \<and> rq_method rq \<noteq> ''POST'' then retM (error_response rid Invalid_request)
      else case media_signing_secret (env_aig_token e) of
        None \<Rightarrow> retM (error_response rid Unavailable)
      | Some secret \<Rightarrow>
     (case media of
        None \<Rightarrow> retM (error_response rid Unavailable)
      | Some b \<Rightarrow>
          bindM now_sec (\<lambda>t.
          case verify_media_token hs secret token t of
            None \<Rightarrow> retM (error_response rid Unauthenticated)
          | Some tok \<Rightarrow>
              if md_kind tok \<noteq> Upload then retM (error_response rid Unauthenticated)
              else
               (let len_header = (case rq_header rq ''content-length'' of Some v \<Rightarrow> v | None \<Rightarrow> []);
                    ctype = (case rq_header rq ''content-type'' of Some v \<Rightarrow> v | None \<Rightarrow> ''video/mp4'');
                    stored = (\<lambda>bytes. bindM (bu_put b (md_key tok) bytes ctype)
                               (\<lambda>_. retM \<lparr>resp_status = 204, resp_headers = [], resp_body = EmptyBody\<rparr>))
                in if len_header \<noteq> [] \<and> length_header_too_large len_header
                   then retM (error_response rid Invalid_request)
                   else (case rq_body rq of
                     None \<Rightarrow> retM (error_response rid Invalid_request)
                   | Some es \<Rightarrow>
                       bindM (body_bytes es) (\<lambda>bytes.
                       if len_header \<noteq> [] then stored bytes
                       else if int (length bytes) > MEDIA_MAX_BYTES \<or> bytes = []
                         then retM (error_response rid Invalid_request)
                       else stored bytes))))))"

section \<open>Ranges\<close>

datatype range_result = NoRange | Unsatisfiable | ByteRange int int

text \<open>\<open>/^bytes=(\d*)-(\d*)$/i\<close> on the trimmed header.\<close>

definition range_texts :: "string \<Rightarrow> (string \<times> string) option" where
  "range_texts h =
     (let t = js_trim h; (a, r) = scan_digits (drop 6 t) in
      if js_lower (take 6 t) = ''bytes='' then
        (case r of
           c # r2 \<Rightarrow> if c = CHR ''-'' \<and> list_all is_digit_char r2 then Some (a, r2) else None
         | [] \<Rightarrow> None)
      else None)"

definition parse_bytes_range :: "string option \<Rightarrow> int \<Rightarrow> range_result" where
  "parse_bytes_range header sz =
     (case header of
        None \<Rightarrow> NoRange
      | Some h \<Rightarrow>
          if h = [] then NoRange
          else (case range_texts h of
            None \<Rightarrow> NoRange
          | Some (a, b) \<Rightarrow>
              if a = [] \<and> b = [] then NoRange
              else if a = [] then
                (case js_Number b of
                   NInt suffix \<Rightarrow> if suffix \<le> 0 then Unsatisfiable
                                  else ByteRange (max 0 (sz - suffix)) (sz - 1)
                 | _ \<Rightarrow> Unsatisfiable)
              else
                (case (js_Number a, if b = [] then NInt (sz - 1) else js_Number b) of
                   (NInt fst_b, NInt lst) \<Rightarrow>
                     if fst_b < 0 \<or> fst_b \<ge> sz \<or> min lst (sz - 1) < fst_b then Unsatisfiable
                     else ByteRange fst_b (min lst (sz - 1))
                 | _ \<Rightarrow> Unsatisfiable)))"

section \<open>Download\<close>

definition media_headers :: "string \<Rightarrow> media_object \<Rightarrow> (string \<times> string) list" where
  "media_headers key obj =
     (let is_music = starts_with ''music/'' key; is_image = starts_with ''image/'' key in
      [(''content-type'', case mo_type obj of Some t \<Rightarrow> t
          | None \<Rightarrow> if is_music then ''audio/mpeg'' else if is_image then ''image/png'' else ''video/mp4''),
       (''cache-control'', ''private, max-age=3600''), (''accept-ranges'', ''bytes''),
       (''content-disposition'', ''inline; filename='' @ [CHR 0x22]
          @ (if is_music then ''prism-music.mp3'' else if is_image then ''prism-image.png'' else ''video.mp4'')
          @ [CHR 0x22])])"

definition handle_media_download ::
  "platform_hash \<Rightarrow> env \<Rightarrow> 'z bucket option \<Rightarrow> request \<Rightarrow> string \<Rightarrow> string \<Rightarrow> (response, 'z) m" where
  "handle_media_download hs e media rq token rid =
     (if rq_method rq \<noteq> ''GET'' \<and> rq_method rq \<noteq> ''HEAD'' then retM (error_response rid Invalid_request)
      else case media_signing_secret (env_aig_token e) of
        None \<Rightarrow> retM (error_response rid Unavailable)
      | Some secret \<Rightarrow>
     (case media of
        None \<Rightarrow> retM (error_response rid Unavailable)
      | Some b \<Rightarrow>
          bindM now_sec (\<lambda>t.
          case verify_media_token hs secret token t of
            None \<Rightarrow> retM (error_response rid Unauthenticated)
          | Some tok \<Rightarrow>
              if md_kind tok \<noteq> Download then retM (error_response rid Unauthenticated)
              else
                bindM (bu_head b (md_key tok)) (\<lambda>obj.
                case obj of
                  None \<Rightarrow> retM (error_response rid Not_found)
                | Some ob \<Rightarrow>
                   (let hs0 = media_headers (md_key tok) ob; sz = mo_size ob;
                        deliver = (\<lambda>status hdrs range.
                          if rq_method rq = ''HEAD'' then
                            retM \<lparr>resp_status = status, resp_headers = hdrs, resp_body = EmptyBody\<rparr>
                          else bindM (bu_get b (md_key tok) range) (\<lambda>got.
                            retM (case got of
                              None \<Rightarrow> error_response rid Not_found
                            | Some (bytes, _) \<Rightarrow>
                                \<lparr>resp_status = status, resp_headers = hdrs, resp_body = BytesBody bytes\<rparr>)))
                    in case parse_bytes_range (rq_header rq ''range'') sz of
                         Unsatisfiable \<Rightarrow>
                           retM \<lparr>resp_status = 416,
                                 resp_headers = hs0 @ [(''content-range'', ''bytes */'' @ dec_of_int sz)],
                                 resp_body = EmptyBody\<rparr>
                       | ByteRange fst_b lst \<Rightarrow>
                           (let len = lst - fst_b + 1;
                                hdrs = hs0 @ [(''content-range'', ''bytes '' @ dec_of_int fst_b @ ''-''
                                          @ dec_of_int lst @ ''/'' @ dec_of_int sz),
                                        (''content-length'', dec_of_int len)]
                            in bindM (bu_get b (md_key tok) (Some (fst_b, len))) (\<lambda>got.
                               retM (case got of
                                 None \<Rightarrow> error_response rid Not_found
                               | Some (bytes, _) \<Rightarrow>
                                   \<lparr>resp_status = 206, resp_headers = hdrs,
                                    resp_body = (if rq_method rq = ''HEAD'' then EmptyBody else BytesBody bytes)\<rparr>)))
                       | NoRange \<Rightarrow>
                           deliver 200 (hs0 @ [(''content-length'', dec_of_int sz)]) None)))))"

section \<open>Waiting for an object\<close>

definition clock :: "(int, 'z) m" where
  "clock = (\<lambda>w. (Inr (w_now w), w))"

definition sleep :: "int \<Rightarrow> (unit, 'z) m" where
  "sleep ms = (\<lambda>w. (Inr (), w\<lparr>w_now := w_now w + ms\<rparr>))"

text \<open>The polling loop, at most the given number of rounds; the outer \<open>None\<close> says that they ran
  out.\<close>

fun wait_rounds ::
  "nat \<Rightarrow> 'z bucket \<Rightarrow> string \<Rightarrow> int \<Rightarrow> int \<Rightarrow> (media_object option option, 'z) m" where
  "wait_rounds 0 b key deadline step_ms = retM None"
| "wait_rounds (Suc n) b key deadline step_ms =
     bindM clock (\<lambda>t.
     if t < deadline then
       bindM (bu_head b key) (\<lambda>obj.
       case obj of
         Some ob \<Rightarrow> retM (Some (Some ob))
       | None \<Rightarrow>
           bindM clock (\<lambda>t2.
           if deadline - t2 \<le> 0 then bindM (bu_head b key) (\<lambda>obj2. retM (Some obj2))
           else bindM (sleep (min step_ms (deadline - t2))) (\<lambda>_. wait_rounds n b key deadline step_ms)))
     else bindM (bu_head b key) (\<lambda>obj. retM (Some obj)))"

definition wait_for_media_object ::
  "nat \<Rightarrow> 'z bucket \<Rightarrow> string \<Rightarrow> int \<Rightarrow> int \<Rightarrow> (media_object option option, 'z) m" where
  "wait_for_media_object rounds b key max_ms step_ms =
     bindM clock (\<lambda>t. wait_rounds rounds b key (t + max_ms) step_ms)"

section \<open>Ranges stay inside the object\<close>

lemma parse_bytes_range_inside:
  assumes "parse_bytes_range header sz = ByteRange a b" and "0 < sz"
  shows "0 \<le> a \<and> a \<le> b \<and> b < sz"
proof -
  obtain h where h: "header = Some h" using assms(1) by (cases header) (simp_all add: parse_bytes_range_def)
  have ne: "h \<noteq> []" using assms(1) h by (auto simp: parse_bytes_range_def)
  obtain x y where xy: "range_texts h = Some (x, y)"
    using assms(1) h ne by (cases "range_texts h") (auto simp: parse_bytes_range_def)
  note r = assms(1) [unfolded parse_bytes_range_def h option.case xy if_not_P [OF ne] prod.case]
  show ?thesis
  proof (cases "x = []")
    case True
    with r have "y \<noteq> []" by auto
    with True r assms(2) show ?thesis by (cases "js_Number y") (auto split: if_split_asm)
  next
    case False
    define e where "e = (if y = [] then NInt (sz - 1) else js_Number y)"
    show ?thesis using r False assms(2) unfolding e_def [symmetric]
      by (cases "js_Number x"; cases e) (auto split: if_split_asm)
  qed
qed

text \<open>The suffix form does not look at the size: of an empty object it yields the range that
  starts at 0 and ends at -1, which the download answers with 206 and \<open>content-range: bytes
  0--1/0\<close>.\<close>

lemma parse_bytes_range_empty_object:
  "parse_bytes_range (Some ''bytes=-1'') 0 = ByteRange 0 (-1)"
proof -
  have "range_texts ''bytes=-1'' = Some ([], ''1'')" by code_simp
  moreover have "dec_of_nat 1 = ''1''" by code_simp
  then have "js_Number ''1'' = NInt 1" using js_Number_dec [of 1] by simp
  ultimately show ?thesis by (simp add: parse_bytes_range_def)
qed

section \<open>The token decides\<close>

lemma ingress_without_token:
  assumes "media_signing_secret (env_aig_token e) = Some secret"
    and "rq_method rq = ''PUT'' \<or> rq_method rq = ''POST''"
    and "\<And>tok. verify_media_token hs secret token (w_now w div 1000) = Some tok \<Longrightarrow> md_kind tok \<noteq> Upload"
  shows "handle_media_ingress hs e (Some b) rq token rid w
    = (Inr (error_response rid Unauthenticated), w)"
  using assms
  by (auto simp: handle_media_ingress_def now_sec_def bindM_def retM_def split: option.splits)

lemma download_without_token:
  assumes "media_signing_secret (env_aig_token e) = Some secret"
    and "rq_method rq = ''GET'' \<or> rq_method rq = ''HEAD''"
    and "\<And>tok. verify_media_token hs secret token (w_now w div 1000) = Some tok \<Longrightarrow> md_kind tok \<noteq> Download"
  shows "handle_media_download hs e (Some b) rq token rid w
    = (Inr (error_response rid Unauthenticated), w)"
  using assms
  by (auto simp: handle_media_download_def now_sec_def bindM_def retM_def split: option.splits)

text \<open>With a valid token the only entry of the store that a route can touch is the token's own.\<close>

lemma ingress_only_key:
  assumes "media_signing_secret (env_aig_token e) = Some secret"
    and "verify_media_token hs secret token (w_now w div 1000) = Some tok"
    and "bu_put b (md_key tok) = bu_put b2 (md_key tok)"
  shows "handle_media_ingress hs e (Some b) rq token rid w
    = handle_media_ingress hs e (Some b2) rq token rid w"
  using assms by (simp add: handle_media_ingress_def now_sec_def bindM_def)

lemma download_only_key:
  assumes "media_signing_secret (env_aig_token e) = Some secret"
    and "verify_media_token hs secret token (w_now w div 1000) = Some tok"
    and "bu_head b (md_key tok) = bu_head b2 (md_key tok)"
    and "bu_get b (md_key tok) = bu_get b2 (md_key tok)"
  shows "handle_media_download hs e (Some b) rq token rid w
    = handle_media_download hs e (Some b2) rq token rid w"
  using assms
  by (simp add: handle_media_download_def now_sec_def bindM_def Let_def
      cong del: option.case_cong_weak sum.case_cong_weak range_result.case_cong_weak prod.case_cong_weak)

section \<open>The wait ends\<close>

lemma wait_rounds_end:
  assumes mono: "\<And>u r u'. bu_head b key u = (r, u') \<Longrightarrow> w_now u \<le> w_now u'"
    and step: "0 < step_ms"
  shows "deadline - w_now w \<le> int n * step_ms \<Longrightarrow> fst (wait_rounds (Suc n) b key deadline step_ms w) \<noteq> Inr None"
proof (induction n arbitrary: w)
  case 0
  then show ?case by (auto simp: bindM_def clock_def retM_def split: prod.splits sum.splits)
next
  case (Suc n)
  obtain r u where h: "bu_head b key w = (r, u)" by (cases "bu_head b key w")
  have later: "w_now w \<le> w_now u" using mono [OF h] .
  let ?left = "deadline - w_now u"
  have "?left - min step_ms ?left \<le> int n * step_ms" if "0 < ?left"
    using later Suc.prems step by (auto simp: min_def algebra_simps)
  then have rest: "fst (wait_rounds (Suc n) b key deadline step_ms (u\<lparr>w_now := w_now u + min step_ms ?left\<rparr>))
      \<noteq> Inr None" if "0 < ?left"
    using that by (intro Suc.IH) (simp add: algebra_simps)
  show ?case
    using rest h
    by (cases r) (auto simp: bindM_def clock_def retM_def sleep_def not_le
        split: prod.splits sum.splits option.splits simp del: wait_rounds.simps(2) simp: wait_rounds.simps(2) [of "Suc n"])
qed

text \<open>Waiting for an uploaded object ends: with rounds for the whole interval and one more,
  the loop never runs out of them, whatever the store answers (as long as it does not turn the clock
  back); it finds the object, reports that there is none, or passes on the store's failure.\<close>

lemma wait_for_media_object_ends:
  assumes "\<And>u r u'. bu_head b key u = (r, u') \<Longrightarrow> w_now u \<le> w_now u'"
    and "0 < step_ms" and "max_ms \<le> int n * step_ms"
  shows "fst (wait_for_media_object (Suc n) b key max_ms step_ms w) \<noteq> Inr None"
  using wait_rounds_end [OF assms(1,2), where deadline = "w_now w + max_ms" and n = n] assms(3)
  by (simp add: wait_for_media_object_def bindM_def clock_def del: wait_rounds.simps)

section \<open>The routes follow the token\<close>


definition media_env :: env where
  "media_env = \<lparr>env_account_id = None, env_gateway_id = None, env_collect_log = None,
     env_credential_mode = None, env_aig_token = Some ''0123456789abcdef'', env_token_budget = None,
     env_kek = None, env_kek_next = None, env_kek_slot = None, env_upstream_timeout = None,
     env_nonchat_timeout = None, env_admin_token = None, env_cron_live = None, env_cron_lookback = None,
     env_trust_decode = None, env_sandbox_trust = None, env_play_account = None\<rparr>"

definition media_get :: request where
  "media_get = \<lparr>rq_method = ''GET'', rq_path = ''/v1/media/x'', rq_query = [], rq_headers = [], rq_body = None\<rparr>"


end
