(* ===== verification/Stringify.thy ===== *)
theory Stringify
  imports NumText
begin

text \<open>
  JSON.stringify, which every request body, metadata header and emitted event passes through, and
  its inverse JSON.parse: what was printed is read back as it was.
\<close>

section \<open>Printing\<close>

definition quote_char :: "char \<Rightarrow> string" where
  "quote_char c =
     (let n = ord_of c in
      if n = 34 then [char_of (92::nat), c]
      else if n = 92 then [c, c]
      else if n = 8 then [char_of (92::nat), CHR ''b''] else if n = 9 then [char_of (92::nat), CHR ''t'']
      else if n = 10 then [char_of (92::nat), CHR ''n''] else if n = 12 then [char_of (92::nat), CHR ''f'']
      else if n = 13 then [char_of (92::nat), CHR ''r'']
      else if n < 32 then char_of (92::nat) # ''u00'' @ [if n < 16 then CHR ''0'' else CHR ''1'',
             (if n mod 16 < 10 then char_of (48 + n mod 16) else char_of (87 + n mod 16))]
      else [c])"

definition quote_chars :: "string \<Rightarrow> string" where
  "quote_chars s = List.concat (List.map quote_char s)"

definition quoted :: "string \<Rightarrow> string" where
  "quoted s = CHR 0x22 # quote_chars s @ [CHR 0x22]"

text \<open>An undefined property is left out, an undefined element is printed as null, and so is a number
  that is not finite.\<close>

fun js_stringify :: "js \<Rightarrow> string"
and elem_texts :: "js list \<Rightarrow> string list"
and field_texts :: "(string \<times> js) list \<Rightarrow> string list" where
  "js_stringify JUndef = ''null''"
| "js_stringify JNull = ''null''"
| "js_stringify (JBool b) = (if b then ''true'' else ''false'')"
| "js_stringify (JNum n) = (if is_finite_num n then js_num_string n else ''null'')"
| "js_stringify (JStr s) = quoted s"
| "js_stringify (JArr vs) = ''['' @ join_with '','' (elem_texts vs) @ '']''"
| "js_stringify (JObj fs) = ''{'' @ join_with '','' (field_texts fs) @ ''}''"
| "elem_texts [] = []"
| "elem_texts (v # vs) = js_stringify v # elem_texts vs"
| "field_texts [] = []"
| "field_texts ((k, v) # fs) =
     (if v = JUndef then field_texts fs else (quoted k @ '':'' @ js_stringify v) # field_texts fs)"

section \<open>Reading back\<close>

text \<open>The values that survive: no undefined, integers below the exponent notation, distinct keys.\<close>

fun json_ok :: "js \<Rightarrow> bool" where
  "json_ok JUndef = False"
| "json_ok (JNum n) = (case n of NInt i \<Rightarrow> \<bar>i\<bar> < 10 ^ 21 | _ \<Rightarrow> False)"
| "json_ok (JArr vs) = (\<forall>v \<in> set vs. json_ok v)"
| "json_ok (JObj fs) = (distinct (List.map fst fs) \<and> (\<forall>f \<in> set fs. json_ok (snd f)))"
| "json_ok _ = True"

lemma ord_of_char_of_mod [simp]: "ord_of (char_of n) = n mod 256"
  by (simp add: ord_of_def)

lemma char_of_ord [simp]: "char_of (ord_of c) = c"
  by (simp add: ord_of_def)

lemma char_eq_ord: "c = d \<longleftrightarrow> ord_of c = ord_of d"
  by (simp add: ord_of_def)

lemma json_string_control:
  assumes "n < 32"
  shows "radix_value 16 0 [CHR ''0'', CHR ''0'', if n < 16 then CHR ''0'' else CHR ''1'',
      (if n mod 16 < 10 then char_of (48 + n mod 16) else char_of (87 + n mod 16))] = Some n"
proof -
  have "n mod 16 \<le> 15" using mod_less_divisor [of 16 n] by simp
  then have h: "hex_val (if n mod 16 < 10 then char_of (48 + n mod 16) else char_of (87 + n mod 16)) = Some (n mod 16)"
    by (simp add: hex_val_def Let_def)
  have d: "hex_val CHR ''0'' = Some 0" "hex_val CHR ''1'' = Some 1" by (simp_all add: hex_val_def ord_of_def)
  show ?thesis
  proof (cases "n < 16")
    case True
    with h d show ?thesis by simp
  next
    case False
    then have "n = 16 + n mod 16" using assms by presburger
    with h d False show ?thesis by simp
  qed
qed

lemma json_string_step: "json_string (quote_char c @ r) = map_option (\<lambda>(s, rest). (c # s, rest)) (json_string r)"
proof -
  consider "ord_of c = 34" | "ord_of c = 92" | "ord_of c \<in> {8, 9, 10, 12, 13}"
    | "ord_of c < 32" "ord_of c \<notin> {8, 9, 10, 12, 13}" | "32 \<le> ord_of c" "ord_of c \<noteq> 34" "ord_of c \<noteq> 92"
    by fastforce
  then show ?thesis
  proof cases
    case 4
    then show ?thesis
      using json_string_control [of "ord_of c"]
      by (simp add: quote_char_def Let_def latin_char_def del: radix_value.simps)
  next
    case 3
    then obtain m where m: "c = char_of m" "m \<in> {8 :: nat, 9, 10, 12, 13}" by (metis char_of_ord)
    show ?thesis
      using m(2) unfolding m(1)
      by (auto simp: quote_char_def escape_char_def char_eq_ord) (auto simp: ord_of_def)
  qed (simp_all add: quote_char_def escape_char_def char_eq_ord, simp_all add: ord_of_def)
qed

lemma json_string_quoted: "json_string (quote_chars s @ CHR 0x22 # r) = Some (s, r)"
  by (induction s) (simp_all add: quote_chars_def json_string_step ord_of_def del: json_string.simps(2),
      simp_all add: ord_of_def)

definition value_end :: "string \<Rightarrow> bool" where
  "value_end rest \<longleftrightarrow> rest = [] \<or> hd rest \<in> {CHR '','', CHR '']'', CHR ''}''}"

lemma dec_no_leading_zero: "hd (dec_of_nat n) = CHR ''0'' \<Longrightarrow> tl (dec_of_nat n) = []"
proof (cases n)
  case (Suc m)
  assume z: "hd (dec_of_nat n) = CHR ''0''"
  obtain t where t: "dec_of_nat n = CHR ''0'' # t" using z by (cases "dec_of_nat n") auto
  show ?thesis
  proof (rule ccontr)
    assume "tl (dec_of_nat n) \<noteq> []"
    have digits: "list_all is_digit_char t" using dec_of_nat_digit_list [of n] t by simp
    have "nat_of_dec t < 10 ^ length t" using digits
    proof (induction t rule: rev_induct)
      case (snoc c u)
      then have "digit_val c \<le> 9" by (auto simp: digit_val_def is_digit_char_def)
      then show ?case using snoc by (simp add: nat_of_dec_append)
    qed (simp add: nat_of_dec_def)
    moreover have "nat_of_dec t = n"
      using nat_of_dec_of_nat [of n] t by (simp add: nat_of_dec_def digit_val_def ord_of_def)
    moreover have "10 ^ length t \<le> n" using dec_of_nat_range [of n] Suc t by simp
    ultimately show False by simp
  qed
qed (simp add: dec_of_nat.simps)

lemma num_of_exact_int:
  assumes "\<bar>i\<bar> < 10 ^ 21"
  shows "num_of_exact (of_int i) = NInt i"
proof -
  have "\<bar>of_int i :: rat\<bar> < 10 ^ 21" using assms by (metis of_int_abs of_int_less_iff of_int_numeral of_int_power)
  moreover have "(10 :: rat) ^ 21 < overflow_bound" by (simp add: overflow_bound_def)
  ultimately have "\<not> overflow_bound \<le> (of_int i :: rat)" "\<not> (of_int i :: rat) \<le> - overflow_bound" by linarith+
  then show ?thesis using num_of_rat_of_int [of i] by (simp add: num_of_exact_def)
qed

lemma printed_int:
  assumes "\<bar>i\<bar> < 10 ^ 21"
  shows "js_num_string (NInt i) = (if i < 0 then [CHR ''-''] else []) @ dec_of_nat (nat \<bar>i\<bar>)"
  using js_num_string_int [of "\<bar>i\<bar>"] assms by (simp add: js_num_string_def)

lemma printed_int_start:
  assumes "\<bar>i\<bar> < 10 ^ 21"
  obtains c t where "js_num_string (NInt i) = c # t" "is_digit_char c \<or> c = CHR ''-''"
proof -
  define d where "d = dec_of_nat (nat \<bar>i\<bar>)"
  obtain c t where c: "d = c # t" by (cases d) (auto simp: d_def)
  have "is_digit_char c" using dec_of_nat_digit_list [of "nat \<bar>i\<bar>"] c by (simp add: d_def)
  then show ?thesis
    using that c printed_int [OF assms, folded d_def] by (cases "i < 0") auto
qed

lemma char_34 [simp]: "char_of (34 :: nat) = CHR 0x22"
  by code_simp

lemma json_number_dec:
  assumes "\<bar>i\<bar> < 10 ^ 21" "value_end rest"
  shows "json_number (js_num_string (NInt i) @ rest) = Some (NInt i, rest)"
proof -
  define d where "d = dec_of_nat (nat \<bar>i\<bar>)"
  have printed: "js_num_string (NInt i) = (if i < 0 then [CHR ''-''] else []) @ d"
    using printed_int [OF assms(1)] by (simp add: d_def)
  have stop: "rest = [] \<or> \<not> is_digit_char (hd rest)"
    using assms(2) by (auto simp: value_end_def is_digit_char_def ord_of_def)
  have sc: "scan_digits (d @ rest) = (d, rest)"
    unfolding d_def by (rule scan_digits_append [OF dec_of_nat_digit_list stop])
  have point: "eat CHR ''.'' rest = None" "scan_exponent rest = (0, rest)"
    using assms(2) by (cases rest; auto simp: value_end_def scan_exponent_def)+
  have lead: "d \<noteq> []" "hd d = CHR ''0'' \<Longrightarrow> tl d = []"
    using dec_no_leading_zero by (auto simp: d_def)
  have minus: "eat CHR ''-'' (d @ rest) = None"
    using eat_dec_of_nat [of "CHR ''-''" "nat \<bar>i\<bar>"] lead(1) by (cases d) (auto simp: d_def [symmetric])
  have "nat_of_dec d = nat \<bar>i\<bar>" by (simp add: d_def)
  then have val: "scale10 (int (nat_of_dec (d @ []))) (0 - int (length [])) = of_int \<bar>i\<bar>" by (simp add: scale10_def)
  have num: "num_of_exact (if i < 0 then - of_int \<bar>i\<bar> else of_int \<bar>i\<bar>) = NInt i"
    using num_of_exact_int [OF assms(1)] by simp
  show ?thesis
    using sc point lead minus val num
    by (cases "i < 0") (simp_all add: printed json_number_def scan_fraction_def Let_def del: scan_digits_def)
qed

lemma stringify_start:
  assumes "json_ok v"
  obtains c t where "js_stringify v = c # t" "\<not> is_json_ws c" "c \<noteq> CHR '']''"
proof (cases v)
  case (JNum n)
  then obtain i where i: "n = NInt i" "\<bar>i\<bar> < 10 ^ 21" using assms by (cases n) auto
  obtain c t where c: "js_num_string (NInt i) = c # t" "is_digit_char c \<or> c = CHR ''-''"
    using printed_int_start [OF i(2)] by blast
  then have "\<not> is_json_ws c" "c \<noteq> CHR '']''" by (auto simp: is_digit_char_def is_json_ws_def ord_of_def)
  with c(1) show ?thesis using that by (simp add: JNum i(1))
next
  case (JBool b)
  then show ?thesis using that by (cases b) (auto simp: is_json_ws_def ord_of_def)
qed (use assms that in \<open>auto simp: quoted_def is_json_ws_def ord_of_def split: if_splits\<close>)

lemma skip_ws_stop: "\<not> is_json_ws c \<Longrightarrow> skip_ws (c # t) = c # t"
  by (simp add: skip_ws_def)

lemma skip_ws_end: "value_end rest \<Longrightarrow> skip_ws rest = rest"
  by (cases rest) (auto simp: value_end_def skip_ws_def is_json_ws_def ord_of_def)

lemma put_field_new: "k \<notin> fst ` set fs \<Longrightarrow> put_field k v fs = fs @ [(k, v)]"
  by (induction fs) auto

lemma value_end_marks [simp]:
  "value_end (CHR '','' # r)" "value_end (CHR '']'' # r)" "value_end (CHR ''}'' # r)" "value_end []"
  by (simp_all add: value_end_def)

definition reads_back :: "js \<Rightarrow> bool" where
  "reads_back v \<longleftrightarrow> (\<forall>n rest. length (js_stringify v) < n \<longrightarrow> value_end rest \<longrightarrow>
     json_value n (js_stringify v @ rest) = Some (v, rest))"

lemma join_Cons: "join_with sep (x # xs) = (if xs = [] then x else x @ sep @ join_with sep xs)"
  by (cases xs) simp_all

lemma elem_texts_Nil [simp]: "elem_texts vs = [] \<longleftrightarrow> vs = []"
  by (cases vs) simp_all

lemma elems_read_back:
  assumes "\<And>v. v \<in> set vs \<Longrightarrow> reads_back v" "vs \<noteq> []" "length (join_with '','' (elem_texts vs)) + 1 < n"
  shows "json_elems n acc (join_with '','' (elem_texts vs) @ CHR '']'' # rest) = Some (JArr (acc @ vs), rest)"
  using assms
proof (induction vs arbitrary: n acc)
  case (Cons v vs)
  obtain m where n: "n = Suc m" using Cons.prems(3) by (cases n) auto
  have v: "reads_back v" using Cons.prems(1) by simp
  show ?case
  proof (cases "vs = []")
    case True
    with v n Cons.prems(3) show ?thesis
      by (simp add: reads_back_def join_Cons skip_ws_stop is_json_ws_def ord_of_def)
  next
    case False
    have "json_value m (js_stringify v @ CHR '','' # join_with '','' (elem_texts vs) @ CHR '']'' # rest)
        = Some (v, CHR '','' # join_with '','' (elem_texts vs) @ CHR '']'' # rest)"
      using v Cons.prems(3) n False by (simp add: reads_back_def join_Cons)
    moreover have "json_elems m (acc @ [v]) (join_with '','' (elem_texts vs) @ CHR '']'' # rest)
        = Some (JArr ((acc @ [v]) @ vs), rest)"
      using Cons.prems n False by (intro Cons.IH) (auto simp: join_Cons)
    ultimately show ?thesis using n False by (simp add: join_Cons skip_ws_stop is_json_ws_def ord_of_def)
  qed
qed simp

lemma field_texts_Cons: "v \<noteq> JUndef \<Longrightarrow> field_texts ((k, v) # fs) = (quoted k @ '':'' @ js_stringify v) # field_texts fs"
  by simp

lemma fields_read_back:
  assumes "\<And>f. f \<in> set fs \<Longrightarrow> reads_back (snd f) \<and> json_ok (snd f)" "fs \<noteq> []"
    and "distinct (List.map fst fs)" "fst ` set fs \<inter> fst ` set acc = {}"
    and "length (join_with '','' (field_texts fs)) + 1 < n"
  shows "json_fields n acc (join_with '','' (field_texts fs) @ CHR ''}'' # rest) = Some (JObj (acc @ fs), rest)"
  using assms
proof (induction fs arbitrary: n acc)
  case (Cons f fs)
  obtain k v where f: "f = (k, v)" by (cases f)
  obtain m where n: "n = Suc m" using Cons.prems(5) by (cases n) auto
  have v: "reads_back v" "json_ok v" using Cons.prems(1) [of f] f by auto
  then have def: "v \<noteq> JUndef" by auto
  have put: "put_field k v acc = acc @ [(k, v)]" using Cons.prems(4) f by (intro put_field_new) auto
  have rest_ne: "field_texts fs = [] \<longleftrightarrow> fs = []"
    using Cons.prems(1) [of "hd fs"] by (cases fs) (auto split: if_splits)
  show ?case
  proof (cases "fs = []")
    case True
    with v n def put Cons.prems(5) show ?thesis
      by (simp add: f reads_back_def join_Cons skip_ws_stop is_json_ws_def ord_of_def quoted_def
          json_string_quoted)
  next
    case False
    let ?r = "join_with '','' (field_texts fs) @ CHR ''}'' # rest"
    have "json_value m (js_stringify v @ CHR '','' # ?r) = Some (v, CHR '','' # ?r)"
      using v Cons.prems(5) n False def rest_ne by (simp add: f reads_back_def join_Cons)
    moreover have "json_fields m (acc @ [(k, v)]) ?r = Some (JObj ((acc @ [(k, v)]) @ fs), rest)"
      using Cons.prems n False def rest_ne by (intro Cons.IH) (auto simp: f join_Cons)
    ultimately show ?thesis
      using n False def put rest_ne
      by (simp add: f join_Cons skip_ws_stop is_json_ws_def ord_of_def quoted_def json_string_quoted)
  qed
qed simp

lemma stringify_reads_back: "json_ok v \<Longrightarrow> reads_back v"
proof (induction "size v" arbitrary: v rule: less_induct)
  case less
  obtain c t where start: "js_stringify v = c # t" "\<not> is_json_ws c" "c \<noteq> CHR '']''"
    using stringify_start [OF less.prems] by blast
  show ?case
    unfolding reads_back_def
  proof (intro allI impI)
    fix n rest
    assume fuel: "length (js_stringify v) < n" and rest: "value_end rest"
    then obtain m where n: "n = Suc m" by (cases n) auto
    show "json_value n (js_stringify v @ rest) = Some (v, rest)"
    proof (cases v)
      case (JNum x)
      then obtain i where i: "x = NInt i" "\<bar>i\<bar> < 10 ^ 21" using less.prems by (cases x) auto
      have "c \<noteq> CHR ''{'' \<and> c \<noteq> CHR ''['' \<and> ord_of c \<noteq> 34 \<and> c \<noteq> CHR ''t'' \<and> c \<noteq> CHR ''f'' \<and> c \<noteq> CHR ''n''"
        using printed_int_start [OF i(2)] start(1) JNum i(1)
        by (fastforce simp: is_digit_char_def ord_of_def)
      then show ?thesis
        using json_number_dec [OF i(2) rest] start n JNum i(1)
        by (simp add: skip_ws_stop starts_with_def)
    next
      case (JArr vs)
      show ?thesis
      proof (cases vs)
        case Nil
        then show ?thesis using JArr n by (simp add: skip_ws_stop is_json_ws_def ord_of_def)
      next
        case (Cons w ws)
        have elems: "reads_back u" if "u \<in> set vs" for u
          using less.prems JArr that size_list_estimation' [OF that, of "size u" size]
          by (intro less.hyps) auto
        obtain c' t' where w: "js_stringify w = c' # t'" "\<not> is_json_ws c'" "c' \<noteq> CHR '']''"
          using stringify_start [of w] less.prems JArr Cons by auto
        let ?j = "join_with '','' (elem_texts vs)"
        have j: "?j = c' # t' @ drop (length (js_stringify w)) ?j"
          using Cons w(1) by (simp add: join_Cons)
        then obtain u where u: "?j = c' # u" by blast
        have "json_elems m [] (?j @ CHR '']'' # rest) = Some (JArr ([] @ vs), rest)"
          using elems fuel n JArr Cons by (intro elems_read_back) auto
        then show ?thesis
          using u w n JArr by (simp add: skip_ws_stop is_json_ws_def ord_of_def)
      qed
    next
      case (JObj fs)
      show ?thesis
      proof (cases fs)
        case Nil
        then show ?thesis using JObj n by (simp add: skip_ws_stop is_json_ws_def ord_of_def)
      next
        case (Cons f fs')
        have elems: "reads_back (snd g) \<and> json_ok (snd g)" if "g \<in> set fs" for g
        proof -
          have "size (snd g) < size v"
            using JObj size_list_estimation' [OF that, of "size (snd g)" "size_prod (\<lambda>x. 0) size"]
            by (cases g) auto
          then show ?thesis using less.prems JObj that less.hyps by auto
        qed
        from this [of f] have "snd f \<noteq> JUndef" using Cons by auto
        then obtain u where u: "join_with '','' (field_texts fs) = CHR 0x22 # u"
          using Cons by (cases f; cases "field_texts fs' = []") (simp_all add: join_Cons quoted_def)
        have "json_fields m [] (join_with '','' (field_texts fs) @ CHR ''}'' # rest) = Some (JObj ([] @ fs), rest)"
          using elems fuel n JObj Cons less.prems by (intro fields_read_back) auto
        then show ?thesis
          using u n JObj by (simp add: skip_ws_stop is_json_ws_def ord_of_def)
      qed
    qed (use less.prems n in \<open>auto simp: quoted_def json_string_quoted skip_ws_stop is_json_ws_def ord_of_def starts_with_def\<close>)
  qed
qed

text \<open>Printed text has no control characters, so it never breaks a line.\<close>

abbreviation printable :: "string \<Rightarrow> bool" where
  "printable s \<equiv> \<forall>c \<in> set s. 32 \<le> ord_of c"

lemma quoted_printable: "printable (quoted s)"
proof -
  have "printable (quote_char c)" for c by (auto simp: quote_char_def Let_def) (auto simp: ord_of_def)
  then show ?thesis by (auto simp: quoted_def quote_chars_def) (simp_all add: ord_of_def)
qed

lemma join_printable: "32 \<le> ord_of CHR '','' \<Longrightarrow> \<forall>x \<in> set xs. printable x \<Longrightarrow> printable (join_with '','' xs)"
  by (induction xs) (auto simp: join_Cons)

lemma stringify_printable:
  "json_ok v \<Longrightarrow> printable (js_stringify v)"
  "\<forall>v \<in> set vs. json_ok v \<Longrightarrow> \<forall>x \<in> set (elem_texts vs). printable x"
  "\<forall>f \<in> set fs. json_ok (snd f) \<Longrightarrow> \<forall>x \<in> set (field_texts fs). printable x"
proof (induction v and vs and fs rule: js_stringify_elem_texts_field_texts.induct)
  case (4 n)
  then obtain i where i: "n = NInt i" "\<bar>i\<bar> < 10 ^ 21" by (cases n) auto
  have "printable (dec_of_nat (nat \<bar>i\<bar>))"
    using dec_of_nat_digits by (fastforce simp: is_digit_char_def)
  then show ?case by (auto simp: i(1) printed_int [OF i(2)]) (simp add: ord_of_def)
next
  case (6 vs)
  have "32 \<le> ord_of CHR '',''" by (simp add: ord_of_def)
  with 6 have "printable (join_with '','' (elem_texts vs))" by (intro join_printable) auto
  then show ?case by (auto simp: ord_of_def)
next
  case (7 fs)
  have "32 \<le> ord_of CHR '',''" by (simp add: ord_of_def)
  with 7 have "printable (join_with '','' (field_texts fs))" by (intro join_printable) auto
  then show ?case by (auto simp: ord_of_def)
next
  case (11 k v fs)
  then show ?case using quoted_printable [of k] by (auto simp: ord_of_def)
qed (use quoted_printable in \<open>auto simp: ord_of_def\<close>)

text \<open>JSON.parse of JSON.stringify is the identity on the values the code prints and reads back:
  no undefined, integers short of the exponent notation, every string of the modelled range and
  distinct property names, nested to any depth.\<close>

lemma json_stringify_roundtrip:
  assumes "json_ok v"
  shows "json_parse (js_stringify v) = Some v"
proof -
  have "json_value (2 * length (js_stringify v) + 2) (js_stringify v @ []) = Some (v, [])"
    by (rule stringify_reads_back [OF assms, unfolded reads_back_def, rule_format]) simp_all
  then show ?thesis by (simp add: json_parse_def skip_ws_def del: json_value.simps)
qed

end
