(* ===== verification/UpstreamBody.thy ===== *)
theory UpstreamBody
  imports Stringify Inference
begin

text \<open>
  The pure half of src/src/upstream.ts: where a call goes, the body it carries for each provider's
  wire shape, and the headers that carry the credential and the two log switches.
\<close>

section \<open>Where a call goes\<close>

definition GATEWAY_HOST :: string where "GATEWAY_HOST = ''https://gateway.ai.cloudflare.com''"
definition CF_API_HOST :: string where "CF_API_HOST = ''https://api.cloudflare.com''"

record gateway_deps =
  gd_account     :: string
  gd_gateway     :: string
  gd_timeout     :: int
  gd_collect_log :: bool

fun endpoint_for :: "billing \<Rightarrow> string" where
  "endpoint_for WorkersAi = ''workers-ai/v1/chat/completions''"
| "endpoint_for UnifiedBilling = ''compat/chat/completions''"

text \<open>\<open>encodeURIComponent\<close>: the unreserved characters stay, every other byte of the UTF-8
  encoding becomes a percent escape.\<close>

definition is_unreserved :: "char \<Rightarrow> bool" where
  "is_unreserved c = (let n = ord_of c in
     (48 \<le> n \<and> n \<le> 57) \<or> (65 \<le> n \<and> n \<le> 90) \<or> (97 \<le> n \<and> n \<le> 122) \<or> n \<in> {45, 95, 46, 33, 126, 42, 39, 40, 41})"

definition hex_upper :: "nat \<Rightarrow> char" where
  "hex_upper d = (if d < 10 then char_of (48 + d) else char_of (55 + d))"

definition percent :: "nat \<Rightarrow> string" where
  "percent n = [CHR ''%'', hex_upper (n div 16), hex_upper (n mod 16)]"

definition encode_char :: "char \<Rightarrow> string" where
  "encode_char c =
     (let n = ord_of c in
      if is_unreserved c then [c]
      else if n < 128 then percent n
      else percent (192 + n div 64) @ percent (128 + n mod 64))"

definition encode_uri_component :: "string \<Rightarrow> string" where
  "encode_uri_component s = List.concat (List.map encode_char s)"

definition gateway_base :: "gateway_deps \<Rightarrow> string" where
  "gateway_base d = GATEWAY_HOST @ ''/v1/'' @ gd_account d @ ''/'' @ encode_uri_component (gd_gateway d)"

definition upstream_url :: "gateway_deps \<Rightarrow> billing \<Rightarrow> string" where
  "upstream_url d b = gateway_base d @ ''/'' @ endpoint_for b"

definition is_multi_agent_model :: "string \<Rightarrow> bool" where
  "is_multi_agent_model m = contains_str ''multi-agent'' m"

definition responses_url :: "gateway_deps \<Rightarrow> inference_request \<Rightarrow> string" where
  "responses_url d rq =
     gateway_base d @ (if is_multi_agent_model (ir_upstream_model rq) then ''/grok/v1/responses'' else ''/openai/v1/responses'')"

section \<open>Bodies\<close>

definition output_token_field :: "string \<Rightarrow> string" where
  "output_token_field m =
     (if starts_with ''openai/'' m \<or> starts_with ''xai/'' m \<or> starts_with ''grok/'' m
      then ''max_completion_tokens'' else ''max_tokens'')"

fun role_name :: "chat_role \<Rightarrow> string" where
  "role_name System = ''system''"
| "role_name User = ''user''"
| "role_name Assistant = ''assistant''"

definition images_of :: "chat_turn \<Rightarrow> string list" where
  "images_of t = (case ct_images t of Some us \<Rightarrow> us | None \<Rightarrow> [])"

definition or_space :: "string \<Rightarrow> string" where
  "or_space s = (if s = [] then '' '' else s)"

definition to_openai_message :: "chat_turn \<Rightarrow> js" where
  "to_openai_message t =
     (if images_of t = [] then JObj [(''role'', JStr (role_name (ct_role t))), (''content'', JStr (ct_content t))]
      else JObj [(''role'', JStr (role_name (ct_role t))),
                 (''content'', JArr (List.map (\<lambda>u. JObj [(''type'', JStr ''image_url''),
                      (''image_url'', JObj [(''url'', JStr u)])]) (images_of t)
                    @ [JObj [(''type'', JStr ''text''), (''text'', JStr (or_space (ct_content t)))]]))])"

definition num_field :: "string \<Rightarrow> jsnum option \<Rightarrow> (string \<times> js) list" where
  "num_field k v = (case v of Some n \<Rightarrow> [(k, JNum n)] | None \<Rightarrow> [])"

definition stream_fields :: "bool \<Rightarrow> (string \<times> js) list" where
  "stream_fields b =
     (if b then [(''stream'', JBool True), (''stream_options'', JObj [(''include_usage'', JBool True)])] else [])"

definition upstream_body :: "inference_request \<Rightarrow> js" where
  "upstream_body rq =
     JObj ([(''model'', JStr (ir_upstream_model rq)),
            (''messages'', JArr (List.map to_openai_message (ir_messages rq))),
            (output_token_field (ir_upstream_model rq), JNum (NInt (ir_max_tokens rq)))]
           @ num_field ''temperature'' (ir_temperature rq) @ num_field ''top_p'' (ir_top_p rq)
           @ stream_fields (ir_stream rq))"

text \<open>The system turns with visible text, joined by an empty line.\<close>

definition blank_line :: string where
  "blank_line = [char_of (10::nat), char_of (10::nat)]"

definition system_parts :: "chat_turn list \<Rightarrow> string list" where
  "system_parts ts = List.map ct_content (List.filter (\<lambda>t. ct_role t = System \<and> js_trim (ct_content t) \<noteq> []) ts)"

definition strip_prefix :: "string \<Rightarrow> string \<Rightarrow> string" where
  "strip_prefix p s = (if starts_with p s then drop (length p) s else s)"

definition add_instruction :: "string option \<Rightarrow> string \<Rightarrow> string option" where
  "add_instruction acc s = (case acc of Some (c # cs) \<Rightarrow> Some ((c # cs) @ blank_line @ s) | _ \<Rightarrow> Some s)"

definition responses_body :: "inference_request \<Rightarrow> js" where
  "responses_body rq =
     (let instructions = fold (\<lambda>s acc. add_instruction acc s) (system_parts (ir_messages rq)) None;
          input = List.map (\<lambda>t. JObj [(''role'', JStr (role_name (ct_role t))), (''content'', JStr (ct_content t))])
                    (List.filter (\<lambda>t. ct_role t \<noteq> System) (ir_messages rq));
          multi = is_multi_agent_model (ir_upstream_model rq);
          model = strip_prefix ''xai/'' (strip_prefix ''grok/'' (strip_prefix ''openai/'' (ir_upstream_model rq)))
      in JObj ([(''model'', JStr model), (''input'', JArr input)]
           @ (if multi then [] else [(''max_output_tokens'', JNum (NInt (ir_max_tokens rq)))])
           @ (case instructions of Some s \<Rightarrow> [(''instructions'', JStr s)] | None \<Rightarrow> [])
           @ (if ir_stream rq then [(''stream'', JBool True)] else [])
           @ (if multi then [(''reasoning'', JObj [(''effort'', JStr ''low'')])] else [])))"

section \<open>Alternating turns\<close>

datatype block = TextBlock string | ImageBlock string string

fun is_text :: "block \<Rightarrow> bool" where
  "is_text (TextBlock _) = True"
| "is_text (ImageBlock _ _) = False"

text \<open>A data URL as media type and payload; any other URL is skipped.\<close>

definition inline_image :: "string \<Rightarrow> block option" where
  "inline_image url =
     map_option (\<lambda>(mime, payload). ImageBlock (js_lower mime) (List.filter (\<lambda>c. \<not> is_js_space c) payload))
       (match_data_url url)"

definition turn_blocks :: "chat_turn \<Rightarrow> block list" where
  "turn_blocks t =
     (let imgs = List.map_filter inline_image (images_of t) in
      imgs @ (if js_trim (ct_content t) \<noteq> [] \<or> imgs = [] then [TextBlock (or_space (ct_content t))] else []))"

text \<open>Text goes into the last text block there is, after an empty line; anything else is appended.\<close>

fun into_last_text :: "string \<Rightarrow> block list \<Rightarrow> block list option" where
  "into_last_text s [] = None"
| "into_last_text s (b # bs) =
     (case into_last_text s bs of
        Some bs' \<Rightarrow> Some (b # bs')
      | None \<Rightarrow> (case b of
          TextBlock t \<Rightarrow> Some (TextBlock (if t = [] then s else t @ blank_line @ s) # bs)
        | ImageBlock _ _ \<Rightarrow> None))"

definition append_block :: "block \<Rightarrow> block list \<Rightarrow> block list" where
  "append_block b prev =
     (case b of
        TextBlock s \<Rightarrow> (case into_last_text s prev of Some bs \<Rightarrow> bs | None \<Rightarrow> prev @ [b])
      | ImageBlock _ _ \<Rightarrow> prev @ [b])"

type_synonym merged_turn = "chat_role \<times> block list"

definition add_turn :: "chat_turn \<Rightarrow> merged_turn list \<Rightarrow> merged_turn list" where
  "add_turn t acc =
     (if acc \<noteq> [] \<and> fst (last acc) = ct_role t
      then butlast acc @ [(ct_role t, fold append_block (turn_blocks t) (snd (last acc)))]
      else acc @ [(ct_role t, turn_blocks t)])"

definition merged_turns :: "chat_turn list \<Rightarrow> merged_turn list" where
  "merged_turns ts =
     dropWhile (\<lambda>m. fst m = Assistant) (fold add_turn (List.filter (\<lambda>t. ct_role t \<noteq> System) ts) [])"

fun anthropic_block :: "block \<Rightarrow> js" where
  "anthropic_block (TextBlock s) = JObj [(''type'', JStr ''text''), (''text'', JStr s)]"
| "anthropic_block (ImageBlock mime payload) =
     JObj [(''type'', JStr ''image''), (''source'', JObj [(''type'', JStr ''base64''),
       (''media_type'', JStr mime), (''data'', JStr payload)])]"

definition anthropic_body :: "inference_request \<Rightarrow> js" where
  "anthropic_body rq =
     JObj ([(''max_tokens'', JNum (NInt (ir_max_tokens rq))),
            (''messages'', JArr (List.map (\<lambda>(r, bs). JObj [(''role'', JStr (role_name r)),
                (''content'', JArr (List.map anthropic_block bs))]) (merged_turns (ir_messages rq))))]
           @ (if system_parts (ir_messages rq) = [] then []
              else [(''system'', JStr (join_with blank_line (system_parts (ir_messages rq))))])
           @ (if ir_stream rq then [(''stream'', JBool True)] else [])
           @ num_field ''temperature'' (ir_temperature rq) @ num_field ''top_p'' (ir_top_p rq))"

fun gemini_part :: "block \<Rightarrow> js" where
  "gemini_part (TextBlock s) = JObj [(''text'', JStr s)]"
| "gemini_part (ImageBlock mime payload) =
     JObj [(''inlineData'', JObj [(''mimeType'', JStr mime), (''data'', JStr payload)])]"

definition gemini_role :: "chat_role \<Rightarrow> string" where
  "gemini_role r = (if r = Assistant then ''model'' else ''user'')"

text \<open>\<open>/gemini-.*-pro|gemini-3\.1-pro/i\<close>: the second alternative is an instance of the first.\<close>

definition is_gemini_pro :: "string \<Rightarrow> bool" where
  "is_gemini_pro m =
     (case index_of ''gemini-'' (js_lower m) of
        Some i \<Rightarrow> contains_str ''-pro'' (drop (i + 7) (js_lower m))
      | None \<Rightarrow> False)"

definition request_model :: "inference_request \<Rightarrow> string" where
  "request_model rq = (case ir_binding_model rq of Some m \<Rightarrow> m | None \<Rightarrow> ir_upstream_model rq)"

definition gemini_min_output_tokens :: "string \<Rightarrow> int" where
  "gemini_min_output_tokens m = (if is_gemini_pro m then 1024 else 256)"

definition gemini_binding_body :: "inference_request \<Rightarrow> js" where
  "gemini_binding_body rq =
     JObj ([(''contents'', JArr (List.map (\<lambda>(r, bs). JObj [(''role'', JStr (gemini_role r)),
                (''parts'', JArr (List.map gemini_part bs))]) (merged_turns (ir_messages rq)))),
            (''generationConfig'', JObj ([(''maxOutputTokens'',
                JNum (NInt (max (ir_max_tokens rq) (gemini_min_output_tokens (request_model rq)))))]
              @ num_field ''temperature'' (ir_temperature rq) @ num_field ''topP'' (ir_top_p rq)))]
           @ (if system_parts (ir_messages rq) = [] then []
              else [(''systemInstruction'', JObj [(''parts'', JArr [JObj [(''text'',
                JStr (join_with blank_line (system_parts (ir_messages rq))))]])])]))"

definition is_gemini_model :: "string \<Rightarrow> bool" where
  "is_gemini_model m = (starts_with ''google/gemini'' m \<or> starts_with ''google-ai-studio/'' m)"

definition binding_chat_body :: "inference_request \<Rightarrow> js" where
  "binding_chat_body rq =
     (let m = request_model rq in
      if ir_responses_api rq \<or> is_multi_agent_model m then
        responses_body (rq\<lparr>ir_upstream_model := (if starts_with ''xai/'' m then ''grok/'' @ drop 4 m else m)\<rparr>)
      else if is_gemini_model m then gemini_binding_body rq
      else if starts_with ''anthropic/'' m then anthropic_body rq
      else
        JObj ([(''messages'', JArr (List.map to_openai_message (ir_messages rq))),
               (''max_completion_tokens'', JNum (NInt (ir_max_tokens rq)))]
              @ stream_fields (ir_stream rq)
              @ num_field ''temperature'' (ir_temperature rq) @ num_field ''top_p'' (ir_top_p rq)))"

section \<open>Headers\<close>

definition COLLECT_LOG_PAYLOAD_HEADER :: string where
  "COLLECT_LOG_PAYLOAD_HEADER = ''cf-aig-collect-log-payload''"

definition binding_gateway_options :: "string \<Rightarrow> js" where
  "binding_gateway_options gid =
     JObj [(''gateway'', JObj [(''id'', JStr gid)]),
           (''extraHeaders'', JObj [(COLLECT_LOG_PAYLOAD_HEADER, JStr ''false'')])]"

definition metadata_text :: "(string \<times> string) list \<Rightarrow> string" where
  "metadata_text md = js_stringify (JObj (List.map (\<lambda>(k, v). (k, JStr v)) md))"

definition upstream_headers :: "inference_request \<Rightarrow> gateway_deps \<Rightarrow> (string \<times> string) list" where
  "upstream_headers rq d =
     [(''cf-aig-authorization'', ''Bearer '' @ ir_auth_value rq),
      (COLLECT_LOG_PAYLOAD_HEADER, ''false''),
      (''cf-aig-collect-log'', if gd_collect_log d then ''true'' else ''false''),
      (''cf-aig-metadata'', metadata_text (ir_metadata rq)),
      (''content-type'', ''application/json''),
      (''accept'', if ir_stream rq then ''text/event-stream'' else ''application/json'')]"

section \<open>The turns a provider gets alternate\<close>

lemma into_last_text_images:
  "into_last_text s bs = Some cs \<Longrightarrow> List.filter (\<lambda>b. \<not> is_text b) cs = List.filter (\<lambda>b. \<not> is_text b) bs"
  by (induction bs arbitrary: cs) (auto split: option.splits block.splits)

lemma append_block_images:
  "List.filter (\<lambda>b. \<not> is_text b) (append_block b prev) = List.filter (\<lambda>b. \<not> is_text b) (prev @ [b])"
  by (auto simp: append_block_def into_last_text_images split: block.splits option.splits)

lemma fold_append_images:
  "List.filter (\<lambda>b. \<not> is_text b) (fold append_block bs prev) = List.filter (\<lambda>b. \<not> is_text b) (prev @ bs)"
  by (induction bs arbitrary: prev) (simp_all add: append_block_images)

definition turn_images :: "chat_turn \<Rightarrow> block list" where
  "turn_images t = List.map_filter inline_image (images_of t)"

definition turn_texts :: "chat_turn \<Rightarrow> string list" where
  "turn_texts t = (if js_trim (ct_content t) \<noteq> [] \<or> turn_images t = [] then [or_space (ct_content t)] else [])"

lemma turn_blocks_parts: "turn_blocks t = turn_images t @ List.map TextBlock (turn_texts t)"
  by (simp add: turn_blocks_def turn_images_def turn_texts_def Let_def)

lemma turn_images_no_text: "b \<in> set (turn_images t) \<Longrightarrow> \<not> is_text b"
  by (auto simp: turn_images_def map_filter_def inline_image_def)

lemma into_last_text_None: "into_last_text s bs = None \<longleftrightarrow> (\<forall>b \<in> set bs. \<not> is_text b)"
  by (induction bs) (auto split: option.splits block.splits)

lemma append_images: "\<forall>b \<in> set bs. \<not> is_text b \<Longrightarrow> fold append_block bs prev = prev @ bs"
proof (induction bs arbitrary: prev)
  case (Cons b bs)
  then show ?case by (cases b) (simp_all add: append_block_def)
qed simp

lemma first_turn_blocks: "fold append_block (turn_blocks t) [] = turn_blocks t"
proof -
  have imgs: "fold append_block (turn_images t) [] = turn_images t"
    using append_images [of "turn_images t" "[]"] turn_images_no_text by simp
  then show ?thesis
    using into_last_text_None [of _ "turn_images t"] turn_images_no_text
    by (auto simp: turn_blocks_parts turn_texts_def append_block_def split: option.splits)
qed

text \<open>The maximal runs of turns with one role.\<close>

fun role_runs :: "chat_turn list \<Rightarrow> chat_turn list list" where
  "role_runs [] = []"
| "role_runs (t # ts) =
     (case role_runs ts of
        [] \<Rightarrow> [[t]]
      | g # gs \<Rightarrow> if ct_role (hd g) = ct_role t then (t # g) # gs else [t] # g # gs)"

definition run_turn :: "chat_turn list \<Rightarrow> merged_turn" where
  "run_turn g = (ct_role (hd g), fold append_block (List.concat (List.map turn_blocks g)) [])"

definition one_role :: "chat_turn list \<Rightarrow> bool" where
  "one_role g \<longleftrightarrow> g \<noteq> [] \<and> (\<forall>t \<in> set g. ct_role t = ct_role (hd g))"

lemma role_runs_Nil [simp]: "role_runs ts = [] \<longleftrightarrow> ts = []"
  by (cases ts) (auto split: list.splits)

lemma role_runs_Cons_cases:
  obtains "role_runs (t # ts) = [t] # role_runs ts" "role_runs ts = [] \<or> ct_role (hd (hd (role_runs ts))) \<noteq> ct_role t"
  | g gs where "role_runs ts = g # gs" "ct_role (hd g) = ct_role t" "role_runs (t # ts) = (t # g) # gs"
  by (cases "role_runs ts") auto

declare role_runs.simps(2) [simp del]

lemma one_roleD: "one_role g \<Longrightarrow> t \<in> set g \<Longrightarrow> ct_role t = ct_role (hd g)"
  unfolding one_role_def by blast

lemma one_role_single: "one_role [t]"
  by (simp add: one_role_def)

lemma one_role_Cons: "one_role g \<Longrightarrow> ct_role (hd g) = ct_role t \<Longrightarrow> one_role (t # g)"
  unfolding one_role_def by (metis list.discI list.sel(1) set_ConsD)

lemmas one_role_build = one_role_single one_role_Cons

lemma concat_role_runs: "List.concat (role_runs ts) = ts"
proof (induction ts)
  case (Cons t ts)
  then show ?case by (cases rule: role_runs_Cons_cases [where t = t and ts = ts]) auto
qed simp

lemma role_runs_one_role: "\<forall>g \<in> set (role_runs ts). one_role g"
proof (induction ts)
  case (Cons t ts)
  show ?case
  proof (cases rule: role_runs_Cons_cases [where t = t and ts = ts])
    case 1
    then show ?thesis using Cons one_role_build(1) by simp
  next
    case (2 g gs)
    then show ?thesis using Cons one_role_build(2) by simp
  qed
qed simp

lemma role_runs_distinct: "distinct_adj (List.map (\<lambda>g. ct_role (hd g)) (role_runs ts))"
proof (induction ts)
  case (Cons t ts)
  show ?case
  proof (cases rule: role_runs_Cons_cases [where t = t and ts = ts])
    case 1
    then show ?thesis using Cons by (cases "role_runs ts") auto
  next
    case (2 g gs)
    then show ?thesis using Cons by (cases gs) auto
  qed
qed simp

lemma role_runs_hd: "ts \<noteq> [] \<Longrightarrow> hd (hd (role_runs ts)) = hd ts"
proof (cases ts)
  case (Cons t us)
  then show ?thesis by (cases rule: role_runs_Cons_cases [where t = t and ts = us]) auto
qed simp

lemmas role_runs_spec = concat_role_runs role_runs_one_role role_runs_distinct role_runs_hd

lemma role_runs_snoc:
  "role_runs (ts @ [t]) =
     (if ts \<noteq> [] \<and> ct_role (last ts) = ct_role t
      then butlast (role_runs ts) @ [last (role_runs ts) @ [t]] else role_runs ts @ [[t]])"
proof (induction ts)
  case (Cons u ts)
  show ?case
  proof (cases ts)
    case Nil
    then show ?thesis by (simp add: role_runs.simps(2))
  next
    case c: (Cons v vs)
    have "role_runs ts \<noteq> []" using c role_runs_Nil [of ts] by blast
    then obtain g gs where g: "role_runs ts = g # gs" by (cases "role_runs ts") auto
    then have "g \<noteq> []" using role_runs_spec(2) [of ts] by (auto simp: one_role_def)
    then have "ts \<noteq> []" using c by simp
    then show ?thesis
      using Cons g \<open>g \<noteq> []\<close> by (cases gs) (simp_all add: role_runs.simps(2) split: if_split)
  qed
qed (simp add: role_runs.simps(2))

lemma last_run_role: "ts \<noteq> [] \<Longrightarrow> ct_role (hd (last (role_runs ts))) = ct_role (last ts)"
proof -
  assume ne: "ts \<noteq> []"
  then have r: "last (role_runs ts) \<in> set (role_runs ts)" by simp
  have "last (List.concat (role_runs ts)) = last (last (role_runs ts))"
    using r role_runs_spec(2) [of ts]
    by (cases "role_runs ts" rule: rev_cases) (auto simp: one_role_def)
  then show ?thesis
    using role_runs_spec(1) [of ts] role_runs_spec(2) [of ts] r by (metis last_in_set one_role_def)
qed

lemma merged_are_runs: "fold add_turn ts [] = List.map run_turn (role_runs ts)"
proof (induction ts rule: rev_induct)
  case (snoc t ts)
  show ?case
  proof (cases "ts = []")
    case True
    then show ?thesis by (simp add: add_turn_def run_turn_def first_turn_blocks role_runs.simps(2))
  next
    case False
    then obtain gs g where g: "role_runs ts = gs @ [g]" by (cases "role_runs ts" rule: rev_cases) auto
    then have "one_role g" using role_runs_spec(2) [of ts] by simp
    then have ne: "g \<noteq> []" by (simp add: one_role_def)
    show ?thesis
      using snoc False g ne last_run_role [OF False]
      by (simp add: add_turn_def role_runs_snoc run_turn_def first_turn_blocks role_runs.simps(2))
  qed
qed simp

lemma role_runs_append_run:
  "one_role h \<Longrightarrow> role_runs (h @ u) = (case role_runs u of [] \<Rightarrow> [h]
     | k # ks \<Rightarrow> if ct_role (hd k) = ct_role (hd h) then (h @ k) # ks else h # k # ks)"
proof (induction h)
  case (Cons t h)
  show ?case
  proof (cases "h = []")
    case True
    then show ?thesis by (cases "role_runs u") (simp_all add: role_runs.simps(2))
  next
    case False
    then have "one_role h" "ct_role t = ct_role (hd h)" using Cons.prems by (auto simp: one_role_def)
    moreover have "hd (h @ k) = hd h" for k using False by simp
    ultimately show ?thesis using Cons.IH False by (cases "role_runs u") (auto simp: role_runs.simps(2))
  qed
qed (simp add: one_role_def)

lemma role_runs_concat:
  "\<forall>g \<in> set gs. one_role g \<Longrightarrow> distinct_adj (List.map (\<lambda>g. ct_role (hd g)) gs) \<Longrightarrow> role_runs (List.concat gs) = gs"
proof (induction gs)
  case (Cons h hs)
  then have "role_runs (List.concat hs) = hs" by (cases hs) auto
  then show ?case using Cons.prems role_runs_append_run [of h "List.concat hs"] by (cases hs) auto
qed simp

lemma drop_run:
  "one_role g \<Longrightarrow> ct_role (hd g) = r \<Longrightarrow> dropWhile (\<lambda>t. ct_role t = r) (g @ u) = dropWhile (\<lambda>t. ct_role t = r) u"
  by (auto simp: one_role_def dropWhile_append2)

lemma keep_run: "one_role g \<Longrightarrow> ct_role (hd g) \<noteq> r \<Longrightarrow> dropWhile (\<lambda>t. ct_role t = r) (g @ u) = g @ u"
  by (cases g) (auto simp: one_role_def)

lemma leading_runs:
  "dropWhile (\<lambda>m. fst m = r) (List.map run_turn (role_runs ts))
     = List.map run_turn (role_runs (dropWhile (\<lambda>t. ct_role t = r) ts))"
proof (cases "role_runs ts")
  case (Cons g gs)
  have runs: "one_role g" "\<forall>h \<in> set gs. one_role h" "ts = g @ List.concat gs"
    and sep: "distinct_adj (List.map (\<lambda>g. ct_role (hd g)) (g # gs))"
    using role_runs_spec(1-3) [of ts] Cons by auto
  show ?thesis
  proof (cases "ct_role (hd g) = r")
    case False
    then have "dropWhile (\<lambda>t. ct_role t = r) ts = ts" using keep_run runs(1,3) by simp
    then show ?thesis using False Cons by (simp add: run_turn_def)
  next
    case True
    have same: "role_runs (List.concat gs) = gs" using runs(2) sep by (intro role_runs_concat) (cases gs; auto)+
    have rest: "dropWhile (\<lambda>t. ct_role t = r) ts = dropWhile (\<lambda>t. ct_role t = r) (List.concat gs)"
      unfolding runs(3) using runs(1) True by (rule drop_run)
    show ?thesis
    proof (cases gs)
      case Nil
      then show ?thesis using rest Cons True by (simp add: run_turn_def)
    next
      case (Cons h hs)
      then have "ct_role (hd h) \<noteq> r" "one_role h" using sep True runs(2) by auto
      then have "dropWhile (\<lambda>t. ct_role t = r) (List.concat gs) = List.concat gs"
        using Cons keep_run [of h r "List.concat hs"] by simp
      then show ?thesis
        using rest same \<open>role_runs ts = g # gs\<close> True Cons \<open>ct_role (hd h) \<noteq> r\<close> by (simp add: run_turn_def)
    qed
  qed
qed simp

definition visible_turns :: "chat_turn list \<Rightarrow> chat_turn list" where
  "visible_turns ts = dropWhile (\<lambda>t. ct_role t = Assistant) (List.filter (\<lambda>t. ct_role t \<noteq> System) ts)"

lemma merged_turns_runs: "merged_turns ts = List.map run_turn (role_runs (visible_turns ts))"
  by (simp add: merged_turns_def visible_turns_def merged_are_runs leading_runs)

lemma or_space_not_Nil [simp]: "or_space s \<noteq> []"
  by (simp add: or_space_def)

lemma into_last_text_texts:
  "List.filter is_text bs = [TextBlock t] \<Longrightarrow> t \<noteq> [] \<Longrightarrow>
     \<exists>cs. into_last_text s bs = Some cs \<and> List.filter is_text cs = [TextBlock (t @ blank_line @ s)]"
proof (induction bs)
  case (Cons b bs)
  show ?case
  proof (cases b)
    case (TextBlock u)
    then have "\<forall>x \<in> set bs. \<not> is_text x" "u = t" using Cons.prems by (auto simp: filter_empty_conv)
    then show ?thesis
      using TextBlock Cons.prems into_last_text_None [of s bs] by (simp add: filter_empty_conv)
  next
    case (ImageBlock m p)
    then show ?thesis using Cons by fastforce
  qed
qed simp

lemma append_texts:
  assumes "\<forall>s \<in> set ss. s \<noteq> []" "\<forall>s \<in> set ps. s \<noteq> []"
    and "List.filter is_text prev = (if ps = [] then [] else [TextBlock (join_with blank_line ps)])"
  shows "List.filter is_text (fold append_block (List.map TextBlock ss) prev)
    = (if ps @ ss = [] then [] else [TextBlock (join_with blank_line (ps @ ss))])"
  using assms
proof (induction ss arbitrary: ps prev)
  case (Cons s ss)
  have join: "ps \<noteq> [] \<Longrightarrow> join_with blank_line (ps @ [s]) = join_with blank_line ps @ blank_line @ s"
    by (induction ps) (auto simp: join_Cons)
  have nonempty: "ps \<noteq> [] \<Longrightarrow> join_with blank_line ps \<noteq> []" using Cons.prems(2) by (cases ps) (auto simp: join_Cons)
  have "List.filter is_text (append_block (TextBlock s) prev) = [TextBlock (join_with blank_line (ps @ [s]))]"
  proof (cases "ps = []")
    case True
    then have "into_last_text s prev = None" using Cons.prems(3) by (simp add: into_last_text_None filter_empty_conv)
    with True Cons.prems(3) show ?thesis by (simp add: append_block_def)
  next
    case False
    then show ?thesis
      using into_last_text_texts [of prev "join_with blank_line ps" s] Cons.prems(3) nonempty join
      by (auto simp: append_block_def)
  qed
  then show ?case using Cons.IH [of "ps @ [s]" "append_block (TextBlock s) prev"] Cons.prems by simp
qed simp

lemma run_turn_texts:
  "List.filter is_text (fold append_block (List.concat (List.map turn_blocks g)) [])
    = (let ss = List.concat (List.map turn_texts g) in if ss = [] then [] else [TextBlock (join_with blank_line ss)])"
proof (induction g rule: rev_induct)
  case (snoc t g)
  let ?p = "fold append_block (List.concat (List.map turn_blocks g)) []"
  let ?ss = "List.concat (List.map turn_texts g)"
  have imgs: "List.filter is_text (turn_images t) = []" using turn_images_no_text by (simp add: filter_empty_conv)
  then have "List.filter is_text (?p @ turn_images t) = (if ?ss = [] then [] else [TextBlock (join_with blank_line ?ss)])"
    using snoc by (simp add: Let_def)
  moreover have "\<forall>s \<in> set (turn_texts t). s \<noteq> []" "\<forall>s \<in> set ?ss. s \<noteq> []" by (auto simp: turn_texts_def)
  ultimately have "List.filter is_text (fold append_block (List.map TextBlock (turn_texts t)) (?p @ turn_images t))
      = (if ?ss @ turn_texts t = [] then [] else [TextBlock (join_with blank_line (?ss @ turn_texts t))])"
    by (intro append_texts)
  moreover have "fold append_block (turn_images t) ?p = ?p @ turn_images t"
    using append_images turn_images_no_text by blast
  ultimately show ?case by (simp only: Let_def map_append concat_append fold_append comp_def turn_blocks_parts [of t]
      list.map concat.simps append_Nil2)
qed simp

lemma run_turn_images:
  "List.filter (\<lambda>b. \<not> is_text b) (fold append_block (List.concat (List.map turn_blocks g)) [])
     = List.concat (List.map turn_images g)"
proof -
  have "List.filter (\<lambda>b. \<not> is_text b) (turn_blocks t) = turn_images t" for t
    using turn_images_no_text by (auto simp: turn_blocks_parts turn_texts_def filter_id_conv)
  then show ?thesis by (simp add: fold_append_images filter_concat comp_def)
qed

text \<open>The turns sent to a provider that wants alternation: roles alternate and the first is the
  user's; each turn stands for a maximal run of the client's turns of that role, with its images in
  order and its texts joined by empty lines in a single block, so that nothing the client said is
  lost or moved to another speaker except the leading assistant turns, which are dropped.\<close>

lemma provider_turns_alternate:
  "distinct_adj (List.map fst (merged_turns ts))
    \<and> (merged_turns ts = [] \<or> fst (hd (merged_turns ts)) = User)
    \<and> List.concat (role_runs (visible_turns ts)) = visible_turns ts
    \<and> merged_turns ts = List.map run_turn (role_runs (visible_turns ts))
    \<and> (\<forall>g \<in> set (role_runs (visible_turns ts)). (\<forall>t \<in> set g. ct_role t = fst (run_turn g))
         \<and> List.filter (\<lambda>b. \<not> is_text b) (snd (run_turn g)) = List.concat (List.map turn_images g)
         \<and> List.filter is_text (snd (run_turn g)) =
             (let ss = List.concat (List.map turn_texts g) in if ss = [] then [] else [TextBlock (join_with blank_line ss)]))"
proof (intro conjI ballI)
  let ?v = "visible_turns ts"
  have roles: "List.map fst (merged_turns ts) = List.map (\<lambda>g. ct_role (hd g)) (role_runs ?v)"
    by (simp add: merged_turns_runs run_turn_def)
  then show "distinct_adj (List.map fst (merged_turns ts))" by (simp add: role_runs_distinct)
  show "merged_turns ts = [] \<or> fst (hd (merged_turns ts)) = User"
  proof (cases "?v = []")
    case False
    then have "ct_role (hd ?v) \<noteq> Assistant" unfolding visible_turns_def by (rule hd_dropWhile)
    moreover have "hd ?v \<in> set (List.filter (\<lambda>t. ct_role t \<noteq> System) ts)"
      using False set_dropWhileD [of "hd ?v"] by (metis hd_in_set visible_turns_def)
    ultimately have "ct_role (hd ?v) = User" by (cases "ct_role (hd ?v)") auto
    moreover have "fst (hd (merged_turns ts)) = ct_role (hd (hd (role_runs ?v)))"
      using False by (simp add: merged_turns_runs list.map_sel(1) run_turn_def)
    ultimately show ?thesis using role_runs_hd [OF False] by simp
  qed (simp add: merged_turns_runs)
  show "List.concat (role_runs ?v) = ?v" by (rule concat_role_runs)
  show "merged_turns ts = List.map run_turn (role_runs ?v)" by (rule merged_turns_runs)
next
  fix g t
  assume "g \<in> set (role_runs (visible_turns ts))" and t: "t \<in> set g"
  then have "one_role g" using role_runs_one_role by blast
  with t show "ct_role t = fst (run_turn g)" unfolding run_turn_def fst_conv by (blast dest: one_roleD)
next
  fix g
  show "List.filter (\<lambda>b. \<not> is_text b) (snd (run_turn g)) = List.concat (List.map turn_images g)"
    unfolding run_turn_def snd_conv by (rule run_turn_images)
  show "List.filter is_text (snd (run_turn g)) =
       (let ss = List.concat (List.map turn_texts g) in if ss = [] then [] else [TextBlock (join_with blank_line ss)])"
    unfolding run_turn_def snd_conv by (rule run_turn_texts)
qed

end
