(* ===== verification/AnthropicSse.thy ===== *)
theory AnthropicSse
  imports Stringify Stream Crypto
begin

text \<open>
  src/src/anthropic-sse-to-openai.ts: the translation of an Anthropic event stream into OpenAI
  completion chunks, event by event and over bytes, and the stream made of an answer that arrives as
  a whole.  Text is what is enqueued; its bytes are its UTF-8 encoding.
\<close>

section \<open>Frames\<close>

definition frame_end :: string where
  "frame_end = [newline_char, newline_char]"

definition KEEPALIVE :: string where
  "KEEPALIVE = '': prism-keepalive'' @ frame_end"

record openai_state =
  oa_id       :: string
  oa_model    :: string
  oa_created  :: int
  oa_input    :: "int option"
  oa_output   :: "int option"
  oa_opened   :: bool
  oa_finished :: bool

text \<open>The random bytes are 12 and the clock is in milliseconds.\<close>

definition new_openai_state :: "string option \<Rightarrow> string \<Rightarrow> int option \<Rightarrow> string \<Rightarrow> int \<Rightarrow> openai_state" where
  "new_openai_state i m created rnd now_ms =
     \<lparr>oa_id = (case i of Some x \<Rightarrow> x | None \<Rightarrow> ''chatcmpl-'' @ hex_of_bytes rnd), oa_model = m,
      oa_created = (case created of Some c \<Rightarrow> c | None \<Rightarrow> now_ms div 1000),
      oa_input = None, oa_output = None, oa_opened = False, oa_finished = False\<rparr>"

definition encode_frame :: "js \<Rightarrow> string" where
  "encode_frame payload = ''data: '' @ js_stringify payload @ frame_end"

definition done_frame :: string where
  "done_frame = ''data: [DONE]'' @ frame_end"

definition chunk_frame :: "openai_state \<Rightarrow> js list \<Rightarrow> (string \<times> js) list \<Rightarrow> js" where
  "chunk_frame st choices extra =
     JObj ([(''id'', JStr (oa_id st)), (''object'', JStr ''chat.completion.chunk''),
            (''created'', JNum (NInt (oa_created st))), (''model'', JStr (oa_model st)),
            (''choices'', JArr choices)] @ extra)"

definition chunk_choice :: "(string \<times> js) list \<Rightarrow> js \<Rightarrow> js" where
  "chunk_choice delta reason =
     JObj [(''index'', JNum (NInt 0)), (''delta'', JObj delta), (''finish_reason'', reason)]"

definition open_frame :: "openai_state \<Rightarrow> js" where
  "open_frame st = chunk_frame st [chunk_choice [(''role'', JStr ''assistant''), (''content'', JStr [])] JNull] []"

definition open_chunk :: "openai_state \<Rightarrow> string \<times> openai_state" where
  "open_chunk st = (encode_frame (open_frame st), st\<lparr>oa_opened := True\<rparr>)"

text \<open>\<open>if (!state.opened) out += openChunk(state)\<close>.\<close>

definition open_once :: "openai_state \<Rightarrow> string \<times> openai_state" where
  "open_once st = (if oa_opened st then ([], st) else open_chunk st)"

definition text_frame :: "openai_state \<Rightarrow> string \<Rightarrow> js" where
  "text_frame st t = chunk_frame st [chunk_choice [(''content'', JStr t)] JNull] []"

definition text_chunk :: "openai_state \<Rightarrow> string \<Rightarrow> string" where
  "text_chunk st t = encode_frame (text_frame st t)"

definition stop_frame :: "openai_state \<Rightarrow> js" where
  "stop_frame st = chunk_frame st [chunk_choice [] (JStr ''stop'')] []"

definition or_zero :: "int option \<Rightarrow> int" where
  "or_zero v = (case v of Some i \<Rightarrow> i | None \<Rightarrow> 0)"

definition usage_object :: "openai_state \<Rightarrow> js" where
  "usage_object st =
     JObj [(''prompt_tokens'', JNum (NInt (or_zero (oa_input st)))),
           (''completion_tokens'', JNum (NInt (or_zero (oa_output st)))),
           (''total_tokens'', JNum (NInt (or_zero (oa_input st) + or_zero (oa_output st))))]"

definition usage_known :: "openai_state \<Rightarrow> bool" where
  "usage_known st = (oa_input st \<noteq> None \<or> oa_output st \<noteq> None)"

definition finish_and_usage :: "openai_state \<Rightarrow> string \<times> openai_state" where
  "finish_and_usage st0 =
     (let st = st0\<lparr>oa_finished := True\<rparr> in
      (encode_frame (stop_frame st)
       @ (if usage_known st then encode_frame (chunk_frame st [] [(''usage'', usage_object st)]) else [])
       @ done_frame, st))"

section \<open>One event\<close>

text \<open>\<open>Number.isInteger\<close> guards each update.\<close>

definition note_usage :: "js \<Rightarrow> openai_state \<Rightarrow> openai_state" where
  "note_usage usage st0 =
     (let st = (case js_int (js_get usage ''input_tokens'') of Some i \<Rightarrow> st0\<lparr>oa_input := Some i\<rparr> | None \<Rightarrow> st0)
      in case js_int (js_get usage ''output_tokens'') of Some i \<Rightarrow> st\<lparr>oa_output := Some i\<rparr> | None \<Rightarrow> st)"

definition provider_id :: "string \<Rightarrow> string" where
  "provider_id i = ''chatcmpl-'' @ (if starts_with ''msg_'' i then drop 4 i else i)"

definition event_type :: "js \<Rightarrow> string" where
  "event_type d = str_of_js (js_get d ''type'')"

definition delta_text :: "js \<Rightarrow> string" where
  "delta_text d =
     (let delta = js_get d ''delta'' in
      if js_get delta ''type'' = JStr ''text_delta'' then str_of_js (js_get delta ''text'') else [])"

definition close_openai :: "openai_state \<Rightarrow> string \<times> openai_state" where
  "close_openai st =
     (if oa_finished st then ([], st)
      else (let (o1, st1) = open_once st; (o2, st2) = finish_and_usage st1 in (o1 @ o2, st2)))"

definition anthropic_payload :: "js \<Rightarrow> openai_state \<Rightarrow> string \<times> openai_state" where
  "anthropic_payload d st =
     (if \<not> typeof_object d then ([], st)
      else if event_type d = ''message_start'' then
        (let msg = js_get d ''message'';
             st1 = (case js_get msg ''id'' of
                      JStr i \<Rightarrow> if i \<noteq> [] then st\<lparr>oa_id := provider_id i\<rparr> else st
                    | _ \<Rightarrow> st)
         in open_once (note_usage (js_get msg ''usage'') st1))
      else if event_type d = ''content_block_delta'' then
        (if delta_text d \<noteq> []
         then (let (o1, st1) = open_once st in (o1 @ text_chunk st1 (delta_text d), st1))
         else (KEEPALIVE, st))
      else if event_type d = ''message_delta'' then (KEEPALIVE, note_usage (js_get d ''usage'') st)
      else if event_type d = ''message_stop'' then close_openai st
      else if event_type d \<in> {''content_block_start'', ''content_block_stop'', ''ping''} then (KEEPALIVE, st)
      else ([], st))"

section \<open>Over bytes\<close>

record sse_reader =
  sr_buffer  :: string
  sr_decoder :: utf8_state
  sr_started :: bool
  sr_state   :: openai_state
  sr_out     :: string

definition new_sse_reader :: "openai_state \<Rightarrow> sse_reader" where
  "new_sse_reader st = \<lparr>sr_buffer = [], sr_decoder = u8_init, sr_started = False, sr_state = st, sr_out = []\<rparr>"

text \<open>\<open>rawLine.replace(/\r$/, '')\<close>.\<close>

definition strip_cr :: "string \<Rightarrow> string" where
  "strip_cr l = (if l \<noteq> [] \<and> last l = char_of (13::nat) then butlast l else l)"

definition sse_line_payload :: "string \<Rightarrow> js option" where
  "sse_line_payload raw =
     (let line = strip_cr raw; payload = js_trim (drop 5 line) in
      if \<not> starts_with ''data:'' line \<or> payload = [] \<or> payload \<in> set SENTINELS then None
      else json_parse payload)"

definition sse_consume_line :: "string \<Rightarrow> sse_reader \<Rightarrow> sse_reader" where
  "sse_consume_line raw r =
     (case sse_line_payload raw of
        None \<Rightarrow> r
      | Some d \<Rightarrow> (let (out, st) = anthropic_payload d (sr_state r)
                   in r\<lparr>sr_state := st, sr_out := sr_out r @ out\<rparr>))"

definition sse_feed :: "string \<Rightarrow> sse_reader \<Rightarrow> sse_reader" where
  "sse_feed t r =
     (let lines = split_on newline_char (sr_buffer r @ t)
      in fold sse_consume_line (butlast lines) (r\<lparr>sr_buffer := last lines\<rparr>))"

definition sse_push :: "string \<Rightarrow> sse_reader \<Rightarrow> sse_reader" where
  "sse_push chunk r =
     (let (ps, st) = u8_run (sr_decoder r) chunk;
          t = List.map latin_char (strip_bom (sr_started r) ps)
      in sse_feed t (r\<lparr>sr_decoder := st, sr_started := sr_started r \<or> ps \<noteq> []\<rparr>))"

definition sse_end :: "sse_reader \<Rightarrow> sse_reader" where
  "sse_end r =
     (let rest = sr_buffer r @ List.map latin_char (strip_bom (sr_started r) (u8_flush (sr_decoder r)));
          r1 = r\<lparr>sr_decoder := u8_init, sr_buffer := []\<rparr>;
          r2 = (if rest \<noteq> [] then sse_consume_line rest r1 else r1);
          (out, st) = close_openai (sr_state r2)
      in r2\<lparr>sr_state := st, sr_out := sr_out r2 @ out\<rparr>)"

section \<open>A stream made of a whole answer\<close>

fun text_slices :: "string \<Rightarrow> string list" where
  "text_slices t = (if t = [] then [] else take 48 t # text_slices (drop 48 t))"

declare text_slices.simps [simp del]

definition set_tokens :: "jsnum option \<Rightarrow> jsnum option \<Rightarrow> openai_state \<Rightarrow> openai_state" where
  "set_tokens p c st0 =
     (let st = (case p of Some (NInt i) \<Rightarrow> st0\<lparr>oa_input := Some i\<rparr> | _ \<Rightarrow> st0)
      in case c of Some (NInt i) \<Rightarrow> st\<lparr>oa_output := Some i\<rparr> | _ \<Rightarrow> st)"

definition text_chunks :: "openai_state \<Rightarrow> string \<Rightarrow> string" where
  "text_chunks st t = List.concat (List.map (text_chunk st) (text_slices t))"

definition stream_from_completion :: "openai_state \<Rightarrow> string \<Rightarrow> jsnum option \<Rightarrow> jsnum option \<Rightarrow> string" where
  "stream_from_completion st0 t p c =
     (let (o1, st) = open_chunk (set_tokens p c st0)
      in o1 @ text_chunks st t @ fst (finish_and_usage st))"

text \<open>The deferred form: the opening chunk at once, a keepalive for every tick of the timer while
  the call runs, then the answer or an error frame.\<close>

record completion =
  cp_text       :: string
  cp_prompt     :: "jsnum option"
  cp_completion :: "jsnum option"

text \<open>What a binding answer is passed on as: its text and the token counts the meter reads in it.\<close>

definition completion_of :: "string \<Rightarrow> token_usage option \<Rightarrow> completion" where
  "completion_of t u = \<lparr>cp_text = t, cp_prompt = map_option (\<lambda>x. NInt (tu_input x)) u,
     cp_completion = map_option (\<lambda>x. NInt (tu_output x)) u\<rparr>"

definition error_frame :: "string \<Rightarrow> js" where
  "error_frame msg = JObj [(''error'', JObj [(''message'', JStr (take 200 msg)), (''type'', JStr ''upstream_error'')])]"

definition deferred_stream :: "openai_state \<Rightarrow> nat \<Rightarrow> string + completion \<Rightarrow> string" where
  "deferred_stream st0 ticks outcome =
     (let (o1, st) = open_chunk st0 in
      o1 @ List.concat (replicate ticks KEEPALIVE)
      @ (case outcome of
           Inr r \<Rightarrow>
             (let st2 = set_tokens (cp_prompt r) (cp_completion r) st
              in text_chunks st2 (cp_text r) @ fst (finish_and_usage st2))
         | Inl msg \<Rightarrow> encode_frame (error_frame msg) @ fst (finish_and_usage st)))"

section \<open>The pump\<close>

datatype pump_event = UpChunk string | UpEnd | UpFail | KeepaliveTick | PumpCancel

record pump =
  pm_reader :: sse_reader
  pm_out    :: "string list"
  pm_closed :: bool

definition pump_enqueue :: "string \<Rightarrow> pump \<Rightarrow> pump" where
  "pump_enqueue t p = (if t = [] then p else p\<lparr>pm_out := pm_out p @ [utf8_encode t]\<rparr>)"

definition pump_run_reader :: "(sse_reader \<Rightarrow> sse_reader) \<Rightarrow> pump \<Rightarrow> pump" where
  "pump_run_reader f p =
     (let r = f ((pm_reader p)\<lparr>sr_out := []\<rparr>) in pump_enqueue (sr_out r) (p\<lparr>pm_reader := r\<rparr>))"

definition pump_step :: "pump_event \<Rightarrow> pump \<Rightarrow> pump" where
  "pump_step e p =
     (if pm_closed p then p
      else case e of
        UpChunk v \<Rightarrow> pump_run_reader (sse_push v) p
      | KeepaliveTick \<Rightarrow> pump_enqueue KEEPALIVE p
      | PumpCancel \<Rightarrow> p\<lparr>pm_closed := True\<rparr>
      | _ \<Rightarrow> (pump_run_reader sse_end p)\<lparr>pm_closed := True\<rparr>)"

definition anthropic_to_openai_stream :: "openai_state \<Rightarrow> pump_event list \<Rightarrow> string list" where
  "anthropic_to_openai_stream st es =
     pm_out (fold pump_step es \<lparr>pm_reader = new_sse_reader st, pm_out = [], pm_closed = False\<rparr>)"

section \<open>The transform does not depend on the cuts\<close>

interpretation sse: line_reader sse_consume_line sr_buffer "\<lambda>b r. r\<lparr>sr_buffer := b\<rparr>"
    "\<lambda>r. (sr_decoder r, sr_started r)" "\<lambda>d r. r\<lparr>sr_decoder := fst d, sr_started := snd d\<rparr>" sse_feed sse_push
  by unfold_locales
    (auto simp: sse_consume_line_def sse_feed_def sse_push_def Let_def split: option.splits prod.splits)

lemma sse_transform_ignores_chunking:
  "fold sse_push chunks (new_sse_reader st) = sse_push (List.concat chunks) (new_sse_reader st)"
  by (rule sse.chunking) (simp add: new_sse_reader_def)

section \<open>What the scanner makes of a frame\<close>

definition scan_value :: "js \<Rightarrow> scanner \<Rightarrow> scanner" where
  "scan_value v sc =
     (let usage = js_nullish (js_get v ''usage'') (js_get (js_get v ''response'') ''usage'') in
      (if usage \<noteq> JUndef \<and> usage \<noteq> JNull then sc\<lparr>sc_saw_frame := True, sc_last_usage := usage\<rparr>
       else sc\<lparr>sc_saw_frame := True\<rparr>)\<lparr>sc_output_bytes := sc_output_bytes sc + output_text_of v\<rparr>)"

lemma newline_ord: "ord_of newline_char = 10"
  by (simp add: newline_char_def)

lemma newline_lit: "newline_char = CHR 0x0A"
  by code_simp

lemma printable_no_newline: "printable s \<Longrightarrow> newline_char \<notin> set s"
  using newline_ord by force

lemma trim_braces: "js_trim (CHR ''{'' # s @ ''}'') = CHR ''{'' # s @ ''}''"
  "js_trim (CHR '' '' # CHR ''{'' # s @ ''}'') = CHR ''{'' # s @ ''}''"
  "js_trim (''data: {'' @ s @ ''}'') = ''data: {'' @ s @ ''}''"
  by (simp_all add: js_trim_def is_js_space_def ord_of_def)

lemma object_text: "\<exists>s. js_stringify (JObj fs) = CHR ''{'' # s @ ''}''"
  by simp

lemma frame_payload:
  assumes "json_ok (JObj fs)"
  shows "js_trim (drop 5 (''data: '' @ js_stringify (JObj fs))) = js_stringify (JObj fs)"
    and "js_stringify (JObj fs) \<noteq> []" "js_stringify (JObj fs) \<notin> set SENTINELS"
    and "js_trim (''data: '' @ js_stringify (JObj fs)) = ''data: '' @ js_stringify (JObj fs)"
  using trim_braces by (simp_all add: SENTINELS_def)

lemma consume_frame:
  assumes "json_ok (JObj fs)"
  shows "consume_line (''data: '' @ js_stringify (JObj fs)) sc = scan_value (JObj fs) sc"
proof -
  have "starts_with ''data:'' (''data: '' @ js_stringify (JObj fs))" by (simp add: starts_with_def)
  then show ?thesis
    unfolding consume_line_def Let_def frame_payload(4) [OF assms] frame_payload(1) [OF assms]
      json_stringify_roundtrip [OF assms]
    using frame_payload(2,3) [OF assms]
    by (simp add: scan_value_def Let_def del: js_stringify.simps)
qed

lemma consume_empty [simp]: "consume_line [] sc = sc"
  by (simp add: consume_line_def js_trim_def starts_with_def)

lemma scan_value_rest [simp]:
  "sc_buffer (scan_value v sc) = sc_buffer sc" "sc_decoder (scan_value v sc) = sc_decoder sc"
  "sc_started (scan_value v sc) = sc_started sc"
  by (simp_all add: scan_value_def Let_def)

lemma scan_frame:
  assumes "json_ok (JObj fs)" "sc_buffer sc = []"
  shows "add_text (encode_frame (JObj fs) @ t) sc = add_text t (scan_value (JObj fs) sc)"
proof -
  define l where "l = ''data: '' @ js_stringify (JObj fs)"
  have used: "consume_line l sc = scan_value (JObj fs) sc"
    unfolding l_def by (rule consume_frame [OF assms(1)])
  have "newline_char \<notin> set l"
    using printable_no_newline [OF stringify_printable(1) [OF assms(1)]]
    by (simp add: l_def newline_lit del: js_stringify.simps)
  then have "add_text (l @ newline_char # newline_char # t) sc
      = add_text t (consume_line [] (scan_value (JObj fs) sc))"
    using assms(2) scan.feed_line [of sc l] scan.feed_line [of "scan_value (JObj fs) sc" "[]" t] used by simp
  moreover have "encode_frame (JObj fs) @ t = l @ newline_char # newline_char # t"
    by (simp add: l_def encode_frame_def frame_end_def del: js_stringify.simps)
  ultimately show ?thesis by simp
qed

lemma scan_comment:
  assumes "sc_buffer sc = []" "l \<in> {'': prism-keepalive'', ''data: [DONE]''}"
  shows "add_text (l @ frame_end @ t) sc = add_text t sc"
proof -
  have "newline_char \<notin> set l" using assms(2) by (auto simp: newline_lit)
  moreover have "consume_line l sc = sc"
    using assms(2) by (auto simp: consume_line_def js_trim_def is_js_space_def starts_with_def ord_of_def SENTINELS_def)
  ultimately show ?thesis
    using assms(1) scan.feed_line [of sc l "newline_char # t"] scan.feed_line [of sc "[]" t]
    by (simp add: frame_end_def)
qed

lemma scan_keepalives:
  "sc_buffer sc = [] \<Longrightarrow> add_text (List.concat (replicate n KEEPALIVE) @ t) sc = add_text t sc"
  using scan_comment [of sc "'': prism-keepalive''"] by (induction n) (simp_all add: KEEPALIVE_def)

lemma scan_done: "sc_buffer sc = [] \<Longrightarrow> add_text (done_frame @ t) sc = add_text t sc"
  using scan_comment [of sc "''data: [DONE]''"] by (simp add: done_frame_def)

section \<open>A deferred answer is metered like the answer itself\<close>

text \<open>Frames a client sees, as the scanner counts them.\<close>

lemma json_ok_frames:
  assumes "\<bar>oa_created st\<bar> < 10 ^ 21"
  shows "json_ok (open_frame st)" "json_ok (text_frame st t)" "json_ok (stop_frame st)"
    "\<bar>or_zero (oa_input st)\<bar> < 10 ^ 20 \<Longrightarrow> \<bar>or_zero (oa_output st)\<bar> < 10 ^ 20 \<Longrightarrow>
       json_ok (chunk_frame st [] [(''usage'', usage_object st)])"
    "json_ok (error_frame m)"
  using assms
  by (simp_all add: open_frame_def text_frame_def stop_frame_def chunk_frame_def chunk_choice_def usage_object_def
      error_frame_def)

lemma frames_are_objects:
  "\<exists>fs. open_frame st = JObj fs" "\<exists>fs. text_frame st t = JObj fs" "\<exists>fs. stop_frame st = JObj fs"
  "\<exists>fs. chunk_frame st cs xs = JObj fs" "\<exists>fs. error_frame m = JObj fs"
  by (simp_all add: open_frame_def text_frame_def stop_frame_def chunk_frame_def error_frame_def)

lemma scan_frames:
  assumes "\<bar>oa_created st\<bar> < 10 ^ 21" "sc_buffer sc = []"
  shows "add_text (encode_frame (open_frame st) @ u) sc = add_text u (scan_value (open_frame st) sc)"
    and "add_text (text_chunk st t @ u) sc = add_text u (scan_value (text_frame st t) sc)"
    and "add_text (encode_frame (stop_frame st) @ u) sc = add_text u (scan_value (stop_frame st) sc)"
    and "add_text (encode_frame (error_frame m) @ u) sc = add_text u (scan_value (error_frame m) sc)"
    and "\<bar>or_zero (oa_input st)\<bar> < 10 ^ 20 \<Longrightarrow> \<bar>or_zero (oa_output st)\<bar> < 10 ^ 20 \<Longrightarrow>
      add_text (encode_frame (chunk_frame st [] [(''usage'', usage_object st)]) @ u) sc
        = add_text u (scan_value (chunk_frame st [] [(''usage'', usage_object st)]) sc)"
  using scan_frame json_ok_frames [OF assms(1)] frames_are_objects assms(2)
  by (metis text_chunk_def)+

definition counted :: "nat \<Rightarrow> scanner \<Rightarrow> scanner" where
  "counted n sc = sc\<lparr>sc_saw_frame := True, sc_output_bytes := sc_output_bytes sc + n\<rparr>"

lemma scan_plain_frames:
  "scan_value (open_frame st) sc = counted 0 sc"
  "scan_value (text_frame st t) sc = counted (utf8_length t) sc"
  "scan_value (stop_frame st) sc = counted 0 sc"
  "scan_value (error_frame m) sc = counted 0 sc"
  "scan_value (chunk_frame st [] [(''usage'', usage_object st2)]) sc
     = counted 0 (sc\<lparr>sc_last_usage := usage_object st2\<rparr>)"
  by (simp_all add: scan_value_def Let_def counted_def open_frame_def text_frame_def stop_frame_def error_frame_def
      chunk_frame_def chunk_choice_def output_text_of_def delta_bytes_def js_nullish_def usage_object_def)

lemma counted_simps [simp]:
  "sc_buffer (counted n sc) = sc_buffer sc" "counted m (counted n sc) = counted (n + m) sc"
  by (simp_all add: counted_def)

lemma text_slices_concat: "List.concat (text_slices t) = t"
proof (induction t rule: text_slices.induct)
  case (1 t)
  then show ?case by (subst text_slices.simps) simp
qed

lemma scan_text_chunks:
  assumes "\<bar>oa_created st\<bar> < 10 ^ 21" "sc_buffer sc = []" "sc_saw_frame sc"
  shows "add_text (List.concat (List.map (text_chunk st) ts) @ u) sc = add_text u (counted (utf8_length (List.concat ts)) sc)"
  using assms
proof (induction ts arbitrary: sc)
  case Nil
  then have "counted 0 sc = sc" by (cases sc) (simp add: counted_def)
  then show ?case by simp
next
  case (Cons t ts)
  have "sc_saw_frame (counted n sc)" for n by (simp add: counted_def)
  then show ?case using Cons by (simp add: scan_frames(2) scan_plain_frames)
qed

lemma scan_finish:
  assumes "\<bar>oa_created st\<bar> < 10 ^ 21" "\<bar>or_zero (oa_input st)\<bar> < 10 ^ 20" "\<bar>or_zero (oa_output st)\<bar> < 10 ^ 20"
    and "sc_buffer sc = []"
  shows "add_text (fst (finish_and_usage st)) sc =
    counted 0 (if usage_known st then sc\<lparr>sc_last_usage := usage_object st\<rparr> else sc)"
proof -
  let ?st = "st\<lparr>oa_finished := True\<rparr>"
  have same: "usage_known ?st = usage_known st" "usage_object ?st = usage_object st"
    by (simp_all add: usage_known_def usage_object_def)
  have ok: "\<bar>oa_created ?st\<bar> < 10 ^ 21" "\<bar>or_zero (oa_input ?st)\<bar> < 10 ^ 20" "\<bar>or_zero (oa_output ?st)\<bar> < 10 ^ 20"
    using assms by simp_all
  have end_text: "add_text done_frame x = x" if "sc_buffer x = []" for x
    using scan_done [OF that, of "[]"] scan.feed_Nil [of x] that by simp
  show ?thesis
    using scan_frames(3) [OF ok(1)] scan_frames(5) [OF ok(1) _ ok(2,3)] assms(4) end_text
    by (simp add: finish_and_usage_def Let_def same scan_plain_frames) (simp add: counted_def)
qed

lemma settlement_of_encoded:
  assumes "\<And>sc. sc_buffer sc = [] \<Longrightarrow> \<not> sc_saw_frame sc \<Longrightarrow> sc_output_bytes sc = 0 \<Longrightarrow> sc_last_usage sc = JNull \<Longrightarrow>
      sc_buffer (add_text t sc) = [] \<and> sc_saw_frame (add_text t sc) \<and> sc_output_bytes (add_text t sc) = n
        \<and> sc_last_usage (add_text t sc) = u"
  shows "settlement_of k (utf8_encode t) =
    \<lparr>st_usage = u, st_saw_frames = True, st_termination = k, st_output_text_bytes = n\<rparr>"
proof -
  define sc where "sc = new_scanner\<lparr>sc_decoder := u8_init, sc_started := t \<noteq> []\<rparr>"
  have "push (utf8_encode t) new_scanner = add_text t sc"
    using scan.push_encoded [of new_scanner t] by (simp add: sc_def new_scanner_def)
  moreover have "sc_decoder (add_text t sc) = u8_init"
    using scan.feed_get(1) [of t sc] by (simp add: sc_def)
  moreover have "sc_buffer (add_text t sc) = [] \<and> sc_saw_frame (add_text t sc) \<and> sc_output_bytes (add_text t sc) = n
        \<and> sc_last_usage (add_text t sc) = u"
    by (rule assms) (simp_all add: sc_def new_scanner_def)
  ultimately show ?thesis
    by (simp add: settlement_of_def finish_def u8_flush_def u8_init_def strip_bom_def Let_def)
qed

lemma usage_object_metered:
  assumes "0 \<le> i" "0 \<le> c"
  shows "meter_usage_object (usage_object (st\<lparr>oa_input := Some i, oa_output := Some c\<rparr>)) p =
    price_usage \<lparr>tu_input = i, tu_output = c\<rparr> p"
  using assms
  by (simp add: meter_usage_object_def meter_response_def extract_usage_def usage_object_def gemini_usage_def
      openai_usage_def js_nullish_def fold_reasoning_def reasoning_tokens_def or_zero_def)

lemma extract_usage_nonneg: "extract_usage body = Some u \<Longrightarrow> 0 \<le> tu_input u \<and> 0 \<le> tu_output u"
  by (auto simp: extract_usage_def gemini_usage_def openai_usage_def Let_def fold_reasoning_def
      split: if_splits option.splits)

text \<open>C28. A streamed request whose provider is called for a whole answer: whatever the number of
  keepalives sent while waiting, the relay's settlement of the stream that is made of the answer
  counts the bytes of its text, and prices it exactly as the answer's own body would have been
  priced; without token counts, and when the call failed, it reports no usage.\<close>

theorem deferred_stream_meters_the_answer:
  assumes "\<bar>oa_created st\<bar> < 10 ^ 21" "oa_input st = None" "oa_output st = None"
    and "\<And>u. extract_usage body = Some u \<Longrightarrow> tu_input u < 10 ^ 20 \<and> tu_output u < 10 ^ 20"
  shows "st_output_text_bytes (settlement_of k (utf8_encode
        (deferred_stream st ticks (Inr (completion_of words (extract_usage body)))))) = utf8_length words
    \<and> st_saw_frames (settlement_of k (utf8_encode
        (deferred_stream st ticks (Inr (completion_of words (extract_usage body))))))
    \<and> (if extract_usage body = None
       then st_usage (settlement_of k (utf8_encode
              (deferred_stream st ticks (Inr (completion_of words (extract_usage body)))))) = JNull
       else meter_usage_object (st_usage (settlement_of k (utf8_encode
              (deferred_stream st ticks (Inr (completion_of words (extract_usage body))))))) p = meter_response body p)
    \<and> settlement_of k (utf8_encode (deferred_stream st ticks (Inl msg))) = \<lparr>st_usage = JNull, st_saw_frames = True,
         st_termination = k, st_output_text_bytes = 0\<rparr>"
proof -
  have failed: "settlement_of k (utf8_encode (deferred_stream st ticks (Inl msg))) = \<lparr>st_usage = JNull,
      st_saw_frames = True, st_termination = k, st_output_text_bytes = 0\<rparr>"
    using scan_frames(1,4) [OF assms(1)] scan_keepalives scan_finish assms(1-3)
    by (intro settlement_of_encoded)
      (simp add: deferred_stream_def open_chunk_def Let_def scan_plain_frames or_zero_def usage_known_def,
        simp add: counted_def)
  show ?thesis
  proof (cases "extract_usage body")
    case None
    have "settlement_of k (utf8_encode (deferred_stream st ticks (Inr (completion_of words None)))) =
        \<lparr>st_usage = JNull, st_saw_frames = True, st_termination = k, st_output_text_bytes = utf8_length words\<rparr>"
      using scan_frames(1) [OF assms(1)] scan_keepalives scan_text_chunks scan_finish assms(1-3)
      by (intro settlement_of_encoded)
        (simp add: completion_of_def deferred_stream_def open_chunk_def Let_def scan_plain_frames text_chunks_def
          set_tokens_def or_zero_def usage_known_def, simp add: counted_def text_slices_concat)
    with None failed show ?thesis by simp
  next
    case (Some u)
    have nn: "0 \<le> tu_input u" "0 \<le> tu_output u" using extract_usage_nonneg [OF Some] by auto
    have small: "tu_input u < 10 ^ 20" "tu_output u < 10 ^ 20" using assms(4) [OF Some] by auto
    let ?full = "st\<lparr>oa_opened := True, oa_input := Some (tu_input u), oa_output := Some (tu_output u)\<rparr>"
    have "settlement_of k (utf8_encode (deferred_stream st ticks (Inr (completion_of words (Some u))))) =
        \<lparr>st_usage = usage_object ?full, st_saw_frames = True, st_termination = k,
         st_output_text_bytes = utf8_length words\<rparr>"
      using scan_frames(1) [OF assms(1)] scan_keepalives scan_text_chunks scan_finish assms(1-3) nn small
      by (intro settlement_of_encoded)
        (simp add: completion_of_def deferred_stream_def open_chunk_def Let_def scan_plain_frames text_chunks_def
          set_tokens_def or_zero_def usage_known_def, simp add: counted_def text_slices_concat)
    moreover have "meter_usage_object (usage_object ?full) p = meter_response body p"
      using usage_object_metered [OF nn, of "st\<lparr>oa_opened := True\<rparr>" p] Some
      by (cases u) (simp add: meter_response_def)
    ultimately show ?thesis using Some failed by simp
  qed
qed

definition sample_openai_state :: openai_state where
  "sample_openai_state = new_openai_state (Some ''chatcmpl-1'') ''anthropic/claude-fable-5'' None [] 1786000000000"

definition sample_answer_body :: js where
  "sample_answer_body = JObj [(''usage'', JObj [(''input_tokens'', JNum (NInt 7)), (''output_tokens'', JNum (NInt 3))])]"

theorem deferred_stream_meters_the_answer_witness:
  "\<forall>p. meter_usage_object (st_usage (settlement_of TermComplete (utf8_encode (deferred_stream sample_openai_state 2
      (Inr (completion_of ''hello'' (extract_usage sample_answer_body))))))) p = meter_response sample_answer_body p"
proof
  fix p
  have u: "extract_usage sample_answer_body = Some \<lparr>tu_input = 7, tu_output = 3\<rparr>"
    by (simp add: sample_answer_body_def extract_usage_def gemini_usage_def openai_usage_def js_nullish_def
        fold_reasoning_def reasoning_tokens_def)
  have st: "\<bar>oa_created sample_openai_state\<bar> < 10 ^ 21" "oa_input sample_openai_state = None"
    "oa_output sample_openai_state = None"
    by (simp_all add: sample_openai_state_def new_openai_state_def)
  have small: "\<And>v. extract_usage sample_answer_body = Some v \<Longrightarrow> tu_input v < 10 ^ 20 \<and> tu_output v < 10 ^ 20"
    using u by auto
  from deferred_stream_meters_the_answer [OF st small, where body = sample_answer_body and k = TermComplete and ticks = 2 and words = "''hello''" and p = p] u
  show "meter_usage_object (st_usage (settlement_of TermComplete (utf8_encode (deferred_stream sample_openai_state 2
      (Inr (completion_of ''hello'' (extract_usage sample_answer_body))))))) p = meter_response sample_answer_body p"
    by simp
qed

section \<open>A translated stream is metered by what the provider reported\<close>

fun anthropic_events :: "js list \<Rightarrow> openai_state \<Rightarrow> string \<times> openai_state" where
  "anthropic_events [] st = ([], st)"
| "anthropic_events (d # ds) st =
     (let (o1, st1) = anthropic_payload d st; (o2, st2) = anthropic_events ds st1 in (o1 @ o2, st2))"

definition shown_text :: "js \<Rightarrow> string" where
  "shown_text d = (if typeof_object d \<and> event_type d = ''content_block_delta'' then delta_text d else [])"

text \<open>The provider's events, each on a data line, in any chunks.\<close>

lemma frame_line:
  assumes "json_ok (JObj fs)"
  shows "sse_line_payload (''data: '' @ js_stringify (JObj fs)) = Some (JObj fs)"
    and "newline_char \<notin> set (''data: '' @ js_stringify (JObj fs))"
proof -
  define l where "l = ''data: '' @ js_stringify (JObj fs)"
  have "last l = CHR ''}''" by (simp add: l_def)
  moreover have "CHR ''}'' \<noteq> char_of (13 :: nat)" by code_simp
  ultimately have cr: "strip_cr l = l" unfolding strip_cr_def by metis
  have start: "starts_with ''data:'' l" by (simp add: l_def starts_with_def del: js_stringify.simps)
  have payload: "js_trim (drop 5 l) = js_stringify (JObj fs)" unfolding l_def by (rule frame_payload(1) [OF assms])
  show "sse_line_payload (''data: '' @ js_stringify (JObj fs)) = Some (JObj fs)"
    unfolding l_def [symmetric] sse_line_payload_def Let_def cr payload json_stringify_roundtrip [OF assms]
    using frame_payload(2,3) [OF assms] start by (simp del: js_stringify.simps)
  show "newline_char \<notin> set (''data: '' @ js_stringify (JObj fs))"
    using printable_no_newline [OF stringify_printable(1) [OF assms]]
    by (simp add: newline_lit del: js_stringify.simps)
qed

lemma no_payload_in_empty: "sse_line_payload [] = None"
  by (simp add: sse_line_payload_def strip_cr_def starts_with_def)

text \<open>A frame the plane emits is one event to a reader of event streams: whatever strings its
  fields hold, line breaks, quotes and control characters included, cutting the text of the frame at
  newlines gives exactly one data line, and its payload parses to the value that was sent.\<close>

lemma frame_roundtrip:
  assumes "json_ok (JObj fs)"
  shows "List.map_filter sse_line_payload (split_on newline_char (encode_frame (JObj fs))) = [JObj fs]"
proof -
  define l where "l = ''data: '' @ js_stringify (JObj fs)"
  have "newline_char \<notin> set l" unfolding l_def by (rule frame_line(2) [OF assms])
  then have "split_on newline_char (l @ newline_char # [newline_char]) = [l, [], []]"
    using split_on_no_sep [of newline_char l] by (simp add: split_on_append_sep)
  moreover have "encode_frame (JObj fs) = l @ newline_char # [newline_char]"
    by (simp add: l_def encode_frame_def frame_end_def del: js_stringify.simps)
  ultimately show ?thesis
    using frame_line(1) [OF assms, folded l_def] no_payload_in_empty by (simp add: map_filter_def)
qed

lemma reader_line:
  assumes "json_ok (JObj fs)" "sr_buffer r = []"
  shows "sse_feed (encode_frame (JObj fs) @ t) r =
    sse_feed t (r\<lparr>sr_state := snd (anthropic_payload (JObj fs) (sr_state r)),
                  sr_out := sr_out r @ fst (anthropic_payload (JObj fs) (sr_state r))\<rparr>)"
proof -
  define l where "l = ''data: '' @ js_stringify (JObj fs)"
  have "sse_line_payload l = Some (JObj fs)" unfolding l_def by (rule frame_line(1) [OF assms(1)])
  then have used: "sse_consume_line l r = r\<lparr>sr_state := snd (anthropic_payload (JObj fs) (sr_state r)),
      sr_out := sr_out r @ fst (anthropic_payload (JObj fs) (sr_state r))\<rparr>"
    by (simp add: sse_consume_line_def case_prod_beta)
  have empty: "sse_consume_line [] x = x" for x
    by (simp add: sse_consume_line_def no_payload_in_empty)
  have "newline_char \<notin> set l" unfolding l_def by (rule frame_line(2) [OF assms(1)])
  then have "sse_feed (l @ newline_char # newline_char # t) r = sse_feed t (sse_consume_line [] (sse_consume_line l r))"
    using assms(2) sse.feed_line [of r l] sse.feed_line [of "sse_consume_line l r" "[]" t] used by simp
  moreover have "encode_frame (JObj fs) @ t = l @ newline_char # newline_char # t"
    by (simp add: l_def encode_frame_def frame_end_def del: js_stringify.simps)
  ultimately show ?thesis by (simp add: used empty)
qed

lemma reader_events:
  assumes "\<forall>d \<in> set ds. json_ok d \<and> is_plain_obj d" "sr_buffer r = []"
  shows "sse_feed (List.concat (List.map encode_frame ds)) r =
    r\<lparr>sr_state := snd (anthropic_events ds (sr_state r)), sr_out := sr_out r @ fst (anthropic_events ds (sr_state r))\<rparr>"
  using assms
proof (induction ds arbitrary: r)
  case Nil
  then show ?case using sse.feed_Nil [of r] by simp
next
  case (Cons d ds)
  then obtain fs where d: "d = JObj fs" by (cases d) auto
  let ?r = "r\<lparr>sr_state := snd (anthropic_payload d (sr_state r)), sr_out := sr_out r @ fst (anthropic_payload d (sr_state r))\<rparr>"
  have "sse_feed (encode_frame d @ List.concat (List.map encode_frame ds)) r
      = sse_feed (List.concat (List.map encode_frame ds)) ?r"
    using Cons.prems unfolding d by (intro reader_line) auto
  moreover have "sse_feed (List.concat (List.map encode_frame ds)) ?r =
      ?r\<lparr>sr_state := snd (anthropic_events ds (sr_state ?r)), sr_out := sr_out ?r @ fst (anthropic_events ds (sr_state ?r))\<rparr>"
    using Cons.prems by (intro Cons.IH) auto
  ultimately show ?case by (simp add: case_prod_beta)
qed

text \<open>The token count of one kind that an event reports, and the last one of a list of events.\<close>

definition reported :: "string \<Rightarrow> js \<Rightarrow> int option" where
  "reported key d =
     (if \<not> typeof_object d then None
      else if event_type d = ''message_start'' then js_int (js_get (js_get (js_get d ''message'') ''usage'') key)
      else if event_type d = ''message_delta'' then js_int (js_get (js_get d ''usage'') key)
      else None)"

definition last_reported :: "string \<Rightarrow> js list \<Rightarrow> int option" where
  "last_reported key ds = fold (\<lambda>d acc. case reported key d of Some i \<Rightarrow> Some i | None \<Rightarrow> acc) ds None"

lemma note_usage_simps [simp]:
  "oa_created (note_usage v st) = oa_created st" "oa_finished (note_usage v st) = oa_finished st"
  "oa_opened (note_usage v st) = oa_opened st"
  "oa_input (note_usage v st) = (case js_int (js_get v ''input_tokens'') of Some i \<Rightarrow> Some i | None \<Rightarrow> oa_input st)"
  "oa_output (note_usage v st) = (case js_int (js_get v ''output_tokens'') of Some i \<Rightarrow> Some i | None \<Rightarrow> oa_output st)"
  by (simp_all add: note_usage_def Let_def split: option.splits)

lemma open_once_simps [simp]:
  "oa_created (snd (open_once st)) = oa_created st" "oa_finished (snd (open_once st)) = oa_finished st"
  "oa_input (snd (open_once st)) = oa_input st" "oa_output (snd (open_once st)) = oa_output st"
  by (simp_all add: open_once_def open_chunk_def)

lemma payload_state:
  assumes "event_type d \<noteq> ''message_stop''"
  shows "oa_created (snd (anthropic_payload d st)) = oa_created st"
    "oa_finished (snd (anthropic_payload d st)) = oa_finished st"
    "oa_input (snd (anthropic_payload d st)) =
       (case reported ''input_tokens'' d of Some i \<Rightarrow> Some i | None \<Rightarrow> oa_input st)"
    "oa_output (snd (anthropic_payload d st)) =
       (case reported ''output_tokens'' d of Some i \<Rightarrow> Some i | None \<Rightarrow> oa_output st)"
  using assms
  by (auto simp: anthropic_payload_def reported_def Let_def case_prod_beta split: js.splits if_splits option.splits)

lemma events_state:
  assumes "\<forall>d \<in> set ds. event_type d \<noteq> ''message_stop''"
  shows "oa_created (snd (anthropic_events ds st)) = oa_created st"
    "oa_finished (snd (anthropic_events ds st)) = oa_finished st"
    "oa_input (snd (anthropic_events ds st)) =
       fold (\<lambda>d acc. case reported ''input_tokens'' d of Some i \<Rightarrow> Some i | None \<Rightarrow> acc) ds (oa_input st)"
    "oa_output (snd (anthropic_events ds st)) =
       fold (\<lambda>d acc. case reported ''output_tokens'' d of Some i \<Rightarrow> Some i | None \<Rightarrow> acc) ds (oa_output st)"
  using assms by (induction ds arbitrary: st) (simp_all add: case_prod_beta payload_state)

definition scans_to :: "string \<Rightarrow> scanner \<Rightarrow> nat \<Rightarrow> scanner \<Rightarrow> bool" where
  "scans_to t sc n x \<longleftrightarrow> (\<forall>u. add_text (t @ u) sc = add_text u x) \<and> sc_buffer x = []
     \<and> sc_last_usage x = sc_last_usage sc \<and> sc_output_bytes x = sc_output_bytes sc + n"

lemma scans_to_trans: "scans_to s sc m x \<Longrightarrow> scans_to t x n y \<Longrightarrow> scans_to (s @ t) sc (m + n) y"
  by (simp add: scans_to_def)

lemma scans_to_refl: "sc_buffer sc = [] \<Longrightarrow> scans_to [] sc 0 sc"
  by (simp add: scans_to_def)

lemma scans_open_once:
  assumes "\<bar>oa_created st\<bar> < 10 ^ 21" "sc_buffer sc = []"
  shows "\<exists>x. scans_to (fst (open_once st)) sc 0 x"
proof (cases "oa_opened st")
  case True
  then show ?thesis using scans_to_refl [OF assms(2)] by (auto simp: open_once_def)
next
  case False
  then have "scans_to (fst (open_once st)) sc 0 (counted 0 sc)"
    using scan_frames(1) [OF assms] assms(2) by (simp add: scans_to_def open_once_def open_chunk_def scan_plain_frames)
      (simp add: counted_def)
  then show ?thesis ..
qed

lemma scans_payload:
  assumes "\<bar>oa_created st\<bar> < 10 ^ 21" "sc_buffer sc = []" "event_type d \<noteq> ''message_stop''"
  shows "\<exists>x. scans_to (fst (anthropic_payload d st)) sc (utf8_length (shown_text d)) x"
proof -
  have keep: "scans_to KEEPALIVE sc 0 sc"
    using scan_keepalives [OF assms(2), of 1] assms(2) by (simp add: scans_to_def)
  consider "\<not> typeof_object d" | "typeof_object d" "event_type d = ''message_start''"
    | "typeof_object d" "event_type d = ''content_block_delta''" "delta_text d \<noteq> []"
    | "typeof_object d" "event_type d = ''content_block_delta''" "delta_text d = []"
    | "typeof_object d" "event_type d \<notin> {''message_start'', ''content_block_delta''}"
    by blast
  then show ?thesis
  proof cases
    case 2
    then show ?thesis
      using scans_open_once [OF _ assms(2)] assms(1)
      by (simp add: anthropic_payload_def shown_text_def Let_def split: js.split)
  next
    case 3
    obtain x where x: "scans_to (fst (open_once st)) sc 0 x" using scans_open_once [OF assms(1,2)] by blast
    let ?st = "snd (open_once st)"
    have "scans_to (text_chunk ?st (delta_text d)) x (utf8_length (delta_text d)) (counted (utf8_length (delta_text d)) x)"
      using scan_frames(2) [of ?st x] x assms(1) by (simp add: scans_to_def scan_plain_frames) (simp add: counted_def)
    from scans_to_trans [OF x this] 3 show ?thesis
      by (auto simp: anthropic_payload_def shown_text_def Let_def case_prod_beta)
  next
    case 5
    then show ?thesis using keep scans_to_refl [OF assms(2)] assms(3)
      by (auto simp: anthropic_payload_def shown_text_def)
  qed (use keep scans_to_refl [OF assms(2)] in \<open>auto simp: anthropic_payload_def shown_text_def\<close>)
qed

lemma scans_events:
  assumes "\<bar>oa_created st\<bar> < 10 ^ 21" "sc_buffer sc = []" "\<forall>d \<in> set ds. event_type d \<noteq> ''message_stop''"
  shows "\<exists>x. scans_to (fst (anthropic_events ds st)) sc (sum_list (List.map (\<lambda>d. utf8_length (shown_text d)) ds)) x"
  using assms
proof (induction ds arbitrary: st sc)
  case Nil
  then show ?case using scans_to_refl by auto
next
  case (Cons d ds)
  obtain x where x: "scans_to (fst (anthropic_payload d st)) sc (utf8_length (shown_text d)) x"
    using scans_payload Cons.prems by (metis list.set_intros(1))
  obtain y where "scans_to (fst (anthropic_events ds (snd (anthropic_payload d st)))) x
      (sum_list (List.map (\<lambda>d. utf8_length (shown_text d)) ds)) y"
    using Cons.IH [of "snd (anthropic_payload d st)" x] Cons.prems x by (auto simp: payload_state scans_to_def)
  from scans_to_trans [OF x this] show ?case by (auto simp: case_prod_beta)
qed


definition sample_events :: "js list" where
  "sample_events =
     [JObj [(''type'', JStr ''message_start''), (''message'', JObj [(''id'', JStr ''msg_1''),
        (''usage'', JObj [(''input_tokens'', JNum (NInt 5)), (''output_tokens'', JNum (NInt 1))])])],
      JObj [(''type'', JStr ''content_block_delta''), (''delta'', JObj [(''type'', JStr ''thinking_delta'')])],
      JObj [(''type'', JStr ''content_block_delta''), (''delta'', JObj [(''type'', JStr ''text_delta''), (''text'', JStr ''hi'')])],
      JObj [(''type'', JStr ''message_delta''), (''usage'', JObj [(''output_tokens'', JNum (NInt 2))])]]"


text \<open>Nothing stops the translation after the closing event: a text delta that still arrives is
  emitted behind the [DONE] marker.\<close>

lemma text_after_done:
  assumes "oa_finished st" "oa_opened st" "t \<noteq> []"
  shows "anthropic_payload (JObj [(''type'', JStr ''content_block_delta''),
      (''delta'', JObj [(''type'', JStr ''text_delta''), (''text'', JStr t)])]) st = (text_chunk st t, st)"
  using assms by (simp add: anthropic_payload_def event_type_def delta_text_def open_once_def)

end
