(* ===== verification/VideoDuration.thy ===== *)
theory VideoDuration
  imports NumText
begin

text \<open>
  src/src/video-duration.ts: the duration policy of each video model, the reading of a client's
  duration, and the clamp to the policy.
\<close>

section \<open>Policies\<close>

datatype duration_wire = WireInt | WireVeo

record duration_spec =
  vd_min     :: int
  vd_max     :: int
  vd_default :: int
  vd_allowed :: "int list option"
  vd_wire    :: duration_wire

abbreviation range_spec :: "int \<Rightarrow> int \<Rightarrow> int \<Rightarrow> duration_spec" where
  "range_spec lo hi d \<equiv> \<lparr>vd_min = lo, vd_max = hi, vd_default = d, vd_allowed = None, vd_wire = WireInt\<rparr>"

definition video_duration_spec :: "string \<Rightarrow> duration_spec" where
  "video_duration_spec m =
     (if starts_with ''xai/grok-imagine-video'' m then range_spec 1 15 5
      else if starts_with ''bytedance/seedance'' m then range_spec 4 12 5
      else if starts_with ''google/veo'' m
        then \<lparr>vd_min = 4, vd_max = 8, vd_default = 8, vd_allowed = Some [4, 6, 8], vd_wire = WireVeo\<rparr>
      else if starts_with ''minimax/hailuo'' m
        then \<lparr>vd_min = 6, vd_max = 10, vd_default = 6, vd_allowed = Some [6, 10], vd_wire = WireInt\<rparr>
      else if starts_with ''runwayml/'' m then range_spec 2 10 5
      else if m \<in> {''alibaba/hh1-t2v'', ''alibaba/hh1-i2v'', ''alibaba/hh1.1-t2v'', ''alibaba/hh1.1-i2v''}
        then range_spec 3 15 5
      else if m = ''alibaba/wan-2.7-i2v'' \<or> starts_with ''alibaba/wan'' m then range_spec 2 15 5
      else if m = ''pixverse/v6'' then range_spec 1 15 5
      else if starts_with ''pixverse/'' m
        then \<lparr>vd_min = 5, vd_max = 8, vd_default = 5, vd_allowed = Some [5, 8], vd_wire = WireInt\<rparr>
      else if starts_with ''vidu/'' m then range_spec 1 16 5
      else range_spec 1 15 5)"

section \<open>Reading and clamping\<close>

text \<open>\<open>Math.round\<close>: to the nearest integer, halves upwards.\<close>

definition js_round :: "rat \<Rightarrow> int" where
  "js_round x = \<lfloor>x + 1 / 2\<rfloor>"

definition parse_client_duration :: "js \<Rightarrow> jsnum option" where
  "parse_client_duration raw =
     (case raw of
        JNum n \<Rightarrow> if is_finite_num n then Some (NInt (js_round (rat_of_num n))) else None
      | JStr s \<Rightarrow>
          (let (digits, rest) = scan_digits (js_lower (js_trim s));
               unit_part = dropWhile is_js_space rest
           in if digits \<noteq> [] \<and> unit_part \<in> {[], ''s''} then Some (js_Number digits) else None)
      | _ \<Rightarrow> None)"

text \<open>The first of the allowed values with the smallest distance.\<close>

fun nearest :: "rat \<Rightarrow> int \<Rightarrow> int list \<Rightarrow> int" where
  "nearest base best [] = best"
| "nearest base best (a # as) =
     nearest base (if \<bar>of_int a - base\<bar> < \<bar>of_int best - base\<bar> then a else best) as"

definition requested_base :: "duration_spec \<Rightarrow> jsnum option \<Rightarrow> rat" where
  "requested_base spec requested =
     (case requested of
        Some n \<Rightarrow> if is_finite_num n then rat_of_num n else of_int (vd_default spec)
      | None \<Rightarrow> of_int (vd_default spec))"

definition clamp_video_duration_sec :: "string \<Rightarrow> jsnum option \<Rightarrow> int" where
  "clamp_video_duration_sec m requested =
     (let spec = video_duration_spec m; base = requested_base spec requested in
      case vd_allowed spec of
        Some (a # as) \<Rightarrow> nearest base a (a # as)
      | _ \<Rightarrow> min (vd_max spec) (max (vd_min spec) (js_round base)))"

definition wire_video_duration :: "string \<Rightarrow> int \<Rightarrow> js" where
  "wire_video_duration m seconds =
     (if vd_wire (video_duration_spec m) = WireVeo then JStr (dec_of_int seconds @ ''s'')
      else JNum (NInt seconds))"

definition resolve_video_duration :: "string \<Rightarrow> js \<Rightarrow> int \<times> js" where
  "resolve_video_duration m raw =
     (let seconds = clamp_video_duration_sec m (parse_client_duration raw)
      in (seconds, wire_video_duration m seconds))"

definition video_duration_limits_public :: "string \<Rightarrow> js" where
  "video_duration_limits_public m =
     (let s = video_duration_spec m in
      JObj ([(''min'', JNum (NInt (vd_min s))), (''max'', JNum (NInt (vd_max s))),
             (''default'', JNum (NInt (vd_default s)))]
            @ (case vd_allowed s of
                 Some as \<Rightarrow> [(''allowed'', JArr (List.map (\<lambda>a. JNum (NInt a)) as))] | None \<Rightarrow> [])))"

section \<open>Lemmas\<close>

definition spec_ok :: "duration_spec \<Rightarrow> bool" where
  "spec_ok s \<longleftrightarrow> 0 < vd_min s \<and> vd_min s \<le> vd_default s \<and> vd_default s \<le> vd_max s \<and> vd_max s < 100
     \<and> (case vd_allowed s of Some as \<Rightarrow> as \<noteq> [] \<and> (\<forall>a\<in>set as. vd_min s \<le> a \<and> a \<le> vd_max s) | None \<Rightarrow> True)"

lemma video_duration_spec_ok: "spec_ok (video_duration_spec m)"
  by (simp add: video_duration_spec_def spec_ok_def)

lemma nearest_spec:
  "nearest base best as \<in> insert best (set as)
   \<and> (\<forall>a \<in> insert best (set as). \<bar>of_int (nearest base best as) - base\<bar> \<le> \<bar>of_int a - base\<bar>)"
proof (induction as arbitrary: best)
  case (Cons a as)
  let ?b = "if \<bar>of_int a - base\<bar> < \<bar>of_int best - base\<bar> then a else best"
  have "nearest base best (a # as) = nearest base ?b as" by simp
  moreover have "\<bar>of_int ?b - base\<bar> \<le> \<bar>of_int a - base\<bar>" "\<bar>of_int ?b - base\<bar> \<le> \<bar>of_int best - base\<bar>" by auto
  ultimately show ?case using Cons.IH [of ?b] by (auto simp del: nearest.simps intro: order_trans)
qed simp

lemma js_round_int [simp]: "js_round (of_int i) = i"
proof -
  have "of_int i \<le> (of_int i + 1 / 2 :: rat)" "(of_int i + 1 / 2 :: rat) < of_int i + 1" by simp_all
  then show ?thesis unfolding js_round_def by (simp add: floor_unique)
qed

lemma js_round_numeral [simp]: "js_round (numeral n) = numeral n"
  using js_round_int [of "numeral n"] by simp

text \<open>A clamped duration is a value of the policy, and the nearest one to what was asked for.\<close>

definition in_policy :: "duration_spec \<Rightarrow> int \<Rightarrow> bool" where
  "in_policy s sec \<longleftrightarrow> (case vd_allowed s of Some as \<Rightarrow> sec \<in> set as | None \<Rightarrow> vd_min s \<le> sec \<and> sec \<le> vd_max s)"

lemma clamp_spec:
  fixes m req
  defines "s \<equiv> video_duration_spec m"
  shows "in_policy s (clamp_video_duration_sec m req)"
    and "in_policy s a \<Longrightarrow> requested_base s req = of_int b
      \<Longrightarrow> \<bar>clamp_video_duration_sec m req - b\<bar> \<le> \<bar>a - b\<bar>"
proof -
  have ok: "spec_ok s" unfolding s_def by (rule video_duration_spec_ok)
  show "in_policy s (clamp_video_duration_sec m req)"
  proof (cases "vd_allowed s")
    case None
    with ok show ?thesis
      by (auto simp: clamp_video_duration_sec_def in_policy_def spec_ok_def Let_def s_def)
  next
    case (Some as)
    then obtain x xs where as: "as = x # xs" using ok by (cases as) (auto simp: spec_ok_def)
    with Some nearest_spec [of "requested_base s req" x "x # xs"] show ?thesis
      by (simp add: clamp_video_duration_sec_def in_policy_def Let_def s_def)
  qed
  assume a: "in_policy s a" and b: "requested_base s req = of_int b"
  show "\<bar>clamp_video_duration_sec m req - b\<bar> \<le> \<bar>a - b\<bar>"
  proof (cases "vd_allowed s")
    case None
    with a b ok show ?thesis
      by (auto simp: clamp_video_duration_sec_def in_policy_def spec_ok_def Let_def s_def [symmetric])
  next
    case (Some as)
    then obtain x xs where as: "as = x # xs" using ok by (cases as) (auto simp: spec_ok_def)
    let ?n = "nearest (of_int b) x (x # xs)"
    have "a \<in> insert x (set (x # xs))" using a Some as by (simp add: in_policy_def)
    then have "\<bar>of_int ?n - of_int b :: rat\<bar> \<le> \<bar>of_int a - of_int b\<bar>"
      using nearest_spec [of "of_int b" x "x # xs"] by blast
    then have "\<bar>?n - b\<bar> \<le> \<bar>a - b\<bar>" by (metis of_int_abs of_int_diff of_int_le_iff)
    with Some as b show ?thesis
      by (simp add: clamp_video_duration_sec_def Let_def s_def [symmetric])
  qed
qed

lemma veo_texts:
  assumes "k \<in> {4, 6, 8}"
  shows "parse_client_duration (JStr (dec_of_int k @ ''s'')) = Some (NInt k)"
proof -
  have digits: "scan_digits (js_lower (js_trim (dec_of_int j @ ''s''))) = (dec_of_int j, ''s'')"
    if "j \<in> {4, 6, 8}" for j
    using that by (elim insertE emptyE; simp only:; code_simp)
  have "js_Number (dec_of_int k) = NInt k"
    using js_Number_dec [of "nat k"] assms by (auto simp: dec_of_int_def)
  moreover have "dec_of_int k \<noteq> []" using assms by (auto simp: dec_of_int_def)
  ultimately show ?thesis using digits [OF assms] by (simp add: parse_client_duration_def is_js_space_def ord_of_def)
qed

lemma veo_policy:
  assumes "vd_wire (video_duration_spec m) = WireVeo"
  shows "vd_allowed (video_duration_spec m) = Some [4, 6, 8]"
proof -
  have "starts_with ''google/veo'' m" "\<not> starts_with ''xai/grok-imagine-video'' m"
      "\<not> starts_with ''bytedance/seedance'' m"
    using assms unfolding video_duration_spec_def by (simp_all split: if_split_asm)
  then show ?thesis by (simp add: video_duration_spec_def)
qed

lemma parse_wire:
  assumes "in_policy (video_duration_spec m) sec"
  shows "parse_client_duration (wire_video_duration m sec) = Some (NInt sec)"
proof (cases "vd_wire (video_duration_spec m)")
  case WireInt
  then show ?thesis by (simp add: wire_video_duration_def parse_client_duration_def)
next
  case WireVeo
  then have "sec = 4 \<or> sec = 6 \<or> sec = 8"
    using assms veo_policy [OF WireVeo] by (auto simp: in_policy_def)
  then show ?thesis using WireVeo veo_texts by (auto simp: wire_video_duration_def)
qed

section \<open>Property\<close>

text \<open>Whatever the client sends and whatever the model, the duration that goes upstream is one the
  model's policy allows; among those it is a nearest one to the number of seconds asked for (to the
  default when none can be read); and sending the wire form back resolves to itself.\<close>

lemma video_duration_in_policy:
  fixes m raw
  defines "s \<equiv> video_duration_spec m" and "sec \<equiv> fst (resolve_video_duration m raw)"
  shows "in_policy s sec
    \<and> (\<forall>a b. in_policy s a \<and> requested_base s (parse_client_duration raw) = of_int b \<longrightarrow> \<bar>sec - b\<bar> \<le> \<bar>a - b\<bar>)
    \<and> resolve_video_duration m (snd (resolve_video_duration m raw)) = resolve_video_duration m raw"
proof -
  have sec: "sec = clamp_video_duration_sec m (parse_client_duration raw)"
    by (simp add: sec_def resolve_video_duration_def Let_def)
  have pol: "in_policy s sec" unfolding sec s_def by (rule clamp_spec(1))
  have near: "in_policy s a \<Longrightarrow> requested_base s req = of_int b
      \<Longrightarrow> \<bar>clamp_video_duration_sec m req - b\<bar> \<le> \<bar>a - b\<bar>" for a b req
    unfolding s_def by (rule clamp_spec(2))
  have "clamp_video_duration_sec m (Some (NInt sec)) = sec"
    using near [OF pol, of "Some (NInt sec)" sec] by (simp add: requested_base_def)
  moreover have "parse_client_duration (wire_video_duration m sec) = Some (NInt sec)"
    using parse_wire pol by (simp add: s_def)
  ultimately have "resolve_video_duration m (snd (resolve_video_duration m raw)) = resolve_video_duration m raw"
    by (simp add: resolve_video_duration_def Let_def sec [symmetric])
  then show ?thesis using pol near by (auto simp: sec)
qed

lemma sample_duration:
  "resolve_video_duration ''pixverse/v6'' (JNum (NReal (29 / 2))) = (15, JNum (NInt 15))"
  by code_simp

end
