(* ===== verification/NonchatParams.thy ===== *)
theory NonchatParams
  imports ChatRequest VideoDuration
begin

text \<open>
  The pure half of src/src/nonchat-upstream.ts: the bodies sent to the image, speech, transcription,
  video and music models, and the reading of what they answer.  A body is a JSON value; a field
  that is undefined is left out.
\<close>

section \<open>Shared pieces\<close>

definition MAX_PROMPT_CHARS :: nat where "MAX_PROMPT_CHARS = 8000"
definition MAX_AUDIO_B64_CHARS :: int where "MAX_AUDIO_B64_CHARS = 4 * 1024 * 1024"

abbreviation num :: "int \<Rightarrow> js" where "num i \<equiv> JNum (NInt i)"

definition clip_prompt :: "string \<Rightarrow> string" where
  "clip_prompt p = (if length p \<le> MAX_PROMPT_CHARS then p else take MAX_PROMPT_CHARS p)"

definition is_line_end :: "char \<Rightarrow> bool" where
  "is_line_end c = (ord_of c = 10 \<or> ord_of c = 13)"

text \<open>\<open>/^data:[^;]+;base64,(.+)$/i\<close>, with the payload when it matches.\<close>

definition data_url_payload :: "string \<Rightarrow> string option" where
  "data_url_payload u =
     (let r = drop 5 u; mime = takeWhile (\<lambda>c. c \<noteq> CHR '';'') r; r2 = drop (length mime) r; payload = drop 8 r2
      in if js_lower (take 5 u) = ''data:'' \<and> mime \<noteq> [] \<and> js_lower (take 8 r2) = '';base64,''
            \<and> payload \<noteq> [] \<and> \<not> list_ex is_line_end payload
         then Some payload else None)"

definition strip_data_url_to_base64 :: "string \<Rightarrow> string" where
  "strip_data_url_to_base64 img = (case data_url_payload img of Some p \<Rightarrow> p | None \<Rightarrow> img)"

definition base64_to_bytes :: "string \<Rightarrow> string option" where
  "base64_to_bytes s = atob (List.filter (\<lambda>c. \<not> is_js_space c) s)"

text \<open>A reference image of the client that may be passed on: not too long and with an accepted
  scheme.\<close>

definition accepted_url :: "string list \<Rightarrow> string option \<Rightarrow> string option" where
  "accepted_url schemes url =
     (case url of
        None \<Rightarrow> None
      | Some u \<Rightarrow> if u \<noteq> [] \<and> int (length u) \<le> MAX_AUDIO_B64_CHARS \<and> list_ex (\<lambda>p. starts_with p u) schemes
                  then Some u else None)"

text \<open>A field that is there when its value is.\<close>

definition opt_field :: "string \<Rightarrow> ('a \<Rightarrow> js) \<Rightarrow> 'a option \<Rightarrow> (string \<times> js) list" where
  "opt_field k f v = (case v of Some x \<Rightarrow> [(k, f x)] | None \<Rightarrow> [])"

section \<open>Images\<close>

definition is_flux2_model :: "string \<Rightarrow> bool" where
  "is_flux2_model m = starts_with ''@cf/black-forest-labs/flux-2'' m"

definition is_binding_only_image_model :: "string \<Rightarrow> bool" where
  "is_binding_only_image_model m = (is_flux2_model m
     \<or> m \<in> {''@cf/leonardo/phoenix-1.0'', ''@cf/lykon/dreamshaper-8-lcm'',
            ''@cf/stabilityai/stable-diffusion-xl-base-1.0''})"

definition build_image_params :: "string \<Rightarrow> string \<Rightarrow> string option \<Rightarrow> js" where
  "build_image_params m prompt0 url =
     (let prompt = (''prompt'', JStr (clip_prompt prompt0));
          img = accepted_url [''data:'', ''https://'', ''http://''] url
      in if starts_with ''@cf/black-forest-labs/flux-1-schnell'' m then
           JObj [prompt, (''width'', num 512), (''height'', num 512), (''steps'', num 4)]
         else if starts_with ''@cf/black-forest-labs/flux-2'' m then
           JObj ([prompt, (''width'', num 1024), (''height'', num 1024)]
                 @ opt_field ''input_image_0'' (\<lambda>i. JStr (strip_data_url_to_base64 i)) img)
         else if m = ''@cf/stabilityai/stable-diffusion-xl-base-1.0'' then
           JObj [prompt, (''width'', num 1024), (''height'', num 1024), (''num_steps'', num 20)]
         else if starts_with ''@cf/'' m then
           JObj [prompt, (''width'', num 1024), (''height'', num 1024), (''steps'', num 25)]
         else if m = ''google/imagen-4'' \<or> starts_with ''google/imagen'' m then
           JObj [prompt, (''aspect_ratio'', JStr ''1:1'')]
         else if starts_with ''google/'' m then
           JObj ([prompt, (''output_format'', JStr ''png'')]
                 @ opt_field ''image_input'' (\<lambda>i. JArr [JStr i]) img)
         else if starts_with ''openai/'' m then
           JObj ([prompt, (''quality'', JStr ''high''), (''size'', JStr ''1024x1024'')]
                 @ opt_field ''images'' (\<lambda>i. JArr [JStr i]) img)
         else if starts_with ''xai/'' m then
           JObj ([prompt, (''response_format'', JStr ''b64_json'')]
                 @ opt_field ''image'' (\<lambda>i. JObj [(''url'', JStr i)]) img)
         else JObj ([prompt] @ opt_field ''image'' JStr img))"

text \<open>The multipart form of the FLUX.2 family: text fields and files.\<close>

datatype form_part = FormText string string | FormFile string string string string

definition number_or :: "js \<Rightarrow> int \<Rightarrow> jsnum" where
  "number_or v d = (case v of JNum n \<Rightarrow> n | _ \<Rightarrow> NInt d)"

definition reference_part :: "js \<Rightarrow> nat \<Rightarrow> form_part list" where
  "reference_part params i =
     (let key = ''input_image_'' @ dec_of_nat i in
      case js_get params key of
        JStr v \<Rightarrow>
          if v = [] then []
          else (case base64_to_bytes (strip_data_url_to_base64 v) of
                  Some bytes \<Rightarrow> [FormFile key bytes ''image/png'' (''ref-'' @ dec_of_nat i @ ''.png'')]
                | None \<Rightarrow> [])
      | _ \<Rightarrow> [])"

definition to_flux2_multipart :: "js \<Rightarrow> form_part list" where
  "to_flux2_multipart params =
     [FormText ''prompt'' (str_of_js (js_get params ''prompt'')),
      FormText ''width'' (js_num_string (number_or (js_get params ''width'') 1024)),
      FormText ''height'' (js_num_string (number_or (js_get params ''height'') 1024))]
     @ List.concat (List.map (reference_part params) [0, 1, 2, 3])"

definition prefers_async_image :: "string \<Rightarrow> bool" where
  "prefers_async_image m = (m = ''openai/gpt-image-2'')"

section \<open>Speech and transcription\<close>

definition default_tts_voice :: "string \<Rightarrow> string" where
  "default_tts_voice m =
     (if contains_str ''aura-2-es'' m \<or> ends_with ''/aura-2-es'' m then ''sirio'' else ''luna'')"

definition build_tts_params :: "string \<Rightarrow> string \<Rightarrow> string option \<Rightarrow> js" where
  "build_tts_params m text0 voice =
     (let txt = JStr (clip_prompt text0) in
      if contains_str ''melotts'' m then JObj [(''prompt'', txt), (''lang'', JStr ''en'')]
      else
        (let speaker = (case voice of
               Some v \<Rightarrow> if js_trim v \<noteq> [] then js_lower (js_trim v) else default_tts_voice m
             | None \<Rightarrow> default_tts_voice m)
         in JObj [(''text'', txt), (''speaker'', JStr speaker), (''voice'', JStr speaker),
                  (''encoding'', JStr ''mp3'')]))"

definition is_classic_whisper :: "string \<Rightarrow> bool" where
  "is_classic_whisper m = (m = ''@cf/openai/whisper'' \<or> m = ''@cf/openai/whisper-tiny-en''
     \<or> ends_with ''/whisper'' m \<or> ends_with ''/whisper-tiny-en'' m)"

definition clip_audio :: "string \<Rightarrow> string" where
  "clip_audio a = (if int (length a) \<le> MAX_AUDIO_B64_CHARS then a else take (nat MAX_AUDIO_B64_CHARS) a)"

text \<open>\<open>None\<close> is the exception of \<open>atob\<close>.\<close>

definition build_stt_params :: "string \<Rightarrow> string \<Rightarrow> js option" where
  "build_stt_params m audio64 =
     (let audio = clip_audio audio64 in
      if is_classic_whisper m then
        map_option (\<lambda>bytes. JObj [(''audio'', JArr (List.map (\<lambda>c. num (int (ord_of c))) bytes))])
          (base64_to_bytes audio)
      else Some (JObj [(''audio'', JStr audio)]))"

definition is_deepgram_batch_stt :: "string \<Rightarrow> bool" where
  "is_deepgram_batch_stt m = (starts_with ''@cf/deepgram/'' m \<and> \<not> contains_str ''flux'' m)"

text \<open>The bytes and the content type of the stream.\<close>

definition build_deepgram_params :: "string \<Rightarrow> string \<Rightarrow> (string \<times> string) option" where
  "build_deepgram_params audio64 mime =
     map_option (\<lambda>bytes. (bytes, if mime \<noteq> [] \<and> starts_with ''audio/'' mime then mime else ''audio/mpeg''))
       (base64_to_bytes (clip_audio audio64))"

section \<open>Video and music\<close>

definition video_duration_wire :: "string \<Rightarrow> jsnum option \<Rightarrow> js" where
  "video_duration_wire m dur =
     (case dur of
        Some n \<Rightarrow> if is_finite_num n then snd (resolve_video_duration m (JNum n))
                  else snd (resolve_video_duration m JNull)
      | None \<Rightarrow> snd (resolve_video_duration m JNull))"

definition accepted_upload_url :: "string option \<Rightarrow> string option" where
  "accepted_upload_url url =
     (case url of
        None \<Rightarrow> None
      | Some u \<Rightarrow> if u \<noteq> [] \<and> length u \<le> 2048 \<and> (starts_with ''https://'' u \<or> starts_with ''http://'' u)
                  then Some u else None)"

definition upload_field :: "string option \<Rightarrow> (string \<times> js) list" where
  "upload_field u = opt_field ''output'' (\<lambda>x. JObj [(''upload_url'', JStr x)]) u"

definition image_video_params :: "string \<Rightarrow> string \<Rightarrow> string \<Rightarrow> string option \<Rightarrow> js \<Rightarrow> (string \<times> js) list" where
  "image_video_params m prompt img upload dur =
     (let p = (''prompt'', JStr prompt); d = (''duration'', dur) in
      if starts_with ''bytedance/seedance'' m then
        [(''image'', JStr img), p, (''aspect_ratio'', JStr ''16:9''), d, (''resolution'', JStr ''720p''),
         (''fps'', num 24), (''camera_fixed'', JBool False), (''watermark'', JBool False),
         (''generate_audio'', JBool False)]
      else if starts_with ''minimax/hailuo'' m then
        [(''first_frame_image'', JStr img), p, d, (''resolution'', JStr ''768P''),
         (''fast_pretreatment'', JBool False), (''prompt_optimizer'', JBool True)]
      else if starts_with ''runwayml/'' m then
        [(''image_input'', JStr img), p, d, (''ratio'', JStr ''1280:720''),
         (''content_moderation'', JObj [(''public_figure_threshold'', JStr ''low'')])]
      else if m \<in> {''alibaba/hh1-i2v'', ''alibaba/hh1.1-i2v'', ''alibaba/wan-2.7-i2v''} then
        [(''image'', JStr img), (''resolution'', JStr ''720P''), d] @ (if prompt \<noteq> [] then [p] else [])
      else if starts_with ''xai/grok-imagine-video'' m then
        [p, d, (''aspect_ratio'', JStr ''16:9''), (''resolution'', JStr ''720p''),
         (''image'', JObj [(''url'', JStr img)])] @ upload_field upload
      else if starts_with ''pixverse/'' m \<or> starts_with ''vidu/'' m then
        [p, (''image'', JStr img), d, (''aspect_ratio'', JStr ''16:9'')]
        @ (if starts_with ''pixverse/'' m then [(''generate_audio'', JBool True), (''quality'', JStr ''720p'')]
           else [(''resolution'', JStr ''720p'')])
      else [(''image'', JStr img), p, d])"

definition text_video_params :: "string \<Rightarrow> string \<Rightarrow> string option \<Rightarrow> js \<Rightarrow> (string \<times> js) list" where
  "text_video_params m prompt upload dur =
     (let p = (''prompt'', JStr prompt); d = (''duration'', dur) in
      if starts_with ''minimax/hailuo'' m then
        [p, d, (''resolution'', JStr ''768P''), (''prompt_optimizer'', JBool True),
         (''first_frame_image'', JStr [])]
      else if starts_with ''xai/grok-imagine-video'' m then
        [p, d, (''aspect_ratio'', JStr ''16:9''), (''resolution'', JStr ''720p'')] @ upload_field upload
      else if starts_with ''bytedance/seedance'' m then
        [p, (''aspect_ratio'', JStr ''16:9''), d, (''resolution'', JStr ''720p''), (''fps'', num 24),
         (''camera_fixed'', JBool False), (''watermark'', JBool False)]
      else if starts_with ''runwayml/'' m then
        [p, d, (''ratio'', JStr ''1280:720''),
         (''content_moderation'', JObj [(''public_figure_threshold'', JStr ''low'')])]
      else if starts_with ''alibaba/'' m then [p, (''resolution'', JStr ''720P''), d]
      else if starts_with ''pixverse/'' m then
        [p, d, (''aspect_ratio'', JStr ''16:9''), (''generate_audio'', JBool True), (''quality'', JStr ''720p'')]
      else if starts_with ''vidu/'' m then [p, d, (''resolution'', JStr ''720p'')]
      else [p, d, (''aspect_ratio'', JStr ''16:9''), (''resolution'', JStr ''720p''),
            (''generate_audio'', JBool True)])"

definition build_video_params ::
  "string \<Rightarrow> string \<Rightarrow> string option \<Rightarrow> string option \<Rightarrow> jsnum option \<Rightarrow> js" where
  "build_video_params m prompt0 url upload0 duration_sec =
     (let prompt = clip_prompt prompt0; upload = accepted_upload_url upload0;
          dur = video_duration_wire m duration_sec
      in JObj (case accepted_url [''data:'', ''https://''] url of
           Some img \<Rightarrow> image_video_params m prompt img upload dur
         | None \<Rightarrow> text_video_params m prompt upload dur))"

definition build_music_params :: "string \<Rightarrow> string option \<Rightarrow> bool option \<Rightarrow> bool option \<Rightarrow> js" where
  "build_music_params prompt lyrics instrumental optimizer =
     (let words = (case lyrics of Some l \<Rightarrow> js_trim l | None \<Rightarrow> []);
          has_lyrics = (words \<noteq> []);
          is_instrumental = (case instrumental of Some b \<Rightarrow> b | None \<Rightarrow> \<not> has_lyrics);
          optimize = (case optimizer of Some b \<Rightarrow> b | None \<Rightarrow> \<not> (has_lyrics \<or> is_instrumental))
      in JObj ([(''prompt'', JStr (clip_prompt prompt)), (''is_instrumental'', JBool is_instrumental),
                (''lyrics_optimizer'', JBool optimize), (''format'', JStr ''mp3'')]
               @ (if has_lyrics then [(''lyrics'', JStr (clip_prompt words))] else [])))"

section \<open>Reading the answers\<close>

text \<open>A property that is a non-empty string.\<close>

definition text_field :: "js \<Rightarrow> string \<Rightarrow> string option" where
  "text_field v k = (case js_get v k of JStr s \<Rightarrow> if s \<noteq> [] then Some s else None | _ \<Rightarrow> None)"

definition any_text :: "js \<Rightarrow> string \<Rightarrow> string option" where
  "any_text v k = (case js_get v k of JStr s \<Rightarrow> Some s | _ \<Rightarrow> None)"

definition or_try :: "'a option \<Rightarrow> 'a option \<Rightarrow> 'a option" where
  "or_try a b = (case a of Some x \<Rightarrow> Some x | None \<Rightarrow> b)"

definition first_elem :: "js \<Rightarrow> js" where
  "first_elem v = (case v of JArr (x # _) \<Rightarrow> x | _ \<Rightarrow> JUndef)"

text \<open>The fields of the image answer itself, before its \<open>result\<close>.\<close>

definition image_here :: "js \<Rightarrow> string option" where
  "image_here r =
     or_try (text_field r ''image'')
    (or_try (case text_field r ''url'' of Some u \<Rightarrow> if starts_with ''http'' u then Some u else None | None \<Rightarrow> None)
    (or_try (case first_elem (js_get r ''images'') of JStr s \<Rightarrow> Some s | _ \<Rightarrow> None)
            (let d = first_elem (js_get r ''data'') in
             if typeof_object d then or_try (text_field d ''b64_json'') (text_field d ''url'') else None)))"

function extract_image_raw :: "js \<Rightarrow> string option" where
  "extract_image_raw r =
     (if \<not> typeof_object r then None
      else or_try (image_here r)
        (if typeof_object (js_get r ''result'') then extract_image_raw (js_get r ''result'') else None))"
  by auto
termination by (relation "measure size") (simp_all add: size_js_get)

declare extract_image_raw.simps [simp del]

text \<open>\<open>/^data:image\/[a-zA-Z0-9.+-]+;base64,(.+)$/\<close>.\<close>

definition strip_image_data_url :: "string \<Rightarrow> string" where
  "strip_image_data_url u =
     (let r = drop 11 u; mime = takeWhile is_mime_char r; r2 = drop (length mime) r; payload = drop 8 r2
      in if take 11 u = ''data:image/'' \<and> mime \<noteq> [] \<and> take 8 r2 = '';base64,''
            \<and> payload \<noteq> [] \<and> \<not> list_ex is_line_end payload
         then payload else u)"

datatype image_asset = AssetUrl string | AssetB64 string

definition extract_image_asset :: "js \<Rightarrow> image_asset option" where
  "extract_image_asset body =
     (case extract_image_raw body of
        None \<Rightarrow> None
      | Some raw \<Rightarrow>
          if raw = [] then None
          else if starts_with ''https://'' raw \<or> starts_with ''http://'' raw then Some (AssetUrl raw)
          else if starts_with ''data:image/'' raw then Some (AssetB64 (strip_image_data_url raw))
          else Some (AssetB64 raw))"

definition extract_audio_base64 :: "js \<Rightarrow> string option" where
  "extract_audio_base64 body =
     (if \<not> typeof_object body then None
      else or_try (any_text body ''audio'')
             (if typeof_object (js_get body ''result'') then any_text (js_get body ''result'') ''audio'' else None))"

text \<open>\<open>v?.[0]\<close> and the property reads of the Deepgram envelope.\<close>

definition opt_index0 :: "js \<Rightarrow> js" where
  "opt_index0 v =
     (case v of JArr _ \<Rightarrow> first_elem v | JStr (c # _) \<Rightarrow> JStr [c] | JObj _ \<Rightarrow> js_get v ''0'' | _ \<Rightarrow> JUndef)"

definition extract_deepgram_transcript :: "js \<Rightarrow> string option" where
  "extract_deepgram_transcript v =
     (if \<not> typeof_object v then None
      else
       (let results = js_get v ''results'';
            channel_text = any_text (opt_index0 (js_get (opt_index0 (js_get results ''channels'')) ''alternatives'')) ''transcript'';
            direct_text = any_text (opt_index0 (js_get results ''alternatives'')) ''transcript''
        in if channel_text \<noteq> None then map_option js_trim channel_text
           else if direct_text \<noteq> None then map_option js_trim direct_text
           else if js_truthy results
                   \<and> (js_truthy (js_get results ''channels'') \<or> js_truthy (js_get results ''alternatives''))
             then Some []
           else map_option js_trim (or_try (any_text v ''transcript'') (any_text v ''text''))))"

function extract_transcript :: "js \<Rightarrow> string option" where
  "extract_transcript r =
     (if \<not> typeof_object r then None
      else or_try (any_text r ''text'')
          (or_try (any_text r ''transcript'')
          (or_try (extract_deepgram_transcript r)
            (if typeof_object (js_get r ''result'') then extract_transcript (js_get r ''result'')
             else any_text r ''response''))))"
  by auto
termination by (relation "measure size") (simp_all add: size_js_get)

declare extract_transcript.simps [simp del]

text \<open>The text of a failure, when the envelope of the answer states one.\<close>

definition provider_state_failed :: "js \<Rightarrow> string option" where
  "provider_state_failed body =
     (if \<not> typeof_object body then None
      else case text_field body ''error'' of
        Some e \<Rightarrow> Some (take 200 e)
      | None \<Rightarrow>
     (case js_get body ''state'' of
        JStr s \<Rightarrow>
          if s \<noteq> ''Completed'' \<and> s \<noteq> ''succeeded''
          then Some (''provider state '' @ [CHR 0x22] @ s @ [CHR 0x22])
          else if js_get body ''success'' = JBool False then Some ''provider success=false'' else None
      | _ \<Rightarrow> if js_get body ''success'' = JBool False then Some ''provider success=false'' else None))"

text \<open>A video or music asset: the flat field, the one of \<open>result\<close>, or a URL.\<close>

definition asset_of :: "string \<Rightarrow> js \<Rightarrow> string option" where
  "asset_of k body =
     (if provider_state_failed body \<noteq> None \<or> \<not> typeof_object body then None
      else or_try (text_field body k)
          (or_try (let r = js_get body ''result'' in
                   if typeof_object r then or_try (text_field r k) (text_field r ''url'') else None)
                  (text_field body ''url'')))"

definition extract_video_asset :: "js \<Rightarrow> string option" where
  "extract_video_asset body = asset_of ''video'' body"

definition extract_music_asset :: "js \<Rightarrow> string option" where
  "extract_music_asset body = asset_of ''audio'' body"

lemma answer_examples:
  "extract_transcript (JObj [(''result'', JObj [(''results'', JObj [(''channels'', JArr [])])])]) = Some []"
  "extract_image_asset (JObj [(''result'', JObj [(''images'', JArr [JStr ''data:image/png;base64,QUI=''])])]) =
     Some (AssetB64 ''QUI='')"
  by (simp_all add: extract_transcript.simps extract_image_raw.simps extract_image_asset_def image_here_def
      or_try_def any_text_def text_field_def first_elem_def extract_deepgram_transcript_def opt_index0_def)
    code_simp

end
