(* ===== verification/Upstream.thy ===== *)
theory Upstream
  imports UpstreamBody AnthropicSse NonchatParams CatalogData Env
begin

text \<open>
  The runners of src/src/upstream.ts and src/src/nonchat-upstream.ts: which calls leave the plane for
  a request, over which transport, and what their outcomes become.  The network is a parameter: any
  function from a call and its own state to an outcome.  Every call made is logged, so that what the
  code promises of each of them can be stated.
\<close>

section \<open>The network\<close>

datatype run_input = RunJson js | RunForm "form_part list"

datatype upstream_call =
    HttpCall (call_url: string) (call_headers: "(string \<times> string) list") (call_body: string)
  | RunCall (call_model: string) (call_input: run_input) (call_options: "js option")

datatype body_read = NoBody | BodyBytes string | BodyBroken string

record http_answer =
  ha_status  :: int
  ha_headers :: "(string \<times> string) list"
  ha_body    :: body_read

datatype fetch_outcome = FetchAnswer http_answer | FetchAborted | FetchFailed string

datatype run_value = ValueJson js | ValueBytes string | ValueStream body_read

text \<open>With the value comes the log id that the binding then shows.\<close>

datatype run_outcome = RunValue run_value "string option" | RunTimedOut | RunFailed string

record 'n network =
  net_fetch      :: "upstream_call \<Rightarrow> 'n \<Rightarrow> fetch_outcome \<times> 'n"
  net_run        :: "upstream_call \<Rightarrow> 'n \<Rightarrow> run_outcome \<times> 'n"
  net_ticks      :: "'n \<Rightarrow> nat"
  net_random     :: "'n \<Rightarrow> string"
  net_now        :: "'n \<Rightarrow> int"
  net_error_text :: "exn \<Rightarrow> string"

type_synonym ('a, 'n) net_m = "'n \<times> upstream_call list \<Rightarrow> 'a \<times> 'n \<times> upstream_call list"

definition net_ret :: "'a \<Rightarrow> ('a, 'n) net_m" where
  "net_ret x = (\<lambda>s. (x, s))"

definition net_bind :: "('a, 'n) net_m \<Rightarrow> ('a \<Rightarrow> ('b, 'n) net_m) \<Rightarrow> ('b, 'n) net_m" where
  "net_bind f k = (\<lambda>s. case f s of (x, s') \<Rightarrow> k x s')"

definition do_fetch :: "'n network \<Rightarrow> upstream_call \<Rightarrow> (fetch_outcome, 'n) net_m" where
  "do_fetch net c = (\<lambda>(n, cs). case net_fetch net c n of (o', n') \<Rightarrow> (o', n', cs @ [c]))"

definition do_run :: "'n network \<Rightarrow> upstream_call \<Rightarrow> (run_outcome, 'n) net_m" where
  "do_run net c = (\<lambda>(n, cs). case net_run net c n of (o', n') \<Rightarrow> (o', n', cs @ [c]))"

definition net_get :: "('n, 'n) net_m" where
  "net_get = (\<lambda>(n, cs). (n, n, cs))"

definition is_ok_status :: "int \<Rightarrow> bool" where
  "is_ok_status st = (200 \<le> st \<and> st \<le> 299)"

section \<open>Chat over HTTP\<close>

record upstream_answer =
  ua_result :: inference_result
  ua_detail :: string
  ua_stream :: "body_read option"

definition plain_answer :: "inference_result \<Rightarrow> upstream_answer" where
  "plain_answer r = \<lparr>ua_result = r, ua_detail = [], ua_stream = None\<rparr>"

definition answer_of_fetch :: "gateway_deps \<Rightarrow> bool \<Rightarrow> fetch_outcome \<Rightarrow> upstream_answer" where
  "answer_of_fetch d streaming outcome =
     (case outcome of
        FetchAborted \<Rightarrow> plain_answer (InfTimeout (gd_timeout d))
      | FetchFailed m \<Rightarrow> (plain_answer (InfUpstreamError None))\<lparr>ua_detail := take 400 m\<rparr>
      | FetchAnswer a \<Rightarrow>
          (let lid = get_header ''cf-aig-log-id'' (ha_headers a) in
           if \<not> is_ok_status (ha_status a) then
             (plain_answer (InfUpstreamError (Some (ha_status a))))\<lparr>ua_detail :=
                (case ha_body a of
                   NoBody \<Rightarrow> []
                 | BodyBytes b \<Rightarrow> take 400 (utf8_decode b)
                 | BodyBroken _ \<Rightarrow> ''(upstream error body unreadable)'')\<rparr>
           else if streaming then
             (if ha_body a = NoBody then plain_answer (InfUpstreamError (Some (ha_status a)))
              else (plain_answer (InfStream lid))\<lparr>ua_stream := Some (ha_body a)\<rparr>)
           else (case ha_body a of
               BodyBytes b \<Rightarrow>
                 (case json_parse (utf8_decode b) of
                    Some j \<Rightarrow> plain_answer (InfOk j lid)
                  | None \<Rightarrow> plain_answer (InfUpstreamError (Some (ha_status a))))
             | _ \<Rightarrow> plain_answer (InfUpstreamError (Some (ha_status a))))))"

definition fetch_once ::
  "'n network \<Rightarrow> gateway_deps \<Rightarrow> inference_request \<Rightarrow> string \<Rightarrow> js \<Rightarrow> (upstream_answer, 'n) net_m" where
  "fetch_once net d rq url body =
     net_bind (do_fetch net (HttpCall url (upstream_headers rq d) (js_stringify body)))
       (\<lambda>outcome. net_ret (answer_of_fetch d (ir_stream rq) outcome))"

definition VISION_AGREE_MODEL :: string where
  "VISION_AGREE_MODEL = ''@cf/meta/llama-3.2-11b-vision-instruct''"

definition is_model_agreement_error :: "int \<Rightarrow> string \<Rightarrow> bool" where
  "is_model_agreement_error status detail =
     (status = 403 \<and> (let t = js_lower detail in
        contains_str ''model agreement'' t
        \<or> contains_str (''submit the prompt '' @ [CHR 0x27] @ ''agree'' @ [CHR 0x27]) t
        \<or> contains_str (''submit the prompt '' @ [CHR 0x22] @ ''agree'' @ [CHR 0x22]) t))"

definition agree_call :: "gateway_deps \<Rightarrow> inference_request \<Rightarrow> upstream_call" where
  "agree_call d rq =
     HttpCall (CF_API_HOST @ ''/client/v4/accounts/'' @ gd_account d @ ''/ai/run/'' @ VISION_AGREE_MODEL)
       [(''authorization'', ''Bearer '' @ ir_auth_value rq), (''content-type'', ''application/json'')]
       (js_stringify (JObj [(''prompt'', JStr ''agree'')]))"

definition needs_agreement :: "inference_request \<Rightarrow> upstream_answer \<Rightarrow> bool" where
  "needs_agreement rq a =
     (case ua_result a of
        InfUpstreamError (Some st) \<Rightarrow>
          is_model_agreement_error st (ua_detail a)
          \<and> (ir_upstream_model rq = VISION_AGREE_MODEL \<or> contains_str ''llama-3.2-11b-vision'' (ir_upstream_model rq))
      | _ \<Rightarrow> False)"

definition run_over_http :: "'n network \<Rightarrow> gateway_deps \<Rightarrow> inference_request \<Rightarrow> (upstream_answer, 'n) net_m" where
  "run_over_http net d rq =
     (let url = (if ir_responses_api rq then responses_url d rq else upstream_url d (ir_billing rq));
          body = (if ir_responses_api rq then responses_body rq else upstream_body rq)
      in net_bind (fetch_once net d rq url body) (\<lambda>first.
         if needs_agreement rq first
         then net_bind (do_fetch net (agree_call d rq)) (\<lambda>_. fetch_once net d rq url body)
         else net_ret first))"

section \<open>Chat over the binding\<close>

definition is_allowed_binding_chat_model :: "string \<Rightarrow> bool" where
  "is_allowed_binding_chat_model m =
     (case find_model m of
        Some e \<Rightarrow> ce_modality e = Chat \<and> ce_binding e \<and> ce_id e = m
      | None \<Rightarrow> False)"

text \<open>An answer that is not JSON has none of the properties the readers look at.\<close>

definition value_js :: "run_value \<Rightarrow> js" where
  "value_js v = (case v of ValueJson j \<Rightarrow> j | _ \<Rightarrow> JObj [])"

definition binding_timeout :: "gateway_deps \<Rightarrow> string \<Rightarrow> int" where
  "binding_timeout d m =
     (if starts_with ''anthropic/'' m \<or> starts_with ''google/'' m then max (gd_timeout d) 180000 else gd_timeout d)"

definition buffered_native :: "inference_request \<Rightarrow> string \<Rightarrow> bool" where
  "buffered_native rq m = (ir_stream rq \<and> (starts_with ''anthropic/'' m \<or> is_gemini_model m))"

definition deferred_outcome :: "'n network \<Rightarrow> string \<Rightarrow> run_outcome \<Rightarrow> string + completion" where
  "deferred_outcome net m outcome =
     (case outcome of
        RunTimedOut \<Rightarrow> Inl ''timeout''
      | RunFailed msg \<Rightarrow> Inl msg
      | RunValue v lid \<Rightarrow>
          (case extract_text (value_js v) of
             Inl e \<Rightarrow> Inl (net_error_text net e)
           | Inr None \<Rightarrow> Inl ((if starts_with ''google/'' m then ''Gemini'' else ''Anthropic'')
                            @ '' binding returned no extractable text'')
           | Inr (Some t) \<Rightarrow> Inr (completion_of t (extract_usage (value_js v)))))"

definition binding_call :: "gateway_deps \<Rightarrow> string \<Rightarrow> inference_request \<Rightarrow> upstream_call" where
  "binding_call d m rq = RunCall m (RunJson (binding_chat_body rq)) (Some (binding_gateway_options (gd_gateway d)))"

definition answer_of_run :: "gateway_deps \<Rightarrow> string \<Rightarrow> bool \<Rightarrow> run_outcome \<Rightarrow> upstream_answer" where
  "answer_of_run d m streaming outcome =
     (case outcome of
        RunTimedOut \<Rightarrow> plain_answer (InfTimeout (binding_timeout d m))
      | RunFailed msg \<Rightarrow> (plain_answer (InfUpstreamError None))\<lparr>ua_detail := take 200 msg\<rparr>
      | RunValue v lid \<Rightarrow>
          if streaming then
            (case v of
               ValueStream b \<Rightarrow> (plain_answer (InfStream lid))\<lparr>ua_stream := Some b\<rparr>
             | _ \<Rightarrow> plain_answer (InfUpstreamError None))
          else plain_answer (InfOk (value_js v) lid))"

definition chat_via_binding ::
  "'n network \<Rightarrow> gateway_deps \<Rightarrow> bool \<Rightarrow> inference_request \<Rightarrow> (upstream_answer, 'n) net_m" where
  "chat_via_binding net d has_ai rq =
     (case ir_binding_model rq of
        None \<Rightarrow> net_ret (plain_answer (InfUpstreamError None))
      | Some m \<Rightarrow>
          if \<not> has_ai \<or> m = [] then net_ret (plain_answer (InfUpstreamError None))
          else if \<not> is_allowed_binding_chat_model m then net_ret (plain_answer (InfUpstreamError None))
          else if buffered_native rq m then
            net_bind net_get (\<lambda>n.
            net_bind (do_run net (binding_call d m (rq\<lparr>ir_stream := False\<rparr>))) (\<lambda>outcome.
            net_bind net_get (\<lambda>n2.
            net_ret ((plain_answer (InfStream None))\<lparr>ua_stream := Some (BodyBytes (utf8_encode
              (deferred_stream (new_openai_state None m None (net_random net n) (net_now net n))
                 (net_ticks net n2) (deferred_outcome net m outcome))))\<rparr>))))
          else
            net_bind (do_run net (binding_call d m rq)) (\<lambda>outcome.
            net_ret (answer_of_run d m (ir_stream rq) outcome)))"

text \<open>\<open>runnerFor(deps).run(request)\<close>.\<close>

definition run_upstream ::
  "'n network \<Rightarrow> gateway_deps \<Rightarrow> bool \<Rightarrow> inference_request \<Rightarrow> (upstream_answer, 'n) net_m" where
  "run_upstream net d has_ai rq =
     (case ir_binding_model rq of
        Some (c # cs) \<Rightarrow> chat_via_binding net d has_ai rq
      | _ \<Rightarrow> run_over_http net d rq)"

text \<open>\<open>gatewayRunner(env)\<close>: None when the gateway is not configured.\<close>

definition gateway_runner ::
  "'n network \<Rightarrow> env \<Rightarrow> bool \<Rightarrow> (inference_request \<Rightarrow> (upstream_answer, 'n) net_m) option" where
  "gateway_runner net e has_ai =
     map_option (\<lambda>g. run_upstream net \<lparr>gd_account = gc_account_id g, gd_gateway = gc_id g,
         gd_timeout = upstream_timeout_ms e, gd_collect_log = gc_collect_log g\<rparr> has_ai)
       (gateway_config_of e)"

section \<open>The non-chat runner\<close>

record nonchat_request =
  nr_upstream_model :: string
  nr_billing        :: billing
  nr_modality       :: modality
  nr_params         :: js
  nr_auth_value     :: string
  nr_metadata       :: "(string \<times> string) list"

datatype nonchat_result =
    NcOk (nc_body: js) (nc_log_id: "string option") (nc_type: "string option")
  | NcUpstreamError "int option" string
  | NcTimeout int
  | NcUnavailable

definition is_cf_model :: "string \<Rightarrow> bool" where
  "is_cf_model m = starts_with ''@cf/'' m"

definition is_path_char :: "char \<Rightarrow> bool" where
  "is_path_char c = (let n = ord_of c in
     (48 \<le> n \<and> n \<le> 57) \<or> (65 \<le> n \<and> n \<le> 90) \<or> (97 \<le> n \<and> n \<le> 122) \<or> n \<in> {46, 95, 45})"

text \<open>\<open>/^@cf\/[A-Za-z0-9._-]+(\/[A-Za-z0-9._-]+)+$/\<close> segment by segment, and the extra checks.\<close>

definition safe_cf_run_path :: "string \<Rightarrow> string option" where
  "safe_cf_run_path m =
     (let segs = split_on CHR ''/'' m in
      if \<not> is_cf_model m then None
      else if contains_str ''..'' m \<or> contains_str ''//'' m \<or> contains_str [CHR 0x5C] m \<or> contains_str ''?'' m
        \<or> contains_str ''#'' m \<or> contains_str ''%'' m
        \<or> \<not> (hd segs = ''@cf'' \<and> 3 \<le> length segs
             \<and> list_all (\<lambda>s. s \<noteq> [] \<and> list_all is_path_char s) (tl segs))
        then None
      else Some (join_with ''/'' (List.map encode_uri_component segs)))"

definition assert_catalog_upstream :: "string \<Rightarrow> bool" where
  "assert_catalog_upstream m =
     (case find_model m of
        Some e \<Rightarrow> ce_upstream e = m \<or> ce_id e = m
      | None \<Rightarrow> False)"

definition content_type_looks_binary_audio :: "string option \<Rightarrow> bool" where
  "content_type_looks_binary_audio ct =
     (case ct of
        None \<Rightarrow> False
      | Some t \<Rightarrow> (let c = js_lower t in contains_str ''audio/'' c \<or> contains_str ''application/octet-stream'' c
                     \<or> contains_str ''application/mpeg'' c))"

definition ords :: "string \<Rightarrow> nat list" where
  "ords s = List.map ord_of s"

definition looks_like_image_bytes :: "string \<Rightarrow> bool" where
  "looks_like_image_bytes b =
     (let n = ords b in
      if length b < 4 then False
      else if take 4 n = [137, 80, 78, 71] then True
      else if take 3 n = [255, 216, 255] then True
      else 12 \<le> length b \<and> take 4 n = [82, 73, 70, 70] \<and> take 4 (drop 8 n) = [87, 69, 66, 80])"

definition binary_to_field :: "string \<Rightarrow> modality option \<Rightarrow> js" where
  "binary_to_field b m =
     (if m = Some Image \<or> (m \<noteq> Some Tts \<and> m \<noteq> Some Music \<and> looks_like_image_bytes b)
      then JObj [(''image'', JStr (btoa b))] else JObj [(''audio'', JStr (btoa b))])"

text \<open>A stream that fails throws; an empty one is passed on as the object it is.\<close>

definition normalize_nonchat_body :: "run_value \<Rightarrow> modality option \<Rightarrow> string + js" where
  "normalize_nonchat_body v m =
     (case v of
        ValueJson j \<Rightarrow> Inr j
      | ValueBytes b \<Rightarrow> Inr (binary_to_field b m)
      | ValueStream (BodyBytes b) \<Rightarrow> Inr (if b = [] then JObj [] else binary_to_field b m)
      | ValueStream NoBody \<Rightarrow> Inr (JObj [])
      | ValueStream (BodyBroken msg) \<Rightarrow> Inl msg)"

definition rest_headers :: "gateway_deps \<Rightarrow> nonchat_request \<Rightarrow> (string \<times> string) list" where
  "rest_headers d rq =
     [(''authorization'', ''Bearer '' @ nr_auth_value rq),
      (''cf-aig-gateway-id'', gd_gateway d),
      (COLLECT_LOG_PAYLOAD_HEADER, ''false''),
      (''cf-aig-collect-log'', if gd_collect_log d then ''true'' else ''false''),
      (''cf-aig-metadata'', metadata_text (nr_metadata rq)),
      (''content-type'', ''application/json''),
      (''accept'', ''application/json'')]"

definition rest_error_detail :: "int \<Rightarrow> string \<Rightarrow> string" where
  "rest_error_detail status body =
     (let detail = (case json_parse body of
            Some j \<Rightarrow> if js_truthy (js_get j ''errors'') then take 400 (js_stringify (js_get j ''errors'')) else take 400 body
          | None \<Rightarrow> take 400 body)
      in if detail = [] then ''HTTP '' @ dec_of_int status else detail)"

definition rest_json :: "string \<Rightarrow> js" where
  "rest_json body =
     (let parsed = (if body = [] then JNull
            else (case json_parse body of Some j \<Rightarrow> j | None \<Rightarrow> JObj [(''raw'', JStr (take 200 body))]))
      in case parsed of
           JObj fs \<Rightarrow> (case map_of fs ''result'' of Some r \<Rightarrow> r | None \<Rightarrow> parsed)
         | _ \<Rightarrow> parsed)"

definition nonchat_of_fetch :: "gateway_deps \<Rightarrow> fetch_outcome \<Rightarrow> nonchat_result" where
  "nonchat_of_fetch d outcome =
     (case outcome of
        FetchAborted \<Rightarrow> NcTimeout (gd_timeout d)
      | FetchFailed m \<Rightarrow> NcUpstreamError None (take 400 m)
      | FetchAnswer a \<Rightarrow>
          (let lid = get_header ''cf-aig-log-id'' (ha_headers a); ct = get_header ''content-type'' (ha_headers a)
           in case ha_body a of
                BodyBroken m \<Rightarrow> NcUpstreamError None (take 400 m)
              | b \<Rightarrow>
                 (let bytes = (case b of BodyBytes s \<Rightarrow> s | _ \<Rightarrow> []) in
                  if \<not> is_ok_status (ha_status a) then
                    NcUpstreamError (Some (ha_status a)) (rest_error_detail (ha_status a) (utf8_decode bytes))
                  else if content_type_looks_binary_audio ct then
                    (if bytes = [] then NcUpstreamError (Some (ha_status a)) ''TTS returned empty audio body''
                     else NcOk (JObj [(''audio'', JStr (btoa bytes))]) lid ct)
                  else NcOk (rest_json (utf8_decode bytes)) lid ct)))"

definition nonchat_via_rest :: "'n network \<Rightarrow> gateway_deps \<Rightarrow> nonchat_request \<Rightarrow> (nonchat_result, 'n) net_m" where
  "nonchat_via_rest net d rq =
     (case safe_cf_run_path (nr_upstream_model rq) of
        None \<Rightarrow> net_ret (NcUpstreamError None [])
      | Some path \<Rightarrow>
          net_bind (do_fetch net (HttpCall
              (CF_API_HOST @ ''/client/v4/accounts/'' @ gd_account d @ ''/ai/run/'' @ path)
              (rest_headers d rq) (js_stringify (nr_params rq))))
            (\<lambda>outcome. net_ret (nonchat_of_fetch d outcome)))"

definition nonchat_of_run :: "gateway_deps \<Rightarrow> nonchat_request \<Rightarrow> bool \<Rightarrow> run_outcome \<Rightarrow> nonchat_result" where
  "nonchat_of_run d rq bypass outcome =
     (case outcome of
        RunTimedOut \<Rightarrow> NcTimeout (gd_timeout d)
      | RunFailed m \<Rightarrow> NcUpstreamError None (take 400 m)
      | RunValue v lid \<Rightarrow>
          (case normalize_nonchat_body v (Some (nr_modality rq)) of
             Inl m \<Rightarrow> NcUpstreamError None (take 400 m)
           | Inr body \<Rightarrow> NcOk body (if bypass then None else lid) None))"

definition nonchat_via_binding ::
  "'n network \<Rightarrow> gateway_deps \<Rightarrow> nonchat_request \<Rightarrow> run_input \<Rightarrow> bool \<Rightarrow> (nonchat_result, 'n) net_m" where
  "nonchat_via_binding net d rq input bypass =
     net_bind (do_run net (RunCall (nr_upstream_model rq) input
         (if bypass then None else Some (binding_gateway_options (gd_gateway d)))))
       (\<lambda>outcome. net_ret (nonchat_of_run d rq bypass outcome))"

definition nonchat_runner_for ::
  "'n network \<Rightarrow> gateway_deps \<Rightarrow> bool \<Rightarrow> nonchat_request \<Rightarrow> (nonchat_result, 'n) net_m" where
  "nonchat_runner_for net d has_ai rq0 =
     (case find_model (nr_upstream_model rq0) of
        None \<Rightarrow> net_ret (NcUpstreamError None [])
      | Some e \<Rightarrow>
          if \<not> assert_catalog_upstream (nr_upstream_model rq0) then net_ret (NcUpstreamError None [])
          else
           (let rq = rq0\<lparr>nr_upstream_model := ce_upstream e, nr_billing := ce_billing e, nr_modality := ce_modality e\<rparr> in
            if nr_modality rq = Image \<and> is_binding_only_image_model (nr_upstream_model rq) then
              (if \<not> has_ai then net_ret NcUnavailable
               else nonchat_via_binding net d rq
                      (if is_flux2_model (nr_upstream_model rq) then RunForm (to_flux2_multipart (nr_params rq))
                       else RunJson (nr_params rq)) True)
            else if is_cf_model (nr_upstream_model rq) then nonchat_via_rest net d rq
            else if \<not> has_ai then net_ret NcUnavailable
            else nonchat_via_binding net d rq (RunJson (nr_params rq)) False))"

section \<open>The calls that are made\<close>

definition calls_made :: "('a, 'n) net_m \<Rightarrow> 'n \<Rightarrow> upstream_call list" where
  "calls_made f n = snd (snd (f (n, [])))"

definition logs_only :: "('a, 'n) net_m \<Rightarrow> nat \<Rightarrow> (upstream_call \<Rightarrow> bool) \<Rightarrow> bool" where
  "logs_only f k P \<longleftrightarrow> (\<forall>n cs. \<exists>new. snd (snd (f (n, cs))) = cs @ new \<and> length new \<le> k \<and> (\<forall>c \<in> set new. P c))"

named_theorems call_rules

lemma logs_only_ret [call_rules]: "logs_only (net_ret x) k P"
  by (simp add: logs_only_def net_ret_def)

lemma logs_only_get [call_rules]: "logs_only net_get k P"
  by (simp add: logs_only_def net_get_def)

lemma logs_only_fetch: "P c \<Longrightarrow> 0 < k \<Longrightarrow> logs_only (do_fetch net c) k P"
  by (auto simp: logs_only_def do_fetch_def split: prod.splits)

lemma logs_only_run: "P c \<Longrightarrow> 0 < k \<Longrightarrow> logs_only (do_run net c) k P"
  by (auto simp: logs_only_def do_run_def split: prod.splits)

lemma logs_only_bind:
  assumes "logs_only f k P" "\<And>x. logs_only (g x) l P"
  shows "logs_only (net_bind f g) (k + l) P"
  unfolding logs_only_def
proof (intro allI)
  fix n cs
  obtain x n1 cs1 where f: "f (n, cs) = (x, n1, cs1)" by (cases "f (n, cs)") auto
  obtain new where a: "cs1 = cs @ new" "length new \<le> k" "\<forall>c \<in> set new. P c"
    using assms(1) f unfolding logs_only_def by (metis snd_conv)
  obtain new2 where "snd (snd (g x (n1, cs1))) = cs1 @ new2" "length new2 \<le> l" "\<forall>c \<in> set new2. P c"
    using assms(2) [of x] unfolding logs_only_def by blast
  then show "\<exists>new. snd (snd (net_bind f g (n, cs))) = cs @ new \<and> length new \<le> k + l \<and> (\<forall>c \<in> set new. P c)"
    using a f by (intro exI [of _ "new @ new2"]) (auto simp: net_bind_def)
qed

lemma logs_only_more: "logs_only f k P \<Longrightarrow> k \<le> l \<Longrightarrow> logs_only f l P"
  unfolding logs_only_def by (meson order_trans)

text \<open>What a call of the chat runner has to look like: to the gateway with the payload opt-out and the
  credential in its one slot, or the licence acceptance with a fixed body, or a binding call for a
  model of the allowlist with the opt-out in its options.\<close>

definition gateway_endpoints :: "string list" where
  "gateway_endpoints = [''workers-ai/v1/chat/completions'', ''compat/chat/completions'', ''openai/v1/responses'', ''grok/v1/responses'']"

definition chat_call_ok :: "gateway_deps \<Rightarrow> inference_request \<Rightarrow> upstream_call \<Rightarrow> bool" where
  "chat_call_ok d rq c =
     (case c of
        HttpCall url hs body \<Rightarrow>
          url \<in> (\<lambda>p. gateway_base d @ ''/'' @ p) ` set gateway_endpoints
            \<and> get_header COLLECT_LOG_PAYLOAD_HEADER hs = Some ''false''
            \<and> get_header ''authorization'' hs = None
            \<and> get_header ''cf-aig-authorization'' hs = Some (''Bearer '' @ ir_auth_value rq)
            \<and> body \<in> {js_stringify (upstream_body rq), js_stringify (responses_body rq)}
          \<or> c = agree_call d rq
      | RunCall m input opts \<Rightarrow>
          is_allowed_binding_chat_model m \<and> ir_binding_model rq = Some m
          \<and> opts = Some (binding_gateway_options (gd_gateway d)))"

lemma endpoints_listed:
  "upstream_url d b \<in> (\<lambda>p. gateway_base d @ ''/'' @ p) ` set gateway_endpoints"
  "responses_url d rq \<in> (\<lambda>p. gateway_base d @ ''/'' @ p) ` set gateway_endpoints"
  by (cases b) (auto simp: upstream_url_def responses_url_def gateway_endpoints_def)

lemma header_slots:
  "get_header COLLECT_LOG_PAYLOAD_HEADER (upstream_headers rq d) = Some ''false''"
  "get_header ''authorization'' (upstream_headers rq d) = None"
  "get_header ''cf-aig-authorization'' (upstream_headers rq d) = Some (''Bearer '' @ ir_auth_value rq)"
  by (simp_all add: get_header_def upstream_headers_def COLLECT_LOG_PAYLOAD_HEADER_def)

lemma fetch_once_logs:
  assumes "url \<in> {upstream_url d b, responses_url d rq}" "body \<in> {upstream_body rq, responses_body rq}"
  shows "logs_only (fetch_once net d rq url body) 1 (chat_call_ok d rq)"
proof -
  have "chat_call_ok d rq (HttpCall url (upstream_headers rq d) (js_stringify body))"
    using assms endpoints_listed by (auto simp: chat_call_ok_def header_slots)
  then have "logs_only (do_fetch net (HttpCall url (upstream_headers rq d) (js_stringify body))) 1 (chat_call_ok d rq)"
    by (intro logs_only_fetch) simp_all
  from logs_only_bind [OF this logs_only_ret [where k = 0]] show ?thesis by (simp add: fetch_once_def)
qed

lemma run_over_http_logs: "logs_only (run_over_http net d rq) 3 (chat_call_ok d rq)"
proof -
  define url where "url = (if ir_responses_api rq then responses_url d rq else upstream_url d (ir_billing rq))"
  define body where "body = (if ir_responses_api rq then responses_body rq else upstream_body rq)"
  have one: "logs_only (fetch_once net d rq url body) 1 (chat_call_ok d rq)"
    by (rule fetch_once_logs [where b = "ir_billing rq"]) (simp_all add: url_def body_def)
  have "chat_call_ok d rq (agree_call d rq)" by (simp add: chat_call_ok_def agree_call_def)
  then have agree: "logs_only (net_bind (do_fetch net (agree_call d rq)) (\<lambda>_. fetch_once net d rq url body)) (1 + 1) (chat_call_ok d rq)"
    using one by (intro logs_only_bind logs_only_fetch) simp_all
  have "logs_only (run_over_http net d rq) (1 + (1 + 1)) (chat_call_ok d rq)"
    unfolding run_over_http_def Let_def url_def [symmetric] body_def [symmetric]
    using one agree by (intro logs_only_bind) (auto intro: call_rules)
  then show ?thesis by (simp add: numeral_3_eq_3)
qed

lemma chat_via_binding_logs:
  fixes net :: "'n network"
  shows "logs_only (chat_via_binding net d has_ai rq) 1 (chat_call_ok d rq)"
proof (cases "ir_binding_model rq")
  case (Some m)
  have run: "logs_only (net_bind (do_run net (binding_call d m rq2)) g) (Suc 0) (chat_call_ok d rq)"
    if "is_allowed_binding_chat_model m" "\<And>x. logs_only (g x) 0 (chat_call_ok d rq)" for rq2 and g :: "run_outcome \<Rightarrow> (upstream_answer, 'n) net_m"
  proof -
    have "chat_call_ok d rq (binding_call d m rq2)"
      using that(1) Some by (simp add: chat_call_ok_def binding_call_def)
    then have "logs_only (do_run net (binding_call d m rq2)) 1 (chat_call_ok d rq)" by (intro logs_only_run) simp_all
    from logs_only_bind [OF this that(2)] show ?thesis by simp
  qed
  have silent: "logs_only (net_bind net_get g) k (chat_call_ok d rq)" if "\<And>x. logs_only (g x) k (chat_call_ok d rq)"
    for g :: "'n \<Rightarrow> (upstream_answer, 'n) net_m" and k
    using logs_only_bind [where k = 0, OF logs_only_get that] by simp
  show ?thesis
    unfolding chat_via_binding_def Some option.case
    by (auto intro!: run silent logs_only_ret)
qed (simp add: chat_via_binding_def call_rules)

lemma run_upstream_logs: "logs_only (run_upstream net d has_ai rq) 3 (chat_call_ok d rq)"
  unfolding run_upstream_def
  by (auto intro: run_over_http_logs logs_only_more [OF chat_via_binding_logs] split: option.split list.split)

text \<open>A non-chat call is for a model of the catalog: over REST with the opt-out, on a path of plain
  segments that stay below the run endpoint, or over the binding with the opt-out in its options,
  except for the image models whose call does not pass the gateway.\<close>

definition plain_segments :: "string list \<Rightarrow> bool" where
  "plain_segments segs \<longleftrightarrow> 2 \<le> length segs \<and> (\<forall>s \<in> set segs. s \<noteq> [] \<and> s \<noteq> ''..'' \<and> list_all is_path_char s)"

definition nonchat_call_ok :: "gateway_deps \<Rightarrow> nonchat_request \<Rightarrow> upstream_call \<Rightarrow> bool" where
  "nonchat_call_ok d rq c \<longleftrightarrow>
     (\<exists>e. find_model (nr_upstream_model rq) = Some e \<and>
       (case c of
          HttpCall url hs body \<Rightarrow>
            (\<exists>segs. plain_segments segs
               \<and> url = CF_API_HOST @ ''/client/v4/accounts/'' @ gd_account d @ ''/ai/run/'' @ join_with ''/'' (''%40cf'' # segs)
               \<and> ce_upstream e = join_with ''/'' (''@cf'' # segs))
            \<and> get_header COLLECT_LOG_PAYLOAD_HEADER hs = Some ''false''
            \<and> get_header ''authorization'' hs = Some (''Bearer '' @ nr_auth_value rq)
            \<and> body = js_stringify (nr_params rq)
        | RunCall m input opts \<Rightarrow>
            m = ce_upstream e
            \<and> (if ce_modality e = Image \<and> is_binding_only_image_model m then opts = None
               else opts = Some (binding_gateway_options (gd_gateway d)))))"

lemma in_join: "s \<in> set xs \<Longrightarrow> \<exists>a b. join_with sep xs = a @ s @ b"
proof (induction xs)
  case (Cons x xs)
  show ?case
  proof (cases "s = x")
    case True
    then have "join_with sep (x # xs) = [] @ s @ (if xs = [] then [] else sep @ join_with sep xs)"
      by (simp add: join_Cons)
    then show ?thesis by blast
  next
    case False
    then obtain a b where "join_with sep xs = a @ s @ b" using Cons by auto
    then have "join_with sep (x # xs) = (x @ sep @ a) @ s @ b" using Cons.prems False by (auto simp: join_Cons)
    then show ?thesis by blast
  qed
qed simp

lemma contains_middle: "contains_str p (a @ p @ b)"
proof (induction a)
  case Nil
  have "starts_with p (p @ b)" by (simp add: starts_with_def)
  then show ?case by (cases "p @ b") (auto simp: contains_str_def)
qed (simp add: contains_str_def)

lemma encode_plain: "list_all is_path_char s \<Longrightarrow> encode_uri_component s = s"
  by (induction s) (auto simp: encode_uri_component_def encode_char_def is_path_char_def is_unreserved_def Let_def)

lemma safe_path_segments:
  assumes "safe_cf_run_path m = Some path"
  obtains segs where "plain_segments segs" "path = join_with ''/'' (''%40cf'' # segs)" "m = join_with ''/'' (''@cf'' # segs)"
proof -
  obtain c segs where s: "split_on CHR ''/'' m = c # segs" by (cases "split_on CHR ''/'' m") auto
  have f: "\<not> contains_str ''..'' m" "c = ''@cf''" "2 \<le> length segs"
    "list_all (\<lambda>s. s \<noteq> [] \<and> list_all is_path_char s) segs"
    "path = join_with ''/'' (List.map encode_uri_component (c # segs))"
    using assms s by (simp_all add: safe_cf_run_path_def Let_def split: if_split_asm)
  have whole: "m = join_with ''/'' (''@cf'' # segs)"
    using join_split [of "CHR ''/''" m] s f(2) by simp
  have "s \<noteq> ''..''" if "s \<in> set segs" for s
  proof
    assume dots: "s = ''..''"
    have "\<exists>a b. m = a @ s @ b" unfolding whole by (rule in_join) (simp add: that)
    then obtain a b where "m = a @ s @ b" by blast
    then show False using f(1) contains_middle dots by metis
  qed
  then have "plain_segments segs" using f(3,4) by (auto simp: plain_segments_def list_all_iff)
  moreover have "List.map encode_uri_component segs = segs"
    using f(4) encode_plain by (intro map_idI) (auto simp: list_all_iff)
  moreover have "encode_uri_component ''@cf'' = ''%40cf''" by code_simp
  ultimately show ?thesis using that f(2,5) whole by simp
qed

lemma nonchat_runner_logs:
  fixes net :: "'n network"
  shows "logs_only (nonchat_runner_for net d has_ai rq) 1 (nonchat_call_ok d rq)"
proof (cases "find_model (nr_upstream_model rq)")
  case (Some e)
  let ?rq = "rq\<lparr>nr_upstream_model := ce_upstream e, nr_billing := ce_billing e, nr_modality := ce_modality e\<rparr>"
  have run: "logs_only (nonchat_via_binding net d ?rq input bypass) 1 (nonchat_call_ok d rq)"
    if "bypass = (ce_modality e = Image \<and> is_binding_only_image_model (ce_upstream e))" for input bypass
  proof -
    have "nonchat_call_ok d rq (RunCall (nr_upstream_model ?rq) input
        (if bypass then None else Some (binding_gateway_options (gd_gateway d))))"
      using that Some by (simp add: nonchat_call_ok_def)
    then have "logs_only (do_run net (RunCall (nr_upstream_model ?rq) input
        (if bypass then None else Some (binding_gateway_options (gd_gateway d))))) 1 (nonchat_call_ok d rq)"
      by (intro logs_only_run) simp_all
    from logs_only_bind [OF this logs_only_ret [where k = 0]] show ?thesis
      unfolding nonchat_via_binding_def add_0_right .
  qed
  have rest: "logs_only (nonchat_via_rest net d ?rq) 1 (nonchat_call_ok d rq)"
  proof (cases "safe_cf_run_path (ce_upstream e)")
    case None
    then show ?thesis by (simp add: nonchat_via_rest_def call_rules)
  next
    case path: (Some path)
    let ?c = "HttpCall (CF_API_HOST @ ''/client/v4/accounts/'' @ gd_account d @ ''/ai/run/'' @ path)
        (rest_headers d ?rq) (js_stringify (nr_params ?rq))"
    obtain segs where "plain_segments segs" "path = join_with ''/'' (''%40cf'' # segs)"
        "ce_upstream e = join_with ''/'' (''@cf'' # segs)"
      using safe_path_segments [OF path] by blast
    then have "nonchat_call_ok d rq ?c"
      unfolding nonchat_call_ok_def
      using Some by (intro exI [of _ e]) (auto simp: get_header_def rest_headers_def COLLECT_LOG_PAYLOAD_HEADER_def)
    then have "logs_only (do_fetch net ?c) 1 (nonchat_call_ok d rq)" by (intro logs_only_fetch) simp_all
    from logs_only_bind [OF this logs_only_ret [where k = 0]] path show ?thesis by (simp add: nonchat_via_rest_def)
  qed
  show ?thesis
    unfolding nonchat_runner_for_def Some option.case Let_def
    using run rest by (auto intro: call_rules)
qed (simp add: nonchat_runner_for_def call_rules)


end
