(* ===== verification/Nonchat.thy ===== *)
theory Nonchat
  imports Account Media Upstream
begin

text \<open>
  src/src/routes/nonchat.ts: the image, speech, transcription, video and music doors.  One gate
  admits a request (\<open>gate_nonchat\<close>); each door then calls its model once and meters a flat price per
  unit, or starts a workflow that will do so.  Everything that leaves the plane is noted in the
  world: the calls of the model runner, the direct Deepgram call, the fetch of a provider's asset
  and the start of a workflow.
\<close>

section \<open>The world and the context\<close>

record longrun_params =
  lp_job_id           :: string
  lp_kind             :: job_kind
  lp_model_id         :: string
  lp_upstream_model   :: string
  lp_prompt           :: string
  lp_lyrics           :: "string option"
  lp_voice            :: "string option"
  lp_image_url        :: "string option"
  lp_image_object_key :: "string option"
  lp_account_id       :: string
  lp_client_id        :: string
  lp_plan_id          :: string
  lp_request_id       :: string
  lp_unit_micro       :: jsnum
  lp_unit             :: meter_unit
  lp_billable_units   :: "jsnum option"
  lp_monthly_included :: int
  lp_origin           :: string
  lp_started_at       :: int
  lp_duration         :: "int option"

datatype plane_call =
    ModelCall nonchat_request
  | DeepgramCall string string string
  | AssetFetch string
  | WorkflowStart longrun_params

record plane_world = chat_world +
  pw_log :: "plane_call list"

type_synonym ('a, 'z) p = "('a, 'z plane_world_ext chat_world_ext handler_world_ext) m"

text \<open>The credentials are those of the chat context.  An absent field is a binding that is not
  configured; \<open>nx_deepgram\<close> is the direct run of the AI binding, from the model, the audio bytes and
  their type to an error text or an answer; \<open>nx_longrun\<close> answers with an error text or starts.\<close>

record 'z plane_ctx = "'z plane_world_ext ctx" +
  nx_runner    :: "(nonchat_request \<Rightarrow> nonchat_result) option"
  nx_env       :: env
  nx_hash      :: platform_hash
  nx_media     :: "'z plane_world_ext chat_world_ext handler_world_ext bucket option"
  nx_deepgram  :: "(string \<Rightarrow> string \<Rightarrow> string \<Rightarrow> string + js) option"
  nx_longrun   :: "(longrun_params \<Rightarrow> string option) option"
  nx_fetch     :: "string \<Rightarrow> fetch_outcome"
  nx_origin    :: string
  nx_uuid      :: string
  nx_job_bytes :: string

definition log_call :: "plane_call \<Rightarrow> (unit, 'z) p" where
  "log_call c = (\<lambda>w. (Inr (), w\<lparr>pw_log := pw_log w @ [c]\<rparr>))"

section \<open>The gate\<close>

definition NONCHAT_MAX_BODY :: nat where "NONCHAT_MAX_BODY = 4 * 1024 * 1024"

record nonchat_gate =
  ng_body     :: js
  ng_client   :: client_row
  ng_account  :: account_row
  ng_plan     :: plan
  ng_model    :: catalog_entry
  ng_price    :: unit_price
  ng_run      :: "nonchat_request \<Rightarrow> nonchat_result"
  ng_token_id :: string
  ng_token    :: string

definition require_string :: "js \<Rightarrow> string \<Rightarrow> string option" where
  "require_string raw key =
     (case js_get raw key of
        JStr s \<Rightarrow> if js_trim s = [] then None else Some (js_trim s)
      | _ \<Rightarrow> None)"

text \<open>The model, its door and its tier.\<close>

definition door_gate :: "string \<Rightarrow> modality \<Rightarrow> js \<Rightarrow> plan \<Rightarrow> response + catalog_entry" where
  "door_gate rid md raw p =
     (case require_string raw ''model'' of
        None \<Rightarrow> Inl (error_response rid Invalid_request)
      | Some i \<Rightarrow>
     (case find_model i of
        None \<Rightarrow> Inl (error_response rid Model_not_found)
      | Some m \<Rightarrow>
          (let detail = [(''modality'', JStr (modality_name (ce_modality m)))] in
           if ce_modality m \<noteq> md then Inl (error_response_with rid Invalid_request detail [])
           else if ce_modality m \<notin> set DOOR_MODALITIES then
             Inl (error_response_with rid Model_unsupported detail [])
           else if \<not> entitles_tier p (ce_tier m) then Inl (error_response rid Model_not_entitled)
           else Inr m)))"

text \<open>What is left to spend, over both pools.\<close>

definition spendable_remaining :: "account_row \<Rightarrow> plan \<Rightarrow> int \<Rightarrow> jsnum" where
  "spendable_remaining account p allowance =
     js_add (remaining_allowance (NInt (plan_monthly_included p)) (NInt allowance))
            (remaining_micro_usd \<lparr>bs_credit = NInt (ac_credit account), bs_spent = NInt (ac_spent account)\<rparr>)"

definition below_unit_rate :: "unit_price \<Rightarrow> account_row \<Rightarrow> plan \<Rightarrow> int \<Rightarrow> bool" where
  "below_unit_rate u account p allowance =
     (js_lt (NInt 0) (up_micro u) \<and> js_lt (spendable_remaining account p allowance) (up_micro u))"

definition money_gates ::
  "('z, 'x) plane_ctx_scheme \<Rightarrow> js \<Rightarrow> caller \<Rightarrow> plan \<Rightarrow> catalog_entry \<Rightarrow> (response + nonchat_gate, 'z) p" where
  "money_gates cx raw c p m =
     (let rid = cx_request_id cx; account = ca_account c; bounds = period_bounds_of (cx_now cx) in
      bindM (get_model_price (ce_id m)) (\<lambda>row.
      case resolve_unit_price m row of
        None \<Rightarrow> retM (Inl (error_response_with rid Model_unpriced
                  [(''billing'', JStr (billing_name (ce_billing m))),
                   (''modality'', JStr (modality_name (ce_modality m)))] []))
      | Some price \<Rightarrow>
     (case nx_runner cx of
        None \<Rightarrow> retM (Inl (error_response rid Unavailable))
      | Some run \<Rightarrow>
     (case cx_credentials cx of
        None \<Rightarrow> retM (Inl (error_response rid Unavailable))
      | Some creds \<Rightarrow>
      bindM (get_period (ac_id account) (pb_key bounds)) (\<lambda>period.
      case decide_balance (chat_pools account p (allowance_spent period)) of
        BalExhausted _ _ _ \<Rightarrow>
          retM (Inl (error_response_with rid Quota_exhausted
            [(''period'', JStr (pb_key bounds)), (''resets_at'', JStr (pb_end bounds))] []))
      | BalIndeterminate _ _ \<Rightarrow> retM (Inl (error_response rid Unavailable))
      | BalAllow _ _ _ \<Rightarrow>
          if below_unit_rate price account p (allowance_spent period) then
            retM (Inl (error_response_with rid Quota_exhausted [(''period'', JStr (pb_key bounds))] []))
          else
            bindM (creds (ac_id account)) (\<lambda>cred.
            case cred of
              CredUnavailable \<Rightarrow> retM (Inl (error_response rid Unavailable))
            | CredOk tid tok \<Rightarrow>
                retM (Inr \<lparr>ng_body = raw, ng_client = ca_client c, ng_account = account, ng_plan = p,
                  ng_model = m, ng_price = price, ng_run = run, ng_token_id = tid, ng_token = tok\<rparr>)))))))"

text \<open>The caller was resolved with its plan row; the plan is read once more before it is used.\<close>

definition gate_nonchat ::
  "('z, 'x) plane_ctx_scheme \<Rightarrow> modality \<Rightarrow> request \<Rightarrow> (response + nonchat_gate, 'z) p" where
  "gate_nonchat cx md rq =
     (let rid = cx_request_id cx in
      case read_json_body NONCHAT_MAX_BODY rq of
        Inl f \<Rightarrow> retM (Inl (error_response rid (read_failure_code f)))
      | Inr body \<Rightarrow>
      bindM (require_caller (cx_sha256 cx) rid rq) (\<lambda>authed.
      case authed of
        Inl resp \<Rightarrow> retM (Inl resp)
      | Inr c \<Rightarrow>
      bindM (get_plan (ac_plan_id (ca_account c))) (\<lambda>plan_row.
      case plan_row of
        None \<Rightarrow> retM (Inl (error_response rid Unavailable))
      | Some prow \<Rightarrow>
     (case plan_from_row prow of
        Inl _ \<Rightarrow> retM (Inl (error_response rid Unavailable))
      | Inr p \<Rightarrow>
      bindM (check_rate_limit (inference_bucket (ac_id (ca_account c)))
               (plan_requests_per_minute p) RATE_WINDOW_SECONDS) (\<lambda>rate.
      if \<not> rl_allowed rate then
        retM (Inl (error_response_with rid Rate_limited []
                     [(''retry-after'', dec_of_int (rl_retry_after rate))]))
      else
       (let raw = (if body = JNull then JObj [] else body) in
        case door_gate rid md raw p of
          Inl resp \<Rightarrow> retM (Inl resp)
        | Inr m \<Rightarrow> money_gates cx raw c p m))))))"

section \<open>Recording and answering\<close>

definition gate_event ::
  "('z, 'x) plane_ctx_scheme \<Rightarrow> nonchat_gate \<Rightarrow> int \<Rightarrow> int \<Rightarrow> int \<Rightarrow> string option \<Rightarrow> int option
     \<Rightarrow> string option \<Rightarrow> usage_event" where
  "gate_event cx g micro from_allowance from_credit reason status log_id =
     \<lparr>ue_id = new_id ''use'' (cx_use_bytes cx), ue_request_id = cx_request_id cx,
      ue_account_id = ac_id (ng_account g), ue_client_id = cl_id (ng_client g),
      ue_model_id = ce_id (ng_model g), ue_period_key = pb_key (period_bounds_of (cx_now cx)),
      ue_input_tokens = None, ue_output_tokens = None, ue_micro_usd = micro,
      ue_from_allowance = from_allowance, ue_from_credit = from_credit, ue_metered = (reason = None),
      ue_price_basis = (if reason = None then Measured else Unpriced),
      ue_unmetered_reason = map_option ReasonText reason, ue_upstream_status = status,
      ue_gateway_log_id = log_id\<rparr>"

definition record_unmetered ::
  "('z, 'x) plane_ctx_scheme \<Rightarrow> nonchat_gate \<Rightarrow> string \<Rightarrow> int option \<Rightarrow> (unit, 'y) m" where
  "record_unmetered cx g reason status =
     catchM (record_usage (gate_event cx g 0 0 0 (Some reason) status None)) (\<lambda>_. retM ())"

text \<open>A charge is split whenever there is one, on a fresh read of the period; the balance decision
  that the source takes here has no effect.\<close>

definition charge_event ::
  "('z, 'x) plane_ctx_scheme \<Rightarrow> nonchat_gate \<Rightarrow> int \<Rightarrow> int \<Rightarrow> int \<Rightarrow> string option \<Rightarrow> usage_event" where
  "charge_event cx g micro allowance status log_id =
     (let split = allocate_charge (NInt micro) (NInt (plan_monthly_included (ng_plan g))) (NInt allowance);
          fa = (if micro > 0 then int_of_num (ca_from_allowance split) else 0);
          fc = (if micro > 0 then int_of_num (ca_from_credit split) else 0)
      in gate_event cx g micro fa fc None (Some status) log_id)"

definition receipt_headers ::
  "('z, 'x) plane_ctx_scheme \<Rightarrow> nonchat_gate \<Rightarrow> jsnum \<times> jsnum \<Rightarrow> bool \<Rightarrow> int \<Rightarrow> int \<Rightarrow> int
     \<Rightarrow> (string \<times> string) list" where
  "receipt_headers cx g priced recorded credit spent allowance =
     [(''prism-model'', ce_id (ng_model g)), (''prism-metered'', ''true''),
      (''prism-usage-micro-usd'', js_num_string (fst priced)),
      (''prism-usage-recorded'', if recorded then ''true'' else ''false''),
      (''prism-credit-micro-usd'', dec_of_int credit), (''prism-spent-micro-usd'', dec_of_int spent),
      (''prism-credit-remaining-micro-usd'', js_num_string (remaining_micro_usd
         \<lparr>bs_credit = NInt credit, bs_spent = NInt spent\<rparr>)),
      (''prism-allowance-remaining-micro-usd'', js_num_string
         (remaining_allowance (NInt (plan_monthly_included (ng_plan g))) (NInt allowance))),
      (''prism-period'', pb_key (period_bounds_of (cx_now cx))),
      (''prism-units'', js_num_string (snd priced)), (''prism-unit'', unit_name (up_unit (ng_price g)))]"

definition meter_and_respond ::
  "('z, 'x) plane_ctx_scheme \<Rightarrow> nonchat_gate \<Rightarrow> jsnum \<Rightarrow> js \<Rightarrow> int \<Rightarrow> string option \<Rightarrow> (response, 'y) m" where
  "meter_and_respond cx g units body status log_id =
     (let priced = price_units units (ng_price g); micro = int_of_num (fst priced);
          account = ng_account g; key = pb_key (period_bounds_of (cx_now cx))
      in bindM (get_period (ac_id account) key) (\<lambda>before.
         let e = charge_event cx g micro (allowance_spent before) status log_id in
         bindM (record_quietly e) (\<lambda>recorded.
         bindM (get_account (ac_id account)) (\<lambda>after.
         bindM (get_period (ac_id account) key) (\<lambda>period_after.
         let (credit, spent) = (case after of
                Some a \<Rightarrow> (ac_credit a, ac_spent a)
              | None \<Rightarrow> (ac_credit account, ac_spent account + ue_from_credit e))
         in retM (json_response (cx_request_id cx) body 200
              (receipt_headers cx g priced recorded credit spent (allowance_spent period_after))))))))"

section \<open>Calling the model\<close>

definition door_request :: "('z, 'x) plane_ctx_scheme \<Rightarrow> nonchat_gate \<Rightarrow> js \<Rightarrow> nonchat_request" where
  "door_request cx g params =
     \<lparr>nr_upstream_model = ce_upstream (ng_model g), nr_billing = ce_billing (ng_model g),
      nr_modality = ce_modality (ng_model g), nr_params = params, nr_auth_value = ng_token g,
      nr_metadata = [(''account_id'', ac_id (ng_account g)), (''client_id'', cl_id (ng_client g)),
        (''plan_id'', ac_plan_id (ng_account g)), (''request_id'', cx_request_id cx),
        (''cf_token_id'', ng_token_id g)]\<rparr>"

definition run_model ::
  "('z, 'x) plane_ctx_scheme \<Rightarrow> nonchat_gate \<Rightarrow> js \<Rightarrow> (response + js \<times> string option, 'z) p" where
  "run_model cx g params =
     (let rid = cx_request_id cx; q = door_request cx g params in
      bindM (log_call (ModelCall q)) (\<lambda>_.
      case ng_run g q of
        NcTimeout _ \<Rightarrow>
          bindM (record_unmetered cx g ''timeout'' None) (\<lambda>_. retM (Inl (error_response rid Upstream_timeout)))
      | NcUnavailable \<Rightarrow> retM (Inl (error_response rid Unavailable))
      | NcUpstreamError status _ \<Rightarrow>
          bindM (record_unmetered cx g ''upstream_error'' status) (\<lambda>_.
          retM (Inl (error_response_with rid Upstream_error
            [(''upstream_status'', case status of Some s \<Rightarrow> JNum (NInt s) | None \<Rightarrow> JNull)] [])))
      | NcOk body log_id _ \<Rightarrow> retM (Inr (body, log_id))))"

text \<open>An answer that the provider or the reader rejects: recorded without a charge.\<close>

definition reject_answer ::
  "('z, 'x) plane_ctx_scheme \<Rightarrow> nonchat_gate \<Rightarrow> string \<Rightarrow> (response, 'y) m" where
  "reject_answer cx g reason =
     bindM (record_unmetered cx g reason (Some 200)) (\<lambda>_.
     retM (error_response (cx_request_id cx) Upstream_error))"

definition accepted_answer ::
  "('z, 'x) plane_ctx_scheme \<Rightarrow> nonchat_gate \<Rightarrow> js
     \<Rightarrow> (js \<Rightarrow> string option \<Rightarrow> (response + 'a, 'z) p) \<Rightarrow> (response + 'a, 'z) p" where
  "accepted_answer cx g params k =
     bindM (run_model cx g params) (\<lambda>up.
     case up of
       Inl resp \<Rightarrow> retM (Inl resp)
     | Inr (body, log_id) \<Rightarrow>
         if provider_state_failed body \<noteq> None
         then bindM (reject_answer cx g ''provider_failed'') (\<lambda>resp. retM (Inl resp))
         else k body log_id)"

text \<open>Either way it ends in a response.\<close>

definition settle :: "(response + response, 'z) m \<Rightarrow> (response, 'z) m" where
  "settle c = bindM c (\<lambda>r. retM (case r of Inl resp \<Rightarrow> resp | Inr resp \<Rightarrow> resp))"

definition served :: "(response, 'z) m \<Rightarrow> (response + response, 'z) m" where
  "served c = bindM c (\<lambda>resp. retM (Inr resp))"

section \<open>Long runs\<close>

text \<open>\<open>/^data:([^;,]+);base64,(.+)$/s\<close>.\<close>

definition data_url_parts :: "string \<Rightarrow> (string \<times> string) option" where
  "data_url_parts u =
     (let r = drop 5 u; mime = takeWhile (\<lambda>c. c \<noteq> CHR '';'' \<and> c \<noteq> CHR '','') r;
          r2 = drop (length mime) r; payload = drop 8 r2
      in if take 5 u = ''data:'' \<and> mime \<noteq> [] \<and> take 8 r2 = '';base64,'' \<and> payload \<noteq> []
         then Some (mime, payload) else None)"

definition atob_text :: "string \<Rightarrow> string option" where
  "atob_text s = atob (List.filter (\<lambda>c. \<not> is_ascii_space c) s)"

definition reference_key :: "string \<Rightarrow> string \<Rightarrow> string" where
  "reference_key account_id job_id =
     ''video/'' @ take 32 (List.filter is_secret_char account_id) @ ''/'' @ job_id @ ''-ref''"

definition stage_data_image ::
  "'z bucket option \<Rightarrow> string \<Rightarrow> string \<Rightarrow> string \<Rightarrow> (string option, 'z) m" where
  "stage_data_image media account_id job_id url =
     (case media of
        None \<Rightarrow> retM None
      | Some b \<Rightarrow>
     (case data_url_parts url of
        None \<Rightarrow> retM None
      | Some (ctype, b64) \<Rightarrow>
     (case atob_text b64 of
        None \<Rightarrow> retM None
      | Some bytes \<Rightarrow>
          if bytes = [] \<or> int (length bytes) > MEDIA_MAX_BYTES then retM None
          else bindM (bu_put b (reference_key account_id job_id) bytes ctype)
                 (\<lambda>_. retM (Some (reference_key account_id job_id))))))"

record longrun_args =
  la_kind      :: job_kind
  la_prompt    :: string
  la_lyrics    :: "string option"
  la_image_url :: "string option"
  la_voice     :: "string option"
  la_units     :: jsnum
  la_duration  :: "int option"

definition job_row :: "('z, 'x) plane_ctx_scheme \<Rightarrow> nonchat_gate \<Rightarrow> job_kind \<Rightarrow> async_job_row" where
  "job_row cx g kind =
     \<lparr>aj_id = new_id ''job'' (nx_job_bytes cx), aj_account_id = ac_id (ng_account g),
      aj_client_id = cl_id (ng_client g), aj_kind = kind, aj_model_id = ce_id (ng_model g),
      aj_status = Running, aj_result_json = None, aj_error_code = None, aj_error_detail = None,
      aj_request_id = cx_request_id cx, aj_created_at = cx_now cx, aj_updated_at = cx_now cx\<rparr>"

definition workflow_params ::
  "('z, 'x) plane_ctx_scheme \<Rightarrow> nonchat_gate \<Rightarrow> longrun_args \<Rightarrow> string option \<Rightarrow> string option \<Rightarrow> longrun_params" where
  "workflow_params cx g a image_url image_key =
     \<lparr>lp_job_id = new_id ''job'' (nx_job_bytes cx), lp_kind = la_kind a, lp_model_id = ce_id (ng_model g),
      lp_upstream_model = ce_upstream (ng_model g), lp_prompt = la_prompt a, lp_lyrics = la_lyrics a,
      lp_voice = la_voice a, lp_image_url = image_url, lp_image_object_key = image_key,
      lp_account_id = ac_id (ng_account g), lp_client_id = cl_id (ng_client g),
      lp_plan_id = ac_plan_id (ng_account g), lp_request_id = cx_request_id cx,
      lp_unit_micro = up_micro (ng_price g), lp_unit = up_unit (ng_price g),
      lp_billable_units = Some (la_units a), lp_monthly_included = plan_monthly_included (ng_plan g),
      lp_origin = nx_origin cx, lp_started_at = cx_now cx, lp_duration = la_duration a\<rparr>"

definition staged_image ::
  "('z, 'x) plane_ctx_scheme \<Rightarrow> nonchat_gate \<Rightarrow> longrun_args \<Rightarrow> (string option, 'z) p" where
  "staged_image cx g a =
     (case la_image_url a of
        Some u \<Rightarrow>
          if (la_kind a = JobVideo \<or> la_kind a = JobImage) \<and> starts_with ''data:'' u
          then stage_data_image (nx_media cx) (ac_id (ng_account g)) (new_id ''job'' (nx_job_bytes cx)) u
          else retM None
      | None \<Rightarrow> retM None)"

definition start_async_longrun ::
  "('z, 'x) plane_ctx_scheme \<Rightarrow> nonchat_gate \<Rightarrow> longrun_args \<Rightarrow> (response, 'z) p" where
  "start_async_longrun cx g a =
     (case nx_longrun cx of
        None \<Rightarrow> retM (error_response (cx_request_id cx) Unavailable)
      | Some create \<Rightarrow>
         (let row = job_row cx g (la_kind a) in
          bindM (create_async_job row) (\<lambda>_.
          bindM (staged_image cx g a) (\<lambda>staged.
          let ps = workflow_params cx g a (if staged = None then la_image_url a else None) staged in
          bindM (log_call (WorkflowStart ps)) (\<lambda>_.
          case create ps of
            None \<Rightarrow> retM (json_response (cx_request_id cx) (job_to_wire row) 202 [])
          | Some msg \<Rightarrow>
              bindM clock (\<lambda>t.
              bindM (update_async_job (aj_id row) Failed None (Some (Some ''unavailable''))
                       (Some (Some (take 280 (''Workflow create failed: '' @ msg)))) t) (\<lambda>_.
              retM (error_response (cx_request_id cx) Unavailable))))))))"

section \<open>Images and speech\<close>

definition or_key :: "js \<Rightarrow> string \<Rightarrow> string \<Rightarrow> string option" where
  "or_key raw a b = or_try (require_string raw a) (require_string raw b)"

definition image_item :: "image_asset \<Rightarrow> js" where
  "image_item a = (case a of AssetB64 b \<Rightarrow> JObj [(''b64_json'', JStr b)] | AssetUrl u \<Rightarrow> JObj [(''url'', JStr u)])"

definition asset_text :: "image_asset \<Rightarrow> string" where
  "asset_text a = (case a of AssetB64 b \<Rightarrow> b | AssetUrl u \<Rightarrow> u)"

definition with_gate ::
  "('z, 'x) plane_ctx_scheme \<Rightarrow> modality \<Rightarrow> request \<Rightarrow> (nonchat_gate \<Rightarrow> (response, 'z) p) \<Rightarrow> (response, 'z) p" where
  "with_gate cx md rq k = bindM (gate_nonchat cx md rq) (\<lambda>r. case r of Inl resp \<Rightarrow> retM resp | Inr g \<Rightarrow> k g)"

definition image_door :: "('z, 'x) plane_ctx_scheme \<Rightarrow> request \<Rightarrow> nonchat_gate \<Rightarrow> (response, 'z) p" where
  "image_door cx rq g =
     (let rid = cx_request_id cx; raw = ng_body g; url = or_key raw ''image'' ''image_url''; mid = ce_id (ng_model g) in
      case require_string raw ''prompt'' of
        None \<Rightarrow> retM (error_response rid Invalid_request)
      | Some prompt \<Rightarrow>
          if wants_async rq raw \<or> prefers_async_image mid then
            start_async_longrun cx g \<lparr>la_kind = JobImage, la_prompt = prompt, la_lyrics = None,
              la_image_url = url, la_voice = None, la_units = NInt 1, la_duration = None\<rparr>
          else
            settle (accepted_answer cx g (build_image_params mid prompt url) (\<lambda>body log_id.
              case extract_image_asset body of
                Some a \<Rightarrow>
                  if asset_text a = [] then served (reject_answer cx g ''no_image_payload'')
                  else served (meter_and_respond cx g (NInt 1) (JObj
                    [(''created'', JNum (NInt (cx_now cx div 1000))), (''data'', JArr [image_item a]),
                     (''model'', JStr mid)]) 200 log_id)
              | None \<Rightarrow> served (reject_answer cx g ''no_image_payload''))))"

definition handle_image_generations :: "('z, 'x) plane_ctx_scheme \<Rightarrow> request \<Rightarrow> (response, 'z) p" where
  "handle_image_generations cx rq = with_gate cx Image rq (image_door cx rq)"

text \<open>Thousands of characters, at least one; a minute or a request when that is the unit.\<close>

definition speech_units :: "unit_price \<Rightarrow> string \<Rightarrow> jsnum" where
  "speech_units u input =
     (if up_unit u = KCharacters then js_max (NInt 1) (NInt ((int (length input) + 999) div 1000)) else NInt 1)"

definition speech_door :: "('z, 'x) plane_ctx_scheme \<Rightarrow> request \<Rightarrow> nonchat_gate \<Rightarrow> (response, 'z) p" where
  "speech_door cx rq g =
     (let rid = cx_request_id cx; raw = ng_body g; voice = or_key raw ''voice'' ''speaker''; mid = ce_id (ng_model g) in
      case or_key raw ''input'' ''text'' of
        None \<Rightarrow> retM (error_response rid Invalid_request)
      | Some input \<Rightarrow>
          if wants_async rq raw then
            start_async_longrun cx g \<lparr>la_kind = JobSpeech, la_prompt = input, la_lyrics = None,
              la_image_url = None, la_voice = voice, la_units = speech_units (ng_price g) input, la_duration = None\<rparr>
          else
            settle (accepted_answer cx g (build_tts_params mid input voice) (\<lambda>body log_id.
              case extract_audio_base64 body of
                Some (c # audio) \<Rightarrow>
                  served (meter_and_respond cx g (speech_units (ng_price g) input) (JObj
                    [(''model'', JStr mid), (''audio_base64'', JStr (c # audio)), (''format'', JStr ''mp3'')]) 200 log_id)
              | _ \<Rightarrow> served (reject_answer cx g ''no_audio_payload''))))"

definition handle_audio_speech :: "('z, 'x) plane_ctx_scheme \<Rightarrow> request \<Rightarrow> (response, 'z) p" where
  "handle_audio_speech cx rq = with_gate cx Tts rq (speech_door cx rq)"

section \<open>Transcriptions\<close>

text \<open>\<open>/^data:(audio\/[a-zA-Z0-9.+-]+);base64,(.+)$/\<close>, or the audio as it is.\<close>

definition audio_parts :: "string \<Rightarrow> string \<times> string" where
  "audio_parts a =
     (let r = drop 11 a; sub = takeWhile is_mime_char r; r2 = drop (length sub) r; payload = drop 8 r2
      in if take 11 a = ''data:audio/'' \<and> sub \<noteq> [] \<and> take 8 r2 = '';base64,''
            \<and> payload \<noteq> [] \<and> \<not> list_ex is_line_end payload
         then (''audio/'' @ sub, payload) else (''audio/mpeg'', a))"

definition transcript_body :: "nonchat_gate \<Rightarrow> string \<Rightarrow> js" where
  "transcript_body g txt = JObj [(''model'', JStr (ce_id (ng_model g))), (''text'', JStr txt)]"

text \<open>The answer is metered outside the \<open>try\<close>: its promise is returned, not awaited.\<close>

definition run_deepgram ::
  "('z, 'x) plane_ctx_scheme \<Rightarrow> nonchat_gate \<Rightarrow> string \<Rightarrow> string \<Rightarrow> (response, 'z) p" where
  "run_deepgram cx g audio mime =
     (case nx_deepgram cx of
        None \<Rightarrow> retM (error_response (cx_request_id cx) Unavailable)
      | Some ai \<Rightarrow>
         (let failed = bindM (record_unmetered cx g ''upstream_error'' None)
                         (\<lambda>_. retM (error_response (cx_request_id cx) Upstream_error))
          in case build_deepgram_params audio mime of
            None \<Rightarrow> failed
          | Some (bytes, ctype) \<Rightarrow>
              bindM (log_call (DeepgramCall (ce_upstream (ng_model g)) bytes ctype)) (\<lambda>_.
              case ai (ce_upstream (ng_model g)) bytes ctype of
                Inl _ \<Rightarrow> failed
              | Inr result \<Rightarrow>
                  (case extract_transcript result of
                     None \<Rightarrow> reject_answer cx g ''no_transcript''
                   | Some txt \<Rightarrow> meter_and_respond cx g (NInt 1) (transcript_body g txt) 200 None))))"

definition transcription_door :: "('z, 'x) plane_ctx_scheme \<Rightarrow> nonchat_gate \<Rightarrow> (response, 'z) p" where
  "transcription_door cx g =
     (let rid = cx_request_id cx; mid = ce_id (ng_model g) in
      case or_key (ng_body g) ''audio'' ''file'' of
        None \<Rightarrow> retM (error_response rid Invalid_request)
      | Some audio0 \<Rightarrow>
         (let (mime, audio) = audio_parts audio0 in
          if is_deepgram_batch_stt mid then run_deepgram cx g audio mime
          else case build_stt_params mid audio of
            None \<Rightarrow> throwM PlatformError
          | Some params \<Rightarrow>
              settle (accepted_answer cx g params (\<lambda>body log_id.
                case extract_transcript body of
                  None \<Rightarrow> served (reject_answer cx g ''no_transcript'')
                | Some txt \<Rightarrow> served (meter_and_respond cx g (NInt 1) (transcript_body g txt) 200 log_id)))))"

definition handle_audio_transcriptions :: "('z, 'x) plane_ctx_scheme \<Rightarrow> request \<Rightarrow> (response, 'z) p" where
  "handle_audio_transcriptions cx rq = with_gate cx Stt rq (transcription_door cx)"

section \<open>Video\<close>

record upload_slot =
  us_key      :: string
  us_upload   :: string
  us_download :: string

text \<open>Grok's upload target and the link to what will be there; the outer sum refuses when the
  object store or the signing secret is missing, the inner option is there for Grok only.\<close>

definition is_grok_video :: "string \<Rightarrow> bool" where
  "is_grok_video m = starts_with ''xai/grok-imagine-video'' m"

definition media_link :: "platform_hash \<Rightarrow> string \<Rightarrow> string \<Rightarrow> string \<Rightarrow> int \<Rightarrow> string" where
  "media_link hs secret origin key t =
     media_public_url origin (''/v1/media/'' @ fst (mint_download_token hs secret key t))"

definition upload_slot_for ::
  "platform_hash \<Rightarrow> env \<Rightarrow> bool \<Rightarrow> string \<Rightarrow> string \<Rightarrow> (unit + upload_slot, 'z) m" where
  "upload_slot_for hs e has_media origin key =
     (case media_signing_secret (env_aig_token e) of
        None \<Rightarrow> retM (Inl ())
      | Some secret \<Rightarrow>
          if \<not> has_media then retM (Inl ())
          else bindM now_sec (\<lambda>t.
            retM (Inr \<lparr>us_key = key,
              us_upload = media_public_url origin (''/v1/media/ingress/'' @ fst (mint_upload_token hs secret key t)),
              us_download = media_link hs secret origin key t\<rparr>)))"

definition WAIT_ROUNDS :: nat where "WAIT_ROUNDS = 46"

text \<open>The asset once the provider has answered: ours when the upload has landed, also late; the
  provider's otherwise.\<close>

definition landed_video ::
  "'z bucket option \<Rightarrow> upload_slot option \<Rightarrow> string option \<Rightarrow> (string option, 'z) m" where
  "landed_video media slot asset =
     (case (media, slot) of
        (Some b, Some s) \<Rightarrow>
          bindM (wait_for_media_object WAIT_ROUNDS b (us_key s) 45000 1000) (\<lambda>ready.
          case ready of
            Some (Some _) \<Rightarrow> retM (Some (us_download s))
          | _ \<Rightarrow>
              if asset = None then retM None
              else bindM (bu_head b (us_key s)) (\<lambda>late.
                retM (if late = None then asset else Some (us_download s))))
      | _ \<Rightarrow> retM asset)"

text \<open>The produced video: its URL, the log id and the provider's answer.\<close>

definition produce_with_slot ::
  "('z, 'x) plane_ctx_scheme \<Rightarrow> nonchat_gate \<Rightarrow> string \<Rightarrow> string option \<Rightarrow> int \<Rightarrow> upload_slot option
     \<Rightarrow> (response + string \<times> string option \<times> js, 'z) p" where
  "produce_with_slot cx g prompt url dur slot =
     accepted_answer cx g
       (build_video_params (ce_id (ng_model g)) prompt url (map_option us_upload slot) (Some (NInt dur)))
       (\<lambda>body log_id.
        bindM (landed_video (nx_media cx) slot (extract_video_asset body)) (\<lambda>asset.
        case asset of
          None \<Rightarrow> bindM (reject_answer cx g ''no_video_payload'') (\<lambda>resp. retM (Inl resp))
        | Some v \<Rightarrow> retM (Inr (v, log_id, body))))"

definition produce_video ::
  "('z, 'x) plane_ctx_scheme \<Rightarrow> nonchat_gate \<Rightarrow> string \<Rightarrow> string option \<Rightarrow> int
     \<Rightarrow> (response + string \<times> string option \<times> js, 'z) p" where
  "produce_video cx g prompt url dur =
     (if is_grok_video (ce_id (ng_model g)) then
        bindM (upload_slot_for (nx_hash cx) (nx_env cx) (nx_media cx \<noteq> None) (nx_origin cx)
                (new_video_object_key (ac_id (ng_account g)) (cx_request_id cx) (nx_uuid cx))) (\<lambda>slot.
        case slot of
          Inl _ \<Rightarrow> retM (Inl (error_response (cx_request_id cx) Unavailable))
        | Inr s \<Rightarrow> produce_with_slot cx g prompt url dur (Some s))
      else produce_with_slot cx g prompt url dur None)"

definition video_door :: "('z, 'x) plane_ctx_scheme \<Rightarrow> request \<Rightarrow> nonchat_gate \<Rightarrow> (response, 'z) p" where
  "video_door cx rq g =
     (let rid = cx_request_id cx; raw = ng_body g; mid = ce_id (ng_model g);
          prompt = (case require_string raw ''prompt'' of Some s \<Rightarrow> s | None \<Rightarrow> []);
          url = or_key raw ''image'' ''image_url'';
          dur = fst (resolve_video_duration mid (js_nullish (js_get raw ''duration'') (js_get raw ''seconds'')))
      in if prompt = [] \<and> url = None then retM (error_response rid Invalid_request)
         else if starts_with ''minimax/hailuo'' mid \<and> url = None then retM (error_response rid Invalid_request)
         else if wants_async rq raw then
           start_async_longrun cx g \<lparr>la_kind = JobVideo, la_prompt = prompt, la_lyrics = None,
             la_image_url = url, la_voice = None, la_units = NInt 1, la_duration = Some dur\<rparr>
         else
           bindM (produce_video cx g prompt url dur) (\<lambda>produced.
           case produced of
             Inl resp \<Rightarrow> retM resp
           | Inr (video, log_id, body) \<Rightarrow>
               meter_and_respond cx g (NInt 1) (JObj
                 [(''model'', JStr mid), (''video'', JStr video), (''duration'', JNum (NInt dur)),
                  (''result'', body)]) 200 log_id))"

definition handle_video_generations :: "('z, 'x) plane_ctx_scheme \<Rightarrow> request \<Rightarrow> (response, 'z) p" where
  "handle_video_generations cx rq = with_gate cx Video rq (video_door cx rq)"

section \<open>Music\<close>

definition looks_like_http_url :: "string \<Rightarrow> bool" where
  "looks_like_http_url s = (starts_with ''https://'' s \<or> starts_with ''http://'' s)"

text \<open>\<open>contentType.split(";")[0]?.trim() || default\<close>.\<close>

definition bare_type :: "string \<Rightarrow> string \<Rightarrow> string" where
  "bare_type dflt ct = (let t = js_trim (hd (split_on CHR '';'' ct)) in if t = [] then dflt else t)"

text \<open>What of a provider's asset is stored under a key: None when it was refused, an exception when
  the fetch or its body failed.\<close>

definition asset_to_store :: "string \<Rightarrow> fetch_outcome \<Rightarrow> exn + (string \<times> string) option" where
  "asset_to_store dflt outcome =
     (case outcome of
        FetchAnswer a \<Rightarrow>
          if \<not> is_ok_status (ha_status a) then Inr None
          else if js_lt (NInt MEDIA_MAX_BYTES) (js_Number (case get_header ''content-length'' (ha_headers a) of
                 Some v \<Rightarrow> v | None \<Rightarrow> ''0'')) then Inr None
          else (case ha_body a of
              NoBody \<Rightarrow> Inr None
            | BodyBroken _ \<Rightarrow> Inl PlatformError
            | BodyBytes bytes \<Rightarrow>
                Inr (Some (bytes, bare_type dflt (case get_header ''content-type'' (ha_headers a) of
                  Some t \<Rightarrow> t | None \<Rightarrow> dflt))))
      | _ \<Rightarrow> Inl PlatformError)"

definition store_asset ::
  "'z bucket \<Rightarrow> platform_hash \<Rightarrow> string \<Rightarrow> string \<Rightarrow> string \<Rightarrow> string \<Rightarrow> fetch_outcome \<Rightarrow> (string option, 'z) m" where
  "store_asset b hs secret origin key dflt outcome =
     (case asset_to_store dflt outcome of
        Inl e \<Rightarrow> throwM e
      | Inr None \<Rightarrow> retM None
      | Inr (Some (bytes, ctype)) \<Rightarrow>
          bindM (bu_put b key bytes ctype) (\<lambda>_.
          bindM now_sec (\<lambda>t. retM (Some (media_link hs secret origin key t)))))"

definition rehost_music_audio :: "('z, 'x) plane_ctx_scheme \<Rightarrow> string \<Rightarrow> string \<Rightarrow> (string option, 'z) p" where
  "rehost_music_audio cx account_id url =
     (case (nx_media cx, media_signing_secret (env_aig_token (nx_env cx))) of
        (Some b, Some secret) \<Rightarrow>
          bindM (log_call (AssetFetch url)) (\<lambda>_.
          catchM (store_asset b (nx_hash cx) secret (nx_origin cx)
                    (new_music_object_key account_id (cx_request_id cx) (nx_uuid cx)) ''audio/mpeg'' (nx_fetch cx url))
                 (\<lambda>_. retM None))
      | _ \<Rightarrow> retM None)"

definition bool_field :: "js \<Rightarrow> string \<Rightarrow> bool option" where
  "bool_field raw k = (case js_get raw k of JBool b \<Rightarrow> Some b | _ \<Rightarrow> None)"

text \<open>The produced music: its audio, whether it was rehosted, and the log id.\<close>

definition produce_music ::
  "('z, 'x) plane_ctx_scheme \<Rightarrow> nonchat_gate \<Rightarrow> string \<Rightarrow> string option \<Rightarrow> bool option \<Rightarrow> bool option
     \<Rightarrow> (response + string \<times> bool \<times> string option, 'z) p" where
  "produce_music cx g prompt lyrics instrumental optimizer =
     accepted_answer cx g (build_music_params prompt lyrics instrumental optimizer) (\<lambda>body log_id.
     case extract_music_asset body of
       None \<Rightarrow> bindM (reject_answer cx g ''no_music_payload'') (\<lambda>resp. retM (Inl resp))
     | Some asset \<Rightarrow>
         if looks_like_http_url asset then
           bindM (rehost_music_audio cx (ac_id (ng_account g)) asset) (\<lambda>hosted.
           retM (Inr (case hosted of Some h \<Rightarrow> (h, True, log_id) | None \<Rightarrow> (asset, False, log_id))))
         else retM (Inr (asset, False, log_id)))"

definition music_door :: "('z, 'x) plane_ctx_scheme \<Rightarrow> request \<Rightarrow> nonchat_gate \<Rightarrow> (response, 'z) p" where
  "music_door cx rq g =
     (let rid = cx_request_id cx; raw = ng_body g; lyrics = require_string raw ''lyrics'' in
      case require_string raw ''prompt'' of
        None \<Rightarrow> retM (error_response rid Invalid_request)
      | Some prompt \<Rightarrow>
          if wants_async rq raw then
            start_async_longrun cx g \<lparr>la_kind = JobMusic, la_prompt = prompt, la_lyrics = lyrics,
              la_image_url = None, la_voice = None, la_units = NInt 1, la_duration = None\<rparr>
          else
            bindM (produce_music cx g prompt lyrics (bool_field raw ''is_instrumental'')
                     (bool_field raw ''lyrics_optimizer'')) (\<lambda>produced.
            case produced of
              Inl resp \<Rightarrow> retM resp
            | Inr (audio, rehosted, log_id) \<Rightarrow>
                meter_and_respond cx g (NInt 1) (JObj
                  [(''model'', JStr (ce_id (ng_model g))), (''audio'', JStr audio),
                   (''rehosted'', JBool rehosted)]) 200 log_id))"

text \<open>The one door that turns every exception into a response of its own.\<close>

definition handle_music_generations :: "('z, 'x) plane_ctx_scheme \<Rightarrow> request \<Rightarrow> (response, 'z) p" where
  "handle_music_generations cx rq =
     catchM (with_gate cx Music rq (music_door cx rq)) (\<lambda>_. retM (error_response (cx_request_id cx) Internal))"

end
