(* ===== verification/Longrun.thy ===== *)
theory Longrun
  imports Nonchat
begin

text \<open>
  src/src/routes/longrun-workflow.ts: the durable workflow behind an accepted job.  Three steps, each
  retried by the platform up to its limit: the model call, the rehosting of its asset, and the
  metering with the end of the job row.  The platform retries a step whose function throws, except
  for the error that asks it not to.

  The model runner, fetches, random ids and the texts of errors are parameters; what a runner
  answers may depend on how many calls went before.
\<close>

section \<open>Steps\<close>

datatype step_failure =
    NoGateway | NoToken | StagedImageMissing | NoMediaForUpload | ModelNotInCatalog
  | ModelTimedOut int | ModelUnavailable | ModelFailed string | ProviderFailed string
  | NoPayload job_kind | NoMediaForResult | BadResultSize | AccountMissing | Threw exn

text \<open>An error that the platform retries, and a \<open>NonRetryableError\<close>.\<close>

datatype step_error = Retryable step_failure | NonRetryable step_failure

type_synonym ('a, 'z) step = "nat \<Rightarrow> (step_error + 'a, 'z) p"

definition attempt :: "('a, 'z) step \<Rightarrow> nat \<Rightarrow> (step_error + 'a, 'z) p" where
  "attempt f k = catchM (f k) (\<lambda>e. retM (Inl (Retryable (Threw e))))"

text \<open>The retries that are left, and the number of the attempt.\<close>

fun step_from :: "nat \<Rightarrow> nat \<Rightarrow> ('a, 'z) step \<Rightarrow> (step_error + 'a, 'z) p" where
  "step_from 0 k f = attempt f k"
| "step_from (Suc n) k f =
     bindM (attempt f k) (\<lambda>r.
     case r of Inl (Retryable _) \<Rightarrow> step_from n (Suc k) f | _ \<Rightarrow> retM r)"

definition step_do :: "nat \<Rightarrow> ('a, 'z) step \<Rightarrow> (step_error + 'a, 'z) p" where
  "step_do limit f = step_from limit 0 f"

definition failing :: "step_failure \<Rightarrow> (step_error + 'a, 'z) m" where
  "failing x = retM (Inl (Retryable x))"

definition and_then ::
  "(step_error + 'a, 'z) m \<Rightarrow> ('a \<Rightarrow> (step_error + 'b, 'z) m) \<Rightarrow> (step_error + 'b, 'z) m" where
  "and_then c k = bindM c (\<lambda>r. case r of Inl e \<Rightarrow> retM (Inl e) | Inr x \<Rightarrow> k x)"

section \<open>The context\<close>

record 'z longrun_ctx =
  lr_env       :: env
  lr_hash      :: platform_hash
  lr_media     :: "'z plane_world_ext chat_world_ext handler_world_ext bucket option"
  lr_runner    :: "nat \<Rightarrow> nonchat_request \<Rightarrow> nonchat_result"
  lr_fetch     :: "nat \<Rightarrow> string \<Rightarrow> fetch_outcome"
  lr_uuid      :: "nat \<Rightarrow> string"
  lr_use_bytes :: "nat \<Rightarrow> string"
  lr_text      :: "step_failure \<Rightarrow> string"

definition calls_so_far :: "(nat, 'z) p" where
  "calls_so_far = (\<lambda>w. (Inr (length (pw_log w)), w))"

section \<open>The model call\<close>

text \<open>The reference image: staged in the object store, or the URL of the request.\<close>

definition job_image :: "('z, 'x) longrun_ctx_scheme \<Rightarrow> longrun_params \<Rightarrow> (step_error + string option, 'z) p" where
  "job_image cx ps =
     (case (lp_image_object_key ps, lr_media cx) of
        (Some (c # key), Some b) \<Rightarrow>
          bindM (bu_get b (c # key) None) (\<lambda>obj.
          case obj of
            None \<Rightarrow> failing StagedImageMissing
          | Some (bytes, ctype) \<Rightarrow>
              retM (Inr (Some (''data:'' @ (case ctype of Some t \<Rightarrow> t | None \<Rightarrow> ''image/jpeg'')
                @ '';base64,'' @ btoa bytes))))
      | _ \<Rightarrow> retM (Inr (lp_image_url ps)))"

definition job_slot ::
  "('z, 'x) longrun_ctx_scheme \<Rightarrow> longrun_params \<Rightarrow> nat \<Rightarrow> (step_error + upload_slot option, 'z) p" where
  "job_slot cx ps k =
     (if lp_kind ps = JobVideo \<and> is_grok_video (lp_model_id ps) then
        bindM (upload_slot_for (lr_hash cx) (lr_env cx) (lr_media cx \<noteq> None) (lp_origin ps)
                (new_video_object_key (lp_account_id ps) (lp_request_id ps) (lr_uuid cx k))) (\<lambda>r.
        case r of Inl _ \<Rightarrow> failing NoMediaForUpload | Inr s \<Rightarrow> retM (Inr (Some s)))
      else retM (Inr None))"

definition job_params :: "longrun_params \<Rightarrow> string option \<Rightarrow> upload_slot option \<Rightarrow> js" where
  "job_params ps img slot =
     (case lp_kind ps of
        JobMusic \<Rightarrow> build_music_params (lp_prompt ps) (lp_lyrics ps) None None
      | JobSpeech \<Rightarrow> build_tts_params (lp_model_id ps) (lp_prompt ps) (lp_voice ps)
      | JobImage \<Rightarrow> build_image_params (lp_model_id ps) (lp_prompt ps) img
      | JobVideo \<Rightarrow> build_video_params (lp_model_id ps) (lp_prompt ps) img (map_option us_upload slot)
                     (map_option NInt (lp_duration ps)))"

definition job_request :: "string \<Rightarrow> longrun_params \<Rightarrow> catalog_entry \<Rightarrow> js \<Rightarrow> nonchat_request" where
  "job_request token ps e params =
     \<lparr>nr_upstream_model = lp_upstream_model ps, nr_billing = ce_billing e, nr_modality = ce_modality e,
      nr_params = params, nr_auth_value = token,
      nr_metadata = [(''account_id'', lp_account_id ps), (''client_id'', lp_client_id ps),
        (''plan_id'', lp_plan_id ps), (''request_id'', lp_request_id ps), (''job_id'', lp_job_id ps),
        (''cf_token_id'', ''shared'')]\<rparr>"

text \<open>The answer of the model, unless it is an error or says that the provider failed.\<close>

definition call_job_model ::
  "('z, 'x) longrun_ctx_scheme \<Rightarrow> nonchat_request \<Rightarrow> (step_error + js \<times> string option, 'z) p" where
  "call_job_model cx q =
     bindM calls_so_far (\<lambda>n.
     bindM (log_call (ModelCall q)) (\<lambda>_.
     case lr_runner cx n q of
       NcTimeout ms \<Rightarrow> failing (ModelTimedOut ms)
     | NcUnavailable \<Rightarrow> failing ModelUnavailable
     | NcUpstreamError _ detail \<Rightarrow> failing (ModelFailed detail)
     | NcOk body log_id _ \<Rightarrow>
         (case provider_state_failed body of
            Some msg \<Rightarrow> failing (ProviderFailed msg)
          | None \<Rightarrow> retM (Inr (body, log_id)))))"

section \<open>Storing the result\<close>

text \<open>\<open>/^data:audio\/[^;]+;base64,(.+)$/i\<close> and its image form: the payload, or the text as it is.\<close>

definition strip_typed_url :: "string \<Rightarrow> string \<Rightarrow> string" where
  "strip_typed_url prefix s =
     (let r = drop (length prefix) s; mime = takeWhile (\<lambda>c. c \<noteq> CHR '';'') r; r2 = drop (length mime) r;
          payload = drop 8 r2
      in if js_lower (take (length prefix) s) = prefix \<and> mime \<noteq> [] \<and> js_lower (take 8 r2) = '';base64,''
            \<and> payload \<noteq> [] \<and> \<not> list_ex is_line_end payload
         then payload else s)"

definition put_base64 ::
  "('z, 'x) longrun_ctx_scheme \<Rightarrow> longrun_params \<Rightarrow> string \<Rightarrow> string \<Rightarrow> string \<Rightarrow> string
     \<Rightarrow> (step_error + string, 'z) p" where
  "put_base64 cx ps prefix key ctype b64 =
     (case (lr_media cx, media_signing_secret (env_aig_token (lr_env cx))) of
        (Some b, Some secret) \<Rightarrow>
          (case atob_text (strip_typed_url prefix b64) of
             None \<Rightarrow> throwM PlatformError
           | Some bytes \<Rightarrow>
               if bytes = [] \<or> int (length bytes) > MEDIA_MAX_BYTES then failing BadResultSize
               else bindM (bu_put b key bytes ctype) (\<lambda>_.
                    bindM now_sec (\<lambda>t. retM (Inr (media_link (lr_hash cx) secret (lp_origin ps) key t)))))
      | _ \<Rightarrow> failing NoMediaForResult)"

definition put_speech_audio ::
  "('z, 'x) longrun_ctx_scheme \<Rightarrow> longrun_params \<Rightarrow> nat \<Rightarrow> string \<Rightarrow> (step_error + string, 'z) p" where
  "put_speech_audio cx ps k b64 =
     put_base64 cx ps ''data:audio/'' (new_music_object_key (lp_account_id ps) (lp_request_id ps) (lr_uuid cx k))
       ''audio/mpeg'' b64"

definition put_image_bytes ::
  "('z, 'x) longrun_ctx_scheme \<Rightarrow> longrun_params \<Rightarrow> nat \<Rightarrow> string \<Rightarrow> (step_error + string, 'z) p" where
  "put_image_bytes cx ps k b64 =
     put_base64 cx ps ''data:image/'' (new_image_object_key (lp_account_id ps) (lp_request_id ps) (lr_uuid cx k))
       ''image/png'' b64"

text \<open>Poll once a second until the deadline; None when the given rounds run out.\<close>

fun wait_object :: "nat \<Rightarrow> 'z bucket \<Rightarrow> string \<Rightarrow> int \<Rightarrow> (bool option, 'z) m" where
  "wait_object 0 b key deadline = retM None"
| "wait_object (Suc n) b key deadline =
     bindM clock (\<lambda>t.
     if t < deadline then
       bindM (bu_head b key) (\<lambda>obj.
       if obj \<noteq> None then retM (Some True)
       else bindM (sleep 1000) (\<lambda>_. wait_object n b key deadline))
     else bindM (bu_head b key) (\<lambda>obj. retM (Some (obj \<noteq> None))))"

definition wait_for_object :: "nat \<Rightarrow> 'z bucket \<Rightarrow> string \<Rightarrow> int \<Rightarrow> (bool option, 'z) m" where
  "wait_for_object rounds b key max_ms = bindM clock (\<lambda>t. wait_object rounds b key (t + max_ms))"

definition landed_upload ::
  "('z, 'x) longrun_ctx_scheme \<Rightarrow> upload_slot option \<Rightarrow> string option \<Rightarrow> (string option, 'z) p" where
  "landed_upload cx slot url =
     (case (slot, lr_media cx) of
        (Some s, Some b) \<Rightarrow>
          bindM (wait_for_object WAIT_ROUNDS b (us_key s) 45000) (\<lambda>ready.
          retM (if ready = Some True then Some (us_download s) else url))
      | _ \<Rightarrow> retM url)"

definition job_asset ::
  "('z, 'x) longrun_ctx_scheme \<Rightarrow> longrun_params \<Rightarrow> nat \<Rightarrow> upload_slot option \<Rightarrow> js \<Rightarrow> (step_error + string, 'z) p" where
  "job_asset cx ps k slot body =
     (case lp_kind ps of
        JobSpeech \<Rightarrow>
          (case extract_audio_base64 body of
             Some (c # b64) \<Rightarrow> put_speech_audio cx ps k (c # b64)
           | _ \<Rightarrow> failing (NoPayload JobSpeech))
      | JobImage \<Rightarrow>
          (case extract_image_asset body of
             None \<Rightarrow> failing (NoPayload JobImage)
           | Some (AssetB64 b64) \<Rightarrow> if b64 = [] then failing (NoPayload JobImage) else put_image_bytes cx ps k b64
           | Some (AssetUrl u) \<Rightarrow> if u = [] then failing (NoPayload JobImage) else retM (Inr u))
      | kind \<Rightarrow>
          bindM (landed_upload cx slot
                   (if kind = JobMusic then extract_music_asset body else extract_video_asset body)) (\<lambda>url.
          case url of None \<Rightarrow> failing (NoPayload kind) | Some u \<Rightarrow> retM (Inr u)))"

text \<open>Once the model has answered, every failure is final: the provider is not paid twice.\<close>

definition finally_failing :: "(step_error + 'a, 'z) m \<Rightarrow> (step_error + 'a, 'z) m" where
  "finally_failing c =
     catchM (bindM c (\<lambda>r. retM (case r of Inl (Retryable x) \<Rightarrow> Inl (NonRetryable x) | _ \<Rightarrow> r)))
       (\<lambda>e. retM (Inl (NonRetryable (Threw e))))"

definition invoke_model ::
  "('z, 'x) longrun_ctx_scheme \<Rightarrow> longrun_params \<Rightarrow> (string \<times> string option, 'z) step" where
  "invoke_model cx ps k =
     (if gateway_config_of (lr_env cx) = None then failing NoGateway
      else if env_text (env_aig_token (lr_env cx)) = [] then failing NoToken
      else
        and_then (job_image cx ps) (\<lambda>img.
        and_then (job_slot cx ps k) (\<lambda>slot.
        case find_model (lp_model_id ps) of
          None \<Rightarrow> failing ModelNotInCatalog
        | Some e \<Rightarrow>
            and_then (call_job_model cx (job_request (env_text (env_aig_token (lr_env cx))) ps e
                        (job_params ps img slot))) (\<lambda>(body, log_id).
            finally_failing
              (and_then (job_asset cx ps k slot body) (\<lambda>url. retM (Inr (url, log_id))))))))"

section \<open>Rehosting\<close>

definition rehost_asset_as ::
  "('z, 'x) longrun_ctx_scheme \<Rightarrow> longrun_params \<Rightarrow> string \<Rightarrow> string \<Rightarrow> string \<Rightarrow> (string option, 'z) p" where
  "rehost_asset_as cx ps key dflt url =
     (case (lr_media cx, media_signing_secret (env_aig_token (lr_env cx))) of
        (Some b, Some secret) \<Rightarrow>
          bindM calls_so_far (\<lambda>n.
          bindM (log_call (AssetFetch url)) (\<lambda>_.
          catchM (store_asset b (lr_hash cx) secret (lp_origin ps) key dflt (lr_fetch cx n url)) (\<lambda>_. retM None)))
      | _ \<Rightarrow> retM None)"

definition rehost_music ::
  "('z, 'x) longrun_ctx_scheme \<Rightarrow> longrun_params \<Rightarrow> nat \<Rightarrow> string \<Rightarrow> (string option, 'z) p" where
  "rehost_music cx ps k url =
     rehost_asset_as cx ps (new_music_object_key (lp_account_id ps) (lp_request_id ps) (lr_uuid cx k)) ''audio/mpeg'' url"

definition rehost_image ::
  "('z, 'x) longrun_ctx_scheme \<Rightarrow> longrun_params \<Rightarrow> nat \<Rightarrow> string \<Rightarrow> (string option, 'z) p" where
  "rehost_image cx ps k url =
     rehost_asset_as cx ps (new_image_object_key (lp_account_id ps) (lp_request_id ps) (lr_uuid cx k)) ''image/png'' url"

text \<open>The final asset, and whether it is ours.\<close>

definition rehost_step ::
  "('z, 'x) longrun_ctx_scheme \<Rightarrow> longrun_params \<Rightarrow> string \<Rightarrow> (string \<times> bool, 'z) step" where
  "rehost_step cx ps url k =
     (let plain = (url, lp_kind ps = JobSpeech \<or> (lp_kind ps = JobImage \<and> \<not> looks_like_http_url url)) in
      if looks_like_http_url url \<and> (lp_kind ps = JobMusic \<or> lp_kind ps = JobImage) then
        bindM (if lp_kind ps = JobMusic then rehost_music cx ps k url else rehost_image cx ps k url) (\<lambda>hosted.
        retM (Inr (case hosted of Some h \<Rightarrow> (h, True) | None \<Rightarrow> plain)))
      else retM (Inr plain))"

section \<open>Metering and the end of the job\<close>

definition job_units :: "longrun_params \<Rightarrow> jsnum" where
  "job_units ps = js_max (NInt 1) (js_floor (case lp_billable_units ps of Some u \<Rightarrow> u | None \<Rightarrow> NInt 1))"

definition job_price :: "longrun_params \<Rightarrow> unit_price" where
  "job_price ps = \<lparr>up_micro = lp_unit_micro ps, up_unit = lp_unit ps, up_priced_at = ''workflow''\<rparr>"

definition longrun_event ::
  "('z, 'x) longrun_ctx_scheme \<Rightarrow> longrun_params \<Rightarrow> nat \<Rightarrow> string \<Rightarrow> int \<Rightarrow> string option \<Rightarrow> usage_event" where
  "longrun_event cx ps k key allowance log_id =
     (let micro = int_of_num (fst (price_units (job_units ps) (job_price ps)));
          split = allocate_charge (NInt micro) (NInt (lp_monthly_included ps)) (NInt allowance);
          fa = (if micro > 0 then int_of_num (ca_from_allowance split) else 0);
          fc = (if micro > 0 then int_of_num (ca_from_credit split) else 0)
      in \<lparr>ue_id = new_id ''use'' (lr_use_bytes cx k), ue_request_id = lp_request_id ps,
          ue_account_id = lp_account_id ps, ue_client_id = lp_client_id ps, ue_model_id = lp_model_id ps,
          ue_period_key = key, ue_input_tokens = None, ue_output_tokens = None, ue_micro_usd = micro,
          ue_from_allowance = fa, ue_from_credit = fc, ue_metered = True, ue_price_basis = Measured,
          ue_unmetered_reason = None, ue_upstream_status = Some 200, ue_gateway_log_id = log_id\<rparr>)"

definition meter_job ::
  "('z, 'x) longrun_ctx_scheme \<Rightarrow> longrun_params \<Rightarrow> string option \<Rightarrow> (unit, 'z) step" where
  "meter_job cx ps log_id k =
     bindM (get_account (lp_account_id ps)) (\<lambda>account.
     case account of
       None \<Rightarrow> failing AccountMissing
     | Some _ \<Rightarrow>
         bindM clock (\<lambda>t.
         let key = pb_key (period_bounds_of t) in
         bindM (get_period (lp_account_id ps) key) (\<lambda>before.
         bindM (record_usage (longrun_event cx ps k key (allowance_spent before) log_id)) (\<lambda>_. retM (Inr ())))))"

definition job_result :: "longrun_params \<Rightarrow> string \<Rightarrow> bool \<Rightarrow> int \<Rightarrow> js" where
  "job_result ps url rehosted t =
     (let model = (''model'', JStr (lp_model_id ps)) in
      case lp_kind ps of
        JobMusic \<Rightarrow> JObj [(''audio'', JStr url), (''rehosted'', JBool rehosted), model]
      | JobSpeech \<Rightarrow> JObj [(''audio'', JStr url), (''format'', JStr ''mp3''), model]
      | JobImage \<Rightarrow> JObj [(''created'', JNum (NInt (t div 1000))), (''data'', JArr [JObj [(''url'', JStr url)]]),
                       model, (''rehosted'', JBool rehosted)]
      | JobVideo \<Rightarrow> JObj [(''video'', JStr url), model])"

definition finalize_step ::
  "('z, 'x) longrun_ctx_scheme \<Rightarrow> longrun_params \<Rightarrow> string option \<Rightarrow> string \<times> bool \<Rightarrow> (unit, 'z) step" where
  "finalize_step cx ps log_id asset k =
     and_then (meter_job cx ps log_id k) (\<lambda>_.
     bindM clock (\<lambda>t.
     bindM (update_async_job (lp_job_id ps) Succeeded
              (Some (Some (js_stringify (job_result ps (fst asset) (snd asset) t)))) (Some None) (Some None) t) (\<lambda>_.
     retM (Inr ()))))"

section \<open>The workflow\<close>

definition fail_job :: "longrun_params \<Rightarrow> string \<Rightarrow> string \<Rightarrow> (unit, 'z) p" where
  "fail_job ps code msg =
     catchM (bindM clock (\<lambda>t.
       update_async_job (lp_job_id ps) Failed None (Some (Some code)) (Some (Some (take 280 msg))) t))
       (\<lambda>_. retM ())"

definition longrun_steps :: "('z, 'x) longrun_ctx_scheme \<Rightarrow> longrun_params \<Rightarrow> (step_error + unit, 'z) p" where
  "longrun_steps cx ps =
     and_then (step_do 1 (invoke_model cx ps)) (\<lambda>(url, log_id).
     and_then (step_do 2 (rehost_step cx ps url)) (\<lambda>asset.
     step_do 3 (finalize_step cx ps log_id asset)))"

definition failure_of :: "step_error \<Rightarrow> step_failure" where
  "failure_of e = (case e of Retryable x \<Rightarrow> x | NonRetryable x \<Rightarrow> x)"

text \<open>A failed run marks its job and throws again.\<close>

definition run_longrun :: "('z, 'x) longrun_ctx_scheme \<Rightarrow> longrun_params \<Rightarrow> (step_error + unit, 'z) p" where
  "run_longrun cx ps =
     bindM (longrun_steps cx ps) (\<lambda>r.
     case r of
       Inl e \<Rightarrow> bindM (fail_job ps ''upstream_error'' (lr_text cx (failure_of e))) (\<lambda>_. retM (Inl e))
     | Inr _ \<Rightarrow> retM (Inr ()))"

end
