(* ===== verification/NonchatProps.thy ===== *)
theory NonchatProps
  imports Nonchat ChatProps
begin

text \<open>
  What the five doors guarantee: nothing leaves the plane before the gate has admitted the request,
  at most one paid call or workflow is started, and money moves exactly when a result is served.
\<close>

section \<open>Silent computations\<close>

text \<open>The tables that money is counted from.\<close>

definition ledger_same :: "db \<Rightarrow> db \<Rightarrow> bool" where
  "ledger_same d d' \<longleftrightarrow> t_events d' = t_events d \<and> t_accounts d' = t_accounts d \<and> t_clients d' = t_clients d
     \<and> t_plans d' = t_plans d \<and> t_periods d' = t_periods d \<and> t_prices d' = t_prices d \<and> db_fk d' = db_fk d"

lemma ledger_same_refl [simp]: "ledger_same d d"
  by (simp add: ledger_same_def)

lemma ledger_same_trans [trans]: "ledger_same a b \<Longrightarrow> ledger_same b c \<Longrightarrow> ledger_same a c"
  by (simp add: ledger_same_def)

lemma same_books_ledger: "same_books d d' \<Longrightarrow> ledger_same d d'"
  by (simp add: same_books_def ledger_same_def)

text \<open>Nothing leaves the plane, the ledger stays, and no failure is added to the schedule.\<close>

definition silent :: "('a, 'z) p \<Rightarrow> bool" where
  "silent c \<longleftrightarrow> (\<forall>w. pw_log (snd (c w)) = pw_log w \<and> ledger_same (w_db w) (w_db (snd (c w)))
     \<and> (quiet w \<longrightarrow> quiet (snd (c w))))"

named_theorems silent_intros \<open>composition rules for \<open>silent\<close>\<close>

lemma silentD:
  "silent c \<Longrightarrow> c w = (r, w') \<Longrightarrow> pw_log w' = pw_log w \<and> ledger_same (w_db w) (w_db w') \<and> (quiet w \<longrightarrow> quiet w')"
  by (metis silent_def snd_conv)

lemma silent_ret [silent_intros]: "silent (retM x)"
  by (simp add: silent_def)

lemma silent_throw [silent_intros]: "silent (throwM e)"
  by (simp add: silent_def)

lemma silent_bind [silent_intros]:
  assumes "silent c" "\<And>x. silent (k x)"
  shows "silent (bindM c k)"
  unfolding silent_def
proof
  fix w
  obtain r w1 where c: "c w = (r, w1)" by fastforce
  note c1 = silentD [OF assms(1) c]
  show "pw_log (snd (bindM c k w)) = pw_log w \<and> ledger_same (w_db w) (w_db (snd (bindM c k w)))
     \<and> (quiet w \<longrightarrow> quiet (snd (bindM c k w)))"
  proof (cases r)
    case (Inr x)
    obtain r2 w2 where "k x w1 = (r2, w2)" by fastforce
    with silentD [OF assms(2) this] c Inr c1 show ?thesis by (auto simp: bindM_def intro: ledger_same_trans)
  qed (use c c1 in \<open>simp add: bindM_def\<close>)
qed

lemma silent_catch [silent_intros]:
  assumes "silent c" "\<And>e. silent (h e)"
  shows "silent (catchM c h)"
  unfolding silent_def
proof
  fix w
  obtain r w1 where c: "c w = (r, w1)" by fastforce
  note c1 = silentD [OF assms(1) c]
  show "pw_log (snd (catchM c h w)) = pw_log w \<and> ledger_same (w_db w) (w_db (snd (catchM c h w)))
     \<and> (quiet w \<longrightarrow> quiet (snd (catchM c h w)))"
  proof (cases r)
    case (Inl x)
    obtain r2 w2 where "h x w1 = (r2, w2)" by fastforce
    with silentD [OF assms(2) this] c Inl c1 show ?thesis by (auto simp: catchM_def intro: ledger_same_trans)
  qed (use c c1 in \<open>simp add: catchM_def\<close>)
qed

lemma silent_stmt:
  assumes "\<And>now d x d'. f now d = Some (x, d') \<Longrightarrow> ledger_same d d'"
  shows "silent (stmt f)"
  using assms
  by (auto simp: silent_def stmt_def Let_def quiet_def split: fault.splits option.splits prod.splits)

lemma silent_query [silent_intros]: "silent (query f)"
  unfolding query_def by (rule silent_stmt) auto

lemma silent_write: "(\<And>d d'. f d = Some d' \<Longrightarrow> ledger_same d d') \<Longrightarrow> silent (run_write f)"
  unfolding run_write_def by (rule silent_stmt) (auto simp: unit_res_def)

lemma silent_if [silent_intros]:
  "(b \<Longrightarrow> silent c) \<Longrightarrow> (\<not> b \<Longrightarrow> silent d) \<Longrightarrow> silent (if b then c else d)"
  by simp

lemma silent_option [silent_intros]:
  "(v = None \<Longrightarrow> silent a) \<Longrightarrow> (\<And>x. v = Some x \<Longrightarrow> silent (b x)) \<Longrightarrow>
     silent (case v of None \<Rightarrow> a | Some x \<Rightarrow> b x)"
  by (cases v) simp_all

lemma silent_sum [silent_intros]:
  "(\<And>x. silent (a x)) \<Longrightarrow> (\<And>x. silent (b x)) \<Longrightarrow> silent (case v of Inl x \<Rightarrow> a x | Inr x \<Rightarrow> b x)"
  by (cases v) simp_all

lemma silent_prod [silent_intros]:
  "(\<And>x y. silent (f x y)) \<Longrightarrow> silent (case v of (x, y) \<Rightarrow> f x y)"
  by (cases v) simp

lemma silent_time [silent_intros]: "silent (wait_until t)" "silent clock" "silent now_sec" "silent (sleep n)"
  by (simp_all add: silent_def wait_until_def clock_def now_sec_def sleep_def quiet_def)

lemma silent_ops [silent_intros]:
  "silent (get_plan i)" "silent (get_model_price i)" "silent (get_period a k)" "silent (get_account a)"
  "silent (get_async_job i)" "silent (resolve_client f rq)" "silent (check_rate_limit b l n)"
proof -
  show "silent (get_plan i)" "silent (get_model_price i)" "silent (get_period a k)" "silent (get_account a)"
    "silent (get_async_job i)" "silent (resolve_client f rq)"
    unfolding get_plan_def get_model_price_def get_period_def get_account_def get_async_job_def
      resolve_client_def get_client_by_key_id_def
    by (intro silent_intros)+
  have "silent (claim_rate_bucket b t n)" for t
    unfolding claim_rate_bucket_def by (rule silent_stmt) (auto simp: claim_bucket_def Let_def ledger_same_def)
  then show "silent (check_rate_limit b l n)"
    unfolding check_rate_limit_def now_epoch_seconds_def by (intro silent_intros)
qed

lemma silent_jobs [silent_intros]:
  "silent (create_async_job row)" "silent (update_async_job i st r c det t)"
  unfolding create_async_job_def update_async_job_def
  by (intro silent_intros silent_write; auto simp: ledger_same_def split: if_splits)+

lemma silent_require_caller [silent_intros]: "silent (require_caller f rid rq)"
  unfolding require_caller_def by (intro silent_intros)

section \<open>What the context may do\<close>

definition bucket_silent :: "'z plane_world_ext chat_world_ext handler_world_ext bucket \<Rightarrow> bool" where
  "bucket_silent b \<longleftrightarrow> (\<forall>k. silent (bu_head b k)) \<and> (\<forall>k r. silent (bu_get b k r))
     \<and> (\<forall>k bs ct. silent (bu_put b k bs ct))"

definition plane_safe :: "('z, 'x) plane_ctx_scheme \<Rightarrow> bool" where
  "plane_safe cx \<longleftrightarrow>
     (\<forall>f a. cx_credentials cx = Some f \<longrightarrow> silent (f a)) \<and> (\<forall>b. nx_media cx = Some b \<longrightarrow> bucket_silent b)"

lemma silent_gate:
  assumes "plane_safe cx"
  shows "silent (gate_nonchat cx md rq)"
proof -
  have creds: "silent (f a)" if "cx_credentials cx = Some f" for f a
    using assms that by (simp add: plane_safe_def)
  have "silent (money_gates cx raw c p m)" for raw c p m
    unfolding money_gates_def Let_def
    by (auto intro!: silent_intros creds split: balance_decision.splits credential_outcome.splits)
  then show ?thesis
    unfolding gate_nonchat_def Let_def by (auto intro!: silent_intros)
qed

lemma silent_landed:
  assumes "\<And>b. media = Some b \<Longrightarrow> bucket_silent b"
  shows "silent (landed_video media slot asset)"
proof -
  have heads: "silent (bu_head b k)" if "bucket_silent b" for b k
    using that by (simp add: bucket_silent_def)
  have wait: "silent (wait_rounds n b key deadline step)" if "bucket_silent b" for n b key deadline step
  proof (induction n)
    case 0
    show ?case by (simp only: wait_rounds.simps silent_ret)
  next
    case (Suc n)
    show ?case unfolding wait_rounds.simps by (intro silent_intros heads that Suc)
  qed
  show ?thesis
    unfolding landed_video_def wait_for_media_object_def
    using assms by (auto intro!: silent_intros wait heads split: option.split)
qed

lemma silent_stage:
  assumes "\<And>b. media = Some b \<Longrightarrow> bucket_silent b"
  shows "silent (stage_data_image media a j u)"
  unfolding stage_data_image_def
  using assms by (auto intro!: silent_intros simp: bucket_silent_def split: option.split)

lemma silent_store_asset:
  assumes "bucket_silent b"
  shows "silent (store_asset b hs secret origin key dflt outcome)"
  unfolding store_asset_def
  using assms by (auto intro!: silent_intros simp: bucket_silent_def split: sum.split option.split prod.split)

lemma silent_slot: "silent (upload_slot_for hs e has origin key)"
  unfolding upload_slot_for_def by (auto intro!: silent_intros split: option.split)

section \<open>What leaves the plane\<close>

text \<open>A call that costs money, now or when the workflow runs.\<close>

definition is_paid :: "plane_call \<Rightarrow> bool" where
  "is_paid c = (case c of AssetFetch _ \<Rightarrow> False | _ \<Rightarrow> True)"

definition logs :: "nat \<Rightarrow> (plane_call \<Rightarrow> bool) \<Rightarrow> ('a, 'z) p \<Rightarrow> bool" where
  "logs k P c \<longleftrightarrow> (\<forall>w. \<exists>new. pw_log (snd (c w)) = pw_log w @ new
     \<and> length (List.filter is_paid new) \<le> k \<and> list_all P new)"

lemma logs_kept: "(\<And>w. pw_log (snd (c w)) = pw_log w) \<Longrightarrow> logs k P c"
  by (simp add: logs_def)

lemma logs_silent: "silent c \<Longrightarrow> logs k P c"
  by (rule logs_kept) (simp add: silent_def)

lemma logs_more: "logs k P c \<Longrightarrow> k \<le> l \<Longrightarrow> logs l P c"
  unfolding logs_def by (meson order_trans)

lemma logs_seq:
  assumes "logs k P c" "\<And>r. logs l P (g r)" and w: "pw_log u = pw_log (snd (c w))"
  shows "\<exists>new. pw_log (snd (g r u)) = pw_log w @ new \<and> length (List.filter is_paid new) \<le> k + l \<and> list_all P new"
proof -
  obtain n1 where n1: "pw_log (snd (c w)) = pw_log w @ n1" "length (List.filter is_paid n1) \<le> k" "list_all P n1"
    using assms(1) unfolding logs_def by blast
  obtain n2 where "pw_log (snd (g r u)) = pw_log u @ n2" "length (List.filter is_paid n2) \<le> l" "list_all P n2"
    using assms(2) unfolding logs_def by blast
  with n1 w show ?thesis by (intro exI [of _ "n1 @ n2"]) simp
qed

lemma logs_bind:
  assumes "logs k P c" "\<And>x. logs l P (g x)"
  shows "logs (k + l) P (bindM c g)"
  unfolding logs_def
proof
  fix w
  obtain r w1 where c: "c w = (r, w1)" by fastforce
  show "\<exists>new. pw_log (snd (bindM c g w)) = pw_log w @ new
     \<and> length (List.filter is_paid new) \<le> k + l \<and> list_all P new"
  proof (cases r)
    case (Inr x)
    then show ?thesis using logs_seq [OF assms, where w = w and u = w1 and r = x] c by (simp add: bindM_def)
  next
    case (Inl e)
    then show ?thesis using logs_more [OF assms(1) le_add1, of l] c by (auto simp: bindM_def logs_def dest: spec [of _ w])
  qed
qed

lemma logs_catch:
  assumes "logs k P c" "\<And>x. logs l P (g x)"
  shows "logs (k + l) P (catchM c g)"
  unfolding logs_def
proof
  fix w
  obtain r w1 where c: "c w = (r, w1)" by fastforce
  show "\<exists>new. pw_log (snd (catchM c g w)) = pw_log w @ new
     \<and> length (List.filter is_paid new) \<le> k + l \<and> list_all P new"
  proof (cases r)
    case (Inl x)
    then show ?thesis using logs_seq [OF assms, where w = w and u = w1 and r = x] c by (simp add: catchM_def)
  next
    case (Inr e)
    then show ?thesis using logs_more [OF assms(1) le_add1, of l] c by (auto simp: catchM_def logs_def dest: spec [of _ w])
  qed
qed

lemma logs_then: "logs 0 P c \<Longrightarrow> (\<And>x. logs k P (g x)) \<Longrightarrow> logs k P (bindM c g)"
  using logs_bind [of 0 P c k g] by simp

lemma logs_last: "logs k P c \<Longrightarrow> (\<And>x. logs 0 P (g x)) \<Longrightarrow> logs k P (bindM c g)"
  using logs_bind [of k P c 0 g] by simp

lemma logs_try: "logs 0 P c \<Longrightarrow> (\<And>x. logs 0 P (g x)) \<Longrightarrow> logs 0 P (catchM c g)"
  using logs_catch [of 0 P c 0 g] by simp

lemma logs_ret: "logs k P (retM x)"
  by (rule logs_silent) (rule silent_ret)

lemma logs_call: "P c \<Longrightarrow> (is_paid c \<Longrightarrow> 0 < k) \<Longrightarrow> logs k P (log_call c)"
  by (auto simp: logs_def log_call_def)

lemma logs_pay: "P c \<Longrightarrow> (\<And>x. logs 0 P (g x)) \<Longrightarrow> logs (Suc 0) P (bindM (log_call c) g)"
  by (rule logs_last) (auto intro: logs_call)

lemma logs_stmt: "logs k P (stmt f)"
  by (rule logs_kept) (auto simp: stmt_def Let_def split: fault.splits option.splits prod.splits)

lemma logs_record: "logs k P (record_usage e)"
proof -
  have "logs 0 P (record_usage e)"
    unfolding record_usage_def run_write_def by (auto intro!: logs_then logs_stmt logs_ret)
  then show ?thesis by (rule logs_more) simp
qed

lemma logs_recorders:
  "logs k P (record_quietly e)" "logs k P (record_unmetered cx g reason st)"
  "logs k P (reject_answer cx g reason)" "logs k P (meter_and_respond cx g u b code lid)"
proof -
  have q: "logs 0 P (record_quietly e)" for e
    unfolding record_quietly_def by (intro logs_try logs_then logs_record logs_ret)
  have r: "logs 0 P (record_unmetered cx g reason st)" for st
    unfolding record_unmetered_def by (intro logs_try logs_record logs_ret)
  have "logs 0 P (reject_answer cx g reason)"
    unfolding reject_answer_def by (auto intro!: logs_then r logs_ret)
  moreover have "logs 0 P (meter_and_respond cx g u b code lid)"
    unfolding meter_and_respond_def Let_def
    by (auto intro!: logs_then q logs_ret logs_silent [OF silent_ops(3)] logs_silent [OF silent_ops(4)] split: prod.split)
  ultimately show "logs k P (record_quietly e)" "logs k P (record_unmetered cx g reason st)"
    "logs k P (reject_answer cx g reason)" "logs k P (meter_and_respond cx g u b code lid)"
    using q r by (meson logs_more le0)+
qed

lemma logs_unmetered_then: "logs k P (bindM (record_unmetered cx g reason st) (\<lambda>_. retM r))"
  by (rule logs_more [of 0]) (auto intro: logs_then logs_recorders logs_ret)

text \<open>What a door may send for an admitted request: one call of the admitted model with the request's
  credential and ids, or its workflow with the admitted price.\<close>

definition sends_for :: "('z, 'x) plane_ctx_scheme \<Rightarrow> nonchat_gate \<Rightarrow> plane_call \<Rightarrow> bool" where
  "sends_for cx g c =
     (case c of
        ModelCall q \<Rightarrow> \<exists>params. q = door_request cx g params
      | DeepgramCall m _ _ \<Rightarrow> m = ce_upstream (ng_model g) \<and> is_deepgram_batch_stt (ce_id (ng_model g))
      | AssetFetch url \<Rightarrow> looks_like_http_url url
      | WorkflowStart ps \<Rightarrow> \<exists>a image key. ps = workflow_params cx g a image key)"

lemma logs_accepted:
  assumes "\<And>body lid. logs 0 (sends_for cx g) (k body lid)"
  shows "logs (Suc 0) (sends_for cx g) (accepted_answer cx g params k)"
proof -
  have "logs (Suc 0) (sends_for cx g) (run_model cx g params)"
    unfolding run_model_def Let_def
    by (rule logs_pay) (auto intro!: logs_then logs_recorders logs_ret simp: sends_for_def split: nonchat_result.split)
  then show ?thesis
    unfolding accepted_answer_def
    by (rule logs_last) (auto intro!: assms logs_then logs_recorders logs_ret split: sum.split)
qed

lemma logs_settle: "logs k P c \<Longrightarrow> logs k P (settle c)"
  unfolding settle_def by (auto intro!: logs_last logs_ret)

lemma logs_served: "logs k P c \<Longrightarrow> logs k P (served c)"
  unfolding served_def by (auto intro!: logs_last logs_ret)

lemma logs_start:
  assumes "plane_safe cx"
  shows "logs (Suc 0) (sends_for cx g) (start_async_longrun cx g a)"
proof -
  have staged: "silent (staged_image cx g a)"
    unfolding staged_image_def using assms
    by (auto intro!: silent_intros silent_stage simp: plane_safe_def split: option.split)
  show ?thesis
  proof (cases "nx_longrun cx")
    case (Some create)
    show ?thesis
      unfolding start_async_longrun_def Some option.case Let_def
      by (intro logs_then [OF logs_silent [OF silent_jobs(1)]] logs_then [OF logs_silent [OF staged]] logs_pay
          logs_silent silent_intros) (auto simp: sends_for_def)
  qed (simp add: start_async_longrun_def logs_ret)
qed

lemma logs_image_door: "plane_safe cx \<Longrightarrow> logs (Suc 0) (sends_for cx g) (image_door cx rq g)"
  unfolding image_door_def Let_def
  by (auto intro!: logs_ret logs_start logs_settle logs_accepted logs_served logs_recorders split: option.split)

lemma logs_speech_door: "plane_safe cx \<Longrightarrow> logs (Suc 0) (sends_for cx g) (speech_door cx rq g)"
  unfolding speech_door_def Let_def
  by (auto intro!: logs_ret logs_start logs_settle logs_accepted logs_served logs_recorders split: option.split list.split)

lemma logs_transcription_door: "logs (Suc 0) (sends_for cx g) (transcription_door cx g)"
proof -
  have "logs (Suc 0) (sends_for cx g) (run_deepgram cx g audio mime)" if "is_deepgram_batch_stt (ce_id (ng_model g))"
    for audio mime
    unfolding run_deepgram_def Let_def using that
    by (auto intro!: logs_ret logs_pay logs_unmetered_then logs_recorders simp: sends_for_def
        split: option.split prod.split sum.split)
  then show ?thesis
    unfolding transcription_door_def Let_def
    by (auto intro!: logs_ret logs_settle logs_accepted logs_served logs_recorders logs_silent [OF silent_throw]
        split: option.split prod.split)
qed

lemma logs_video_door: "plane_safe cx \<Longrightarrow> logs (Suc 0) (sends_for cx g) (video_door cx rq g)"
proof -
  assume safe: "plane_safe cx"
  have landed: "silent (landed_video (nx_media cx) slot asset)" for slot asset
    using safe by (auto intro!: silent_landed simp: plane_safe_def)
  have with_slot: "logs (Suc 0) (sends_for cx g) (produce_with_slot cx g prompt url dur slot)" for prompt url dur slot
    unfolding produce_with_slot_def
    by (auto intro!: logs_accepted logs_then logs_recorders logs_ret logs_silent [OF landed] split: option.split)
  have "logs (Suc 0) (sends_for cx g) (produce_video cx g prompt url dur)" for prompt url dur
    unfolding produce_video_def
    by (auto intro!: with_slot logs_then logs_ret logs_silent [OF silent_slot] split: sum.split)
  then show ?thesis
    unfolding video_door_def Let_def
    by (auto intro!: logs_ret logs_start safe logs_last logs_recorders split: sum.split prod.split)
qed

lemma logs_music_door: "plane_safe cx \<Longrightarrow> logs (Suc 0) (sends_for cx g) (music_door cx rq g)"
proof -
  assume safe: "plane_safe cx"
  have "silent (store_asset b hs secret origin key dflt outcome)" if "nx_media cx = Some b"
    for b hs secret origin key dflt outcome
    using safe that by (auto intro!: silent_store_asset simp: plane_safe_def)
  then have rehost: "logs 0 (sends_for cx g) (rehost_music_audio cx a url)" if "looks_like_http_url url" for a url
    unfolding rehost_music_audio_def using that
    by (auto intro!: logs_ret logs_then logs_call logs_silent [OF silent_catch] silent_intros
        simp: sends_for_def is_paid_def split: option.split)
  have "logs (Suc 0) (sends_for cx g) (produce_music cx g prompt lyrics i opt)" for prompt lyrics i opt
    unfolding produce_music_def
    by (auto intro!: logs_accepted logs_then rehost logs_recorders logs_ret split: option.split)
  then show ?thesis
    unfolding music_door_def Let_def
    by (auto intro!: logs_ret logs_start safe logs_last logs_recorders split: sum.split prod.split option.split)
qed

section \<open>The admission\<close>

text \<open>What the gate owes to the stored state.\<close>

definition door_admitted ::
  "('z, 'x) plane_ctx_scheme \<Rightarrow> modality \<Rightarrow> request \<Rightarrow> db \<Rightarrow> nonchat_gate \<Rightarrow> bool" where
  "door_admitted cx md rq d g \<longleftrightarrow>
     (\<exists>secret. bearer_from_request rq = Some (format_client_key (cl_key_id (ng_client g)) secret)
        \<and> cl_secret_hash (ng_client g) = sha256_hex (cx_sha256 cx) secret)
   \<and> ng_client g \<in> set (t_clients d) \<and> cl_revoked_at (ng_client g) = None
   \<and> ng_account g \<in> set (t_accounts d) \<and> ac_id (ng_account g) = cl_account_id (ng_client g)
   \<and> ac_suspended_at (ng_account g) = None
   \<and> (\<exists>row \<in> set (t_plans d). pr_id row = ac_plan_id (ng_account g) \<and> plan_from_row row = Inr (ng_plan g))
   \<and> (\<exists>name. find_model name = Some (ng_model g)) \<and> ce_modality (ng_model g) = md
   \<and> entitles_tier (ng_plan g) (ce_tier (ng_model g))
   \<and> resolve_unit_price (ng_model g) (lookup mp_model_id (ce_id (ng_model g)) (t_prices d)) = Some (ng_price g)
   \<and> nx_runner cx = Some (ng_run g)
   \<and> (let spent = allowance_spent (lookup period_key_of (ac_id (ng_account g), pb_key (period_bounds_of (cx_now cx))) (t_periods d))
      in (\<exists>r a c. decide_balance (chat_pools (ng_account g) (ng_plan g) spent) = BalAllow r a c)
         \<and> \<not> below_unit_rate (ng_price g) (ng_account g) (ng_plan g) spent)"

lemma door_gate_Inr:
  "door_gate rid md raw p = Inr m \<Longrightarrow>
     (\<exists>name. find_model name = Some m) \<and> ce_modality m = md \<and> entitles_tier p (ce_tier m)"
  by (auto simp: door_gate_def Let_def split: option.splits if_splits)

lemma money_gates_Inr:
  assumes "money_gates cx raw c p m w = (Inr (Inr g), w')"
  shows "ng_client g = ca_client c \<and> ng_account g = ca_account c \<and> ng_plan g = p \<and> ng_model g = m
    \<and> resolve_unit_price m (lookup mp_model_id (ce_id m) (t_prices (w_db w))) = Some (ng_price g)
    \<and> nx_runner cx = Some (ng_run g)
    \<and> (let spent = allowance_spent (lookup period_key_of (ac_id (ca_account c), pb_key (period_bounds_of (cx_now cx)))
                     (t_periods (w_db w)))
       in (\<exists>r a k. decide_balance (chat_pools (ca_account c) p spent) = BalAllow r a k)
         \<and> \<not> below_unit_rate (ng_price g) (ca_account c) p spent)"
  using assms unfolding money_gates_def Let_def
  by (elim bindM_InrE)
     (auto split: option.splits balance_decision.splits credential_outcome.splits if_splits elim!: bindM_InrE
           dest!: get_model_price_result get_period_result)

lemma gate_nonchat_Inr:
  assumes "gate_nonchat cx md rq w = (Inr (Inr g), w')"
  shows "door_admitted cx md rq (w_db w) g"
proof -
  obtain c prow p rate raw m w1 w2 w3 where
      c: "require_caller (cx_sha256 cx) (cx_request_id cx) rq w = (Inr (Inr c), w1)"
    and prow: "get_plan (ac_plan_id (ca_account c)) w1 = (Inr (Some prow), w2)" "plan_from_row prow = Inr p"
    and rate: "check_rate_limit (inference_bucket (ac_id (ca_account c)))
               (plan_requests_per_minute p) RATE_WINDOW_SECONDS w2 = (Inr rate, w3)"
    and m: "door_gate (cx_request_id cx) md raw p = Inr m" "money_gates cx raw c p m w3 = (Inr (Inr g), w')"
    using assms unfolding gate_nonchat_def Let_def
    by (auto elim!: bindM_InrE split: sum.splits option.splits if_splits)
  note caller = require_caller_Inr [OF c]
  have plan: "w_db w2 = w_db w1" "prow \<in> set (t_plans (w_db w1))" "pr_id prow = ac_plan_id (ca_account c)"
    using prow(1) by (auto simp: get_plan_def dest!: query_result dest: lookup_SomeD [OF sym])
  have "ledger_same (w_db w2) (w_db w3)" using silentD [OF silent_ops(7) rate] by blast
  then have tables: "t_prices (w_db w3) = t_prices (w_db w)" "t_periods (w_db w3) = t_periods (w_db w)"
    using caller plan by (simp_all add: ledger_same_def)
  have "\<exists>row \<in> set (t_plans (w_db w)). pr_id row = ac_plan_id (ca_account c) \<and> plan_from_row row = Inr p"
    using caller plan prow(2) by auto
  then show ?thesis
    using caller door_gate_Inr [OF m(1)] money_gates_Inr [OF m(2)]
    unfolding door_admitted_def tables by auto
qed

lemma with_gate_cases:
  assumes "plane_safe cx"
  shows "(pw_log (snd (with_gate cx md rq k w)) = pw_log w \<and> ledger_same (w_db w) (w_db (snd (with_gate cx md rq k w))))
     \<or> (\<exists>g w1. gate_nonchat cx md rq w = (Inr (Inr g), w1) \<and> with_gate cx md rq k w = k g w1)"
proof -
  obtain r w1 where g: "gate_nonchat cx md rq w = (r, w1)" by fastforce
  from silentD [OF silent_gate [OF assms] g] g show ?thesis
    by (cases r) (auto simp: with_gate_def bindM_def split: sum.split)
qed

lemma with_gate_sends:
  assumes "plane_safe cx" "\<And>g. logs (Suc 0) (sends_for cx g) (k g)"
  shows "(pw_log (snd (with_gate cx md rq k w)) = pw_log w \<and> ledger_same (w_db w) (w_db (snd (with_gate cx md rq k w))))
     \<or> (\<exists>g new. door_admitted cx md rq (w_db w) g \<and> pw_log (snd (with_gate cx md rq k w)) = pw_log w @ new
          \<and> length (List.filter is_paid new) \<le> 1 \<and> list_all (sends_for cx g) new)"
  using with_gate_cases [OF assms(1), of md rq k w]
proof
  assume "\<exists>g w1. gate_nonchat cx md rq w = (Inr (Inr g), w1) \<and> with_gate cx md rq k w = k g w1"
  then obtain g w1 where g: "gate_nonchat cx md rq w = (Inr (Inr g), w1)" "with_gate cx md rq k w = k g w1" by blast
  have "pw_log w1 = pw_log w" using silentD [OF silent_gate [OF assms(1)] g(1)] by blast
  moreover obtain new where "pw_log (snd (k g w1)) = pw_log w1 @ new"
      "length (List.filter is_paid new) \<le> Suc 0" "list_all (sends_for cx g) new"
    using assms(2) unfolding logs_def by blast
  ultimately show ?thesis using gate_nonchat_Inr [OF g(1)] g(2) by auto
qed blast

lemma music_catch:
  "snd (handle_music_generations cx rq w) = snd (with_gate cx Music rq (music_door cx rq) w)"
  by (auto simp: handle_music_generations_def catchM_def split: sum.split prod.split)

section \<open>A sample plane\<close>

definition bare_env :: env where
  "bare_env = \<lparr>env_account_id = None, env_gateway_id = None, env_collect_log = None,
     env_credential_mode = None, env_aig_token = None, env_token_budget = None, env_kek = None,
     env_kek_next = None, env_kek_slot = None, env_upstream_timeout = None, env_nonchat_timeout = None,
     env_admin_token = None, env_cron_live = None, env_cron_lookback = None, env_trust_decode = None,
     env_sandbox_trust = None, env_play_account = None\<rparr>"

definition sample_plane_ctx :: "unit plane_ctx" where
  "sample_plane_ctx = \<lparr>cx_sha256 = id, cx_runner = None, cx_credentials = Some (shared_creds ''token''),
     cx_request_id = ''req_1'', cx_now = 0, cx_use_bytes = ''abcdef'',
     nx_runner = Some (\<lambda>q. NcOk (JObj [(''image'', JStr ''QUI='')]) None None), nx_env = bare_env,
     nx_hash = \<lparr>ph_sha256 = id, ph_hmac = (\<lambda>k t. k @ t)\<rparr>, nx_media = None, nx_deepgram = None,
     nx_longrun = None, nx_fetch = (\<lambda>u. FetchAborted), nx_origin = ''https://plane'', nx_uuid = ''uuid'',
     nx_job_bytes = ''job''\<rparr>"

definition sample_plane_world :: plane_world where
  "sample_plane_world = \<lparr>w_db = w_db auth_world, w_now = 0, w_sched = [], hw_deferred = [], cw_calls = [],
     pw_log = []\<rparr>"

lemma sample_plane_safe: "plane_safe sample_plane_ctx"
  by (simp add: plane_safe_def sample_plane_ctx_def shared_creds_def silent_intros del: retM_run)

text \<open>C30. The doors for images, speech, transcriptions, video and music spend only after the gate.
  Whatever the request, the stored state, the failures and the provider's answers, a door either
  sends nothing and leaves the ledger as it was, or the request was admitted: its caller holds an
  unrevoked key of an unsuspended account on a usable plan, the model is one of this door's, its tier
  is covered, it has a unit price, and allowance and credit together cover one unit.  Then at most
  one paid call is made, for the admitted model, with the request's credential and ids; or one
  workflow is started with the admitted price.\<close>

theorem doors_spend_after_the_gate:
  assumes "plane_safe cx"
    and "(md, h) \<in> {(Image, handle_image_generations cx), (Tts, handle_audio_speech cx),
      (Stt, handle_audio_transcriptions cx), (Video, handle_video_generations cx),
      (Music, handle_music_generations cx)}"
  shows "(pw_log (snd (h rq w)) = pw_log w \<and> ledger_same (w_db w) (w_db (snd (h rq w))))
     \<or> (\<exists>g new. door_admitted cx md rq (w_db w) g \<and> pw_log (snd (h rq w)) = pw_log w @ new
          \<and> length (List.filter is_paid new) \<le> 1 \<and> list_all (sends_for cx g) new)"
proof -
  note doors = logs_image_door [OF assms(1)] logs_speech_door [OF assms(1)] logs_transcription_door
    logs_video_door [OF assms(1)] logs_music_door [OF assms(1)]
  show ?thesis
    using assms(2)
    by (elim insertE emptyE; simp only: prod.inject; elim conjE; hypsubst)
       (unfold handle_image_generations_def handle_audio_speech_def handle_audio_transcriptions_def
          handle_video_generations_def music_catch; rule with_gate_sends [OF assms(1) doors(1)]
          with_gate_sends [OF assms(1) doors(2)] with_gate_sends [OF assms(1) doors(3)]
          with_gate_sends [OF assms(1) doors(4)] with_gate_sends [OF assms(1) doors(5)])+
qed

theorem doors_spend_after_the_gate_witness:
  "(pw_log (snd (handle_image_generations sample_plane_ctx sample_bearer sample_plane_world)) = []
      \<and> ledger_same (w_db sample_plane_world) (w_db (snd (handle_image_generations sample_plane_ctx sample_bearer sample_plane_world))))
   \<or> (\<exists>g new. door_admitted sample_plane_ctx Image sample_bearer (w_db sample_plane_world) g
      \<and> pw_log (snd (handle_image_generations sample_plane_ctx sample_bearer sample_plane_world)) = new
      \<and> length (List.filter is_paid new) \<le> 1 \<and> list_all (sends_for sample_plane_ctx g) new)"
  using doors_spend_after_the_gate [OF sample_plane_safe, of Image "handle_image_generations sample_plane_ctx" sample_bearer sample_plane_world]
  by (simp add: sample_plane_world_def)

section \<open>Money moves when a result is served\<close>

definition still :: "('a, 'z) m \<Rightarrow> bool" where
  "still c \<longleftrightarrow> (\<forall>w. quiet w \<longrightarrow> quiet (snd (c w)) \<and> ledger_same (w_db w) (w_db (snd (c w))))"

lemma silent_still: "silent c \<Longrightarrow> still c"
  by (simp add: silent_def still_def)

lemma still_log_call: "still (log_call c)"
  by (simp add: still_def log_call_def quiet_def)

lemma still_bind:
  assumes "still c" "\<And>x. still (k x)"
  shows "still (bindM c k)"
  using assms unfolding still_def bindM_def
  by (auto split: sum.split prod.split) (metis snd_conv ledger_same_trans)+

definition fresh_ids :: "('z, 'x) ctx_scheme \<Rightarrow> db \<Rightarrow> bool" where
  "fresh_ids cx d \<longleftrightarrow> (\<forall>r \<in> set (t_events d). ue_id r \<noteq> new_id ''use'' (cx_use_bytes cx) \<and> ue_request_id r \<noteq> cx_request_id cx)"

definition gate_stored :: "('z, 'x) plane_ctx_scheme \<Rightarrow> nonchat_gate \<Rightarrow> db \<Rightarrow> bool" where
  "gate_stored cx g d \<longleftrightarrow> has_key ac_id (ac_id (ng_account g)) (t_accounts d) \<and> fk_client d (cl_id (ng_client g)) \<and> fresh_ids cx d"

text \<open>The account's spend as the ledger rows move it: by the credit share of a served result.\<close>

definition unserved :: "db \<Rightarrow> db \<Rightarrow> bool" where
  "unserved d d' \<longleftrightarrow> (\<forall>a. spent_of d' a = spent_of d a)
     \<and> (t_events d' = t_events d \<or> (\<exists>row. t_events d' = t_events d @ [row] \<and> \<not> ue_metered row \<and> ue_micro_usd row = 0))"

definition charged :: "('z, 'x) plane_ctx_scheme \<Rightarrow> nonchat_gate \<Rightarrow> db \<Rightarrow> response \<Rightarrow> db \<Rightarrow> bool" where
  "charged cx g d resp d' \<longleftrightarrow>
     (\<exists>e t n. t_events d' = t_events d @ [usage_event.extend e \<lparr>ue_created_at = t\<rparr>]
        \<and> ue_request_id e = cx_request_id cx \<and> ue_account_id e = ac_id (ng_account g)
        \<and> ue_client_id e = cl_id (ng_client g) \<and> ue_model_id e = ce_id (ng_model g) \<and> ue_metered e
        \<and> 1 \<le> n \<and> NInt (ue_micro_usd e) = js_mul (NInt n) (up_micro (ng_price g))
        \<and> 0 \<le> ue_from_allowance e \<and> 0 \<le> ue_from_credit e
        \<and> ue_from_allowance e + ue_from_credit e = ue_micro_usd e
        \<and> (\<forall>a. spent_of d' a = spent_of d a + (if a = ac_id (ng_account g) then ue_from_credit e else 0))
        \<and> get_header ''prism-usage-recorded'' (resp_headers resp) = Some ''true''
        \<and> get_header ''prism-usage-micro-usd'' (resp_headers resp) = Some (js_num_string (NInt (ue_micro_usd e)))
        \<and> get_header ''prism-spent-micro-usd'' (resp_headers resp) = Some (dec_of_int (spent_of d' (ac_id (ng_account g)))))"

definition door_result :: "('z, 'x) plane_ctx_scheme \<Rightarrow> nonchat_gate \<Rightarrow> db \<Rightarrow> exn + response \<Rightarrow> db \<Rightarrow> bool" where
  "door_result cx g d r d' =
     (case r of
        Inr resp \<Rightarrow> if resp_status resp = 200 then charged cx g d resp d' else unserved d d'
      | Inl _ \<Rightarrow> unserved d d')"

definition settles :: "('z, 'x) plane_ctx_scheme \<Rightarrow> nonchat_gate \<Rightarrow> (response, 'y) m \<Rightarrow> bool" where
  "settles cx g c \<longleftrightarrow> (\<forall>w. quiet w \<and> gate_stored cx g (w_db w)
     \<longrightarrow> door_result cx g (w_db w) (fst (c w)) (w_db (snd (c w))))"

lemma ledger_same_unserved: "ledger_same d d' \<Longrightarrow> unserved d d'"
  by (simp add: ledger_same_def unserved_def spent_of_def)

lemma ledger_same_stored: "ledger_same d d' \<Longrightarrow> gate_stored cx g d' = gate_stored cx g d"
  by (simp add: ledger_same_def gate_stored_def fresh_ids_def fk_client_def)

lemma ledger_same_result: "ledger_same d d1 \<Longrightarrow> door_result cx g d1 r d' = door_result cx g d r d'"
proof -
  assume same: "ledger_same d d1"
  then have "t_events d1 = t_events d" "spent_of d1 = spent_of d" by (auto simp: ledger_same_def spent_of_def)
  then show ?thesis by (simp add: door_result_def unserved_def charged_def split: sum.split)
qed

named_theorems settle_intros \<open>composition rules for \<open>settles\<close>\<close>

lemma settles_ret [settle_intros]: "resp_status resp \<noteq> 200 \<Longrightarrow> settles cx g (retM resp)"
  by (simp add: settles_def door_result_def ledger_same_unserved)

lemma settles_throw [settle_intros]: "settles cx g (throwM e)"
  by (simp add: settles_def door_result_def ledger_same_unserved)

lemma settles_bind:
  fixes c :: "('b, 'y) m"
  assumes "still c" "\<And>x. settles cx g (k x)"
  shows "settles cx g (bindM c k)"
  unfolding settles_def
proof (intro allI impI)
  fix w :: "'y world_scheme"
  assume w: "quiet w \<and> gate_stored cx g (w_db w)"
  obtain r w1 where c: "c w = (r, w1)" by fastforce
  have w1: "quiet w1" "ledger_same (w_db w) (w_db w1)" using assms(1) w c unfolding still_def by (metis snd_conv)+
  show "door_result cx g (w_db w) (fst (bindM c k w)) (w_db (snd (bindM c k w)))"
  proof (cases r)
    case (Inl e)
    then show ?thesis using c w1 by (simp add: bindM_def door_result_def ledger_same_unserved)
  next
    case (Inr x)
    have "door_result cx g (w_db w1) (fst (k x w1)) (w_db (snd (k x w1)))"
      using assms(2) w w1 unfolding settles_def by (simp add: ledger_same_stored)
    then show ?thesis using c Inr ledger_same_result [OF w1(2), of cx g] by (simp add: bindM_def)
  qed
qed

lemma settles_option [settle_intros]:
  "(v = None \<Longrightarrow> settles cx g a) \<Longrightarrow> (\<And>x. v = Some x \<Longrightarrow> settles cx g (b x)) \<Longrightarrow>
     settles cx g (case v of None \<Rightarrow> a | Some x \<Rightarrow> b x)"
  by (cases v) simp_all

lemma settles_if [settle_intros]:
  "(b \<Longrightarrow> settles cx g c) \<Longrightarrow> (\<not> b \<Longrightarrow> settles cx g d) \<Longrightarrow> settles cx g (if b then c else d)"
  by simp

lemma error_not_200 [simp]: "resp_status (error_response_with rid code detail extra) \<noteq> 200"
  by (cases code) (simp_all add: error_response_with_def json_response_def)

lemma unmetered_lands:
  assumes "quiet w" "gate_stored cx g (w_db w)"
  shows "\<exists>d'. record_unmetered cx g reason st w = (Inr (), w\<lparr>w_db := d'\<rparr>) \<and> unserved (w_db w) d'"
proof -
  let ?e = "gate_event cx g 0 0 0 (Some reason) st None"
  have "\<not> event_seen ?e (w_db w)"
    using assms(2) by (auto simp: event_seen_def gate_stored_def fresh_ids_def gate_event_def has_key_def list_ex_iff)
  moreover have "has_key ac_id (ue_account_id ?e) (t_accounts (w_db w))" "fk_client (w_db w) (ue_client_id ?e)" "shares_ok ?e"
    using assms(2) by (simp_all add: gate_stored_def gate_event_def shares_ok_def)
  ultimately obtain d' where d: "record_usage ?e w = (Inr (), w\<lparr>w_db := d'\<rparr>)"
      "t_events d' = t_events (w_db w) @ [usage_event.extend ?e \<lparr>ue_created_at = secs (w_now w)\<rparr>]"
      "\<forall>a. spent_of d' a = spent_of (w_db w) a + (if a = ue_account_id ?e then ue_from_credit ?e else 0)"
    using record_usage_lands [OF assms(1)] by blast
  have "unserved (w_db w) d'"
    using d(2,3) by (simp add: unserved_def gate_event_def usage_event.defs)
  then show ?thesis using d(1) by (intro exI [of _ d']) (simp add: record_unmetered_def catchM_def)
qed

lemma settles_unmetered [settle_intros]:
  assumes "resp_status resp \<noteq> 200"
  shows "settles cx g (bindM (record_unmetered cx g reason st) (\<lambda>_. retM resp))"
  unfolding settles_def
proof (intro allI impI)
  fix w :: "'c world_scheme"
  assume "quiet w \<and> gate_stored cx g (w_db w)"
  then obtain d' where "record_unmetered cx g reason st w = (Inr (), w\<lparr>w_db := d'\<rparr>)" "unserved (w_db w) d'"
    using unmetered_lands by blast
  then show "door_result cx g (w_db w) (fst (bindM (record_unmetered cx g reason st) (\<lambda>_. retM resp) w))
      (w_db (snd (bindM (record_unmetered cx g reason st) (\<lambda>_. retM resp) w)))"
    using assms by (simp add: bindM_def door_result_def)
qed

lemma settles_reject [settle_intros]: "settles cx g (reject_answer cx g reason)"
  unfolding reject_answer_def by (intro settles_unmetered error_not_200)

lemma charge_event_ok:
  assumes "0 \<le> micro"
  shows "shares_ok (charge_event cx g micro allowance st lid)"
  using assms by (auto simp: charge_event_def gate_event_def shares_ok_def allocate_charge_int Let_def)

lemma settles_meter [settle_intros]:
  assumes price: "up_micro (ng_price g) = NInt m" "0 \<le> m" and units: "1 \<le> n"
  shows "settles cx g (meter_and_respond cx g (NInt n) body st lid)"
  unfolding settles_def
proof (intro allI impI)
  fix w :: "'c world_scheme"
  assume w: "quiet w \<and> gate_stored cx g (w_db w)"
  let ?acct = "ac_id (ng_account g)" and ?key = "pb_key (period_bounds_of (cx_now cx))"
  let ?p = "price_units (NInt n) (ng_price g)"
  let ?e = "charge_event cx g (n * m) (allowance_spent (lookup period_key_of (?acct, ?key) (t_periods (w_db w)))) st lid"
  have p: "?p = (NInt (n * m), NInt n)"
    using price units by (simp add: price_units_def Let_def)
  have "\<not> event_seen ?e (w_db w)"
    using w by (auto simp: event_seen_def gate_stored_def fresh_ids_def charge_event_def gate_event_def Let_def has_key_def list_ex_iff)
  moreover have "has_key ac_id (ue_account_id ?e) (t_accounts (w_db w))" "fk_client (w_db w) (ue_client_id ?e)"
    using w by (simp_all add: gate_stored_def charge_event_def gate_event_def Let_def)
  moreover have ok: "shares_ok ?e" using price units by (intro charge_event_ok) simp
  ultimately obtain d' where d: "record_usage ?e w = (Inr (), w\<lparr>w_db := d'\<rparr>)"
      "t_events d' = t_events (w_db w) @ [usage_event.extend ?e \<lparr>ue_created_at = secs (w_now w)\<rparr>]"
      "\<forall>a. spent_of d' a = spent_of (w_db w) a + (if a = ue_account_id ?e then ue_from_credit ?e else 0)"
      "\<forall>a. has_key ac_id a (t_accounts d') = has_key ac_id a (t_accounts (w_db w))"
    using record_usage_lands [of w ?e] w by blast
  obtain a where a: "lookup ac_id ?acct (t_accounts d') = Some a" "spent_of d' ?acct = ac_spent a"
    using d(4) w lookup_None_iff [of ac_id ?acct "t_accounts d'"] by (auto simp: gate_stored_def spent_of_def)
  let ?resp = "json_response (cx_request_id cx) body 200 (receipt_headers cx g ?p True (ac_credit a) (ac_spent a)
      (allowance_spent (lookup period_key_of (?acct, ?key) (t_periods d'))))"
  have run: "meter_and_respond cx g (NInt n) body st lid w = (Inr ?resp, w\<lparr>w_db := d'\<rparr>)"
    using w d(1) a(1) p by (simp add: meter_and_respond_def Let_def bindM_run get_period_def get_account_def query_quiet
        record_quietly_def catchM_def)
  have e: "ue_request_id ?e = cx_request_id cx" "ue_account_id ?e = ?acct" "ue_client_id ?e = cl_id (ng_client g)"
    "ue_model_id ?e = ce_id (ng_model g)" "ue_metered ?e" "ue_micro_usd ?e = n * m"
    by (simp_all add: charge_event_def gate_event_def Let_def)
  have head: "get_header k (resp_headers ?resp) = map_of (receipt_headers cx g ?p True (ac_credit a) (ac_spent a)
      (allowance_spent (lookup period_key_of (?acct, ?key) (t_periods d')))) k"
    if "k \<notin> {''cache-control'', ''prism-request-id'', ''prism-api-version'', ''content-type''}" for k
    using that by (simp add: json_response_def base_headers_def) (simp add: get_header_def)
  have hs: "get_header ''prism-usage-recorded'' (resp_headers ?resp) = Some ''true''"
    "get_header ''prism-usage-micro-usd'' (resp_headers ?resp) = Some (js_num_string (NInt (n * m)))"
    "get_header ''prism-spent-micro-usd'' (resp_headers ?resp) = Some (dec_of_int (spent_of d' ?acct))"
    by (subst head; simp add: receipt_headers_def p a(2))+
  define resp where "resp = ?resp"
  have "charged cx g (w_db w) resp d'"
    unfolding charged_def
    by (rule exI [of _ ?e], rule exI [of _ "secs (w_now w)"], rule exI [of _ n])
       (use d(2,3) e ok price units hs [folded resp_def] in \<open>simp add: shares_ok_def\<close>)
  then have "charged cx g (w_db w) ?resp d'" by (simp only: resp_def)
  then show "door_result cx g (w_db w) (fst (meter_and_respond cx g (NInt n) body st lid w))
      (w_db (snd (meter_and_respond cx g (NInt n) body st lid w)))"
    by (simp add: run door_result_def) (simp add: json_response_def)
qed

lemma settle_as_bind: "settle c = bindM c (case_sum retM retM)"
  unfolding settle_def
  by (rule arg_cong [of _ _ "bindM c"], rule ext) (auto split: sum.split simp del: retM_run)

lemma settle_served [simp]: "bindM (served c) (case_sum retM retM) = c"
  by (simp add: served_def bindM_assoc del: retM_run)

lemma settles_accepted:
  fixes f :: "'a \<Rightarrow> (response, 'z) p"
  assumes "\<And>body lid. settles cx g (bindM (k body lid) (case_sum retM f))"
  shows "settles cx g (bindM (accepted_answer cx g params k) (case_sum retM f))"
proof -
  have "settles cx g (case ng_run g (door_request cx g params) of
      NcTimeout _ \<Rightarrow> bindM (record_unmetered cx g ''timeout'' None)
        (\<lambda>_. retM (error_response (cx_request_id cx) Upstream_timeout) :: (response, 'z) p)
    | NcUnavailable \<Rightarrow> retM (error_response (cx_request_id cx) Unavailable)
    | NcUpstreamError status _ \<Rightarrow> bindM (record_unmetered cx g ''upstream_error'' status)
        (\<lambda>_. retM (error_response_with (cx_request_id cx) Upstream_error
            [(''upstream_status'', case status of Some s \<Rightarrow> JNum (NInt s) | None \<Rightarrow> JNull)] []))
    | NcOk body log_id _ \<Rightarrow> if provider_state_failed body \<noteq> None then reject_answer cx g ''provider_failed''
        else bindM (k body log_id) (case_sum retM f))" (is "settles cx g ?rest")
    using assms by (auto intro!: settle_intros split: nonchat_result.split)
  moreover have "bindM (accepted_answer cx g params k) (case_sum retM f) =
      bindM (log_call (ModelCall (door_request cx g params))) (\<lambda>_. ?rest)"
    by (cases "ng_run g (door_request cx g params)")
       (simp_all add: accepted_answer_def run_model_def Let_def bindM_assoc del: retM_run)
  ultimately show ?thesis by (simp add: settles_bind [OF still_log_call])
qed

text \<open>A price the gate may resolve: a whole, non-negative number of micro-USD.\<close>

definition priced :: "nonchat_gate \<Rightarrow> bool" where
  "priced g \<longleftrightarrow> (\<exists>m. up_micro (ng_price g) = NInt m \<and> 0 \<le> m)"

lemma resolved_unit_price_ok:
  "resolve_unit_price e row = Some u \<Longrightarrow> entry_ok e \<Longrightarrow> \<exists>m. up_micro u = NInt m \<and> 0 \<le> m"
  by (auto simp: resolve_unit_price_def entry_ok_def rate_ok_def is_integer_iff split: option.splits if_splits)

lemma admitted_price: "door_admitted cx md rq d g \<Longrightarrow> priced g"
proof -
  assume a: "door_admitted cx md rq d g"
  then have r: "resolve_unit_price (ng_model g) (lookup mp_model_id (ce_id (ng_model g)) (t_prices d)) = Some (ng_price g)"
    and "entry_ok (ng_model g)"
    using find_model_SomeD by (auto simp: door_admitted_def)
  then show ?thesis using resolved_unit_price_ok by (simp add: priced_def)
qed

lemma settles_serves [settle_intros]:
  "priced g \<Longrightarrow> 1 \<le> n \<Longrightarrow> settles cx g (meter_and_respond cx g (NInt n) body st lid)"
  by (auto simp: priced_def intro: settles_meter)

lemma settles_start:
  assumes "plane_safe cx"
  shows "settles cx g (start_async_longrun cx g a)"
proof -
  have staged: "silent (staged_image cx g a)"
    unfolding staged_image_def using assms
    by (auto intro!: silent_intros silent_stage simp: plane_safe_def split: option.split)
  have accepted: "resp_status (json_response rid body 202 hs) \<noteq> 200" for rid body hs
    by (simp add: json_response_def)
  show ?thesis
    unfolding start_async_longrun_def Let_def
    by (intro settle_intros error_not_200 accepted settles_bind silent_still [OF staged] still_log_call
        silent_still [OF silent_jobs(1)] silent_still [OF silent_jobs(2)] silent_still [OF silent_time(2)])
qed

lemmas door_steps = settles_ret [OF error_not_200] settle_intros settles_start settles_accepted

lemma settles_image_door: "plane_safe cx \<Longrightarrow> priced g \<Longrightarrow> settles cx g (image_door cx rq g)"
  unfolding image_door_def Let_def settle_as_bind
  by (auto intro!: door_steps split: option.split)

lemma speech_units_pos: "\<exists>n\<ge>1. speech_units u input = NInt n"
  by (simp add: speech_units_def)

lemma settles_speech_door: "plane_safe cx \<Longrightarrow> priced g \<Longrightarrow> settles cx g (speech_door cx rq g)"
proof -
  assume safe: "plane_safe cx" and price: "priced g"
  have meter: "settles cx g (meter_and_respond cx g (speech_units (ng_price g) input) body st lid)" for input body st lid
    using speech_units_pos [of "ng_price g" input] settles_serves [OF price] by metis
  show ?thesis
    unfolding speech_door_def Let_def settle_as_bind
    by (auto intro!: door_steps meter safe split: option.split list.split)
qed

lemma settles_transcription_door: "priced g \<Longrightarrow> settles cx g (transcription_door cx g)"
  unfolding transcription_door_def run_deepgram_def Let_def settle_as_bind
  by (auto intro!: door_steps settles_bind [OF still_log_call] split: option.split prod.split sum.split)

lemma settles_video_door: "plane_safe cx \<Longrightarrow> priced g \<Longrightarrow> settles cx g (video_door cx rq g)"
proof -
  assume safe: "plane_safe cx" and price: "priced g"
  have landed: "silent (landed_video (nx_media cx) slot asset)" for slot asset
    using safe by (auto intro!: silent_landed simp: plane_safe_def)
  have with_slot: "settles cx g (bindM (produce_with_slot cx g prompt url dur slot) (case_sum retM f))"
    if "\<And>x. settles cx g (f x)" for prompt url dur slot and f :: "_ \<Rightarrow> (response, 'a) p"
    unfolding produce_with_slot_def
    by (rule settles_accepted)
       (auto simp: bindM_assoc simp del: retM_run intro!: settles_bind [OF silent_still [OF landed]] door_steps that split: option.split)
  have produced: "settles cx g (bindM (produce_video cx g prompt url dur) (case_sum retM f))"
    if "\<And>x. settles cx g (f x)" for prompt url dur and f :: "_ \<Rightarrow> (response, 'a) p"
    unfolding produce_video_def
    by (auto simp: bindM_assoc simp del: retM_run intro!: settles_bind [OF silent_still [OF silent_slot]] with_slot door_steps that split: sum.split)
  show ?thesis
    unfolding video_door_def Let_def
    by (auto intro!: door_steps produced safe price split: prod.split)
qed

lemma settles_music_door: "plane_safe cx \<Longrightarrow> priced g \<Longrightarrow> settles cx g (music_door cx rq g)"
proof -
  assume safe: "plane_safe cx" and price: "priced g"
  have "silent (store_asset b hs secret origin key dflt outcome)" if "nx_media cx = Some b"
    for b hs secret origin key dflt outcome
    using safe that by (auto intro!: silent_store_asset simp: plane_safe_def)
  then have rehost: "still (rehost_music_audio cx a url)" for a url
    unfolding rehost_music_audio_def
    by (auto intro!: silent_still [OF silent_ret] still_bind still_log_call silent_still [OF silent_catch] silent_intros
        split: option.split)
  have produced: "settles cx g (bindM (produce_music cx g prompt lyrics i opt) (case_sum retM f))"
    if "\<And>x. settles cx g (f x)" for prompt lyrics i opt and f :: "_ \<Rightarrow> (response, 'a) p"
    unfolding produce_music_def
    by (rule settles_accepted)
       (auto simp: bindM_assoc simp del: retM_run intro!: settles_bind [OF rehost] door_steps that split: option.split)
  then show ?thesis
    unfolding music_door_def Let_def
    by (auto intro!: door_steps produced safe price split: prod.split option.split)
qed

lemma gate_refuses:
  assumes "gate_nonchat cx md rq w = (Inr (Inl resp), w')"
  shows "resp_status resp \<noteq> 200"
proof -
  have door: False if "door_gate rid md raw p = Inl r" "resp_status r = 200" for r rid raw p
    using that by (auto simp: door_gate_def Let_def split: option.splits if_splits)
  have money: False if "money_gates cx raw c p m u = (Inr (Inl r), u')" "resp_status r = 200" for r raw c p m u u'
    using that unfolding money_gates_def Let_def
    by (elim bindM_InrE)
       (auto split: option.splits balance_decision.splits credential_outcome.splits if_splits elim!: bindM_InrE)
  have auth: False if "require_caller f rid rq u = (Inr (Inl r), u')" "resp_status r = 200" for f rid r u u'
    using that unfolding require_caller_def
    by (elim bindM_InrE)
       (auto simp: bindM_def wait_until_def auth_failure_response_def split: sum.splits resolve_failure.splits)
  show ?thesis
    using assms unfolding gate_nonchat_def Let_def
    by (auto elim!: bindM_InrE split: sum.splits option.splits if_splits) (blast intro: door money auth)+
qed

definition door_charges ::
  "('z, 'x) plane_ctx_scheme \<Rightarrow> modality \<Rightarrow> request \<Rightarrow> db \<Rightarrow> exn + response \<Rightarrow> db \<Rightarrow> bool" where
  "door_charges cx md rq d r d' \<longleftrightarrow>
     (case r of
        Inr resp \<Rightarrow>
          if resp_status resp = 200 then \<exists>g. door_admitted cx md rq d g \<and> charged cx g d resp d'
          else unserved d d'
      | Inl _ \<Rightarrow> unserved d d')"

lemma with_gate_charges:
  assumes "plane_safe cx" "quiet w" "fresh_ids cx (w_db w)"
    and door: "\<And>g. priced g \<Longrightarrow> settles cx g (k g)"
  shows "door_charges cx md rq (w_db w) (fst (with_gate cx md rq k w)) (w_db (snd (with_gate cx md rq k w)))"
proof -
  obtain r w1 where g: "gate_nonchat cx md rq w = (r, w1)" by fastforce
  have w1: "ledger_same (w_db w) (w_db w1)" "quiet w1"
    using silentD [OF silent_gate [OF assms(1)] g] assms(2) by blast+
  show ?thesis
  proof (cases "\<exists>x. r = Inr (Inr x)")
    case True
    then obtain x where x: "r = Inr (Inr x)" by blast
    note adm = gate_nonchat_Inr [OF g [unfolded x]]
    have "ng_account x \<in> set (t_accounts (w_db w))" "ng_client x \<in> set (t_clients (w_db w))"
      using adm by (simp_all add: door_admitted_def)
    then have "gate_stored cx x (w_db w)"
      using assms(3) by (simp add: gate_stored_def has_key_iff fk_client_def)
    then have "door_result cx x (w_db w1) (fst (k x w1)) (w_db (snd (k x w1)))"
      using door [OF admitted_price [OF adm]] w1 by (simp add: settles_def ledger_same_stored)
    then have "door_result cx x (w_db w) (fst (k x w1)) (w_db (snd (k x w1)))"
      using ledger_same_result [OF w1(1), of cx x] by simp
    then show ?thesis
      using g x adm by (auto simp: with_gate_def bindM_def door_result_def door_charges_def split: sum.split)
  next
    case False
    then show ?thesis
      using g w1(1) gate_refuses [of cx md rq w _ w1]
      by (cases r) (auto simp: with_gate_def bindM_def door_charges_def ledger_same_unserved split: sum.split)
  qed
qed

lemma music_charges:
  "door_charges cx Music rq d (fst (with_gate cx Music rq (music_door cx rq) w)) d' \<Longrightarrow>
     door_charges cx Music rq d (fst (handle_music_generations cx rq w)) d'"
  by (auto simp: handle_music_generations_def catchM_def door_charges_def split: sum.splits prod.splits)



text \<open>A failure of the object store while a reference image is staged escapes after the job row was
  inserted: the client gets an error, and the row stays running, with no workflow to end it.\<close>

lemma staging_failure_strands_job:
  assumes "quiet w" "nx_longrun cx = Some create" "nx_media cx = Some b"
    and "la_kind a = JobImage" "la_image_url a = Some u" "starts_with ''data:'' u"
    and "data_url_parts u = Some (ctype, b64)" "atob_text b64 = Some bytes" "bytes \<noteq> []"
    and "int (length bytes) \<le> MEDIA_MAX_BYTES"
    and "\<And>k v. bu_put b k bytes ctype v = (Inl PlatformError, v)"
    and "\<not> has_key aj_id (new_id ''job'' (nx_job_bytes cx)) (t_jobs (w_db w))"
  shows "fst (start_async_longrun cx g a w) = Inl PlatformError
    \<and> pw_log (snd (start_async_longrun cx g a w)) = pw_log w
    \<and> lookup aj_id (new_id ''job'' (nx_job_bytes cx)) (t_jobs (w_db (snd (start_async_longrun cx g a w)))) =
        Some (job_row cx g JobImage)"
proof -
  let ?row = "job_row cx g JobImage" and ?d = "(w_db w)\<lparr>t_jobs := t_jobs (w_db w) @ [job_row cx g JobImage]\<rparr>"
  have created: "create_async_job ?row w = (Inr (), w\<lparr>w_db := ?d\<rparr>)"
    using assms(1,12) by (simp add: create_async_job_def run_write_quiet job_row_def)
  have "staged_image cx g a v = (Inl PlatformError, v)" for v
    using assms(3-11) by (simp add: staged_image_def stage_data_image_def bindM_def)
  then have "start_async_longrun cx g a w = (Inl PlatformError, w\<lparr>w_db := ?d\<rparr>)"
    using created assms(2,4) by (simp add: start_async_longrun_def Let_def bindM_def)
  moreover have "lookup aj_id (new_id ''job'' (nx_job_bytes cx)) (t_jobs (w_db w)) = None"
    using assms(12) by (simp add: lookup_None_iff)
  ultimately show ?thesis by (simp add: lookup_append) (simp add: job_row_def)
qed

end
