(* ===== verification/LongrunProps.thy ===== *)
theory LongrunProps
  imports Longrun NonchatProps
begin

text \<open>
  What the durable workflow guarantees, whatever fails and however often its steps are retried: the
  provider is not called again once it has answered, at most one ledger row is written, and only for
  an answer, and a run that succeeds has written it.
\<close>

section \<open>The model call is retried only until it is answered\<close>

definition longrun_safe :: "('z, 'x) longrun_ctx_scheme \<Rightarrow> bool" where
  "longrun_safe cx \<longleftrightarrow> (\<forall>b. lr_media cx = Some b \<longrightarrow> bucket_silent b)"

definition answered :: "('z, 'x) longrun_ctx_scheme \<Rightarrow> nat \<Rightarrow> nonchat_request \<Rightarrow> bool" where
  "answered cx n q \<longleftrightarrow>
     (\<exists>body log_id ct. lr_runner cx n q = NcOk body log_id ct \<and> provider_state_failed body = None)"

lemma silent_failing [silent_intros]: "silent (failing x)"
  unfolding failing_def by (rule silent_ret)

lemma silent_and_then [silent_intros]: "silent c \<Longrightarrow> (\<And>x. silent (k x)) \<Longrightarrow> silent (and_then c k)"
  unfolding and_then_def by (intro silent_intros)

lemma silent_calls [silent_intros]: "silent calls_so_far"
  by (simp add: silent_def calls_so_far_def)

lemma silent_job_image: "longrun_safe cx \<Longrightarrow> silent (job_image cx ps)"
  unfolding job_image_def longrun_safe_def
  by (auto intro!: silent_intros simp: bucket_silent_def split: option.split list.split)

lemma silent_job_slot: "silent (job_slot cx ps k)"
  unfolding job_slot_def by (intro silent_intros silent_slot)

lemma silent_wait_object:
  assumes "bucket_silent b"
  shows "silent (wait_object n b key deadline)"
proof (induction n)
  case 0
  show ?case by (simp only: wait_object.simps silent_ret)
next
  case (Suc n)
  have "silent (bu_head b key)" using assms by (simp add: bucket_silent_def)
  then show ?case unfolding wait_object.simps by (intro silent_intros Suc)
qed

lemma silent_job_asset:
  assumes "longrun_safe cx"
  shows "silent (job_asset cx ps k slot body)"
proof -
  have put: "silent (put_base64 cx ps prefix key ct b64)" for prefix key ct b64
    unfolding put_base64_def using assms
    by (auto intro!: silent_intros simp: longrun_safe_def bucket_silent_def split: option.split)
  have "silent (landed_upload cx slot u)" for u
    unfolding landed_upload_def wait_for_object_def using assms
    by (auto intro!: silent_intros silent_wait_object simp: longrun_safe_def split: option.split)
  then show ?thesis
    unfolding job_asset_def put_speech_audio_def put_image_bytes_def
    by (auto intro!: silent_intros put split: job_kind.split option.split list.split image_asset.split)
qed

lemma finally_failing_final:
  "finally_failing c w = (r, w') \<Longrightarrow> \<exists>x. r = Inr x \<and> (\<forall>y. x \<noteq> Inl (Retryable y))"
  by (auto simp: finally_failing_def catchM_def bindM_def split: sum.splits prod.splits step_error.splits)

lemma silent_finally: "silent c \<Longrightarrow> silent (finally_failing c)"
  unfolding finally_failing_def by (intro silent_intros)

text \<open>One attempt of the first step: nothing was called, or one call was made, which is what may be
  retried exactly when it was not answered.\<close>

definition invoke_outcome ::
  "('z, 'x) longrun_ctx_scheme \<Rightarrow> plane_call list \<Rightarrow> (step_error + 'a) \<Rightarrow> plane_call list \<Rightarrow> bool" where
  "invoke_outcome cx before r after \<longleftrightarrow>
     (after = before \<and> (\<exists>x. r = Inl (Retryable x)))
     \<or> (\<exists>q. after = before @ [ModelCall q]
          \<and> (if answered cx (length before) q then \<forall>x. r \<noteq> Inl (Retryable x) else \<exists>x. r = Inl (Retryable x)))"

definition invokes :: "('z, 'x) longrun_ctx_scheme \<Rightarrow> (step_error + 'a, 'z) p \<Rightarrow> bool" where
  "invokes cx c \<longleftrightarrow> (\<forall>w. ledger_same (w_db w) (w_db (snd (c w)))
     \<and> (case fst (c w) of
          Inl e \<Rightarrow> pw_log (snd (c w)) = pw_log w
        | Inr r \<Rightarrow> invoke_outcome cx (pw_log w) r (pw_log (snd (c w)))))"

lemma invokes_failing: "invokes cx (failing x)"
  by (simp add: invokes_def failing_def invoke_outcome_def)

text \<open>What happens before the call fails with an error that may be retried.\<close>

definition before_call :: "(step_error + 'a, 'z) p \<Rightarrow> bool" where
  "before_call c \<longleftrightarrow> silent c \<and> (\<forall>w r w'. c w = (Inr (Inl r), w') \<longrightarrow> (\<exists>x. r = Retryable x))"

lemma invokes_and_then:
  assumes "before_call c" "\<And>x. invokes cx (k x)"
  shows "invokes cx (and_then c k)"
  unfolding invokes_def
proof
  fix w
  obtain r w1 where c: "c w = (r, w1)" by fastforce
  have w1: "pw_log w1 = pw_log w" "ledger_same (w_db w) (w_db w1)"
    using assms(1) silentD [of c w r w1] c by (auto simp: before_call_def)
  show "ledger_same (w_db w) (w_db (snd (and_then c k w)))
     \<and> (case fst (and_then c k w) of
          Inl e \<Rightarrow> pw_log (snd (and_then c k w)) = pw_log w
        | Inr r \<Rightarrow> invoke_outcome cx (pw_log w) r (pw_log (snd (and_then c k w))))"
  proof (cases "\<exists>x. r = Inr (Inr x)")
    case True
    then obtain x where r: "r = Inr (Inr x)" by blast
    have eq: "and_then c k w = k x w1" using c r by (simp add: and_then_def bindM_def)
    have "ledger_same (w_db w1) (w_db (snd (k x w1)))"
      "case fst (k x w1) of Inl e \<Rightarrow> pw_log (snd (k x w1)) = pw_log w1
        | Inr r \<Rightarrow> invoke_outcome cx (pw_log w1) r (pw_log (snd (k x w1)))"
      using assms(2) unfolding invokes_def by blast+
    then show ?thesis unfolding eq w1(1) using w1(2) by (auto intro: ledger_same_trans)
  next
    case False
    have "\<exists>x. e = Retryable x" if "r = Inr (Inl e)" for e
      using assms(1) c that unfolding before_call_def by blast
    then consider e where "r = Inl e" | x where "r = Inr (Inl (Retryable x))"
      using False by (cases r rule: sum.exhaust; metis sum.exhaust)
    then show ?thesis
      using c w1 by cases (simp_all add: and_then_def bindM_def invoke_outcome_def)
  qed
qed

lemma before_job_image: "longrun_safe cx \<Longrightarrow> before_call (job_image cx ps)"
  using silent_job_image [of cx ps]
  by (auto simp: before_call_def job_image_def failing_def elim!: bindM_InrE split: option.splits list.splits)

lemma before_job_slot: "before_call (job_slot cx ps k)"
  using silent_job_slot [of cx ps k]
  by (auto simp: before_call_def job_slot_def failing_def elim!: bindM_InrE split: sum.splits if_splits)

lemma invokes_call:
  fixes k :: "js \<times> string option \<Rightarrow> (step_error + 'b, 'z) p"
  assumes "\<And>x. silent (k x)"
  shows "invokes cx (and_then (call_job_model cx q) (\<lambda>x. finally_failing (k x)))"
  unfolding invokes_def
proof
  fix w :: "'z plane_world_scheme"
  let ?c = "and_then (call_job_model cx q) (\<lambda>x. finally_failing (k x))"
  let ?u = "w\<lparr>pw_log := pw_log w @ [ModelCall q]\<rparr>"
  show "ledger_same (w_db w) (w_db (snd (?c w)))
     \<and> (case fst (?c w) of Inl e \<Rightarrow> pw_log (snd (?c w)) = pw_log w
        | Inr r \<Rightarrow> invoke_outcome cx (pw_log w) r (pw_log (snd (?c w))))"
  proof (cases "answered cx (length (pw_log w)) q")
    case True
    then obtain body lid ct where run: "lr_runner cx (length (pw_log w)) q = NcOk body lid ct" "provider_state_failed body = None"
      by (auto simp: answered_def)
    have c: "?c w = finally_failing (k (body, lid)) ?u"
      using run by (simp add: and_then_def call_job_model_def bindM_def calls_so_far_def log_call_def)
    obtain r w1 where f: "finally_failing (k (body, lid)) ?u = (r, w1)" by fastforce
    then show ?thesis
      using c True finally_failing_final [OF f] silentD [OF silent_finally [OF assms] f]
      by (auto simp: invoke_outcome_def)
  next
    case False
    have "?c w = (Inr (Inl (Retryable x)), ?u)" if "call_job_model cx q w = (Inr (Inl (Retryable x)), ?u)" for x
      using that by (simp add: and_then_def bindM_def)
    moreover have "\<exists>x. call_job_model cx q w = (Inr (Inl (Retryable x)), ?u)"
      using False by (auto simp: call_job_model_def bindM_def calls_so_far_def log_call_def answered_def failing_def
          split: nonchat_result.split option.split)
    ultimately show ?thesis using False by (auto simp: invoke_outcome_def)
  qed
qed

lemma invokes_model: "longrun_safe cx \<Longrightarrow> invokes cx (invoke_model cx ps k)"
proof -
  assume safe: "longrun_safe cx"
  have call: "invokes cx (and_then (call_job_model cx q)
      (\<lambda>(body, log_id). finally_failing (and_then (job_asset cx ps k slot body) (\<lambda>url. retM (Inr (url, log_id))))))"
    for q slot
    using invokes_call [of "\<lambda>(body, log_id). and_then (job_asset cx ps k slot body) (\<lambda>url. retM (Inr (url, log_id)))" cx q]
    by (simp add: case_prod_unfold silent_and_then silent_job_asset [OF safe] silent_ret)
  show ?thesis
    unfolding invoke_model_def
    by (auto intro!: invokes_failing invokes_and_then before_job_image [OF safe] before_job_slot call split: option.split)
qed

text \<open>With one retry: at most two calls, the second only when the first was not answered.\<close>

definition calls_ok :: "('z, 'x) longrun_ctx_scheme \<Rightarrow> nat \<Rightarrow> plane_call list \<Rightarrow> bool" where
  "calls_ok cx n new \<longleftrightarrow> length (List.filter is_paid new) \<le> 2
     \<and> (\<forall>i q. i < length new \<and> new ! i = ModelCall q \<and> answered cx (n + i) q
          \<longrightarrow> List.filter is_paid (drop (Suc i) new) = [])"

definition has_answer :: "('z, 'x) longrun_ctx_scheme \<Rightarrow> nat \<Rightarrow> plane_call list \<Rightarrow> bool" where
  "has_answer cx n new \<longleftrightarrow> (\<exists>i q. i < length new \<and> new ! i = ModelCall q \<and> answered cx (n + i) q)"

lemma attempt_invokes:
  assumes "longrun_safe cx"
  shows "\<exists>r w'. attempt (invoke_model cx ps) k w = (Inr r, w') \<and> ledger_same (w_db w) (w_db w')
    \<and> invoke_outcome cx (pw_log w) r (pw_log w')"
proof -
  obtain r w1 where i: "invoke_model cx ps k w = (r, w1)" by fastforce
  have "ledger_same (w_db w) (w_db w1) \<and> (case r of Inl e \<Rightarrow> pw_log w1 = pw_log w
      | Inr x \<Rightarrow> invoke_outcome cx (pw_log w) x (pw_log w1))"
    using invokes_model [OF assms, of ps k] i unfolding invokes_def by (metis fst_conv snd_conv)
  then show ?thesis
    using i by (cases r) (simp_all add: attempt_def catchM_def, simp add: invoke_outcome_def)
qed

lemma invoke_step:
  assumes "longrun_safe cx"
  shows "\<exists>r w' new. step_do 1 (invoke_model cx ps) w = (Inr r, w') \<and> ledger_same (w_db w) (w_db w')
    \<and> pw_log w' = pw_log w @ new \<and> calls_ok cx (length (pw_log w)) new
    \<and> ((\<exists>x. r = Inr x) \<longrightarrow> has_answer cx (length (pw_log w)) new)"
proof -
  let ?n = "length (pw_log w)"
  obtain r w1 where a: "attempt (invoke_model cx ps) 0 w = (Inr r, w1)" "ledger_same (w_db w) (w_db w1)"
      "invoke_outcome cx (pw_log w) r (pw_log w1)"
    using attempt_invokes [OF assms] by blast
  obtain new where n: "pw_log w1 = pw_log w @ new"
      "new = [] \<and> (\<exists>x. r = Inl (Retryable x)) \<or> (\<exists>q. new = [ModelCall q]
         \<and> (if answered cx ?n q then \<forall>x. r \<noteq> Inl (Retryable x) else \<exists>x. r = Inl (Retryable x)))"
    using a(3) unfolding invoke_outcome_def by auto
  show ?thesis
  proof (cases "\<exists>x. r = Inl (Retryable x)")
    case False
    then obtain q where q: "new = [ModelCall q]" "answered cx ?n q" using n(2) by (auto split: if_splits)
    have "step_do 1 (invoke_model cx ps) w = (Inr r, w1)"
      using a(1) False by (cases r) (auto simp: step_do_def bindM_def split: step_error.split)
    then show ?thesis using a(2) n(1) q by (auto simp: calls_ok_def has_answer_def)
  next
    case True
    obtain r2 w2 where b: "attempt (invoke_model cx ps) 1 w1 = (Inr r2, w2)" "ledger_same (w_db w1) (w_db w2)"
        "invoke_outcome cx (pw_log w1) r2 (pw_log w2)"
      using attempt_invokes [OF assms] by blast
    obtain new2 where m: "pw_log w2 = pw_log w1 @ new2"
        "new2 = [] \<and> (\<exists>x. r2 = Inl (Retryable x)) \<or> (\<exists>q. new2 = [ModelCall q]
           \<and> (if answered cx (length (pw_log w1)) q then \<forall>x. r2 \<noteq> Inl (Retryable x) else \<exists>x. r2 = Inl (Retryable x)))"
      using b(3) unfolding invoke_outcome_def by auto
    have run: "step_do 1 (invoke_model cx ps) w = (Inr r2, w2)"
      using a(1) b(1) True by (auto simp: step_do_def bindM_def)
    have unanswered: "new = [] \<or> (\<exists>q. new = [ModelCall q] \<and> \<not> answered cx ?n q)"
      using n(2) True by (auto split: if_splits)
    have "calls_ok cx ?n (new @ new2)"
      using unanswered m(2) by (auto simp: calls_ok_def is_paid_def nth_Cons' split: if_splits)
    moreover have "has_answer cx ?n (new @ new2)" if ok: "r2 = Inr x" for x
    proof -
      obtain q where q: "new2 = [ModelCall q]" "answered cx (length (pw_log w1)) q"
        using m(2) ok by (auto split: if_splits)
      then show ?thesis unfolding has_answer_def using n(1) by (intro exI [of _ "length new"] exI [of _ q]) simp
    qed
    ultimately show ?thesis using run a(2) b(2) n(1) m(1) by (auto intro: ledger_same_trans)
  qed
qed

section \<open>One row for one job\<close>

definition job_seen :: "longrun_params \<Rightarrow> db \<Rightarrow> bool" where
  "job_seen ps d \<longleftrightarrow>
     (\<exists>r \<in> set (t_events d). ue_client_id r = lp_client_id ps \<and> ue_request_id r = lp_request_id ps)"

text \<open>A metered row of the job with the price of its units, split without loss.\<close>

definition job_row_ok :: "longrun_params \<Rightarrow> usage_event_row \<Rightarrow> bool" where
  "job_row_ok ps row \<longleftrightarrow> ue_client_id row = lp_client_id ps \<and> ue_request_id row = lp_request_id ps
     \<and> ue_account_id row = lp_account_id ps \<and> ue_metered row
     \<and> ue_micro_usd row = int_of_num (fst (price_units (job_units ps) (job_price ps)))
     \<and> 0 \<le> ue_from_allowance row \<and> 0 \<le> ue_from_credit row
     \<and> ue_from_allowance row + ue_from_credit row = max 0 (ue_micro_usd row)"

definition one_row :: "longrun_params \<Rightarrow> db \<Rightarrow> db \<Rightarrow> bool" where
  "one_row ps d d' \<longleftrightarrow> t_events d' = t_events d
     \<or> (\<not> job_seen ps d \<and> (\<exists>row. t_events d' = t_events d @ [row] \<and> job_row_ok ps row))"

lemma one_row_refl: "reflp (one_row ps)"
  by (auto simp: reflp_def one_row_def)

lemma job_seen_events: "t_events d' = t_events d \<Longrightarrow> job_seen ps d' = job_seen ps d"
  by (simp add: job_seen_def)

lemma one_row_trans: "transp (one_row ps)"
proof (rule transpI)
  fix a b c
  assume ab: "one_row ps a b" and bc: "one_row ps b c"
  show "one_row ps a c"
  proof (cases "t_events b = t_events a")
    case True
    then show ?thesis using bc job_seen_events [OF True, of ps] by (simp add: one_row_def)
  next
    case False
    then obtain row where row: "\<not> job_seen ps a" "t_events b = t_events a @ [row]" "job_row_ok ps row"
      using ab by (auto simp: one_row_def)
    then have "job_seen ps b" by (auto simp: job_seen_def job_row_ok_def)
    then show ?thesis using bc row by (simp add: one_row_def)
  qed
qed

lemma silent_one_row: "silent c \<Longrightarrow> db_rel (one_row ps) c"
  by (simp add: silent_def db_rel_def one_row_def ledger_same_def)

lemma one_row_keep: "t_events d' = t_events d \<Longrightarrow> one_row ps d d'"
  by (simp add: one_row_def)

lemmas one_row_intros =
  db_rel_ret [OF one_row_refl] db_rel_throw [OF one_row_refl] db_rel_query [OF one_row_refl]
  db_rel_bind [OF one_row_trans] db_rel_catch [OF one_row_trans] db_rel_if db_rel_option db_rel_sum

lemma one_row_log_call: "db_rel (one_row ps) (log_call c)" "db_rel (one_row ps) clock"
  by (simp_all add: db_rel_def log_call_def clock_def one_row_def)

lemma one_row_failing: "db_rel (one_row ps) (failing x)"
  unfolding failing_def by (rule db_rel_ret [OF one_row_refl])

lemma one_row_and_then:
  "db_rel (one_row ps) c \<Longrightarrow> (\<And>x. db_rel (one_row ps) (k x)) \<Longrightarrow> db_rel (one_row ps) (and_then c k)"
  unfolding and_then_def by (intro one_row_intros)

lemma bump_keeps_events: "bump_period_usage a k m u al d = Some d' \<Longrightarrow> t_events d' = t_events d"
  by (auto simp: bump_period_usage_def upsert_period_def split: if_splits)

lemma longrun_row_ok:
  "job_row_ok ps (usage_event.extend (stored_event (longrun_event cx ps k key allowance lid)) \<lparr>ue_created_at = t\<rparr>)"
  by (auto simp: job_row_ok_def longrun_event_def stored_event_def event_allowance_def event_credit_def
      allocate_charge_int Let_def usage_event.defs)

lemma one_row_record: "db_rel (one_row ps) (record_usage (longrun_event cx ps k key allowance lid))"
  (is "db_rel _ (record_usage ?e)")
proof -
  have ids: "ue_client_id (stored_event ?e) = lp_client_id ps" "ue_request_id (stored_event ?e) = lp_request_id ps"
    by (simp_all add: stored_event_def longrun_event_def Let_def)
  have "one_row ps d d'" if i: "ins_event (stored_event ?e) now d = Some (x, d')" for now d x d'
  proof (cases "event_seen (stored_event ?e) d")
    case False
    then have "\<not> job_seen ps d" using ids by (auto simp: event_seen_def job_seen_def list_ex_iff)
    then show ?thesis using i False by (auto simp: ins_event_def one_row_def longrun_row_ok split: if_splits)
  qed (use i in \<open>simp add: ins_event_def one_row_def\<close>)
  then have "db_rel (one_row ps) (stmt (ins_event (stored_event ?e)))"
    by (rule db_rel_stmt [OF one_row_refl])
  moreover have "db_rel (one_row ps) (run_write (bump_period_usage a k2 m u al))" for a k2 m u al
    by (rule db_rel_write [OF one_row_refl]) (auto intro: one_row_keep dest: bump_keeps_events)
  moreover have "db_rel (one_row ps) (run_write (\<lambda>d. Some (add_spent n a d)))" for n a
    by (rule db_rel_write [OF one_row_refl]) (auto intro!: one_row_keep simp: add_spent_def)
  ultimately show ?thesis unfolding record_usage_def by (intro one_row_intros)
qed

lemma one_row_finalize: "db_rel (one_row ps) (finalize_step cx ps lid asset k)"
  unfolding finalize_step_def meter_job_def Let_def
  by (intro one_row_intros one_row_and_then one_row_failing one_row_log_call one_row_record
      silent_one_row [OF silent_jobs(2)] silent_one_row [OF silent_ops(3)] silent_one_row [OF silent_ops(4)])

lemma one_row_step:
  assumes "\<And>k. db_rel (one_row ps) (f k)"
  shows "db_rel (one_row ps) (step_from n k f)"
proof (induction n arbitrary: k)
  case 0
  show ?case unfolding step_from.simps attempt_def by (intro one_row_intros assms)
next
  case (Suc n)
  have "db_rel (one_row ps) (case r of Inl (Retryable _) \<Rightarrow> step_from n (Suc k) f | _ \<Rightarrow> retM r)" for r
    using Suc by (auto intro!: db_rel_ret [OF one_row_refl] split: sum.split step_error.split)
  then show ?case
    unfolding step_from.simps attempt_def
    by (rule db_rel_bind [OF one_row_trans, rotated]) (intro one_row_intros assms)
qed

text \<open>Only assets are fetched after the model has answered.\<close>

abbreviation unpaid :: "('a, 'z) p \<Rightarrow> bool" where
  "unpaid c \<equiv> logs 0 (\<lambda>c. \<not> is_paid c) c"

lemma unpaid_step:
  assumes "\<And>k. unpaid (f k)"
  shows "unpaid (step_from n k f)"
proof (induction n arbitrary: k)
  case 0
  show ?case unfolding step_from.simps attempt_def by (intro logs_try logs_ret assms)
next
  case (Suc n)
  have "unpaid (case r of Inl (Retryable _) \<Rightarrow> step_from n (Suc k) f | _ \<Rightarrow> retM r)" for r
    using Suc by (auto intro!: logs_ret split: sum.split step_error.split)
  then show ?case unfolding step_from.simps attempt_def by (intro logs_then logs_try logs_ret assms)
qed

lemma unpaid_finalize: "unpaid (finalize_step cx ps lid asset k)"
  unfolding finalize_step_def meter_job_def Let_def and_then_def failing_def
  by (intro logs_then logs_ret logs_record logs_silent [OF silent_jobs(2)] logs_silent [OF silent_ops(3)]
      logs_silent [OF silent_ops(4)] logs_silent [OF silent_time(2)])
     (auto intro!: logs_then logs_ret logs_record logs_silent [OF silent_ops(3)] logs_silent [OF silent_time(2)]
        logs_silent [OF silent_jobs(2)] split: option.split sum.split)

lemma rehost_step_keeps:
  assumes "longrun_safe cx"
  shows "unpaid (rehost_step cx ps url k)" "db_rel (one_row ps) (rehost_step cx ps url k)"
proof -
  have store: "silent (catchM (store_asset b hs secret origin key dflt outcome) (\<lambda>_. retM None))" if "lr_media cx = Some b"
    for b hs secret origin key dflt outcome
    using assms that by (auto intro!: silent_intros silent_store_asset simp: longrun_safe_def)
  have "unpaid (rehost_asset_as cx ps key dflt url)" for key dflt
    unfolding rehost_asset_as_def
    by (auto intro!: logs_ret logs_then logs_silent [OF silent_calls] logs_call logs_silent [OF store]
        simp: is_paid_def split: option.split)
  then show "unpaid (rehost_step cx ps url k)"
    unfolding rehost_step_def Let_def rehost_music_def rehost_image_def
    by (auto intro!: logs_then logs_ret)
  have "db_rel (one_row ps) (rehost_asset_as cx ps key dflt url)" for key dflt
    unfolding rehost_asset_as_def
    by (auto intro!: one_row_intros one_row_log_call silent_one_row [OF silent_calls] silent_one_row [OF store]
        split: option.split)
  then show "db_rel (one_row ps) (rehost_step cx ps url k)"
    unfolding rehost_step_def Let_def rehost_music_def rehost_image_def
    by (auto intro!: one_row_intros)
qed

section \<open>A run that succeeds has charged the job\<close>

lemma stmt_success:
  "stmt f w = (Inr x, w') \<Longrightarrow> \<exists>now. f now (w_db w) = Some (x, w_db w')"
  by (auto simp: stmt_def Let_def split: fault.splits option.splits prod.splits)

lemma db_rel_audit_rest:
  "db_rel audit_grows (if \<not> ch then retM ()
     else
       bindM (run_write (bump_period_usage a k m u al)) (\<lambda>_.
       if c then run_write (\<lambda>d. Some (add_spent n a d)) else retM ()))"
  by (intro db_rel_intros audit_grows_refl audit_grows_trans; (auto dest: bump_audit simp: add_audit)?)

lemma record_usage_seen:
  assumes "record_usage e w = (Inr (), w')"
  shows "event_seen e (w_db w')"
proof -
  obtain ch w1 where ins: "stmt (ins_event (stored_event e)) w = (Inr ch, w1)"
    and rest: "(if \<not> ch then retM ()
     else
       bindM (run_write (bump_period_usage (ue_account_id e) (ue_period_key e)
                (if ue_metered e then ue_micro_usd e else 0) (if ue_metered e then 0 else 1)
                (event_allowance e))) (\<lambda>_.
       if ue_metered e \<and> event_credit e > 0
       then run_write (\<lambda>d. Some (add_spent (event_credit e) (ue_account_id e) d))
       else retM ())) w1 = (Inr (), w')"
    using assms unfolding record_usage_def by (elim bindM_InrE) blast
  obtain now d where d: "ins_event (stored_event e) now (w_db w) = Some (ch, d)" "w_db w1 = d"
    using stmt_success [OF ins] by blast
  have "event_seen e (w_db w1)"
    unfolding d(2) using d(1)
    by (auto simp: ins_event_def event_seen_def usage_event.extend_def split: if_splits)
  moreover have "audit_grows (w_db w1) (w_db w')"
    using db_relD [OF db_rel_audit_rest, where w = w1] rest by (metis snd_conv)
  ultimately show ?thesis by (blast intro: event_seen_mono)
qed

lemma job_seen_keeps: "one_row ps d d' \<Longrightarrow> job_seen ps d \<Longrightarrow> job_seen ps d'"
  by (auto simp: one_row_def job_seen_def)

text \<open>The ids drawn for ledger rows are not those of rows already stored.\<close>

definition fresh_uses :: "('z, 'x) longrun_ctx_scheme \<Rightarrow> db \<Rightarrow> bool" where
  "fresh_uses cx d \<longleftrightarrow> (\<forall>k. \<not> has_key ue_id (new_id ''use'' (lr_use_bytes cx k)) (t_events d))"

lemma record_job_seen:
  assumes "fresh_uses cx d0" "one_row ps d0 (w_db w)"
    and run: "record_usage (longrun_event cx ps k key allowance lid) w = (Inr (), w')"
  shows "job_seen ps (w_db w')"
proof (cases "job_seen ps (w_db w)")
  case True
  then show ?thesis using db_relD [OF one_row_record [of ps cx k key allowance lid], of w] run
    by (auto intro: job_seen_keeps)
next
  case False
  let ?e = "longrun_event cx ps k key allowance lid"
  have same: "t_events (w_db w) = t_events d0"
    using assms(2) False by (auto simp: one_row_def job_seen_def job_row_ok_def)
  have ids: "ue_client_id ?e = lp_client_id ps" "ue_request_id ?e = lp_request_id ps"
    "ue_id ?e = new_id ''use'' (lr_use_bytes cx k)"
    by (simp_all add: longrun_event_def Let_def)
  have new: "one_row ps (w_db w) (w_db w')"
    using db_relD [OF one_row_record [of ps cx k key allowance lid], of w] run by simp
  have seen: "event_seen ?e (w_db w')" by (rule record_usage_seen [OF run])
  show ?thesis
  proof (rule ccontr)
    assume no: "\<not> job_seen ps (w_db w')"
    then have "t_events (w_db w') = t_events d0"
      using new same by (auto simp: one_row_def job_seen_def job_row_ok_def)
    then show False using seen no assms(1) ids
      by (auto simp: event_seen_def fresh_uses_def job_seen_def list_ex_iff)
  qed
qed

lemma write_jobs_result:
  "run_write (\<lambda>d. Some (d\<lparr>t_jobs := g (t_jobs d)\<rparr>)) w = (Inr (), w') \<Longrightarrow> t_jobs (w_db w') = g (t_jobs (w_db w))"
  by (auto simp: run_write_def stmt_def unit_res_def Let_def split: fault.splits prod.splits)

lemma update_job_done:
  assumes "update_async_job i st r c det t w = (Inr (), w')"
  shows "\<forall>row \<in> set (t_jobs (w_db w')). aj_id row = i \<longrightarrow> aj_status row = st"
proof -
  obtain old w1 where get: "get_async_job i w = (Inr old, w1)"
    using assms unfolding update_async_job_def by (elim bindM_InrE)
  show ?thesis
  proof (cases old)
    case None
    then have "\<forall>row \<in> set (t_jobs (w_db w1)). aj_id row \<noteq> i"
      using get by (auto simp: get_async_job_def query_def lookup_None_iff has_key_iff dest!: stmt_success)
    then show ?thesis using assms get None by (simp add: update_async_job_def bindM_def)
  next
    case (Some o2)
    define f where "f = (\<lambda>r2 :: async_job_row. r2\<lparr>aj_status := st,
        aj_result_json := (case r of Some v \<Rightarrow> v | None \<Rightarrow> aj_result_json o2),
        aj_error_code := (case c of Some v \<Rightarrow> v | None \<Rightarrow> aj_error_code o2),
        aj_error_detail := (case det of Some v \<Rightarrow> v | None \<Rightarrow> aj_error_detail o2), aj_updated_at := t\<rparr>)"
    have "run_write (\<lambda>d. Some (d\<lparr>t_jobs := update_where (\<lambda>r. aj_id r = i) f (t_jobs d)\<rparr>)) w1 = (Inr (), w')"
      using assms get Some by (simp add: update_async_job_def bindM_def f_def)
    then have "t_jobs (w_db w') = update_where (\<lambda>r. aj_id r = i) f (t_jobs (w_db w1))"
      by (rule write_jobs_result)
    moreover have "aj_status (f r) = st" for r by (simp add: f_def)
    ultimately show ?thesis by (auto simp: update_where_def)
  qed
qed

definition job_closed :: "longrun_params \<Rightarrow> db \<Rightarrow> bool" where
  "job_closed ps d \<longleftrightarrow> job_seen ps d
     \<and> (\<forall>row \<in> set (t_jobs d). aj_id row = lp_job_id ps \<longrightarrow> aj_status row = Succeeded)"

lemma and_then_InrE:
  assumes "and_then c k w = (Inr (Inr y), w')"
  obtains x w1 where "c w = (Inr (Inr x), w1)" "k x w1 = (Inr (Inr y), w')"
  using assms by (auto simp: and_then_def bindM_def split: sum.splits prod.splits)

lemma bind_clock: "bindM clock f w = f (w_now w) w"
  by (simp add: bindM_def clock_def)

lemma bind_unit: "bindM c (\<lambda>_. retM (Inr ())) w = (Inr (Inr ()), w') \<Longrightarrow> \<exists>x. c w = (Inr x, w')"
  by (erule bindM_InrE) simp

lemma metered_job:
  fixes w :: "'z plane_world_scheme"
  assumes "meter_job cx ps lid k w = (Inr (Inr ()), w')"
  shows "\<exists>key al w2. record_usage (longrun_event cx ps k key al lid) w2 = (Inr (), w') \<and> ledger_same (w_db w) (w_db w2)"
proof -
  obtain acc w3 where acc: "get_account (lp_account_id ps) w = (Inr acc, w3)"
    using assms unfolding meter_job_def by (rule bindM_InrE)
  have some: "acc \<noteq> None" using assms acc by (cases acc) (simp_all add: meter_job_def bindM_run failing_def)
  let ?key = "pb_key (period_bounds_of (w_now w3))"
  have "bindM (get_period (lp_account_id ps) ?key) (\<lambda>before.
         bindM (record_usage (longrun_event cx ps k ?key (allowance_spent before) lid))
           (\<lambda>_. retM (Inr ()))) w3 = (Inr (Inr ()) :: exn + (step_error + unit), w')"
    using assms acc some unfolding meter_job_def Let_def
    by (simp add: bindM_run option.case_eq_if clock_def del: retM_run)
  then obtain before w2 where per: "get_period (lp_account_id ps) ?key w3 = (Inr before, w2)"
    and rest: "bindM (record_usage (longrun_event cx ps k ?key (allowance_spent before) lid))
           (\<lambda>_. retM (Inr ())) w2 = (Inr (Inr ()) :: exn + (step_error + unit), w')"
    by (rule bindM_InrE)
  have "record_usage (longrun_event cx ps k ?key (allowance_spent before) lid) w2 = (Inr (), w')"
    using bind_unit [OF rest] by simp
  moreover have "ledger_same (w_db w) (w_db w2)"
    using silentD [OF silent_ops(4) acc] silentD [OF silent_ops(3) per] by (auto intro: ledger_same_trans)
  ultimately show ?thesis by blast
qed

lemma unit_eq: "(x :: unit) = ()"
  by simp

lemma finalize_closes:
  fixes w :: "'z plane_world_scheme"
  assumes "fresh_uses cx start" "one_row ps start (w_db w)"
    and run: "finalize_step cx ps lid asset k w = (Inr (Inr x), w')"
  shows "job_closed ps (w_db w')"
proof -
  obtain u w1 where meter: "meter_job cx ps lid k w = (Inr (Inr u), w1)"
    and rest: "bindM clock (\<lambda>t. bindM (update_async_job (lp_job_id ps) Succeeded
       (Some (Some (js_stringify (job_result ps (fst asset) (snd asset) t)))) (Some None) (Some None) t)
       (\<lambda>_. retM (Inr ()))) w1 = (Inr (Inr x) :: exn + (step_error + unit), w')"
    using run unfolding finalize_step_def by (rule and_then_InrE)
  define upd :: "int \<Rightarrow> (unit, 'z) p" where "upd t = update_async_job (lp_job_id ps) Succeeded
       (Some (Some (js_stringify (job_result ps (fst asset) (snd asset) t)))) (Some None) (Some None) t" for t
  have "bindM (upd (w_now w1)) (\<lambda>_. retM (Inr ())) w1 = (Inr (Inr ()) :: exn + (step_error + unit), w')"
    using rest unfolding bind_clock upd_def by simp
  then have upd: "upd (w_now w1) w1 = (Inr (), w')" using bind_unit by fastforce
  obtain key al w2 where rec: "record_usage (longrun_event cx ps k key al lid) w2 = (Inr (), w1)"
    and w2: "ledger_same (w_db w) (w_db w2)"
    using metered_job [of cx ps lid k w w1] meter by auto
  have "one_row ps start (w_db w2)"
    by (rule transpD [OF one_row_trans assms(2)]) (use w2 in \<open>auto simp: ledger_same_def intro: one_row_keep\<close>)
  from record_job_seen [OF assms(1) this rec] have "job_seen ps (w_db w1)" .
  moreover have "ledger_same (w_db w1) (w_db w')" using silentD [OF silent_jobs(2) upd [unfolded upd_def]] by simp
  ultimately have "job_seen ps (w_db w')"
    using job_seen_events [of "w_db w'" "w_db w1" ps] by (simp add: ledger_same_def)
  then show ?thesis
    using update_job_done [OF upd [unfolded upd_def]] unfolding job_closed_def by blast
qed

lemma step_success:
  assumes "\<And>k. db_rel (one_row ps) (f k)"
    and "\<And>k w w' x. one_row ps start (w_db w) \<Longrightarrow> f k w = (Inr (Inr x), w') \<Longrightarrow> Q w'"
  shows "one_row ps start (w_db w) \<Longrightarrow> step_from n k f w = (Inr (Inr x), w') \<Longrightarrow> Q w'"
proof (induction n arbitrary: k w)
  case 0
  then have "f k w = (Inr (Inr x), w')"
    by (auto simp: attempt_def catchM_def split: sum.splits prod.splits)
  then show ?case using 0(1) assms(2) by blast
next
  case (Suc n)
  obtain r w1 where r: "attempt f k w = (Inr r, w1)"
    using Suc(3) by (auto simp: bindM_def split: sum.splits prod.splits)
  have rel: "one_row ps start (w_db w1)"
    using db_relD [OF assms(1) [of k], of w] r Suc(2) transpD [OF one_row_trans, of ps start "w_db w"]
    by (auto simp: attempt_def catchM_def split: sum.splits prod.splits)
  show ?case
  proof (cases "\<exists>y. r = Inl (Retryable y)")
    case True
    then have "step_from n (Suc k) f w1 = (Inr (Inr x), w')" using Suc(3) r by (auto simp: bindM_def)
    then show ?thesis using Suc(1) rel by blast
  next
    case False
    then have "r = Inr x \<and> w1 = w'"
      using Suc(3) r by (auto simp: bindM_def split: sum.splits step_error.splits)
    then have "f k w = (Inr (Inr x), w')"
      using r by (auto simp: attempt_def catchM_def split: sum.splits prod.splits)
    then show ?thesis using Suc(2) assms(2) by blast
  qed
qed

lemma attempt_answers: "\<exists>r. fst (attempt f k w) = Inr r"
  by (auto simp: attempt_def catchM_def split: sum.split prod.split)

lemma step_answers: "\<exists>r. fst (step_from n k f w) = Inr r"
proof (induction n arbitrary: k w)
  case (Suc n)
  obtain r w1 where "attempt f k w = (Inr r, w1)"
    using attempt_answers [of f k w] by (metis prod.collapse)
  then show ?case using Suc by (auto simp: bindM_def split: sum.split step_error.split)
qed (simp add: attempt_answers)

lemma calls_ok_unpaid:
  "calls_ok cx n new \<Longrightarrow> list_all (\<lambda>c. \<not> is_paid c) rest \<Longrightarrow> calls_ok cx n (new @ rest)"
proof -
  assume ok: "calls_ok cx n new" and rest: "list_all (\<lambda>c. \<not> is_paid c) rest"
  have none: "List.filter is_paid rest = []" using rest by (simp add: list_all_iff filter_empty_conv)
  have lt: "i < length new" if "i < length (new @ rest)" "(new @ rest) ! i = ModelCall q" for i q
    using that rest by (cases "i < length new") (auto simp: nth_append list_all_length is_paid_def split: plane_call.splits)
  show "calls_ok cx n (new @ rest)"
    unfolding calls_ok_def
  proof (intro conjI allI impI)
    show "length (List.filter is_paid (new @ rest)) \<le> 2" using ok none by (simp add: calls_ok_def)
  next
    fix i q
    assume iq: "i < length (new @ rest) \<and> (new @ rest) ! i = ModelCall q \<and> answered cx (n + i) q"
    then have "i < length new" using lt by blast
    then show "List.filter is_paid (drop (Suc i) (new @ rest)) = []"
      using ok none iq by (auto simp: calls_ok_def nth_append)
  qed
qed

lemma has_answer_more: "has_answer cx n new \<Longrightarrow> has_answer cx n (new @ rest)"
  unfolding has_answer_def by (metis length_append nth_append trans_less_add1)

lemma unpaidD:
  assumes "unpaid c" "c w = (r, w')"
  obtains rest where "pw_log w' = pw_log w @ rest" "list_all (\<lambda>c. \<not> is_paid c) rest"
  using assms unfolding logs_def by (metis snd_conv)

definition pays_and_charges ::
  "('z, 'x) longrun_ctx_scheme \<Rightarrow> longrun_params \<Rightarrow> 'z plane_world_scheme \<Rightarrow> bool \<Rightarrow> 'z plane_world_scheme \<Rightarrow> bool" where
  "pays_and_charges cx ps w done w' \<longleftrightarrow>
     (\<exists>new. pw_log w' = pw_log w @ new \<and> calls_ok cx (length (pw_log w)) new
        \<and> one_row ps (w_db w) (w_db w')
        \<and> (t_events (w_db w') \<noteq> t_events (w_db w) \<or> done \<longrightarrow> has_answer cx (length (pw_log w)) new)
        \<and> (done \<longrightarrow> job_closed ps (w_db w')))"

lemma longrun_steps_sound:
  assumes "longrun_safe cx" "fresh_uses cx (w_db w)"
  shows "\<exists>r w'. longrun_steps cx ps w = (Inr r, w') \<and> pays_and_charges cx ps w (\<exists>x. r = Inr x) w'"
proof -
  let ?n = "length (pw_log w)"
  obtain r1 w1 new where s1: "step_do 1 (invoke_model cx ps) w = (Inr r1, w1)" "ledger_same (w_db w) (w_db w1)"
      "pw_log w1 = pw_log w @ new" "calls_ok cx ?n new" "(\<exists>x. r1 = Inr x) \<longrightarrow> has_answer cx ?n new"
    using invoke_step [OF assms(1)] by blast
  have rel1: "one_row ps (w_db w) (w_db w1)" and ev1: "t_events (w_db w1) = t_events (w_db w)"
    using s1(2) by (simp_all add: ledger_same_def one_row_def)
  show ?thesis
  proof (cases r1)
    case (Inl e)
    then show ?thesis using s1 rel1 ev1 by (auto simp: longrun_steps_def and_then_def bindM_def pays_and_charges_def)
  next
    case (Inr p)
    obtain url lid where p: "p = (url, lid)" by fastforce
    have answer: "has_answer cx ?n new" using s1(5) Inr by blast
    obtain r2 w2 where s2: "step_do 2 (rehost_step cx ps url) w1 = (Inr r2, w2)"
      using step_answers [of 2 0 "rehost_step cx ps url" w1] by (metis step_do_def prod.collapse)
    obtain m2 where m2: "pw_log w2 = pw_log w1 @ m2" "list_all (\<lambda>c. \<not> is_paid c) m2"
      using unpaidD [OF unpaid_step [of "rehost_step cx ps url", OF rehost_step_keeps(1) [OF assms(1)]] s2 [unfolded step_do_def]]
      by blast
    have rel2: "one_row ps (w_db w) (w_db w2)"
      using db_relD [OF one_row_step [of ps "rehost_step cx ps url", OF rehost_step_keeps(2) [OF assms(1)]], of w1 2 0] s2
        transpD [OF one_row_trans rel1] by (simp add: step_do_def)
    show ?thesis
    proof (cases r2)
      case (Inl e)
      then show ?thesis
        using s1 s2 Inr p m2 rel2 answer calls_ok_unpaid [OF s1(4) m2(2)] has_answer_more [OF answer, of m2]
        by (auto simp: longrun_steps_def and_then_def bindM_def pays_and_charges_def)
    next
      case (Inr asset)
      obtain r3 w3 where s3: "step_do 3 (finalize_step cx ps lid asset) w2 = (Inr r3, w3)"
        using step_answers [of 3 0 "finalize_step cx ps lid asset" w2] by (metis step_do_def prod.collapse)
      obtain m3 where m3: "pw_log w3 = pw_log w2 @ m3" "list_all (\<lambda>c. \<not> is_paid c) m3"
        using unpaidD [OF unpaid_step [of "finalize_step cx ps lid asset", OF unpaid_finalize] s3 [unfolded step_do_def]]
        by blast
      have rel3: "one_row ps (w_db w) (w_db w3)"
        using db_relD [OF one_row_step [of ps "finalize_step cx ps lid asset", OF one_row_finalize], of w2 3 0] s3
          transpD [OF one_row_trans rel2] by (simp add: step_do_def)
      have closed: "job_closed ps (w_db w3)" if "r3 = Inr x" for x
        using step_success [where Q = "\<lambda>v. job_closed ps (w_db v)" and f = "finalize_step cx ps lid asset",
            OF one_row_finalize finalize_closes [OF assms(2)] rel2 s3 [unfolded step_do_def that]] .
      have run: "longrun_steps cx ps w = (Inr r3, w3)"
        using s1(1) s2 s3 \<open>r1 = Inr p\<close> p Inr by (simp add: longrun_steps_def and_then_def bindM_def)
      have "pw_log w3 = pw_log w @ (new @ m2 @ m3)" "list_all (\<lambda>c. \<not> is_paid c) (m2 @ m3)"
        using s1(3) m2 m3 by simp_all
      then show ?thesis
        using run rel3 closed calls_ok_unpaid [OF s1(4)] has_answer_more [OF answer]
        unfolding pays_and_charges_def by blast
    qed
  qed
qed

lemma silent_fail_job: "silent (fail_job ps code msg)"
  unfolding fail_job_def by (intro silent_intros silent_jobs)

lemma fail_job_answers: "fst (fail_job ps code msg w) = Inr ()"
  by (auto simp: fail_job_def catchM_def split: sum.split prod.split)

lemma run_longrun_sound:
  assumes "longrun_safe cx" "fresh_uses cx (w_db w)"
  shows "\<exists>r w'. run_longrun cx ps w = (Inr r, w') \<and> pays_and_charges cx ps w (r = Inr ()) w'"
proof -
  obtain r w1 where s: "longrun_steps cx ps w = (Inr r, w1)" "pays_and_charges cx ps w (\<exists>x. r = Inr x) w1"
    using longrun_steps_sound [OF assms] by blast
  show ?thesis
  proof (cases r)
    case (Inr x)
    then show ?thesis using s by (simp add: run_longrun_def bindM_def)
  next
    case (Inl e)
    let ?c = "fail_job ps ''upstream_error'' (lr_text cx (failure_of e))"
    obtain w2 where f: "?c w1 = (Inr (), w2)"
      using fail_job_answers [of ps _ _ w1] by (metis prod.collapse)
    have "pw_log w2 = pw_log w1" "t_events (w_db w2) = t_events (w_db w1)"
      using silentD [OF silent_fail_job f] by (simp_all add: ledger_same_def)
    then have "pays_and_charges cx ps w False w2"
      using s(2) Inl by (auto simp: pays_and_charges_def one_row_def)
    then show ?thesis using s(1) Inl f by (simp add: run_longrun_def bindM_def)
  qed
qed

section \<open>A sample workflow\<close>

definition sample_longrun_ctx :: "unit longrun_ctx" where
  "sample_longrun_ctx = \<lparr>lr_env = bare_env\<lparr>env_account_id := Some ''acct'', env_gateway_id := Some ''gw'',
       env_aig_token := Some ''token''\<rparr>,
     lr_hash = \<lparr>ph_sha256 = id, ph_hmac = (\<lambda>k t. k @ t)\<rparr>, lr_media = None,
     lr_runner = (\<lambda>n q. if n = 0 then NcTimeout 120000 else NcOk (JObj [(''audio'', JStr ''https://x/a.mp3'')]) None None),
     lr_fetch = (\<lambda>n u. FetchAborted), lr_uuid = (\<lambda>n. ''uuid''), lr_use_bytes = (\<lambda>n. ''abcdef''),
     lr_text = (\<lambda>e. ''failed'')\<rparr>"

definition sample_longrun :: longrun_params where
  "sample_longrun = \<lparr>lp_job_id = ''job_1'', lp_kind = JobMusic, lp_model_id = ''minimax/music-2.6'',
     lp_upstream_model = ''minimax/music-2.6'', lp_prompt = ''a song'', lp_lyrics = None, lp_voice = None,
     lp_image_url = None, lp_image_object_key = None, lp_account_id = ''acc_1'', lp_client_id = ''cli_1'',
     lp_plan_id = ''free'', lp_request_id = ''req_1'', lp_unit_micro = NInt 1000, lp_unit = PerRequest,
     lp_billable_units = None, lp_monthly_included = 0, lp_origin = ''https://plane'', lp_started_at = 0,
     lp_duration = None\<rparr>"

text \<open>C32. A durable job is paid for once and charged once.  Whatever fails and however often the
  steps are retried, the provider is called at most twice and never again after it has answered; the
  ledger gains at most one row, for the job's client and request id and at the job's price, split
  without loss, and only when the provider answered; and a run that ends without error has that row
  and has marked its job succeeded.\<close>

theorem longrun_pays_and_charges_once:
  assumes "longrun_safe cx" "fresh_uses cx (w_db w)" "run_longrun cx ps w = (r, w')"
  shows "\<exists>new. pw_log w' = pw_log w @ new \<and> calls_ok cx (length (pw_log w)) new
    \<and> one_row ps (w_db w) (w_db w')
    \<and> (t_events (w_db w') \<noteq> t_events (w_db w) \<or> r = Inr (Inr ()) \<longrightarrow> has_answer cx (length (pw_log w)) new)
    \<and> (r = Inr (Inr ()) \<longrightarrow> job_closed ps (w_db w'))"
proof -
  obtain x where "r = Inr x" "pays_and_charges cx ps w (x = Inr ()) w'"
    using run_longrun_sound [OF assms(1,2), of ps] assms(3) by auto
  then show ?thesis by (simp add: pays_and_charges_def)
qed

theorem longrun_pays_and_charges_once_witness:
  "\<exists>new. pw_log (snd (run_longrun sample_longrun_ctx sample_longrun sample_plane_world)) = [] @ new
    \<and> calls_ok sample_longrun_ctx 0 new
    \<and> one_row sample_longrun (w_db sample_plane_world) (w_db (snd (run_longrun sample_longrun_ctx sample_longrun sample_plane_world)))"
proof -
  have "longrun_safe sample_longrun_ctx" "fresh_uses sample_longrun_ctx (w_db sample_plane_world)"
    by (simp_all add: longrun_safe_def fresh_uses_def sample_longrun_ctx_def sample_plane_world_def auth_world_def
        empty_db_def has_key_def)
  from longrun_pays_and_charges_once [OF this prod.collapse [symmetric], of sample_longrun]
  show ?thesis by (simp add: sample_plane_world_def)
qed

text \<open>An image that the first step stored in the plane's own object store comes back as a link of the
  plane, which the second step takes for the provider's: it fetches it and stores it a second time.\<close>

lemma stored_image_fetched_back:
  assumes "lr_media cx = Some b" "media_signing_secret (env_aig_token (lr_env cx)) = Some secret"
    and "bucket_silent b" "lp_kind ps = JobImage" "lp_origin ps = ''https://'' @ host" "host \<noteq> []"
  shows "AssetFetch (media_link (lr_hash cx) secret (lp_origin ps) key t)
    \<in> set (pw_log (snd (rehost_step cx ps (media_link (lr_hash cx) secret (lp_origin ps) key t) k w)))"
proof -
  let ?url = "media_link (lr_hash cx) secret (lp_origin ps) key t"
  have http: "looks_like_http_url ?url"
    using assms(5,6) by (cases host) (simp_all add: looks_like_http_url_def media_link_def media_public_url_def starts_with_def)
  let ?key = "new_image_object_key (lp_account_id ps) (lp_request_id ps) (lr_uuid cx k)"
  let ?store = "catchM (store_asset b (lr_hash cx) secret (lp_origin ps) ?key ''image/png''
      (lr_fetch cx (length (pw_log w)) ?url)) (\<lambda>_. retM None)"
  let ?u = "w\<lparr>pw_log := pw_log w @ [AssetFetch ?url]\<rparr>"
  obtain h v where run: "?store ?u = (h, v)" by fastforce
  have store: "silent ?store" by (intro silent_intros silent_store_asset assms(3))
  have v: "pw_log v = pw_log w @ [AssetFetch ?url]" using silentD [OF store, of ?u] run by simp
  have "rehost_image cx ps k ?url w = (h, v)"
    using assms(1,2) run
    by (simp add: rehost_image_def rehost_asset_as_def bindM_run calls_so_far_def log_call_def)
  then have "snd (rehost_step cx ps ?url k w) = v"
    using http assms(4) by (cases h) (simp_all add: rehost_step_def Let_def bindM_run)
  then show ?thesis using v by simp
qed

end
