(* ===== verification/X509.thy ===== *)
theory X509
  imports Tokens IsoDate
begin

text \<open>
  src/src/x509.ts: the DER reader, the certificate parser and the check of one issuance.  A byte
  array is a \<open>string\<close>, an offset a natural number, so the test for a negative one is void.
  The import of a public key and the verification of a signature are parameters; an exception of
  either is \<open>None\<close> or \<open>False\<close>, as the code catches it.
\<close>

section \<open>Tag, length, value\<close>

record tlv =
  tl_tag           :: nat
  tl_start         :: nat
  tl_content_start :: nat
  tl_content_end   :: nat
  tl_end           :: nat

abbreviation byte_at :: "string \<Rightarrow> nat \<Rightarrow> nat" where
  "byte_at buf i \<equiv> ord_of (buf ! i)"

text \<open>\<open>buf.subarray(a, b)\<close>.\<close>

definition subarray :: "string \<Rightarrow> nat \<Rightarrow> nat \<Rightarrow> string" where
  "subarray buf a b = take (b - a) (drop a buf)"

definition big_endian :: "string \<Rightarrow> nat" where
  "big_endian bs = foldl (\<lambda>n b. n * 256 + ord_of b) 0 bs"

text \<open>The length and the offset of the content, from the first length byte on.\<close>

definition read_length :: "string \<Rightarrow> nat \<Rightarrow> (nat \<times> nat) option" where
  "read_length buf p =
     (let first = byte_at buf p in
      if first < 128 then Some (first, p + 1)
      else let n = first AND 127 in
        if n = 0 \<or> 4 < n \<or> length buf < p + 1 + n then None
        else let len = big_endian (subarray buf (p + 1) (p + 1 + n)) in
          if length buf < len then None else Some (len, p + 1 + n))"

definition read_tlv :: "string \<Rightarrow> nat \<Rightarrow> tlv option" where
  "read_tlv buf off =
     (if length buf < off + 2 then None
      else if byte_at buf off AND 31 = 31 then None
      else case read_length buf (off + 1) of
             None \<Rightarrow> None
           | Some (len, p) \<Rightarrow>
               if length buf < p + len then None
               else Some \<lparr>tl_tag = byte_at buf off, tl_start = off, tl_content_start = p,
                          tl_content_end = p + len, tl_end = p + len\<rparr>)"

definition TAG_BOOLEAN :: nat where "TAG_BOOLEAN = 1"
definition TAG_INTEGER :: nat where "TAG_INTEGER = 2"
definition TAG_BIT_STRING :: nat where "TAG_BIT_STRING = 3"
definition TAG_OCTET_STRING :: nat where "TAG_OCTET_STRING = 4"
definition TAG_OID :: nat where "TAG_OID = 6"
definition TAG_UTC_TIME :: nat where "TAG_UTC_TIME = 23"
definition TAG_GENERALIZED_TIME :: nat where "TAG_GENERALIZED_TIME = 24"
definition TAG_SEQUENCE :: nat where "TAG_SEQUENCE = 48"

lemmas tag_defs = TAG_BOOLEAN_def TAG_INTEGER_def TAG_BIT_STRING_def TAG_OCTET_STRING_def TAG_OID_def
  TAG_UTC_TIME_def TAG_GENERALIZED_TIME_def TAG_SEQUENCE_def

text \<open>\<open>const t = readTlv(buf, off); if (!t || t.tag !== tag) return null\<close>.\<close>

definition expect_tlv :: "nat \<Rightarrow> string \<Rightarrow> nat \<Rightarrow> tlv option" where
  "expect_tlv tag buf off =
     (case read_tlv buf off of None \<Rightarrow> None | Some t \<Rightarrow> if tl_tag t \<noteq> tag then None else Some t)"

section \<open>Identifiers and times\<close>

definition OID_ecPublicKey :: string where "OID_ecPublicKey = ''06072a8648ce3d0201''"
definition OID_p256 :: string where "OID_p256 = ''06082a8648ce3d030107''"
definition OID_p384 :: string where "OID_p384 = ''06052b81040022''"
definition OID_ecdsaWithSha256 :: string where "OID_ecdsaWithSha256 = ''06082a8648ce3d040302''"
definition OID_ecdsaWithSha384 :: string where "OID_ecdsaWithSha384 = ''06082a8648ce3d040303''"
definition OID_basicConstraints :: string where "OID_basicConstraints = ''0603551d13''"

definition hex_of :: "string \<Rightarrow> nat \<Rightarrow> nat \<Rightarrow> string" where
  "hex_of buf a b = hex_of_bytes (subarray buf a b)"

abbreviation tlv_hex :: "string \<Rightarrow> tlv \<Rightarrow> string" where
  "tlv_hex buf t \<equiv> hex_of buf (tl_start t) (tl_end t)"

text \<open>\<open>Date.UTC\<close> of six arguments: a year from 0 to 99 is one of the twentieth century.\<close>

definition date_utc_full :: "int \<Rightarrow> int \<Rightarrow> int \<Rightarrow> int \<Rightarrow> int \<Rightarrow> int \<Rightarrow> int" where
  "date_utc_full y mo d h mi s =
     (make_day (if 0 \<le> y \<and> y \<le> 99 then 1900 + y else y) mo + d - 1) * ms_per_day
       + ((h * 60 + mi) * 60 + s) * 1000"

text \<open>The two digits at a position.\<close>

definition two_digits :: "nat \<Rightarrow> string \<Rightarrow> int" where
  "two_digits i s = int (nat_of_dec (take 2 (drop i s)))"

text \<open>\<open>/^(\d{k})(\d{10})Z$/\<close>: the year and the rest.\<close>

definition zulu_parts :: "nat \<Rightarrow> string \<Rightarrow> (int \<times> string) option" where
  "zulu_parts k text_in =
     (if length text_in = k + 11 \<and> list_all is_digit_char (take (k + 10) text_in) \<and> text_in ! (k + 10) = CHR ''Z''
      then Some (int (nat_of_dec (take k text_in)), take 10 (drop k text_in)) else None)"

definition year_and_rest :: "nat \<Rightarrow> string \<Rightarrow> (int \<times> string) option" where
  "year_and_rest tag s =
     (if tag = TAG_UTC_TIME then
        map_option (\<lambda>(yy, rest). (if yy \<ge> 50 then 1900 + yy else 2000 + yy, rest)) (zulu_parts 2 s)
      else if tag = TAG_GENERALIZED_TIME then zulu_parts 4 s
      else None)"

definition parse_asn1_time :: "string \<Rightarrow> tlv \<Rightarrow> int option" where
  "parse_asn1_time buf t =
     (case year_and_rest (tl_tag t) (subarray buf (tl_content_start t) (tl_content_end t)) of
        None \<Rightarrow> None
      | Some (year, rest) \<Rightarrow>
          (let month = two_digits 0 rest; dom = two_digits 2 rest; hour = two_digits 4 rest;
               minute = two_digits 6 rest; sec = two_digits 8 rest
           in if month < 1 \<or> month > 12 \<or> dom < 1 \<or> dom > 31 \<or> hour > 23 \<or> minute > 59 \<or> sec > 60 then None
              else Some (date_utc_full year (month - 1) dom hour minute sec)))"

section \<open>Every read moves forward and stays inside\<close>

lemma read_length_inside:
  assumes "read_length buf p = Some (len, q)"
  shows "p < q"
  using assms by (auto simp: read_length_def Let_def split: if_splits)

lemma read_tlv_inside:
  assumes "read_tlv buf off = Some t"
  shows "tl_start t = off" "off + 2 \<le> tl_content_start t" "tl_content_start t \<le> tl_content_end t"
    "tl_content_end t = tl_end t" "tl_end t \<le> length buf" "tl_tag t = byte_at buf off"
  using assms by (auto simp: read_tlv_def Let_def dest!: read_length_inside split: if_splits option.splits)

lemma read_tlv_forward: "read_tlv buf off = Some t \<Longrightarrow> off < tl_end t"
  using read_tlv_inside [of buf off t] by linarith

lemma expect_tlvD: "expect_tlv tag buf off = Some t \<Longrightarrow> read_tlv buf off = Some t \<and> tl_tag t = tag"
  by (auto simp: expect_tlv_def split: option.splits if_splits)

section \<open>Certificates\<close>

datatype ec_curve = P256 | P384
datatype ec_hash = SHA256 | SHA384

record certificate =
  ce_der            :: string
  ce_tbs            :: string
  ce_issuer         :: string
  ce_subject        :: string
  ce_not_before     :: int
  ce_not_after      :: int
  ce_spki           :: string
  ce_curve          :: ec_curve
  ce_signature_hash :: ec_hash
  ce_signature      :: string
  ce_is_ca          :: bool
  ce_extension_oids :: "string list"

abbreviation tlv_bytes :: "string \<Rightarrow> tlv \<Rightarrow> string" where
  "tlv_bytes buf t \<equiv> subarray buf (tl_start t) (tl_end t)"

definition signature_hash_of :: "string \<Rightarrow> tlv \<Rightarrow> ec_hash option" where
  "signature_hash_of der alg =
     (case expect_tlv TAG_OID der (tl_content_start alg) of
        None \<Rightarrow> None
      | Some oid \<Rightarrow>
          if tlv_hex der oid = OID_ecdsaWithSha256 then Some SHA256
          else if tlv_hex der oid = OID_ecdsaWithSha384 then Some SHA384 else None)"

text \<open>The bits of the signature: no unused bits, and the last field of the certificate.\<close>

definition signature_bits :: "string \<Rightarrow> tlv \<Rightarrow> nat \<Rightarrow> string option" where
  "signature_bits der cert off =
     (case expect_tlv TAG_BIT_STRING der off of
        None \<Rightarrow> None
      | Some v \<Rightarrow>
          if tl_end v \<noteq> tl_content_end cert \<or> tl_content_end v - tl_content_start v < 2
             \<or> byte_at der (tl_content_start v) \<noteq> 0 then None
          else Some (subarray der (tl_content_start v + 1) (tl_content_end v)))"

definition after_version :: "string \<Rightarrow> tlv \<Rightarrow> nat option" where
  "after_version der tbs =
     (let off = tl_content_start tbs in
      if off < tl_content_end tbs \<and> byte_at der off = 160
      then map_option tl_end (read_tlv der off) else Some off)"

definition validity_of :: "string \<Rightarrow> tlv \<Rightarrow> (int \<times> int) option" where
  "validity_of der v =
     Option.bind (read_tlv der (tl_content_start v)) (\<lambda>nb.
     Option.bind (read_tlv der (tl_end nb)) (\<lambda>na.
     if tl_end na \<noteq> tl_content_end v then None
     else Option.bind (parse_asn1_time der nb) (\<lambda>b.
          Option.bind (parse_asn1_time der na) (\<lambda>a. Some (b, a)))))"

definition curve_of :: "string \<Rightarrow> tlv \<Rightarrow> ec_curve option" where
  "curve_of der spki =
     Option.bind (expect_tlv TAG_SEQUENCE der (tl_content_start spki)) (\<lambda>alg.
     Option.bind (expect_tlv TAG_OID der (tl_content_start alg)) (\<lambda>key_type.
     if tlv_hex der key_type \<noteq> OID_ecPublicKey then None
     else Option.bind (expect_tlv TAG_OID der (tl_end key_type)) (\<lambda>c.
          if tl_end c \<noteq> tl_content_end alg then None
          else if tlv_hex der c = OID_p256 then Some P256
          else if tlv_hex der c = OID_p384 then Some P384 else None)))"

text \<open>What the extension says of being an authority: \<open>None\<close> refuses the certificate.\<close>

definition basic_constraints :: "string \<Rightarrow> tlv \<Rightarrow> bool \<Rightarrow> bool option" where
  "basic_constraints der v is_ca =
     Option.bind (expect_tlv TAG_SEQUENCE der (tl_content_start v)) (\<lambda>bc.
     Some (if tl_content_start bc < tl_content_end bc then
             (case read_tlv der (tl_content_start bc) of
                None \<Rightarrow> is_ca
              | Some ca \<Rightarrow>
                  if tl_tag ca = TAG_BOOLEAN \<and> tl_content_end ca - tl_content_start ca = 1
                  then byte_at der (tl_content_start ca) \<noteq> 0 else is_ca)
           else is_ca))"

type_synonym ext_state = "bool \<times> string list"

text \<open>One extension at \<open>e\<close>: the offset after it and the state with it.\<close>

definition read_extension :: "string \<Rightarrow> nat \<Rightarrow> ext_state \<Rightarrow> (nat \<times> ext_state) option" where
  "read_extension der e st =
     Option.bind (expect_tlv TAG_SEQUENCE der e) (\<lambda>ext.
     Option.bind (expect_tlv TAG_OID der (tl_content_start ext)) (\<lambda>ext_id.
     Option.bind (read_tlv der (tl_end ext_id)) (\<lambda>maybe_critical.
     let v_off = (if tl_tag maybe_critical = TAG_BOOLEAN then tl_end maybe_critical else tl_end ext_id) in
     Option.bind (expect_tlv TAG_OCTET_STRING der v_off) (\<lambda>v.
     Option.bind (if tlv_hex der ext_id = OID_basicConstraints then basic_constraints der v (fst st)
                  else Some (fst st)) (\<lambda>is_ca.
     Some (tl_end ext, is_ca, snd st @ [tlv_hex der ext_id]))))))"

lemma read_extension_forward:
  "read_extension der e st = Some (n, st') \<Longrightarrow> e < n \<and> n \<le> length der"
  by (auto simp: read_extension_def Let_def split: bind_splits dest!: expect_tlvD dest: read_tlv_forward read_tlv_inside(5))

function extension_loop :: "string \<Rightarrow> nat \<Rightarrow> nat \<Rightarrow> ext_state \<Rightarrow> ext_state option" where
  "extension_loop der e limit st =
     (if e < limit then
        (case read_extension der e st of
           None \<Rightarrow> None
         | Some (n, st') \<Rightarrow> extension_loop der n limit st')
      else Some st)"
  by pat_completeness auto
termination
  by (relation "measure (\<lambda>(der, e, limit, st). limit - e)") (auto dest: read_extension_forward)

declare extension_loop.simps [simp del]

text \<open>What follows the key: extensions are read, any other field is skipped.\<close>

definition read_tail_field :: "string \<Rightarrow> nat \<Rightarrow> ext_state \<Rightarrow> (nat \<times> ext_state) option" where
  "read_tail_field der off st =
     Option.bind (read_tlv der off) (\<lambda>t.
     if tl_tag t = 163 then
       Option.bind (expect_tlv TAG_SEQUENCE der (tl_content_start t)) (\<lambda>seq.
       map_option (\<lambda>st'. (tl_end t, st'))
         (extension_loop der (tl_content_start seq) (tl_content_end seq) st))
     else Some (tl_end t, st))"

lemma read_tail_forward: "read_tail_field der off st = Some (n, st') \<Longrightarrow> off < n"
  by (auto simp: read_tail_field_def split: bind_splits if_splits dest: read_tlv_forward)

function tail_loop :: "string \<Rightarrow> nat \<Rightarrow> nat \<Rightarrow> ext_state \<Rightarrow> ext_state option" where
  "tail_loop der off limit st =
     (if off < limit then
        (case read_tail_field der off st of
           None \<Rightarrow> None
         | Some (n, st') \<Rightarrow> tail_loop der n limit st')
      else Some st)"
  by pat_completeness auto
termination
  by (relation "measure (\<lambda>(der, off, limit, st). limit - off)") (auto dest: read_tail_forward)

declare tail_loop.simps [simp del]

definition parse_certificate :: "string \<Rightarrow> certificate option" where
  "parse_certificate der =
     Option.bind (expect_tlv TAG_SEQUENCE der 0) (\<lambda>cert.
     if tl_end cert \<noteq> length der then None else
     Option.bind (expect_tlv TAG_SEQUENCE der (tl_content_start cert)) (\<lambda>tbs.
     Option.bind (expect_tlv TAG_SEQUENCE der (tl_end tbs)) (\<lambda>sig_alg.
     Option.bind (signature_hash_of der sig_alg) (\<lambda>signature_hash.
     Option.bind (signature_bits der cert (tl_end sig_alg)) (\<lambda>signature.
     Option.bind (after_version der tbs) (\<lambda>off.
     Option.bind (expect_tlv TAG_INTEGER der off) (\<lambda>serial.
     Option.bind (expect_tlv TAG_SEQUENCE der (tl_end serial)) (\<lambda>inner_sig_alg.
     if tlv_hex der inner_sig_alg \<noteq> tlv_hex der sig_alg then None else
     Option.bind (expect_tlv TAG_SEQUENCE der (tl_end inner_sig_alg)) (\<lambda>issuer.
     Option.bind (expect_tlv TAG_SEQUENCE der (tl_end issuer)) (\<lambda>validity.
     Option.bind (validity_of der validity) (\<lambda>(not_before, not_after).
     Option.bind (expect_tlv TAG_SEQUENCE der (tl_end validity)) (\<lambda>subject.
     Option.bind (expect_tlv TAG_SEQUENCE der (tl_end subject)) (\<lambda>spki.
     Option.bind (curve_of der spki) (\<lambda>curve.
     Option.bind (tail_loop der (tl_end spki) (tl_content_end tbs) (False, [])) (\<lambda>(is_ca, oids).
     Some \<lparr>ce_der = der, ce_tbs = tlv_bytes der tbs, ce_issuer = tlv_bytes der issuer,
           ce_subject = tlv_bytes der subject, ce_not_before = not_before, ce_not_after = not_after,
           ce_spki = tlv_bytes der spki, ce_curve = curve, ce_signature_hash = signature_hash,
           ce_signature = signature, ce_is_ca = is_ca, ce_extension_oids = oids\<rparr>)))))))))))))))"

section \<open>Signatures\<close>

text \<open>The or of the xors over every position, in 32 bits.\<close>

definition bytes_equal :: "string \<Rightarrow> string \<Rightarrow> bool" where
  "bytes_equal a b = (if length a \<noteq> length b then False else diff_loop 0 a b = 0)"

text \<open>Leading zeros are dropped, the last byte is not.\<close>

fun strip_leading_zeros :: "string \<Rightarrow> string" where
  "strip_leading_zeros (x # y # ys) = (if ord_of x = 0 then strip_leading_zeros (y # ys) else x # y # ys)"
| "strip_leading_zeros xs = xs"

text \<open>The content of an integer, right-aligned in a field of \<open>width\<close> bytes.\<close>

definition place :: "nat \<Rightarrow> string \<Rightarrow> string option" where
  "place width content =
     (let v = strip_leading_zeros content; len = length v
      in if len > width \<or> len = 0 then None else Some (replicate (width - len) (char_of (0::nat)) @ v))"

definition tlv_content :: "string \<Rightarrow> tlv \<Rightarrow> string" where
  "tlv_content buf t = subarray buf (tl_content_start t) (tl_content_end t)"

definition der_ecdsa_to_p1363 :: "string \<Rightarrow> nat \<Rightarrow> string option" where
  "der_ecdsa_to_p1363 sig width =
     Option.bind (expect_tlv TAG_SEQUENCE sig 0) (\<lambda>seq.
     if tl_end seq \<noteq> length sig then None else
     Option.bind (expect_tlv TAG_INTEGER sig (tl_content_start seq)) (\<lambda>r.
     Option.bind (expect_tlv TAG_INTEGER sig (tl_end r)) (\<lambda>s.
     if tl_end s \<noteq> tl_content_end seq then None else
     Option.bind (place width (tlv_content sig r)) (\<lambda>hi.
     Option.bind (place width (tlv_content sig s)) (\<lambda>lo. Some (hi @ lo))))))"

record 'k ec_platform =
  ec_import :: "ec_curve \<Rightarrow> string \<Rightarrow> 'k option"
  ec_verify :: "'k \<Rightarrow> ec_hash \<Rightarrow> string \<Rightarrow> string \<Rightarrow> bool"

definition import_ec_public_key :: "'k ec_platform \<Rightarrow> certificate \<Rightarrow> 'k option" where
  "import_ec_public_key ec cert = ec_import ec (ce_curve cert) (ce_spki cert)"

definition verify_ecdsa :: "'k ec_platform \<Rightarrow> 'k \<Rightarrow> ec_hash \<Rightarrow> string \<Rightarrow> string \<Rightarrow> bool" where
  "verify_ecdsa ec key hash sig data = ec_verify ec key hash sig data"

definition verify_certificate_signed_by :: "'k ec_platform \<Rightarrow> certificate \<Rightarrow> certificate \<Rightarrow> bool" where
  "verify_certificate_signed_by ec child issuer =
     (if \<not> bytes_equal (ce_issuer child) (ce_subject issuer) then False
      else case import_ec_public_key ec issuer of
             None \<Rightarrow> False
           | Some key \<Rightarrow>
               (case der_ecdsa_to_p1363 (ce_signature child) (if ce_curve issuer = P384 then 48 else 32) of
                  None \<Rightarrow> False
                | Some raw \<Rightarrow> verify_ecdsa ec key (ce_signature_hash child) raw (ce_tbs child)))"

definition cert_valid_at :: "certificate \<Rightarrow> int \<Rightarrow> bool" where
  "cert_valid_at cert now_ms = (ce_not_before cert \<le> now_ms \<and> now_ms \<le> ce_not_after cert)"

end
