(* ===== verification/X509Props.thy ===== *)
theory X509Props
  imports X509
begin

text \<open>
  What the reader and the parser of X509 guarantee: what a canonical encoder writes reads back, a
  parsed certificate consists of ranges of its own bytes, and a signature converts to its fixed width.
\<close>

section \<open>A canonical encoder\<close>

text \<open>The big-endian bytes of a number, as few as it needs.\<close>

fun be_bytes :: "nat \<Rightarrow> string" where
  "be_bytes n = (if n < 256 then [char_of n] else be_bytes (n div 256) @ [char_of (n mod 256)])"

declare be_bytes.simps [simp del]

definition encode_length :: "nat \<Rightarrow> string" where
  "encode_length n =
     (if n < 128 then [char_of n] else char_of (128 + length (be_bytes n)) # be_bytes n)"

definition encode_tlv :: "nat \<Rightarrow> string \<Rightarrow> string" where
  "encode_tlv tag content = char_of tag # encode_length (length content) @ content"

lemma big_endian_snoc: "big_endian (bs @ [b]) = big_endian bs * 256 + ord_of b"
  by (simp add: big_endian_def)

lemma big_endian_be_bytes: "big_endian (be_bytes n) = n"
proof (induction n rule: be_bytes.induct)
  case (1 n)
  show ?case
  proof (cases "n < 256")
    case True
    then show ?thesis by (simp add: be_bytes.simps [of n] big_endian_def)
  next
    case False
    then show ?thesis using 1 by (simp add: be_bytes.simps [of n] big_endian_snoc ord_of_def)
  qed
qed

lemma be_bytes_length: "n < 256 ^ k \<Longrightarrow> 0 < k \<Longrightarrow> length (be_bytes n) \<le> k"
proof (induction k arbitrary: n)
  case (Suc k)
  show ?case
  proof (cases "n < 256")
    case True
    then show ?thesis by (simp add: be_bytes.simps [of n])
  next
    case False
    then have "0 < k" using Suc.prems(1) by (cases k) auto
    moreover have "n div 256 < 256 ^ k" using Suc.prems(1) by (simp add: less_mult_imp_div_less mult.commute)
    ultimately show ?thesis using Suc.IH [of "n div 256"] False by (simp add: be_bytes.simps [of n])
  qed
qed simp

lemma be_bytes_nonempty: "be_bytes n \<noteq> []"
  by (simp add: be_bytes.simps [of n])

lemma and_low_bits: "(a :: nat) AND 127 = a mod 128" "a AND 31 = a mod 32"
  using take_bit_eq_mask [of 7 a] take_bit_eq_mask [of 5 a] by (simp_all add: mask_eq_exp_minus_1 take_bit_eq_mod)


lemma subarray_append: "subarray (pre @ mid @ post) (length pre) (length pre + length mid) = mid"
  by (simp add: subarray_def)

lemma read_length_short:
  assumes "n < 128" "i = length pre"
  shows "read_length (pre @ char_of n # post) i = Some (n, i + 1)"
  using assms by (simp add: read_length_def Let_def)

lemma read_length_long:
  assumes k: "bs = be_bytes n" "length bs \<le> 4" and n: "n \<le> length post" and i: "i = length pre"
  shows "read_length (pre @ char_of (128 + length bs) # bs @ post) i = Some (n, i + 1 + length bs)"
proof -
  let ?buf = "pre @ char_of (128 + length bs) # bs @ post"
  have first: "byte_at ?buf i = 128 + length bs" using i k(2) by simp
  have "(128 + length bs) AND 127 = length bs" unfolding and_low_bits(1) using k(2) by simp
  moreover have "subarray ?buf (i + 1) (i + 1 + length bs) = bs"
    using subarray_append [of "pre @ [char_of (128 + length bs)]" bs post] i by simp
  moreover have "big_endian bs = n" "bs \<noteq> []" by (simp_all add: k(1) big_endian_be_bytes be_bytes_nonempty)
  ultimately show ?thesis
    using k(2) n i by (auto simp: read_length_def Let_def first)
qed

text \<open>What the encoder writes, anywhere in a buffer, the reader reads.\<close>

lemma read_encoded:
  assumes tag: "tag < 256" "tag mod 32 \<noteq> 31" and len: "length content < 256 ^ 4"
  shows "\<exists>t. read_tlv (pre @ encode_tlv tag content @ post) (length pre) = Some t
    \<and> tl_tag t = tag \<and> tl_start t = length pre \<and> tl_end t = length (pre @ encode_tlv tag content)
    \<and> tl_content_end t = tl_end t
    \<and> tlv_content (pre @ encode_tlv tag content @ post) t = content"
proof -
  let ?n = "length content" and ?buf = "pre @ encode_tlv tag content @ post"
  let ?enc = "encode_length ?n"
  have len1: "read_length ?buf (length pre + 1) = Some (?n, length pre + 1 + length ?enc)"
  proof (cases "?n < 128")
    case True
    then show ?thesis
      using read_length_short [of ?n "length pre + 1" "pre @ [char_of tag]" "content @ post"]
      by (simp add: encode_tlv_def encode_length_def)
  next
    case False
    have "length (be_bytes ?n) \<le> 4" using be_bytes_length [OF len] by simp
    then show ?thesis
      using read_length_long [of "be_bytes ?n" ?n "content @ post" "length pre + 1" "pre @ [char_of tag]"] False
      by (simp add: encode_tlv_def encode_length_def)
  qed
  have first: "byte_at ?buf (length pre) = tag" using tag(1) by (simp add: encode_tlv_def)
  have fits: "length pre + 1 + length ?enc + ?n \<le> length ?buf" by (simp add: encode_tlv_def)
  have two: "length pre + 2 \<le> length ?buf" by (simp add: encode_tlv_def encode_length_def)
  have content: "subarray ?buf (length pre + 1 + length ?enc) (length pre + 1 + length ?enc + ?n) = content"
    using subarray_append [of "pre @ char_of tag # ?enc" content post] by (simp add: encode_tlv_def)
  have "read_tlv ?buf (length pre) = Some \<lparr>tl_tag = tag, tl_start = length pre,
      tl_content_start = length pre + 1 + length ?enc, tl_content_end = length pre + 1 + length ?enc + ?n,
      tl_end = length pre + 1 + length ?enc + ?n\<rparr>"
    unfolding read_tlv_def first len1 and_low_bits(2)
    using two fits tag(2) by simp
  then show ?thesis using content by (simp add: tlv_content_def encode_tlv_def)
qed

section \<open>Signatures of fixed width\<close>

lemma big_endian_Cons: "big_endian (x # xs) = ord_of x * 256 ^ length xs + big_endian xs"
proof (induction xs rule: rev_induct)
  case (snoc y ys)
  have "big_endian (x # ys @ [y]) = big_endian (x # ys) * 256 + ord_of y"
    using big_endian_snoc [of "x # ys" y] by simp
  then show ?case using snoc by (simp add: big_endian_snoc algebra_simps)
qed (simp add: big_endian_def)

lemma big_endian_zeros: "big_endian (replicate n (char_of (0 :: nat)) @ v) = big_endian v"
  by (induction n) (simp_all add: big_endian_Cons)

lemma strip_leading_zeros_value: "big_endian (strip_leading_zeros v) = big_endian v"
  by (induction v rule: strip_leading_zeros.induct) (simp_all add: big_endian_Cons)

lemma strip_leading_zeros_shape: "v \<noteq> [] \<Longrightarrow> strip_leading_zeros v \<noteq> [] \<and> (length (strip_leading_zeros v) = 1 \<or> ord_of (hd (strip_leading_zeros v)) \<noteq> 0)"
  by (induction v rule: strip_leading_zeros.induct) auto

text \<open>A number that fits a field is placed there with its value.\<close>

lemma place_fits:
  assumes "v \<noteq> []" "big_endian v < 256 ^ width" "0 < width"
  obtains p where "place width v = Some p" "length p = width" "big_endian p = big_endian v"
proof -
  let ?s = "strip_leading_zeros v"
  have s: "?s \<noteq> []" "length ?s = 1 \<or> ord_of (hd ?s) \<noteq> 0" using strip_leading_zeros_shape [OF assms(1)] by blast+
  have "length ?s \<le> width"
  proof (rule ccontr)
    assume long: "\<not> length ?s \<le> width"
    then have "ord_of (hd ?s) \<noteq> 0" using s(2) assms(3) by linarith
    moreover obtain x xs where x: "?s = x # xs" using s(1) by (cases ?s) auto
    ultimately have "1 \<le> ord_of x" by simp
    then have "1 * 256 ^ length xs \<le> ord_of x * 256 ^ length xs" by (rule mult_le_mono1)
    then have "256 ^ length xs \<le> big_endian ?s" unfolding x big_endian_Cons by linarith
    moreover have "(256::nat) ^ width \<le> 256 ^ length xs" using long x by (intro power_increasing) simp_all
    ultimately show False using assms(2) by (simp add: strip_leading_zeros_value)
  qed
  then show thesis
    using s(1) that [of "replicate (width - length ?s) (char_of (0::nat)) @ ?s"]
    by (simp add: place_def Let_def big_endian_zeros strip_leading_zeros_value)
qed

lemma encode_tlv_length: "length (encode_tlv tag c) \<le> length c + 2 + length (be_bytes (length c))"
  by (simp add: encode_tlv_def encode_length_def)

lemma subarray_length: "b \<le> length buf \<Longrightarrow> length (subarray buf a b) = b - a"
  by (auto simp: subarray_def)

lemma expect_encoded:
  assumes "tag \<in> {2, 48}" "length content < 256 ^ 4"
    and buf: "buf = pre @ encode_tlv tag content @ post" and "off = length pre"
  obtains t where "expect_tlv tag buf off = Some t" "tl_end t = off + length (encode_tlv tag content)"
    "tl_content_end t = tl_end t" "tlv_content buf t = content" "tl_content_start t = tl_end t - length content"
proof -
  have "tag < 256" "tag mod 32 \<noteq> 31" using assms(1) by auto
  from read_encoded [OF this assms(2), of pre post]
  obtain t where t: "read_tlv buf (length pre) = Some t" "tl_tag t = tag"
      "tl_end t = length (pre @ encode_tlv tag content)" "tl_content_end t = tl_end t" "tlv_content buf t = content"
    unfolding buf by blast
  have "tl_content_start t \<le> tl_content_end t" "tl_end t \<le> length buf"
    using read_tlv_inside [OF t(1)] by simp_all
  moreover have "length (tlv_content buf t) = length content" using t(5) by simp
  ultimately have "tl_content_start t = tl_end t - length content"
    using t(4) subarray_length [of "tl_content_end t" buf "tl_content_start t"] by (simp add: tlv_content_def)
  then show thesis using that [of t] t assms(4) by (simp add: expect_tlv_def)
qed

text \<open>C35. A DER signature becomes the fixed-width one of the same numbers.  For any two numbers that
  fit the curve's coordinates, written as DER integers with any number of leading zeros, the canonical
  encoding of their sequence converts to twice the width, with the first number in the first half and
  the second in the second.\<close>

theorem signature_conversion_exact:
  assumes "r \<noteq> []" "s \<noteq> []" "big_endian r < 256 ^ width" "big_endian s < 256 ^ width" "0 < width"
    and "length r < 60000" "length s < 60000"
  shows "\<exists>raw. der_ecdsa_to_p1363 (encode_tlv TAG_SEQUENCE (encode_tlv TAG_INTEGER r @ encode_tlv TAG_INTEGER s)) width = Some raw
    \<and> length raw = 2 * width \<and> big_endian (take width raw) = big_endian r \<and> big_endian (drop width raw) = big_endian s"
proof -
  let ?r = "encode_tlv TAG_INTEGER r" and ?s = "encode_tlv TAG_INTEGER s"
  let ?sig = "encode_tlv TAG_SEQUENCE (?r @ ?s)"
  have "length (be_bytes (length r)) \<le> 2" "length (be_bytes (length s)) \<le> 2"
    using be_bytes_length [of _ 2] assms(6,7) by auto
  then have small: "length (?r @ ?s) < 256 ^ 4"
    using encode_tlv_length [of TAG_INTEGER r] encode_tlv_length [of TAG_INTEGER s] assms(6,7) by simp
  obtain seq where seq: "expect_tlv TAG_SEQUENCE ?sig 0 = Some seq" "tl_end seq = length ?sig"
      "tl_content_start seq = length ?sig - length (?r @ ?s)" "tl_content_end seq = tl_end seq"
    by (rule expect_encoded [of TAG_SEQUENCE "?r @ ?s" ?sig "[]" "[]" 0]) (use small in \<open>simp_all add: TAG_SEQUENCE_def\<close>)
  define pre where "pre = char_of TAG_SEQUENCE # encode_length (length (?r @ ?s))"
  have sig: "?sig = pre @ ?r @ ?s" by (simp add: pre_def encode_tlv_def [of TAG_SEQUENCE])
  have start: "tl_content_start seq = length pre" unfolding seq(3) sig by simp
  obtain tr where tr: "expect_tlv TAG_INTEGER ?sig (length pre) = Some tr" "tl_end tr = length pre + length ?r"
      "tlv_content ?sig tr = r"
    by (rule expect_encoded [OF _ _ sig refl]) (use assms(6) in \<open>simp_all add: TAG_INTEGER_def\<close>)
  have sig2: "?sig = (pre @ ?r) @ ?s @ []" by (simp add: sig)
  obtain ts where ts: "expect_tlv TAG_INTEGER ?sig (length (pre @ ?r)) = Some ts"
      "tl_end ts = length (pre @ ?r) + length ?s" "tlv_content ?sig ts = s"
    by (rule expect_encoded [OF _ _ sig2 refl]) (use assms(7) in \<open>simp_all add: TAG_INTEGER_def\<close>)
  have ends: "tl_end tr = length (pre @ ?r)" "tl_end ts = length ?sig" using tr(2) ts(2) sig by simp_all
  obtain hi lo where "place width r = Some hi" "length hi = width" "big_endian hi = big_endian r"
      "place width s = Some lo" "length lo = width" "big_endian lo = big_endian s"
    using place_fits [OF assms(1,3,5)] place_fits [OF assms(2,4,5)] by metis
  then show ?thesis
    using seq(1,2,4) start tr(1,3) ts(1,3) ends by (simp add: der_ecdsa_to_p1363_def)
qed

theorem signature_conversion_exact_witness:
  "\<exists>raw. der_ecdsa_to_p1363 (encode_tlv TAG_SEQUENCE (encode_tlv TAG_INTEGER [CHR 0x00, CHR 0xFF]
       @ encode_tlv TAG_INTEGER [CHR 0x07])) 32 = Some raw
    \<and> length raw = 64 \<and> big_endian (take 32 raw) = 255 \<and> big_endian (drop 32 raw) = 7"
proof -
  have "big_endian [CHR 0x00, CHR 0xFF] = 255" "big_endian [CHR 0x07] = 7"
    by (simp_all add: big_endian_def ord_of_def)
  then show ?thesis
    using signature_conversion_exact [of "[CHR 0x00, CHR 0xFF]" "[CHR 0x07]" 32] by simp
qed

section \<open>The ranges of a certificate\<close>

text \<open>A length in more bytes than it needs is read as well, which DER forbids.\<close>

lemma non_minimal_length_read: "read_tlv [CHR 0x30, CHR 0x81, CHR 0x00] 0 = Some \<lparr>tl_tag = 48, tl_start = 0,
    tl_content_start = 3, tl_content_end = 3, tl_end = 3\<rparr>"
  by (simp add: read_tlv_def read_length_def subarray_def big_endian_def ord_of_def Let_def)

lemma subarray_join:
  assumes "a \<le> b" "b \<le> c"
  shows "subarray buf a b @ subarray buf b c = subarray buf a c"
proof -
  have "c - a = (b - a) + (c - b)" "drop (b - a) (drop a buf) = drop b buf" using assms by simp_all
  then show ?thesis unfolding subarray_def by (simp only: take_add)
qed

lemma subarray_all: "subarray buf 0 (length buf) = buf"
  by (simp add: subarray_def)

lemmas expect_inside = read_tlv_inside [OF expect_tlvD [THEN conjunct1]]

text \<open>The fields the parser reads, in their order.\<close>

lemma parse_fields:
  assumes "parse_certificate der = Some c"
  obtains cert tbs sig_alg issuer validity subject spki and inner :: tlv where
    "expect_tlv TAG_SEQUENCE der 0 = Some cert" "tl_end cert = length der"
    "expect_tlv TAG_SEQUENCE der (tl_content_start cert) = Some tbs" "ce_tbs c = tlv_bytes der tbs"
    "expect_tlv TAG_SEQUENCE der (tl_end tbs) = Some sig_alg"
    "signature_bits der cert (tl_end sig_alg) = Some (ce_signature c)"
    "expect_tlv TAG_SEQUENCE der (tl_end inner) = Some issuer" "ce_issuer c = tlv_bytes der issuer"
    "expect_tlv TAG_SEQUENCE der (tl_end issuer) = Some validity"
    "expect_tlv TAG_SEQUENCE der (tl_end validity) = Some subject" "ce_subject c = tlv_bytes der subject"
    "expect_tlv TAG_SEQUENCE der (tl_end subject) = Some spki" "ce_spki c = tlv_bytes der spki" "ce_der c = der"
  using assms unfolding parse_certificate_def
  by (clarsimp simp: bind_eq_Some_conv split: if_splits prod.splits)

lemma adjacent_parts:
  assumes "expect_tlv t1 der i = Some x" "expect_tlv t2 der (tl_end x) = Some y" "expect_tlv t3 der (tl_end y) = Some z"
  shows "\<exists>a d. der = a @ tlv_bytes der x @ tlv_bytes der y @ tlv_bytes der z @ d"
proof -
  note i = expect_inside [OF assms(1)] expect_inside [OF assms(2)] expect_inside [OF assms(3)]
  have "der = subarray der 0 (tl_start x) @ subarray der (tl_start x) (tl_end x) @ subarray der (tl_end x) (tl_end y)
      @ subarray der (tl_end y) (tl_end z) @ subarray der (tl_end z) (length der)"
    using i by (simp add: subarray_join subarray_all)
  then show ?thesis using i by metis
qed

text \<open>C36. A certificate that is accepted was read from its own bytes and from all of them: the part a
  signature covers, the algorithm and the signature follow one another to the last byte, and the
  issuer, the subject and the key are complete encodings found in it in this order.\<close>

theorem parsed_certificate_is_its_bytes:
  assumes "parse_certificate der = Some c"
  shows "ce_der c = der \<and> ce_signature c \<noteq> []
    \<and> (\<exists>head alg bits. der = head @ ce_tbs c @ alg @ bits @ ce_signature c)
    \<and> (\<exists>a validity d. der = a @ ce_issuer c @ validity @ ce_subject c @ d)
    \<and> (\<exists>a d. der = a @ ce_subject c @ ce_spki c @ d)"
proof -
  obtain cert tbs sig_alg issuer validity subject spki and inner :: tlv where
    cert: "expect_tlv TAG_SEQUENCE der 0 = Some cert" "tl_end cert = length der" and
    tbs: "expect_tlv TAG_SEQUENCE der (tl_content_start cert) = Some tbs" "ce_tbs c = tlv_bytes der tbs" and
    alg: "expect_tlv TAG_SEQUENCE der (tl_end tbs) = Some sig_alg" and
    bits: "signature_bits der cert (tl_end sig_alg) = Some (ce_signature c)" and
    issuer: "expect_tlv TAG_SEQUENCE der (tl_end inner) = Some issuer" "ce_issuer c = tlv_bytes der issuer" and
    validity: "expect_tlv TAG_SEQUENCE der (tl_end issuer) = Some validity" and
    subject: "expect_tlv TAG_SEQUENCE der (tl_end validity) = Some subject" "ce_subject c = tlv_bytes der subject" and
    spki: "expect_tlv TAG_SEQUENCE der (tl_end subject) = Some spki" "ce_spki c = tlv_bytes der spki" "ce_der c = der"
    by (rule parse_fields [OF assms])
  obtain v where v: "expect_tlv TAG_BIT_STRING der (tl_end sig_alg) = Some v" "tl_end v = tl_content_end cert"
      "2 \<le> tl_content_end v - tl_content_start v" "ce_signature c = subarray der (tl_content_start v + 1) (tl_content_end v)"
    using bits by (auto simp: signature_bits_def split: option.splits if_splits)
  note i = expect_inside [OF cert(1)] expect_inside [OF tbs(1)] expect_inside [OF alg] expect_inside [OF v(1)]
  have "der = subarray der 0 (tl_start tbs) @ subarray der (tl_start tbs) (tl_end tbs) @ subarray der (tl_end tbs) (tl_end sig_alg)
      @ subarray der (tl_end sig_alg) (tl_content_start v + 1) @ subarray der (tl_content_start v + 1) (tl_content_end v)"
    using i v(2,3) cert(2) by (simp add: subarray_join subarray_all)
  then have "\<exists>head alg bits. der = head @ ce_tbs c @ alg @ bits @ ce_signature c"
    unfolding tbs(2) v(4) by blast
  moreover have "ce_signature c \<noteq> []"
    using v i subarray_length [of "tl_content_end v" der "tl_content_start v + 1"] by fastforce
  moreover have "\<exists>a validity d. der = a @ ce_issuer c @ validity @ ce_subject c @ d"
    using adjacent_parts [OF issuer(1) validity subject(1)] unfolding issuer(2) subject(2) by blast
  moreover have "\<exists>a d. der = a @ ce_subject c @ ce_spki c @ d"
    using adjacent_parts [OF validity subject(1) spki(1)] unfolding subject(2) spki(2) by (metis append.assoc)
  ultimately show ?thesis using spki(3) by blast
qed

text \<open>A small certificate of a P-256 authority, valid from 1950 to 2049.\<close>

definition sample_certificate :: string where
  "sample_certificate =
     [CHR 0x30, CHR 0x6E, CHR 0x30, CHR 0x5C, CHR 0x02, CHR 0x01, CHR 0x01, CHR 0x30, CHR 0x0A,
      CHR 0x06, CHR 0x08, CHR 0x2A, CHR 0x86, CHR 0x48, CHR 0xCE, CHR 0x3D, CHR 0x04, CHR 0x03,
      CHR 0x02, CHR 0x30, CHR 0x00, CHR 0x30, CHR 0x1E, CHR 0x17, CHR 0x0D, CHR 0x35, CHR 0x30,
      CHR 0x30, CHR 0x31, CHR 0x30, CHR 0x31, CHR 0x30, CHR 0x30, CHR 0x30, CHR 0x30, CHR 0x30,
      CHR 0x30, CHR 0x5A, CHR 0x17, CHR 0x0D, CHR 0x34, CHR 0x39, CHR 0x31, CHR 0x32, CHR 0x33,
      CHR 0x31, CHR 0x32, CHR 0x33, CHR 0x35, CHR 0x39, CHR 0x35, CHR 0x39, CHR 0x5A, CHR 0x30,
      CHR 0x00, CHR 0x30, CHR 0x15, CHR 0x30, CHR 0x13, CHR 0x06, CHR 0x07, CHR 0x2A, CHR 0x86,
      CHR 0x48, CHR 0xCE, CHR 0x3D, CHR 0x02, CHR 0x01, CHR 0x06, CHR 0x08, CHR 0x2A, CHR 0x86,
      CHR 0x48, CHR 0xCE, CHR 0x3D, CHR 0x03, CHR 0x01, CHR 0x07, CHR 0xA3, CHR 0x10, CHR 0x30,
      CHR 0x0E, CHR 0x30, CHR 0x0C, CHR 0x06, CHR 0x03, CHR 0x55, CHR 0x1D, CHR 0x13, CHR 0x04,
      CHR 0x05, CHR 0x30, CHR 0x03, CHR 0x01, CHR 0x01, CHR 0xFF, CHR 0x30, CHR 0x0A, CHR 0x06,
      CHR 0x08, CHR 0x2A, CHR 0x86, CHR 0x48, CHR 0xCE, CHR 0x3D, CHR 0x04, CHR 0x03, CHR 0x02,
      CHR 0x03, CHR 0x02, CHR 0x00, CHR 0xAA]"

lemma sample_certificate_parses:
  "map_option (\<lambda>c. (ce_is_ca c, ce_curve c, ce_not_before c, ce_not_after c, ce_signature c))
     (parse_certificate sample_certificate) = Some (True, P256, - 631152000000, 2524607999000, [CHR 0xAA])"
  by code_simp

theorem parsed_certificate_is_its_bytes_witness:
  "\<exists>c. parse_certificate sample_certificate = Some c \<and> ce_der c = sample_certificate
     \<and> (\<exists>head alg bits. sample_certificate = head @ ce_tbs c @ alg @ bits @ [CHR 0xAA])"
proof -
  obtain c where c: "parse_certificate sample_certificate = Some c" "ce_signature c = [CHR 0xAA]"
    using sample_certificate_parses by (cases "parse_certificate sample_certificate") auto
  then show ?thesis using parsed_certificate_is_its_bytes [OF c(1)] by metis
qed

end
