(* ===== verification/GooglePlay.thy ===== *)
theory GooglePlay
  imports Upstream Nonchat Stringify
begin

text \<open>
  src/src/google-play.ts: the verification of a Play purchase with a service account.  No route calls
  it at this commit.  The RSA signature and the network are parameters: signing may throw, a fetch
  may throw or answer with a status and a text.  Both are functions of what they are given; the
  requests made are returned in their order.
\<close>

record service_account =
  sa_client_email :: string
  sa_private_key  :: string
  sa_token_uri    :: "js"

record play_request =
  pq_method  :: string
  pq_url     :: string
  pq_headers :: "(string \<times> string) list"
  pq_form    :: "(string \<times> string) list"

datatype play_answer = PlayThrows | PlayAnswer nat string

record play_platform =
  pf_sign  :: "string \<Rightarrow> string \<Rightarrow> string option"
  pf_fetch :: "play_request \<Rightarrow> play_answer"
  pf_now   :: int

definition includes_text :: "string \<Rightarrow> string \<Rightarrow> bool" where
  "includes_text needle s = list_ex (\<lambda>i. starts_with needle (drop i s)) [0..<Suc (length s)]"

definition parse_service_account :: "string \<Rightarrow> service_account option" where
  "parse_service_account raw =
     (case json_parse raw of
        None \<Rightarrow> None
      | Some j \<Rightarrow>
          (case (js_get j ''client_email'', js_get j ''private_key'') of
             (JStr email, JStr key) \<Rightarrow>
               if CHR ''@'' \<notin> set email \<or> length key < 80 then None
               else Some \<lparr>sa_client_email = email, sa_private_key = key, sa_token_uri = js_get j ''token_uri''\<rparr>
           | _ \<Rightarrow> None))"

text \<open>\<open>replace(/<marker>[^-]+-----/g, "")\<close>: what follows a match at the front, and its removal
  everywhere.\<close>

definition after_marker :: "string \<Rightarrow> string \<Rightarrow> string option" where
  "after_marker marker s =
     (let r = drop (length marker) s; name = takeWhile (\<lambda>c. c \<noteq> CHR ''-'') r; r2 = drop (length name) r in
      if starts_with marker s \<and> name \<noteq> [] \<and> starts_with ''-----'' r2 then Some (drop 5 r2) else None)"

function remove_markers :: "string \<Rightarrow> string \<Rightarrow> string" where
  "remove_markers marker [] = []"
| "remove_markers marker (c # s) =
     (case after_marker marker (c # s) of
        Some rest \<Rightarrow> remove_markers marker rest
      | None \<Rightarrow> c # remove_markers marker s)"
  by pat_completeness auto
termination
  by (relation "measure (\<lambda>(m, s). length s)")
    (auto simp: after_marker_def starts_with_def Let_def split: if_splits dest: arg_cong [of _ _ length])

definition pem_to_bytes :: "string \<Rightarrow> string option" where
  "pem_to_bytes pem =
     atob_text (List.filter (\<lambda>c. \<not> is_js_space c)
       (remove_markers ''-----END '' (remove_markers ''-----BEGIN '' pem)))"

definition ANDROID_SCOPE :: string where
  "ANDROID_SCOPE = ''https://www.googleapis.com/auth/androidpublisher''"

definition DEFAULT_TOKEN_URI :: string where
  "DEFAULT_TOKEN_URI = ''https://oauth2.googleapis.com/token''"

text \<open>\<open>sa.token_uri ?? default\<close>.\<close>

definition token_uri :: "service_account \<Rightarrow> js" where
  "token_uri sa = (case sa_token_uri sa of JUndef \<Rightarrow> JStr DEFAULT_TOKEN_URI | JNull \<Rightarrow> JStr DEFAULT_TOKEN_URI | v \<Rightarrow> v)"

definition signing_input :: "service_account \<Rightarrow> int \<Rightarrow> string" where
  "signing_input sa t_sec =
     base64url (utf8_encode (js_stringify (JObj [(''alg'', JStr ''RS256''), (''typ'', JStr ''JWT'')]))) @ ''.'' @
     base64url (utf8_encode (js_stringify (JObj [(''iss'', JStr (sa_client_email sa)), (''scope'', JStr ANDROID_SCOPE),
       (''aud'', token_uri sa), (''iat'', JNum (NInt t_sec)), (''exp'', JNum (NInt (t_sec + 3600)))])))"

text \<open>The access token; \<open>None\<close> is an exception, \<open>Some None\<close> a null.  A token URI that is not a text is
  an exception of the fetch.\<close>

definition service_account_access_token ::
  "play_platform \<Rightarrow> service_account \<Rightarrow> play_request list \<times> string option option" where
  "service_account_access_token pf sa =
     (let input = signing_input sa (pf_now pf div 1000) in
      case Option.bind (pem_to_bytes (sa_private_key sa)) (\<lambda>key. pf_sign pf key (utf8_encode input)) of
        None \<Rightarrow> ([], None)
      | Some sig \<Rightarrow>
     (case token_uri sa of
        JStr uri \<Rightarrow>
          (let q = \<lparr>pq_method = ''POST'', pq_url = uri,
                     pq_headers = [(''content-type'', ''application/x-www-form-urlencoded'')],
                     pq_form = [(''grant_type'', ''urn:ietf:params:oauth:grant-type:jwt-bearer''),
                       (''assertion'', input @ ''.'' @ base64url sig)]\<rparr>
           in case pf_fetch pf q of
                PlayThrows \<Rightarrow> ([q], None)
              | PlayAnswer status body \<Rightarrow>
                  if \<not> (200 \<le> status \<and> status \<le> 299) then ([q], Some None)
                  else case json_parse (utf8_decode body) of
                         None \<Rightarrow> ([q], None)
                       | Some v \<Rightarrow>
                           if v = JNull then ([q], None)
                           else ([q], Some (case js_get v ''access_token'' of JStr s \<Rightarrow> Some s | _ \<Rightarrow> None)))
      | _ \<Rightarrow> ([], None)))"

record play_purchase =
  pp_order_id    :: "string option"
  pp_state       :: jsnum
  pp_consumption :: "jsnum option"
  pp_token       :: string
  pp_product_id  :: string
  pp_package     :: string

datatype play_refusal =
    BadServiceAccount | TokenFailed | NoAccessToken | PublisherRefused nat | PublisherNotJson | NotPurchased jsnum

definition purchase_url :: "string \<Rightarrow> string \<Rightarrow> string \<Rightarrow> string" where
  "purchase_url package product token =
     ''https://androidpublisher.googleapis.com/androidpublisher/v3/applications/'' @ encode_uri_component package @
     ''/purchases/products/'' @ encode_uri_component product @ ''/tokens/'' @ encode_uri_component token"

definition read_purchase :: "string \<Rightarrow> string \<Rightarrow> string \<Rightarrow> js \<Rightarrow> play_refusal + play_purchase" where
  "read_purchase package product token body =
     (let state = (case js_get body ''purchaseState'' of JNum n \<Rightarrow> n | _ \<Rightarrow> NInt (- 1)) in
      if state \<noteq> NInt 0 then Inl (NotPurchased state)
      else Inr \<lparr>pp_order_id = (case js_get body ''orderId'' of JStr s \<Rightarrow> if s = [] then None else Some s | _ \<Rightarrow> None),
                pp_state = state,
                pp_consumption = (case js_get body ''consumptionState'' of JNum n \<Rightarrow> Some n | _ \<Rightarrow> None),
                pp_token = token, pp_product_id = product, pp_package = package\<rparr>)"

text \<open>The whole verification; \<open>None\<close> is an exception, which the second fetch and a null body raise.\<close>

definition verify_google_play_purchase ::
  "play_platform \<Rightarrow> string \<Rightarrow> string \<Rightarrow> string \<Rightarrow> string
     \<Rightarrow> play_request list \<times> (play_refusal + play_purchase) option" where
  "verify_google_play_purchase pf account package product token =
     (case parse_service_account account of
        None \<Rightarrow> ([], Some (Inl BadServiceAccount))
      | Some sa \<Rightarrow>
     (case service_account_access_token pf sa of
        (qs, None) \<Rightarrow> (qs, Some (Inl TokenFailed))
      | (qs, Some None) \<Rightarrow> (qs, Some (Inl NoAccessToken))
      | (qs, Some (Some [])) \<Rightarrow> (qs, Some (Inl NoAccessToken))
      | (qs, Some (Some bearer)) \<Rightarrow>
          (let q = \<lparr>pq_method = ''GET'', pq_url = purchase_url package product token,
                     pq_headers = [(''authorization'', ''Bearer '' @ bearer), (''accept'', ''application/json'')],
                     pq_form = []\<rparr>
           in (qs @ [q],
               case pf_fetch pf q of
                 PlayThrows \<Rightarrow> None
               | PlayAnswer status body \<Rightarrow>
                   if \<not> (200 \<le> status \<and> status \<le> 299) then Some (Inl (PublisherRefused status))
                   else case json_parse (utf8_decode body) of
                          None \<Rightarrow> Some (Inl PublisherNotJson)
                        | Some v \<Rightarrow>
                            if v = JNull then None else Some (read_purchase package product token v)))))"

definition has_google_play_credentials :: "env \<Rightarrow> bool" where
  "has_google_play_credentials e =
     (let raw = env_text (env_play_account e) in 80 < length raw \<and> includes_text ''private_key'' raw)"

text \<open>A verified purchase is one the publisher answered for, under a token minted for this account.\<close>

lemma read_purchase_Inr:
  "read_purchase package product token v = Inr p \<Longrightarrow> js_get v ''purchaseState'' = JNum (NInt 0)
    \<and> pp_token p = token \<and> pp_product_id p = product \<and> pp_package p = package"
  by (cases "js_get v ''purchaseState''") (auto simp: read_purchase_def Let_def split: if_splits)

lemma verified_purchase_was_answered:
  assumes "verify_google_play_purchase pf account package product token = (qs, Some (Inr p))"
  shows "\<exists>pre q status body v. qs = pre @ [q] \<and> pq_url q = purchase_url package product token
    \<and> pf_fetch pf q = PlayAnswer status body \<and> 200 \<le> status \<and> status \<le> 299
    \<and> json_parse (utf8_decode body) = Some v \<and> js_get v ''purchaseState'' = JNum (NInt 0)
    \<and> pp_token p = token \<and> pp_product_id p = product \<and> pp_package p = package"
  using assms
  by (auto simp: verify_google_play_purchase_def Let_def
      split: option.splits prod.splits list.splits play_answer.splits if_splits dest!: read_purchase_Inr)

end
