(* ===== verification/CatalogRefresh.thy ===== *)
theory CatalogRefresh
  imports Operator Upstream
begin

text \<open>
  src/src/aig-models.ts, src/src/catalog-refresh.ts and src/src/routes/catalog-refresh.ts: the
  gateway's list of model rates, its exact conversion to micro-USD per million tokens, and the
  operator's refresh of the price overrides from it.  The platform's fetch is a parameter, a function
  from the request to a reply or a thrown error; what an error says is left out.
\<close>

section \<open>The gateway's rates (aig-models.ts)\<close>

record gateway_model_rate =
  gm_id       :: string
  gm_cost_in  :: jsnum
  gm_cost_out :: jsnum
  gm_owned_by :: "string option"

record gateway_models_page =
  gp_models    :: "gateway_model_rate list"
  gp_malformed :: nat

text \<open>\<open>typeof v === 'number' && Number.isFinite(v) && v >= 0\<close>, with the number.\<close>

definition cost_field :: "js \<Rightarrow> jsnum option" where
  "cost_field v = (case v of
     JNum n \<Rightarrow> if is_finite_num n \<and> 0 \<le> rat_of_num n then Some n else None | _ \<Rightarrow> None)"

definition parse_gateway_model_rate :: "js \<Rightarrow> gateway_model_rate option" where
  "parse_gateway_model_rate raw =
     (if \<not> typeof_object raw then None
      else (let i = (case js_get raw ''id'' of JStr s \<Rightarrow> js_trim s | _ \<Rightarrow> []) in
        if i = [] \<or> 256 < length i then None
        else case (cost_field (js_get raw ''cost_in''), cost_field (js_get raw ''cost_out'')) of
          (Some cin, Some cout) \<Rightarrow>
            Some \<lparr>gm_id = i, gm_cost_in = cin, gm_cost_out = cout,
                  gm_owned_by = string_or_null (js_get raw ''owned_by'')\<rparr>
        | _ \<Rightarrow> None))"

definition micro_usd_per_mtok_from_usd_per_token :: "jsnum \<Rightarrow> int option" where
  "micro_usd_per_mtok_from_usd_per_token usd =
     (if \<not> is_finite_num usd \<or> rat_of_num usd < 0 then None
      else if rat_of_num usd = 0 then Some 0
      else case decimal_parts (js_num_string usd) of
        None \<Rightarrow> None
      | Some (digits, e) \<Rightarrow> within_safe_range (scale_up digits (e + 12)))"

record compat_request =
  cq_url   :: string
  cq_token :: string

record model_source_deps =
  md_account_id :: string
  md_gateway_id :: string
  md_token      :: string
  md_fetch      :: "compat_request \<Rightarrow> exn + http_reply"

definition compat_models_request :: "model_source_deps \<Rightarrow> compat_request" where
  "compat_models_request deps =
     \<lparr>cq_url = ''https://gateway.ai.cloudflare.com/v1/'' @ encode_uri_component (js_trim (md_account_id deps))
        @ ''/'' @ encode_uri_component (js_trim (md_gateway_id deps)) @ ''/compat/models'',
      cq_token = ''Bearer '' @ md_token deps\<rparr>"

fun collect_rates :: "js list \<Rightarrow> gateway_model_rate list \<times> nat" where
  "collect_rates [] = ([], 0)"
| "collect_rates (row # rows) =
     (let (models, bad) = collect_rates rows in
      case parse_gateway_model_rate row of
        Some m \<Rightarrow> (m # models, bad)
      | None \<Rightarrow> (models, bad + 1))"

definition list_rates :: "model_source_deps \<Rightarrow> exn + gateway_models_page" where
  "list_rates deps =
     (case md_fetch deps (compat_models_request deps) of
        Inl e \<Rightarrow> Inl e
      | Inr reply \<Rightarrow>
          if \<not> (200 \<le> hr_status reply \<and> hr_status reply \<le> 299) then Inl FeedError
          else case hr_json reply of
            None \<Rightarrow> Inl FeedError
          | Some body \<Rightarrow>
              if \<not> typeof_object body then Inl FeedError
              else case js_get body ''data'' of
                JArr rows \<Rightarrow> (let (models, bad) = collect_rates rows
                             in Inr \<lparr>gp_models = models, gp_malformed = bad\<rparr>)
              | _ \<Rightarrow> Inl FeedError)"

section \<open>Matching a catalog entry (catalog-refresh.ts)\<close>

definition GATEWAY_COMPAT_NOTE_PREFIX :: string where
  "GATEWAY_COMPAT_NOTE_PREFIX = ''gateway-compat''"

definition gateway_id_candidates :: "string \<Rightarrow> string list" where
  "gateway_id_candidates i =
     [i]
     @ (if starts_with ''@cf/'' i then [''workers-ai/'' @ i] else [])
     @ (if starts_with ''xai/'' i then [''grok/'' @ drop 4 i, ''xai/xai/'' @ drop 4 i] else [])
     @ (if starts_with ''google/'' i then [''google-ai-studio/'' @ drop 7 i] else [])"

text \<open>The map of the rates by id, in which the first row of an id wins.\<close>

definition rates_by_id :: "gateway_model_rate list \<Rightarrow> string \<Rightarrow> gateway_model_rate option" where
  "rates_by_id ms = map_of (List.map (\<lambda>m. (gm_id m, m)) ms)"

fun first_match :: "string list \<Rightarrow> (string \<Rightarrow> gateway_model_rate option) \<Rightarrow> gateway_model_rate option" where
  "first_match [] rates = None"
| "first_match (c # cs) rates = (case rates c of Some m \<Rightarrow> Some m | None \<Rightarrow> first_match cs rates)"

definition match_gateway_rate ::
  "string \<Rightarrow> (string \<Rightarrow> gateway_model_rate option) \<Rightarrow> gateway_model_rate option" where
  "match_gateway_rate i rates = first_match (gateway_id_candidates i) rates"

definition is_operator_protected_note :: "string option \<Rightarrow> bool" where
  "is_operator_protected_note v =
     (case v of None \<Rightarrow> False
      | Some s \<Rightarrow> js_trim s \<noteq> [] \<and> \<not> starts_with GATEWAY_COMPAT_NOTE_PREFIX (js_trim s))"

definition chat_catalog_entries :: "catalog_entry list \<Rightarrow> catalog_entry list" where
  "chat_catalog_entries catalog = List.filter (\<lambda>e. ce_modality e = Chat) catalog"

section \<open>One refresh\<close>

datatype refresh_action =
  WouldUpdate | Updated | Unchanged | SkippedOperator | Unmatched | UnusableRate

record refresh_row =
  rf_model_id     :: string
  rf_gateway_id   :: "string option"
  rf_action       :: refresh_action
  rf_catalog_in   :: "jsnum option"
  rf_catalog_out  :: "jsnum option"
  rf_gateway_in   :: "int option"
  rf_gateway_out  :: "int option"
  rf_previous_in  :: "jsnum option"
  rf_previous_out :: "jsnum option"

record refresh_args =
  fa_source  :: "exn + gateway_models_page"
  fa_dry_run :: bool
  fa_force   :: bool
  fa_now     :: int

record refresh_state =
  fs_existing :: "string \<Rightarrow> model_price_row option"
  fs_rows     :: "refresh_row list"
  fs_would    :: nat
  fs_updated  :: nat
  fs_same     :: nat
  fs_skipped  :: nat
  fs_unmatched :: nat
  fs_unusable :: nat

record refresh_report =
  fr_dry_run   :: bool
  fr_force     :: bool
  fr_models    :: nat
  fr_malformed :: nat
  fr_chat      :: nat
  fr_end       :: refresh_state

definition priced_at_of :: "int \<Rightarrow> string" where
  "priced_at_of t = take 10 (to_iso_string t)"

definition refresh_note :: "int \<Rightarrow> string" where
  "refresh_note t = GATEWAY_COMPAT_NOTE_PREFIX @ '':'' @ priced_at_of t"

text \<open>The row reported for an entry: what the chain of guards decides, in the order of the loop's
  body.\<close>

definition classify_entry ::
  "refresh_args \<Rightarrow> (string \<Rightarrow> gateway_model_rate option) \<Rightarrow> catalog_entry \<Rightarrow> model_price_row option \<Rightarrow> refresh_row" where
  "classify_entry args rates entry prev =
     (let catalog_in = map_option tp_input (ce_price entry);
          catalog_out = map_option tp_output (ce_price entry);
          row = (\<lambda>action gw gin gout.
            \<lparr>rf_model_id = ce_id entry, rf_gateway_id = gw, rf_action = action,
             rf_catalog_in = catalog_in, rf_catalog_out = catalog_out,
             rf_gateway_in = gin, rf_gateway_out = gout,
             rf_previous_in = map_option mp_input prev, rf_previous_out = map_option mp_output prev\<rparr>)
      in case match_gateway_rate (ce_id entry) rates of
        None \<Rightarrow> row Unmatched None None None
      | Some gw \<Rightarrow>
          (let gin = micro_usd_per_mtok_from_usd_per_token (gm_cost_in gw);
               gout = micro_usd_per_mtok_from_usd_per_token (gm_cost_out gw)
           in case (gin, gout) of
             (Some i, Some o') \<Rightarrow>
               if (case prev of Some p \<Rightarrow> is_operator_protected_note (mp_note p) | None \<Rightarrow> False) \<and> \<not> fa_force args
                 then row SkippedOperator (Some (gm_id gw)) gin gout
               else if (case prev of
                    Some p \<Rightarrow> mp_input p = NInt i \<and> mp_output p = NInt o'
                  | None \<Rightarrow> catalog_in = Some (NInt i) \<and> catalog_out = Some (NInt o'))
                 then row Unchanged (Some (gm_id gw)) gin gout
               else if fa_dry_run args then row WouldUpdate (Some (gm_id gw)) gin gout
               else row Updated (Some (gm_id gw)) gin gout
           | _ \<Rightarrow> row UnusableRate (Some (gm_id gw)) gin gout))"

fun count_action :: "refresh_action \<Rightarrow> refresh_state \<Rightarrow> refresh_state" where
  "count_action WouldUpdate s = s\<lparr>fs_would := fs_would s + 1\<rparr>"
| "count_action Updated s = s\<lparr>fs_updated := fs_updated s + 1\<rparr>"
| "count_action Unchanged s = s\<lparr>fs_same := fs_same s + 1\<rparr>"
| "count_action SkippedOperator s = s\<lparr>fs_skipped := fs_skipped s + 1\<rparr>"
| "count_action Unmatched s = s\<lparr>fs_unmatched := fs_unmatched s + 1\<rparr>"
| "count_action UnusableRate s = s\<lparr>fs_unusable := fs_unusable s + 1\<rparr>"

definition note_row :: "refresh_row \<Rightarrow> refresh_state \<Rightarrow> refresh_state" where
  "note_row row s = count_action (rf_action row) (s\<lparr>fs_rows := fs_rows s @ [row]\<rparr>)"

text \<open>The row that is written for an entry; the unit rate of the row before it stays.\<close>

definition next_price :: "refresh_args \<Rightarrow> int \<Rightarrow> int \<Rightarrow> string \<Rightarrow> model_price_row option \<Rightarrow> model_price_row" where
  "next_price args gin gout i prev =
     \<lparr>mp_model_id = i, mp_input = NInt gin, mp_output = NInt gout,
      mp_unit_micro = Option.bind prev mp_unit_micro,
      mp_priced_at = priced_at_of (fa_now args), mp_note = Some (refresh_note (fa_now args))\<rparr>"

fun refresh_loop ::
  "refresh_args \<Rightarrow> (string \<Rightarrow> gateway_model_rate option) \<Rightarrow> catalog_entry list \<Rightarrow> refresh_state \<Rightarrow> (refresh_state, 'z) m" where
  "refresh_loop args rates [] s = retM s"
| "refresh_loop args rates (entry # entries) s =
     (let prev = fs_existing s (ce_id entry); row = classify_entry args rates entry prev in
      case (rf_action row, rf_gateway_in row, rf_gateway_out row) of
        (Updated, Some gin, Some gout) \<Rightarrow>
          (let next' = next_price args gin gout (ce_id entry) prev in
           bindM (put_model_price next') (\<lambda>_.
           refresh_loop args rates entries
             (note_row row (s\<lparr>fs_existing := (fs_existing s)(ce_id entry \<mapsto> next')\<rparr>))))
      | _ \<Rightarrow> refresh_loop args rates entries (note_row row s))"

definition existing_prices :: "model_price_row list \<Rightarrow> string \<Rightarrow> model_price_row option" where
  "existing_prices rows = map_of (rev (List.map (\<lambda>r. (mp_model_id r, r)) rows))"

definition start_refresh :: "model_price_row list \<Rightarrow> refresh_state" where
  "start_refresh rows =
     \<lparr>fs_existing = existing_prices rows, fs_rows = [], fs_would = 0, fs_updated = 0, fs_same = 0,
      fs_skipped = 0, fs_unmatched = 0, fs_unusable = 0\<rparr>"

definition run_catalog_refresh :: "refresh_args \<Rightarrow> (refresh_report, 'z) m" where
  "run_catalog_refresh args =
     (case fa_source args of
        Inl e \<Rightarrow> throwM e
      | Inr page \<Rightarrow>
          (let chat = chat_catalog_entries CATALOG in
           bindM list_model_prices (\<lambda>rows.
           bindM (refresh_loop args (rates_by_id (gp_models page)) chat (start_refresh rows)) (\<lambda>s.
           retM \<lparr>fr_dry_run = fa_dry_run args, fr_force = fa_force args,
                 fr_models = length (gp_models page), fr_malformed = gp_malformed page,
                 fr_chat = length chat, fr_end = s\<rparr>))))"

section \<open>The route (routes/catalog-refresh.ts)\<close>

fun action_name :: "refresh_action \<Rightarrow> string" where
  "action_name WouldUpdate = ''would_update''"
| "action_name Updated = ''updated''"
| "action_name Unchanged = ''unchanged''"
| "action_name SkippedOperator = ''skipped_operator''"
| "action_name Unmatched = ''unmatched''"
| "action_name UnusableRate = ''unusable_rate''"

definition js_num_option :: "jsnum option \<Rightarrow> js" where
  "js_num_option v = (case v of Some n \<Rightarrow> JNum n | None \<Rightarrow> JNull)"

definition refresh_row_json :: "refresh_row \<Rightarrow> js" where
  "refresh_row_json r = JObj
     [(''model_id'', JStr (rf_model_id r)), (''gateway_id'', js_of_str_option (rf_gateway_id r)),
      (''action'', JStr (action_name (rf_action r))),
      (''catalog_input'', js_num_option (rf_catalog_in r)),
      (''catalog_output'', js_num_option (rf_catalog_out r)),
      (''gateway_input'', js_num_option (map_option NInt (rf_gateway_in r))),
      (''gateway_output'', js_num_option (map_option NInt (rf_gateway_out r))),
      (''previous_input'', js_num_option (rf_previous_in r)),
      (''previous_output'', js_num_option (rf_previous_out r))]"

definition refresh_report_json :: "refresh_report \<Rightarrow> js" where
  "refresh_report_json r =
     (let s = fr_end r in JObj
     [(''dry_run'', JBool (fr_dry_run r)), (''force'', JBool (fr_force r)),
      (''gateway_models'', js_int (int (fr_models r))),
      (''gateway_malformed'', js_int (int (fr_malformed r))),
      (''catalog_chat'', js_int (int (fr_chat r))),
      (''would_update'', js_int (int (fs_would s))), (''updated'', js_int (int (fs_updated s))),
      (''unchanged'', js_int (int (fs_same s))),
      (''skipped_operator'', js_int (int (fs_skipped s))),
      (''unmatched'', js_int (int (fs_unmatched s))),
      (''unusable_rate'', js_int (int (fs_unusable s))),
      (''rows'', JArr (List.map refresh_row_json (fs_rows s)))])"

text \<open>A boolean that may be absent.\<close>

definition optional_bool :: "js \<Rightarrow> bool option option" where
  "optional_bool v = (case v of JUndef \<Rightarrow> Some None | JBool b \<Rightarrow> Some (Some b) | _ \<Rightarrow> None)"

text \<open>The try block of the handler.\<close>

definition refresh_answer :: "string \<Rightarrow> refresh_args \<Rightarrow> (response, 'z) m" where
  "refresh_answer rid args =
     catchM
       (bindM (run_catalog_refresh args) (\<lambda>report. retM (json_response rid (refresh_report_json report) 200 [])))
       (\<lambda>_. retM (error_response rid Upstream_error))"

definition handle_catalog_refresh ::
  "(compat_request \<Rightarrow> exn + http_reply) \<Rightarrow> op_ctx \<Rightarrow> request \<Rightarrow> (response, 'z) m" where
  "handle_catalog_refresh fetch cx rq =
     (let rid = oc_request_id cx; token = env_text (env_aig_token (oc_env cx)) in
      case require_operator cx rq of
        Some resp \<Rightarrow> retM resp
      | None \<Rightarrow>
     (case gateway_config_of (oc_env cx) of
        None \<Rightarrow> retM (error_response rid Unavailable)
      | Some gateway \<Rightarrow>
     if token = [] then retM (error_response rid Unavailable)
     else (case read_json_body MAX_BODY_BYTES rq of
        Inl f \<Rightarrow> retM (error_response rid (read_failure_code f))
      | Inr raw \<Rightarrow>
     (case (optional_bool (js_get raw ''dry_run''), optional_bool (js_get raw ''force'')) of
        (Some dry, Some frc) \<Rightarrow>
          refresh_answer rid
            \<lparr>fa_source = list_rates \<lparr>md_account_id = gc_account_id gateway, md_gateway_id = gc_id gateway,
                                      md_token = token, md_fetch = fetch\<rparr>,
             fa_dry_run = (dry \<noteq> Some False), fa_force = (frc = Some True), fa_now = oc_now cx\<rparr>
      | _ \<Rightarrow> retM (error_response rid Invalid_request)))))"

end
