(* ===== verification/RequestText.thy ===== *)
theory RequestText
  imports Http Stringify Stream
begin

text \<open>What the handlers read when a client sends the text of a JSON object in one piece.\<close>

lemma utf8_roundtrip: "utf8_decode (utf8_encode s) = s"
proof -
  have "u8_flush u8_init = []" by (simp add: u8_flush_def u8_init_def)
  then show ?thesis by (simp add: utf8_decode_def u8_run_encode strip_bom_latin comp_def)
qed

lemma read_one_chunk:
  assumes "rq_body rq = Some [Chunk b]" "rq_header rq ''content-length'' = None" "length b \<le> cap"
  shows "read_body_bytes_capped cap rq = Inr b"
  using assms by (simp add: read_body_bytes_capped_def declared_too_large_def)

text \<open>A body that holds the text of an object is read as that object.\<close>

lemma read_sent_object:
  assumes "rq_body rq = Some [Chunk (utf8_encode (js_stringify (JObj fs)))]" "rq_header rq ''content-length'' = None"
    and "length (utf8_encode (js_stringify (JObj fs))) \<le> cap" "json_ok (JObj fs)"
  shows "read_json_body cap rq = Inr (JObj fs)"
proof -
  obtain t where t: "js_stringify (JObj fs) = CHR ''{'' # t" by (simp add: js_stringify.simps)
  have "\<not> is_js_space CHR ''{''" by (simp add: is_js_space_def ord_of_def)
  then have "js_trim (js_stringify (JObj fs)) \<noteq> []" unfolding t js_trim_def by simp
  then show ?thesis
    using read_one_chunk [OF assms(1-3)] json_stringify_roundtrip [OF assms(4)]
    by (simp add: read_json_body_def utf8_roundtrip Let_def del: js_stringify.simps)
qed

end
