(* ===== verification/CatalogRefreshProps.thy ===== *)
theory CatalogRefreshProps
  imports CatalogRefresh OperatorProps RequestText "HOL-Library.Multiset"
begin

text \<open>
  What a refresh of the rate card may change: the override of a chat model the gateway lists, to the
  gateway's rate rounded up, and nothing else, whatever statement fails; nothing at all in a dry run,
  and no price an operator set unless the run is forced.
\<close>

section \<open>The conversion\<close>

lemma micro_usd_per_mtok_exact:
  assumes "readable_decimal (rat_of_num n)" "is_finite_num n"
  shows "micro_usd_per_mtok_from_usd_per_token n =
    (let m = \<lceil>10 ^ 12 * rat_of_num n\<rceil> in if m \<le> MAX_SAFE_INTEGER then Some m else None)"
proof (cases "rat_of_num n = 0")
  case True
  then show ?thesis using assms(2) by (simp add: micro_usd_per_mtok_from_usd_per_token_def MAX_SAFE_INTEGER_def)
next
  case False
  have r: "\<not> rat_of_num n < 0" "\<bar>rat_of_num n\<bar> = rat_of_num n"
    using assms(1) by (simp_all add: readable_decimal_def)
  then have t: "js_num_string n = abs_text (rat_of_num n)"
    using assms(2) by (cases n) (simp_all add: js_num_string_def)
  obtain D E where d: "decimal_parts (abs_text (rat_of_num n)) = Some (D, E)"
      "scale10 (int D) E = rat_of_num n"
    using decimal_parts_abs_text [OF assms(1)] by blast
  have "scale_up D (E + 12) = \<lceil>10 ^ 12 * rat_of_num n\<rceil>"
    using scale10_shift [of "int D" E 12] d(2) by (simp add: scale_up_ceiling mult.commute)
  moreover have "0 \<le> \<lceil>10 ^ 12 * rat_of_num n\<rceil>" using r(1) by simp
  ultimately show ?thesis
    using False r(1) d(1) assms(2)
    by (simp add: micro_usd_per_mtok_from_usd_per_token_def t within_safe_range_def Let_def not_le)
qed

lemma micro_usd_per_mtok_range:
  "micro_usd_per_mtok_from_usd_per_token n = Some m \<Longrightarrow> 0 \<le> m \<and> m \<le> MAX_SAFE_INTEGER"
  by (auto simp: micro_usd_per_mtok_from_usd_per_token_def within_safe_range_def MAX_SAFE_INTEGER_def
      split: if_splits option.splits)

section \<open>The prices as a map\<close>

abbreviation price_of :: "db \<Rightarrow> string \<Rightarrow> model_price_row option" where
  "price_of d k \<equiv> lookup mp_model_id k (t_prices d)"

definition prices_pk :: "db \<Rightarrow> bool" where
  "prices_pk d = distinct (List.map mp_model_id (t_prices d))"

lemma lookup_map_of: "lookup key k rows = map_of (List.map (\<lambda>r. (key r, r)) rows) k"
  by (induction rows) auto

lemma mset_insert_price: "mset (insert_price r rows) = add_mset r (mset rows)"
  by (induction rows) auto

lemma mset_listed: "mset (foldr insert_price rows []) = mset rows"
  by (induction rows) (simp_all add: mset_insert_price)

text \<open>The listing, read as a map in which the last row of an id wins, is the table.\<close>

lemma existing_prices_listed:
  assumes "prices_pk d"
  shows "existing_prices (foldr insert_price (t_prices d) []) = price_of d"
proof -
  let ?pairs = "List.map (\<lambda>r. (mp_model_id r, r))"
  let ?listed = "foldr insert_price (t_prices d) []"
  have keys: "List.map fst (?pairs xs) = List.map mp_model_id xs" for xs by (simp add: o_def)
  have "mset (List.map mp_model_id ?listed) = mset (List.map mp_model_id (t_prices d))"
    by (simp add: mset_listed)
  then have "distinct (List.map mp_model_id ?listed)"
    using assms by (metis prices_pk_def mset_eq_imp_distinct_iff)
  then have "distinct (List.map fst (rev (?pairs ?listed)))"
    by (simp only: rev_map [symmetric] keys distinct_rev)
  moreover have "distinct (List.map fst (?pairs (t_prices d)))" using assms by (simp only: keys prices_pk_def)
  moreover have "set (rev (?pairs ?listed)) = set (?pairs (t_prices d))"
    using mset_eq_setD [OF mset_listed [of "t_prices d"]] by simp
  ultimately have "map_of (rev (?pairs ?listed)) = map_of (?pairs (t_prices d))"
    by (rule map_of_inject_set [THEN iffD2])
  then show ?thesis by (simp add: existing_prices_def lookup_map_of fun_eq_iff)
qed

section \<open>One write\<close>

lemma put_price_effect:
  assumes "put_model_price row w = (r, w')"
  shows "w_db w' = w_db w \<and> r \<noteq> Inr ()
    \<or> w_db w' = (w_db w)\<lparr>t_prices := upsert mp_model_id row (\<lambda>_. row) (t_prices (w_db w))\<rparr>"
  using assms by (auto simp: put_model_price_def run_write_def stmt_def unit_res_def Let_def
      split: fault.splits prod.splits)

lemma upsert_same:
  "upsert key row (\<lambda>_. row) rows = upsert key row (\<lambda>r. if key r = key row then row else r) rows"
  by (auto simp: upsert_def update_where_def)

lemma lookup_put:
  "lookup mp_model_id k (upsert mp_model_id row (\<lambda>_. row) rows) =
     (if k = mp_model_id row then Some row else lookup mp_model_id k rows)"
  by (subst upsert_same, subst lookup_upsert) (auto split: option.splits dest: lookup_SomeD)

section \<open>What a run may write\<close>

text \<open>The override of \<open>k\<close> that a run may leave where \<open>prev\<close> was: the entry is one of the given
  ones, the gateway lists it, both its rates convert, and the run is allowed to write it.\<close>

definition refreshed_to ::
  "refresh_args \<Rightarrow> (string \<Rightarrow> gateway_model_rate option) \<Rightarrow> string \<Rightarrow> model_price_row option \<Rightarrow> model_price_row \<Rightarrow> bool" where
  "refreshed_to args rates k prev row \<longleftrightarrow>
     \<not> fa_dry_run args
     \<and> (fa_force args \<or> \<not> (\<exists>p. prev = Some p \<and> is_operator_protected_note (mp_note p)))
     \<and> (\<exists>gw gin gout. match_gateway_rate k rates = Some gw
          \<and> micro_usd_per_mtok_from_usd_per_token (gm_cost_in gw) = Some gin
          \<and> micro_usd_per_mtok_from_usd_per_token (gm_cost_out gw) = Some gout
          \<and> row = next_price args gin gout k prev)"

definition prices_refreshed ::
  "refresh_args \<Rightarrow> (string \<Rightarrow> gateway_model_rate option) \<Rightarrow> string set \<Rightarrow> db \<Rightarrow> db \<Rightarrow> bool" where
  "prices_refreshed args rates ids d d' \<longleftrightarrow>
     d' = d\<lparr>t_prices := t_prices d'\<rparr>
     \<and> (fa_dry_run args \<longrightarrow> d' = d)
     \<and> (\<forall>k. price_of d' k = price_of d k
          \<or> k \<in> ids \<and> (\<exists>row. price_of d' k = Some row \<and> refreshed_to args rates k (price_of d k) row))"

lemma prices_refreshed_refl: "prices_refreshed args rates ids d d"
  by (simp add: prices_refreshed_def)

lemma refreshed_twice:
  assumes "refreshed_to args rates k prev row" "refreshed_to args rates k (Some row) row'"
  shows "refreshed_to args rates k prev row'"
  using assms by (auto simp: refreshed_to_def next_price_def)

lemma prices_refreshed_trans:
  assumes "prices_refreshed args rates ids d d'" "prices_refreshed args rates ids' d' d''"
    "ids \<subseteq> ids''" "ids' \<subseteq> ids''"
  shows "prices_refreshed args rates ids'' d d''"
proof -
  have "d'' = d'\<lparr>t_prices := t_prices d''\<rparr>" "d' = d\<lparr>t_prices := t_prices d'\<rparr>"
    using assms(1,2) by (simp_all add: prices_refreshed_def)
  then have "d'' = d\<lparr>t_prices := t_prices d''\<rparr>" by (cases d; cases d'; cases d'') simp
  moreover have "price_of d'' k = price_of d k
      \<or> k \<in> ids'' \<and> (\<exists>row. price_of d'' k = Some row \<and> refreshed_to args rates k (price_of d k) row)" for k
  proof -
    have "price_of d' k = price_of d k
        \<or> k \<in> ids \<and> (\<exists>row. price_of d' k = Some row \<and> refreshed_to args rates k (price_of d k) row)"
      "price_of d'' k = price_of d' k
        \<or> k \<in> ids' \<and> (\<exists>row. price_of d'' k = Some row \<and> refreshed_to args rates k (price_of d' k) row)"
      using assms(1,2) by (simp_all add: prices_refreshed_def)
    then show ?thesis
    proof (elim disjE conjE exE)
      fix row row'
      assume a: "k \<in> ids" "price_of d' k = Some row" "refreshed_to args rates k (price_of d k) row"
        "price_of d'' k = Some row'" "refreshed_to args rates k (price_of d' k) row'"
      then have "refreshed_to args rates k (price_of d k) row'" using refreshed_twice by simp
      then show ?thesis using a assms(3) by blast
    qed (use assms(3,4) in \<open>simp_all, blast+\<close>)
  qed
  ultimately show ?thesis using assms(1,2) by (simp add: prices_refreshed_def)
qed

lemma classify_Updated:
  assumes "rf_action (classify_entry args rates entry prev) = Updated"
    "rf_gateway_in (classify_entry args rates entry prev) = Some gin"
    "rf_gateway_out (classify_entry args rates entry prev) = Some gout"
  shows "refreshed_to args rates (ce_id entry) prev (next_price args gin gout (ce_id entry) prev)"
  using assms
  by (auto simp: classify_entry_def refreshed_to_def Let_def split: option.splits if_splits)

lemma note_row_existing [simp]: "fs_existing (note_row row s) = fs_existing s"
  by (cases "rf_action row") (simp_all add: note_row_def)

lemma refresh_loop_effect:
  assumes "\<forall>k. fs_existing s k = price_of (w_db w) k"
  shows "prices_refreshed args rates (ce_id ` set entries) (w_db w)
    (w_db (snd (refresh_loop args rates entries s w)))"
  using assms
proof (induction entries arbitrary: s w)
  case Nil
  then show ?case by (simp add: retM_def prices_refreshed_refl)
next
  case (Cons e es)
  let ?prev = "fs_existing s (ce_id e)"
  let ?row = "classify_entry args rates e ?prev"
  let ?ids = "ce_id ` set (e # es)"
  show ?case
  proof (cases "\<exists>gin gout. rf_action ?row = Updated \<and> rf_gateway_in ?row = Some gin \<and> rf_gateway_out ?row = Some gout")
    case False
    then have "refresh_loop args rates (e # es) s w = refresh_loop args rates es (note_row ?row s) w"
      by (auto simp: Let_def split: refresh_action.split option.split)
    moreover have "prices_refreshed args rates (ce_id ` set es) (w_db w)
        (w_db (snd (refresh_loop args rates es (note_row ?row s) w)))"
      by (rule Cons.IH) (use Cons.prems in simp)
    ultimately show ?thesis
      using prices_refreshed_trans [OF prices_refreshed_refl, of args rates "ce_id ` set es" "w_db w" _ "{}" ?ids]
      by (metis empty_subsetI list.set_intros(2) image_mono subsetI)
  next
    case True
    then obtain gin gout where u: "rf_action ?row = Updated" "rf_gateway_in ?row = Some gin"
        "rf_gateway_out ?row = Some gout" by blast
    define next' where "next' = next_price args gin gout (ce_id e) ?prev"
    define s1 where "s1 = note_row ?row (s\<lparr>fs_existing := (fs_existing s)(ce_id e \<mapsto> next')\<rparr>)"
    obtain r w1 where p: "put_model_price next' w = (r, w1)" by (cases "put_model_price next' w")
    have key: "mp_model_id next' = ce_id e" by (simp add: next'_def next_price_def)
    have to: "refreshed_to args rates (ce_id e) (price_of (w_db w) (ce_id e)) next'"
      using classify_Updated [OF u] Cons.prems by (simp add: next'_def)
    have one: "prices_refreshed args rates {ce_id e} (w_db w)
        ((w_db w)\<lparr>t_prices := upsert mp_model_id next' (\<lambda>_. next') (t_prices (w_db w))\<rparr>)"
      unfolding prices_refreshed_def
      using to by (auto simp: refreshed_to_def lookup_put key)
    have loop: "refresh_loop args rates (e # es) s w =
        (case r of Inl x \<Rightarrow> (Inl x, w1) | Inr _ \<Rightarrow> refresh_loop args rates es s1 w1)"
      using u p by (simp add: Let_def bindM_def next'_def s1_def split: sum.split)
    have step: "prices_refreshed args rates {ce_id e} (w_db w) (w_db w1)"
      using put_price_effect [OF p] one prices_refreshed_refl by metis
    show ?thesis
    proof (cases r)
      case (Inl x)
      then show ?thesis
        using loop prices_refreshed_trans [OF step prices_refreshed_refl, of ?ids "{}"] by simp
    next
      case (Inr x)
      then have d1: "w_db w1 = (w_db w)\<lparr>t_prices := upsert mp_model_id next' (\<lambda>_. next') (t_prices (w_db w))\<rparr>"
        using put_price_effect [OF p] by auto
      have "prices_refreshed args rates (ce_id ` set es) (w_db w1) (w_db (snd (refresh_loop args rates es s1 w1)))"
        by (rule Cons.IH) (use Cons.prems key in \<open>simp add: s1_def d1 lookup_put\<close>)
      then show ?thesis
        using loop Inr prices_refreshed_trans [OF step, where ids'' = ?ids] by auto
    qed
  qed
qed

section \<open>A run and the route\<close>

lemma ret_db: "snd (retM x w) = w"
  by (simp add: retM_def)

lemma answer_db: "w_db (snd (refresh_answer rid args w)) = w_db (snd (run_catalog_refresh args w))"
  by (simp add: refresh_answer_def catchM_def bindM_def retM_def split: sum.splits prod.splits)

lemma chat_entry_found:
  assumes "k \<in> ce_id ` set (chat_catalog_entries CATALOG)"
  shows "\<exists>e. find_model k = Some e \<and> ce_modality e = Chat"
  using assms by (auto simp: chat_catalog_entries_def find_model_iff)

lemma run_refresh_effect:
  assumes "prices_pk (w_db w)"
  shows "w_db (snd (run_catalog_refresh args w)) = w_db w
    \<or> (\<exists>page. fa_source args = Inr page
         \<and> prices_refreshed args (rates_by_id (gp_models page)) (ce_id ` set (chat_catalog_entries CATALOG))
              (w_db w) (w_db (snd (run_catalog_refresh args w))))"
proof (cases "fa_source args")
  case (Inl e)
  then show ?thesis by (simp add: run_catalog_refresh_def throwM_def)
next
  case (Inr page)
  obtain r w1 where l: "list_model_prices w = (r, w1)" by (cases "list_model_prices w")
  have d1: "w_db w1 = w_db w" using read_only_db [OF get_ops_read_only(12), of w] l by simp
  show ?thesis
  proof (cases r)
    case (Inl e)
    then show ?thesis using Inr l d1 by (simp add: run_catalog_refresh_def Let_def bindM_def)
  next
    case rows: (Inr rows)
    then have "rows = foldr insert_price (t_prices (w_db w)) []"
      using query_result l by (fastforce simp: list_model_prices_def)
    then have "\<forall>k. fs_existing (start_refresh rows) k = price_of (w_db w1) k"
      using existing_prices_listed [OF assms] d1 by (simp add: start_refresh_def)
    from refresh_loop_effect [OF this, of args "rates_by_id (gp_models page)" "chat_catalog_entries CATALOG"]
    show ?thesis using Inr l rows d1
      by (cases "refresh_loop args (rates_by_id (gp_models page)) (chat_catalog_entries CATALOG)
            (start_refresh rows) w1")
         (simp add: run_catalog_refresh_def Let_def bindM_def retM_def split: sum.split)
  qed
qed

text \<open>C37. A refresh of the rate card changes nothing but price overrides, whichever statement
  fails on the way.  Without the operator's token, or unless the body says dry_run false, it changes
  nothing.  An override that changed belongs to a chat model of the catalog that the gateway listed;
  it is the gateway's two rates in micro-USD per million tokens, both within the safe integers, with
  the unit rate that was there; and an override with an operator's note changes only when the body
  says force.\<close>

theorem catalog_refresh_writes_only_listed_rates:
  fixes w :: "'z world_scheme"
  assumes "prices_pk (w_db w)" and "w' = snd (handle_catalog_refresh fetch cx rq w)"
  shows "w_db w' = (w_db w)\<lparr>t_prices := t_prices (w_db w')\<rparr>
    \<and> (w_db w' \<noteq> w_db w \<longrightarrow> holds_operator_token cx rq
         \<and> (\<exists>raw. read_json_body MAX_BODY_BYTES rq = Inr raw \<and> js_get raw ''dry_run'' = JBool False))
    \<and> (\<forall>k. price_of (w_db w') k \<noteq> price_of (w_db w) k \<longrightarrow>
         (\<exists>e deps page gw gin gout.
            find_model k = Some e \<and> ce_modality e = Chat
            \<and> md_fetch deps = fetch \<and> list_rates deps = Inr page
            \<and> match_gateway_rate k (rates_by_id (gp_models page)) = Some gw
            \<and> micro_usd_per_mtok_from_usd_per_token (gm_cost_in gw) = Some gin \<and> gin \<in> {0..MAX_SAFE_INTEGER}
            \<and> micro_usd_per_mtok_from_usd_per_token (gm_cost_out gw) = Some gout \<and> gout \<in> {0..MAX_SAFE_INTEGER}
            \<and> price_of (w_db w') k = Some \<lparr>mp_model_id = k, mp_input = NInt gin, mp_output = NInt gout,
                 mp_unit_micro = Option.bind (price_of (w_db w) k) mp_unit_micro,
                 mp_priced_at = take 10 (to_iso_string (oc_now cx)),
                 mp_note = Some (''gateway-compat:'' @ take 10 (to_iso_string (oc_now cx)))\<rparr>)
         \<and> ((\<exists>p. price_of (w_db w) k = Some p \<and> is_operator_protected_note (mp_note p)) \<longrightarrow>
              (\<exists>raw. read_json_body MAX_BODY_BYTES rq = Inr raw \<and> js_get raw ''force'' = JBool True)))"
proof (cases "w_db w' = w_db w")
  case True
  then show ?thesis by simp
next
  case False
  obtain gateway raw dry frc where g: "require_operator cx rq = None"
      "read_json_body MAX_BODY_BYTES rq = Inr raw"
      "optional_bool (js_get raw ''dry_run'') = Some dry" "optional_bool (js_get raw ''force'') = Some frc"
      "gateway_config_of (oc_env cx) = Some gateway"
      and w': "w' = snd (refresh_answer (oc_request_id cx)
            \<lparr>fa_source = list_rates \<lparr>md_account_id = gc_account_id gateway, md_gateway_id = gc_id gateway,
               md_token = env_text (env_aig_token (oc_env cx)), md_fetch = fetch\<rparr>,
             fa_dry_run = (dry \<noteq> Some False), fa_force = (frc = Some True), fa_now = oc_now cx\<rparr> w)"
    using False unfolding assms(2) handle_catalog_refresh_def Let_def
    by (auto simp: ret_db split: option.splits sum.splits if_splits prod.splits)
  define args where "args = \<lparr>fa_source = list_rates \<lparr>md_account_id = gc_account_id gateway,
      md_gateway_id = gc_id gateway, md_token = env_text (env_aig_token (oc_env cx)), md_fetch = fetch\<rparr>,
      fa_dry_run = (dry \<noteq> Some False), fa_force = (frc = Some True), fa_now = oc_now cx\<rparr>"
  have db: "w_db w' = w_db (snd (run_catalog_refresh args w))"
    unfolding w' args_def [symmetric] by (rule answer_db)
  obtain page where page: "fa_source args = Inr page"
      "prices_refreshed args (rates_by_id (gp_models page)) (ce_id ` set (chat_catalog_entries CATALOG))
         (w_db w) (w_db w')"
    using run_refresh_effect [OF assms(1), of args] False db by auto
  have body: "fa_dry_run args \<or> js_get raw ''dry_run'' = JBool False"
      "\<not> fa_force args \<or> js_get raw ''force'' = JBool True"
    using g(3,4) by (auto simp: args_def optional_bool_def split: js.splits)
  have frame: "w_db w' = (w_db w)\<lparr>t_prices := t_prices (w_db w')\<rparr>" "\<not> fa_dry_run args"
    using page(2) False by (auto simp: prices_refreshed_def)
  have tok: "holds_operator_token cx rq" using g(1) require_operator_holds by (metis option.distinct(1))
  show ?thesis
  proof (intro conjI allI impI)
    fix k
    assume ne: "price_of (w_db w') k \<noteq> price_of (w_db w) k"
    then obtain row where k: "k \<in> ce_id ` set (chat_catalog_entries CATALOG)"
        and row: "price_of (w_db w') k = Some row"
        "refreshed_to args (rates_by_id (gp_models page)) k (price_of (w_db w) k) row"
      using page(2) unfolding prices_refreshed_def by blast
    obtain e where e: "find_model k = Some e \<and> ce_modality e = Chat" using chat_entry_found [OF k] by blast
    from row(2) obtain gw gin gout where m: "match_gateway_rate k (rates_by_id (gp_models page)) = Some gw"
        "micro_usd_per_mtok_from_usd_per_token (gm_cost_in gw) = Some gin"
        "micro_usd_per_mtok_from_usd_per_token (gm_cost_out gw) = Some gout"
        "row = next_price args gin gout k (price_of (w_db w) k)"
      unfolding refreshed_to_def by blast
    define deps where "deps = \<lparr>md_account_id = gc_account_id gateway, md_gateway_id = gc_id gateway,
        md_token = env_text (env_aig_token (oc_env cx)), md_fetch = fetch\<rparr>"
    have src: "md_fetch deps = fetch" "list_rates deps = Inr page"
      using page(1) by (simp_all add: deps_def args_def)
    have shape: "row = \<lparr>mp_model_id = k, mp_input = NInt gin, mp_output = NInt gout,
                 mp_unit_micro = Option.bind (price_of (w_db w) k) mp_unit_micro,
                 mp_priced_at = take 10 (to_iso_string (oc_now cx)),
                 mp_note = Some (''gateway-compat:'' @ take 10 (to_iso_string (oc_now cx)))\<rparr>"
      using m(4) by (simp add: next_price_def args_def priced_at_of_def refresh_note_def GATEWAY_COMPAT_NOTE_PREFIX_def)
    show "\<exists>e deps page gw gin gout.
            find_model k = Some e \<and> ce_modality e = Chat
            \<and> md_fetch deps = fetch \<and> list_rates deps = Inr page
            \<and> match_gateway_rate k (rates_by_id (gp_models page)) = Some gw
            \<and> micro_usd_per_mtok_from_usd_per_token (gm_cost_in gw) = Some gin \<and> gin \<in> {0..MAX_SAFE_INTEGER}
            \<and> micro_usd_per_mtok_from_usd_per_token (gm_cost_out gw) = Some gout \<and> gout \<in> {0..MAX_SAFE_INTEGER}
            \<and> price_of (w_db w') k = Some \<lparr>mp_model_id = k, mp_input = NInt gin, mp_output = NInt gout,
                 mp_unit_micro = Option.bind (price_of (w_db w) k) mp_unit_micro,
                 mp_priced_at = take 10 (to_iso_string (oc_now cx)),
                 mp_note = Some (''gateway-compat:'' @ take 10 (to_iso_string (oc_now cx)))\<rparr>"
      using e src m(1-3) row(1) shape micro_usd_per_mtok_range [OF m(2)] micro_usd_per_mtok_range [OF m(3)]
      by (intro exI [of _ e] exI [of _ deps] exI [of _ page] exI [of _ gw] exI [of _ gin] exI [of _ gout]) simp
    assume "\<exists>p. price_of (w_db w) k = Some p \<and> is_operator_protected_note (mp_note p)"
    then have "fa_force args" using row(2) unfolding refreshed_to_def by blast
    then show "\<exists>raw. read_json_body MAX_BODY_BYTES rq = Inr raw \<and> js_get raw ''force'' = JBool True"
      using body(2) g(2) by blast
  qed (use frame body(1) g(2) tok in blast)+
qed

definition sample_refresh_ctx :: op_ctx where
  "sample_refresh_ctx = \<lparr>oc_sha256 = id,
     oc_env = sample_env\<lparr>env_account_id := Some ''0123456789abcdef0123456789abcdef'',
       env_gateway_id := Some ''prism'', env_aig_token := Some ''token''\<rparr>,
     oc_logs = None, oc_request_id = ''req_1'', oc_now = 0, oc_random = (\<lambda>n. [])\<rparr>"

definition sample_refresh_request :: request where
  "sample_refresh_request = \<lparr>rq_method = ''POST'', rq_path = ''/admin/catalog/refresh'', rq_query = [],
     rq_headers = [(''authorization'', ''Bearer operator-token'')],
     rq_body = Some [Chunk (utf8_encode (js_stringify (JObj [(''dry_run'', JBool False)])))]\<rparr>"

definition sample_rates :: "compat_request \<Rightarrow> exn + http_reply" where
  "sample_rates rq = Inr \<lparr>hr_status = 200, hr_json = Some (JObj [(''data'', JArr
     [JObj [(''id'', JStr ''anthropic/claude-opus-5''), (''cost_in'', JNum (NReal (3 / 10000000))),
            (''cost_out'', JNum (NInt 0))], JNull])])\<rparr>"

lemma sample_refresh_body:
  "require_operator sample_refresh_ctx sample_refresh_request = None"
  "read_json_body MAX_BODY_BYTES sample_refresh_request = Inr (JObj [(''dry_run'', JBool False)])"
proof -
  show "require_operator sample_refresh_ctx sample_refresh_request = None" by code_simp
  have "length (utf8_encode (js_stringify (JObj [(''dry_run'', JBool False)]))) = 17" by code_simp
  then show "read_json_body MAX_BODY_BYTES sample_refresh_request = Inr (JObj [(''dry_run'', JBool False)])"
    by (intro read_sent_object)
       (simp_all add: sample_refresh_request_def MAX_BODY_BYTES_def get_header_def)
qed

definition sample_page :: gateway_models_page where
  "sample_page = \<lparr>gp_models = [\<lparr>gm_id = ''anthropic/claude-opus-5'', gm_cost_in = NReal (3 / 10000000),
     gm_cost_out = NInt 0, gm_owned_by = None\<rparr>], gp_malformed = 1\<rparr>"

lemma sample_list_rates:
  "list_rates \<lparr>md_account_id = ''0123456789abcdef0123456789abcdef'', md_gateway_id = ''prism'',
     md_token = ''token'', md_fetch = sample_rates\<rparr> = Inr sample_page"
  by code_simp

lemma sample_config:
  "gateway_config_of (oc_env sample_refresh_ctx) = Some \<lparr>gc_account_id = ''0123456789abcdef0123456789abcdef'',
     gc_id = ''prism'', gc_collect_log = True\<rparr>"
  "env_text (env_aig_token (oc_env sample_refresh_ctx)) = ''token''"
  by code_simp+

lemma sample_refresh_db:
  "List.map mp_input (t_prices (w_db (snd (run_catalog_refresh \<lparr>fa_source = Inr sample_page,
     fa_dry_run = False, fa_force = False, fa_now = 0\<rparr> (world0 0 empty_db))))) = [NInt 300000]"
  by code_simp

theorem catalog_refresh_writes_only_listed_rates_witness:
  "let w' = snd (handle_catalog_refresh sample_rates sample_refresh_ctx sample_refresh_request (world0 0 empty_db))
   in w_db w' = empty_db\<lparr>t_prices := t_prices (w_db w')\<rparr> \<and> List.map mp_input (t_prices (w_db w')) = [NInt 300000]"
proof -
  have pk: "prices_pk (w_db (world0 0 empty_db))" by (simp add: prices_pk_def world0_def empty_db_def)
  have h: "(handle_catalog_refresh sample_rates sample_refresh_ctx sample_refresh_request :: (response, unit) m) =
      refresh_answer ''req_1'' \<lparr>fa_source = Inr sample_page, fa_dry_run = False, fa_force = False, fa_now = 0\<rparr>"
    using sample_refresh_body sample_config sample_list_rates
    by (simp add: handle_catalog_refresh_def optional_bool_def Let_def)
       (simp add: sample_refresh_ctx_def)
  have "List.map mp_input (t_prices (w_db (snd (handle_catalog_refresh sample_rates sample_refresh_ctx
      sample_refresh_request (world0 0 empty_db))))) = [NInt 300000]"
    unfolding h answer_db by (rule sample_refresh_db)
  then show ?thesis
    using catalog_refresh_writes_only_listed_rates [OF pk refl, of sample_rates sample_refresh_ctx sample_refresh_request,
        THEN conjunct1]
    by (simp add: Let_def world0_def)
qed

end
