(* ===== verification/AppleJws.thy ===== *)
theory AppleJws
  imports X509
begin

text \<open>
  src/src/apple-jws.ts and src/src/apple-root-ca.ts: the decoding of a signed App Store transaction,
  the check of its certificate chain against the pinned root, and of its signature.  A verdict is a
  refusal or a unit.
\<close>

section \<open>The pinned root\<close>

definition APPLE_ROOT_CA_G3_DER_B64 :: string where
  "APPLE_ROOT_CA_G3_DER_B64 =
    ''MIICQzCCAcmgAwIBAgIILcX8iNLFS5UwCgYIKoZIzj0EAwMwZzEbMBkGA1UEAwwSQXBwbGUgUm9v'' @
    ''dCBDQSAtIEczMSYwJAYDVQQLDB1BcHBsZSBDZXJ0aWZpY2F0aW9uIEF1dGhvcml0eTETMBEGA1UE'' @
    ''CgwKQXBwbGUgSW5jLjELMAkGA1UEBhMCVVMwHhcNMTQwNDMwMTgxOTA2WhcNMzkwNDMwMTgxOTA2'' @
    ''WjBnMRswGQYDVQQDDBJBcHBsZSBSb290IENBIC0gRzMxJjAkBgNVBAsMHUFwcGxlIENlcnRpZmlj'' @
    ''YXRpb24gQXV0aG9yaXR5MRMwEQYDVQQKDApBcHBsZSBJbmMuMQswCQYDVQQGEwJVUzB2MBAGByqG'' @
    ''SM49AgEGBSuBBAAiA2IABJjpLz1AcqTtkyJygRMc3RCV8cWjTnHcFBbZDuWmBSp3ZHtfTjjTuxxE'' @
    ''tX/1H7YyYl3J6YRbTzBPEVoA/VhYDKX1DyxNB0cTddqXl5dvMVztK517IDvYuVTZXpmkOlEKMaNC'' @
    ''MEAwHQYDVR0OBBYEFLuw3qFYM4iapIqZ3r6966/ayySrMA8GA1UdEwEB/wQFMAMBAf8wDgYDVR0P'' @
    ''AQH/BAQDAgEGMAoGCCqGSM49BAMDA2gAMGUCMQCD6cHEFl4aXTQY2e3v9GwOAEZLuN+yRhHFD/3m'' @
    ''eoyhpmvOwgPUnPWTxnS4at+qIxUCMG1mihDK1A3UT82NQz60imOlM27jbdoXt2QfyFMm+YhidDkL'' @
    ''F1vLUagM6BgD56KyKA==''"

definition APPLE_ROOT_CA_G3_SHA256 :: string where
  "APPLE_ROOT_CA_G3_SHA256 =
    ''63:34:3A:BF:B8:9A:6A:03:EB:B5:7E:9B:3F:5F:A7:BE:7C:4F:5C:75:6F:30:17:B3:A8:C4:88:C3:65:3E:91:79''"

section \<open>Decoding\<close>

record apple_transaction =
  at_transaction_id  :: string
  at_original_id     :: "string option"
  at_product_id      :: string
  at_bundle_id       :: string
  at_environment     :: "string option"
  at_type            :: "string option"
  at_purchase_date   :: "jsnum option"
  at_raw             :: js

text \<open>\<open>/^[A-Za-z0-9_-]*$/\<close> and \<open>/^[A-Za-z0-9+\/]*={0,2}$/\<close>.\<close>

definition b64_alphabet_ok :: "bool \<Rightarrow> string \<Rightarrow> bool" where
  "b64_alphabet_ok urlsafe s =
     (if urlsafe then list_all is_secret_char s
      else dropWhile (\<lambda>c. base64_val c \<noteq> None) s \<in> {[], ''='', ''==''})"

definition b64_to_bytes :: "string \<Rightarrow> bool \<Rightarrow> string option" where
  "b64_to_bytes s urlsafe =
     (if \<not> b64_alphabet_ok urlsafe s then None
      else if urlsafe then
        (let std = replace_char CHR ''_'' CHR ''/'' (replace_char CHR ''-'' CHR ''+'' s); r = length std mod 4 in
         if r = 1 then None else atob (std @ (if r = 0 then [] else replicate (4 - r) CHR ''='')))
      else atob s)"

definition jws_bytes :: "string \<Rightarrow> string option" where
  "jws_bytes s = b64_to_bytes s True"

definition b64url_to_json :: "string \<Rightarrow> js option" where
  "b64url_to_json s =
     (case jws_bytes s of
        None \<Rightarrow> None
      | Some bytes \<Rightarrow> (case json_parse (utf8_decode bytes) of Some (JObj fs) \<Rightarrow> Some (JObj fs) | _ \<Rightarrow> None))"

definition string_of :: "js \<Rightarrow> string option" where
  "string_of v = (case v of JStr s \<Rightarrow> Some s | _ \<Rightarrow> None)"

definition either_string :: "js \<Rightarrow> string \<Rightarrow> string \<Rightarrow> string" where
  "either_string payload a b =
     (case string_of (js_get payload a) of
        Some s \<Rightarrow> s
      | None \<Rightarrow> (case string_of (js_get payload b) of Some s \<Rightarrow> s | None \<Rightarrow> []))"

definition decode_apple_transaction_jws :: "string \<Rightarrow> apple_transaction option" where
  "decode_apple_transaction_jws jws =
     (case split_on CHR ''.'' jws of
        [_, part, _] \<Rightarrow>
          (case b64url_to_json part of
             None \<Rightarrow> None
           | Some payload \<Rightarrow>
               (let tid = either_string payload ''transactionId'' ''transaction_id'';
                    pid = either_string payload ''productId'' ''product_id'';
                    bid = either_string payload ''bundleId'' ''bundle_id''
                in if tid = [] \<or> pid = [] \<or> bid = [] then None
                   else Some \<lparr>at_transaction_id = tid,
                     at_original_id = string_of (js_get payload ''originalTransactionId''),
                     at_product_id = pid, at_bundle_id = bid,
                     at_environment = string_of (js_get payload ''environment''),
                     at_type = string_of (js_get payload ''type''),
                     at_purchase_date = (case js_get payload ''purchaseDate'' of JNum n \<Rightarrow> Some n | _ \<Rightarrow> None),
                     at_raw = payload\<rparr>))
      | _ \<Rightarrow> None)"

section \<open>Verification\<close>

datatype apple_refusal =
    MalformedJws | UnsupportedAlg | MissingX5c | X5cTooShort | LeafParseFailed | IntermediateParseFailed
  | PinnedAnchorUnusable | IntermediateNotCa | IntermediateMissingMarker | LeafMissingMarker
  | IntermediateNotIssuedByRoot | LeafNotIssuedByIntermediate | OutsideValidity | LeafKeyNotP256
  | SignatureMalformed | SignatureInvalid

definition LEAF_MARKER_OID :: string where "LEAF_MARKER_OID = ''060a2a864886f76364060b01''"
definition WWDR_MARKER_OID :: string where "WWDR_MARKER_OID = ''060a2a864886f76364060201''"

definition pinned_apple_root :: "certificate option" where
  "pinned_apple_root = Option.bind (b64_to_bytes APPLE_ROOT_CA_G3_DER_B64 False) parse_certificate"

definition verify_apple_cert_chain ::
  "'k ec_platform \<Rightarrow> string \<Rightarrow> string \<Rightarrow> certificate \<Rightarrow> int \<Rightarrow> apple_refusal + certificate" where
  "verify_apple_cert_chain ec leaf_der intermediate_der anchor now_ms =
     (case parse_certificate leaf_der of
        None \<Rightarrow> Inl LeafParseFailed
      | Some leaf \<Rightarrow>
     (case parse_certificate intermediate_der of
        None \<Rightarrow> Inl IntermediateParseFailed
      | Some intermediate \<Rightarrow>
          if \<not> ce_is_ca intermediate then Inl IntermediateNotCa
          else if WWDR_MARKER_OID \<notin> set (ce_extension_oids intermediate) then Inl IntermediateMissingMarker
          else if LEAF_MARKER_OID \<notin> set (ce_extension_oids leaf) then Inl LeafMissingMarker
          else if \<not> verify_certificate_signed_by ec intermediate anchor then Inl IntermediateNotIssuedByRoot
          else if \<not> verify_certificate_signed_by ec leaf intermediate then Inl LeafNotIssuedByIntermediate
          else if list_ex (\<lambda>c. \<not> cert_valid_at c now_ms) [leaf, intermediate, anchor] then Inl OutsideValidity
          else Inr leaf))"

definition verify_jws_signature_with_leaf ::
  "'k ec_platform \<Rightarrow> string \<Rightarrow> string \<Rightarrow> string \<Rightarrow> certificate \<Rightarrow> apple_refusal + unit" where
  "verify_jws_signature_with_leaf ec p0 p1 p2 leaf =
     (if ce_curve leaf \<noteq> P256 then Inl LeafKeyNotP256
      else case jws_bytes p2 of
             None \<Rightarrow> Inl SignatureMalformed
           | Some sig \<Rightarrow>
     (case (if length sig = 64 then Some sig else der_ecdsa_to_p1363 sig 32) of
        None \<Rightarrow> Inl SignatureMalformed
      | Some raw \<Rightarrow>
     (case import_ec_public_key ec leaf of
        None \<Rightarrow> Inl SignatureMalformed
      | Some key \<Rightarrow>
          if verify_ecdsa ec key SHA256 raw (utf8_encode (p0 @ ''.'' @ p1)) then Inr () else Inl SignatureInvalid)))"

text \<open>The first two entries of the chain in the header.\<close>

definition chain_of_header :: "js \<Rightarrow> apple_refusal + string \<times> string" where
  "chain_of_header header =
     (case js_get header ''x5c'' of
        JArr (JStr a # JStr b # _) \<Rightarrow> Inr (a, b)
      | JArr _ \<Rightarrow> Inl X5cTooShort
      | _ \<Rightarrow> Inl MissingX5c)"

definition verify_against_anchor ::
  "'k ec_platform \<Rightarrow> string \<Rightarrow> certificate \<Rightarrow> int \<Rightarrow> apple_refusal + unit" where
  "verify_against_anchor ec jws anchor now_ms =
     (case split_on CHR ''.'' jws of
        [p0, p1, p2] \<Rightarrow>
          (case b64url_to_json p0 of
             None \<Rightarrow> Inl MalformedJws
           | Some header \<Rightarrow>
               if js_get header ''alg'' \<noteq> JStr ''ES256'' then Inl UnsupportedAlg
               else case chain_of_header header of
                      Inl r \<Rightarrow> Inl r
                    | Inr (leaf64, intermediate64) \<Rightarrow>
               (case b64_to_bytes leaf64 False of
                  None \<Rightarrow> Inl LeafParseFailed
                | Some leaf_der \<Rightarrow>
               (case b64_to_bytes intermediate64 False of
                  None \<Rightarrow> Inl IntermediateParseFailed
                | Some intermediate_der \<Rightarrow>
               (case verify_apple_cert_chain ec leaf_der intermediate_der anchor now_ms of
                  Inl r \<Rightarrow> Inl r
                | Inr leaf \<Rightarrow> verify_jws_signature_with_leaf ec p0 p1 p2 leaf))))
      | _ \<Rightarrow> Inl MalformedJws)"

definition verify_apple_transaction_jws :: "'k ec_platform \<Rightarrow> string \<Rightarrow> int \<Rightarrow> apple_refusal + unit" where
  "verify_apple_transaction_jws ec jws now_ms =
     (case pinned_apple_root of
        None \<Rightarrow> Inl PinnedAnchorUnusable
      | Some anchor \<Rightarrow> verify_against_anchor ec jws anchor now_ms)"

section \<open>Environments\<close>

definition environment_is :: "string list \<Rightarrow> string option \<Rightarrow> bool" where
  "environment_is names e = (case e of None \<Rightarrow> False | Some s \<Rightarrow> s \<noteq> [] \<and> js_lower s \<in> set names)"

definition is_xcode_store_environment :: "string option \<Rightarrow> bool" where
  "is_xcode_store_environment e = environment_is [''xcode'', ''localtesting'', ''xcode.storekit''] e"

definition is_production_store_environment :: "string option \<Rightarrow> bool" where
  "is_production_store_environment e = environment_is [''production''] e"

definition is_sandbox_store_environment :: "string option \<Rightarrow> bool" where
  "is_sandbox_store_environment e = environment_is [''sandbox''] e"

end
