(* ===== verification/StoreRedeem.thy ===== *)
theory StoreRedeem
  imports AppleJws Media
begin

text \<open>
  src/src/store-products.ts and src/src/routes/store.ts: credit for a store purchase.  A purchase is
  known by its signed transaction, or by bare fields where the lab flag is set.
\<close>

section \<open>Products\<close>

definition APPLE_BUNDLE_ID :: string where "APPLE_BUNDLE_ID = ''org.skyphusion.prism''"
definition ANDROID_PACKAGE_NAME :: string where "ANDROID_PACKAGE_NAME = ''org.skyphusion.prism''"

definition STORE_PRODUCT_CREDIT_USD :: "(string \<times> int) list" where
  "STORE_PRODUCT_CREDIT_USD =
     [(''org.skyphusion.prism.credit.5'', 5), (''org.skyphusion.prism.credit.20'', 20),
      (''org.skyphusion.prism.credit.50'', 50)]"

text \<open>The names every object inherits, which \<open>in\<close> finds too.\<close>

definition OBJECT_PROTOTYPE_KEYS :: "string list" where
  "OBJECT_PROTOTYPE_KEYS =
     [''constructor'', ''__proto__'', ''__defineGetter__'', ''__defineSetter__'', ''__lookupGetter__'',
      ''__lookupSetter__'', ''hasOwnProperty'', ''isPrototypeOf'', ''propertyIsEnumerable'',
      ''toLocaleString'', ''toString'', ''valueOf'']"

text \<open>An inherited value is no finite number.\<close>

definition credit_micro_usd_for_product :: "string \<Rightarrow> int option" where
  "credit_micro_usd_for_product pid =
     (case map_of STORE_PRODUCT_CREDIT_USD pid of
        None \<Rightarrow> None
      | Some usd \<Rightarrow> if usd \<le> 0 then None else Some (usd * 1000000))"

definition is_known_store_product :: "string \<Rightarrow> bool" where
  "is_known_store_product pid =
     (pid \<in> set (List.map fst STORE_PRODUCT_CREDIT_USD) \<or> pid \<in> set OBJECT_PROTOTYPE_KEYS)"

section \<open>What is redeemed\<close>

datatype proof_kind = ByJws | ByXcode | ByTrustDecode

fun proof_name :: "proof_kind \<Rightarrow> string" where
  "proof_name ByJws = ''jws''"
| "proof_name ByXcode = ''xcode''"
| "proof_name ByTrustDecode = ''trust_decode''"

record redemption =
  rd_transaction_id :: string
  rd_product_id     :: string
  rd_bundle_id      :: string
  rd_environment    :: "string option"
  rd_verified       :: proof_kind

definition trust_decode :: "env \<Rightarrow> bool" where
  "trust_decode e = (js_lower (env_text (env_trust_decode e)) = ''true'')"

definition allow_sandbox_trust :: "env \<Rightarrow> bool" where
  "allow_sandbox_trust e = (js_lower (env_text (env_sandbox_trust e)) = ''true'')"

text \<open>The proof accepted for a decoded transaction, or none.\<close>

definition accepted_proof :: "env \<Rightarrow> string option \<Rightarrow> apple_refusal + unit \<Rightarrow> proof_kind option" where
  "accepted_proof e environment verdict =
     (if verdict = Inr () then Some ByJws
      else if is_xcode_store_environment environment then Some ByXcode
      else if is_sandbox_store_environment environment \<and> allow_sandbox_trust e then Some ByTrustDecode
      else if trust_decode e \<and> \<not> is_production_store_environment environment then Some ByTrustDecode
      else None)"

definition signed_redemption :: "'k ec_platform \<Rightarrow> env \<Rightarrow> string \<Rightarrow> int \<Rightarrow> redemption option" where
  "signed_redemption ec e jws now_ms =
     (case decode_apple_transaction_jws jws of
        None \<Rightarrow> None
      | Some d \<Rightarrow>
          map_option (\<lambda>how. \<lparr>rd_transaction_id = at_transaction_id d, rd_product_id = at_product_id d,
              rd_bundle_id = at_bundle_id d, rd_environment = at_environment d, rd_verified = how\<rparr>)
            (accepted_proof e (at_environment d) (verify_apple_transaction_jws ec jws now_ms)))"

text \<open>The first of two fields that is a text, trimmed; otherwise empty.\<close>

definition trimmed_field :: "js \<Rightarrow> string \<Rightarrow> string \<Rightarrow> string" where
  "trimmed_field raw a b =
     (case js_get raw a of JStr s \<Rightarrow> js_trim s
      | _ \<Rightarrow> (case js_get raw b of JStr s \<Rightarrow> js_trim s | _ \<Rightarrow> []))"

definition field_redemption :: "env \<Rightarrow> js \<Rightarrow> redemption option" where
  "field_redemption e raw =
     (let tid = trimmed_field raw ''transaction_id'' ''transactionId'';
          pid = trimmed_field raw ''product_id'' ''productId''
      in if tid = [] \<or> pid = [] then None
         else if \<not> trust_decode e then None
         else Some \<lparr>rd_transaction_id = tid, rd_product_id = pid, rd_bundle_id = APPLE_BUNDLE_ID,
                    rd_environment = Some (case js_get raw ''environment'' of JStr s \<Rightarrow> s | _ \<Rightarrow> ''Xcode''),
                    rd_verified = ByTrustDecode\<rparr>)"

definition redemption_of :: "'k ec_platform \<Rightarrow> env \<Rightarrow> js \<Rightarrow> int \<Rightarrow> redemption option" where
  "redemption_of ec e raw now_ms =
     (let jws = trimmed_field raw ''signed_transaction'' ''signedTransaction'' in
      if length jws > 20 then signed_redemption ec e jws now_ms else field_redemption e raw)"

section \<open>The door\<close>

record 'k redeem_ctx =
  rc_sha256      :: "string \<Rightarrow> string"
  rc_env         :: env
  rc_ec          :: "'k ec_platform"
  rc_request_id  :: string
  rc_grant_bytes :: string

definition redemption_grant :: "'k redeem_ctx \<Rightarrow> caller \<Rightarrow> redemption \<Rightarrow> int \<Rightarrow> grant_row" where
  "redemption_grant cx c rd micro =
     \<lparr>gr_id = new_id ''grant'' (rc_grant_bytes cx), gr_account_id = ac_id (ca_account c), gr_micro_usd = micro,
      gr_key = ''appstore:'' @ rd_transaction_id rd,
      gr_note = Some (''App Store '' @ rd_product_id rd @ '' tx='' @ rd_transaction_id rd @ '' env=''
        @ (case rd_environment rd of Some s \<Rightarrow> s | None \<Rightarrow> ''?'') @ '' client='' @ cl_id (ca_client c)
        @ '' verify='' @ proof_name (rd_verified rd))\<rparr>"

definition redemption_answer :: "caller \<Rightarrow> redemption \<Rightarrow> int \<Rightarrow> bool \<Rightarrow> int \<Rightarrow> account_row option \<Rightarrow> js" where
  "redemption_answer c rd micro done credit fresh =
     JObj [(''applied'', JBool done), (''transaction_id'', JStr (rd_transaction_id rd)),
       (''product_id'', JStr (rd_product_id rd)),
       (''credit_granted_micro_usd'', JNum (NInt (if done then micro else 0))),
       (''credit_micro_usd'', JNum (NInt credit)),
       (''spent_micro_usd'', JNum (NInt (ac_spent (case fresh of Some a \<Rightarrow> a | None \<Rightarrow> ca_account c)))),
       (''environment'', case rd_environment rd of Some s \<Rightarrow> JStr s | None \<Rightarrow> JNull),
       (''verified'', JStr (proof_name (rd_verified rd)))]"

definition apply_redemption ::
  "'k redeem_ctx \<Rightarrow> caller \<Rightarrow> redemption \<Rightarrow> (response, 'z handler_world_ext) m" where
  "apply_redemption cx c rd =
     (if rd_bundle_id rd \<noteq> APPLE_BUNDLE_ID \<or> \<not> is_known_store_product (rd_product_id rd)
      then retM (error_response (rc_request_id cx) Invalid_request)
      else case credit_micro_usd_for_product (rd_product_id rd) of
             None \<Rightarrow> retM (error_response (rc_request_id cx) Invalid_request)
           | Some micro \<Rightarrow>
               bindM (grant_credit (redemption_grant cx c rd micro)) (\<lambda>(done, credit).
               bindM (get_account (ac_id (ca_account c))) (\<lambda>fresh.
               retM (json_response (rc_request_id cx) (redemption_answer c rd micro done credit fresh) 200 []))))"

definition handle_store_redeem ::
  "'k redeem_ctx \<Rightarrow> request \<Rightarrow> (response, 'z handler_world_ext) m" where
  "handle_store_redeem cx rq =
     bindM (require_caller (rc_sha256 cx) (rc_request_id cx) rq) (\<lambda>r.
     case r of
       Inl resp \<Rightarrow> retM resp
     | Inr c \<Rightarrow>
         (case read_json_body MAX_BODY_BYTES rq of
            Inl f \<Rightarrow> retM (error_response (rc_request_id cx) (read_failure_code f))
          | Inr raw \<Rightarrow>
              bindM clock (\<lambda>t.
              case redemption_of (rc_ec cx) (rc_env cx) raw t of
                None \<Rightarrow> retM (error_response (rc_request_id cx) Invalid_request)
              | Some rd \<Rightarrow> apply_redemption cx c rd)))"

end
