(* ===== verification/SttStream.thy ===== *)
theory SttStream
  imports Account Tokens
begin

text \<open>
  src/src/flux-stt.ts, src/src/stt-util.ts and src/src/routes/stt-stream.ts: the ticket a browser
  mints for a live transcription, and the upgrade that checks the caller, the plan, the rate and the
  balance before it forwards a signed handoff to a fresh session object.  The session itself is in
  SttSession.
\<close>

section \<open>Constants and small helpers\<close>

definition FLUX_STT_MODEL :: string where "FLUX_STT_MODEL = ''@cf/deepgram/flux''"
definition FLUX_DEFAULT_UNIT_MICRO :: int where "FLUX_DEFAULT_UNIT_MICRO = 7700"
definition STT_WS_PROTOCOL :: string where "STT_WS_PROTOCOL = ''prism.v1''"
definition STT_TICKET_PREFIX :: string where "STT_TICKET_PREFIX = ''stt''"
definition STT_TICKET_TTL_SEC :: int where "STT_TICKET_TTL_SEC = 60"

definition sanitize_close_code :: "int \<Rightarrow> int" where
  "sanitize_close_code code = (if code = 1000 \<or> (3000 \<le> code \<and> code \<le> 4999) then code else 1011)"

text \<open>A duration of \<open>None\<close> is one that is not finite.\<close>

definition billable_audio_minutes :: "rat option \<Rightarrow> int" where
  "billable_audio_minutes duration_sec =
     (case duration_sec of
        None \<Rightarrow> 1
      | Some s \<Rightarrow> if s \<le> 0 then 1 else max 1 \<lceil>s / 60\<rceil>)"

section \<open>Tickets\<close>

definition parse_stt_ticket :: "string \<Rightarrow> string option" where
  "parse_stt_ticket raw =
     (case index_of ''_'' raw of
        None \<Rightarrow> None
      | Some first \<Rightarrow>
          if take first raw \<noteq> STT_TICKET_PREFIX then None
          else if \<not> secret_ok (drop (first + 1) raw) then None
          else Some raw)"

definition format_stt_ticket :: "string \<Rightarrow> string" where
  "format_stt_ticket secret = STT_TICKET_PREFIX @ ''_'' @ secret"

definition is_stt_stream_upgrade :: "request \<Rightarrow> string \<Rightarrow> bool" where
  "is_stt_stream_upgrade rq path =
     (path = ''/v1/stt/stream'' \<and> rq_method rq = ''GET''
      \<and> map_option js_lower (rq_header rq ''upgrade'') = Some ''websocket'')"

datatype stt_upgrade_auth = AuthClientKey string | AuthTicket string | AuthNone

definition auth_from_stt_upgrade :: "request \<Rightarrow> stt_upgrade_auth" where
  "auth_from_stt_upgrade rq =
     (case bearer_from_request rq of
        Some (c # cs) \<Rightarrow>
          if parse_client_key (c # cs) \<noteq> None then AuthClientKey (c # cs) else AuthNone
      | _ \<Rightarrow>
     (case rq_header rq ''sec-websocket-protocol'' of
        None \<Rightarrow> AuthNone
      | Some proto \<Rightarrow>
     (case List.filter (\<lambda>p. p \<noteq> []) (List.map js_trim (split_on CHR '','' proto)) of
        p # t # _ \<Rightarrow>
          if p = STT_WS_PROTOCOL \<and> parse_stt_ticket t \<noteq> None then AuthTicket t else AuthNone
      | _ \<Rightarrow> AuthNone)))"

text \<open>The bearer and the protocol to accept, of the deprecated reader.\<close>

definition bearer_from_stt_upgrade :: "request \<Rightarrow> string option \<times> string option" where
  "bearer_from_stt_upgrade rq =
     (case auth_from_stt_upgrade rq of
        AuthClientKey b \<Rightarrow> (Some b, None)
      | AuthTicket _ \<Rightarrow> (None, Some STT_WS_PROTOCOL)
      | AuthNone \<Rightarrow> (None, None))"

section \<open>The context\<close>

text \<open>The bindings are there or not; \<open>sx_secret_bytes\<close> and \<open>sx_id_bytes\<close> are the random draws.\<close>

record stt_ctx =
  sx_sha256       :: "string \<Rightarrow> string"
  sx_hash         :: platform_hash
  sx_env          :: env
  sx_session      :: bool
  sx_ai           :: bool
  sx_request_id   :: string
  sx_now          :: int
  sx_secret_bytes :: string
  sx_id_bytes     :: string

text \<open>The headers of the request that goes to the session object.\<close>

type_synonym handoff_headers = "(string \<times> string) list"

datatype upgrade_result = UpgradeAnswer response | UpgradeForward handoff_headers

section \<open>Minting a ticket\<close>

definition handle_create_stt_session ::
  "stt_ctx \<Rightarrow> request \<Rightarrow> (response, 'z handler_world_ext) m" where
  "handle_create_stt_session cx rq =
     (let rid = sx_request_id cx in
      bindM (require_caller (sx_sha256 cx) rid rq) (\<lambda>authed.
      case authed of
        Inl resp \<Rightarrow> retM resp
      | Inr c \<Rightarrow>
          (let ticket = format_stt_ticket (random_secret (sx_secret_bytes cx));
               expires = sx_now cx + STT_TICKET_TTL_SEC * 1000
           in bindM (create_stt_ticket (sha256_hex (sx_sha256 cx) ticket) (ac_id (ca_account c))
                       (cl_id (ca_client c)) expires) (\<lambda>_.
              retM (json_response rid (JObj
                [(''ticket'', JStr ticket), (''expires_at'', JStr (to_iso_string expires)),
                 (''expires_in'', js_int STT_TICKET_TTL_SEC), (''protocol'', JStr STT_WS_PROTOCOL),
                 (''stream_path'', JStr ''/v1/stt/stream'')]) 200 [])))))"

section \<open>Resolving the caller of an upgrade\<close>

text \<open>The request that is resolved on the key path: the bearer alone, without the protocol list.\<close>

definition bearer_request :: "request \<Rightarrow> string \<Rightarrow> request" where
  "bearer_request rq bearer =
     rq\<lparr>rq_headers := List.filter (\<lambda>h. fst h \<noteq> ''sec-websocket-protocol'')
          (set_header ''authorization'' (''Bearer '' @ bearer) (rq_headers rq)), rq_body := None\<rparr>"

definition resolve_ticket :: "stt_ctx \<Rightarrow> string \<Rightarrow> (response + caller, 'z) m" where
  "resolve_ticket cx ticket =
     (let rid = sx_request_id cx in
      bindM (consume_stt_ticket (sha256_hex (sx_sha256 cx) ticket)) (\<lambda>consumed.
      case consumed of
        None \<Rightarrow> retM (Inl (error_response rid Unauthenticated))
      | Some (account_id, client_id) \<Rightarrow>
      bindM (get_client client_id) (\<lambda>c.
      case c of
        None \<Rightarrow> retM (Inl (error_response rid Unauthenticated))
      | Some client \<Rightarrow>
          if cl_account_id client \<noteq> account_id then retM (Inl (error_response rid Unauthenticated))
          else if cl_revoked_at client \<noteq> None then retM (Inl (error_response rid Client_revoked))
          else
      bindM (get_account account_id) (\<lambda>a.
      case a of
        None \<Rightarrow> retM (Inl (error_response rid Unavailable))
      | Some account \<Rightarrow>
          if ac_suspended_at account \<noteq> None then retM (Inl (error_response rid Forbidden))
          else
      bindM (get_plan (ac_plan_id account)) (\<lambda>p.
      case p of
        None \<Rightarrow> retM (Inl (error_response rid Unavailable))
      | Some prow \<Rightarrow>
          retM (Inr \<lparr>ca_client = client, ca_account = account, ca_plan = prow\<rparr>))))))"

definition resolve_stt_caller ::
  "stt_ctx \<Rightarrow> request \<Rightarrow> stt_upgrade_auth \<Rightarrow> (response + caller \<times> string option, 'z) m" where
  "resolve_stt_caller cx rq auth =
     (let rid = sx_request_id cx in
      case auth of
        AuthNone \<Rightarrow> retM (Inl (error_response rid Unauthenticated))
      | AuthClientKey bearer \<Rightarrow>
          bindM (resolve_client (sx_sha256 cx) (bearer_request rq bearer)) (\<lambda>r.
          retM (case r of
                  Inl f \<Rightarrow> Inl (auth_failure_response rid f)
                | Inr c \<Rightarrow> Inr (c, None)))
      | AuthTicket ticket \<Rightarrow>
          bindM (resolve_ticket cx ticket) (\<lambda>r.
          retM (case r of
                  Inl resp \<Rightarrow> Inl resp
                | Inr c \<Rightarrow> Inr (c, Some STT_WS_PROTOCOL))))"

section \<open>The gate and the handoff\<close>

text \<open>What is left to spend, over both pools, against one minute of audio.\<close>

definition stt_remaining :: "account_row \<Rightarrow> plan \<Rightarrow> int \<Rightarrow> jsnum" where
  "stt_remaining account p allowance =
     js_add (remaining_allowance (NInt (plan_monthly_included p)) (NInt allowance))
            (remaining_micro_usd \<lparr>bs_credit = NInt (ac_credit account), bs_spent = NInt (ac_spent account)\<rparr>)"

definition below_one_minute :: "unit_price \<Rightarrow> account_row \<Rightarrow> plan \<Rightarrow> int \<Rightarrow> bool" where
  "below_one_minute u account p allowance =
     (js_lt (NInt 0) (up_micro u) \<and> js_lt (stt_remaining account p allowance) (up_micro u))"

definition stt_handoff_of :: "stt_ctx \<Rightarrow> caller \<Rightarrow> stt_handoff" where
  "stt_handoff_of cx c =
     \<lparr>ho_account_id = ac_id (ca_account c), ho_client_id = cl_id (ca_client c),
      ho_plan_id = ac_plan_id (ca_account c),
      ho_request_id = (if sx_request_id cx = [] then new_id ''req'' (sx_id_bytes cx) else sx_request_id cx),
      ho_model_id = FLUX_STT_MODEL, ho_exp = NInt (sx_now cx div 1000 + STT_HANDOFF_TTL_SEC)\<rparr>"

definition handoff_headers_of :: "stt_handoff \<Rightarrow> string \<Rightarrow> string option \<Rightarrow> handoff_headers" where
  "handoff_headers_of h sig proto =
     [(''upgrade'', ''websocket''), (''x-prism-account-id'', ho_account_id h),
      (''x-prism-client-id'', ho_client_id h), (''x-prism-plan-id'', ho_plan_id h),
      (''x-prism-request-id'', ho_request_id h), (''x-prism-model-id'', ho_model_id h),
      (''x-prism-exp'', js_num_string (ho_exp h)), (''x-prism-sig'', sig)]
     @ (case proto of Some p \<Rightarrow> [(''x-prism-ws-protocol'', p)] | None \<Rightarrow> [])"

definition forward_session :: "stt_ctx \<Rightarrow> caller \<Rightarrow> string option \<Rightarrow> upgrade_result" where
  "forward_session cx c proto =
     (case require_handoff_secret (env_aig_token (sx_env cx)) of
        None \<Rightarrow> UpgradeAnswer (error_response (sx_request_id cx) Unavailable)
      | Some secret \<Rightarrow>
          (let h = stt_handoff_of cx c
           in UpgradeForward (handoff_headers_of h (sign_stt_handoff (sx_hash cx) secret h) proto)))"

definition balance_gate ::
  "stt_ctx \<Rightarrow> caller \<Rightarrow> plan \<Rightarrow> unit_price \<Rightarrow> string option \<Rightarrow> (upgrade_result, 'z) m" where
  "balance_gate cx c p price proto =
     (let rid = sx_request_id cx; account = ca_account c; bounds = period_bounds_of (sx_now cx) in
      bindM (get_period (ac_id account) (pb_key bounds)) (\<lambda>period.
      retM (case decide_balance (chat_pools account p (allowance_spent period)) of
          BalExhausted _ _ _ \<Rightarrow>
            UpgradeAnswer (error_response_with rid Quota_exhausted
              [(''period'', JStr (pb_key bounds)), (''resets_at'', JStr (pb_end bounds))] [])
        | BalIndeterminate _ _ \<Rightarrow> UpgradeAnswer (error_response rid Unavailable)
        | BalAllow _ _ _ \<Rightarrow>
            if below_one_minute price account p (allowance_spent period) then
              UpgradeAnswer (error_response_with rid Quota_exhausted [(''period'', JStr (pb_key bounds))] [])
            else forward_session cx c proto)))"

definition admit_session ::
  "stt_ctx \<Rightarrow> caller \<Rightarrow> string option \<Rightarrow> (upgrade_result, 'z) m" where
  "admit_session cx c proto =
     (let rid = sx_request_id cx; refuse = (\<lambda>code. retM (UpgradeAnswer (error_response rid code))) in
      case plan_from_row (ca_plan c) of
        Inl _ \<Rightarrow> refuse Unavailable
      | Inr p \<Rightarrow>
     (case find_model FLUX_STT_MODEL of
        None \<Rightarrow> refuse Model_not_found
      | Some m \<Rightarrow>
          if \<not> entitles_tier p (ce_tier m) then refuse Model_not_entitled
          else
      bindM (get_model_price (ce_id m)) (\<lambda>row.
      case resolve_unit_price m row of
        None \<Rightarrow> refuse Model_unpriced
      | Some price \<Rightarrow>
      bindM (check_rate_limit (inference_bucket (ac_id (ca_account c)))
               (plan_requests_per_minute p) RATE_WINDOW_SECONDS) (\<lambda>rate.
      if \<not> rl_allowed rate then
        retM (UpgradeAnswer (error_response_with rid Rate_limited []
                [(''retry-after'', dec_of_int (rl_retry_after rate))]))
      else balance_gate cx c p price proto))))"

definition handle_stt_stream_upgrade :: "stt_ctx \<Rightarrow> request \<Rightarrow> (upgrade_result, 'z) m" where
  "handle_stt_stream_upgrade cx rq =
     (let rid = sx_request_id cx in
      if \<not> sx_session cx \<or> \<not> sx_ai cx then retM (UpgradeAnswer (error_response rid Unavailable))
      else
        (let auth = auth_from_stt_upgrade rq in
         if auth = AuthNone then retM (UpgradeAnswer (error_response rid Unauthenticated))
         else bindM (resolve_stt_caller cx rq auth) (\<lambda>resolved.
              case resolved of
                Inl resp \<Rightarrow> retM (UpgradeAnswer resp)
              | Inr (c, proto) \<Rightarrow> admit_session cx c proto)))"

end
