(* ===== verification/Router.thy ===== *)
theory Router
  imports Nonchat StoreRedeem CatalogRefresh SttStream
begin

text \<open>
  src/src/index.ts: the route table and the worker's entry.  One context serves every route; each
  handler's own context is a view of it.  The runners, the credential source and the log feed of the
  context are parameters here: what the entry builds them from is in Upstream, Nonchat and Env.
\<close>

section \<open>The context\<close>

text \<open>\<open>wx_random\<close> numbers the random draws of a request; \<open>wx_session\<close> and \<open>wx_ai\<close> say whether the
  session object and the AI binding are configured.\<close>

record ('z, 'k) worker_ctx = "'z plane_ctx" +
  wx_logs    :: "log_source option"
  wx_compat  :: "compat_request \<Rightarrow> exn + http_reply"
  wx_ec      :: "'k ec_platform"
  wx_session :: bool
  wx_ai      :: bool
  wx_random  :: "nat \<Rightarrow> string"

definition op_view :: "('z, 'k) worker_ctx \<Rightarrow> op_ctx" where
  "op_view cx =
     \<lparr>oc_sha256 = cx_sha256 cx, oc_env = nx_env cx, oc_logs = wx_logs cx,
      oc_request_id = cx_request_id cx, oc_now = cx_now cx, oc_random = wx_random cx\<rparr>"

definition stt_view :: "('z, 'k) worker_ctx \<Rightarrow> stt_ctx" where
  "stt_view cx =
     \<lparr>sx_sha256 = cx_sha256 cx, sx_hash = nx_hash cx, sx_env = nx_env cx, sx_session = wx_session cx,
      sx_ai = wx_ai cx, sx_request_id = cx_request_id cx, sx_now = cx_now cx,
      sx_secret_bytes = wx_random cx 0, sx_id_bytes = wx_random cx 1\<rparr>"

definition redeem_view :: "('z, 'k) worker_ctx \<Rightarrow> 'k redeem_ctx" where
  "redeem_view cx =
     \<lparr>rc_sha256 = cx_sha256 cx, rc_env = nx_env cx, rc_ec = wx_ec cx,
      rc_request_id = cx_request_id cx, rc_grant_bytes = wx_random cx 0\<rparr>"

section \<open>Routes\<close>

datatype route =
    SttUpgrade | Health | DeepHealth | MediaIngress string | MediaDownload string
  | CreateSttSession | Enroll | Me | Models | Usage | ListJobs | ChatCompletions
  | ImageGenerations | AudioSpeech | AudioTranscriptions | VideoGenerations | MusicGenerations
  | GetJob string | Redeem | CreateAccount | CreateEnrollment | UpsertPlan | SetModelPrice
  | RunReconcile | RefreshCatalog | RevokeClient string | GrantCredit string | NoRoute

text \<open>\<open>pathname.replace(/\/+$/, "") || "/"\<close>.\<close>

definition route_path :: "string \<Rightarrow> string" where
  "route_path pathname =
     (let p = rev (dropWhile (\<lambda>c. c = CHR ''/'') (rev pathname)) in if p = [] then ''/'' else p)"

text \<open>\<open>toUpperCase\<close> on the characters a method can have.\<close>

definition upper_char :: "char \<Rightarrow> char" where
  "upper_char c = (let n = ord_of c in if 97 \<le> n \<and> n \<le> 122 then char_of (nat (n - 32)) else c)"

text \<open>The identifier of \<open>prefix/<id>/suffix\<close>, one to 64 letters, digits, dashes or underscores.\<close>

definition path_id :: "string \<Rightarrow> string \<Rightarrow> string \<Rightarrow> string option" where
  "path_id prefix suffix path =
     (if \<not> starts_with prefix path \<or> \<not> ends_with suffix path
         \<or> length path < length prefix + length suffix then None
      else (let i = take (length path - length prefix - length suffix) (drop (length prefix) path)
            in if slug_ok i then Some i else None))"

definition route_of :: "request \<Rightarrow> route" where
  "route_of rq =
     (let path = route_path (rq_path rq); method = List.map upper_char (rq_method rq);
          is = (\<lambda>m p. method = m \<and> path = p)
      in if path = ''/v1/stt/stream'' \<and> is_stt_stream_upgrade rq path then SttUpgrade
      else if is ''GET'' ''/health'' then Health
      else if is ''GET'' ''/health/deep'' then DeepHealth
      else case (match_media_ingress path, match_media_download path) of
        (ingress, download) \<Rightarrow>
      if ingress \<noteq> None \<and> (method = ''PUT'' \<or> method = ''POST'') then MediaIngress (the ingress)
      else if download \<noteq> None \<and> (method = ''GET'' \<or> method = ''HEAD'') then MediaDownload (the download)
      else if is ''POST'' ''/v1/stt/sessions'' then CreateSttSession
      else if is ''POST'' ''/v1/clients'' then Enroll
      else if is ''GET'' ''/v1/me'' then Me
      else if is ''GET'' ''/v1/models'' then Models
      else if is ''GET'' ''/v1/usage'' then Usage
      else if is ''GET'' ''/v1/jobs'' then ListJobs
      else if is ''POST'' ''/v1/chat/completions'' then ChatCompletions
      else if is ''POST'' ''/v1/images/generations'' then ImageGenerations
      else if is ''POST'' ''/v1/audio/speech'' then AudioSpeech
      else if is ''POST'' ''/v1/audio/transcriptions'' then AudioTranscriptions
      else if is ''POST'' ''/v1/videos/generations'' then VideoGenerations
      else if is ''POST'' ''/v1/music/generations'' then MusicGenerations
      else if match_job_path path \<noteq> None \<and> method = ''GET'' then GetJob (the (match_job_path path))
      else if is ''POST'' ''/v1/store/redeem'' then Redeem
      else if is ''POST'' ''/admin/accounts'' then CreateAccount
      else if is ''POST'' ''/admin/enrollments'' then CreateEnrollment
      else if is ''POST'' ''/admin/plans'' then UpsertPlan
      else if is ''POST'' ''/admin/model-prices'' then SetModelPrice
      else if is ''POST'' ''/admin/reconcile'' then RunReconcile
      else if is ''POST'' ''/admin/catalog/refresh'' then RefreshCatalog
      else if method = ''POST'' \<and> path_id ''/admin/clients/'' ''/revoke'' path \<noteq> None
        then RevokeClient (the (path_id ''/admin/clients/'' ''/revoke'' path))
      else if method = ''POST'' \<and> path_id ''/admin/accounts/'' ''/credits'' path \<noteq> None
        then GrantCredit (the (path_id ''/admin/accounts/'' ''/credits'' path))
      else NoRoute)"

section \<open>Dispatch\<close>

text \<open>What the worker gives back: a response, a chat answer, which may be a stream to relay, or a
  request to forward to a fresh session object.\<close>

datatype worker_answer = Answered response | AnsweredChat chat_answer | ForwardedSession handoff_headers

definition answered :: "(response, 'z) m \<Rightarrow> (worker_answer, 'z) m" where
  "answered c = bindM c (\<lambda>r. retM (Answered r))"

fun upgrade_answer :: "upgrade_result \<Rightarrow> worker_answer" where
  "upgrade_answer (UpgradeAnswer r) = Answered r"
| "upgrade_answer (UpgradeForward hs) = ForwardedSession hs"

definition handle_request ::
  "nat \<Rightarrow> ('z, 'k) worker_ctx \<Rightarrow> request \<Rightarrow> (worker_answer, 'z) p" where
  "handle_request fuel cx rq =
     (let rid = cx_request_id cx; op = op_view cx; stt = stt_view cx in
      case route_of rq of
        SttUpgrade \<Rightarrow> bindM (handle_stt_stream_upgrade stt rq) (\<lambda>r. retM (upgrade_answer r))
      | Health \<Rightarrow> retM (Answered (handle_health rid))
      | DeepHealth \<Rightarrow> answered (handle_deep_health op (cx_credentials cx \<noteq> None))
      | MediaIngress tok \<Rightarrow> answered (handle_media_ingress (nx_hash cx) (nx_env cx) (nx_media cx) rq tok rid)
      | MediaDownload tok \<Rightarrow> answered (handle_media_download (nx_hash cx) (nx_env cx) (nx_media cx) rq tok rid)
      | CreateSttSession \<Rightarrow> answered (handle_create_stt_session stt rq)
      | Enroll \<Rightarrow> answered (handle_enroll op rq)
      | Me \<Rightarrow> answered (handle_me cx rq)
      | Models \<Rightarrow> answered (handle_models cx rq)
      | Usage \<Rightarrow> answered (handle_usage cx rq)
      | ListJobs \<Rightarrow> answered (handle_list_jobs cx rq)
      | ChatCompletions \<Rightarrow> bindM (handle_chat cx rq) (\<lambda>r. retM (AnsweredChat r))
      | ImageGenerations \<Rightarrow> answered (handle_image_generations cx rq)
      | AudioSpeech \<Rightarrow> answered (handle_audio_speech cx rq)
      | AudioTranscriptions \<Rightarrow> answered (handle_audio_transcriptions cx rq)
      | VideoGenerations \<Rightarrow> answered (handle_video_generations cx rq)
      | MusicGenerations \<Rightarrow> answered (handle_music_generations cx rq)
      | GetJob i \<Rightarrow> answered (handle_get_job cx rq i)
      | Redeem \<Rightarrow> answered (handle_store_redeem (redeem_view cx) rq)
      | CreateAccount \<Rightarrow> answered (handle_create_account op rq)
      | CreateEnrollment \<Rightarrow> answered (handle_create_enrollment op rq)
      | UpsertPlan \<Rightarrow> answered (handle_upsert_plan op rq)
      | SetModelPrice \<Rightarrow> answered (handle_set_model_price op rq)
      | RunReconcile \<Rightarrow> answered (handle_reconcile fuel op rq)
      | RefreshCatalog \<Rightarrow> answered (handle_catalog_refresh (wx_compat cx) op rq)
      | RevokeClient i \<Rightarrow> answered (handle_revoke_client op rq i)
      | GrantCredit i \<Rightarrow> answered (handle_grant_credit op rq i)
      | NoRoute \<Rightarrow> retM (Answered (error_response rid Not_found)))"

text \<open>The entry: the last line of defence turns whatever escapes into an answer.\<close>

definition worker_fetch ::
  "nat \<Rightarrow> ('z, 'k) worker_ctx \<Rightarrow> request \<Rightarrow> (worker_answer, 'z) p" where
  "worker_fetch fuel cx rq =
     catchM (handle_request fuel cx rq) (\<lambda>_. retM (Answered (error_response (cx_request_id cx) Internal)))"

end
