(* ===== verification/SttSession.thy ===== *)
theory SttSession
  imports SttStream
begin

text \<open>
  src/src/stt-session.ts: the session object of a live transcription.  It accepts a signed handoff,
  opens the model's socket, relays frames between the two sockets, and charges the minutes when the
  session ends.  The object's storage outlives its memory: an eviction forgets the open socket, the
  timer and the flag of finalization, and keeps the table.  The object's own storage does not fail
  here; the ledger's statements may, as everywhere.
\<close>

section \<open>State\<close>

definition FLUX_MAX_SESSION_MS :: int where "FLUX_MAX_SESSION_MS = 15 * 60 * 1000"

text \<open>\<open>ss_meta\<close> is the table of the object; the other fields are its memory, and \<open>ss_sockets\<close> the
  client sockets the platform holds for it.\<close>

record stt_session =
  ss_meta      :: "(string \<times> string) list"
  ss_upstream  :: bool
  ss_finalized :: bool
  ss_timer     :: bool
  ss_sockets   :: nat

definition new_session :: stt_session where
  "new_session = \<lparr>ss_meta = [], ss_upstream = False, ss_finalized = False, ss_timer = False, ss_sockets = 0\<rparr>"

record stt_run_options =
  ro_gateway  :: "(string \<times> (string \<times> string) list) option"
  ro_headers  :: "(string \<times> string) list"

datatype stt_effect =
    OpenModel string stt_run_options
  | SendClient string
  | SendModel string
  | CloseClient int
  | CloseModel int

record stt_world = world +
  sw_session :: stt_session
  sw_effects :: "stt_effect list"

type_synonym ('a, 'z) s = "('a, 'z stt_world_ext) m"

definition effect :: "stt_effect \<Rightarrow> (unit, 'z) s" where
  "effect e = (\<lambda>w. (Inr (), w\<lparr>sw_effects := sw_effects w @ [e]\<rparr>))"

definition session :: "(stt_session, 'z) s" where
  "session = (\<lambda>w. (Inr (sw_session w), w))"

definition update_session :: "(stt_session \<Rightarrow> stt_session) \<Rightarrow> (unit, 'z) s" where
  "update_session f = (\<lambda>w. (Inr (), w\<lparr>sw_session := f (sw_session w)\<rparr>))"

definition time_now :: "(int, 'z) s" where
  "time_now = (\<lambda>w. (Inr (w_now w), w))"

text \<open>\<open>INSERT OR REPLACE INTO meta\<close>.\<close>

definition put_meta :: "(string \<times> string) list \<Rightarrow> stt_session \<Rightarrow> stt_session" where
  "put_meta kvs s = s\<lparr>ss_meta := fold (\<lambda>(k, v) m. set_header k v m) kvs (ss_meta s)\<rparr>"

record stt_meta =
  sm_account_id     :: string
  sm_client_id      :: string
  sm_plan_id        :: string
  sm_request_id     :: string
  sm_model_id       :: string
  sm_started_ms     :: rat
  sm_gateway_log_id :: "string option"

text \<open>A missing or empty identifier makes the whole record unreadable.\<close>

definition read_meta :: "int \<Rightarrow> stt_session \<Rightarrow> stt_meta option" where
  "read_meta now s =
     (let field = (\<lambda>k. case get_header k (ss_meta s) of Some v \<Rightarrow> v | None \<Rightarrow> []);
          started = (case get_header ''started_ms'' (ss_meta s) of Some v \<Rightarrow> js_Number v | None \<Rightarrow> NInt now)
      in if field ''account_id'' = [] \<or> field ''client_id'' = [] \<or> field ''plan_id'' = []
            \<or> field ''request_id'' = [] then None
         else Some
           \<lparr>sm_account_id = field ''account_id'', sm_client_id = field ''client_id'',
            sm_plan_id = field ''plan_id'', sm_request_id = field ''request_id'',
            sm_model_id = (case get_header ''model_id'' (ss_meta s) of Some v \<Rightarrow> v | None \<Rightarrow> FLUX_STT_MODEL),
            sm_started_ms = (if is_finite_num started then rat_of_num started else of_int now),
            sm_gateway_log_id = get_header ''gateway_log_id'' (ss_meta s)\<rparr>)"

section \<open>Charging a session\<close>

text \<open>The wall clock of the session, capped.\<close>

definition session_minutes :: "int \<Rightarrow> stt_meta \<Rightarrow> int" where
  "session_minutes now mt =
     billable_audio_minutes (Some (min (max 0 ((of_int now - sm_started_ms mt) / 1000))
                                       (of_int FLUX_MAX_SESSION_MS / 1000)))"

definition session_rate :: "stt_meta \<Rightarrow> model_price_row option \<Rightarrow> jsnum" where
  "session_rate mt row =
     (case Option.bind (find_model (sm_model_id mt)) (\<lambda>entry. resolve_unit_price entry row) of
        Some u \<Rightarrow> if up_unit u = AudioMinute then up_micro u else NInt FLUX_DEFAULT_UNIT_MICRO
      | None \<Rightarrow> NInt FLUX_DEFAULT_UNIT_MICRO)"

definition session_event ::
  "stt_meta \<Rightarrow> string \<Rightarrow> string \<Rightarrow> string \<Rightarrow> client_row \<Rightarrow> int \<Rightarrow> int \<Rightarrow> int \<Rightarrow> string option \<Rightarrow> usage_event" where
  "session_event mt bytes key account_id client micro fa fc reason =
     \<lparr>ue_id = new_id ''use'' bytes, ue_request_id = sm_request_id mt, ue_account_id = account_id,
      ue_client_id = cl_id client, ue_model_id = sm_model_id mt, ue_period_key = key,
      ue_input_tokens = None, ue_output_tokens = None, ue_micro_usd = micro,
      ue_from_allowance = fa, ue_from_credit = fc, ue_metered = (reason = None),
      ue_price_basis = (if reason = None then Measured else Unpriced),
      ue_unmetered_reason = map_option ReasonText reason, ue_upstream_status = Some 101,
      ue_gateway_log_id = sm_gateway_log_id mt\<rparr>"

text \<open>The refusals of the second look at the owner, each with the account its row goes to; what a
  plan row lacks is left out of the text.\<close>

definition session_refusal ::
  "stt_meta \<Rightarrow> int \<Rightarrow> client_row \<Rightarrow> account_row \<Rightarrow> plan_row option \<Rightarrow> (string \<times> string) + plan" where
  "session_refusal mt units client account prow =
     (let served = dec_of_int units @ '' audio minute(s) served and not charged'' in
      if cl_account_id client \<noteq> ac_id account \<or> cl_account_id client \<noteq> sm_account_id mt then
        Inl (cl_account_id client,
             ''client/account mismatch at finalize: session meta claimed account '' @ sm_account_id mt
             @ '', client '' @ cl_id client @ '' belongs to '' @ cl_account_id client @ ''. ''
             @ dec_of_int units @ '' audio minute(s) served and deliberately not charged'')
      else if cl_revoked_at client \<noteq> None then
        Inl (ac_id account, ''client '' @ cl_id client @ '' was revoked before the session closed; '' @ served)
      else if ac_suspended_at account \<noteq> None then
        Inl (ac_id account, ''account '' @ ac_id account @ '' was suspended before the session closed; '' @ served)
      else case prow of
        None \<Rightarrow> Inl (ac_id account, ''plan '' @ sm_plan_id mt
                  @ '' no longer exists, so no allowance split can be computed; '' @ served)
      | Some row \<Rightarrow>
     (case plan_from_row row of
        Inl _ \<Rightarrow> Inl (ac_id account, ''plan '' @ sm_plan_id mt @ '' is unusable; '' @ served)
      | Inr p \<Rightarrow>
          if (case find_model (sm_model_id mt) of Some m \<Rightarrow> entitles_tier p (ce_tier m) | None \<Rightarrow> False)
          then Inr p
          else Inl (ac_id account, ''model '' @ sm_model_id mt @ '' is no longer entitled under plan ''
                 @ plan_id p @ ''; '' @ served)))"

definition charge_session ::
  "string \<Rightarrow> stt_meta \<Rightarrow> client_row \<Rightarrow> account_row \<Rightarrow> plan \<Rightarrow> string \<Rightarrow> int \<Rightarrow> (unit, 'z) m" where
  "charge_session bytes mt client account p key micro =
     bindM (get_period (ac_id account) key) (\<lambda>period.
     let split = allocate_charge (NInt micro) (NInt (plan_monthly_included p)) (NInt (allowance_spent period));
         fa = (if micro > 0 then int_of_num (ca_from_allowance split) else 0);
         fc = (if micro > 0 then int_of_num (ca_from_credit split) else 0)
     in record_usage (session_event mt bytes key (ac_id account) client micro fa fc None))"

text \<open>The try block of \<open>finalize\<close>; the clock is read again for the period.\<close>

definition meter_session :: "string \<Rightarrow> stt_meta \<Rightarrow> int \<Rightarrow> (unit, 'z) s" where
  "meter_session bytes mt units =
     bindM (case find_model (sm_model_id mt) of
              None \<Rightarrow> retM None
            | Some entry \<Rightarrow> get_model_price (ce_id entry)) (\<lambda>row.
     bindM (get_client (sm_client_id mt)) (\<lambda>c.
     bindM (get_account (sm_account_id mt)) (\<lambda>a.
     bindM (get_plan (sm_plan_id mt)) (\<lambda>prow.
     case (c, a) of
       (Some client, Some account) \<Rightarrow>
         bindM time_now (\<lambda>now.
         let key = period_key now; micro = int_of_num (js_mul (NInt units) (session_rate mt row)) in
         case session_refusal mt units client account prow of
           Inl (account_id, reason) \<Rightarrow>
             record_usage (session_event mt bytes key account_id client 0 0 0 (Some reason))
         | Inr p \<Rightarrow> charge_session bytes mt client account p key micro)
     | _ \<Rightarrow> retM ()))))"

definition finalize :: "string \<Rightarrow> (unit, 'z) s" where
  "finalize bytes =
     bindM session (\<lambda>s.
     if ss_finalized s then retM ()
     else
       bindM (update_session (\<lambda>s. s\<lparr>ss_finalized := True, ss_timer := False\<rparr>)) (\<lambda>_.
       bindM time_now (\<lambda>now.
       case read_meta now s of
         None \<Rightarrow> retM ()
       | Some mt \<Rightarrow> catchM (meter_session bytes mt (session_minutes now mt)) (\<lambda>_. retM ()))))"

section \<open>Opening\<close>

datatype session_answer =
    SessionError error_code nat
  | SessionUpgraded "string option"

text \<open>What running the model over a socket comes to: a thrown error, or a socket or none, with the
  log id the binding shows afterwards.\<close>

datatype model_open = OpenThrew | Opened bool "string option"

record session_env =
  se_hash     :: platform_hash
  se_env      :: env
  se_ai       :: "(string \<Rightarrow> stt_run_options \<Rightarrow> model_open) option"
  se_id_bytes :: string

definition run_options_of :: "env \<Rightarrow> stt_handoff \<Rightarrow> stt_run_options" where
  "run_options_of e h =
     (let gid = env_text (env_gateway_id e) in
      if gid = [] then \<lparr>ro_gateway = None, ro_headers = []\<rparr>
      else \<lparr>ro_gateway = Some (gid,
              [(''account_id'', ho_account_id h), (''client_id'', ho_client_id h),
               (''plan_id'', ho_plan_id h), (''request_id'', ho_request_id h)]),
            ro_headers = [(''cf-aig-collect-log-payload'', ''false'')]\<rparr>)"

definition open_model ::
  "(string \<Rightarrow> stt_run_options \<Rightarrow> model_open) \<Rightarrow> env \<Rightarrow> stt_handoff \<Rightarrow> string option \<Rightarrow> (session_answer, 'z) s" where
  "open_model run e h proto =
     (let opts = run_options_of e h in
      bindM (effect (OpenModel FLUX_STT_MODEL opts)) (\<lambda>_.
      case run FLUX_STT_MODEL opts of
        OpenThrew \<Rightarrow> retM (SessionError Upstream_error 502)
      | Opened socket log_id \<Rightarrow>
          bindM (case log_id of
                   Some (c # cs) \<Rightarrow> update_session (put_meta [(''gateway_log_id'', c # cs)])
                 | _ \<Rightarrow> retM ()) (\<lambda>_.
          if \<not> socket then retM (SessionError Upstream_error 502)
          else
            bindM (update_session (\<lambda>s. s\<lparr>ss_upstream := True, ss_sockets := ss_sockets s + 1, ss_timer := True\<rparr>)) (\<lambda>_.
            retM (SessionUpgraded (if proto = Some STT_WS_PROTOCOL then Some STT_WS_PROTOCOL else None))))))"

definition session_fetch :: "session_env \<Rightarrow> handoff_headers \<Rightarrow> (session_answer, 'z) s" where
  "session_fetch se hs =
     (let field = (\<lambda>k. case get_header k hs of Some v \<Rightarrow> v | None \<Rightarrow> []);
          request_id = (case get_header ''x-prism-request-id'' hs of
                          Some v \<Rightarrow> v | None \<Rightarrow> new_id ''req'' (se_id_bytes se));
          model_id = (case get_header ''x-prism-model-id'' hs of Some v \<Rightarrow> v | None \<Rightarrow> FLUX_STT_MODEL);
          expires = js_Number (field ''x-prism-exp'');
          h = \<lparr>ho_account_id = field ''x-prism-account-id'', ho_client_id = field ''x-prism-client-id'',
               ho_plan_id = field ''x-prism-plan-id'', ho_request_id = request_id,
               ho_model_id = model_id, ho_exp = expires\<rparr>
      in if field ''x-prism-account-id'' = [] \<or> field ''x-prism-client-id'' = []
            \<or> field ''x-prism-plan-id'' = [] \<or> field ''x-prism-sig'' = [] \<or> field ''x-prism-exp'' = []
         then retM (SessionError Internal 500)
         else if model_id \<noteq> FLUX_STT_MODEL then retM (SessionError Invalid_request 400)
         else case require_handoff_secret (env_aig_token (se_env se)) of
           None \<Rightarrow> retM (SessionError Unavailable 503)
         | Some secret \<Rightarrow>
             if \<not> is_integer expires \<or> js_le expires (NInt 0) then retM (SessionError Forbidden 403)
             else bindM time_now (\<lambda>now.
               if \<not> verify_stt_handoff (se_hash se) secret h (field ''x-prism-sig'') (now div 1000)
               then retM (SessionError Forbidden 403)
               else
                 bindM (update_session (put_meta
                   [(''account_id'', ho_account_id h), (''client_id'', ho_client_id h),
                    (''plan_id'', ho_plan_id h), (''request_id'', request_id), (''model_id'', model_id),
                    (''started_ms'', dec_of_int now)])) (\<lambda>_.
                 case se_ai se of
                   None \<Rightarrow> retM (SessionError Unavailable 503)
                 | Some run \<Rightarrow> open_model run (se_env se) h (get_header ''x-prism-ws-protocol'' hs))))"

section \<open>The open session\<close>

definition to_clients :: "stt_effect \<Rightarrow> (unit, 'z) s" where
  "to_clients e = (\<lambda>w. (Inr (), w\<lparr>sw_effects := sw_effects w @ replicate (ss_sockets (sw_session w)) e\<rparr>))"

definition close_model :: "int \<Rightarrow> (unit, 'z) s" where
  "close_model code =
     bindM session (\<lambda>s. if ss_upstream s then effect (CloseModel code) else retM ())"

definition on_client_message :: "string \<Rightarrow> string \<Rightarrow> (unit, 'z) s" where
  "on_client_message bytes message =
     bindM session (\<lambda>s.
     if ss_upstream s then effect (SendModel message)
     else bindM (effect (CloseClient 1011)) (\<lambda>_. finalize bytes))"

definition drop_upstream :: "int \<Rightarrow> string \<Rightarrow> (unit, 'z) s" where
  "drop_upstream code bytes =
     bindM (close_model code) (\<lambda>_.
     bindM (update_session (\<lambda>s. s\<lparr>ss_upstream := False\<rparr>)) (\<lambda>_.
     finalize bytes))"

definition on_client_close :: "string \<Rightarrow> int \<Rightarrow> (unit, 'z) s" where
  "on_client_close bytes code = drop_upstream (sanitize_close_code code) bytes"

definition on_client_error :: "string \<Rightarrow> (unit, 'z) s" where
  "on_client_error bytes = drop_upstream 1011 bytes"

definition on_timer :: "string \<Rightarrow> (unit, 'z) s" where
  "on_timer bytes =
     bindM (to_clients (CloseClient 1000)) (\<lambda>_.
     bindM (close_model 1000) (\<lambda>_.
     finalize bytes))"

datatype stt_input =
    ClientMessage string
  | ClientClosed int
  | ClientFailed
  | ModelMessage string
  | ModelClosed int
  | ModelFailed
  | TimerFired
  | Evicted

text \<open>One event of an open session: the platform removes a socket that closed before it tells, and
  fires only a timer that is set; an eviction loses the memory of the object.\<close>

definition session_input :: "string \<Rightarrow> stt_input \<Rightarrow> (unit, 'z) s" where
  "session_input bytes i =
     (case i of
        ClientMessage msg \<Rightarrow> on_client_message bytes msg
      | ClientClosed code \<Rightarrow>
          bindM (update_session (\<lambda>s. s\<lparr>ss_sockets := ss_sockets s - 1\<rparr>)) (\<lambda>_. on_client_close bytes code)
      | ClientFailed \<Rightarrow>
          bindM (update_session (\<lambda>s. s\<lparr>ss_sockets := ss_sockets s - 1\<rparr>)) (\<lambda>_. on_client_error bytes)
      | ModelMessage msg \<Rightarrow> to_clients (SendClient msg)
      | ModelClosed code \<Rightarrow> to_clients (CloseClient (sanitize_close_code code))
      | ModelFailed \<Rightarrow> to_clients (CloseClient 1011)
      | TimerFired \<Rightarrow> bindM session (\<lambda>s. if ss_timer s then on_timer bytes else retM ())
      | Evicted \<Rightarrow> update_session (\<lambda>s. s\<lparr>ss_upstream := False, ss_finalized := False, ss_timer := False\<rparr>))"

text \<open>A session: the handoff, then events in any order, each with the random bytes it may draw.\<close>

fun session_inputs :: "(string \<times> stt_input) list \<Rightarrow> (unit, 'z) s" where
  "session_inputs [] = retM ()"
| "session_inputs ((bytes, i) # is) = bindM (session_input bytes i) (\<lambda>_. session_inputs is)"

definition run_session ::
  "session_env \<Rightarrow> handoff_headers \<Rightarrow> (string \<times> stt_input) list \<Rightarrow> (session_answer, 'z) s" where
  "run_session se hs is =
     bindM (session_fetch se hs) (\<lambda>answer.
     case answer of
       SessionError _ _ \<Rightarrow> retM answer
     | SessionUpgraded _ \<Rightarrow> bindM (session_inputs is) (\<lambda>_. retM answer))"

end
