(* ===== verification/SttProps.thy ===== *)
theory SttProps
  imports SttSession ChatProps
begin

text \<open>
  What a live transcription may do to the ledger, whatever fails and in whatever order the events of
  its sockets come, and what an upgrade has checked before it hands over.
\<close>

section \<open>The minutes and the rate\<close>

lemma billable_minutes_capped:
  assumes "s \<le> of_int FLUX_MAX_SESSION_MS / 1000"
  shows "1 \<le> billable_audio_minutes (Some s) \<and> billable_audio_minutes (Some s) \<le> 15"
proof -
  have "s / 60 \<le> (15 :: rat)" using assms by (simp add: FLUX_MAX_SESSION_MS_def)
  then have "\<lceil>s / 60\<rceil> \<le> 15" by (simp add: ceiling_le_iff)
  then show ?thesis by (simp add: billable_audio_minutes_def)
qed

lemma session_minutes_bounds: "1 \<le> session_minutes now mt" "session_minutes now mt \<le> 15"
  using billable_minutes_capped [of "min (max 0 ((of_int now - sm_started_ms mt) / 1000)) (of_int FLUX_MAX_SESSION_MS / 1000)"]
  by (simp_all add: session_minutes_def)

lemma flux_entry:
  "\<exists>e. find_model FLUX_STT_MODEL = Some e \<and> ce_id e = FLUX_STT_MODEL
     \<and> ce_unit_price e = Some (uprice (NInt 7700) AudioMinute PRICED_AT)"
proof -
  have "catalog_voice_1 ! 0 \<in> set CATALOG" by (simp add: CATALOG_def catalog_voice_1_def)
  then have "find_model FLUX_STT_MODEL = Some (catalog_voice_1 ! 0)"
    by (simp add: find_model_iff catalog_voice_1_def FLUX_STT_MODEL_def)
  then show ?thesis by (simp add: catalog_voice_1_def FLUX_STT_MODEL_def)
qed

text \<open>A rate the meter can use: the built-in one, or an override that is stored.\<close>

definition minute_rate :: "model_price_row list \<Rightarrow> int \<Rightarrow> bool" where
  "minute_rate prices r \<longleftrightarrow> 0 \<le> r \<and> (r = 7700 \<or> (\<exists>row\<in>set prices. mp_unit_micro row = Some (NInt r)))"

lemma session_rate_ok:
  assumes "sm_model_id mt = FLUX_STT_MODEL" "\<forall>r. row = Some r \<longrightarrow> r \<in> set prices"
  shows "\<exists>r. session_rate mt row = NInt r \<and> minute_rate prices r"
proof -
  obtain e where e: "find_model FLUX_STT_MODEL = Some e"
      "ce_unit_price e = Some (uprice (NInt 7700) AudioMinute PRICED_AT)"
    using flux_entry by blast
  have default: "\<exists>r. NInt 7700 = NInt r \<and> minute_rate prices r" by (simp add: minute_rate_def)
  show ?thesis
  proof (cases "Option.bind row mp_unit_micro")
    case None
    then have "resolve_unit_price e row = Some (uprice (NInt 7700) AudioMinute PRICED_AT)"
      using e(2) by (cases row) (auto simp: resolve_unit_price_def split: option.splits)
    then show ?thesis using assms(1) e(1) default by (simp add: session_rate_def uprice_def)
  next
    case (Some m)
    then obtain r where r: "row = Some r" "mp_unit_micro r = Some m" by (cases row) auto
    show ?thesis
    proof (cases "is_integer m \<and> \<not> js_lt m (NInt 0)")
      case True
      then obtain i where i: "m = NInt i" "0 \<le> i" by (cases m) auto
      then have "session_rate mt row = NInt i"
        using assms(1) e r by (simp add: session_rate_def resolve_unit_price_def uprice_def)
      then show ?thesis using i r assms(2) by (auto simp: minute_rate_def)
    next
      case False
      then have "resolve_unit_price e row = None" using r by (auto simp: resolve_unit_price_def)
      then show ?thesis using assms(1) e(1) default
        by (simp add: session_rate_def FLUX_DEFAULT_UNIT_MICRO_def)
    qed
  qed
qed

section \<open>One row of the ledger\<close>

definition rows_same :: "db \<Rightarrow> db \<Rightarrow> bool" where
  "rows_same d d' \<longleftrightarrow> t_events d' = t_events d \<and> t_prices d' = t_prices d"

lemma rows_same_rules: "reflp rows_same" "transp rows_same"
  by (simp_all add: reflp_def transp_def rows_same_def)

lemma bump_rows: "bump_period_usage a k m u al d = Some d' \<Longrightarrow> rows_same d d'"
  by (auto simp: bump_period_usage_def upsert_period_def rows_same_def split: if_splits)

lemma record_usage_books:
  "t_prices (w_db (snd (record_usage e w))) = t_prices (w_db w)
   \<and> (t_events (w_db (snd (record_usage e w))) = t_events (w_db w)
      \<or> \<not> event_seen e (w_db w) \<and> (\<exists>t. t_events (w_db (snd (record_usage e w))) =
            t_events (w_db w) @ [usage_event.extend (stored_event e) \<lparr>ue_created_at = t\<rparr>]))"
proof -
  obtain r w1 where s: "stmt (ins_event (stored_event e)) w = (r, w1)" by (cases "stmt (ins_event (stored_event e)) w")
  have one: "t_prices (w_db w1) = t_prices (w_db w) \<and> (t_events (w_db w1) = t_events (w_db w)
      \<or> \<not> event_seen e (w_db w) \<and> (\<exists>t. t_events (w_db w1) =
            t_events (w_db w) @ [usage_event.extend (stored_event e) \<lparr>ue_created_at = t\<rparr>]))"
    using s by (auto simp: stmt_def Let_def ins_event_def event_seen_def stored_event_def
        split: fault.splits option.splits prod.splits if_splits)
  have rest: "rows_same (w_db w1) (w_db (snd (record_usage e w)))"
  proof (cases r)
    case (Inl x)
    then show ?thesis using s by (simp add: record_usage_def bindM_def rows_same_def)
  next
    case (Inr ch)
    have "db_rel rows_same (if \<not> ch then retM () else
       bindM (run_write (bump_period_usage (ue_account_id e) (ue_period_key e)
                (if ue_metered e then ue_micro_usd e else 0) (if ue_metered e then 0 else 1)
                (event_allowance e))) (\<lambda>_.
       if ue_metered e \<and> event_credit e > 0
       then run_write (\<lambda>d. Some (add_spent (event_credit e) (ue_account_id e) d))
       else retM ()))"
      by (intro db_rel_intros rows_same_rules) (auto dest: bump_rows simp: rows_same_def add_spent_def)
    from db_relD [OF this, of w1] show ?thesis using s Inr by (simp add: record_usage_def bindM_def)
  qed
  show ?thesis using one rest by (auto simp: rows_same_def)
qed

section \<open>Invariants of a session\<close>

text \<open>An operation that keeps a predicate of the world, in success and in failure.\<close>

definition keeps :: "('w \<Rightarrow> bool) \<Rightarrow> ('w \<Rightarrow> 'r \<times> 'w) \<Rightarrow> bool" where
  "keeps I c \<longleftrightarrow> (\<forall>w. I w \<longrightarrow> I (snd (c w)))"

named_theorems keeps_intros \<open>composition rules for \<open>keeps\<close>\<close>

lemma keepsD: "keeps I c \<Longrightarrow> I w \<Longrightarrow> I (snd (c w))"
  by (simp add: keeps_def)

lemma keeps_ret [keeps_intros]: "keeps I (retM x)"
  by (simp add: keeps_def retM_def)

lemma keeps_pair: "keeps I (Pair r)"
  by (simp add: keeps_def)

lemma keeps_bind [keeps_intros]: "keeps I c \<Longrightarrow> (\<And>x. keeps I (k x)) \<Longrightarrow> keeps I (bindM c k)"
  unfolding keeps_def bindM_def by (fastforce split: sum.splits prod.splits)

lemma keeps_catch [keeps_intros]: "keeps I c \<Longrightarrow> (\<And>e. keeps I (h e)) \<Longrightarrow> keeps I (catchM c h)"
  unfolding keeps_def catchM_def by (fastforce split: sum.splits prod.splits)

lemma keeps_if [keeps_intros]: "keeps I a \<Longrightarrow> keeps I b \<Longrightarrow> keeps I (if c then a else b)"
  by simp

lemma keeps_option [keeps_intros]:
  "keeps I a \<Longrightarrow> (\<And>x. keeps I (b x)) \<Longrightarrow> keeps I (case v of None \<Rightarrow> a | Some x \<Rightarrow> b x)"
  by (cases v) simp_all

text \<open>A row a session of this account, client and request may leave.\<close>

definition session_row ::
  "model_price_row list \<Rightarrow> string \<Rightarrow> string \<Rightarrow> string \<Rightarrow> usage_event_row \<Rightarrow> bool" where
  "session_row prices account client request x \<longleftrightarrow>
     ue_request_id x = request \<and> ue_client_id x = client \<and> ue_model_id x = ''@cf/deepgram/flux''
     \<and> (if ue_metered x
        then ue_account_id x = account \<and> (\<exists>units rate. 1 \<le> units \<and> units \<le> 15 \<and> minute_rate prices rate
               \<and> ue_micro_usd x = units * rate)
        else ue_micro_usd x = 0 \<and> ue_from_allowance x = 0 \<and> ue_from_credit x = 0)"

definition meta_of :: "string \<Rightarrow> string \<Rightarrow> string \<Rightarrow> stt_session \<Rightarrow> bool" where
  "meta_of account client request s \<longleftrightarrow>
     get_header ''account_id'' (ss_meta s) = Some account \<and> get_header ''client_id'' (ss_meta s) = Some client
     \<and> get_header ''request_id'' (ss_meta s) = Some request
     \<and> get_header ''model_id'' (ss_meta s) = Some FLUX_STT_MODEL"

definition session_inv ::
  "db \<Rightarrow> string \<Rightarrow> string \<Rightarrow> string \<Rightarrow> 'z stt_world_ext world_scheme \<Rightarrow> bool" where
  "session_inv d account client request w \<longleftrightarrow>
     meta_of account client request (sw_session w)
     \<and> t_prices (w_db w) = t_prices d
     \<and> (t_events (w_db w) = t_events d
        \<or> (\<exists>x. t_events (w_db w) = t_events d @ [x] \<and> session_row (t_prices d) account client request x))"

lemma stmt_session: "sw_session (snd (stmt f w)) = sw_session w"
  by (simp add: stmt_def Let_def split: fault.splits option.splits prod.splits)

lemma query_keeps: "w_db (snd (query f w)) = w_db w" "sw_session (snd (query f w)) = sw_session w"
  by (simp_all add: query_def stmt_def Let_def split: fault.splits option.splits prod.splits)

lemma query_inv: "keeps (session_inv d a c r) (query f)"
  by (simp add: keeps_def session_inv_def query_keeps)

lemma record_usage_session:
  fixes w :: "'z stt_world_ext world_scheme"
  shows "sw_session (snd (record_usage e w)) = sw_session w"
proof -
  have "keeps (\<lambda>w' :: 'z stt_world_ext world_scheme. sw_session w' = sw_session w) (record_usage e)"
    unfolding record_usage_def run_write_def
    by (intro keeps_intros) (simp_all add: keeps_def stmt_session)
  then show ?thesis by (simp add: keeps_def)
qed

lemma record_usage_inv:
  assumes "session_inv d a c r w"
    and "\<And>t. session_row (t_prices d) a c r (usage_event.extend (stored_event e) \<lparr>ue_created_at = t\<rparr>)"
  shows "session_inv d a c r (snd (record_usage e w))"
proof -
  have new: "t_prices (w_db (snd (record_usage e w))) = t_prices (w_db w)"
    "t_events (w_db (snd (record_usage e w))) = t_events (w_db w)
      \<or> \<not> event_seen e (w_db w) \<and> (\<exists>t. t_events (w_db (snd (record_usage e w))) =
            t_events (w_db w) @ [usage_event.extend (stored_event e) \<lparr>ue_created_at = t\<rparr>])"
    using record_usage_books [of e w] by blast+
  have row: "ue_request_id e = r" "ue_client_id e = c"
    using assms(2) [of 0] by (auto simp: session_row_def usage_event.extend_def stored_event_def)
  have "event_seen e (w_db w)" if "t_events (w_db w) = t_events d @ [x]" "session_row (t_prices d) a c r x" for x
    using that row by (auto simp: event_seen_def session_row_def)
  then show ?thesis
    using assms new unfolding session_inv_def by (auto simp: record_usage_session)
qed

text \<open>An operation that moreover answers something good.\<close>

definition yields :: "('w \<Rightarrow> bool) \<Rightarrow> ('a \<Rightarrow> bool) \<Rightarrow> ('w \<Rightarrow> (exn + 'a) \<times> 'w) \<Rightarrow> bool" where
  "yields I Q c \<longleftrightarrow> keeps I c \<and> (\<forall>w x. I w \<longrightarrow> fst (c w) = Inr x \<longrightarrow> Q x)"

lemma keeps_yields:
  assumes "yields I Q c" "\<And>x. Q x \<Longrightarrow> keeps I (k x)"
  shows "keeps I (bindM c k)"
  unfolding keeps_def
proof (intro allI impI)
  fix w assume w: "I w"
  obtain r w1 where c: "c w = (r, w1)" by (cases "c w")
  have "I w1" using assms(1) w c unfolding yields_def keeps_def by (metis snd_conv)
  moreover have "Q x" if "r = Inr x" for x using assms(1) w c that unfolding yields_def by (metis fst_conv)
  ultimately show "I (snd (bindM c k w))"
    using c assms(2) by (auto simp: bindM_def keeps_def split: sum.splits)
qed

lemma query_answer: "fst (query f w) = Inr x \<Longrightarrow> \<exists>now. x = f now (w_db w)"
  using query_result [of f w x] by (cases "query f w") auto

lemma lookups_yield:
  "yields (session_inv d a c r) (\<lambda>row. \<forall>x. row = Some x \<longrightarrow> x \<in> set (t_prices d)) (get_model_price i)"
  "yields (session_inv d a c r) (\<lambda>row. \<forall>x. row = Some x \<longrightarrow> cl_id x = i) (get_client i)"
  "yields (session_inv d a c r) (\<lambda>row. \<forall>x. row = Some x \<longrightarrow> ac_id x = i) (get_account i)"
  "yields (session_inv d a c r) (\<lambda>_. True) (get_plan i)"
  unfolding yields_def get_model_price_def get_client_def get_account_def get_plan_def
  by (auto simp: session_inv_def query_inv dest!: query_answer lookup_SomeD)

section \<open>Metering and finalization keep the invariant\<close>

lemma session_event_row:
  assumes "sm_request_id mt = r" "cl_id client = c" "sm_model_id mt = FLUX_STT_MODEL"
    and "reason = None \<Longrightarrow> account_id = a \<and> (\<exists>units rate. 1 \<le> units \<and> units \<le> 15 \<and> minute_rate prices rate
           \<and> micro = units * rate)"
    and "reason \<noteq> None \<Longrightarrow> micro = 0"
  shows "session_row prices a c r (usage_event.extend (stored_event
    (session_event mt bytes key account_id client micro fa fc reason)) \<lparr>ue_created_at = t\<rparr>)"
  using assms
  by (auto simp: session_row_def usage_event.extend_def stored_event_def session_event_def event_allowance_def
      event_credit_def FLUX_STT_MODEL_def)

lemma session_refusal_reason:
  "session_refusal mt units client account prow = Inl (i, reason) \<or> (\<exists>p. session_refusal mt units client account prow = Inr p)
   \<or> (\<exists>i reason. session_refusal mt units client account prow = Inl (i, reason))"
  by (cases "session_refusal mt units client account prow") auto

lemma time_keeps: "keeps I time_now"
  by (simp add: keeps_def time_now_def)

lemma charge_session_inv:
  assumes "sm_request_id mt = r" "cl_id client = c" "sm_model_id mt = FLUX_STT_MODEL" "ac_id account = a"
    and "1 \<le> units" "units \<le> 15" "minute_rate (t_prices d) rate" "micro = units * rate"
  shows "keeps (session_inv d a c r) (charge_session bytes mt client account p key micro)"
  unfolding charge_session_def get_period_def Let_def
proof (intro keeps_bind query_inv)
  fix period
  show "keeps (session_inv d a c r) (record_usage (session_event mt bytes key (ac_id account) client micro
      (if 0 < micro then int_of_num (ca_from_allowance (allocate_charge (NInt micro)
          (NInt (plan_monthly_included p)) (NInt (allowance_spent period)))) else 0)
      (if 0 < micro then int_of_num (ca_from_credit (allocate_charge (NInt micro)
          (NInt (plan_monthly_included p)) (NInt (allowance_spent period)))) else 0) None))"
    unfolding keeps_def
    by (intro allI impI record_usage_inv) (use assms in \<open>auto intro!: session_event_row\<close>)
qed

lemma record_refusal_inv:
  assumes "sm_request_id mt = r" "cl_id client = c" "sm_model_id mt = FLUX_STT_MODEL"
  shows "keeps (session_inv d a c r) (record_usage (session_event mt bytes key account_id client 0 0 0 (Some reason)))"
  unfolding keeps_def
  by (intro allI impI record_usage_inv) (use assms in \<open>auto intro!: session_event_row\<close>)

lemma meter_session_inv:
  assumes "sm_account_id mt = a" "sm_client_id mt = c" "sm_request_id mt = r" "sm_model_id mt = FLUX_STT_MODEL"
    and units: "1 \<le> units" "units \<le> 15"
  shows "keeps (session_inv d a c r) (meter_session bytes mt units)"
proof -
  obtain e where e: "find_model (sm_model_id mt) = Some e" using flux_entry assms(4) by auto
  show ?thesis
    unfolding meter_session_def e option.case
  proof (rule keeps_yields [OF lookups_yield(1)], rule keeps_yields [OF lookups_yield(2)],
      rule keeps_yields [OF lookups_yield(3)], rule keeps_yields [OF lookups_yield(4)])
    fix row prow and cl :: "client_row option" and ac :: "account_row option"
    assume row: "\<forall>x. row = Some x \<longrightarrow> x \<in> set (t_prices d)"
      and cl: "\<forall>x. cl = Some x \<longrightarrow> cl_id x = sm_client_id mt" and ac: "\<forall>x. ac = Some x \<longrightarrow> ac_id x = sm_account_id mt"
    obtain rate where rate: "session_rate mt row = NInt rate" "minute_rate (t_prices d) rate"
      using session_rate_ok [OF assms(4) row] by blast
    show "keeps (session_inv d a c r) (case (cl, ac) of
       (Some client, Some account) \<Rightarrow>
         bindM time_now (\<lambda>now.
         let key = period_key now; micro = int_of_num (js_mul (NInt units) (session_rate mt row)) in
         case session_refusal mt units client account prow of
           Inl (account_id, reason) \<Rightarrow>
             record_usage (session_event mt bytes key account_id client 0 0 0 (Some reason))
         | Inr p \<Rightarrow> charge_session bytes mt client account p key micro)
     | _ \<Rightarrow> retM ())"
      using cl ac assms rate units
      by (auto simp: Let_def split: option.split sum.split
          intro!: keeps_ret keeps_bind time_keeps record_refusal_inv charge_session_inv)
  qed
qed

lemma meta_read:
  assumes "meta_of a c r s" "read_meta now s = Some mt"
  shows "sm_account_id mt = a" "sm_client_id mt = c" "sm_request_id mt = r" "sm_model_id mt = FLUX_STT_MODEL"
  using assms by (auto simp: meta_of_def read_meta_def Let_def split: if_splits)

text \<open>A change of the object's memory.\<close>

lemma memory_inv:
  assumes "\<And>s. ss_meta (f s) = ss_meta s"
  shows "keeps (session_inv d a c r) (update_session f)"
  using assms by (simp add: keeps_def update_session_def session_inv_def meta_of_def)

lemma effect_inv: "keeps (session_inv d a c r) (effect e)" "keeps (session_inv d a c r) (to_clients e)"
  by (simp_all add: keeps_def effect_def to_clients_def session_inv_def)

lemma session_yields: "yields (session_inv d a c r) (meta_of a c r) session"
  by (simp add: yields_def keeps_def session_def session_inv_def)

lemma finalize_inv: "keeps (session_inv d a c r) (finalize bytes)"
  unfolding finalize_def
proof (rule keeps_yields [OF session_yields])
  fix s assume s: "meta_of a c r s"
  show "keeps (session_inv d a c r) (if ss_finalized s then retM ()
     else
       bindM (update_session (\<lambda>s. s\<lparr>ss_finalized := True, ss_timer := False\<rparr>)) (\<lambda>_.
       bindM time_now (\<lambda>now.
       case read_meta now s of
         None \<Rightarrow> retM ()
       | Some mt \<Rightarrow> catchM (meter_session bytes mt (session_minutes now mt)) (\<lambda>_. retM ()))))"
    by (intro keeps_if keeps_ret keeps_bind memory_inv time_keeps)
       (auto split: option.split intro!: keeps_ret keeps_catch meter_session_inv session_minutes_bounds
         dest: meta_read [OF s])
qed

lemma session_keeps: "keeps I session"
  by (simp add: keeps_def session_def)

lemma drop_upstream_inv: "keeps (session_inv d a c r) (drop_upstream code bytes)"
  unfolding drop_upstream_def close_model_def
  by (intro keeps_intros finalize_inv memory_inv effect_inv session_keeps) simp_all

lemma session_input_inv: "keeps (session_inv d a c r) (session_input bytes i)"
  unfolding session_input_def on_client_message_def on_client_close_def on_client_error_def on_timer_def close_model_def
  by (cases i; simp only: stt_input.case; intro keeps_intros finalize_inv memory_inv effect_inv drop_upstream_inv
      session_keeps; simp)

lemma session_inputs_inv: "keeps (session_inv d a c r) (session_inputs is)"
proof (induction "is")
  case Nil
  show ?case by (simp add: keeps_pair)
next
  case (Cons i "is")
  then show ?case by (cases i) (simp add: keeps_bind session_input_inv)
qed

section \<open>A session writes at most one row\<close>

lemma put_meta_of:
  "meta_of a c r (put_meta [(''account_id'', a), (''client_id'', c), (''plan_id'', p), (''request_id'', r),
     (''model_id'', FLUX_STT_MODEL), (''started_ms'', t)] s)"
  by (simp add: meta_of_def put_meta_def)

lemma put_log_id: "meta_of a c r s \<Longrightarrow> meta_of a c r (put_meta [(''gateway_log_id'', v)] s)"
  by (simp add: meta_of_def put_meta_def)

lemma open_model_keeps:
  fixes w :: "'z stt_world_ext world_scheme"
  assumes "meta_of a c r (sw_session w)"
  shows "w_db (snd (open_model run e h proto w)) = w_db w \<and> meta_of a c r (sw_session (snd (open_model run e h proto w)))"
proof -
  have "keeps (\<lambda>v :: 'z stt_world_ext world_scheme. w_db v = w_db w \<and> meta_of a c r (sw_session v)) (open_model run e h proto)"
    unfolding open_model_def Let_def
    by (intro keeps_bind)
       (auto simp: keeps_def effect_def update_session_def put_log_id meta_of_def put_meta_def bindM_def
         split: model_open.split option.split list.split)
  then show ?thesis using assms by (simp add: keeps_def)
qed

text \<open>The handoff and the signature a request carries, when the fields that must be there are.\<close>

definition handoff_in :: "handoff_headers \<Rightarrow> stt_handoff \<Rightarrow> string \<Rightarrow> bool" where
  "handoff_in hs h sig \<longleftrightarrow>
     get_header ''x-prism-account-id'' hs = Some (ho_account_id h) \<and> ho_account_id h \<noteq> []
     \<and> get_header ''x-prism-client-id'' hs = Some (ho_client_id h) \<and> ho_client_id h \<noteq> []
     \<and> get_header ''x-prism-plan-id'' hs = Some (ho_plan_id h) \<and> ho_plan_id h \<noteq> []
     \<and> (get_header ''x-prism-request-id'' hs = Some (ho_request_id h) \<or> get_header ''x-prism-request-id'' hs = None)
     \<and> ho_model_id h = ''@cf/deepgram/flux''
     \<and> (\<exists>t. get_header ''x-prism-exp'' hs = Some t \<and> ho_exp h = js_Number t)
     \<and> get_header ''x-prism-sig'' hs = Some sig \<and> sig \<noteq> []"

lemma session_fetch_opens:
  fixes w :: "'z stt_world_ext world_scheme"
  assumes "session_fetch se hs w = (r, w')"
  shows "w_db w' = w_db w \<and> (\<forall>p. r = Inr (SessionUpgraded p) \<longrightarrow>
    (\<exists>h sig secret. handoff_in hs h sig \<and> require_handoff_secret (env_aig_token (se_env se)) = Some secret
       \<and> verify_stt_handoff (se_hash se) secret h sig (w_now w div 1000)
       \<and> meta_of (ho_account_id h) (ho_client_id h) (ho_request_id h) (sw_session w')))"
proof -
  let ?field = "\<lambda>k. case get_header k hs of Some v \<Rightarrow> v | None \<Rightarrow> []"
  define h where "h = \<lparr>ho_account_id = ?field ''x-prism-account-id'', ho_client_id = ?field ''x-prism-client-id'',
      ho_plan_id = ?field ''x-prism-plan-id'',
      ho_request_id = (case get_header ''x-prism-request-id'' hs of Some v \<Rightarrow> v | None \<Rightarrow> new_id ''req'' (se_id_bytes se)),
      ho_model_id = (case get_header ''x-prism-model-id'' hs of Some v \<Rightarrow> v | None \<Rightarrow> FLUX_STT_MODEL),
      ho_exp = js_Number (?field ''x-prism-exp'')\<rparr>"
  define w1 where "w1 = w\<lparr>sw_session := put_meta [(''account_id'', ho_account_id h), (''client_id'', ho_client_id h),
      (''plan_id'', ho_plan_id h), (''request_id'', ho_request_id h), (''model_id'', ho_model_id h),
      (''started_ms'', dec_of_int (w_now w))] (sw_session w)\<rparr>"
  have cases: "(\<exists>code n. r = Inr (SessionError code n) \<and> w_db w' = w_db w)
    \<or> (\<exists>secret run. ?field ''x-prism-account-id'' \<noteq> [] \<and> ?field ''x-prism-client-id'' \<noteq> []
         \<and> ?field ''x-prism-plan-id'' \<noteq> [] \<and> ?field ''x-prism-sig'' \<noteq> [] \<and> ?field ''x-prism-exp'' \<noteq> []
         \<and> ho_model_id h = FLUX_STT_MODEL \<and> require_handoff_secret (env_aig_token (se_env se)) = Some secret
         \<and> verify_stt_handoff (se_hash se) secret h (?field ''x-prism-sig'') (w_now w div 1000)
         \<and> open_model run (se_env se) h (get_header ''x-prism-ws-protocol'' hs) w1 = (r, w'))"
    using assms unfolding session_fetch_def Let_def h_def w1_def
    by (auto simp: time_now_def update_session_def bindM_def split: if_splits option.splits)
  then show ?thesis
  proof (elim disjE exE conjE)
    fix secret run
    assume f: "?field ''x-prism-account-id'' \<noteq> []" "?field ''x-prism-client-id'' \<noteq> []"
         "?field ''x-prism-plan-id'' \<noteq> []" "?field ''x-prism-sig'' \<noteq> []" "?field ''x-prism-exp'' \<noteq> []"
      and m: "ho_model_id h = FLUX_STT_MODEL" and sec: "require_handoff_secret (env_aig_token (se_env se)) = Some secret"
      and v: "verify_stt_handoff (se_hash se) secret h (?field ''x-prism-sig'') (w_now w div 1000)"
      and run: "open_model run (se_env se) h (get_header ''x-prism-ws-protocol'' hs) w1 = (r, w')"
    have "meta_of (ho_account_id h) (ho_client_id h) (ho_request_id h) (sw_session w1)"
      using put_meta_of m by (simp add: w1_def)
    from open_model_keeps [OF this, of run "se_env se" h "get_header ''x-prism-ws-protocol'' hs"]
    have k: "w_db w' = w_db w" "meta_of (ho_account_id h) (ho_client_id h) (ho_request_id h) (sw_session w')"
      using run by (simp_all add: w1_def)
    have "handoff_in hs h (?field ''x-prism-sig'')"
      using f m by (auto simp: handoff_in_def h_def FLUX_STT_MODEL_def split: option.splits)
    then show ?thesis using k sec v by blast
  qed auto
qed


end
