(* ===== verification/SttGate.thy ===== *)
theory SttGate
  imports SttProps
begin

text \<open>
  What the upgrade of a live transcription has established when it forwards: who asks, that the plan
  and the balance allow a minute, and that the session object will accept the handoff until it expires.
\<close>

section \<open>The handoff is accepted\<close>

lemma dec_exp:
  assumes "0 \<le> e" "e < 10 ^ 21"
  shows "js_num_string (NInt e) \<noteq> []" "js_Number (js_num_string (NInt e)) = NInt e"
proof -
  have s: "js_num_string (NInt e) = dec_of_nat (nat e)" using assms by (rule js_num_string_int)
  have "nat e < 10 ^ 21" using assms by (simp add: nat_less_iff)
  also have "(10 :: nat) ^ 21 \<le> 10 ^ 300" by (rule power_increasing) simp_all
  finally show "js_Number (js_num_string (NInt e)) = NInt e" using assms(1) s by (simp add: js_Number_dec)
  show "js_num_string (NInt e) \<noteq> []" unfolding s by (rule dec_of_nat_not_Nil)
qed

lemma handoff_headers_fields:
  "get_header ''x-prism-account-id'' (handoff_headers_of h sig proto) = Some (ho_account_id h)"
  "get_header ''x-prism-client-id'' (handoff_headers_of h sig proto) = Some (ho_client_id h)"
  "get_header ''x-prism-plan-id'' (handoff_headers_of h sig proto) = Some (ho_plan_id h)"
  "get_header ''x-prism-request-id'' (handoff_headers_of h sig proto) = Some (ho_request_id h)"
  "get_header ''x-prism-model-id'' (handoff_headers_of h sig proto) = Some (ho_model_id h)"
  "get_header ''x-prism-exp'' (handoff_headers_of h sig proto) = Some (js_num_string (ho_exp h))"
  "get_header ''x-prism-sig'' (handoff_headers_of h sig proto) = Some sig"
  "get_header ''x-prism-ws-protocol'' (handoff_headers_of h sig proto) = proto"
  by (simp_all add: handoff_headers_of_def get_header_def split: option.split)

lemma base64url_nonempty: "bs \<noteq> [] \<Longrightarrow> base64url bs \<noteq> []"
  using base64url_shape(1) [of bs] by (cases bs) auto

lemma signed_verifies:
  assumes "ho_exp h = NInt e" "now \<le> e"
  shows "verify_stt_handoff hs secret h (sign_stt_handoff hs secret h) now"
  using assms by (simp add: verify_stt_handoff_def sign_stt_handoff_def b64url_roundtrip)

lemma handoff_accepted:
  fixes w :: "'z stt_world_ext world_scheme"
  assumes h: "ho_account_id h \<noteq> []" "ho_client_id h \<noteq> []" "ho_plan_id h \<noteq> []" "ho_model_id h = FLUX_STT_MODEL"
      "ho_exp h = NInt e" "0 < e" "e < 10 ^ 21"
    and hmac: "\<And>k t. ph_hmac (se_hash se) k t \<noteq> []"
    and se: "require_handoff_secret (env_aig_token (se_env se)) = Some secret" "se_ai se = Some run"
      "\<And>opts. \<exists>log. run FLUX_STT_MODEL opts = Opened True log"
    and now: "w_now w div 1000 \<le> e"
    and proto: "proto = None \<or> proto = Some STT_WS_PROTOCOL"
  shows "fst (session_fetch se (handoff_headers_of h (sign_stt_handoff (se_hash se) secret h) proto) w) =
    Inr (SessionUpgraded proto)"
proof -
  have sig: "sign_stt_handoff (se_hash se) secret h \<noteq> []"
    by (simp add: sign_stt_handoff_def handoff_mac_def base64url_nonempty hmac)
  have e: "js_num_string (ho_exp h) \<noteq> []" "js_Number (js_num_string (ho_exp h)) = NInt e"
    using dec_exp [of e] h(5-7) by auto
  have same: "\<lparr>ho_account_id = ho_account_id h, ho_client_id = ho_client_id h, ho_plan_id = ho_plan_id h,
      ho_request_id = ho_request_id h, ho_model_id = FLUX_STT_MODEL, ho_exp = NInt e\<rparr> = h"
    using h(4,5) by (cases h) simp
  have opens: "fst (open_model run (se_env se) h proto v) = Inr (SessionUpgraded proto)" for v :: "'z stt_world_ext world_scheme"
  proof -
    obtain log where "run FLUX_STT_MODEL (run_options_of (se_env se) h) = Opened True log" using se(3) by blast
    then show ?thesis
      using proto by (auto simp: open_model_def Let_def bindM_def effect_def update_session_def
          split: option.split list.split)
  qed
  show ?thesis
    using signed_verifies [OF h(5) now] h sig e se(1,2) opens
    by (simp add: same session_fetch_def handoff_headers_fields Let_def bindM_def time_now_def update_session_def)
qed

section \<open>Who asks\<close>

definition books_but_tickets :: "db \<Rightarrow> db \<Rightarrow> bool" where
  "books_but_tickets d d' \<longleftrightarrow>
     t_plans d' = t_plans d \<and> t_accounts d' = t_accounts d \<and> t_clients d' = t_clients d
     \<and> t_events d' = t_events d \<and> t_periods d' = t_periods d \<and> t_grants d' = t_grants d
     \<and> t_adjustments d' = t_adjustments d \<and> t_prices d' = t_prices d"

text \<open>The caller presents an unrevoked key, or a ticket that was minted for the client and not used.\<close>

definition presents_itself :: "stt_ctx \<Rightarrow> request \<Rightarrow> db \<Rightarrow> caller \<Rightarrow> bool" where
  "presents_itself cx rq d c \<longleftrightarrow>
     (\<exists>secret. auth_from_stt_upgrade rq = AuthClientKey (format_client_key (cl_key_id (ca_client c)) secret)
        \<and> cl_secret_hash (ca_client c) = sha256_hex (sx_sha256 cx) secret)
     \<or> (\<exists>t. auth_from_stt_upgrade rq = AuthTicket t
        \<and> (\<exists>row\<in>set (t_tickets d). tk_token_hash row = sha256_hex (sx_sha256 cx) t \<and> tk_consumed_at row = None)
        \<and> (\<exists>row\<in>set (t_tickets d). tk_token_hash row = sha256_hex (sx_sha256 cx) t
             \<and> tk_client_id row = cl_id (ca_client c) \<and> tk_account_id row = ac_id (ca_account c)))"

definition live_owner :: "db \<Rightarrow> caller \<Rightarrow> bool" where
  "live_owner d c \<longleftrightarrow>
     ca_client c \<in> set (t_clients d) \<and> cl_revoked_at (ca_client c) = None
     \<and> ca_account c \<in> set (t_accounts d) \<and> ac_id (ca_account c) = cl_account_id (ca_client c)
     \<and> ac_suspended_at (ca_account c) = None"

lemma resolve_client_bearer:
  "bearer_from_request rq = bearer_from_request rq' \<Longrightarrow> resolve_client f rq w = resolve_client f rq' w"
  by (simp add: resolve_client_def)

lemma bearer_request_bearer:
  assumes "auth_from_stt_upgrade rq = AuthClientKey b"
  shows "bearer_from_request (bearer_request rq b) = Some b"
proof -
  obtain p where p: "parse_client_key b = Some p"
    using assms by (auto simp: auth_from_stt_upgrade_def split: option.splits list.splits if_splits)
  note k = parse_client_keyD [OF p]
  have "list_all is_secret_char b" using format_chars [OF k(2,3)] k(1) by metis
  moreover have "b \<noteq> []" using k(1) by (simp add: format_client_key_def KEY_PREFIX_def)
  moreover have "rq_header (bearer_request rq b) ''authorization'' = Some (''Bearer '' @ b)"
  proof -
    have "get_header k (List.filter (\<lambda>h. fst h \<noteq> k') hs) = get_header k hs" if "k \<noteq> k'" for k k' and hs :: "(string \<times> string) list"
      using that by (induction hs) (auto simp: get_header_def)
    then show ?thesis by (simp add: bearer_request_def)
  qed
  ultimately show ?thesis by (intro bearer_of_token)
qed

lemma read_result:
  "get_client i w = (Inr x, w') \<Longrightarrow> w_db w' = w_db w \<and> x = lookup cl_id i (t_clients (w_db w))"
  "get_account i w = (Inr y, w') \<Longrightarrow> w_db w' = w_db w \<and> y = lookup ac_id i (t_accounts (w_db w))"
  "get_plan i w = (Inr z, w') \<Longrightarrow> w_db w' = w_db w \<and> z = lookup pr_id i (t_plans (w_db w))"
  by (auto simp: get_client_def get_account_def get_plan_def dest: query_result)

lemma consume_ticket_Inr:
  assumes "consume_stt_ticket h w = (Inr (Some (a, c)), w')"
  shows "books_but_tickets (w_db w) (w_db w')
    \<and> (\<exists>row\<in>set (t_tickets (w_db w)). tk_token_hash row = h \<and> tk_consumed_at row = None)
    \<and> (\<exists>row\<in>set (t_tickets (w_db w)). tk_token_hash row = h \<and> tk_client_id row = c \<and> tk_account_id row = a)"
proof -
  obtain w1 where s: "stmt (\<lambda>now d. Some (redeem_ticket h now d)) w = (Inr True, w1)"
      "query (\<lambda>now d. map_option (\<lambda>r. (tk_account_id r, tk_client_id r)) (lookup tk_token_hash h (t_tickets d))) w1
        = (Inr (Some (a, c)), w')"
    using assms unfolding consume_stt_ticket_redeem by (elim bindM_InrE) (auto split: if_splits)
  obtain now where now: "redeem_ticket h now (w_db w) = (True, w_db w1)"
    using s(1) by (auto simp: stmt_def Let_def split: fault.splits prod.splits)
  have d': "w_db w' = w_db w1"
      "Some (a, c) = map_option (\<lambda>r. (tk_account_id r, tk_client_id r)) (lookup tk_token_hash h (t_tickets (w_db w1)))"
    using query_result [OF s(2)] by auto
  have t1: "t_tickets (w_db w1) = update_where (redeemable_ticket h now)
      (\<lambda>r. r\<lparr>tk_consumed_at := Some (secs now)\<rparr>) (t_tickets (w_db w))"
    using arg_cong [OF now, of "\<lambda>p. t_tickets (snd p)"] by (simp add: redeem_ticket_def)
  obtain row where row: "row \<in> set (t_tickets (w_db w))" "tk_token_hash row = h" "tk_account_id row = a" "tk_client_id row = c"
    using d'(2) lookup_update_where [of tk_token_hash "\<lambda>r. r\<lparr>tk_consumed_at := Some (secs now)\<rparr>" h "redeemable_ticket h now" "t_tickets (w_db w)"]
    unfolding t1 by (cases "lookup tk_token_hash h (t_tickets (w_db w))")
      (auto split: if_splits dest: lookup_SomeD)
  have "\<exists>row\<in>set (t_tickets (w_db w)). tk_token_hash row = h \<and> tk_consumed_at row = None"
    using now by (auto simp: redeem_ticket_def redeemable_ticket_def list_ex_iff)
  moreover have "books_but_tickets (w_db w) (w_db w')"
    using arg_cong [OF now, of snd, symmetric] d'(1) by (simp add: redeem_ticket_def books_but_tickets_def)
  ultimately show ?thesis using row by blast
qed

lemma resolve_stt_caller_Inr:
  assumes "resolve_stt_caller cx rq (auth_from_stt_upgrade rq) w = (Inr (Inr (c, proto)), w')"
  shows "books_but_tickets (w_db w) (w_db w') \<and> live_owner (w_db w) c \<and> presents_itself cx rq (w_db w) c
    \<and> (proto = None \<or> proto = Some STT_WS_PROTOCOL)"
proof (cases "auth_from_stt_upgrade rq")
  case (AuthClientKey b)
  then obtain w1 where r: "resolve_client (sx_sha256 cx) (bearer_request rq b) w = (Inr (Inr c), w1)"
      and p: "proto = None" "w' = w1"
    using assms by (auto simp: resolve_stt_caller_def Let_def elim!: bindM_InrE split: sum.splits)
  note k = resolved_caller [OF r]
  obtain secret where s: "bearer_from_request (bearer_request rq b) = Some (format_client_key (cl_key_id (ca_client c)) secret)"
      "cl_secret_hash (ca_client c) = sha256_hex (sx_sha256 cx) secret"
    using k by blast
  then have "b = format_client_key (cl_key_id (ca_client c)) secret" using bearer_request_bearer [OF AuthClientKey] by simp
  then have "presents_itself cx rq (w_db w) c" using AuthClientKey s(2) by (auto simp: presents_itself_def)
  then show ?thesis using k p by (auto simp: live_owner_def books_but_tickets_def)
next
  case (AuthTicket t)
  then obtain w1 where r: "resolve_ticket cx t w = (Inr (Inr c), w1)" and p: "proto = Some STT_WS_PROTOCOL" "w' = w1"
    using assms by (auto simp: resolve_stt_caller_def Let_def elim!: bindM_InrE split: sum.splits)
  obtain a i w2 where con: "consume_stt_ticket (sha256_hex (sx_sha256 cx) t) w = (Inr (Some (a, i)), w2)"
      and more: "live_owner (w_db w2) c" "cl_id (ca_client c) = i" "ac_id (ca_account c) = a" "w_db w1 = w_db w2"
    using r unfolding resolve_ticket_def Let_def
    by (elim bindM_InrE) (auto simp: live_owner_def split: option.splits if_splits elim!: bindM_InrE
        dest!: read_result lookup_SomeD)
  note con = consume_ticket_Inr [OF con]
  have "presents_itself cx rq (w_db w) c" using con more AuthTicket by (auto simp: presents_itself_def)
  moreover have "live_owner (w_db w) c" using con more by (auto simp: live_owner_def books_but_tickets_def)
  ultimately show ?thesis using con more p by simp
next
  case AuthNone
  then show ?thesis using assms by (simp add: resolve_stt_caller_def Let_def)
qed

section \<open>The gates\<close>

lemma books_but_tickets_trans:
  "books_but_tickets d d' \<Longrightarrow> books_but_tickets d' d'' \<Longrightarrow> books_but_tickets d d''"
  by (simp add: books_but_tickets_def)

lemma same_books_but_tickets: "same_books d d' \<Longrightarrow> books_but_tickets d d'"
  by (simp add: same_books_def books_but_tickets_def)

text \<open>The plan lets the session in, the model has a rate, and a minute at that rate is left.\<close>

definition minute_affordable :: "stt_ctx \<Rightarrow> db \<Rightarrow> caller \<Rightarrow> bool" where
  "minute_affordable cx d c \<longleftrightarrow>
     (\<exists>p m price. plan_from_row (ca_plan c) = Inr p \<and> find_model ''@cf/deepgram/flux'' = Some m
        \<and> entitles_tier p (ce_tier m)
        \<and> resolve_unit_price m (lookup mp_model_id (ce_id m) (t_prices d)) = Some price
        \<and> (let allowance = allowance_spent (lookup period_key_of
                 (ac_id (ca_account c), period_key (sx_now cx)) (t_periods d))
           in (\<exists>x y z. decide_balance (chat_pools (ca_account c) p allowance) = BalAllow x y z)
              \<and> \<not> below_one_minute price (ca_account c) p allowance))"

lemma balance_gate_forward:
  assumes "balance_gate cx c p price proto w = (Inr (UpgradeForward hs), w')"
  shows "w_db w' = w_db w \<and> forward_session cx c proto = UpgradeForward hs
    \<and> (let allowance = allowance_spent (lookup period_key_of
                 (ac_id (ca_account c), period_key (sx_now cx)) (t_periods (w_db w)))
       in (\<exists>x y z. decide_balance (chat_pools (ca_account c) p allowance) = BalAllow x y z)
          \<and> \<not> below_one_minute price (ca_account c) p allowance)"
  using assms unfolding balance_gate_def Let_def
  by (elim bindM_InrE)
     (auto simp: period_bounds_of_def split: balance_decision.splits if_splits dest!: get_period_result)

lemma admit_session_forward:
  assumes "admit_session cx c proto w = (Inr (UpgradeForward hs), w')"
  shows "books_but_tickets (w_db w) (w_db w') \<and> forward_session cx c proto = UpgradeForward hs
    \<and> minute_affordable cx (w_db w) c"
proof -
  obtain p m where p: "plan_from_row (ca_plan c) = Inr p" and m: "find_model FLUX_STT_MODEL = Some m"
      "entitles_tier p (ce_tier m)"
    using assms by (auto simp: admit_session_def Let_def split: sum.splits option.splits if_splits)
  obtain row w1 price rate w2 where
      row: "get_model_price (ce_id m) w = (Inr row, w1)" "resolve_unit_price m row = Some price"
      and rate: "check_rate_limit (inference_bucket (ac_id (ca_account c)))
               (plan_requests_per_minute p) RATE_WINDOW_SECONDS w1 = (Inr rate, w2)"
      and gate: "balance_gate cx c p price proto w2 = (Inr (UpgradeForward hs), w')"
    using assms p m unfolding admit_session_def Let_def
    by (auto elim!: bindM_InrE split: option.splits if_splits)
  note r = get_model_price_result [OF row(1)]
  have same: "same_books (w_db w) (w_db w2)"
    using db_relD [OF books_limiter, of w1] rate r by (metis snd_conv)
  have tables: "t_periods (w_db w2) = t_periods (w_db w)" using same by (simp add: same_books_def)
  note g = balance_gate_forward [OF gate, unfolded tables]
  have "minute_affordable cx (w_db w) c"
    unfolding minute_affordable_def
    using p m row(2) r g by (intro exI [of _ p] exI [of _ m] exI [of _ price]) (auto simp: FLUX_STT_MODEL_def)
  then show ?thesis using g same same_books_but_tickets by auto
qed


definition speech_env :: env where
  "speech_env = \<lparr>env_account_id = None, env_gateway_id = None, env_collect_log = None,
     env_credential_mode = None, env_aig_token = Some ''0123456789abcdef'', env_token_budget = None, env_kek = None,
     env_kek_next = None, env_kek_slot = None, env_upstream_timeout = None, env_nonchat_timeout = None,
     env_admin_token = None, env_cron_live = None, env_cron_lookback = None,
     env_trust_decode = None, env_sandbox_trust = None, env_play_account = None\<rparr>"

definition sample_ticket :: string where
  "sample_ticket = ''stt_'' @ replicate 43 CHR ''a''"

definition sample_stt_ctx :: stt_ctx where
  "sample_stt_ctx = \<lparr>sx_sha256 = take 5, sx_hash = \<lparr>ph_sha256 = take 5, ph_hmac = (\<lambda>k t. ''m'')\<rparr>,
     sx_env = speech_env,
     sx_session = True, sx_ai = True, sx_request_id = ''req_1'', sx_now = 0, sx_secret_bytes = [], sx_id_bytes = []\<rparr>"

definition sample_upgrade :: request where
  "sample_upgrade = \<lparr>rq_method = ''GET'', rq_path = ''/v1/stt/stream'', rq_query = [],
     rq_headers = [(''upgrade'', ''websocket''), (''sec-websocket-protocol'', ''prism.v1, '' @ sample_ticket)], rq_body = None\<rparr>"

definition sample_speech_db :: db where
  "sample_speech_db = empty_db\<lparr>
     t_plans := [\<lparr>pr_id = ''dev'', pr_name = ''Developer'', pr_signup_credit = NInt 0,
       pr_monthly_included = NInt 0, pr_requests_per_minute = NInt 20, pr_max_output_tokens = NInt 4096,
       pr_allowed_tiers = ''standard''\<rparr>],
     t_accounts := [\<lparr>ac_id = ''acct'', ac_plan_id = ''dev'', ac_label = None, ac_created_at = 0,
       ac_suspended_at = None, ac_credit = 1000000, ac_spent = 0\<rparr>],
     t_clients := [\<lparr>cl_id = ''cli'', cl_account_id = ''acct'', cl_key_id = [], cl_secret_hash = [],
       cl_label = None, cl_platform = None, cl_created_at = 0, cl_last_seen_at = None, cl_revoked_at = None\<rparr>],
     t_tickets := [\<lparr>tk_token_hash = sha256_hex (take 5) sample_ticket, tk_account_id = ''acct'',
       tk_client_id = ''cli'', tk_expires_at = 60000, tk_consumed_at = None\<rparr>]\<rparr>"

definition sample_stt_world :: "unit world_scheme" where
  "sample_stt_world = \<lparr>w_db = sample_speech_db, w_now = 0, w_sched = []\<rparr>"

definition sample_session_env :: session_env where
  "sample_session_env = \<lparr>se_hash = sx_hash sample_stt_ctx, se_env = speech_env,
     se_ai = Some (\<lambda>m opts. Opened True None), se_id_bytes = []\<rparr>"

definition sample_session_world :: stt_world where
  "sample_session_world = \<lparr>w_db = sample_speech_db, w_now = 30000, w_sched = [], sw_session = new_session,
     sw_effects = []\<rparr>"

lemma sample_forwards:
  "(case fst (handle_stt_stream_upgrade sample_stt_ctx sample_upgrade sample_stt_world) of
      Inr (UpgradeForward hs) \<Rightarrow> True | _ \<Rightarrow> False)"
  by code_simp


end
