(* ===== verification/StoreRedeemProps.thy ===== *)
theory StoreRedeemProps
  imports StoreRedeem ChatProps RequestText
begin

text \<open>
  What the redemption door guarantees: a chain that is accepted ends at the pinned root, an account
  gains a purchase at most once, and only for what the environment claims allow.
\<close>

section \<open>An accepted chain\<close>

definition issued_by :: "'k ec_platform \<Rightarrow> certificate \<Rightarrow> certificate \<Rightarrow> bool" where
  "issued_by ec child issuer \<longleftrightarrow> ce_issuer child = ce_subject issuer
     \<and> (\<exists>key raw. ec_import ec (ce_curve issuer) (ce_spki issuer) = Some key
          \<and> der_ecdsa_to_p1363 (ce_signature child) (if ce_curve issuer = P384 then 48 else 32) = Some raw
          \<and> ec_verify ec key (ce_signature_hash child) raw (ce_tbs child))"

lemma bytes_equal_iff: "bytes_equal a b \<longleftrightarrow> a = b"
  using diff_loop_zero [of a b 0] by (auto simp: bytes_equal_def)

lemma signed_by_iff: "verify_certificate_signed_by ec child issuer \<longleftrightarrow> issued_by ec child issuer"
  by (auto simp: verify_certificate_signed_by_def issued_by_def bytes_equal_iff import_ec_public_key_def
      verify_ecdsa_def split: option.splits)

text \<open>The leaf and the intermediate that a transaction presents, and what makes them Apple's.\<close>

definition apple_chain :: "'k ec_platform \<Rightarrow> certificate \<Rightarrow> int \<Rightarrow> certificate \<Rightarrow> certificate \<Rightarrow> bool" where
  "apple_chain ec anchor now_ms leaf intermediate \<longleftrightarrow>
     ce_is_ca intermediate \<and> WWDR_MARKER_OID \<in> set (ce_extension_oids intermediate)
     \<and> LEAF_MARKER_OID \<in> set (ce_extension_oids leaf)
     \<and> issued_by ec intermediate anchor \<and> issued_by ec leaf intermediate
     \<and> cert_valid_at leaf now_ms \<and> cert_valid_at intermediate now_ms \<and> cert_valid_at anchor now_ms"

definition presents :: "string \<Rightarrow> string \<Rightarrow> string \<Rightarrow> string \<Rightarrow> certificate \<Rightarrow> certificate \<Rightarrow> bool" where
  "presents jws p0 p1 p2 leaf intermediate \<longleftrightarrow> split_on CHR ''.'' jws = [p0, p1, p2]
     \<and> (\<exists>header l64 i64 rest l i. b64url_to_json p0 = Some header \<and> js_get header ''alg'' = JStr ''ES256''
          \<and> js_get header ''x5c'' = JArr (JStr l64 # JStr i64 # rest)
          \<and> b64_to_bytes l64 False = Some l \<and> b64_to_bytes i64 False = Some i
          \<and> parse_certificate l = Some leaf \<and> parse_certificate i = Some intermediate)"

lemma chain_accepted:
  "verify_apple_cert_chain ec l i anchor t = Inr leaf \<longleftrightarrow>
     parse_certificate l = Some leaf
     \<and> (\<exists>intermediate. parse_certificate i = Some intermediate \<and> apple_chain ec anchor t leaf intermediate)"
  by (auto simp: verify_apple_cert_chain_def apple_chain_def signed_by_iff split: option.splits)

lemma header_chain_Inr: "chain_of_header h = Inr (a, b) \<longleftrightarrow> (\<exists>rest. js_get h ''x5c'' = JArr (JStr a # JStr b # rest))"
  by (auto simp: chain_of_header_def split: js.splits list.splits)

lemma against_anchor_accepted:
  assumes "verify_against_anchor ec jws anchor t = Inr ()"
  shows "\<exists>p0 p1 p2 leaf intermediate key raw. presents jws p0 p1 p2 leaf intermediate
    \<and> apple_chain ec anchor t leaf intermediate \<and> ce_curve leaf = P256
    \<and> ec_import ec P256 (ce_spki leaf) = Some key \<and> ec_verify ec key SHA256 raw (utf8_encode (p0 @ ''.'' @ p1))"
proof -
  obtain p0 p1 p2 where parts: "split_on CHR ''.'' jws = [p0, p1, p2]"
    using assms by (auto simp: verify_against_anchor_def split: list.splits)
  obtain header l64 i64 rest where h: "b64url_to_json p0 = Some header" "js_get header ''alg'' = JStr ''ES256''"
      "js_get header ''x5c'' = JArr (JStr l64 # JStr i64 # rest)"
    using assms parts by (auto simp: verify_against_anchor_def header_chain_Inr split: option.splits if_splits sum.splits prod.splits)
  have ch: "chain_of_header header = Inr (l64, i64)" using h(3) by (simp add: header_chain_Inr)
  obtain l i leaf where li: "b64_to_bytes l64 False = Some l" "b64_to_bytes i64 False = Some i"
      "verify_apple_cert_chain ec l i anchor t = Inr leaf"
    and sig: "verify_jws_signature_with_leaf ec p0 p1 p2 leaf = Inr ()"
    using assms parts h ch by (auto simp: verify_against_anchor_def split: option.splits sum.splits)
  from sig obtain key raw where "ce_curve leaf = P256" "ec_import ec P256 (ce_spki leaf) = Some key"
      "ec_verify ec key SHA256 raw (utf8_encode (p0 @ ''.'' @ p1))"
    by (auto simp: verify_jws_signature_with_leaf_def import_ec_public_key_def verify_ecdsa_def
        split: if_splits option.splits)
  moreover obtain intermediate where "parse_certificate l = Some leaf" "parse_certificate i = Some intermediate"
      "apple_chain ec anchor t leaf intermediate"
    using li(3) by (auto simp: chain_accepted)
  ultimately show ?thesis using parts h li unfolding presents_def by blast
qed

text \<open>A transaction that the pinned root vouches for.\<close>

definition vouched :: "'k ec_platform \<Rightarrow> string \<Rightarrow> int \<Rightarrow> bool" where
  "vouched ec jws t \<longleftrightarrow> (\<exists>anchor p0 p1 p2 leaf intermediate key raw. pinned_apple_root = Some anchor
     \<and> presents jws p0 p1 p2 leaf intermediate \<and> apple_chain ec anchor t leaf intermediate
     \<and> ce_curve leaf = P256 \<and> ec_import ec P256 (ce_spki leaf) = Some key
     \<and> ec_verify ec key SHA256 raw (utf8_encode (p0 @ ''.'' @ p1)))"

lemma verified_vouched:
  assumes "verify_apple_transaction_jws ec jws t = Inr ()"
  shows "vouched ec jws t"
proof -
  obtain a where "pinned_apple_root = Some a" "verify_against_anchor ec jws a t = Inr ()"
    using assms by (auto simp: verify_apple_transaction_jws_def split: option.splits)
  then show ?thesis using against_anchor_accepted [of ec jws a t] unfolding vouched_def by blast
qed

section \<open>What the door may write\<close>

text \<open>A proof the door accepts, by its kind.\<close>

definition proven :: "'k redeem_ctx \<Rightarrow> js \<Rightarrow> int \<Rightarrow> redemption \<Rightarrow> bool" where
  "proven cx raw t rd \<longleftrightarrow>
     (case rd_verified rd of
        ByJws \<Rightarrow> vouched (rc_ec cx) (trimmed_field raw ''signed_transaction'' ''signedTransaction'') t
      | ByXcode \<Rightarrow> is_xcode_store_environment (rd_environment rd)
      | ByTrustDecode \<Rightarrow> trust_decode (rc_env cx)
          \<or> allow_sandbox_trust (rc_env cx) \<and> is_sandbox_store_environment (rd_environment rd))"

lemma environments_differ:
  "is_production_store_environment e \<Longrightarrow> \<not> is_xcode_store_environment e \<and> \<not> is_sandbox_store_environment e"
  by (auto simp: is_production_store_environment_def is_xcode_store_environment_def
      is_sandbox_store_environment_def environment_is_def split: option.splits)

lemma redemption_proven:
  assumes "redemption_of ec e raw t = Some rd" "rc_ec cx = ec" "rc_env cx = e"
  shows "proven cx raw t rd"
    and "20 < length (trimmed_field raw ''signed_transaction'' ''signedTransaction'')
      \<Longrightarrow> is_production_store_environment (rd_environment rd) \<Longrightarrow> rd_verified rd = ByJws"
proof -
  let ?jws = "trimmed_field raw ''signed_transaction'' ''signedTransaction''"
  consider d how where "20 < length ?jws" "decode_apple_transaction_jws ?jws = Some d"
      "accepted_proof e (at_environment d) (verify_apple_transaction_jws ec ?jws t) = Some how"
      "rd_verified rd = how" "rd_environment rd = at_environment d"
    | "length ?jws \<le> 20" "trust_decode e" "rd_verified rd = ByTrustDecode"
    using assms(1) by (fastforce simp: redemption_of_def Let_def signed_redemption_def field_redemption_def
        split: if_splits option.splits)
  then have "proven cx raw t rd
     \<and> (20 < length ?jws \<longrightarrow> is_production_store_environment (rd_environment rd) \<longrightarrow> rd_verified rd = ByJws)"
  proof cases
    case 1
    then show ?thesis
      using assms(2,3) verified_vouched [of ec ?jws t] environments_differ [of "at_environment d"]
      by (auto simp: accepted_proof_def proven_def split: if_splits)
  next
    case 2
    then show ?thesis using assms(3) by (simp add: proven_def)
  qed
  then show "proven cx raw t rd"
    "20 < length ?jws \<Longrightarrow> is_production_store_environment (rd_environment rd) \<Longrightarrow> rd_verified rd = ByJws"
    by blast+
qed

text \<open>The effects of a top-up, whatever fails: nothing, its row, or its row with its credit.\<close>

definition grant_effect :: "grant_row \<Rightarrow> db \<Rightarrow> db \<Rightarrow> bool" where
  "grant_effect g d d' \<longleftrightarrow> d' = d
     \<or> (\<not> has_key gr_key (gr_key g) (t_grants d)
        \<and> (d' = d\<lparr>t_grants := t_grants d @ [g]\<rparr>
           \<or> d' = add_credit (gr_micro_usd g) (gr_account_id g) (d\<lparr>t_grants := t_grants d @ [g]\<rparr>)))"

lemma query_tail_db:
  "w_db (snd (case query f w of (Inl e, u) \<Rightarrow> (Inl e, u) | (Inr x, u) \<Rightarrow> retM (g x) u)) = w_db w"
  by (auto simp: query_def stmt_def Let_def split: fault.split prod.split)

lemma stmt_effect:
  "stmt f w = (r, w') \<Longrightarrow> w_db w' = w_db w \<or> (\<exists>now x. f now (w_db w) = Some (x, w_db w'))"
  by (auto simp: stmt_def Let_def split: fault.splits option.splits prod.splits)

lemma grant_credit_changes: "grant_effect g (w_db w) (w_db (snd (grant_credit g w)))"
proof -
  let ?credit = "\<lambda>d. Some (add_credit (gr_micro_usd g) (gr_account_id g) d)"
  let ?row = "(w_db w)\<lparr>t_grants := t_grants (w_db w) @ [g]\<rparr>"
  let ?tail = "\<lambda>changed. bindM (query (\<lambda>now d. map_option ac_credit (lookup ac_id (gr_account_id g) (t_accounts d))))
      (\<lambda>row. retM (changed, case row of None \<Rightarrow> 0 | Some c \<Rightarrow> c))"
  obtain r w1 where ins: "stmt (\<lambda>now d. ins_grant g d) w = (r, w1)" by fastforce
  have w1: "w_db w1 = w_db w \<or> (\<not> has_key gr_key (gr_key g) (t_grants (w_db w)) \<and> w_db w1 = ?row)"
    using stmt_effect [OF ins] by (auto simp: ins_grant_def split: if_splits)
  have changed: "\<not> has_key gr_key (gr_key g) (t_grants (w_db w)) \<and> w_db w1 = ?row" if "r = Inr True"
    using ins that by (auto simp: stmt_def Let_def ins_grant_def split: fault.splits if_splits prod.splits)
  show ?thesis
  proof (cases "r = Inr True")
    case False
    then have "w_db (snd (grant_credit g w)) = w_db w1"
      using ins by (cases r) (simp_all add: grant_credit_def bindM_run query_tail_db)
    then show ?thesis using w1 by (auto simp: grant_effect_def)
  next
    case True
    obtain r2 w2 where add: "run_write ?credit w1 = (r2, w2)" by fastforce
    have "w_db (snd (grant_credit g w)) = w_db w2"
      using ins True add by (cases r2) (simp_all add: grant_credit_def bindM_run query_tail_db)
    moreover have "w_db w2 = w_db w1 \<or> w_db w2 = add_credit (gr_micro_usd g) (gr_account_id g) (w_db w1)"
      using add stmt_effect [of _ w1 r2 w2] unfolding run_write_def unit_res_def by fastforce
    ultimately show ?thesis using changed [OF True] by (auto simp: grant_effect_def)
  qed
qed

text \<open>The caller holds an unrevoked key of an unsuspended account.\<close>

definition live_caller :: "(string \<Rightarrow> string) \<Rightarrow> request \<Rightarrow> db \<Rightarrow> caller \<Rightarrow> bool" where
  "live_caller sha256 rq d c \<longleftrightarrow>
     (\<exists>secret. bearer_from_request rq = Some (format_client_key (cl_key_id (ca_client c)) secret)
        \<and> cl_secret_hash (ca_client c) = sha256_hex sha256 secret)
     \<and> ca_client c \<in> set (t_clients d) \<and> cl_revoked_at (ca_client c) = None
     \<and> ca_account c \<in> set (t_accounts d) \<and> ac_id (ca_account c) = cl_account_id (ca_client c)
     \<and> ac_suspended_at (ca_account c) = None"

lemma product_credit:
  "credit_micro_usd_for_product pid = Some micro \<longleftrightarrow>
     (pid, micro) \<in> {(''org.skyphusion.prism.credit.5'', 5000000), (''org.skyphusion.prism.credit.20'', 20000000),
        (''org.skyphusion.prism.credit.50'', 50000000)}"
  by (auto simp: credit_micro_usd_for_product_def STORE_PRODUCT_CREDIT_USD_def split: option.splits if_splits)

lemma get_account_db: "w_db (snd (bindM (get_account i) (\<lambda>x. retM (g x)) w)) = w_db w"
  by (simp add: get_account_def bindM_run query_tail_db)

lemma apply_redemption_changes:
  assumes "apply_redemption cx c rd w = (r, w')" "w_db w' \<noteq> w_db w"
  shows "rd_bundle_id rd = APPLE_BUNDLE_ID \<and> (\<exists>micro. credit_micro_usd_for_product (rd_product_id rd) = Some micro
    \<and> grant_effect (redemption_grant cx c rd micro) (w_db w) (w_db w'))"
proof -
  obtain micro where m: "rd_bundle_id rd = APPLE_BUNDLE_ID" "credit_micro_usd_for_product (rd_product_id rd) = Some micro"
    using assms by (auto simp: apply_redemption_def split: if_splits option.splits)
  let ?g = "redemption_grant cx c rd micro"
  obtain r1 w1 where g: "grant_credit ?g w = (r1, w1)" by fastforce
  have "w_db w' = w_db w1"
  proof (cases r1)
    case (Inr p)
    obtain ok credit where p: "p = (ok, credit)" by fastforce
    have "bindM (get_account (ac_id (ca_account c))) (\<lambda>fresh. retM (json_response (rc_request_id cx)
        (redemption_answer c rd micro ok credit fresh) 200 [])) w1 = (r, w')"
      using assms m g Inr p by (auto simp: apply_redemption_def bindM_run [of "grant_credit ?g"] split: if_splits)
    then show ?thesis using get_account_db by (metis snd_conv)
  qed (use assms m g in \<open>auto simp: apply_redemption_def bindM_run split: if_splits\<close>)
  then show ?thesis using m g grant_credit_changes [of ?g w] by auto
qed

lemma require_caller_same: "db_rel (=) (require_caller f rid rq)"
  using resolve_client_read_only [of f rq]
  unfolding require_caller_def read_only_def
  by (intro read_only_intros) (auto simp: db_rel_def wait_until_def bindM_def split: sum.split)

lemma require_caller_db: "w_db (snd (require_caller f rid rq w)) = w_db w"
  using db_relD [OF require_caller_same, of w] by simp

lemma redeem_changes:
  assumes "handle_store_redeem cx rq w = (r, w')" "w_db w' \<noteq> w_db w"
  shows "\<exists>c raw rd t u. live_caller (rc_sha256 cx) rq (w_db w) c \<and> read_json_body MAX_BODY_BYTES rq = Inr raw
    \<and> redemption_of (rc_ec cx) (rc_env cx) raw t = Some rd \<and> w_db u = w_db w
    \<and> apply_redemption cx c rd u = (r, w')"
proof -
  obtain a w1 where a: "require_caller (rc_sha256 cx) (rc_request_id cx) rq w = (a, w1)" by fastforce
  show ?thesis
  proof (cases "\<exists>c. a = Inr (Inr c)")
    case False
    have "w' = w1"
      using assms a False by (auto simp: handle_store_redeem_def bindM_run split: sum.splits)
    then show ?thesis using assms(2) require_caller_db [of "rc_sha256 cx" "rc_request_id cx" rq w] a by simp
  next
    case True
    then obtain c where c: "a = Inr (Inr c)" by blast
    note caller = require_caller_Inr [OF a [unfolded c]]
    obtain raw where raw: "read_json_body MAX_BODY_BYTES rq = Inr raw"
      using assms a c caller by (auto simp: handle_store_redeem_def bindM_run split: sum.splits)
    obtain rd where rd: "redemption_of (rc_ec cx) (rc_env cx) raw (w_now w1) = Some rd"
      using assms a c caller raw by (auto simp: handle_store_redeem_def bindM_run clock_def split: option.splits)
    then have "apply_redemption cx c rd w1 = (r, w')"
      using assms a c raw by (simp add: handle_store_redeem_def bindM_run clock_def)
    then show ?thesis using caller raw rd unfolding live_caller_def by blast
  qed
qed

text \<open>C33. The redemption door credits only purchases.  If a call of the door changes anything in the
  store, whatever fails, then its caller holds an unrevoked key of an unsuspended account; the body
  names a transaction of this application for one of the three packs, with a proof the environment
  allows; no row carries the key of that transaction yet; and the change is exactly one grant row for
  the caller's account, of the price of the pack and under that key, alone or with the credit itself.
  A signed transaction that claims the production environment is credited only when its certificates
  lead to the pinned root, with both markers, inside their validity, and the leaf signed it.\<close>

theorem store_credit_is_backed:
  assumes "handle_store_redeem cx rq w = (r, w')" "w_db w' \<noteq> w_db w"
  shows "\<exists>c raw rd t micro g. live_caller (rc_sha256 cx) rq (w_db w) c
    \<and> read_json_body MAX_BODY_BYTES rq = Inr raw \<and> redemption_of (rc_ec cx) (rc_env cx) raw t = Some rd
    \<and> rd_bundle_id rd = ''org.skyphusion.prism''
    \<and> (rd_product_id rd, micro) \<in> {(''org.skyphusion.prism.credit.5'', 5000000),
        (''org.skyphusion.prism.credit.20'', 20000000), (''org.skyphusion.prism.credit.50'', 50000000)}
    \<and> gr_account_id g = ac_id (ca_account c) \<and> gr_micro_usd g = micro
    \<and> gr_key g = ''appstore:'' @ rd_transaction_id rd
    \<and> \<not> has_key gr_key (gr_key g) (t_grants (w_db w))
    \<and> (w_db w' = (w_db w)\<lparr>t_grants := t_grants (w_db w) @ [g]\<rparr>
       \<or> w_db w' = add_credit micro (ac_id (ca_account c)) ((w_db w)\<lparr>t_grants := t_grants (w_db w) @ [g]\<rparr>))
    \<and> proven cx raw t rd
    \<and> (20 < length (trimmed_field raw ''signed_transaction'' ''signedTransaction'')
         \<and> is_production_store_environment (rd_environment rd)
       \<longrightarrow> vouched (rc_ec cx) (trimmed_field raw ''signed_transaction'' ''signedTransaction'') t)"
proof -
  obtain c raw rd t u where run: "live_caller (rc_sha256 cx) rq (w_db w) c" "read_json_body MAX_BODY_BYTES rq = Inr raw"
      "redemption_of (rc_ec cx) (rc_env cx) raw t = Some rd" "w_db u = w_db w"
      "apply_redemption cx c rd u = (r, w')"
    using redeem_changes [OF assms] by blast
  obtain micro where m: "rd_bundle_id rd = APPLE_BUNDLE_ID" "credit_micro_usd_for_product (rd_product_id rd) = Some micro"
      "grant_effect (redemption_grant cx c rd micro) (w_db w) (w_db w')"
    using apply_redemption_changes [OF run(5)] assms(2) run(4) by metis
  let ?g = "redemption_grant cx c rd micro" and ?jws = "trimmed_field raw ''signed_transaction'' ''signedTransaction''"
  have sel: "gr_account_id ?g = ac_id (ca_account c)" "gr_micro_usd ?g = micro"
      "gr_key ?g = ''appstore:'' @ rd_transaction_id rd"
    by (simp_all add: redemption_grant_def)
  have effect: "\<not> has_key gr_key (gr_key ?g) (t_grants (w_db w))"
      "w_db w' = (w_db w)\<lparr>t_grants := t_grants (w_db w) @ [?g]\<rparr>
       \<or> w_db w' = add_credit micro (ac_id (ca_account c)) ((w_db w)\<lparr>t_grants := t_grants (w_db w) @ [?g]\<rparr>)"
    using m(3) assms(2) unfolding grant_effect_def sel(1,2) by blast+
  note proof_of = redemption_proven [OF run(3) refl refl]
  have "vouched (rc_ec cx) ?jws t" if "20 < length ?jws \<and> is_production_store_environment (rd_environment rd)"
    using proof_of that by (simp add: proven_def)
  then show ?thesis
    using run(1-3) m(1) [unfolded APPLE_BUNDLE_ID_def] m(2) [unfolded product_credit] sel effect proof_of(1) by blast
qed

section \<open>Once per transaction\<close>

lemma grant_credit_quiet:
  assumes "quiet w" "fk_account (w_db w) (gr_account_id g)" "\<not> has_key gr_id (gr_id g) (t_grants (w_db w))"
  defines "d' \<equiv> (if has_key gr_key (gr_key g) (t_grants (w_db w)) then w_db w
    else add_credit (gr_micro_usd g) (gr_account_id g) ((w_db w)\<lparr>t_grants := t_grants (w_db w) @ [g]\<rparr>))"
  shows "grant_credit g w = (Inr (\<not> has_key gr_key (gr_key g) (t_grants (w_db w)), credit_of d' (gr_account_id g)),
    w\<lparr>w_db := d'\<rparr>)"
  using assms by (cases "has_key gr_key (gr_key g) (t_grants (w_db w))")
    (simp_all add: grant_credit_def bindM_run run_simps ins_grant_def credit_of_def option.case_eq_if option.map_sel)

lemma redeem_run:
  assumes "quiet w" "resolve_client (rc_sha256 cx) rq w = (Inr (Inr c), w)"
    and "read_json_body MAX_BODY_BYTES rq = Inr raw"
    and "redemption_of (rc_ec cx) (rc_env cx) raw (w_now w) = Some rd"
  shows "handle_store_redeem cx rq w = apply_redemption cx c rd (w\<lparr>hw_deferred := hw_deferred w @ [TouchClient (cl_id (ca_client c))]\<rparr>)"
  using assms by (simp add: handle_store_redeem_def require_caller_def bindM_run wait_until_def clock_def)

lemma apply_redemption_quiet:
  assumes "quiet w" "has_key ac_id (ac_id (ca_account c)) (t_accounts (w_db w))"
    and "rd_bundle_id rd = APPLE_BUNDLE_ID" "credit_micro_usd_for_product (rd_product_id rd) = Some micro"
    and "\<not> has_key gr_id (new_id ''grant'' (rc_grant_bytes cx)) (t_grants (w_db w))"
  defines "seen \<equiv> has_key gr_key (''appstore:'' @ rd_transaction_id rd) (t_grants (w_db w))"
  shows "\<exists>fresh d'. apply_redemption cx c rd w = (Inr (json_response (rc_request_id cx)
        (redemption_answer c rd micro (\<not> seen) (credit_of d' (ac_id (ca_account c))) fresh) 200 []), w\<lparr>w_db := d'\<rparr>)
    \<and> d' = (if seen then w_db w else add_credit micro (ac_id (ca_account c))
        ((w_db w)\<lparr>t_grants := t_grants (w_db w) @ [redemption_grant cx c rd micro]\<rparr>))"
proof -
  let ?g = "redemption_grant cx c rd micro"
  have sel: "gr_account_id ?g = ac_id (ca_account c)" "gr_micro_usd ?g = micro"
      "gr_key ?g = ''appstore:'' @ rd_transaction_id rd" "gr_id ?g = new_id ''grant'' (rc_grant_bytes cx)"
    by (simp_all add: redemption_grant_def)
  have known: "is_known_store_product (rd_product_id rd)"
    using assms(4) by (auto simp: product_credit is_known_store_product_def STORE_PRODUCT_CREDIT_USD_def)
  define d' where "d' = (if seen then w_db w else add_credit micro (ac_id (ca_account c))
        ((w_db w)\<lparr>t_grants := t_grants (w_db w) @ [?g]\<rparr>))"
  have fk: "fk_account (w_db w) (gr_account_id ?g)" using assms(2) by (simp add: sel fk_account_def)
  have grant: "grant_credit ?g w = (Inr (\<not> seen, credit_of d' (ac_id (ca_account c))), w\<lparr>w_db := d'\<rparr>)"
    using grant_credit_quiet [OF assms(1) fk] assms(5) unfolding sel d'_def seen_def by simp
  have "quiet (w\<lparr>w_db := d'\<rparr>)" using assms(1) by simp
  then show ?thesis
    using assms(3,4) known grant
    by (simp add: apply_redemption_def bindM_run get_account_def run_simps d'_def [symmetric]) blast
qed

text \<open>C34. A purchase is credited once.  When nothing fails, a caller who redeems a transaction of
  this application for a known pack is answered 200; the transaction's key is then in the store; if
  it was there before, nothing changes and the answer says so; if not, the caller's account, and no
  other, gains the price of the pack, and the answer states the new credit.\<close>

theorem redeem_credits_once:
  assumes "quiet w" "resolve_client (rc_sha256 cx) rq w = (Inr (Inr c), w)"
    and "read_json_body MAX_BODY_BYTES rq = Inr raw"
    and "redemption_of (rc_ec cx) (rc_env cx) raw (w_now w) = Some rd"
    and "rd_bundle_id rd = APPLE_BUNDLE_ID" "credit_micro_usd_for_product (rd_product_id rd) = Some micro"
    and "\<not> has_key gr_id (new_id ''grant'' (rc_grant_bytes cx)) (t_grants (w_db w))"
  defines "acct \<equiv> ac_id (ca_account c)" and "key \<equiv> ''appstore:'' @ rd_transaction_id rd"
  shows "\<exists>answer d'. fst (handle_store_redeem cx rq w) = Inr (json_response (rc_request_id cx) answer 200 [])
    \<and> w_db (snd (handle_store_redeem cx rq w)) = d' \<and> has_key gr_key key (t_grants d')
    \<and> js_get answer ''applied'' = JBool (\<not> has_key gr_key key (t_grants (w_db w)))
    \<and> js_get answer ''credit_micro_usd'' = JNum (NInt (credit_of d' acct))
    \<and> (if has_key gr_key key (t_grants (w_db w)) then d' = w_db w
       else \<forall>a. credit_of d' a = credit_of (w_db w) a + (if a = acct then micro else 0))"
proof -
  let ?u = "w\<lparr>hw_deferred := hw_deferred w @ [TouchClient (cl_id (ca_client c))]\<rparr>"
  have "ca_account c \<in> set (t_accounts (w_db w))" using resolved_caller [OF assms(2)] by blast
  then have acc: "has_key ac_id acct (t_accounts (w_db w))" by (auto simp: acct_def has_key_iff)
  have q: "quiet ?u" and wu: "w_db ?u = w_db w" using assms(1) by (simp_all add: quiet_def)
  obtain fresh d' where run: "apply_redemption cx c rd ?u = (Inr (json_response (rc_request_id cx)
        (redemption_answer c rd micro (\<not> has_key gr_key key (t_grants (w_db w))) (credit_of d' acct) fresh) 200 []),
        ?u\<lparr>w_db := d'\<rparr>)"
    and d': "d' = (if has_key gr_key key (t_grants (w_db w)) then w_db w
        else add_credit micro acct ((w_db w)\<lparr>t_grants := t_grants (w_db w) @ [redemption_grant cx c rd micro]\<rparr>))"
    using apply_redemption_quiet [of ?u c rd micro cx, unfolded wu, OF q acc [unfolded acct_def] assms(5-7)]
    unfolding acct_def key_def by blast
  have "has_key gr_key key (t_grants d')"
    unfolding d' by (auto simp: add_credit_def redemption_grant_def key_def has_key_iff)
  moreover have "\<not> has_key gr_key key (t_grants (w_db w)) \<longrightarrow>
      (\<forall>a. credit_of d' a = credit_of (w_db w) a + (if a = acct then micro else 0))"
    using acc unfolding d' by (simp add: credit_of_add_credit)
  moreover have "has_key gr_key key (t_grants (w_db w)) \<longrightarrow> d' = w_db w" by (simp add: d')
  moreover define ans where "ans = redemption_answer c rd micro (\<not> has_key gr_key key (t_grants (w_db w))) (credit_of d' acct) fresh"
  moreover have "js_get ans ''applied'' = JBool (\<not> has_key gr_key key (t_grants (w_db w)))"
      "js_get ans ''credit_micro_usd'' = JNum (NInt (credit_of d' acct))"
    by (simp_all add: ans_def redemption_answer_def)
  moreover have "handle_store_redeem cx rq w = (Inr (json_response (rc_request_id cx) ans 200 []), ?u\<lparr>w_db := d'\<rparr>)"
    unfolding redeem_run [OF assms(1-4)] ans_def by (rule run)
  ultimately show ?thesis by (intro exI [of _ ans] exI [of _ d']) simp
qed

section \<open>A purchase nobody made\<close>

lemma b64_of_url: "b64_to_bytes (base64url bs) True = Some bs"
proof -
  let ?s = "base64url bs"
  let ?std = "replace_char CHR ''_'' CHR ''/'' (replace_char CHR ''-'' CHR ''+'' ?s)"
  have chars: "list_all is_secret_char ?s" using base64url_shape(2) [of _ bs] by (simp add: list_all_iff)
  have "length ?s mod 4 \<noteq> 1" unfolding base64url_shape(1) by presburger
  then have r: "length ?std mod 4 \<noteq> 1" by (simp add: replace_char_def)
  let ?pad = "if length ?s mod 4 = 0 then [] else replicate (4 - length ?s mod 4) CHR ''=''"
  have no_space: "\<not> is_ascii_space (if c = CHR ''-'' then CHR ''+'' else c)" if "is_secret_char c" for c
    using that by (auto simp: is_secret_char_def is_ascii_space_def ord_of_def Let_def)
  have "List.filter (\<lambda>c. \<not> is_ascii_space c) (?std @ ?pad) = ?std @ ?pad"
    using chars by (auto simp: filter_id_conv replace_char_def list_all_iff is_secret_char_def is_ascii_space_def
        ord_of_def Let_def split: if_splits)
  then have "atob (?std @ ?pad) = Some bs"
    using b64url_roundtrip [of bs] by (simp add: b64url_to_bytes_def Let_def)
  then show ?thesis
    using chars r by (simp add: b64_to_bytes_def b64_alphabet_ok_def Let_def replace_char_def split: if_splits)
qed

definition xcode_claim :: "string \<Rightarrow> js" where
  "xcode_claim tid = JObj [(''transactionId'', JStr tid), (''productId'', JStr ''org.skyphusion.prism.credit.50''),
     (''bundleId'', JStr ''org.skyphusion.prism''), (''environment'', JStr ''Xcode'')]"

text \<open>Three parts of which the first and the last are empty: no header, no certificate, no signature.\<close>

definition forged_jws :: "string \<Rightarrow> string" where
  "forged_jws tid = ''.'' @ base64url (utf8_encode (js_stringify (xcode_claim tid))) @ ''.''"

lemma forged_decodes:
  assumes "tid \<noteq> []"
  shows "decode_apple_transaction_jws (forged_jws tid) = Some \<lparr>at_transaction_id = tid, at_original_id = None,
     at_product_id = ''org.skyphusion.prism.credit.50'', at_bundle_id = ''org.skyphusion.prism'',
     at_environment = Some ''Xcode'', at_type = None, at_purchase_date = None, at_raw = xcode_claim tid\<rparr>"
proof -
  let ?b = "base64url (utf8_encode (js_stringify (xcode_claim tid)))"
  have "CHR ''.'' \<notin> set ?b" using base64url_shape(2) [of "CHR ''.''"] by (auto simp: is_secret_char_def ord_of_def)
  then have parts: "split_on CHR ''.'' (forged_jws tid) = [[], ?b, []]"
    using split_on_append_sep [of "CHR ''.''" "[]" "?b @ ''.''"] split_on_append_sep [of "CHR ''.''" ?b "[]"]
    by (simp add: forged_jws_def split_on_no_sep)
  have "json_ok (xcode_claim tid)" by (simp add: xcode_claim_def)
  then have "b64url_to_json ?b = Some (xcode_claim tid)"
    using json_stringify_roundtrip [of "xcode_claim tid"]
    by (simp add: b64url_to_json_def jws_bytes_def b64_of_url utf8_roundtrip xcode_claim_def del: js_stringify.simps)
  then show ?thesis
    using assms unfolding decode_apple_transaction_jws_def parts
    by (simp add: xcode_claim_def either_string_def string_of_def Let_def)
qed

definition forged_request :: "(string \<times> string) list \<Rightarrow> string \<Rightarrow> request" where
  "forged_request headers tid = \<lparr>rq_method = ''POST'', rq_path = ''/v1/store/redeem'', rq_query = [],
     rq_headers = headers,
     rq_body = Some [Chunk (utf8_encode (js_stringify (JObj [(''signed_transaction'', JStr (forged_jws tid))])))]\<rparr>"

lemma trim_solid:
  assumes "s \<noteq> []" "\<not> is_js_space (hd s)" "\<not> is_js_space (last s)"
  shows "js_trim s = s"
proof -
  have "dropWhile is_js_space s = s" using assms(1,2) by (cases s) auto
  moreover have "dropWhile is_js_space (rev s) = rev s" using assms(1,3) by (cases "rev s") (auto simp: last_rev hd_rev [symmetric])
  ultimately show ?thesis by (simp add: js_trim_def)
qed

lemma forged_field: "trimmed_field (JObj [(''signed_transaction'', JStr (forged_jws tid))]) ''signed_transaction'' k = forged_jws tid"
proof -
  have "\<not> is_js_space CHR ''.''" by (simp add: is_js_space_def ord_of_def)
  then have "js_trim (forged_jws tid) = forged_jws tid"
    by (intro trim_solid) (simp_all add: forged_jws_def)
  then show ?thesis by (simp add: trimmed_field_def)
qed

lemma utf8_encode_longer: "length s \<le> length (utf8_encode s)"
  by (induction s) (auto simp: utf8_encode_def Let_def)

lemma forged_long: "20 < length (forged_jws tid)"
proof -
  have "20 \<le> length (js_stringify (xcode_claim tid))"
    by (simp add: xcode_claim_def quoted_def)
  also have "\<dots> \<le> length (utf8_encode (js_stringify (xcode_claim tid)))" by (rule utf8_encode_longer)
  finally show ?thesis by (simp add: forged_jws_def base64url_shape(1))
qed

lemma forged_redemption:
  assumes "tid \<noteq> []"
  shows "\<exists>how. redemption_of ec e (JObj [(''signed_transaction'', JStr (forged_jws tid))]) t = Some
    \<lparr>rd_transaction_id = tid, rd_product_id = ''org.skyphusion.prism.credit.50'', rd_bundle_id = APPLE_BUNDLE_ID,
     rd_environment = Some ''Xcode'', rd_verified = how\<rparr>"
proof -
  have "js_lower ''Xcode'' = ''xcode''" by code_simp
  then have "is_xcode_store_environment (Some ''Xcode'')"
    by (simp add: is_xcode_store_environment_def environment_is_def)
  then show ?thesis
    using forged_long [of tid]
    by (simp add: redemption_of_def Let_def forged_field signed_redemption_def forged_decodes [OF assms]
        accepted_proof_def APPLE_BUNDLE_ID_def)
qed

text \<open>Whatever the platform verifies and whatever the flags: a caller who writes that the purchase
  was made in Xcode is credited fifty dollars, with no certificate and no signature, as often as it
  thinks of a new transaction id.\<close>

lemma unsigned_purchase_is_credited:
  assumes "quiet w" "resolve_client (rc_sha256 cx) (forged_request headers tid) w = (Inr (Inr c), w)"
    and "tid \<noteq> []" "get_header ''content-length'' headers = None"
    and "length (utf8_encode (js_stringify (JObj [(''signed_transaction'', JStr (forged_jws tid))]))) \<le> MAX_BODY_BYTES"
    and "\<not> has_key gr_key (''appstore:'' @ tid) (t_grants (w_db w))"
    and "\<not> has_key gr_id (new_id ''grant'' (rc_grant_bytes cx)) (t_grants (w_db w))"
  shows "credit_of (w_db (snd (handle_store_redeem cx (forged_request headers tid) w))) (ac_id (ca_account c))
    = credit_of (w_db w) (ac_id (ca_account c)) + 50000000"
proof -
  let ?rq = "forged_request headers tid" and ?raw = "JObj [(''signed_transaction'', JStr (forged_jws tid))]"
  have raw: "read_json_body MAX_BODY_BYTES ?rq = Inr ?raw"
    using assms(4,5) by (intro read_sent_object) (simp_all add: forged_request_def)
  obtain how where rd: "redemption_of (rc_ec cx) (rc_env cx) ?raw (w_now w) = Some
    \<lparr>rd_transaction_id = tid, rd_product_id = ''org.skyphusion.prism.credit.50'', rd_bundle_id = APPLE_BUNDLE_ID,
     rd_environment = Some ''Xcode'', rd_verified = how\<rparr>"
    using forged_redemption [OF assms(3)] by blast
  let ?u = "w\<lparr>hw_deferred := hw_deferred w @ [TouchClient (cl_id (ca_client c))]\<rparr>"
  have q: "quiet ?u" and wu: "w_db ?u = w_db w" using assms(1) by (simp_all add: quiet_def)
  have "ca_account c \<in> set (t_accounts (w_db w))" using resolved_caller [OF assms(2)] by blast
  then have acc: "has_key ac_id (ac_id (ca_account c)) (t_accounts (w_db w))" by (auto simp: has_key_iff)
  let ?rd = "\<lparr>rd_transaction_id = tid, rd_product_id = ''org.skyphusion.prism.credit.50'',
    rd_bundle_id = APPLE_BUNDLE_ID, rd_environment = Some ''Xcode'', rd_verified = how\<rparr>"
  have pack: "rd_bundle_id ?rd = APPLE_BUNDLE_ID" "credit_micro_usd_for_product (rd_product_id ?rd) = Some 50000000"
      "rd_transaction_id ?rd = tid"
    by (simp_all add: product_credit)
  obtain g where "w_db (snd (apply_redemption cx c ?rd ?u)) = add_credit 50000000 (ac_id (ca_account c))
      ((w_db w)\<lparr>t_grants := t_grants (w_db w) @ [g]\<rparr>)"
    using apply_redemption_quiet [of ?u c ?rd 50000000 cx, unfolded wu pack(3), OF q acc pack(1,2) assms(7)] assms(6)
    by auto
  then show ?thesis
    unfolding redeem_run [OF assms(1,2) raw rd] using acc by (simp add: credit_of_add_credit)
qed

section \<open>A sample purchase\<close>

lemma utf8_encode_bound: "length (utf8_encode s) \<le> 2 * length s"
  by (induction s) (auto simp: utf8_encode_def Let_def)

lemma quoted_bound: "length (quoted s) \<le> 6 * length s + 2"
proof -
  have "length (quote_chars s) \<le> 6 * length s"
    by (induction s) (auto simp: quote_chars_def quote_char_def Let_def)
  then show ?thesis by (simp add: quoted_def)
qed

definition sample_redeem_ctx :: "unit redeem_ctx" where
  "sample_redeem_ctx = \<lparr>rc_sha256 = id, rc_env = media_env, rc_ec = \<lparr>ec_import = (\<lambda>_ _. None), ec_verify = (\<lambda>_ _ _ _. False)\<rparr>,
     rc_request_id = ''req_1'', rc_grant_bytes = ''abcdef''\<rparr>"

definition sample_store_world :: handler_world where
  "sample_store_world = \<lparr>w_db = w_db auth_world, w_now = 0, w_sched = [], hw_deferred = []\<rparr>"

definition sample_purchase :: request where
  "sample_purchase = forged_request (rq_headers sample_bearer) ''t1''"

lemma sample_purchase_small:
  "length (utf8_encode (js_stringify (JObj [(''signed_transaction'', JStr (forged_jws ''t1''))]))) \<le> MAX_BODY_BYTES"
proof -
  have "length (js_stringify (xcode_claim ''t1'')) \<le> 1000"
    by (simp add: xcode_claim_def quoted_def quote_chars_def quote_char_def ord_of_def)
  then have "length (forged_jws ''t1'') \<le> 3000"
    using utf8_encode_bound [of "js_stringify (xcode_claim ''t1'')"] by (simp add: forged_jws_def base64url_shape(1))
  then have "length (js_stringify (JObj [(''signed_transaction'', JStr (forged_jws ''t1''))])) \<le> 20000"
    using quoted_bound [of "forged_jws ''t1''"] quoted_bound [of "''signed_transaction''"] by simp
  then show ?thesis
    using utf8_encode_bound [of "js_stringify (JObj [(''signed_transaction'', JStr (forged_jws ''t1''))])"]
    by (simp add: MAX_BODY_BYTES_def)
qed

lemma sample_purchase_resolves:
  "resolve_client (rc_sha256 sample_redeem_ctx) sample_purchase sample_store_world =
     (Inr (Inr \<lparr>ca_client = auth_client, ca_account = auth_account, ca_plan = auth_plan\<rparr>), sample_store_world)"
proof -
  have "bearer_from_request sample_purchase = bearer_from_request sample_bearer"
    by (simp add: bearer_from_request_def sample_purchase_def forged_request_def)
  then show ?thesis
    using auth_key_parts
    by (simp add: resolve_client_def bindM_run run_simps quiet_def get_client_by_key_id_def sample_store_world_def
        get_account_def get_plan_def auth_world_def auth_client_def auth_account_def auth_plan_def sample_redeem_ctx_def)
qed

theorem redeem_credits_once_witness:
  "\<exists>answer d'. fst (handle_store_redeem sample_redeem_ctx sample_purchase sample_store_world)
      = Inr (json_response ''req_1'' answer 200 [])
    \<and> w_db (snd (handle_store_redeem sample_redeem_ctx sample_purchase sample_store_world)) = d'
    \<and> js_get answer ''applied'' = JBool True \<and> credit_of d' ''acct'' = 50001000"
proof -
  let ?raw = "JObj [(''signed_transaction'', JStr (forged_jws ''t1''))]"
  have quiet: "quiet sample_store_world" by (simp add: sample_store_world_def quiet_def)
  have raw: "read_json_body MAX_BODY_BYTES sample_purchase = Inr ?raw"
    unfolding sample_purchase_def
    by (intro read_sent_object)
      (use sample_purchase_small in \<open>simp_all add: forged_request_def sample_bearer_def get_header_def\<close>)
  obtain how where rd: "redemption_of (rc_ec sample_redeem_ctx) (rc_env sample_redeem_ctx) ?raw (w_now sample_store_world) = Some
    \<lparr>rd_transaction_id = ''t1'', rd_product_id = ''org.skyphusion.prism.credit.50'', rd_bundle_id = APPLE_BUNDLE_ID,
     rd_environment = Some ''Xcode'', rd_verified = how\<rparr>"
    using forged_redemption [of "''t1''"] by blast
  have none: "t_grants (w_db sample_store_world) = []"
    by (simp add: sample_store_world_def auth_world_def empty_db_def)
  have start: "credit_of (w_db sample_store_world) ''acct'' = 1000"
    by (simp add: credit_of_def sample_store_world_def auth_world_def auth_account_def)
  have micro: "credit_micro_usd_for_product ''org.skyphusion.prism.credit.50'' = Some 50000000" by (simp add: product_credit)
  have nokeys: "\<not> has_key f k (t_grants (w_db sample_store_world))" for f :: "grant_row \<Rightarrow> string" and k
    by (simp add: none has_key_def)
  obtain answer d' where "fst (handle_store_redeem sample_redeem_ctx sample_purchase sample_store_world)
        = Inr (json_response (rc_request_id sample_redeem_ctx) answer 200 [])"
      "w_db (snd (handle_store_redeem sample_redeem_ctx sample_purchase sample_store_world)) = d'"
      "js_get answer ''applied'' = JBool True" "credit_of d' (ac_id auth_account) = 1000 + 50000000"
    using redeem_credits_once [OF quiet sample_purchase_resolves raw rd, of 50000000, unfolded redemption.simps caller.simps,
        OF refl micro nokeys] nokeys start
    by (auto simp: auth_account_def)
  then show ?thesis by (intro exI [of _ answer] exI [of _ d']) (simp add: sample_redeem_ctx_def auth_account_def)
qed

theorem store_credit_is_backed_witness:
  "\<exists>c g. live_caller id sample_purchase (w_db sample_store_world) c \<and> gr_account_id g = ac_id (ca_account c)
     \<and> gr_micro_usd g \<in> {5000000, 20000000, 50000000}
     \<and> t_grants (w_db (snd (handle_store_redeem sample_redeem_ctx sample_purchase sample_store_world))) = [g]"
proof -
  let ?w' = "snd (handle_store_redeem sample_redeem_ctx sample_purchase sample_store_world)"
  have none: "t_grants (w_db sample_store_world) = []" and ct: "get_header ''content-length'' (rq_headers sample_bearer) = None"
    by (simp_all add: sample_store_world_def auth_world_def empty_db_def sample_bearer_def get_header_def)
  have quiet: "quiet sample_store_world" by (simp add: sample_store_world_def quiet_def)
  have nokeys: "\<not> has_key f k (t_grants (w_db sample_store_world))" for f :: "grant_row \<Rightarrow> string" and k
    by (simp add: none has_key_def)
  have "credit_of (w_db ?w') (ac_id auth_account) = credit_of (w_db sample_store_world) (ac_id auth_account) + 50000000"
    using unsigned_purchase_is_credited [of sample_store_world sample_redeem_ctx "rq_headers sample_bearer" "''t1''", folded sample_purchase_def,
        OF quiet sample_purchase_resolves _ ct sample_purchase_small nokeys nokeys]
    by simp
  then have "w_db ?w' \<noteq> w_db sample_store_world" by auto
  from store_credit_is_backed [OF prod.collapse [symmetric] this]
  show ?thesis by (auto simp: none sample_redeem_ctx_def add_credit_def)
qed

end
