(* ===== verification/RouterProps.thy ===== *)
theory RouterProps
  imports Router OperatorProps SttGate StoreRedeemProps NonchatProps
begin

text \<open>
  The worker as a whole: it always answers, and a request without a credential leaves no trace in the
  store, calls no model and starts nothing.
\<close>

section \<open>Leaving the world as it is\<close>

text \<open>Nothing stored, nothing deferred, nothing sent.\<close>

definition untouched :: "'z plane_world_ext chat_world_ext handler_world_ext world_scheme
    \<Rightarrow> 'z plane_world_ext chat_world_ext handler_world_ext world_scheme \<Rightarrow> bool" where
  "untouched w w' \<longleftrightarrow> w_db w' = w_db w \<and> hw_deferred w' = hw_deferred w \<and> cw_calls w' = cw_calls w
     \<and> pw_log w' = pw_log w"

lemma untouched_refl: "untouched w w"
  by (simp add: untouched_def)

lemma query_untouched: "keeps (untouched w) (query f)"
  by (simp add: keeps_def untouched_def query_def stmt_def Let_def split: fault.splits option.splits prod.splits)

lemma keeps_sum [keeps_intros]:
  "(\<And>x. keeps I (a x)) \<Longrightarrow> (\<And>x. keeps I (b x)) \<Longrightarrow> keeps I (case v of Inl x \<Rightarrow> a x | Inr x \<Rightarrow> b x)"
  by (cases v) simp_all

section \<open>Nobody\<close>

definition nobody :: "(string \<Rightarrow> string) \<Rightarrow> request \<Rightarrow> db \<Rightarrow> bool" where
  "nobody sha256 rq d \<longleftrightarrow> \<not> (\<exists>c. live_caller sha256 rq d c)"

text \<open>A gate that lets nobody in: it keeps the world and answers with a refusal.\<close>

abbreviation shut :: "'z plane_world_ext chat_world_ext handler_world_ext world_scheme \<Rightarrow> ('a + 'b, 'z) p \<Rightarrow> bool" where
  "shut w c \<equiv> yields (untouched w) (\<lambda>r. \<exists>x. r = Inl x) c"

lemma yields_keeps: "yields I Q c \<Longrightarrow> keeps I c"
  by (simp add: yields_def)

lemma yields_bind:
  assumes "yields I Q c" "\<And>x. Q x \<Longrightarrow> yields I Q' (k x)"
  shows "yields I Q' (bindM c k)"
  unfolding yields_def
proof (intro conjI allI impI)
  show "keeps I (bindM c k)" by (rule keeps_yields [OF assms(1)]) (use assms(2) in \<open>simp add: yields_def\<close>)
next
  fix w x assume w: "I w" "fst (bindM c k w) = Inr x"
  obtain y w1 where c: "c w = (Inr y, w1)" "fst (k y w1) = Inr x"
    using w(2) by (auto simp: bindM_def split: sum.splits prod.splits)
  have "Q y" using assms(1) w(1) c(1) unfolding yields_def by (metis fst_conv)
  moreover have "I w1" using assms(1) w(1) c(1) unfolding yields_def keeps_def by (metis snd_conv)
  ultimately show "Q' x" using assms(2) c(2) unfolding yields_def by blast
qed

lemma yields_ret: "Q x \<Longrightarrow> yields I Q (retM x)"
  by (simp add: yields_def keeps_def)

lemma shut_ret: "shut w (retM (Inl x))"
  by (rule yields_ret) simp

lemma resolve_shut:
  assumes "nobody f rq (w_db w)"
  shows "shut w (resolve_client f rq)"
  unfolding yields_def
proof (intro conjI allI impI)
  show "keeps (untouched w) (resolve_client f rq)"
    unfolding resolve_client_def get_client_by_key_id_def get_account_def get_plan_def
    by (intro keeps_intros query_untouched)
next
  fix v x assume v: "untouched w v" "fst (resolve_client f rq v) = Inr x"
  show "\<exists>y. x = Inl y"
  proof (cases x)
    case (Inr c)
    then have "resolve_client f rq v = (Inr (Inr c), snd (resolve_client f rq v))" using v(2) by (metis prod.collapse)
    from resolved_caller [OF this] have "live_caller f rq (w_db v) c" unfolding live_caller_def by blast
    then show ?thesis using assms v(1) by (auto simp: nobody_def untouched_def)
  qed simp
qed

lemma require_shut: "nobody f rq (w_db w) \<Longrightarrow> shut w (require_caller f rid rq)"
  unfolding require_caller_def by (erule yields_bind [OF resolve_shut]) (auto intro: shut_ret)

section \<open>The handlers of clients\<close>

lemma caller_with_plan_shut: "nobody (cx_sha256 cx) rq (w_db w) \<Longrightarrow> shut w (caller_with_plan cx rq)"
  unfolding caller_with_plan_def by (erule yields_bind [OF require_shut]) (auto intro: shut_ret)

lemma chat_admit_shut: "nobody (cx_sha256 cx) rq (w_db w) \<Longrightarrow> shut w (chat_admit cx rq)"
  unfolding chat_admit_def Let_def
  by (auto split: sum.split intro!: shut_ret yields_bind [OF require_shut])

lemma gate_nonchat_shut: "nobody (cx_sha256 cx) rq (w_db w) \<Longrightarrow> shut w (gate_nonchat cx md rq)"
  unfolding gate_nonchat_def Let_def
  by (auto split: sum.split intro!: shut_ret yields_bind [OF require_shut])

lemma doors_shut:
  assumes "nobody (cx_sha256 cx) rq (w_db w)"
  shows "keeps (untouched w) (handle_image_generations cx rq)" "keeps (untouched w) (handle_audio_speech cx rq)"
    "keeps (untouched w) (handle_audio_transcriptions cx rq)" "keeps (untouched w) (handle_video_generations cx rq)"
    "keeps (untouched w) (handle_music_generations cx rq)"
proof -
  have "keeps (untouched w) (with_gate cx md rq k)" for md k
    unfolding with_gate_def by (rule keeps_yields [OF gate_nonchat_shut [OF assms]]) (auto intro: keeps_ret)
  then show "keeps (untouched w) (handle_image_generations cx rq)" "keeps (untouched w) (handle_audio_speech cx rq)"
    "keeps (untouched w) (handle_audio_transcriptions cx rq)" "keeps (untouched w) (handle_video_generations cx rq)"
    "keeps (untouched w) (handle_music_generations cx rq)"
    unfolding handle_image_generations_def handle_audio_speech_def handle_audio_transcriptions_def
      handle_video_generations_def handle_music_generations_def
    by (auto intro: keeps_catch keeps_ret)
qed

lemma client_handlers_shut:
  assumes "nobody (cx_sha256 cx) rq (w_db w)"
  shows "keeps (untouched w) (handle_me cx rq)" "keeps (untouched w) (handle_models cx rq)"
    "keeps (untouched w) (handle_usage cx rq)" "keeps (untouched w) (handle_list_jobs cx rq)"
    "keeps (untouched w) (handle_get_job cx rq i)" "keeps (untouched w) (handle_chat cx rq)"
  unfolding handle_me_def handle_models_def handle_usage_def handle_list_jobs_def handle_get_job_def handle_chat_def
  by (rule keeps_yields [OF caller_with_plan_shut [OF assms]] keeps_yields [OF require_shut [OF assms]]
        keeps_yields [OF chat_admit_shut [OF assms]]; auto intro: keeps_ret)+

lemma stt_shut:
  assumes "nobody (sx_sha256 cx) rq (w_db w)" "\<forall>t. auth_from_stt_upgrade rq \<noteq> AuthTicket t"
  shows "yields (untouched w) (\<lambda>r. \<exists>a. r = UpgradeAnswer a) (handle_stt_stream_upgrade cx rq)"
    "keeps (untouched w) (handle_create_stt_session cx rq)"
proof -
  have "shut w (resolve_stt_caller cx rq (auth_from_stt_upgrade rq))"
  proof (cases "auth_from_stt_upgrade rq")
    case (AuthClientKey b)
    have "bearer_from_request rq = Some b"
      using AuthClientKey by (auto simp: auth_from_stt_upgrade_def split: option.splits list.splits if_splits)
    then have "bearer_from_request (bearer_request rq b) = bearer_from_request rq"
      using bearer_request_bearer [OF AuthClientKey] by simp
    then have "nobody (sx_sha256 cx) (bearer_request rq b) (w_db w)"
      using assms(1) by (simp add: nobody_def live_caller_def)
    then show ?thesis
      unfolding AuthClientKey resolve_stt_caller_def Let_def stt_upgrade_auth.case
      by (rule yields_bind [OF resolve_shut]) (auto intro: shut_ret)
  qed (use assms(2) in \<open>auto simp: resolve_stt_caller_def intro: shut_ret\<close>)
  then show "yields (untouched w) (\<lambda>r. \<exists>a. r = UpgradeAnswer a) (handle_stt_stream_upgrade cx rq)"
    unfolding handle_stt_stream_upgrade_def Let_def
    by (auto intro!: yields_ret yields_bind)
  show "keeps (untouched w) (handle_create_stt_session cx rq)"
    unfolding handle_create_stt_session_def Let_def
    by (rule keeps_yields [OF require_shut [OF assms(1)]]) (auto intro: keeps_ret)
qed

lemma other_handlers_shut:
  "nobody (rc_sha256 rx) rq (w_db w) \<Longrightarrow> keeps (untouched w) (handle_store_redeem rx rq)"
  "keeps (untouched w) (handle_deep_health op b)"
proof -
  show "keeps (untouched w) (handle_deep_health op b)"
    unfolding handle_deep_health_def probe_schema_def Let_def by (intro keeps_intros query_untouched)
  show "nobody (rc_sha256 rx) rq (w_db w) \<Longrightarrow> keeps (untouched w) (handle_store_redeem rx rq)"
    unfolding handle_store_redeem_def by (erule keeps_yields [OF require_shut]) (auto intro: keeps_ret)
qed

lemma operator_handlers_shut:
  assumes "\<not> holds_operator_token op rq"
  shows "handle_create_account op rq = retM (gate_refusal op)" "handle_create_enrollment op rq = retM (gate_refusal op)"
    "handle_upsert_plan op rq = retM (gate_refusal op)" "handle_set_model_price op rq = retM (gate_refusal op)"
    "handle_reconcile fuel op rq = retM (gate_refusal op)" "handle_catalog_refresh ask op rq = retM (gate_refusal op)"
    "handle_revoke_client op rq i = retM (gate_refusal op)" "handle_grant_credit op rq i = retM (gate_refusal op)"
  using assms
  by (simp_all add: operator_handlers handle_catalog_refresh_def operator_body_def require_operator_holds Let_def)

section \<open>The worker\<close>

lemma worker_answers: "\<exists>a. fst (worker_fetch fuel cx rq w) = Inr a"
  by (simp add: worker_fetch_def catchM_def split: sum.splits prod.splits)

text \<open>The routes that carry their credential elsewhere: a token in the path, or in the body.\<close>

definition own_credential :: "route \<Rightarrow> bool" where
  "own_credential r \<longleftrightarrow> r = Enroll \<or> (\<exists>t. r = MediaIngress t) \<or> (\<exists>t. r = MediaDownload t)"

lemma answered_keeps: "keeps I c \<Longrightarrow> yields I (\<lambda>a. \<forall>hs. a \<noteq> ForwardedSession hs) (answered c)"
  unfolding answered_def
  by (rule yields_bind [where Q = "\<lambda>_. True"]) (auto simp: yields_def keeps_def)

lemma request_of_nobody:
  assumes "nobody (cx_sha256 cx) rq (w_db w)" "\<not> holds_operator_token (op_view cx) rq"
    "\<forall>t. auth_from_stt_upgrade rq \<noteq> AuthTicket t" "\<not> own_credential (route_of rq)"
  shows "yields (untouched w) (\<lambda>a. \<forall>hs. a \<noteq> ForwardedSession hs) (handle_request fuel cx rq)"
proof -
  have stt: "nobody (sx_sha256 (stt_view cx)) rq (w_db w)" and rx: "nobody (rc_sha256 (redeem_view cx)) rq (w_db w)"
    using assms(1) by (simp_all add: stt_view_def redeem_view_def)
  show ?thesis
  proof (cases "route_of rq")
    case SttUpgrade
    have "yields (untouched w) (\<lambda>a. \<forall>hs. a \<noteq> ForwardedSession hs)
        (bindM (handle_stt_stream_upgrade (stt_view cx) rq) (\<lambda>r. retM (upgrade_answer r)))"
      by (rule yields_bind [OF stt_shut(1) [OF stt assms(3)]]) (auto intro: yields_ret)
    then show ?thesis using SttUpgrade by (simp add: handle_request_def Let_def)
  next
    case ChatCompletions
    have "yields (untouched w) (\<lambda>a. \<forall>hs. a \<noteq> ForwardedSession hs)
        (bindM (handle_chat cx rq) (\<lambda>r. retM (AnsweredChat r)))"
      by (rule yields_bind [where Q = "\<lambda>_. True"])
         (use client_handlers_shut(6) [OF assms(1)] in \<open>auto simp: yields_def keeps_def\<close>)
    then show ?thesis using ChatCompletions by (simp add: handle_request_def Let_def)
  qed (use assms(4) in \<open>simp_all add: handle_request_def Let_def own_credential_def answered_keeps
        client_handlers_shut [OF assms(1)] doors_shut [OF assms(1)] stt_shut(2) [OF stt assms(3)]
        other_handlers_shut(1) [OF rx] other_handlers_shut(2) operator_handlers_shut [OF assms(2)] keeps_pair keeps_ret
        yields_ret\<close>)
qed

text \<open>C40. A request without a credential leaves no trace.  Whoever holds no unrevoked client key, does
  not hold the operator's token and offers no speech ticket gets an answer from every route but the
  enrollment and media routes, whose credential is in the request itself; and whatever that answer is,
  the store is as it was, no model was called, nothing was deferred, no workflow or session was
  started.\<close>

theorem strangers_leave_no_trace:
  assumes "\<not> (\<exists>c. live_caller (cx_sha256 cx) rq (w_db w) c)" "\<not> holds_operator_token (op_view cx) rq"
    and "\<forall>t. auth_from_stt_upgrade rq \<noteq> AuthTicket t" "\<not> own_credential (route_of rq)"
  shows "untouched w (snd (worker_fetch fuel cx rq w))
    \<and> (\<exists>a. fst (worker_fetch fuel cx rq w) = Inr a \<and> (\<forall>hs. a \<noteq> ForwardedSession hs))"
proof -
  have "nobody (cx_sha256 cx) rq (w_db w)" using assms(1) by (simp add: nobody_def)
  note y = request_of_nobody [OF this assms(2-4), of fuel]
  obtain r w1 where h: "handle_request fuel cx rq w = (r, w1)" by (cases "handle_request fuel cx rq w")
  have "untouched w w1" using y untouched_refl h unfolding yields_def keeps_def by (metis snd_conv)
  moreover have "\<forall>hs. a \<noteq> ForwardedSession hs" if "r = Inr a" for a
    using y untouched_refl h that unfolding yields_def by (metis fst_conv)
  ultimately show ?thesis using h by (cases r) (auto simp: worker_fetch_def catchM_def)
qed

definition sample_worker_ctx :: "(unit, unit) worker_ctx" where
  "sample_worker_ctx = plane_ctx.extend sample_plane_ctx
     \<lparr>wx_logs = None, wx_compat = (\<lambda>q. Inl FeedError), wx_ec = rc_ec sample_redeem_ctx, wx_session = True,
      wx_ai = True, wx_random = (\<lambda>n. ''abcdef'')\<rparr>"

definition anonymous_request :: request where
  "anonymous_request = \<lparr>rq_method = ''post'', rq_path = ''/v1/chat/completions/'', rq_query = [],
     rq_headers = [], rq_body = Some [Chunk ''{}'']\<rparr>"

lemma anonymous_route: "route_of anonymous_request = ChatCompletions"
  by code_simp

theorem strangers_leave_no_trace_witness:
  "untouched sample_plane_world (snd (worker_fetch 0 sample_worker_ctx anonymous_request sample_plane_world))"
proof -
  have none: "bearer_from_request anonymous_request = None"
    by (simp add: bearer_from_request_def anonymous_request_def get_header_def)
  have "\<not> (\<exists>c. live_caller (cx_sha256 sample_worker_ctx) anonymous_request (w_db sample_plane_world) c)"
    by (simp add: live_caller_def none)
  moreover have "\<not> holds_operator_token (op_view sample_worker_ctx) anonymous_request"
    by (simp add: holds_operator_token_def none)
  moreover have "\<forall>t. auth_from_stt_upgrade anonymous_request \<noteq> AuthTicket t"
    by (simp add: auth_from_stt_upgrade_def none) (simp add: anonymous_request_def get_header_def)
  moreover have "\<not> own_credential (route_of anonymous_request)"
    by (simp add: own_credential_def anonymous_route)
  ultimately show ?thesis
    using strangers_leave_no_trace [of sample_worker_ctx anonymous_request sample_plane_world 0] by blast
qed

end
