(* ===== verification/Spec2Isabelle.thy ===== *)
theory Spec2Isabelle
  imports ChatProps OperatorProps Media Upstream LongrunProps X509Props GooglePlay CatalogRefreshProps RouterProps
begin

text \<open>
  The root of the development.
\<close>

end
